(* ===== verification/GoPrelude.thy ===== *)
theory GoPrelude
  imports Main "HOL-Library.Word" "HOL-Library.Multiset" "HOL-Library.Sublist"
    "HOL-Library.Code_Target_Nat"
begin

text \<open>
  Shared vocabulary of the development: the Go values every component uses and the generic
  lemmas their proofs rest on.

  \<^item> Go's \<open>string\<close> is a byte sequence, modelled by \<^typ>\<open>string\<close> (a character of HOL is a
    byte); \<open>decodeRune\<close> follows \<open>utf8.DecodeRune\<close> and the rune functions are built on it.
  \<^item> \<open>uint\<close> identifiers are \<^typ>\<open>nat\<close>, \<open>int\<close> and \<open>int64\<close> are \<^typ>\<open>int\<close>; where wrap-around
    matters (workflow versions) a \<^typ>\<open>64 word\<close> is used instead.
  \<^item> \<open>time.Time\<close> is the number of nanoseconds since 0001-01-01T00:00:00Z, so that the zero
    time is \<^term>\<open>0::int\<close>, and \<open>time.Duration\<close> is a number of nanoseconds.
  \<^item> \<open>map[K]bool\<close> used as a set is a HOL set; the order in which Go ranges over a map is
    unspecified and appears as an explicit permutation.
  \<^item> \<open>(T, error)\<close> results are sums, \<^const>\<open>Inl\<close> holding the error.
\<close>

section \<open>Proof collections\<close>

named_theorems go_string_simps \<open>evaluation of the string functions of the Go library\<close>
named_theorems go_time_simps \<open>unfolding of the time functions\<close>

section \<open>Lists and results\<close>

type_synonym instant = int
type_synonym duration = int

abbreviation ids_of :: "('u \<Rightarrow> nat) \<Rightarrow> 'u list \<Rightarrow> nat set" where
  "ids_of key xs \<equiv> key ` set xs"

text \<open>\<open>if len(excluded) == 0 \{ return users \}\<close> followed by the copying loop, the shape of
  all \<open>filter...\<close> helpers of the service layer.\<close>

definition drop_excluded :: "('u \<Rightarrow> nat) \<Rightarrow> 'u list \<Rightarrow> nat set \<Rightarrow> 'u list" where
  "drop_excluded key users excluded =
     (if excluded = {} then users else filter (\<lambda>u. key u \<notin> excluded) users)"

lemma drop_excluded_filter: "drop_excluded key users excluded = filter (\<lambda>u. key u \<notin> excluded) users"
  by (simp add: drop_excluded_def)

lemma set_drop_excluded [simp]:
  "set (drop_excluded key users excluded) = {u \<in> set users. key u \<notin> excluded}"
  by (auto simp: drop_excluded_filter)

lemma ids_drop_excluded [simp]:
  "ids_of key (drop_excluded key users excluded) = ids_of key users - excluded"
  by auto

lemma distinct_drop_excluded [simp]:
  "distinct (map key users) \<Longrightarrow> distinct (map key (drop_excluded key users excluded))"
  by (simp add: drop_excluded_filter distinct_map_filter)

text \<open>A loop that stops at the first failing element and collects the results otherwise.\<close>

fun map_result :: "('a \<Rightarrow> 'e + 'b) \<Rightarrow> 'a list \<Rightarrow> 'e + 'b list" where
  "map_result f [] = Inr []"
| "map_result f (x # xs) =
     (case f x of
        Inl e \<Rightarrow> Inl e
      | Inr y \<Rightarrow> (case map_result f xs of Inl e \<Rightarrow> Inl e | Inr ys \<Rightarrow> Inr (y # ys)))"

lemma map_result_Inr_iff:
  "map_result f xs = Inr ys \<longleftrightarrow> list_all2 (\<lambda>x y. f x = Inr y) xs ys"
proof (induction xs arbitrary: ys)
  case Nil
  then show ?case by auto
next
  case (Cons x xs)
  show ?case
  proof (cases "map_result f xs")
    case (Inl e)
    then have "\<not> list_all2 (\<lambda>x y. f x = Inr y) xs zs" for zs
      using Cons.IH [of zs] by simp
    with Inl show ?thesis by (cases ys) (simp_all split: sum.splits)
  next
    case (Inr zs)
    then have "list_all2 (\<lambda>x y. f x = Inr y) xs us \<longleftrightarrow> zs = us" for us
      using Cons.IH [of us] by simp
    with Inr show ?thesis by (cases ys) (simp_all split: sum.splits)
  qed
qed

lemma map_result_length: "map_result f xs = Inr ys \<Longrightarrow> length ys = length xs"
  by (auto simp: map_result_Inr_iff dest: list_all2_lengthD)

text \<open>Deduplication in order of first occurrence, the \<open>seen\<close>-map loop of the source.\<close>

fun dedup_from :: "('a \<Rightarrow> 'k) \<Rightarrow> 'k set \<Rightarrow> 'a list \<Rightarrow> 'a list" where
  "dedup_from key seen [] = []"
| "dedup_from key seen (x # xs) =
     (if key x \<in> seen then dedup_from key seen xs
      else x # dedup_from key (insert (key x) seen) xs)"

lemma set_dedup_from_subset: "set (dedup_from key seen xs) \<subseteq> set xs"
  by (induction xs arbitrary: seen) auto

lemma keys_dedup_from [simp]: "key ` set (dedup_from key seen xs) = key ` set xs - seen"
  by (induction xs arbitrary: seen) auto

lemma distinct_dedup_from [simp]: "distinct (map key (dedup_from key seen xs))"
proof (induction xs arbitrary: seen)
  case Nil
  then show ?case by simp
next
  case (Cons x xs)
  have "key x \<notin> key ` set (dedup_from key (insert (key x) seen) xs)"
    by (subst keys_dedup_from) simp
  with Cons show ?case by simp
qed

text \<open>Go assigns into a map while ranging over a slice: the last element with a key wins.\<close>

fun last_by :: "('a \<Rightarrow> 'k) \<Rightarrow> 'a list \<Rightarrow> 'k \<rightharpoonup> 'a" where
  "last_by key [] k = None"
| "last_by key (x # xs) k =
     (case last_by key xs k of
        Some y \<Rightarrow> Some y
      | None \<Rightarrow> (if key x = k then Some x else None))"

lemma last_by_None_iff: "last_by key xs k = None \<longleftrightarrow> k \<notin> key ` set xs"
  by (induction xs) (auto split: option.splits)

lemma dom_last_by [simp]: "dom (last_by key xs) = key ` set xs"
  by (auto simp: dom_def last_by_None_iff simp flip: not_None_eq)

lemma last_by_SomeD: "last_by key xs k = Some x \<Longrightarrow> x \<in> set xs \<and> key x = k"
  by (induction xs) (auto split: option.splits if_splits)

lemma last_by_unique:
  "distinct (map key xs) \<Longrightarrow> x \<in> set xs \<Longrightarrow> last_by key xs (key x) = Some x"
proof -
  assume d: "distinct (map key xs)" and x: "x \<in> set xs"
  have "key x \<in> dom (last_by key xs)" using x by simp
  then obtain y where y: "last_by key xs (key x) = Some y" by blast
  then have "y \<in> set xs" and "key y = key x" by (auto dest: last_by_SomeD)
  with d x have "y = x" by (meson distinct_map inj_onD)
  with y show ?thesis by simp
qed

text \<open>\<open>sort.Slice\<close> is not stable: what it promises is a permutation with no inversion.\<close>

definition sorts :: "('a list \<Rightarrow> 'a list) \<Rightarrow> ('a \<Rightarrow> 'a \<Rightarrow> bool) \<Rightarrow> bool" where
  "sorts f lt \<longleftrightarrow> (\<forall>xs. mset (f xs) = mset xs \<and> sorted_wrt (\<lambda>a b. \<not> lt b a) (f xs))"

definition permutes_lists :: "('a list \<Rightarrow> 'a list) \<Rightarrow> bool" where
  "permutes_lists f \<longleftrightarrow> (\<forall>xs. mset (f xs) = mset xs)"

lemma permutes_lists_set: "permutes_lists f \<Longrightarrow> set (f xs) = set xs"
  by (metis permutes_lists_def set_mset_mset)

lemma permutes_lists_distinct: "permutes_lists f \<Longrightarrow> distinct (f xs) = distinct xs"
  by (metis permutes_lists_def mset_eq_imp_distinct_iff)

lemma permutes_lists_length: "permutes_lists f \<Longrightarrow> length (f xs) = length xs"
  by (metis permutes_lists_def size_mset)

lemma permutes_lists_id [simp]: "permutes_lists id" "permutes_lists (\<lambda>x. x)"
  by (simp_all add: permutes_lists_def)

end
