(* ===== verification/GoJson.thy ===== *)
theory GoJson
  imports GoStrings
begin

text \<open>
  The part of \<open>encoding/json\<close> the server persists with: a JSON value, the compact text
  \<open>json.Marshal\<close> writes for it, and the reader behind \<open>json.Unmarshal\<close>. A number literal that
  is not a plain integer is kept as its text (no field the server stores is fractional).
  Strings are escaped as Go does with HTML escaping on, invalid UTF-8 becomes U+FFFD. The main
  fact is \<open>parse_print\<close>: the reader returns what was written, for values whose strings are
  valid UTF-8.
\<close>

datatype json =
    JNull
  | JBool bool
  | JNum int
  | JLit string
  | JStr string
  | JArr "json list"
  | JObj "(string \<times> json) list"

section \<open>Writing\<close>

definition hex_digit :: "nat \<Rightarrow> char" where
  "hex_digit n = (if n < 10 then char_of (48 + n) else char_of (87 + n))"

definition u_escape :: "nat \<Rightarrow> string" where
  "u_escape r =
     [CHR 0x5C, CHR ''u'', hex_digit (r div 4096 mod 16), hex_digit (r div 256 mod 16),
      hex_digit (r div 16 mod 16), hex_digit (r mod 16)]"

definition escape_chunk :: "nat \<times> bool \<times> string \<Rightarrow> string" where
  "escape_chunk c =
     (case c of (r, ok, bytes) \<Rightarrow>
        if \<not> ok then u_escape rune_error
        else if r = 34 then [CHR 0x5C, CHR 0x22]
        else if r = 92 then [CHR 0x5C, CHR 0x5C]
        else if r = 8 then [CHR 0x5C, CHR ''b'']
        else if r = 12 then [CHR 0x5C, CHR ''f'']
        else if r = 10 then [CHR 0x5C, CHR ''n'']
        else if r = 13 then [CHR 0x5C, CHR ''r'']
        else if r = 9 then [CHR 0x5C, CHR ''t'']
        else if r < 32 \<or> r = 60 \<or> r = 62 \<or> r = 38 \<or> r = 8232 \<or> r = 8233 then u_escape r
        else bytes)"

definition print_string :: "string \<Rightarrow> string" where
  "print_string s = CHR 0x22 # concat (map escape_chunk (rune_chunks s)) @ [CHR 0x22]"

fun print_json :: "json \<Rightarrow> string"
  and print_elems :: "json list \<Rightarrow> string"
  and print_members :: "(string \<times> json) list \<Rightarrow> string" where
  "print_json JNull = ''null''"
| "print_json (JBool b) = (if b then ''true'' else ''false'')"
| "print_json (JNum n) = itoa n"
| "print_json (JLit s) = s"
| "print_json (JStr s) = print_string s"
| "print_json (JArr vs) = CHR ''['' # print_elems vs"
| "print_json (JObj ms) = CHR ''{'' # print_members ms"
| "print_elems [] = '']''"
| "print_elems [v] = print_json v @ '']''"
| "print_elems (v # vs) = print_json v @ CHR '','' # print_elems vs"
| "print_members [] = ''}''"
| "print_members [(k, v)] = print_string k @ CHR '':'' # print_json v @ ''}''"
| "print_members ((k, v) # ms) =
     print_string k @ CHR '':'' # print_json v @ CHR '','' # print_members ms"

section \<open>Reading\<close>

definition is_ws :: "char \<Rightarrow> bool" where
  "is_ws c \<longleftrightarrow> byte_of c \<in> {9, 10, 13, 32}"

definition skip_ws :: "string \<Rightarrow> string" where
  "skip_ws s = dropWhile is_ws s"

definition hex_val :: "char \<Rightarrow> nat option" where
  "hex_val c =
     (let b = byte_of c in
      if 48 \<le> b \<and> b \<le> 57 then Some (b - 48)
      else if 97 \<le> b \<and> b \<le> 102 then Some (b - 87)
      else if 65 \<le> b \<and> b \<le> 70 then Some (b - 55)
      else None)"

definition hex4 :: "char \<Rightarrow> char \<Rightarrow> char \<Rightarrow> char \<Rightarrow> nat option" where
  "hex4 a b c d =
     (case (hex_val a, hex_val b, hex_val c, hex_val d) of
        (Some w, Some x, Some y, Some z) \<Rightarrow> Some (w * 4096 + x * 256 + y * 16 + z)
      | _ \<Rightarrow> None)"

text \<open>\<open>utf8.EncodeRune\<close> on the basic plane; surrogate halves become U+FFFD.\<close>

definition encode_rune :: "nat \<Rightarrow> string" where
  "encode_rune r0 =
     (let r = (if 55296 \<le> r0 \<and> r0 \<le> 57343 then rune_error else r0) in
      if r < 128 then [char_of r]
      else if r < 2048 then [char_of (192 + r div 64), char_of (128 + r mod 64)]
      else [char_of (224 + r div 4096), char_of (128 + r div 64 mod 64),
            char_of (128 + r mod 64)])"

function parse_string_body :: "string \<Rightarrow> (string \<times> string) option" where
  "parse_string_body s =
     (case s of
        [] \<Rightarrow> None
      | c # r \<Rightarrow>
          if byte_of c = 34 then Some ([], r)
          else if byte_of c < 32 then None
          else if byte_of c = 92 then
            (case r of
               e # r1 \<Rightarrow>
                 if e = CHR ''u'' then
                   (case r1 of
                      h1 # h2 # h3 # h4 # r2 \<Rightarrow>
                        (case hex4 h1 h2 h3 h4 of
                           None \<Rightarrow> None
                         | Some n \<Rightarrow> map_option (apfst ((@) (encode_rune n))) (parse_string_body r2))
                    | _ \<Rightarrow> None)
                 else
                   (case map_of [(CHR 0x22, CHR 0x22), (CHR 0x5C, CHR 0x5C), (CHR ''/'', CHR ''/''),
                                 (CHR ''b'', CHR 0x08), (CHR ''f'', CHR 0x0C), (CHR ''n'', CHR 0x0A),
                                 (CHR ''r'', CHR 0x0D), (CHR ''t'', CHR 0x09)] e of
                      None \<Rightarrow> None
                    | Some b \<Rightarrow> map_option (apfst ((#) b)) (parse_string_body r1))
             | [] \<Rightarrow> None)
          else
            (case decodeRune s of
               (n, w, ok) \<Rightarrow>
                 map_option (apfst ((@) (if ok then take w s else encode_rune rune_error)))
                   (parse_string_body (drop w s))))"
  by pat_completeness auto
termination
proof (relation "measure length", goal_cases)
  case (4 s c r n y w ok)
  then have "rune_width s = w" by (metis fst_conv rune_width_def snd_conv)
  with 4 have "0 < w" using rune_width_pos [of s] by simp
  with 4 show ?case by auto
qed auto

declare parse_string_body.simps [simp del]

definition parse_string :: "string \<Rightarrow> (string \<times> string) option" where
  "parse_string s =
     (case s of c # r \<Rightarrow> if byte_of c = 34 then parse_string_body r else None | [] \<Rightarrow> None)"

text \<open>A number literal: no leading zeros, an optional fraction, an optional exponent. What is not
  a plain integer (also \<open>-0\<close>) is kept as its text.\<close>

definition parse_frac :: "string \<Rightarrow> (string \<times> string) option" where
  "parse_frac r =
     (if hasPrefix r ''.'' then
        (let ds = takeWhile isDigit (tl r)
         in if ds = [] then None else Some (CHR ''.'' # ds, dropWhile isDigit (tl r)))
      else Some ([], r))"

definition parse_exp :: "string \<Rightarrow> (string \<times> string) option" where
  "parse_exp r =
     (if hasPrefix r ''e'' \<or> hasPrefix r ''E'' then
        (let sign = (if hasPrefix (tl r) ''+'' \<or> hasPrefix (tl r) ''-'' then take 1 (tl r) else []);
             r1 = drop (length sign) (tl r); ds = takeWhile isDigit r1
         in if ds = [] then None else Some (take 1 r @ sign @ ds, dropWhile isDigit r1))
      else Some ([], r))"

definition parse_number :: "string \<Rightarrow> (json \<times> string) option" where
  "parse_number s =
     (let neg = hasPrefix s ''-''; s1 = (if neg then tl s else s);
          ds = takeWhile isDigit s1; rest = dropWhile isDigit s1
      in if ds = [] \<or> (hd ds = CHR ''0'' \<and> tl ds \<noteq> []) then None
         else case parse_frac rest of
                None \<Rightarrow> None
              | Some (fr, rest1) \<Rightarrow>
                  (case parse_exp rest1 of
                     None \<Rightarrow> None
                   | Some (ex, rest2) \<Rightarrow>
                       if fr = [] \<and> ex = [] \<and> \<not> (neg \<and> ds = ''0'')
                       then Some (JNum (if neg then - digits_val ds else digits_val ds), rest2)
                       else Some (JLit ((if neg then ''-'' else []) @ ds @ fr @ ex), rest2)))"

fun parse_value :: "nat \<Rightarrow> string \<Rightarrow> (json \<times> string) option"
  and parse_elems :: "nat \<Rightarrow> string \<Rightarrow> (json list \<times> string) option"
  and parse_members :: "nat \<Rightarrow> string \<Rightarrow> ((string \<times> json) list \<times> string) option" where
  "parse_value 0 s = None"
| "parse_value (Suc k) s0 =
     (let s = skip_ws s0 in
      case s of
        [] \<Rightarrow> None
      | c # r \<Rightarrow>
          if c = CHR ''n'' then (if hasPrefix s ''null'' then Some (JNull, drop 4 s) else None)
          else if c = CHR ''t'' then
            (if hasPrefix s ''true'' then Some (JBool True, drop 4 s) else None)
          else if c = CHR ''f'' then
            (if hasPrefix s ''false'' then Some (JBool False, drop 5 s) else None)
          else if c = CHR 0x22 then map_option (apfst JStr) (parse_string s)
          else if c = CHR ''['' then
            (if hasPrefix (skip_ws r) '']'' then Some (JArr [], tl (skip_ws r))
             else map_option (apfst JArr) (parse_elems k r))
          else if c = CHR ''{'' then
            (if hasPrefix (skip_ws r) ''}'' then Some (JObj [], tl (skip_ws r))
             else map_option (apfst JObj) (parse_members k r))
          else parse_number s)"
| "parse_elems 0 s = None"
| "parse_elems (Suc k) s =
     (case parse_value k s of
        None \<Rightarrow> None
      | Some (v, r) \<Rightarrow>
          (case skip_ws r of
             [] \<Rightarrow> None
           | c # r1 \<Rightarrow>
               if c = CHR '']'' then Some ([v], r1)
               else if c = CHR '','' then map_option (apfst ((#) v)) (parse_elems k r1)
               else None))"
| "parse_members 0 s = None"
| "parse_members (Suc k) s =
     (case parse_string (skip_ws s) of
        None \<Rightarrow> None
      | Some (key, r) \<Rightarrow>
          (case skip_ws r of
             [] \<Rightarrow> None
           | c # r1 \<Rightarrow>
               if c \<noteq> CHR '':'' then None
               else (case parse_value k r1 of
                       None \<Rightarrow> None
                     | Some (v, r2) \<Rightarrow>
                         (case skip_ws r2 of
                            [] \<Rightarrow> None
                          | d # r3 \<Rightarrow>
                              if d = CHR ''}'' then Some ([(key, v)], r3)
                              else if d = CHR '','' then
                                map_option (apfst ((#) (key, v))) (parse_members k r3)
                              else None))))"

text \<open>The whole text must be one value. Each level of nesting and each element consumes at
  least one byte, so the length of the text bounds the recursion.\<close>

definition parse_json :: "string \<Rightarrow> json option" where
  "parse_json s =
     (case parse_value (Suc (Suc (2 * length s))) s of
        Some (v, r) \<Rightarrow> if skip_ws r = [] then Some v else None
      | None \<Rightarrow> None)"

section \<open>Reading back what was written\<close>

lemma decodeRune_cases:
  assumes "decodeRune s = (n, w, True)"
  obtains (one) c t where "s = c # t" "w = 1" "n = byte_of c" "n < 128"
  | (two) a b t where "s = a # b # t" "w = 2" "194 \<le> byte_of a" "byte_of a \<le> 223"
      "cont_byte (byte_of b)" "n = (byte_of a - 192) * 64 + (byte_of b - 128)"
  | (three) a b c t where "s = a # b # c # t" "w = 3" "224 \<le> byte_of a" "byte_of a \<le> 239"
      "second_ok (byte_of a) (byte_of b)" "cont_byte (byte_of c)"
      "n = (byte_of a - 224) * 4096 + (byte_of b - 128) * 64 + (byte_of c - 128)"
  | (four) a b c d t where "s = a # b # c # d # t" "w = 4" "240 \<le> byte_of a" "byte_of a \<le> 244"
      "second_ok (byte_of a) (byte_of b)" "cont_byte (byte_of c)" "cont_byte (byte_of d)"
      "n = (byte_of a - 240) * 262144 + (byte_of b - 128) * 4096 + (byte_of c - 128) * 64
           + (byte_of d - 128)"
proof (cases s)
  case Nil
  with assms show thesis by (simp add: decodeRune_def)
next
  case (Cons a t1)
  note ca = this
  consider "byte_of a < 128" | "194 \<le> byte_of a \<and> byte_of a \<le> 223"
    | "224 \<le> byte_of a \<and> byte_of a \<le> 239" | "240 \<le> byte_of a \<and> byte_of a \<le> 244"
    | "128 \<le> byte_of a \<and> byte_of a < 194 \<or> 244 < byte_of a" by linarith
  then show thesis
  proof cases
    case 1
    with assms ca one show thesis by (auto simp: decodeRune_def)
  next
    case 2
    then show thesis
      using assms ca two by (cases t1) (auto simp: decodeRune_def split: if_splits)
  next
    case 3
    obtain b t2 where b: "t1 = b # t2" using assms ca 3 by (cases t1) (auto simp: decodeRune_def)
    obtain c t3 where c: "t2 = c # t3"
      using assms ca 3 b by (cases t2) (auto simp: decodeRune_def)
    show thesis
      using assms ca b c 3 three by (auto simp: decodeRune_def split: if_splits)
  next
    case 4
    obtain b t2 where b: "t1 = b # t2" using assms ca 4 by (cases t1) (auto simp: decodeRune_def)
    obtain c t3 where c: "t2 = c # t3"
      using assms ca 4 b by (cases t2) (auto simp: decodeRune_def)
    obtain d t4 where d: "t3 = d # t4"
      using assms ca 4 b c by (cases t3) (auto simp: decodeRune_def)
    show thesis
      using assms ca b c d 4 four by (auto simp: decodeRune_def split: if_splits)
  next
    case 5
    with assms ca show thesis by (auto simp: decodeRune_def)
  qed
qed

lemma decodeRune_take:
  "decodeRune s = (n, w, True) \<Longrightarrow> decodeRune (take w s @ t) = (n, w, True)"
  by (erule decodeRune_cases) (auto simp: decodeRune_def)

lemma decodeRune_wide:
  assumes "decodeRune s = (n, w, True)" and "\<not> n < 128"
  shows "\<exists>c u. take w s = c # u \<and> 128 \<le> byte_of c"
  using assms by (elim decodeRune_cases) auto

lemma char_of_byte_of: "char_of (byte_of c) = c"
  by simp

lemma encode_separator:
  assumes "decodeRune s = (n, w, True)" and "n = 8232 \<or> n = 8233"
  shows "encode_rune n = take w s"
  using assms
proof (elim decodeRune_cases)
  fix a b c t
  assume s: "s = a # b # c # t" "w = 3" and a: "224 \<le> byte_of a" "byte_of a \<le> 239"
    and ok: "second_ok (byte_of a) (byte_of b)" "cont_byte (byte_of c)"
    and n: "n = (byte_of a - 224) * 4096 + (byte_of b - 128) * 64 + (byte_of c - 128)"
    and n': "n = 8232 \<or> n = 8233"
  have r: "128 \<le> byte_of b" "byte_of b \<le> 191" "128 \<le> byte_of c" "byte_of c \<le> 191"
    using ok by (auto simp: second_ok_def cont_byte_def split: if_splits)
  obtain x where x: "byte_of a = 224 + x" using a le_Suc_ex by blast
  obtain y where y: "byte_of b = 128 + y" using r le_Suc_ex by blast
  obtain z where z: "byte_of c = 128 + z" using r le_Suc_ex by blast
  have e: "n = x * 4096 + y * 64 + z" "y \<le> 63" "z \<le> 63" using n x y z r by auto
  have "x = 2" using e n' by linarith
  moreover have "y = 0" using e n' \<open>x = 2\<close> by linarith
  ultimately have "byte_of a = 226 \<and> byte_of b = 128 \<and> (n = 8232 \<longrightarrow> byte_of c = 168)
          \<and> (n = 8233 \<longrightarrow> byte_of c = 169)"
    using e x y z by simp
  then have "a = char_of (226::nat)" "b = char_of (128::nat)" "n = 8232 \<longrightarrow> c = char_of (168::nat)"
    "n = 8233 \<longrightarrow> c = char_of (169::nat)"
    by (metis char_of_byte_of)+
  with n' s show "encode_rune n = take w s"
    by (auto simp: encode_rune_def)
next
  fix a b c d t
  assume "w = 4" and a: "240 \<le> byte_of a" and ok: "second_ok (byte_of a) (byte_of b)"
    and n: "n = (byte_of a - 240) * 262144 + (byte_of b - 128) * 4096 + (byte_of c - 128) * 64
           + (byte_of d - 128)" and n': "n = 8232 \<or> n = 8233"
  have "byte_of a = 240 \<longrightarrow> 144 \<le> byte_of b" using ok by (auto simp: second_ok_def)
  then have "n \<ge> 65536" using n a by (cases "byte_of a = 240") auto
  with n' show "encode_rune n = take w s" by auto
next
  fix a b t
  assume "194 \<le> byte_of a" "byte_of a \<le> 223" "cont_byte (byte_of b)"
    "n = (byte_of a - 192) * 64 + (byte_of b - 128)" "n = 8232 \<or> n = 8233"
  then show "encode_rune n = take w s" by (auto simp: cont_byte_def)
qed auto

lemma hex_val_hex_digit: "n < 16 \<Longrightarrow> hex_val (hex_digit n) = Some n"
  by (auto simp: hex_val_def hex_digit_def Let_def of_char_of)

lemma hex_horner:
  "((x * 16 + y) * 16 + z) * 16 + (w::nat) = x * 4096 + y * 256 + z * 16 + w"
  by simp

lemma hex4_digits:
  assumes "r < 65536"
  shows "hex4 (hex_digit (r div 4096 mod 16)) (hex_digit (r div 256 mod 16))
           (hex_digit (r div 16 mod 16)) (hex_digit (r mod 16)) = Some r"
proof -
  have d: "r div 256 = r div 16 div 16" "r div 4096 = r div 16 div 16 div 16"
    by (simp_all flip: div_mult2_eq)
  have "r div 16 div 16 div 16 < 16" using assms by (simp flip: div_mult2_eq)
  then have "r div 4096 mod 16 * 4096 + r div 256 mod 16 * 256 + r div 16 mod 16 * 16 + r mod 16
      = ((r div 16 div 16 div 16 * 16 + r div 16 div 16 mod 16) * 16 + r div 16 mod 16) * 16 + r mod 16"
    unfolding d by (simp only: mod_less hex_horner)
  also have "\<dots> = r" by (simp only: div_mult_mod_eq)
  finally show ?thesis
    by (simp only: hex4_def hex_val_hex_digit mod_less_divisor zero_less_numeral prod.case option.case)
qed

lemma escaped_chars:
  "char_of (8::nat) = CHR 0x08" "char_of (9::nat) = CHR 0x09" "char_of (10::nat) = CHR 0x0A"
  "char_of (12::nat) = CHR 0x0C" "char_of (13::nat) = CHR 0x0D" "char_of (34::nat) = CHR 0x22"
  "char_of (92::nat) = CHR 0x5C"
  by code_simp+

lemma append_singleton: "(@) [c] = (#) c"
  by (simp add: fun_eq_iff)

lemma parse_u_escape:
  assumes "r < 65536"
  shows "parse_string_body (u_escape r @ t)
           = map_option (apfst ((@) (encode_rune r))) (parse_string_body t)"
  by (subst parse_string_body.simps) (simp add: u_escape_def hex4_digits [OF assms])

lemma parse_escape_chunk:
  assumes d: "decodeRune s = (n, w, True)"
  shows "parse_string_body (escape_chunk (n, True, take w s) @ t)
           = map_option (apfst ((@) (take w s))) (parse_string_body t)"
proof (cases "n < 128")
  case True
  with d obtain c u where c: "s = c # u" "w = 1" "n = byte_of c"
    by (elim decodeRune_cases) (auto simp: cont_byte_def second_ok_def split: if_splits)
  show ?thesis
  proof (cases "n < 32 \<or> n = 60 \<or> n = 62 \<or> n = 38 \<or> n = 34 \<or> n = 92")
    case True
    then have enc: "encode_rune n = [c]" using c by (auto simp: encode_rune_def Let_def)
    show ?thesis
    proof (cases "n \<in> {34, 92, 8, 12, 10, 13, 9}")
      case True
      then have "c \<in> char_of ` {34, 92, 8, 12, 10, 13, 9 :: nat}"
        using c by (metis char_of_byte_of image_eqI)
      then show ?thesis
        using c by (subst parse_string_body.simps) (auto simp: escape_chunk_def append_singleton escaped_chars)
    next
      case False
      with \<open>n < 128\<close> \<open>n < 32 \<or> n = 60 \<or> n = 62 \<or> n = 38 \<or> n = 34 \<or> n = 92\<close>
      have "escape_chunk (n, True, take w s) = u_escape n" by (auto simp: escape_chunk_def)
      with \<open>n < 128\<close> enc c show ?thesis by (simp add: parse_u_escape)
    qed
  next
    case False
    then have e: "escape_chunk (n, True, take w s) = [c]"
      using c \<open>n < 128\<close> by (simp add: escape_chunk_def)
    have "decodeRune (c # t) = (n, 1, True)" using c \<open>n < 128\<close> by (simp add: decodeRune_ascii)
    with False c e show ?thesis by (subst parse_string_body.simps) simp
  qed
next
  case False
  show ?thesis
  proof (cases "n = 8232 \<or> n = 8233")
    case True
    then have "escape_chunk (n, True, take w s) = u_escape n" and "n < 65536"
      by (auto simp: escape_chunk_def)
    then show ?thesis using encode_separator [OF d True] by (simp add: parse_u_escape)
  next
    case sep: False
    with False have e: "escape_chunk (n, True, take w s) = take w s"
      by (simp add: escape_chunk_def)
    obtain c u where cu: "take w s = c # u" "128 \<le> byte_of c"
      using decodeRune_wide [OF d False] by blast
    have dt: "decodeRune (c # u @ t) = (n, w, True)"
      using decodeRune_take [OF d, of t] cu by simp
    have "length (c # u) = w"
      using d cu by (elim decodeRune_cases) auto
    then have "take w (c # u @ t) = c # u" and "drop w (c # u @ t) = t"
      by (auto simp flip: append_Cons)
    with cu(2) dt have "parse_string_body (c # u @ t)
        = map_option (apfst ((@) (c # u))) (parse_string_body t)"
      by (subst parse_string_body.simps) simp
    then show ?thesis using e cu(1) by simp
  qed
qed

lemma parse_print_string_body:
  "validString s \<Longrightarrow>
     parse_string_body (concat (map escape_chunk (rune_chunks s)) @ CHR 0x22 # r) = Some (s, r)"
proof (induction s rule: rune_chunks.induct)
  case (1 s)
  show ?case
  proof (cases "s = []")
    case True
    then show ?thesis by (subst parse_string_body.simps) simp
  next
    case False
    obtain n w ok where d: "decodeRune s = (n, w, ok)" by (cases "decodeRune s") auto
    have chunks: "rune_chunks s = (n, ok, take w s) # rune_chunks (drop w s)"
      using d False by (subst rune_chunks.simps) simp
    then have "ok" and "validString (drop w s)"
      using "1.prems" by (auto simp: validString_def)
    with 1 False d have
      "parse_string_body (concat (map escape_chunk (rune_chunks (drop w s))) @ CHR 0x22 # r)
         = Some (drop w s, r)" by auto
    moreover have "decodeRune s = (n, w, True)" using d \<open>ok\<close> by simp
    ultimately show ?thesis
      using chunks \<open>ok\<close> by (simp add: parse_escape_chunk)
  qed
qed

lemma parse_print_string: "validString s \<Longrightarrow> parse_string (print_string s @ r) = Some (s, r)"
  by (simp add: parse_string_def print_string_def parse_print_string_body)

text \<open>What follows a written value: nothing, or a byte that cannot extend a number.\<close>

definition delim :: "string \<Rightarrow> bool" where
  "delim r \<longleftrightarrow> (case r of [] \<Rightarrow> True | c # _ \<Rightarrow> \<not> isDigit c \<and> c \<notin> {CHR ''.'', CHR ''e'', CHR ''E''})"

fun valid_json :: "json \<Rightarrow> bool" where
  "valid_json (JStr s) = validString s"
| "valid_json (JArr vs) = (\<forall>v \<in> set vs. valid_json v)"
| "valid_json (JObj ms) = (\<forall>m \<in> set ms. validString (fst m) \<and> valid_json (snd m))"
| "valid_json (JLit _) = False"
| "valid_json _ = True"

lemma delim_simps [simp]:
  "delim []" "delim (CHR '']'' # r)" "delim (CHR '','' # r)" "delim (CHR ''}'' # r)"
  by (simp_all add: delim_def isDigit_def)

lemma nat_digits_head: "0 < n \<Longrightarrow> hd (nat_digits n) \<noteq> CHR ''0''"
proof (induction n rule: nat_digits.induct)
  case (1 n)
  show ?case
  proof (cases "n < 10")
    case True
    have "byte_of (digit_char n) \<noteq> 48" using True "1.prems" by (simp add: byte_digit_char)
    then have "digit_char n \<noteq> CHR ''0''" by auto
    with True show ?thesis by (subst nat_digits.simps) simp
  next
    case False
    with 1 show ?thesis by (subst nat_digits.simps) simp
  qed
qed

lemma nat_digits_canonical: "hd (nat_digits n) \<noteq> CHR ''0'' \<or> tl (nat_digits n) = []"
  using nat_digits_head [of n] by (cases "n = 0") (auto simp: nat_digits.simps [of 0])

lemma parse_nat_digits:
  assumes "delim r"
  shows "takeWhile isDigit (nat_digits n @ r) = nat_digits n"
    and "dropWhile isDigit (nat_digits n @ r) = r"
  using assms nat_digits_isDigit [of _ n]
  by (auto simp: delim_def takeWhile_append2 dropWhile_append2 split: list.splits)

lemma delim_not_fraction: "delim r \<Longrightarrow> parse_frac r = Some ([], r) \<and> parse_exp r = Some ([], r)"
  by (auto simp: delim_def parse_frac_def parse_exp_def hasPrefix_def split: list.splits)

lemma parse_itoa:
  assumes "delim r"
  shows "parse_number (itoa n @ r) = Some (JNum n, r)"
proof (cases "n < 0")
  case True
  then have "nat_digits (nat (- n)) \<noteq> ''0''"
    using nat_digits_head [of "nat (- n)"] by auto
  with True show ?thesis
    using parse_nat_digits [OF assms, of "nat (- n)"] nat_digits_canonical [of "nat (- n)"]
      delim_not_fraction [OF assms]
    by (simp add: parse_number_def itoa_def hasPrefix_def Let_def)
next
  case False
  obtain c ds where e: "nat_digits (nat n) = c # ds" by (cases "nat_digits (nat n)") auto
  then have "c \<noteq> CHR ''-''" using nat_digits_no_sign by blast
  moreover have "digits_val (c # ds) = n"
    using e False by (metis digits_val_nat_digits int_nat_eq not_less)
  ultimately show ?thesis
    using False parse_nat_digits [OF assms, of "nat n"] nat_digits_canonical [of "nat n"]
      delim_not_fraction [OF assms] e
    by (auto simp add: parse_number_def itoa_def hasPrefix_def Let_def)
qed

lemma itoa_head: "\<exists>c t. itoa n = c # t \<and> (isDigit c \<or> c = CHR ''-'')"
proof -
  obtain c ds where "nat_digits (nat n) = c # ds" by (cases "nat_digits (nat n)") auto
  then show ?thesis using nat_digits_isDigit [of c "nat n"] by (auto simp: itoa_def)
qed

text \<open>The first byte of a written value decides the branch of the reader.\<close>

lemma print_json_head:
  "valid_json v \<Longrightarrow> \<exists>c t. print_json v = c # t \<and> \<not> is_ws c \<and> c \<noteq> CHR '']'' \<and> c \<noteq> CHR ''}''"
proof (cases v)
  case (JNum n)
  then show "\<exists>c t. print_json v = c # t \<and> \<not> is_ws c \<and> c \<noteq> CHR '']'' \<and> c \<noteq> CHR ''}''"
    using itoa_head [of n] by (auto simp: is_ws_def isDigit_def)
qed (auto simp: is_ws_def print_string_def)

lemma skip_ws_head [simp]: "\<not> is_ws c \<Longrightarrow> skip_ws (c # t) = c # t"
  by (simp add: skip_ws_def)

lemma skip_ws_print: "valid_json v \<Longrightarrow> skip_ws (print_json v @ r) = print_json v @ r"
  using print_json_head [of v] by auto

lemma skip_ws_print_string [simp]: "skip_ws (print_string s @ r) = print_string s @ r"
  by (simp add: print_string_def is_ws_def)

lemma not_is_ws [simp]:
  "\<not> is_ws (CHR '']'')" "\<not> is_ws (CHR '','')" "\<not> is_ws (CHR ''}'')" "\<not> is_ws (CHR '':'')"
  "\<not> is_ws (CHR ''['')" "\<not> is_ws (CHR ''{'')"
  by (simp_all add: is_ws_def)

lemma parse_print_number:
  assumes "delim r" and "k \<noteq> 0"
  shows "parse_value k (print_json (JNum n) @ r) = Some (JNum n, r)"
proof -
  obtain c t where c: "itoa n = c # t" "isDigit c \<or> c = CHR ''-''" using itoa_head by blast
  have "skip_ws (itoa n @ r) = itoa n @ r" using skip_ws_print [of "JNum n" r] by simp
  moreover have "c \<notin> {CHR ''n'', CHR ''t'', CHR ''f'', CHR 0x22, CHR ''['', CHR ''{''}"
    using c(2) by (auto simp: isDigit_def)
  ultimately show ?thesis
    using parse_itoa [OF assms(1), of n] assms(2) c(1) by (cases k) simp_all
qed

lemma elems_not_closed: "vs \<noteq> [] \<Longrightarrow> \<forall>v \<in> set vs. valid_json v \<Longrightarrow> skip_ws (print_elems vs @ r) = print_elems vs @ r
    \<and> \<not> hasPrefix (print_elems vs @ r) '']''"
  using print_json_head [of "hd vs"]
  by (cases vs rule: print_elems.cases) (auto simp: hasPrefix_def)

lemma members_not_closed: "ms \<noteq> [] \<Longrightarrow> skip_ws (print_members ms @ r) = print_members ms @ r
    \<and> \<not> hasPrefix (print_members ms @ r) ''}''"
  by (cases ms rule: print_members.cases) (auto simp: hasPrefix_def print_string_def is_ws_def)

lemma parse_print_value:
  "valid_json v \<Longrightarrow> length (print_json v) \<le> k \<Longrightarrow> delim r \<Longrightarrow>
     parse_value k (print_json v @ r) = Some (v, r)"
  "\<forall>v \<in> set vs. valid_json v \<Longrightarrow> vs \<noteq> [] \<Longrightarrow> length (print_elems vs) \<le> k \<Longrightarrow>
     parse_elems k (print_elems vs @ s) = Some (vs, s)"
  "\<forall>m \<in> set ms. validString (fst m) \<and> valid_json (snd m) \<Longrightarrow> ms \<noteq> [] \<Longrightarrow>
     length (print_members ms) \<le> k \<Longrightarrow>
     parse_members k (print_members ms @ u) = Some (ms, u)"
proof (induction v and vs and ms arbitrary: k r and k s and k u
    rule: print_json_print_elems_print_members.induct)
  case 1
  then show ?case by (cases k) (simp_all add: is_ws_def hasPrefix_def)
next
  case (2 b)
  then show ?case by (cases k; cases b) (simp_all add: is_ws_def hasPrefix_def)
next
  case (3 n)
  then show ?case using itoa_head [of n] by (intro parse_print_number) auto
next
  case (4 s)
  then show ?case by simp
next
  case (5 s)
  then show ?case
    using parse_print_string [of s r] skip_ws_print_string [of s r]
    by (cases k) (simp_all add: print_string_def)
next
  case (6 vs)
  show ?case
  proof (cases "vs = []")
    case True
    with 6 show ?thesis by (cases k) (simp_all add: hasPrefix_def)
  next
    case False
    with 6 elems_not_closed [OF False, of r] show ?thesis by (cases k) simp_all
  qed
next
  case (7 ms)
  show ?case
  proof (cases "ms = []")
    case True
    with 7 show ?thesis by (cases k) (simp_all add: hasPrefix_def)
  next
    case False
    with 7 members_not_closed [OF False, of r] show ?thesis by (cases k) simp_all
  qed
next
  case 8
  then show ?case by simp
next
  case (9 v)
  then show ?case by (cases k) simp_all
next
  case (10 v w vs)
  then show ?case by (cases k) simp_all
next
  case 11
  then show ?case by simp
next
  case (12 key v)
  then show ?case by (cases k) (simp_all add: parse_print_string)
next
  case (13 key v m ms)
  then show ?case by (cases k) (simp_all add: parse_print_string)
qed

lemma parse_print: "valid_json v \<Longrightarrow> parse_json (print_json v) = Some v"
  using parse_print_value(1) [of v "Suc (Suc (2 * length (print_json v)))" "[]"]
  by (simp add: parse_json_def skip_ws_def)

end
