(* ===== verification/GoTime.thy ===== *)
theory GoTime
  imports GoStrings
begin

text \<open>
  Go's \<open>time\<close> package as the source uses it. An instant is a number of nanoseconds since
  0001-01-01T00:00:00Z, a location is its offset from UTC in seconds (the server runs in one
  fixed-offset zone, \<open>time.Local\<close>), and day numbers count local calendar days from
  0001-01-01. The layouts parsed and printed are \<open>15:04\<close> and \<open>2006-01-02\<close>.
\<close>

section \<open>Durations\<close>

definition second :: duration where
  "second = 1000000000"

definition minute :: duration where
  "minute = 60000000000"

definition hour :: duration where
  "hour = 3600000000000"

definition day_ns :: duration where
  "day_ns = 86400000000000"

definition millisecond :: duration where
  "millisecond = 1000000"

lemmas duration_defs [go_time_simps] =
  second_def minute_def hour_def day_ns_def millisecond_def

section \<open>Calendar days of an instant in a location\<close>

definition localDay :: "int \<Rightarrow> instant \<Rightarrow> int" where
  "localDay tz t = (t + tz * second) div day_ns"

text \<open>\<open>time.Date(t.Year(), t.Month(), t.Day(), h, m, 0, 0, loc)\<close>.\<close>

definition atClock :: "int \<Rightarrow> instant \<Rightarrow> int \<Rightarrow> int \<Rightarrow> instant" where
  "atClock tz t h m = localDay tz t * day_ns - tz * second + h * hour + m * minute"

definition midnight :: "int \<Rightarrow> instant \<Rightarrow> instant" where
  "midnight tz t = atClock tz t 0 0"

text \<open>\<open>t.Weekday()\<close>, Sunday = 0; 0001-01-01 was a Monday.\<close>

definition weekday :: "int \<Rightarrow> instant \<Rightarrow> int" where
  "weekday tz t = (localDay tz t + 1) mod 7"

text \<open>\<open>t.AddDate(0, 0, n)\<close>.\<close>

definition addDays :: "instant \<Rightarrow> int \<Rightarrow> instant" where
  "addDays t n = t + n * day_ns"

lemma localDay_atClock:
  assumes "0 \<le> h * hour + m * minute" and "h * hour + m * minute < day_ns"
  shows "localDay tz (atClock tz t h m) = localDay tz t"
proof -
  have "(localDay tz t * day_ns + (h * hour + m * minute)) div day_ns = localDay tz t"
    using assms by (simp add: div_pos_pos_trivial day_ns_def)
  then show ?thesis by (simp add: localDay_def atClock_def algebra_simps)
qed

lemma localDay_midnight [simp]: "localDay tz (midnight tz t) = localDay tz t"
  using localDay_atClock [of 0 0 tz t] by (simp add: midnight_def day_ns_def)

lemma midnight_midnight [simp]: "midnight tz (midnight tz t) = midnight tz t"
  using localDay_midnight [of tz t] by (simp add: midnight_def atClock_def)

lemma midnight_le: "midnight tz t \<le> t"
proof -
  have "(t + tz * second) div day_ns * day_ns \<le> t + tz * second"
    by (simp add: day_ns_def div_mod_decomp_int)
  then show ?thesis by (simp add: midnight_def atClock_def localDay_def)
qed

lemma midnight_addDays: "midnight tz (addDays t n) = addDays (midnight tz t) n"
proof -
  have "(t + n * day_ns + tz * second) div day_ns = (t + tz * second) div day_ns + n"
    by (simp add: day_ns_def second_def algebra_simps)
  then show ?thesis
    by (simp add: midnight_def atClock_def addDays_def localDay_def algebra_simps)
qed

lemma weekday_range: "0 \<le> weekday tz t \<and> weekday tz t < 7"
  by (simp add: weekday_def)

section \<open>The civil calendar\<close>

definition isLeap :: "int \<Rightarrow> bool" where
  "isLeap y \<longleftrightarrow> 4 dvd y \<and> (\<not> 100 dvd y \<or> 400 dvd y)"

definition daysIn :: "int \<Rightarrow> int \<Rightarrow> int" where
  "daysIn m y =
     (if m = 2 then (if isLeap y then 29 else 28)
      else if m \<in> {4, 6, 9, 11} then 30 else 31)"

definition daysBeforeYear :: "int \<Rightarrow> int" where
  "daysBeforeYear y =
     365 * (y - 1) + (y - 1) div 4 - (y - 1) div 100 + (y - 1) div 400"

definition daysBeforeMonth :: "int \<Rightarrow> int \<Rightarrow> int" where
  "daysBeforeMonth m y = sum_list (map (\<lambda>k. daysIn k y) [1 .. m - 1])"

text \<open>The day number of a date, 0 for 0001-01-01.\<close>

definition dayNumber :: "int \<Rightarrow> int \<Rightarrow> int \<Rightarrow> int" where
  "dayNumber y m d = daysBeforeYear y + daysBeforeMonth m y + (d - 1)"

section \<open>Layouts\<close>

definition two_digits :: "char \<Rightarrow> char \<Rightarrow> int" where
  "two_digits a b = digit_val a * 10 + digit_val b"

text \<open>\<open>time.Parse("15:04", s)\<close>: the hour may have one digit, the minute has two.\<close>

definition parse_minutes :: "int \<Rightarrow> string \<Rightarrow> (int \<times> int) option" where
  "parse_minutes h s =
     (case s of
        [c, x, y] \<Rightarrow>
          if c = CHR '':'' \<and> isDigit x \<and> isDigit y \<and> h < 24 \<and> two_digits x y < 60
          then Some (h, two_digits x y) else None
      | _ \<Rightarrow> None)"

definition parseClock :: "string \<Rightarrow> (int \<times> int) option" where
  "parseClock s =
     (case s of
        a # b # rest \<Rightarrow>
          if \<not> isDigit a then None
          else if isDigit b then parse_minutes (two_digits a b) rest
          else parse_minutes (digit_val a) (b # rest)
      | _ \<Rightarrow> None)"

text \<open>\<open>time.ParseInLocation("2006-01-02", s, loc)\<close>: the instant of local midnight.\<close>

definition parseDay :: "string \<Rightarrow> int option" where
  "parseDay s =
     (case s of
        [y0, y1, y2, y3, d1, m0, m1, d2, e0, e1] \<Rightarrow>
          let y = two_digits y0 y1 * 100 + two_digits y2 y3;
              m = two_digits m0 m1; d = two_digits e0 e1
          in if list_all isDigit [y0, y1, y2, y3, m0, m1, e0, e1] \<and> d1 = CHR ''-'' \<and> d2 = CHR ''-''
                \<and> 1 \<le> m \<and> m \<le> 12 \<and> 1 \<le> d \<and> d \<le> daysIn m y
             then Some (dayNumber y m d) else None
      | _ \<Rightarrow> None)"

definition parseDate :: "int \<Rightarrow> string \<Rightarrow> instant option" where
  "parseDate tz s =
     (case parseDay s of None \<Rightarrow> None | Some n \<Rightarrow> Some (n * day_ns - tz * second))"

lemma digit_val_range: "isDigit c \<Longrightarrow> 0 \<le> digit_val c \<and> digit_val c \<le> 9"
  by (auto simp: isDigit_def digit_val_def)

lemma parse_minutes_range:
  "parse_minutes h s = Some (h', m) \<Longrightarrow> h' = h \<and> h < 24 \<and> 0 \<le> m \<and> m < 60"
  by (auto simp: parse_minutes_def two_digits_def split: list.splits if_splits
      dest!: digit_val_range)

lemma parseClock_range:
  assumes "parseClock s = Some (h, m)"
  shows "0 \<le> h \<and> h < 24 \<and> 0 \<le> m \<and> m < 60"
  using assms
  by (auto simp: parseClock_def two_digits_def split: list.splits if_splits
      dest!: parse_minutes_range digit_val_range)

lemma parseDate_midnight:
  assumes "parseDate tz s = Some t"
  shows "midnight tz t = t"
proof -
  from assms obtain n where "t = n * day_ns - tz * second"
    by (auto simp: parseDate_def split: option.splits)
  then show ?thesis by (simp add: midnight_def atClock_def localDay_def day_ns_def)
qed

text \<open>Year, month and day of a day number, as Go's \<open>absDate\<close> computes them: 400-year,
  100-year, 4-year cycles and years are cut off in turn.\<close>

definition civilYear :: "int \<Rightarrow> int \<times> int" where
  "civilYear n =
     (let n400 = n div 146097; d = n mod 146097;
          c0 = d div 36524; n100 = c0 - c0 div 4; d1 = d - 36524 * n100;
          n4 = d1 div 1461; d2 = d1 mod 1461;
          c1 = d2 div 365; n1 = c1 - c1 div 4; yday = d2 - 365 * n1
      in (400 * n400 + 100 * n100 + 4 * n4 + n1 + 1, yday))"

fun monthFrom :: "nat \<Rightarrow> int \<Rightarrow> int \<Rightarrow> int \<Rightarrow> int \<times> int" where
  "monthFrom 0 m y yday = (m, yday + 1)"
| "monthFrom (Suc k) m y yday =
     (if yday < daysIn m y then (m, yday + 1) else monthFrom k (m + 1) y (yday - daysIn m y))"

definition civilDate :: "int \<Rightarrow> int \<times> int \<times> int" where
  "civilDate n =
     (case civilYear n of (y, yday) \<Rightarrow> (case monthFrom 11 1 y yday of (m, d) \<Rightarrow> (y, m, d)))"

definition pad2 :: "int \<Rightarrow> string" where
  "pad2 n = [digit_char (nat (n div 10 mod 10)), digit_char (nat (n mod 10))]"

text \<open>\<open>t.Format("2006-01-02")\<close> for years 0 to 9999.\<close>

definition formatDate :: "int \<Rightarrow> instant \<Rightarrow> string" where
  "formatDate tz t =
     (case civilDate (localDay tz t) of
        (y, m, d) \<Rightarrow> pad2 (y div 100) @ pad2 y @ CHR ''-'' # pad2 m @ CHR ''-'' # pad2 d)"

text \<open>\<open>time.Unix(sec, 0)\<close> and \<open>t.Unix()\<close>.\<close>

definition unixEpoch :: int where
  "unixEpoch = 62135596800"

definition fromUnix :: "int \<Rightarrow> instant" where
  "fromUnix sec = (sec + unixEpoch) * second"

definition toUnix :: "instant \<Rightarrow> int" where
  "toUnix t = t div second - unixEpoch"

lemma toUnix_fromUnix [simp]: "toUnix (fromUnix s) = s"
  by (simp add: toUnix_def fromUnix_def second_def)

text \<open>Integer division of a non-negative duration, as \<open>int(d.Hours() / 24)\<close> truncates.\<close>

definition wholeDays :: "duration \<Rightarrow> int" where
  "wholeDays d = (if 0 \<le> d then d div day_ns else - ((- d) div day_ns))"

end
