(* ===== verification/WeekUtil.thy ===== *)
theory WeekUtil
  imports GoTime
begin

text \<open>
  Calendar helpers of the server: pkg/weekutil (\<open>CurrentWeek\<close>, \<open>ContainsWeek\<close>),
  pkg/scheduleutil (\<open>WeekdayMon1Sun7\<close>, \<open>CalculateSlotTime\<close>, \<open>TimeOverlaps\<close>) and
  internal/service/semester\_service.go. The lemmas give the meaning of the hand-written week
  list scanner, the bounds of a slot, and the agreement between the two directions of the
  week/date conversion.
\<close>

section \<open>Data\<close>

text \<open>\<open>config.Period\<close>.\<close>

record period =
  Period_Name :: string
  Period_Start :: string
  Period_End :: string

text \<open>\<open>model.Semester\<close>.\<close>

record semester =
  Semester_ID :: nat
  Semester_TenantID :: nat
  Semester_StartDate :: instant
  Semester_TotalWeeks :: int
  Semester_IsActive :: bool

section \<open>pkg/weekutil\<close>

definition currentWeek :: "instant \<Rightarrow> instant \<Rightarrow> int \<Rightarrow> int" where
  "currentWeek now startDate totalWeek =
     (if now < startDate then 1
      else let week = wholeDays (now - startDate) div 7 + 1
           in if week > totalWeek then totalWeek else week)"

text \<open>64-bit wrap-around of Go's \<open>int\<close>.\<close>

definition wrap64 :: "int \<Rightarrow> int" where
  "wrap64 n = (n + 9223372036854775808) mod 18446744073709551616 - 9223372036854775808"

text \<open>The inner loop over \<open>weekList[start:i]\<close>: bytes that are not digits are passed over.\<close>

definition segValue :: "string \<Rightarrow> int" where
  "segValue seg = fold (\<lambda>c n. if isDigit c then wrap64 (n * 10 + digit_val c) else n) seg 0"

text \<open>The outer loop: \<open>seg\<close> is \<open>weekList[start:i]\<close>, the remaining argument \<open>weekList[i:]\<close>.\<close>

fun containsWeekScan :: "string \<Rightarrow> string \<Rightarrow> int \<Rightarrow> bool" where
  "containsWeekScan seg [] week = (seg \<noteq> [] \<and> segValue seg = week)"
| "containsWeekScan seg (c # rest) week =
     (if c = CHR '','' then
        (if seg \<noteq> [] \<and> segValue seg = week then True else containsWeekScan [] rest week)
      else containsWeekScan (seg @ [c]) rest week)"

definition containsWeek :: "string \<Rightarrow> int \<Rightarrow> bool" where
  "containsWeek weekList week =
     (if weekList = [] \<or> week \<le> 0 then False else containsWeekScan [] weekList week)"

section \<open>pkg/scheduleutil\<close>

definition weekdayMon1Sun7 :: "int \<Rightarrow> instant \<Rightarrow> int" where
  "weekdayMon1Sun7 tz date = (if weekday tz date = 0 then 7 else weekday tz date)"

datatype slot_error =
  SlotDateMissing | SlotSectionInvalid | SlotConfigMissing | SlotStartFormat | SlotEndFormat

definition calculateSlotTime ::
    "int \<Rightarrow> instant \<Rightarrow> int \<Rightarrow> period list \<Rightarrow> slot_error + (instant \<times> instant)" where
  "calculateSlotTime tz date section periods =
     (if date = 0 then Inl SlotDateMissing
      else if section \<le> 0 then Inl SlotSectionInvalid
      else if periods = [] \<or> section > int (length periods) then Inl SlotConfigMissing
      else let p = periods ! nat (section - 1) in
        (case parseClock (Period_Start p) of
           None \<Rightarrow> Inl SlotStartFormat
         | Some (sh, sm) \<Rightarrow>
             (case parseClock (Period_End p) of
                None \<Rightarrow> Inl SlotEndFormat
              | Some (eh, em) \<Rightarrow>
                  let slotStart = atClock tz date sh sm;
                      slotEnd = atClock tz date eh em
                  in Inr (slotStart,
                          if slotEnd < slotStart then slotEnd + 24 * hour else slotEnd))))"

definition timeOverlaps :: "instant \<Rightarrow> instant \<Rightarrow> instant \<Rightarrow> instant \<Rightarrow> bool" where
  "timeOverlaps startA endA startB endB \<longleftrightarrow> startA < endB \<and> endA > startB"

section \<open>internal/service/semester\_service.go\<close>

datatype semester_error = SemesterMissing | BeforeSemester | AfterSemester int | RepoFailed string

text \<open>\<open>CalculateWeekFromDate\<close>; the out-of-range error carries the week it returns with.\<close>

definition calculateWeekFromDate ::
    "int \<Rightarrow> semester option \<Rightarrow> instant \<Rightarrow> semester_error + int" where
  "calculateWeekFromDate tz sem date =
     (case sem of
        None \<Rightarrow> Inl SemesterMissing
      | Some s \<Rightarrow>
          let days = wholeDays (midnight tz date - midnight tz (Semester_StartDate s))
          in if days < 0 then Inl BeforeSemester
             else let week = days div 7 + 1
                  in if week > Semester_TotalWeeks s then Inl (AfterSemester week) else Inr week)"

definition getWeekDateRange ::
    "int \<Rightarrow> semester_error + semester \<Rightarrow> int \<Rightarrow> semester_error + (instant \<times> instant)" where
  "getWeekDateRange tz active week =
     (case active of
        Inl e \<Rightarrow> Inl e
      | Inr s \<Rightarrow>
          let weekStart = addDays (midnight tz (Semester_StartDate s)) ((week - 1) * 7)
          in Inr (weekStart, addDays weekStart 7))"

datatype week_check = WeekOk | WeekRepoError string | WeekMismatch

text \<open>\<open>ValidateWeekDate\<close>: a missing semester and a date outside it are not checked.\<close>

definition validateWeekDate ::
    "int \<Rightarrow> (string + semester option) \<Rightarrow> instant \<Rightarrow> int \<Rightarrow> week_check" where
  "validateWeekDate tz active date week =
     (case active of
        Inl e \<Rightarrow> WeekRepoError e
      | Inr None \<Rightarrow> WeekOk
      | Inr (Some s) \<Rightarrow>
          (case calculateWeekFromDate tz (Some s) date of
             Inl _ \<Rightarrow> WeekOk
           | Inr derived \<Rightarrow> if derived \<noteq> week then WeekMismatch else WeekOk))"

section \<open>The week list scanner\<close>

lemma containsWeekScan_split:
  "containsWeekScan seg s week \<longleftrightarrow>
     (\<exists>p \<in> set (case split_on CHR '','' s of [] \<Rightarrow> [] | p # ps \<Rightarrow> (seg @ p) # ps).
        p \<noteq> [] \<and> segValue p = week)"
proof (induction s arbitrary: seg)
  case Nil
  then show ?case by auto
next
  case (Cons c s)
  obtain p ps where e: "split_on CHR '','' s = p # ps"
    by (cases "split_on CHR '','' s") auto
  show ?case
    using Cons.IH [of "[]"] Cons.IH [of "seg @ [c]"] e by auto
qed

lemma containsWeek_split:
  assumes "0 < week"
  shows "containsWeek weekList week \<longleftrightarrow>
           (\<exists>p \<in> set (split_on CHR '','' weekList). p \<noteq> [] \<and> segValue p = week)"
proof (cases "weekList = []")
  case True
  then show ?thesis by (simp add: containsWeek_def)
next
  case False
  have "(case split_on CHR '','' weekList of [] \<Rightarrow> [] | p # ps \<Rightarrow> ([] @ p) # ps)
          = split_on CHR '','' weekList"
    by (auto split: list.splits)
  with False assms containsWeekScan_split [of "[]" weekList week] show ?thesis
    by (simp add: containsWeek_def)
qed

lemma wrap64_id: "minInt64 \<le> n \<Longrightarrow> n \<le> maxInt64 \<Longrightarrow> wrap64 n = n"
  by (simp add: wrap64_def minInt64_def maxInt64_def)

lemma digits_val_nonneg: "list_all isDigit ds \<Longrightarrow> 0 \<le> digits_val ds"
proof (induction ds rule: rev_induct)
  case Nil
  then show ?case by (simp add: digits_val_def)
next
  case (snoc c ds)
  then have "0 \<le> digits_val ds" and "0 \<le> digit_val c"
    using digit_val_range [of c] by auto
  then show ?case by (simp add: digits_val_snoc)
qed

lemma segValue_snoc:
  "segValue (ds @ [c]) =
     (if isDigit c then wrap64 (segValue ds * 10 + digit_val c) else segValue ds)"
  by (simp add: segValue_def)

lemma segValue_digits:
  "list_all isDigit ds \<Longrightarrow> digits_val ds \<le> maxInt64 \<Longrightarrow> segValue ds = digits_val ds"
proof (induction ds rule: rev_induct)
  case Nil
  then show ?case by (simp add: segValue_def digits_val_def)
next
  case (snoc c ds)
  then have d: "list_all isDigit ds" "isDigit c" by auto
  have "0 \<le> digits_val ds" "0 \<le> digit_val c"
    using d digits_val_nonneg digit_val_range by auto
  moreover from this snoc.prems(2) have "digits_val ds \<le> maxInt64"
    by (simp add: digits_val_snoc)
  ultimately show ?case
    using snoc d by (simp add: segValue_snoc digits_val_snoc wrap64_id minInt64_def)
qed

lemma segValue_itoa:
  assumes "0 \<le> n" and "n \<le> maxInt64"
  shows "segValue (itoa n) = n"
proof -
  have "list_all isDigit (nat_digits (nat n))"
    by (simp add: list_all_iff nat_digits_isDigit)
  with assms show ?thesis
    by (simp add: itoa_def segValue_digits)
qed

section \<open>Slots\<close>

lemma clock_offset_range:
  assumes "parseClock s = Some (h, m)"
  shows "0 \<le> h * hour + m * minute" and "h * hour + m * minute < day_ns"
  using parseClock_range [OF assms] by (simp_all add: go_time_simps)

lemma calculateSlotTime_InrD:
  assumes "calculateSlotTime tz date section periods = Inr (s, e)"
  shows "\<exists>sh sm. parseClock (Period_Start (periods ! nat (section - 1))) = Some (sh, sm)
           \<and> s = atClock tz date sh sm"
    and "1 \<le> section" and "section \<le> int (length periods)" and "date \<noteq> 0"
    and "s \<le> e" and "e < s + 24 * hour"
proof -
  from assms obtain p sh sm eh em
    where *: "p = periods ! nat (section - 1)" "parseClock (Period_Start p) = Some (sh, sm)"
      "parseClock (Period_End p) = Some (eh, em)" "s = atClock tz date sh sm"
      "e = (if atClock tz date eh em < s then atClock tz date eh em + 24 * hour
            else atClock tz date eh em)"
      "1 \<le> section" "section \<le> int (length periods)" "date \<noteq> 0"
    by (auto simp: calculateSlotTime_def Let_def split: if_splits option.splits)
  then show "\<exists>sh sm. parseClock (Period_Start (periods ! nat (section - 1))) = Some (sh, sm)
           \<and> s = atClock tz date sh sm"
    and "1 \<le> section" and "section \<le> int (length periods)" and "date \<noteq> 0"
    by auto
  show "s \<le> e" and "e < s + 24 * hour"
    using * clock_offset_range [OF *(2)] clock_offset_range [OF *(3)]
    by (auto simp: atClock_def go_time_simps)
qed

lemma wholeDays_mult: "wholeDays (k * day_ns) = k"
proof -
  have "(- (k * day_ns)) div day_ns = - k"
    by (simp add: day_ns_def flip: mult_minus_left)
  then show ?thesis by (simp add: wholeDays_def day_ns_def)
qed

section \<open>Properties\<close>

text \<open>C24: \<open>CalculateSlotTime\<close> succeeds only for a section of the timetable, and the slot it
  returns is well formed: it starts on the requested local day, ends no earlier than it starts
  and lasts less than 24 hours, also when the period crosses midnight.\<close>

theorem slot_time_well_formed:
  assumes "calculateSlotTime tz date section periods = Inr (slotStart, slotEnd)"
  shows "1 \<le> section \<and> section \<le> int (length periods)
         \<and> localDay tz slotStart = localDay tz date
         \<and> slotStart \<le> slotEnd \<and> slotEnd < slotStart + 24 * hour"
proof -
  note slot = calculateSlotTime_InrD [OF assms]
  from slot(1) obtain sh sm
    where "parseClock (Period_Start (periods ! nat (section - 1))) = Some (sh, sm)"
      and "slotStart = atClock tz date sh sm" by blast
  then have "localDay tz slotStart = localDay tz date"
    using clock_offset_range by (simp add: localDay_atClock)
  with slot(2-6) show ?thesis by simp
qed

theorem slot_time_well_formed_witness:
  "\<exists>s e. calculateSlotTime 28800 (739000 * day_ns)
           1 [\<lparr>Period_Name = ''evening'', Period_Start = ''22:30'', Period_End = ''0:15''\<rparr>]
         = Inr (s, e)
       \<and> localDay 28800 s = localDay 28800 (739000 * day_ns) \<and> s \<le> e \<and> e < s + 24 * hour"
proof -
  have "calculateSlotTime 28800 (739000 * day_ns)
           1 [\<lparr>Period_Name = ''evening'', Period_Start = ''22:30'', Period_End = ''0:15''\<rparr>]
         = Inr (atClock 28800 (739000 * day_ns) 22 30,
                atClock 28800 (739000 * day_ns) 0 15 + 24 * hour)"
    by (simp add: calculateSlotTime_def parseClock_def parse_minutes_def isDigit_def
        two_digits_def digit_val_def atClock_def go_time_simps)
  with slot_time_well_formed [OF this] show ?thesis by blast
qed

text \<open>C25: The two directions of the week conversion agree. \<open>CalculateWeekFromDate\<close> answers
  week \<open>w\<close> for a date exactly when \<open>w\<close> is a week of the semester (1 up to the total) and
  local midnight of the date lies in the half-open range that \<open>GetWeekDateRange\<close> computes
  for \<open>w\<close>.\<close>

theorem week_date_conversion_agrees:
  assumes "getWeekDateRange tz (Inr sem) w = Inr (weekStart, weekEnd)"
  shows "calculateWeekFromDate tz (Some sem) date = Inr w \<longleftrightarrow>
           1 \<le> w \<and> w \<le> Semester_TotalWeeks sem
           \<and> weekStart \<le> midnight tz date \<and> midnight tz date < weekEnd"
proof -
  define k where "k = localDay tz date - localDay tz (Semester_StartDate sem)"
  have diff: "midnight tz date - midnight tz (Semester_StartDate sem) = k * day_ns"
    by (simp add: k_def midnight_def atClock_def algebra_simps)
  then have days: "wholeDays (midnight tz date - midnight tz (Semester_StartDate sem)) = k"
    by (simp only: wholeDays_mult)
  have range: "weekStart = midnight tz (Semester_StartDate sem) + (w - 1) * 7 * day_ns"
    "weekEnd = weekStart + 7 * day_ns"
    using assms by (simp_all add: getWeekDateRange_def addDays_def Let_def)
  have "weekStart \<le> midnight tz date \<and> midnight tz date < weekEnd
          \<longleftrightarrow> (w - 1) * 7 * day_ns \<le> k * day_ns \<and> k * day_ns < (w - 1) * 7 * day_ns + 7 * day_ns"
    using diff range by linarith
  also have "\<dots> \<longleftrightarrow> (w - 1) * 7 \<le> k \<and> k < (w - 1) * 7 + 7"
    by (simp add: day_ns_def) linarith
  finally show ?thesis
    using days by (auto simp: calculateWeekFromDate_def Let_def)
qed

theorem week_date_conversion_agrees_witness:
  "calculateWeekFromDate 28800
     (Some \<lparr>Semester_ID = 1, Semester_TenantID = 1, Semester_StartDate = 739000 * day_ns,
            Semester_TotalWeeks = 20, Semester_IsActive = True\<rparr>) (739010 * day_ns) = Inr 2"
proof -
  let ?s = "\<lparr>Semester_ID = 1, Semester_TenantID = 1, Semester_StartDate = 739000 * day_ns,
             Semester_TotalWeeks = 20, Semester_IsActive = True\<rparr>"
  have "getWeekDateRange 28800 (Inr ?s) 2
          = Inr (midnight 28800 (739000 * day_ns) + 7 * day_ns,
                 midnight 28800 (739000 * day_ns) + 14 * day_ns)"
    by (simp add: getWeekDateRange_def addDays_def)
  from week_date_conversion_agrees [OF this, of "739010 * day_ns"] show ?thesis
    by (simp add: midnight_def atClock_def localDay_def day_ns_def second_def)
qed

end
