(* ===== verification/Messages.thy ===== *)
theory Messages
  imports GoPrelude
begin

text \<open>
  The UTF-8 literals of the attendance services: error messages and the pieces of the text
  posted to a group. A Go string literal is its byte sequence.
\<close>

text \<open>date format error\<close>

definition zh_date_format :: string where
  "zh_date_format =
     [CHR 0xE6, CHR 0x97, CHR 0xA5, CHR 0xE6, CHR 0x9C, CHR 0x9F, CHR 0xE6, CHR 0xA0, CHR
     0xBC, CHR 0xE5, CHR 0xBC, CHR 0x8F, CHR 0xE9, CHR 0x94, CHR 0x99, CHR 0xE8, CHR 0xAF,
     CHR 0xAF]"

text \<open>invalid section\<close>

definition zh_section_invalid :: string where
  "zh_section_invalid =
     [CHR 0xE8, CHR 0x8A, CHR 0x82, CHR 0xE6, CHR 0xAC, CHR 0xA1, CHR 0xE6, CHR 0x97, CHR
     0xA0, CHR 0xE6, CHR 0x95, CHR 0x88]"

text \<open>attendance window not initialised\<close>

definition zh_window_nil :: string where
  "zh_window_nil =
     [CHR 0xE8, CHR 0x80, CHR 0x83, CHR 0xE5, CHR 0x8B, CHR 0xA4, CHR 0xE6, CHR 0x97, CHR
     0xB6, CHR 0xE9, CHR 0x97, CHR 0xB4, CHR 0xE7, CHR 0xAA, CHR 0x97, CHR 0xE5, CHR 0x8F,
     CHR 0xA3, CHR 0xE6, CHR 0x9C, CHR 0xAA, CHR 0xE5, CHR 0x88, CHR 0x9D, CHR 0xE5, CHR
     0xA7, CHR 0x8B, CHR 0xE5, CHR 0x8C, CHR 0x96]"

text \<open>loading candidates failed\<close>

definition zh_candidates_failed :: string where
  "zh_candidates_failed =
     [CHR 0xE8, CHR 0x8E, CHR 0xB7, CHR 0xE5, CHR 0x8F, CHR 0x96, CHR 0xE5, CHR 0x80, CHR
     0x99, CHR 0xE9, CHR 0x80, CHR 0x89, CHR 0xE7, CHR 0x94, CHR 0xA8, CHR 0xE6, CHR 0x88,
     CHR 0xB7, CHR 0xE5, CHR 0xA4, CHR 0xB1, CHR 0xE8, CHR 0xB4, CHR 0xA5]"

text \<open>loading courses failed\<close>

definition zh_courses_failed :: string where
  "zh_courses_failed =
     [CHR 0xE8, CHR 0x8E, CHR 0xB7, CHR 0xE5, CHR 0x8F, CHR 0x96, CHR 0xE7, CHR 0x94, CHR
     0xA8, CHR 0xE6, CHR 0x88, CHR 0xB7, CHR 0xE8, CHR 0xAF, CHR 0xBE, CHR 0xE8, CHR 0xA1,
     CHR 0xA8, CHR 0xE5, CHR 0xA4, CHR 0xB1, CHR 0xE8, CHR 0xB4, CHR 0xA5]"

text \<open>loading leave records failed\<close>

definition zh_leave_failed :: string where
  "zh_leave_failed =
     [CHR 0xE8, CHR 0x8E, CHR 0xB7, CHR 0xE5, CHR 0x8F, CHR 0x96, CHR 0xE8, CHR 0xAF, CHR
     0xB7, CHR 0xE5, CHR 0x81, CHR 0x87, CHR 0xE8, CHR 0xAE, CHR 0xB0, CHR 0xE5, CHR 0xBD,
     CHR 0x95, CHR 0xE5, CHR 0xA4, CHR 0xB1, CHR 0xE8, CHR 0xB4, CHR 0xA5]"

text \<open>loading leave records for a snapshot failed\<close>

definition zh_snapshot_leave_failed :: string where
  "zh_snapshot_leave_failed =
     [CHR 0xE8, CHR 0x8E, CHR 0xB7, CHR 0xE5, CHR 0x8F, CHR 0x96, CHR 0xE5, CHR 0xBF, CHR
     0xAB, CHR 0xE7, CHR 0x85, CHR 0xA7, CHR 0xE8, CHR 0xAF, CHR 0xB7, CHR 0xE5, CHR 0x81,
     CHR 0x87, CHR 0xE8, CHR 0xAE, CHR 0xB0, CHR 0xE5, CHR 0xBD, CHR 0x95, CHR 0xE5, CHR
     0xA4, CHR 0xB1, CHR 0xE8, CHR 0xB4, CHR 0xA5]"

text \<open>computing the check window failed\<close>

definition zh_window_failed :: string where
  "zh_window_failed =
     [CHR 0xE8, CHR 0xAE, CHR 0xA1, CHR 0xE7, CHR 0xAE, CHR 0x97, CHR 0xE6, CHR 0x89, CHR
     0x93, CHR 0xE5, CHR 0x8D, CHR 0xA1, CHR 0xE7, CHR 0xAA, CHR 0x97, CHR 0xE5, CHR 0x8F,
     CHR 0xA3, CHR 0xE5, CHR 0xA4, CHR 0xB1, CHR 0xE8, CHR 0xB4, CHR 0xA5]"

text \<open>not a section\<close>

definition zh_section_bad :: string where
  "zh_section_bad =
     [CHR 0xE6, CHR 0x97, CHR 0xA0, CHR 0xE6, CHR 0x95, CHR 0x88, CHR 0xE7, CHR 0x9A, CHR
     0x84, CHR 0xE8, CHR 0x8A, CHR 0x82, CHR 0xE6, CHR 0xAC, CHR 0xA1]"

text \<open>parsing the previous end time failed\<close>

definition zh_prev_end_failed :: string where
  "zh_prev_end_failed =
     [CHR 0xE8, CHR 0xA7, CHR 0xA3, CHR 0xE6, CHR 0x9E, CHR 0x90, CHR 0xE4, CHR 0xB8, CHR
     0x8A, CHR 0xE4, CHR 0xB8, CHR 0x80, CHR 0xE8, CHR 0x8A, CHR 0x82, CHR 0xE4, CHR 0xB8,
     CHR 0x8B, CHR 0xE8, CHR 0xAF, CHR 0xBE, CHR 0xE6, CHR 0x97, CHR 0xB6, CHR 0xE9, CHR
     0x97, CHR 0xB4, CHR 0xE5, CHR 0xA4, CHR 0xB1, CHR 0xE8, CHR 0xB4, CHR 0xA5]"

text \<open>loading check records failed\<close>

definition zh_ding_failed :: string where
  "zh_ding_failed =
     [CHR 0xE8, CHR 0x8E, CHR 0xB7, CHR 0xE5, CHR 0x8F, CHR 0x96, CHR 0xE9, CHR 0x92, CHR
     0x89, CHR 0xE9, CHR 0x92, CHR 0x89, CHR 0xE6, CHR 0x89, CHR 0x93, CHR 0xE5, CHR 0x8D,
     CHR 0xA1, CHR 0xE8, CHR 0xAE, CHR 0xB0, CHR 0xE5, CHR 0xBD, CHR 0x95, CHR 0xE5, CHR
     0xA4, CHR 0xB1, CHR 0xE8, CHR 0xB4, CHR 0xA5]"

text \<open>DingTalk manager not initialised\<close>

definition zh_ding_nil :: string where
  "zh_ding_nil =
     [CHR 0xE9, CHR 0x92, CHR 0x89, CHR 0xE9, CHR 0x92, CHR 0x89, CHR 0xE7, CHR 0xA7, CHR
     0x9F, CHR 0xE6, CHR 0x88, CHR 0xB7, CHR 0xE7, CHR 0xAE, CHR 0xA1, CHR 0xE7, CHR 0x90,
     CHR 0x86, CHR 0xE5, CHR 0x99, CHR 0xA8, CHR 0xE6, CHR 0x9C, CHR 0xAA, CHR 0xE5, CHR
     0x88, CHR 0x9D, CHR 0xE5, CHR 0xA7, CHR 0x8B, CHR 0xE5, CHR 0x8C, CHR 0x96]"

text \<open>tenant information missing\<close>

definition zh_tenant_missing :: string where
  "zh_tenant_missing =
     [CHR 0xE7, CHR 0xBC, CHR 0xBA, CHR 0xE5, CHR 0xB0, CHR 0x91, CHR 0xE7, CHR 0xA7, CHR
     0x9F, CHR 0xE6, CHR 0x88, CHR 0xB7, CHR 0xE4, CHR 0xBF, CHR 0xA1, CHR 0xE6, CHR 0x81,
     CHR 0xAF]"

text \<open>loading manual overrides failed\<close>

definition zh_override_failed :: string where
  "zh_override_failed =
     [CHR 0xE8, CHR 0x8E, CHR 0xB7, CHR 0xE5, CHR 0x8F, CHR 0x96, CHR 0xE4, CHR 0xBA, CHR
     0xBA, CHR 0xE5, CHR 0xB7, CHR 0xA5, CHR 0xE4, CHR 0xBB, CHR 0xA3, CHR 0xE7, CHR 0xAD,
     CHR 0xBE, CHR 0xE8, CHR 0xA6, CHR 0x86, CHR 0xE7, CHR 0x9B, CHR 0x96, CHR 0xE5, CHR
     0xA4, CHR 0xB1, CHR 0xE8, CHR 0xB4, CHR 0xA5]"

text \<open>no record for this slot\<close>

definition zh_no_record :: string where
  "zh_no_record =
     [CHR 0xE8, CHR 0xAF, CHR 0xA5, CHR 0xE6, CHR 0x97, CHR 0xB6, CHR 0xE6, CHR 0xAE, CHR
     0xB5, CHR 0xE6, CHR 0x9A, CHR 0x82, CHR 0xE6, CHR 0x97, CHR 0xA0, CHR 0xE8, CHR 0x80,
     CHR 0x83, CHR 0xE5, CHR 0x8B, CHR 0xA4, CHR 0xE8, CHR 0xAE, CHR 0xB0, CHR 0xE5, CHR
     0xBD, CHR 0x95]"

text \<open>no record for this date\<close>

definition zh_no_record_date :: string where
  "zh_no_record_date =
     [CHR 0xE8, CHR 0xAF, CHR 0xA5, CHR 0xE6, CHR 0x97, CHR 0xA5, CHR 0xE6, CHR 0x9C, CHR
     0x9F, CHR 0xE6, CHR 0x9A, CHR 0x82, CHR 0xE6, CHR 0x97, CHR 0xA0, CHR 0xE8, CHR 0x80,
     CHR 0x83, CHR 0xE5, CHR 0x8B, CHR 0xA4, CHR 0xE8, CHR 0xAE, CHR 0xB0, CHR 0xE5, CHR
     0xBD, CHR 0x95]"

text \<open>request must not be nil\<close>

definition zh_request_nil :: string where
  "zh_request_nil =
     [CHR 0xE8, CHR 0xAF, CHR 0xB7, CHR 0xE6, CHR 0xB1, CHR 0x82, CHR 0xE5, CHR 0x8F, CHR
     0x82, CHR 0xE6, CHR 0x95, CHR 0xB0, CHR 0xE4, CHR 0xB8, CHR 0x8D, CHR 0xE8, CHR 0x83,
     CHR 0xBD, CHR 0xE4, CHR 0xB8, CHR 0xBA, CHR 0xE7, CHR 0xA9, CHR 0xBA]"

text \<open>attendance record not found\<close>

definition zh_record_not_found :: string where
  "zh_record_not_found =
     [CHR 0xE6, CHR 0x9C, CHR 0xAA, CHR 0xE6, CHR 0x89, CHR 0xBE, CHR 0xE5, CHR 0x88, CHR
     0xB0, CHR 0xE8, CHR 0x80, CHR 0x83, CHR 0xE5, CHR 0x8B, CHR 0xA4, CHR 0xE8, CHR 0xAE,
     CHR 0xB0, CHR 0xE5, CHR 0xBD, CHR 0x95]"

text \<open>sign slot not initialised\<close>

definition zh_sign_slot_nil :: string where
  "zh_sign_slot_nil =
     [CHR 0xE4, CHR 0xBB, CHR 0xA3, CHR 0xE7, CHR 0xAD, CHR 0xBE, CHR 0xE8, CHR 0x8A, CHR
     0x82, CHR 0xE6, CHR 0xAC, CHR 0xA1, CHR 0xE6, CHR 0x9C, CHR 0xAA, CHR 0xE5, CHR 0x88,
     CHR 0x9D, CHR 0xE5, CHR 0xA7, CHR 0x8B, CHR 0xE5, CHR 0x8C, CHR 0x96]"

text \<open>override repository not initialised\<close>

definition zh_override_repo_nil :: string where
  "zh_override_repo_nil =
     [CHR 0xE4, CHR 0xBA, CHR 0xBA, CHR 0xE5, CHR 0xB7, CHR 0xA5, CHR 0xE4, CHR 0xBB, CHR
     0xA3, CHR 0xE7, CHR 0xAD, CHR 0xBE, CHR 0xE8, CHR 0xA6, CHR 0x86, CHR 0xE7, CHR 0x9B,
     CHR 0x96, CHR 0xE4, CHR 0xBB, CHR 0x93, CHR 0xE5, CHR 0x82, CHR 0xA8, CHR 0xE6, CHR
     0x9C, CHR 0xAA, CHR 0xE5, CHR 0x88, CHR 0x9D, CHR 0xE5, CHR 0xA7, CHR 0x8B, CHR 0xE5,
     CHR 0x8C, CHR 0x96]"

text \<open>target user cannot be signed for\<close>

definition zh_not_signable :: string where
  "zh_not_signable =
     [CHR 0xE7, CHR 0x9B, CHR 0xAE, CHR 0xE6, CHR 0xA0, CHR 0x87, CHR 0xE7, CHR 0x94, CHR
     0xA8, CHR 0xE6, CHR 0x88, CHR 0xB7, CHR 0xE4, CHR 0xB8, CHR 0x8D, CHR 0xE5, CHR 0x9C,
     CHR 0xA8, CHR 0xE5, CHR 0xBD, CHR 0x93, CHR 0xE5, CHR 0x89, CHR 0x8D, CHR 0xE5, CHR
     0x8F, CHR 0xAF, CHR 0xE4, CHR 0xBB, CHR 0xA3, CHR 0xE7, CHR 0xAD, CHR 0xBE, CHR 0xE8,
     CHR 0x8C, CHR 0x83, CHR 0xE5, CHR 0x9B, CHR 0xB4, CHR 0xE5, CHR 0x86, CHR 0x85]"

text \<open>writing the override failed\<close>

definition zh_override_write :: string where
  "zh_override_write =
     [CHR 0xE5, CHR 0x86, CHR 0x99, CHR 0xE5, CHR 0x85, CHR 0xA5, CHR 0xE4, CHR 0xBA, CHR
     0xBA, CHR 0xE5, CHR 0xB7, CHR 0xA5, CHR 0xE4, CHR 0xBB, CHR 0xA3, CHR 0xE7, CHR 0xAD,
     CHR 0xBE, CHR 0xE8, CHR 0xA6, CHR 0x86, CHR 0xE7, CHR 0x9B, CHR 0x96, CHR 0xE5, CHR
     0xA4, CHR 0xB1, CHR 0xE8, CHR 0xB4, CHR 0xA5]"

text \<open>loading department candidates failed\<close>

definition zh_dept_candidates_failed :: string where
  "zh_dept_candidates_failed =
     [CHR 0xE8, CHR 0x8E, CHR 0xB7, CHR 0xE5, CHR 0x8F, CHR 0x96, CHR 0xE9, CHR 0x83, CHR
     0xA8, CHR 0xE9, CHR 0x97, CHR 0xA8, CHR 0xE8, CHR 0x80, CHR 0x83, CHR 0xE5, CHR 0x8B,
     CHR 0xA4, CHR 0xE5, CHR 0x80, CHR 0x99, CHR 0xE9, CHR 0x80, CHR 0x89, CHR 0xE4, CHR
     0xBA, CHR 0xBA, CHR 0xE5, CHR 0xA4, CHR 0xB1, CHR 0xE8, CHR 0xB4, CHR 0xA5]"

text \<open>loading attendance records failed\<close>

definition zh_records_failed :: string where
  "zh_records_failed =
     [CHR 0xE8, CHR 0x8E, CHR 0xB7, CHR 0xE5, CHR 0x8F, CHR 0x96, CHR 0xE8, CHR 0x80, CHR
     0x83, CHR 0xE5, CHR 0x8B, CHR 0xA4, CHR 0xE8, CHR 0xAE, CHR 0xB0, CHR 0xE5, CHR 0xBD,
     CHR 0x95, CHR 0xE5, CHR 0xA4, CHR 0xB1, CHR 0xE8, CHR 0xB4, CHR 0xA5]"

text \<open>loading users failed\<close>

definition zh_users_failed :: string where
  "zh_users_failed =
     [CHR 0xE8, CHR 0x8E, CHR 0xB7, CHR 0xE5, CHR 0x8F, CHR 0x96, CHR 0xE7, CHR 0x94, CHR
     0xA8, CHR 0xE6, CHR 0x88, CHR 0xB7, CHR 0xE4, CHR 0xBF, CHR 0xA1, CHR 0xE6, CHR 0x81,
     CHR 0xAF, CHR 0xE5, CHR 0xA4, CHR 0xB1, CHR 0xE8, CHR 0xB4, CHR 0xA5]"

text \<open>loading department users failed\<close>

definition zh_dept_users_failed :: string where
  "zh_dept_users_failed =
     [CHR 0xE8, CHR 0x8E, CHR 0xB7, CHR 0xE5, CHR 0x8F, CHR 0x96, CHR 0xE9, CHR 0x83, CHR
     0xA8, CHR 0xE9, CHR 0x97, CHR 0xA8, CHR 0xE7, CHR 0x94, CHR 0xA8, CHR 0xE6, CHR 0x88,
     CHR 0xB7, CHR 0xE5, CHR 0xA4, CHR 0xB1, CHR 0xE8, CHR 0xB4, CHR 0xA5]"

text \<open>invalid schedule mode\<close>

definition zh_mode_invalid :: string where
  "zh_mode_invalid =
     [CHR 0xE6, CHR 0x97, CHR 0xA0, CHR 0xE6, CHR 0x95, CHR 0x88, CHR 0xE7, CHR 0x9A, CHR
     0x84, CHR 0xE4, CHR 0xBD, CHR 0x9C, CHR 0xE6, CHR 0x81, CHR 0xAF, CHR 0xE6, CHR 0xA8,
     CHR 0xA1, CHR 0xE5, CHR 0xBC, CHR 0x8F]"

text \<open>invalid schedule mode, options\<close>

definition zh_mode_options :: string where
  "zh_mode_options =
     [CHR 0xE6, CHR 0x97, CHR 0xA0, CHR 0xE6, CHR 0x95, CHR 0x88, CHR 0xE7, CHR 0x9A, CHR
     0x84, CHR 0xE4, CHR 0xBD, CHR 0x9C, CHR 0xE6, CHR 0x81, CHR 0xAF, CHR 0xE6, CHR 0xA8,
     CHR 0xA1, CHR 0xE5, CHR 0xBC, CHR 0x8F, CHR 0xEF, CHR 0xBC, CHR 0x8C, CHR 0xE5, CHR
     0x8F, CHR 0xAF, CHR 0xE9, CHR 0x80, CHR 0x89, CHR 0xE5, CHR 0x80, CHR 0xBC] @ '':
     school, holiday''"

text \<open>no timetable for the mode\<close>

definition zh_mode_empty :: string where
  "zh_mode_empty =
     [CHR 0xE7, CHR 0x9B, CHR 0xAE, CHR 0xE6, CHR 0xA0, CHR 0x87, CHR 0xE6, CHR 0xA8, CHR
     0xA1, CHR 0xE5, CHR 0xBC, CHR 0x8F, CHR 0xE6, CHR 0x9A, CHR 0x82, CHR 0xE6, CHR 0x97,
     CHR 0xA0, CHR 0xE4, CHR 0xBD, CHR 0x9C, CHR 0xE6, CHR 0x81, CHR 0xAF, CHR 0xE9, CHR
     0x85, CHR 0x8D, CHR 0xE7, CHR 0xBD, CHR 0xAE, CHR 0xEF, CHR 0xBC, CHR 0x8C, CHR 0xE8,
     CHR 0xAF, CHR 0xB7, CHR 0xE5, CHR 0x85, CHR 0x88, CHR 0xE6, CHR 0xB7, CHR 0xBB, CHR
     0xE5, CHR 0x8A, CHR 0xA0, CHR 0xE9, CHR 0x85, CHR 0x8D, CHR 0xE7, CHR 0xBD, CHR 0xAE]"

text \<open>invalid season, options\<close>

definition zh_season_options :: string where
  "zh_season_options =
     [CHR 0xE6, CHR 0x97, CHR 0xA0, CHR 0xE6, CHR 0x95, CHR 0x88, CHR 0xE7, CHR 0x9A, CHR
     0x84, CHR 0xE5, CHR 0xAD, CHR 0xA3, CHR 0xE8, CHR 0x8A, CHR 0x82, CHR 0xEF, CHR 0xBC,
     CHR 0x8C, CHR 0xE5, CHR 0x8F, CHR 0xAF, CHR 0xE9, CHR 0x80, CHR 0x89, CHR 0xE5, CHR
     0x80, CHR 0xBC] @ '': summer, winter''"

text \<open>no timetable for the season\<close>

definition zh_season_empty :: string where
  "zh_season_empty =
     [CHR 0xE7, CHR 0x9B, CHR 0xAE, CHR 0xE6, CHR 0xA0, CHR 0x87, CHR 0xE5, CHR 0xAD, CHR
     0xA3, CHR 0xE8, CHR 0x8A, CHR 0x82, CHR 0xE6, CHR 0x9A, CHR 0x82, CHR 0xE6, CHR 0x97,
     CHR 0xA0, CHR 0xE4, CHR 0xBD, CHR 0x9C, CHR 0xE6, CHR 0x81, CHR 0xAF, CHR 0xE9, CHR
     0x85, CHR 0x8D, CHR 0xE7, CHR 0xBD, CHR 0xAE, CHR 0xEF, CHR 0xBC, CHR 0x8C, CHR 0xE8,
     CHR 0xAF, CHR 0xB7, CHR 0xE5, CHR 0x85, CHR 0x88, CHR 0xE6, CHR 0xB7, CHR 0xBB, CHR
     0xE5, CHR 0x8A, CHR 0xA0, CHR 0xE9, CHR 0x85, CHR 0x8D, CHR 0xE7, CHR 0xBD, CHR 0xAE]"

text \<open>list separator of names\<close>

definition zh_comma :: string where
  "zh_comma =
     [CHR 0xE3, CHR 0x80, CHR 0x81]"

text \<open>comma\<close>

definition zh_fullwidth_comma :: string where
  "zh_fullwidth_comma =
     [CHR 0xEF, CHR 0xBC, CHR 0x8C]"

text \<open>people\<close>

definition zh_people :: string where
  "zh_people =
     [CHR 0xE4, CHR 0xBA, CHR 0xBA]"

text \<open>closing bracket and colon\<close>

definition zh_colon :: string where
  "zh_colon =
     '')'' @ [CHR 0xEF, CHR 0xBC, CHR 0x9A]"

text \<open>morning\<close>

definition zh_morning :: string where
  "zh_morning =
     [CHR 0xE4, CHR 0xB8, CHR 0x8A, CHR 0xE5, CHR 0x8D, CHR 0x88]"

text \<open>afternoon\<close>

definition zh_afternoon :: string where
  "zh_afternoon =
     [CHR 0xE4, CHR 0xB8, CHR 0x8B, CHR 0xE5, CHR 0x8D, CHR 0x88]"

text \<open>evening\<close>

definition zh_evening :: string where
  "zh_evening =
     [CHR 0xE6, CHR 0x99, CHR 0x9A, CHR 0xE4, CHR 0xB8, CHR 0x8A]"

text \<open>ordinal prefix\<close>

definition zh_ordinal :: string where
  "zh_ordinal =
     [CHR 0xE7, CHR 0xAC, CHR 0xAC]"

text \<open>ordinal suffix\<close>

definition zh_times :: string where
  "zh_times =
     [CHR 0xE6, CHR 0xAC, CHR 0xA1]"

text \<open>section suffix\<close>

definition zh_section :: string where
  "zh_section =
     [CHR 0xE8, CHR 0x8A, CHR 0x82]"

text \<open>week suffix\<close>

definition zh_week :: string where
  "zh_week =
     [CHR 0xE5, CHR 0x91, CHR 0xA8] @ '' ''"

text \<open>title mark\<close>

definition zh_calendar :: string where
  "zh_calendar =
     [CHR 0xF0, CHR 0x9F, CHR 0x93, CHR 0x85] @ '' ''"

text \<open>attendance\<close>

definition zh_attendance :: string where
  "zh_attendance =
     '' '' @ [CHR 0xE8, CHR 0x80, CHR 0x83, CHR 0xE5, CHR 0x8B, CHR 0xA4]"

text \<open>should attend\<close>

definition zh_should :: string where
  "zh_should =
     [CHR 0xE2, CHR 0xAC, CHR 0x87, CHR 0xEF, CHR 0xB8, CHR 0x8F, CHR 0xE5, CHR 0xBA, CHR
     0x94, CHR 0xE5, CHR 0x88, CHR 0xB0]"

text \<open>on time\<close>

definition zh_on_time :: string where
  "zh_on_time =
     [CHR 0xE5, CHR 0x87, CHR 0x86, CHR 0xE6, CHR 0x97, CHR 0xB6, CHR 0xE6, CHR 0x89, CHR
     0x93, CHR 0xE5, CHR 0x8D, CHR 0xA1]"

text \<open>on leave\<close>

definition zh_on_leave :: string where
  "zh_on_leave =
     [CHR 0xE8, CHR 0xAF, CHR 0xB7, CHR 0xE5, CHR 0x81, CHR 0x87]"

text \<open>not arrived\<close>

definition zh_not_arrived :: string where
  "zh_not_arrived =
     [CHR 0xE6, CHR 0x9C, CHR 0xAA, CHR 0xE5, CHR 0x88, CHR 0xB0]"

text \<open>not arrived so far\<close>

definition zh_now_not_arrived :: string where
  "zh_now_not_arrived =
     [CHR 0xE5, CHR 0xBD, CHR 0x93, CHR 0xE5, CHR 0x89, CHR 0x8D, CHR 0xE6, CHR 0x9C, CHR
     0xAA, CHR 0xE5, CHR 0x88, CHR 0xB0]"

text \<open>late\<close>

definition zh_late :: string where
  "zh_late =
     [CHR 0xE8, CHR 0xBF, CHR 0x9F, CHR 0xE5, CHR 0x88, CHR 0xB0]"

text \<open>rest\<close>

definition zh_rest :: string where
  "zh_rest =
     [CHR 0xE4, CHR 0xBC, CHR 0x91, CHR 0xE6, CHR 0x81, CHR 0xAF]"

text \<open>heading of the on-time line\<close>

definition zh_on_time_line :: string where
  "zh_on_time_line =
     [CHR 0xF0, CHR 0x9F, CHR 0x8C, CHR 0x9F, CHR 0xE5, CHR 0x87, CHR 0x86, CHR 0xE6, CHR
     0x97, CHR 0xB6, CHR 0xE5, CHR 0x88, CHR 0xB0] @ ''(''"

text \<open>heading of the leave line\<close>

definition zh_leave_line :: string where
  "zh_leave_line =
     [CHR 0xE2, CHR 0x8F, CHR 0xB3, CHR 0xE8, CHR 0xAF, CHR 0xB7, CHR 0xE5, CHR 0x81, CHR
     0x87] @ ''(''"

text \<open>heading of the rest line\<close>

definition zh_rest_line :: string where
  "zh_rest_line =
     [CHR 0xF0, CHR 0x9F, CHR 0x98, CHR 0xB4, CHR 0xE4, CHR 0xBC, CHR 0x91, CHR 0xE6, CHR
     0x81, CHR 0xAF, CHR 0xE6, CHR 0x97, CHR 0xA5] @ ''(''"

text \<open>heading of the late line\<close>

definition zh_late_line :: string where
  "zh_late_line =
     [CHR 0xE2, CHR 0x9D, CHR 0x97, CHR 0xE8, CHR 0xBF, CHR 0x9F, CHR 0xE5, CHR 0x88, CHR
     0xB0] @ ''(''"

text \<open>heading of the not-arrived line without a view mode\<close>

definition zh_absent_late_line :: string where
  "zh_absent_late_line =
     [CHR 0xE2, CHR 0x9D, CHR 0x97, CHR 0xEF, CHR 0xB8, CHR 0x8F, CHR 0xEF, CHR 0xB8, CHR
     0x8F, CHR 0xE8, CHR 0xBF, CHR 0x9F, CHR 0xE5, CHR 0x88, CHR 0xB0] @ ''(''"

text \<open>hourglass\<close>

definition zh_hourglass :: string where
  "zh_hourglass =
     [CHR 0xE2, CHR 0x8F, CHR 0xB3]"

text \<open>Monday\<close>

definition zh_mon :: string where
  "zh_mon =
     [CHR 0xE5, CHR 0x91, CHR 0xA8, CHR 0xE4, CHR 0xB8, CHR 0x80]"

text \<open>Tuesday\<close>

definition zh_tue :: string where
  "zh_tue =
     [CHR 0xE5, CHR 0x91, CHR 0xA8, CHR 0xE4, CHR 0xBA, CHR 0x8C]"

text \<open>Wednesday\<close>

definition zh_wed :: string where
  "zh_wed =
     [CHR 0xE5, CHR 0x91, CHR 0xA8, CHR 0xE4, CHR 0xB8, CHR 0x89]"

text \<open>Thursday\<close>

definition zh_thu :: string where
  "zh_thu =
     [CHR 0xE5, CHR 0x91, CHR 0xA8, CHR 0xE5, CHR 0x9B, CHR 0x9B]"

text \<open>Friday\<close>

definition zh_fri :: string where
  "zh_fri =
     [CHR 0xE5, CHR 0x91, CHR 0xA8, CHR 0xE4, CHR 0xBA, CHR 0x94]"

text \<open>Saturday\<close>

definition zh_sat :: string where
  "zh_sat =
     [CHR 0xE5, CHR 0x91, CHR 0xA8, CHR 0xE5, CHR 0x85, CHR 0xAD]"

text \<open>Sunday\<close>

definition zh_sun :: string where
  "zh_sun =
     [CHR 0xE5, CHR 0x91, CHR 0xA8, CHR 0xE6, CHR 0x97, CHR 0xA5]"

text \<open>no weekday\<close>

definition zh_no_day :: string where
  "zh_no_day =
     [CHR 0xE5, CHR 0x91, CHR 0xA8] @ ''?''"

end
