(* ===== verification/Models.thy ===== *)
theory Models
  imports WeekUtil Messages
begin

text \<open>
  The data of the attendance subsystem: the table rows of internal/model, the transfer objects
  of internal/dto/attendance\_record.go and sign\_attendance.go, the error values of
  internal/errs, internal/response and gorm, and the request context of internal/tenantctx.
  The bookkeeping columns \<open>created_at\<close> and \<open>updated_at\<close>, and columns no modelled
  function reads (phone, pinyin, raw form data), are left out of the rows; \<open>deleted_at\<close> is the
  flag \<open>Deleted\<close>.
\<close>

section \<open>Errors\<close>

datatype goerror =
    BizError int string
  | MsgErr string goerror
  | ErrRecordNotFound
  | ErrTenantMissing
  | ErrUserNotFound
  | DBError string
  | TextError string
  | SlotError slot_error
  | SemesterError semester_error
  | RuntimePanic string

definition codeUnauthorized :: int where "codeUnauthorized = 10000"
definition codeInvalidParam :: int where "codeInvalidParam = 20001"
definition codeNotFound :: int where "codeNotFound = 30001"
definition codeOperationFailed :: int where "codeOperationFailed = 30003"
definition codeInternalError :: int where "codeInternalError = 40001"

definition errInvalidParamWithMsg :: "string \<Rightarrow> goerror" where
  "errInvalidParamWithMsg msg = BizError codeInvalidParam msg"

definition errNotFoundWithMsg :: "string \<Rightarrow> goerror" where
  "errNotFoundWithMsg msg = BizError codeNotFound msg"

text \<open>\<open>errors.Is(err, gorm.ErrRecordNotFound)\<close> follows the \<open>Unwrap\<close> chain.\<close>

fun isRecordNotFound :: "goerror \<Rightarrow> bool" where
  "isRecordNotFound ErrRecordNotFound = True"
| "isRecordNotFound (MsgErr _ e) = isRecordNotFound e"
| "isRecordNotFound _ = False"

text \<open>\<open>if err != nil \{ return nil, err \}\<close> and \<open>errs.WrapMsgErr\<close>.\<close>

definition bindR :: "goerror + 'a \<Rightarrow> ('a \<Rightarrow> goerror + 'b) \<Rightarrow> goerror + 'b" where
  "bindR m f = (case m of Inl e \<Rightarrow> Inl e | Inr x \<Rightarrow> f x)"

definition wrapR :: "string \<Rightarrow> goerror + 'a \<Rightarrow> goerror + 'a" where
  "wrapR msg m = (case m of Inl e \<Rightarrow> Inl (MsgErr msg e) | Inr x \<Rightarrow> Inr x)"

lemma bindR_Inr [simp]: "bindR (Inr x) f = f x"
  and bindR_Inl [simp]: "bindR (Inl e) f = Inl e"
  and wrapR_Inr [simp]: "wrapR msg (Inr x) = Inr x"
  and wrapR_Inl [simp]: "wrapR msg (Inl e) = Inl (MsgErr msg e)"
  by (simp_all add: bindR_def wrapR_def)

lemma bindR_eq_Inr_iff: "bindR m f = Inr y \<longleftrightarrow> (\<exists>x. m = Inr x \<and> f x = Inr y)"
  by (cases m) auto

lemma wrapR_eq_Inr_iff [simp]: "wrapR msg m = Inr x \<longleftrightarrow> m = Inr x"
  by (cases m) auto

section \<open>The request context\<close>

record goctx =
  Ctx_TenantID :: "nat option"
  Ctx_SkipTenantScope :: bool

definition tenantIDFrom :: "goctx \<Rightarrow> nat option" where
  "tenantIDFrom ctx =
     (case Ctx_TenantID ctx of Some t \<Rightarrow> if t = 0 then None else Some t | None \<Rightarrow> None)"

section \<open>Rows\<close>

record user =
  U_ID :: nat
  U_TenantID :: nat
  U_DingUserID :: string
  U_Name :: string
  U_Avatar :: string
  U_Role :: int
  U_Status :: int
  U_Deleted :: bool

record department =
  D_TenantID :: nat
  D_DeptID :: int
  D_Name :: string
  D_Status :: int

record user_department =
  UD_TenantID :: nat
  UD_UserID :: nat
  UD_DeptID :: int

record course =
  Co_ID :: nat
  Co_TenantID :: nat
  Co_UserID :: nat
  Co_SemesterID :: "nat option"
  Co_CourseName :: string
  Co_Teacher :: string
  Co_Location :: string
  Co_DayOfWeek :: int
  Co_Section :: int
  Co_WeekList :: string
  Co_Deleted :: bool

record leave_approval =
  LA_ID :: nat
  LA_TenantID :: nat
  LA_ProcessInstanceID :: string
  LA_DingUserID :: string
  LA_UserID :: nat
  LA_StartAt :: instant
  LA_EndAt :: instant
  LA_LeaveType :: string
  LA_Reason :: string
  LA_Result :: string
  LA_Deleted :: bool

record attendance_record =
  AR_ID :: nat
  AR_TenantID :: nat
  AR_Date :: instant
  AR_Week :: int
  AR_Section :: int
  AR_OnTimeIDs :: string
  AR_LateIDs :: string
  AR_LeaveIDs :: string
  AR_NotArrivedIDs :: string
  AR_RestDayIDs :: string
  AR_HasCourseIDs :: string
  AR_Deleted :: bool

record manual_override =
  MO_ID :: nat
  MO_TenantID :: nat
  MO_Date :: instant
  MO_Week :: int
  MO_Section :: int
  MO_UserID :: nat
  MO_OverrideType :: string
  MO_OperatorID :: nat
  MO_AppliedAt :: instant
  MO_Deleted :: bool

record user_rest_day =
  RD_ID :: nat
  RD_TenantID :: nat
  RD_UserID :: nat
  RD_DayOfWeek :: "int option"

record schedule_setting =
  SS_ID :: nat
  SS_TenantID :: nat
  SS_CurrentMode :: string
  SS_SchoolSeason :: string
  SS_AttendanceEnabled :: bool
  SS_ScheduleChangeNotifyEnabled :: bool
  SS_LateNotifyEnabled :: bool
  SS_RestDayEditingAllowed :: bool
  SS_RestDayAttendanceEnabled :: bool

record schedule_period =
  SP_ID :: nat
  SP_TenantID :: nat
  SP_Mode :: string
  SP_Name :: string
  SP_StartTime :: string
  SP_EndTime :: string
  SP_SortOrder :: int
  SP_IsActive :: bool

text \<open>\<open>dingtalk.CheckRecord\<close>.\<close>

record check_record =
  CR_DingUserID :: string
  CR_CheckTime :: instant
  CR_CheckType :: string

section \<open>Transfer objects\<close>

record AttendanceDetailRequest =
  Req_Date :: string
  Req_Week :: int
  Req_Section :: int
  Req_DeptIDs :: "int list"

record AttendanceUserBasic =
  B_ID :: nat
  B_Name :: string
  B_Avatar :: string
  B_DeptName :: string

record AttendanceUserCheck =
  C_ID :: nat
  C_Name :: string
  C_Avatar :: string
  C_DeptName :: string
  C_CheckTime :: instant

record AttendanceUserLeave =
  L_ID :: nat
  L_Name :: string
  L_Avatar :: string
  L_DeptName :: string
  L_LeaveType :: string
  L_Reason :: string

record AttendanceStatistics =
  St_ShouldAttend :: nat
  St_OnTime :: nat
  St_Late :: nat
  St_Leave :: nat
  St_NotArrived :: nat
  St_RestDay :: nat
  St_HasCourse :: nat

record AttendanceUserLists =
  Us_ShouldAttend :: "AttendanceUserBasic list"
  Us_OnTime :: "AttendanceUserCheck list"
  Us_Late :: "AttendanceUserCheck list"
  Us_Leave :: "AttendanceUserLeave list"
  Us_NotArrived :: "AttendanceUserBasic list"
  Us_RestDay :: "AttendanceUserBasic list"
  Us_HasCourse :: "AttendanceUserBasic list"

record AttendanceDetailResponse =
  Resp_RecordID :: nat
  Resp_Date :: string
  Resp_Week :: int
  Resp_Section :: int
  Resp_ViewMode :: string
  Resp_IsFinalized :: bool
  Resp_FinalizeAt :: instant
  Resp_SlotStart :: string
  Resp_SlotEnd :: string
  Resp_Statistics :: AttendanceStatistics
  Resp_Users :: AttendanceUserLists

record StoredUserCheck =
  SC_ID :: nat
  SC_CheckTime :: int

record StoredUserLeave =
  SL_ID :: nat
  SL_LeaveType :: string
  SL_Reason :: string

record SignForUserRequest =
  Sign_RecordID :: nat
  Sign_Date :: string
  Sign_Section :: int
  Sign_OperatorID :: nat
  Sign_TargetUserIDs :: "nat list"

record SignForUserResponse =
  Sign_SuccessIDs :: "nat list"
  Sign_FailedIDs :: "nat list"

section \<open>Identifier sets of the lists\<close>

abbreviation basic_ids :: "AttendanceUserBasic list \<Rightarrow> nat set" where
  "basic_ids \<equiv> ids_of B_ID"

abbreviation check_ids :: "AttendanceUserCheck list \<Rightarrow> nat set" where
  "check_ids \<equiv> ids_of C_ID"

abbreviation leave_ids :: "AttendanceUserLeave list \<Rightarrow> nat set" where
  "leave_ids \<equiv> ids_of L_ID"

abbreviation user_ids :: "user list \<Rightarrow> nat set" where
  "user_ids \<equiv> ids_of U_ID"

text \<open>What the statistics of a response promise about its lists.\<close>

definition statistics_of :: "AttendanceUserLists \<Rightarrow> AttendanceStatistics" where
  "statistics_of us =
     \<lparr>St_ShouldAttend = length (Us_ShouldAttend us), St_OnTime = length (Us_OnTime us),
      St_Late = length (Us_Late us), St_Leave = length (Us_Leave us),
      St_NotArrived = length (Us_NotArrived us), St_RestDay = length (Us_RestDay us),
      St_HasCourse = length (Us_HasCourse us)\<rparr>"

end
