(* ===== verification/AttendanceColumns.thy ===== *)
theory AttendanceColumns
  imports GoJson Models
begin

text \<open>
  The JSON text columns of \<open>attendance_records\<close>: the \<open>serialize...\<close> methods of
  attendance\_record\_service.go, and \<open>json.Unmarshal\<close> into \<open>[]dto.StoredUserCheck\<close>,
  \<open>[]dto.StoredUserLeave\<close> and \<open>[]uint\<close>. Unmarshal matches keys without regard to case, skips
  values of the wrong type while remembering an error, and stores nothing for malformed text; a
  result is the decoded slice with the error flag. The lemmas show that each column reads back
  as it was written.
\<close>

section \<open>Writing\<close>

definition check_json :: "StoredUserCheck \<Rightarrow> json" where
  "check_json c = JObj [(''id'', JNum (int (SC_ID c))), (''check_time'', JNum (SC_CheckTime c))]"

definition leave_json :: "StoredUserLeave \<Rightarrow> json" where
  "leave_json l =
     JObj [(''id'', JNum (int (SL_ID l))), (''leave_type'', JStr (SL_LeaveType l)),
           (''reason'', JStr (SL_Reason l))]"

definition marshalChecks :: "StoredUserCheck list \<Rightarrow> string" where
  "marshalChecks cs = print_json (JArr (map check_json cs))"

definition marshalLeaves :: "StoredUserLeave list \<Rightarrow> string" where
  "marshalLeaves ls = print_json (JArr (map leave_json ls))"

definition marshalIDs :: "nat list \<Rightarrow> string" where
  "marshalIDs ids = print_json (JArr (map (\<lambda>i. JNum (int i)) ids))"

definition serializeOnTimeUsers :: "AttendanceUserCheck list \<Rightarrow> string" where
  "serializeOnTimeUsers users =
     marshalChecks (map (\<lambda>u. \<lparr>SC_ID = C_ID u, SC_CheckTime = toUnix (C_CheckTime u)\<rparr>) users)"

definition serializeLeaveUsers :: "AttendanceUserLeave list \<Rightarrow> string" where
  "serializeLeaveUsers users =
     marshalLeaves (map (\<lambda>u. \<lparr>SL_ID = L_ID u, SL_LeaveType = L_LeaveType u,
                                SL_Reason = L_Reason u\<rparr>) users)"

definition serializeNotArrivedUsers :: "AttendanceUserBasic list \<Rightarrow> string" where
  "serializeNotArrivedUsers users = marshalIDs (map B_ID users)"

definition serializeRestDayUsers :: "AttendanceUserBasic list \<Rightarrow> string" where
  "serializeRestDayUsers users = marshalIDs (map B_ID users)"

definition serializeBasicUsers :: "AttendanceUserBasic list \<Rightarrow> string" where
  "serializeBasicUsers users = marshalIDs (map B_ID users)"

section \<open>Reading\<close>

text \<open>\<open>foldName\<close>: the two runes outside ASCII that fold to a letter are U+017F and U+212A.\<close>

definition fold_rune :: "nat \<Rightarrow> nat" where
  "fold_rune r =
     (if 97 \<le> r \<and> r \<le> 122 then r - 32 else if r = 383 then 83 else if r = 8490 then 75 else r)"

definition foldName :: "string \<Rightarrow> nat list" where
  "foldName s = map (\<lambda>(r, ok, bytes). fold_rune r) (rune_chunks s)"

definition fieldMatches :: "string \<Rightarrow> string \<Rightarrow> bool" where
  "fieldMatches field key \<longleftrightarrow> key = field \<or> foldName key = foldName field"

definition maxUint64 :: int where "maxUint64 = 18446744073709551615"

definition setUint :: "json \<Rightarrow> nat \<Rightarrow> nat \<times> bool" where
  "setUint v old =
     (case v of
        JNum n \<Rightarrow> if 0 \<le> n \<and> n \<le> maxUint64 then (nat n, False) else (old, True)
      | JNull \<Rightarrow> (old, False)
      | _ \<Rightarrow> (old, True))"

definition setInt64 :: "json \<Rightarrow> int \<Rightarrow> int \<times> bool" where
  "setInt64 v old =
     (case v of
        JNum n \<Rightarrow> if minInt64 \<le> n \<and> n \<le> maxInt64 then (n, False) else (old, True)
      | JLit s \<Rightarrow> if s = ''-0'' then (0, False) else (old, True)
      | JNull \<Rightarrow> (old, False)
      | _ \<Rightarrow> (old, True))"

definition setString :: "json \<Rightarrow> string \<Rightarrow> string \<times> bool" where
  "setString v old =
     (case v of JStr s \<Rightarrow> (s, False) | JNull \<Rightarrow> (old, False) | _ \<Rightarrow> (old, True))"

definition zeroCheck :: StoredUserCheck where
  "zeroCheck = \<lparr>SC_ID = 0, SC_CheckTime = 0\<rparr>"

definition zeroLeave :: StoredUserLeave where
  "zeroLeave = \<lparr>SL_ID = 0, SL_LeaveType = [], SL_Reason = []\<rparr>"

definition setCheckField ::
    "string \<times> json \<Rightarrow> StoredUserCheck \<times> bool \<Rightarrow> StoredUserCheck \<times> bool" where
  "setCheckField m acc =
     (case (m, acc) of ((k, v), (c, err)) \<Rightarrow>
        if fieldMatches ''id'' k then
          (case setUint v (SC_ID c) of (x, e) \<Rightarrow> (c\<lparr>SC_ID := x\<rparr>, err \<or> e))
        else if fieldMatches ''check_time'' k then
          (case setInt64 v (SC_CheckTime c) of (x, e) \<Rightarrow> (c\<lparr>SC_CheckTime := x\<rparr>, err \<or> e))
        else (c, err))"

definition decodeCheck :: "json \<Rightarrow> StoredUserCheck \<times> bool" where
  "decodeCheck v =
     (case v of
        JObj ms \<Rightarrow> fold setCheckField ms (zeroCheck, False)
      | JNull \<Rightarrow> (zeroCheck, False)
      | _ \<Rightarrow> (zeroCheck, True))"

definition setLeaveField ::
    "string \<times> json \<Rightarrow> StoredUserLeave \<times> bool \<Rightarrow> StoredUserLeave \<times> bool" where
  "setLeaveField m acc =
     (case (m, acc) of ((k, v), (c, err)) \<Rightarrow>
        if fieldMatches ''id'' k then
          (case setUint v (SL_ID c) of (x, e) \<Rightarrow> (c\<lparr>SL_ID := x\<rparr>, err \<or> e))
        else if fieldMatches ''leave_type'' k then
          (case setString v (SL_LeaveType c) of (x, e) \<Rightarrow> (c\<lparr>SL_LeaveType := x\<rparr>, err \<or> e))
        else if fieldMatches ''reason'' k then
          (case setString v (SL_Reason c) of (x, e) \<Rightarrow> (c\<lparr>SL_Reason := x\<rparr>, err \<or> e))
        else (c, err))"

definition decodeLeave :: "json \<Rightarrow> StoredUserLeave \<times> bool" where
  "decodeLeave v =
     (case v of
        JObj ms \<Rightarrow> fold setLeaveField ms (zeroLeave, False)
      | JNull \<Rightarrow> (zeroLeave, False)
      | _ \<Rightarrow> (zeroLeave, True))"

text \<open>\<open>json.Unmarshal([]byte(raw), &slice)\<close> with a nil slice.\<close>

definition unmarshalSlice :: "(json \<Rightarrow> 'a \<times> bool) \<Rightarrow> string \<Rightarrow> 'a list \<times> bool" where
  "unmarshalSlice decode raw =
     (case parse_json raw of
        None \<Rightarrow> ([], True)
      | Some (JArr vs) \<Rightarrow> (map (fst \<circ> decode) vs, list_ex (snd \<circ> decode) vs)
      | Some JNull \<Rightarrow> ([], False)
      | Some _ \<Rightarrow> ([], True))"

definition unmarshalChecks :: "string \<Rightarrow> StoredUserCheck list \<times> bool" where
  "unmarshalChecks = unmarshalSlice decodeCheck"

definition unmarshalLeaves :: "string \<Rightarrow> StoredUserLeave list \<times> bool" where
  "unmarshalLeaves = unmarshalSlice decodeLeave"

definition unmarshalIDs :: "string \<Rightarrow> nat list \<times> bool" where
  "unmarshalIDs = unmarshalSlice (\<lambda>v. setUint v 0)"

section \<open>Round trips\<close>

definition check_ok :: "StoredUserCheck \<Rightarrow> bool" where
  "check_ok c \<longleftrightarrow> int (SC_ID c) \<le> maxUint64 \<and> minInt64 \<le> SC_CheckTime c \<and> SC_CheckTime c \<le> maxInt64"

definition leave_ok :: "StoredUserLeave \<Rightarrow> bool" where
  "leave_ok l \<longleftrightarrow> int (SL_ID l) \<le> maxUint64 \<and> validString (SL_LeaveType l) \<and> validString (SL_Reason l)"

lemma field_names_valid [simp]:
  "validString ''id''" "validString ''check_time''" "validString ''leave_type''"
  "validString ''reason''"
  by (simp_all add: ascii_def)

lemma foldName_ascii: "ascii s \<Longrightarrow> foldName s = map (\<lambda>c. fold_rune (byte_of c)) s"
  by (simp add: foldName_def rune_chunks_ascii)

lemma field_names [simp]:
  "fieldMatches ''id'' ''id''" "fieldMatches ''check_time'' ''check_time''"
  "\<not> fieldMatches ''id'' ''check_time''" "fieldMatches ''leave_type'' ''leave_type''"
  "fieldMatches ''reason'' ''reason''" "\<not> fieldMatches ''id'' ''leave_type''"
  "\<not> fieldMatches ''id'' ''reason''" "\<not> fieldMatches ''leave_type'' ''reason''"
  by (simp_all add: fieldMatches_def foldName_ascii ascii_def fold_rune_def)

lemma decode_check_json: "check_ok c \<Longrightarrow> decodeCheck (check_json c) = (c, False)"
  by (simp add: decodeCheck_def check_json_def setCheckField_def zeroCheck_def setUint_def
      setInt64_def check_ok_def)

lemma decode_leave_json: "leave_ok l \<Longrightarrow> decodeLeave (leave_json l) = (l, False)"
  by (simp add: decodeLeave_def leave_json_def setLeaveField_def zeroLeave_def setUint_def
      setString_def leave_ok_def)

lemma unmarshalSlice_print:
  assumes "\<And>x. x \<in> set xs \<Longrightarrow> valid_json (enc x)" and "\<And>x. x \<in> set xs \<Longrightarrow> dec (enc x) = (x, False)"
  shows "unmarshalSlice dec (print_json (JArr (map enc xs))) = (xs, False)"
proof -
  have "parse_json (print_json (JArr (map enc xs))) = Some (JArr (map enc xs))"
    using assms(1) by (intro parse_print) auto
  moreover have "map (fst \<circ> dec \<circ> enc) xs = xs" "\<not> list_ex (snd \<circ> dec \<circ> enc) xs"
    using assms(2) by (auto simp: list_ex_iff intro: map_idI)
  ultimately show ?thesis
    by (simp add: unmarshalSlice_def list_ex_iff comp_assoc)
qed

lemma unmarshal_marshalChecks: "list_all check_ok cs \<Longrightarrow> unmarshalChecks (marshalChecks cs) = (cs, False)"
  unfolding unmarshalChecks_def marshalChecks_def
  by (rule unmarshalSlice_print; simp add: list_all_iff decode_check_json) (simp add: check_json_def)

lemma unmarshal_marshalLeaves: "list_all leave_ok ls \<Longrightarrow> unmarshalLeaves (marshalLeaves ls) = (ls, False)"
  unfolding unmarshalLeaves_def marshalLeaves_def
  by (rule unmarshalSlice_print; simp add: list_all_iff decode_leave_json)
    (simp add: leave_json_def leave_ok_def)

lemma unmarshal_marshalIDs:
  "list_all (\<lambda>i. int i \<le> maxUint64) ids \<Longrightarrow> unmarshalIDs (marshalIDs ids) = (ids, False)"
  unfolding unmarshalIDs_def marshalIDs_def
  by (rule unmarshalSlice_print) (auto simp: list_all_iff setUint_def)

end
