(* ===== verification/Repositories.thy ===== *)
theory Repositories
  imports Models
begin

text \<open>
  internal/repository over an explicit database: one list of rows per table, and the set of
  statements that currently fail, so that every repository error path can be taken. The tenant
  plugin (tenant\_gorm\_plugin.go) is \<open>tenantScope\<close>: it rejects a context without tenant,
  restricts queries and updates to the tenant's rows, and overwrites the tenant of created rows.
  \<open>First\<close> takes the row with the smallest primary key, \<open>Order\<close> is a stable sort and a query
  without \<open>Order\<close> returns rows in table order. The locale \<open>upsert_table\<close> gives the contract
  of the \<open>ON CONFLICT\<close> writes, interpreted on every upserted table.
\<close>

section \<open>Database state\<close>

record database =
  DB_Faults :: "string list"
  DB_Tz :: int
  DB_Users :: "user list"
  DB_Departments :: "department list"
  DB_UserDepartments :: "user_department list"
  DB_Courses :: "course list"
  DB_LeaveApprovals :: "leave_approval list"
  DB_AttendanceRecords :: "attendance_record list"
  DB_ManualOverrides :: "manual_override list"
  DB_RestDays :: "user_rest_day list"
  DB_ScheduleSettings :: "schedule_setting list"
  DB_SchedulePeriods :: "schedule_period list"
  DB_Semesters :: "semester list"

text \<open>\<open>tenantIDForStatement\<close>: \<open>None\<close> is an unscoped statement.\<close>

definition tenantScope :: "goctx \<Rightarrow> goerror + nat option" where
  "tenantScope ctx =
     (if Ctx_SkipTenantScope ctx then Inr None
      else case tenantIDFrom ctx of None \<Rightarrow> Inl ErrTenantMissing | Some t \<Rightarrow> Inr (Some t))"

definition inScope :: "nat option \<Rightarrow> nat \<Rightarrow> bool" where
  "inScope scope tenantID = (case scope of None \<Rightarrow> True | Some t \<Rightarrow> tenantID = t)"

definition statement :: "string \<Rightarrow> goctx \<Rightarrow> database \<Rightarrow> goerror + nat option" where
  "statement op ctx db =
     bindR (tenantScope ctx)
       (\<lambda>scope. if op \<in> set (DB_Faults db) then Inl (DBError op) else Inr scope)"

definition selectRows ::
    "string \<Rightarrow> goctx \<Rightarrow> database \<Rightarrow> ('r \<Rightarrow> nat) \<Rightarrow> ('r \<Rightarrow> bool) \<Rightarrow> 'r list \<Rightarrow> goerror + 'r list" where
  "selectRows op ctx db tenantOf P rows =
     bindR (statement op ctx db)
       (\<lambda>scope. Inr (filter (\<lambda>r. inScope scope (tenantOf r) \<and> P r) rows))"

definition orderR :: "('r \<Rightarrow> 'k::linorder) \<Rightarrow> goerror + 'r list \<Rightarrow> goerror + 'r list" where
  "orderR key m = bindR m (\<lambda>rows. Inr (sort_key key rows))"

definition firstR :: "('r \<Rightarrow> nat) \<Rightarrow> goerror + 'r list \<Rightarrow> goerror + 'r" where
  "firstR idOf m =
     bindR m (\<lambda>rows. case sort_key idOf rows of [] \<Rightarrow> Inl ErrRecordNotFound | r # _ \<Rightarrow> Inr r)"

lemma selectRows_InrD:
  "selectRows op ctx db tenantOf P rows = Inr rs \<Longrightarrow>
     set rs \<subseteq> set rows \<and> (\<forall>r \<in> set rs. P r)"
  by (auto simp: selectRows_def bindR_eq_Inr_iff)

lemma selectRows_distinct:
  "selectRows op ctx db tenantOf P rows = Inr rs \<Longrightarrow> distinct (map f rows) \<Longrightarrow>
     distinct (map f rs)"
  by (auto simp: selectRows_def bindR_eq_Inr_iff distinct_map_filter)

lemma orderR_eq_Inr_iff: "orderR key m = Inr rs \<longleftrightarrow> (\<exists>us. m = Inr us \<and> rs = sort_key key us)"
  by (auto simp: orderR_def bindR_eq_Inr_iff)

lemma firstR_eq_Inr:
  assumes "firstR idOf m = Inr r"
  shows "\<exists>rows. m = Inr rows \<and> r \<in> set rows"
proof -
  obtain rows where rows: "m = Inr rows" using assms by (cases m) (auto simp: firstR_def)
  with assms obtain us where "sort_key idOf rows = r # us"
    by (cases "sort_key idOf rows") (auto simp: firstR_def)
  then have "r \<in> set (sort_key idOf rows)" by simp
  with rows show ?thesis by simp
qed

lemma tenantScope_scoped:
  "\<not> Ctx_SkipTenantScope ctx \<Longrightarrow> statement op ctx db = Inr scope \<Longrightarrow>
     scope = tenantIDFrom ctx \<and> scope \<noteq> None"
  by (auto simp: statement_def tenantScope_def bindR_def split: option.splits if_splits dest: sym)

section \<open>Created and upserted rows\<close>

definition freshID :: "('r \<Rightarrow> nat) \<Rightarrow> 'r list \<Rightarrow> nat" where
  "freshID idOf rows = Suc (fold (\<lambda>r n. max (idOf r) n) rows 0)"

lemma fold_max_ge:
  "(n :: nat) \<le> fold (\<lambda>r n. max (f r) n) rows n"
proof (induction rows arbitrary: n)
  case Nil
  then show ?case by simp
next
  case (Cons r rows)
  have "max (f r) n \<le> fold (\<lambda>r n. max (f r) n) rows (max (f r) n)" by (rule Cons)
  then show ?case by simp
qed

lemma fold_max_upper:
  "r \<in> set rows \<Longrightarrow> (f r :: nat) \<le> fold (\<lambda>r n. max (f r) n) rows n"
proof (induction rows arbitrary: n)
  case Nil
  then show ?case by simp
next
  case (Cons q rows)
  have "max (f q) n \<le> fold (\<lambda>r n. max (f r) n) rows (max (f q) n)" by (rule fold_max_ge)
  with Cons show ?case by auto
qed

lemma freshID_fresh: "freshID idOf rows \<notin> idOf ` set rows"
  using fold_max_upper [of _ rows idOf 0] by (fastforce simp: freshID_def)

text \<open>\<open>Clauses(OnConflict\{Columns, DoUpdates\}).Create(row)\<close>: a row with the same key is merged,
  otherwise the row is inserted under a new primary key.\<close>

definition upsertRows ::
    "('r \<Rightarrow> 'k) \<Rightarrow> ('r \<Rightarrow> nat) \<Rightarrow> (nat \<Rightarrow> 'r \<Rightarrow> 'r) \<Rightarrow> ('r \<Rightarrow> 'r \<Rightarrow> 'r) \<Rightarrow> 'r \<Rightarrow> 'r list \<Rightarrow> 'r list" where
  "upsertRows key idOf setID merge new rows =
     (if key new \<in> key ` set rows
      then map (\<lambda>r. if key r = key new then merge new r else r) rows
      else rows @ [setID (freshID idOf rows) new])"

lemma filter_map_other:
  assumes "\<And>r. key (m r) = key r" and "k \<noteq> c"
  shows "filter (\<lambda>r. key r = k) (map (\<lambda>r. if key r = c then m r else r) rows)
           = filter (\<lambda>r. key r = k) rows"
  using assms by (induct rows) auto

lemma filter_map_same:
  assumes "\<And>r. key (m r) = key r"
  shows "filter (\<lambda>r. key r = c) (map (\<lambda>r. if key r = c then m r else r) rows)
           = map m (filter (\<lambda>r. key r = c) rows)"
  using assms by (induct rows) auto

locale upsert_table =
  fixes key :: "'r \<Rightarrow> 'k"
    and idOf :: "'r \<Rightarrow> nat"
    and setID :: "nat \<Rightarrow> 'r \<Rightarrow> 'r"
    and merge :: "'r \<Rightarrow> 'r \<Rightarrow> 'r"
  assumes key_setID: "key (setID n r) = key r"
    and key_merge: "key (merge new r) = key r"
    and id_setID: "idOf (setID n r) = n"
    and id_merge: "idOf (merge new r) = idOf r"
begin

lemma upsert_map_key:
  "map key (map (\<lambda>r. if key r = key new then merge new r else r) rows) = map key rows"
  by (simp add: key_merge)

lemma upsert_keys:
  "key ` set (upsertRows key idOf setID merge new rows) = insert (key new) (key ` set rows)"
  using arg_cong [OF upsert_map_key [of new rows], of set]
  by (auto simp: upsertRows_def key_setID simp del: map_map)

lemma upsert_map_id:
  "map idOf (map (\<lambda>r. if key r = key new then merge new r else r) rows) = map idOf rows"
  by (simp add: id_merge)

lemma upsert_distinct_keys:
  "distinct (map key rows) \<Longrightarrow> distinct (map key (upsertRows key idOf setID merge new rows))"
  using upsert_map_key [of new rows] by (auto simp: upsertRows_def key_setID simp del: map_map)

lemma upsert_distinct_ids:
  "distinct (map idOf rows) \<Longrightarrow> distinct (map idOf (upsertRows key idOf setID merge new rows))"
  using upsert_map_id [of new rows] freshID_fresh [of idOf rows]
  by (auto simp: upsertRows_def id_setID simp del: map_map)

text \<open>The rows of other keys are untouched, and the key's rows are the merged ones or the new one.\<close>

lemma upsert_other:
  "k \<noteq> key new \<Longrightarrow>
     filter (\<lambda>r. key r = k) (upsertRows key idOf setID merge new rows)
       = filter (\<lambda>r. key r = k) rows"
proof -
  assume k: "k \<noteq> key new"
  have "filter (\<lambda>r. key r = k) (map (\<lambda>r. if key r = key new then merge new r else r) rows)
          = filter (\<lambda>r. key r = k) rows"
    using k by (intro filter_map_other) (simp_all add: key_merge)
  with k show ?thesis by (simp add: upsertRows_def key_setID)
qed

lemma upsert_same:
  "filter (\<lambda>r. key r = key new) (upsertRows key idOf setID merge new rows)
     = (if key new \<in> key ` set rows
        then map (merge new) (filter (\<lambda>r. key r = key new) rows)
        else [setID (freshID idOf rows) new])"
proof -
  have "filter (\<lambda>r. key r = key new) (map (\<lambda>r. if key r = key new then merge new r else r) rows)
          = map (merge new) (filter (\<lambda>r. key r = key new) rows)"
    by (intro filter_map_same) (simp add: key_merge)
  moreover have "key new \<notin> key ` set rows \<Longrightarrow> filter (\<lambda>r. key r = key new) rows = []"
    by (auto simp: filter_empty_conv image_iff)
  ultimately show ?thesis by (simp add: upsertRows_def key_setID)
qed

end

section \<open>attendance\_record\_repository.go\<close>

text \<open>The unique index \<open>uniq_tenant_date_section\<close>.\<close>

definition ar_key :: "attendance_record \<Rightarrow> nat \<times> instant \<times> int" where
  "ar_key r = (AR_TenantID r, AR_Date r, AR_Section r)"

definition ar_merge :: "attendance_record \<Rightarrow> attendance_record \<Rightarrow> attendance_record" where
  "ar_merge new r =
     r\<lparr>AR_Week := AR_Week new, AR_OnTimeIDs := AR_OnTimeIDs new, AR_LateIDs := AR_LateIDs new,
       AR_LeaveIDs := AR_LeaveIDs new, AR_NotArrivedIDs := AR_NotArrivedIDs new,
       AR_RestDayIDs := AR_RestDayIDs new, AR_HasCourseIDs := AR_HasCourseIDs new\<rparr>"

definition ar_Upsert :: "goctx \<Rightarrow> attendance_record \<Rightarrow> database \<Rightarrow> goerror option \<times> database" where
  "ar_Upsert ctx record db =
     (case statement ''attendanceRecord.Upsert'' ctx db of
        Inl e \<Rightarrow> (Some e, db)
      | Inr scope \<Rightarrow>
          let tenanted = (case scope of None \<Rightarrow> record | Some t \<Rightarrow> record\<lparr>AR_TenantID := t\<rparr>);
              row = tenanted\<lparr>AR_Date := midnight (DB_Tz db) (AR_Date record)\<rparr>
          in (None, db\<lparr>DB_AttendanceRecords :=
                upsertRows ar_key AR_ID (\<lambda>n r. r\<lparr>AR_ID := n\<rparr>) ar_merge row
                  (DB_AttendanceRecords db)\<rparr>))"

definition ar_FindByDateSection ::
    "goctx \<Rightarrow> instant \<Rightarrow> int \<Rightarrow> database \<Rightarrow> goerror + attendance_record" where
  "ar_FindByDateSection ctx date section db =
     firstR AR_ID
       (selectRows ''attendanceRecord.FindByDateSection'' ctx db AR_TenantID
          (\<lambda>r. AR_Date r = date \<and> AR_Section r = section \<and> \<not> AR_Deleted r)
          (DB_AttendanceRecords db))"

definition ar_ListByDate ::
    "goctx \<Rightarrow> instant \<Rightarrow> database \<Rightarrow> goerror + attendance_record list" where
  "ar_ListByDate ctx date db =
     orderR AR_Section
       (selectRows ''attendanceRecord.ListByDate'' ctx db AR_TenantID
          (\<lambda>r. AR_Date r = date \<and> \<not> AR_Deleted r) (DB_AttendanceRecords db))"

definition ar_ListByDateRange ::
    "goctx \<Rightarrow> instant \<Rightarrow> instant \<Rightarrow> database \<Rightarrow> goerror + attendance_record list" where
  "ar_ListByDateRange ctx startDate endDate db =
     orderR AR_Date (orderR AR_Section
       (selectRows ''attendanceRecord.ListByDateRange'' ctx db AR_TenantID
          (\<lambda>r. startDate \<le> AR_Date r \<and> AR_Date r \<le> endDate \<and> \<not> AR_Deleted r)
          (DB_AttendanceRecords db)))"

definition ar_FindByID :: "goctx \<Rightarrow> nat \<Rightarrow> database \<Rightarrow> goerror + attendance_record" where
  "ar_FindByID ctx recordID db =
     firstR AR_ID
       (selectRows ''attendanceRecord.FindByID'' ctx db AR_TenantID
          (\<lambda>r. AR_ID r = recordID \<and> \<not> AR_Deleted r) (DB_AttendanceRecords db))"

section \<open>attendance\_manual\_override\_repository.go\<close>

definition mo_key :: "manual_override \<Rightarrow> nat \<times> instant \<times> int \<times> nat" where
  "mo_key r = (MO_TenantID r, MO_Date r, MO_Section r, MO_UserID r)"

definition mo_merge :: "manual_override \<Rightarrow> manual_override \<Rightarrow> manual_override" where
  "mo_merge new r =
     r\<lparr>MO_Week := MO_Week new, MO_OverrideType := MO_OverrideType new,
       MO_OperatorID := MO_OperatorID new, MO_AppliedAt := MO_AppliedAt new\<rparr>"

definition mo_UpsertForceOnTime ::
    "goctx \<Rightarrow> manual_override \<Rightarrow> database \<Rightarrow> goerror option \<times> database" where
  "mo_UpsertForceOnTime ctx override db =
     (case statement ''manualOverride.UpsertForceOnTime'' ctx db of
        Inl e \<Rightarrow> (Some e, db)
      | Inr scope \<Rightarrow>
          let tenanted = (case scope of None \<Rightarrow> override | Some t \<Rightarrow> override\<lparr>MO_TenantID := t\<rparr>);
              row = tenanted\<lparr>MO_Date := midnight (DB_Tz db) (MO_Date override)\<rparr>
          in (None, db\<lparr>DB_ManualOverrides :=
                upsertRows mo_key MO_ID (\<lambda>n r. r\<lparr>MO_ID := n\<rparr>) mo_merge row
                  (DB_ManualOverrides db)\<rparr>))"

definition mo_ListByDateSection ::
    "goctx \<Rightarrow> instant \<Rightarrow> int \<Rightarrow> database \<Rightarrow> goerror + manual_override list" where
  "mo_ListByDateSection ctx date section db =
     orderR MO_UserID
       (selectRows ''manualOverride.ListByDateSection'' ctx db MO_TenantID
          (\<lambda>r. MO_Date r = date \<and> MO_Section r = section \<and> \<not> MO_Deleted r)
          (DB_ManualOverrides db))"

section \<open>user\_rest\_day\_repository.go\<close>

definition rd_key :: "user_rest_day \<Rightarrow> nat \<times> nat" where
  "rd_key r = (RD_TenantID r, RD_UserID r)"

definition rd_merge :: "user_rest_day \<Rightarrow> user_rest_day \<Rightarrow> user_rest_day" where
  "rd_merge new r = r\<lparr>RD_DayOfWeek := RD_DayOfWeek new\<rparr>"

definition rd_Upsert :: "goctx \<Rightarrow> user_rest_day \<Rightarrow> database \<Rightarrow> goerror option \<times> database" where
  "rd_Upsert ctx record db =
     (case statement ''userRestDay.Upsert'' ctx db of
        Inl e \<Rightarrow> (Some e, db)
      | Inr scope \<Rightarrow>
          let row = (case scope of None \<Rightarrow> record | Some t \<Rightarrow> record\<lparr>RD_TenantID := t\<rparr>)
          in (None, db\<lparr>DB_RestDays :=
                upsertRows rd_key RD_ID (\<lambda>n r. r\<lparr>RD_ID := n\<rparr>) rd_merge row (DB_RestDays db)\<rparr>))"

definition rd_Unset :: "goctx \<Rightarrow> nat \<Rightarrow> database \<Rightarrow> goerror option \<times> database" where
  "rd_Unset ctx userID db =
     (case statement ''userRestDay.Unset'' ctx db of
        Inl e \<Rightarrow> (Some e, db)
      | Inr scope \<Rightarrow>
          (None, db\<lparr>DB_RestDays :=
             map (\<lambda>r. if inScope scope (RD_TenantID r) \<and> RD_UserID r = userID
                      then r\<lparr>RD_DayOfWeek := None\<rparr> else r) (DB_RestDays db)\<rparr>))"

definition rd_FindByUserID :: "goctx \<Rightarrow> nat \<Rightarrow> database \<Rightarrow> goerror + user_rest_day" where
  "rd_FindByUserID ctx userID db =
     firstR RD_ID
       (selectRows ''userRestDay.FindByUserID'' ctx db RD_TenantID
          (\<lambda>r. RD_UserID r = userID) (DB_RestDays db))"

definition rd_ListByDayOfWeek ::
    "goctx \<Rightarrow> int \<Rightarrow> database \<Rightarrow> goerror + user_rest_day list" where
  "rd_ListByDayOfWeek ctx dayOfWeek db =
     selectRows ''userRestDay.ListByDayOfWeek'' ctx db RD_TenantID
       (\<lambda>r. RD_DayOfWeek r = Some dayOfWeek) (DB_RestDays db)"

definition rd_ListByUserIDs ::
    "goctx \<Rightarrow> nat list \<Rightarrow> database \<Rightarrow> goerror + user_rest_day list" where
  "rd_ListByUserIDs ctx userIDs db =
     (if userIDs = [] then Inr []
      else selectRows ''userRestDay.ListByUserIDs'' ctx db RD_TenantID
             (\<lambda>r. RD_UserID r \<in> set userIDs \<and> RD_DayOfWeek r \<noteq> None) (DB_RestDays db))"

definition rd_ListAll :: "goctx \<Rightarrow> database \<Rightarrow> goerror + user_rest_day list" where
  "rd_ListAll ctx db =
     selectRows ''userRestDay.ListAll'' ctx db RD_TenantID
       (\<lambda>r. RD_DayOfWeek r \<noteq> None) (DB_RestDays db)"

section \<open>leave\_approval\_repository.go\<close>

definition la_overlaps :: "instant \<Rightarrow> instant \<Rightarrow> leave_approval \<Rightarrow> bool" where
  "la_overlaps startAt endAt r \<longleftrightarrow> LA_StartAt r < endAt \<and> startAt < LA_EndAt r \<and> \<not> LA_Deleted r"

definition la_order :: "goerror + leave_approval list \<Rightarrow> goerror + leave_approval list" where
  "la_order m = orderR LA_StartAt (orderR LA_EndAt (orderR LA_ID m))"

definition la_key :: "leave_approval \<Rightarrow> nat \<times> string" where
  "la_key r = (LA_TenantID r, LA_ProcessInstanceID r)"

definition la_merge :: "leave_approval \<Rightarrow> leave_approval \<Rightarrow> leave_approval" where
  "la_merge new r =
     r\<lparr>LA_DingUserID := LA_DingUserID new, LA_UserID := LA_UserID new,
       LA_StartAt := LA_StartAt new, LA_EndAt := LA_EndAt new,
       LA_LeaveType := LA_LeaveType new, LA_Reason := LA_Reason new, LA_Result := LA_Result new\<rparr>"

definition la_UpsertByProcessInstanceID ::
    "goctx \<Rightarrow> leave_approval \<Rightarrow> database \<Rightarrow> goerror option \<times> database" where
  "la_UpsertByProcessInstanceID ctx rec db =
     (let trimmed = rec\<lparr>LA_ProcessInstanceID := trimSpace (LA_ProcessInstanceID rec)\<rparr>
      in if LA_ProcessInstanceID trimmed = [] then
           (Some (TextError ''process_instance_id''), db)
         else case statement ''leaveApproval.UpsertByProcessInstanceID'' ctx db of
                Inl e \<Rightarrow> (Some e, db)
              | Inr scope \<Rightarrow>
                  let row = (case scope of None \<Rightarrow> trimmed | Some t \<Rightarrow> trimmed\<lparr>LA_TenantID := t\<rparr>)
                  in (None, db\<lparr>DB_LeaveApprovals :=
                        upsertRows la_key LA_ID (\<lambda>n r. r\<lparr>LA_ID := n\<rparr>) la_merge row
                          (DB_LeaveApprovals db)\<rparr>))"

definition la_ListOverlappingByDingUserIDs ::
    "goctx \<Rightarrow> string list \<Rightarrow> instant \<Rightarrow> instant \<Rightarrow> database \<Rightarrow> goerror + leave_approval list" where
  "la_ListOverlappingByDingUserIDs ctx dingUserIDs startAt endAt db =
     (let clean = dedup_from id {} (filter (\<lambda>s. s \<noteq> []) (map trimSpace dingUserIDs))
      in if clean = [] then Inr []
         else if endAt < startAt then Inr []
         else la_order
                (selectRows ''leaveApproval.ListOverlappingByDingUserIDs'' ctx db LA_TenantID
                   (\<lambda>r. LA_DingUserID r \<in> set clean \<and> la_overlaps startAt endAt r)
                   (DB_LeaveApprovals db)))"

definition la_ListOverlappingByUserID ::
    "goctx \<Rightarrow> nat \<Rightarrow> instant \<Rightarrow> instant \<Rightarrow> database \<Rightarrow> goerror + leave_approval list" where
  "la_ListOverlappingByUserID ctx userID startAt endAt db =
     (if userID = 0 \<or> endAt < startAt then Inr []
      else la_order
             (selectRows ''leaveApproval.ListOverlappingByUserID'' ctx db LA_TenantID
                (\<lambda>r. LA_UserID r = userID \<and> la_overlaps startAt endAt r)
                (DB_LeaveApprovals db)))"

definition la_ListApprovedByUserIDs ::
    "goctx \<Rightarrow> nat list \<Rightarrow> instant \<Rightarrow> instant \<Rightarrow> database \<Rightarrow> goerror + leave_approval list" where
  "la_ListApprovedByUserIDs ctx userIDs startAt endAt db =
     (if userIDs = [] \<or> endAt < startAt then Inr []
      else la_order
             (selectRows ''leaveApproval.ListApprovedByUserIDs'' ctx db LA_TenantID
                (\<lambda>r. LA_UserID r \<in> set userIDs \<and> la_overlaps startAt endAt r
                     \<and> LA_Result r \<notin> {''refuse'', ''cancel''})
                (DB_LeaveApprovals db)))"

end
