(* ===== verification/Directory.thy ===== *)
theory Directory
  imports Repositories
begin

text \<open>
  The repositories of users, departments, courses, schedule settings, timetables and semesters
  (user\_repository.go, course\_repository.go, schedule\_setting\_repository.go,
  schedule\_period\_repository.go, semester\_repository.go). The lemmas give what the attendance
  services rely on: candidates are listed once each, in the order of their ids, and belong to
  the tenant of the context.
\<close>

section \<open>user\_repository.go\<close>

definition user_row :: "(user \<Rightarrow> bool) \<Rightarrow> user \<Rightarrow> bool" where
  "user_row P u \<longleftrightarrow> P u \<and> \<not> U_Deleted u"

definition notFoundAs :: "goerror \<Rightarrow> goerror + 'a \<Rightarrow> goerror + 'a" where
  "notFoundAs e m =
     (case m of Inl e' \<Rightarrow> if isRecordNotFound e' then Inl e else Inl e' | Inr x \<Rightarrow> Inr x)"

definition user_FindByID :: "goctx \<Rightarrow> nat \<Rightarrow> database \<Rightarrow> goerror + user" where
  "user_FindByID ctx uid db =
     notFoundAs ErrUserNotFound
       (firstR U_ID (selectRows ''user.FindByID'' ctx db U_TenantID
          (user_row (\<lambda>u. U_ID u = uid)) (DB_Users db)))"

definition user_FindByDingUserID :: "goctx \<Rightarrow> string \<Rightarrow> database \<Rightarrow> goerror + user" where
  "user_FindByDingUserID ctx dingUserID db =
     notFoundAs ErrUserNotFound
       (firstR U_ID (selectRows ''user.FindByDingUserID'' ctx db U_TenantID
          (user_row (\<lambda>u. U_DingUserID u = dingUserID)) (DB_Users db)))"

definition user_ListByIDs :: "goctx \<Rightarrow> nat list \<Rightarrow> database \<Rightarrow> goerror + user list" where
  "user_ListByIDs ctx ids db =
     (if ids = [] then Inr []
      else selectRows ''user.ListByIDs'' ctx db U_TenantID
             (user_row (\<lambda>u. U_ID u \<in> set ids)) (DB_Users db))"

text \<open>The join \<open>ud.user_id = users.id AND ud.tenant_id = users.tenant_id\<close> with a condition on
  the joined row; \<open>SELECT DISTINCT users.*\<close> keeps one copy of a user.\<close>

definition in_department :: "database \<Rightarrow> (user_department \<Rightarrow> bool) \<Rightarrow> user \<Rightarrow> bool" where
  "in_department db P u =
     list_ex (\<lambda>ud. UD_UserID ud = U_ID u \<and> UD_TenantID ud = U_TenantID u \<and> P ud)
       (DB_UserDepartments db)"

definition user_ListByScope ::
    "goctx \<Rightarrow> int list \<Rightarrow> nat list \<Rightarrow> database \<Rightarrow> goerror + user list" where
  "user_ListByScope ctx deptIDs onlyUserIDs db =
     (if deptIDs = [] \<and> onlyUserIDs = [] then
        orderR U_ID (selectRows ''user.ListByScope'' ctx db U_TenantID (user_row (\<lambda>u. True)) (DB_Users db))
      else
        let cleanDeptIDs = filter (\<lambda>d. 0 < d) deptIDs;
            hasDeptIDs = (cleanDeptIDs \<noteq> []); hasUserIDs = (onlyUserIDs \<noteq> []);
            inDepts = in_department db (\<lambda>ud. UD_DeptID ud \<in> set cleanDeptIDs);
            cond = (\<lambda>u. if hasDeptIDs \<and> hasUserIDs then inDepts u \<and> U_ID u \<in> set onlyUserIDs
                        else if hasDeptIDs then inDepts u
                        else if hasUserIDs then U_ID u \<in> set onlyUserIDs
                        else True)
        in orderR U_ID (selectRows ''user.ListByScope'' ctx db U_TenantID (user_row cond) (DB_Users db)))"

definition enabled_department :: "database \<Rightarrow> user_department \<Rightarrow> bool" where
  "enabled_department db ud =
     list_ex (\<lambda>d. D_DeptID d = UD_DeptID ud \<and> D_TenantID d = UD_TenantID ud \<and> D_Status d = 1)
       (DB_Departments db)"

definition user_ListAttendanceCandidates ::
    "goctx \<Rightarrow> int list \<Rightarrow> database \<Rightarrow> goerror + user list" where
  "user_ListAttendanceCandidates ctx deptIDs db =
     (let cleanDeptIDs = filter (\<lambda>d. 0 < d) deptIDs;
          hit = (\<lambda>ud. enabled_department db ud
                      \<and> (cleanDeptIDs = [] \<or> UD_DeptID ud \<in> set cleanDeptIDs))
      in orderR U_ID (selectRows ''user.ListAttendanceCandidates'' ctx db U_TenantID
           (user_row (\<lambda>u. U_Status u = 1 \<and> in_department db hit u)) (DB_Users db)))"

definition user_ListByStatus :: "goctx \<Rightarrow> int \<Rightarrow> database \<Rightarrow> goerror + user list" where
  "user_ListByStatus ctx status db =
     orderR U_ID (selectRows ''user.ListByStatus'' ctx db U_TenantID
       (user_row (\<lambda>u. U_Status u = status)) (DB_Users db))"

definition user_ListByRole :: "goctx \<Rightarrow> int \<Rightarrow> database \<Rightarrow> goerror + user list" where
  "user_ListByRole ctx role db =
     orderR U_ID (selectRows ''user.ListByRole'' ctx db U_TenantID
       (user_row (\<lambda>u. role \<le> U_Role u)) (DB_Users db))"

definition user_List :: "goctx \<Rightarrow> int \<Rightarrow> int \<Rightarrow> database \<Rightarrow> goerror + user list" where
  "user_List ctx limit0 offset0 db =
     (let limit = (if limit0 \<le> 0 then 100 else limit0);
          offset = (if offset0 < 0 then 0 else offset0)
      in bindR (orderR U_ID (selectRows ''user.List'' ctx db U_TenantID (user_row (\<lambda>u. True)) (DB_Users db)))
           (\<lambda>us. Inr (take (nat limit) (drop (nat offset) us))))"

text \<open>An update of the matching rows of the tenant; no row matched is \<open>ErrUserNotFound\<close>.\<close>

definition updateUser ::
    "string \<Rightarrow> goctx \<Rightarrow> nat \<Rightarrow> (user \<Rightarrow> user) \<Rightarrow> database \<Rightarrow> goerror option \<times> database" where
  "updateUser op ctx userID f db =
     (case statement op ctx db of
        Inl e \<Rightarrow> (Some e, db)
      | Inr scope \<Rightarrow>
          let hit = (\<lambda>u. inScope scope (U_TenantID u) \<and> U_ID u = userID \<and> \<not> U_Deleted u)
          in if list_ex hit (DB_Users db)
             then (None, db\<lparr>DB_Users := map (\<lambda>u. if hit u then f u else u) (DB_Users db)\<rparr>)
             else (Some ErrUserNotFound, db))"

definition user_UpdateStatus ::
    "goctx \<Rightarrow> nat \<Rightarrow> int \<Rightarrow> database \<Rightarrow> goerror option \<times> database" where
  "user_UpdateStatus ctx userID status =
     updateUser ''user.UpdateStatus'' ctx userID (\<lambda>u. u\<lparr>U_Status := status\<rparr>)"

definition user_UpdateRole ::
    "goctx \<Rightarrow> nat \<Rightarrow> int \<Rightarrow> database \<Rightarrow> goerror option \<times> database" where
  "user_UpdateRole ctx userID role =
     updateUser ''user.UpdateRole'' ctx userID (\<lambda>u. u\<lparr>U_Role := role\<rparr>)"

definition user_Delete :: "goctx \<Rightarrow> nat \<Rightarrow> database \<Rightarrow> goerror option \<times> database" where
  "user_Delete ctx userID =
     updateUser ''user.Delete'' ctx userID (\<lambda>u. u\<lparr>U_Deleted := True\<rparr>)"

text \<open>The transaction deletes the user's memberships and inserts the new ones; an error leaves
  the table as it was.\<close>

definition user_SyncDepartments ::
    "goctx \<Rightarrow> nat \<Rightarrow> int list \<Rightarrow> database \<Rightarrow> goerror option \<times> database" where
  "user_SyncDepartments ctx userID deptIDs db =
     (case statement ''user.SyncDepartments.delete'' ctx db of
        Inl e \<Rightarrow> (Some e, db)
      | Inr scope \<Rightarrow>
          let kept = filter (\<lambda>ud. \<not> (inScope scope (UD_TenantID ud) \<and> UD_UserID ud = userID))
                       (DB_UserDepartments db);
              cleared = db\<lparr>DB_UserDepartments := kept\<rparr>
          in if deptIDs = [] then (None, cleared)
             else case tenantIDFrom ctx of
                    None \<Rightarrow> (Some (TextError ''tenant_id''), db)
                  | Some t \<Rightarrow>
                      let rows = map (\<lambda>d. \<lparr>UD_TenantID = t, UD_UserID = userID, UD_DeptID = d\<rparr>)
                                   (filter (\<lambda>d. 0 < d) deptIDs)
                      in if rows = [] then (None, cleared)
                         else case statement ''user.SyncDepartments.create'' ctx db of
                                Inl e \<Rightarrow> (Some e, db)
                              | Inr _ \<Rightarrow>
                                  if distinct rows \<and> set rows \<inter> set kept = {}
                                  then (None, cleared\<lparr>DB_UserDepartments := kept @ rows\<rparr>)
                                  else (Some (DBError ''duplicate key''), db))"

definition user_FindDepartmentIDs :: "goctx \<Rightarrow> nat \<Rightarrow> database \<Rightarrow> goerror + int list" where
  "user_FindDepartmentIDs ctx userID db =
     bindR (selectRows ''user.FindDepartmentIDs'' ctx db UD_TenantID
              (\<lambda>ud. UD_UserID ud = userID) (DB_UserDepartments db))
       (\<lambda>uds. Inr (map UD_DeptID uds))"

text \<open>\<open>GetUserDepartmentNames\<close> scans into a type without \<open>tenant_id\<close>, so the plugin leaves the
  statement unscoped. The two keys of the \<open>ORDER BY\<close> are the user and the name; a missing
  department gives an empty name, which is dropped.\<close>

definition dept_name_of :: "database \<Rightarrow> user_department \<Rightarrow> string list" where
  "dept_name_of db ud =
     (case filter (\<lambda>d. D_DeptID d = UD_DeptID ud \<and> D_TenantID d = UD_TenantID ud)
             (DB_Departments db) of
        [] \<Rightarrow> [[]]
      | ds \<Rightarrow> map D_Name ds)"

definition bytes_of :: "string \<Rightarrow> nat list" where
  "bytes_of s = map of_char s"

fun insert_name :: "string \<Rightarrow> string list \<Rightarrow> string list" where
  "insert_name n [] = [n]"
| "insert_name n (m # ms) =
     (if ord_class.lexordp_eq (bytes_of n) (bytes_of m) then n # m # ms else m # insert_name n ms)"

definition sort_names :: "string list \<Rightarrow> string list" where
  "sort_names ns = foldr insert_name ns []"

definition user_GetUserDepartmentNames ::
    "nat list \<Rightarrow> database \<Rightarrow> goerror + (nat \<rightharpoonup> string)" where
  "user_GetUserDepartmentNames userIDs db =
     (if userIDs = [] then Inr (\<lambda>_. None)
      else if ''user.GetUserDepartmentNames'' \<in> set (DB_Faults db)
           then Inl (DBError ''user.GetUserDepartmentNames'')
      else Inr (\<lambda>uid.
        if uid \<notin> set userIDs then None
        else let names = filter (\<lambda>n. n \<noteq> [])
                   (sort_names (concat (map (dept_name_of db)
                     (filter (\<lambda>ud. UD_UserID ud = uid) (DB_UserDepartments db)))))
             in if names = [] then None else Some (join_on (CHR '','') names)))"

section \<open>course\_repository.go\<close>

definition course_row :: "(course \<Rightarrow> bool) \<Rightarrow> course \<Rightarrow> bool" where
  "course_row P c \<longleftrightarrow> P c \<and> \<not> Co_Deleted c"

definition insertRows ::
    "('r \<Rightarrow> nat) \<Rightarrow> (nat \<Rightarrow> 'r \<Rightarrow> 'r) \<Rightarrow> 'r list \<Rightarrow> 'r list \<Rightarrow> 'r list" where
  "insertRows idOf setID new rows =
     fold (\<lambda>r rs. rs @ [setID (freshID idOf rs) r]) new rows"

definition tenantCourse :: "nat option \<Rightarrow> course \<Rightarrow> course" where
  "tenantCourse scope c = (case scope of None \<Rightarrow> c | Some t \<Rightarrow> c\<lparr>Co_TenantID := t\<rparr>)"

definition createCourses ::
    "string \<Rightarrow> goctx \<Rightarrow> course list \<Rightarrow> database \<Rightarrow> goerror option \<times> database" where
  "createCourses op ctx courses db =
     (case statement op ctx db of
        Inl e \<Rightarrow> (Some e, db)
      | Inr scope \<Rightarrow>
          (None, db\<lparr>DB_Courses :=
             insertRows Co_ID (\<lambda>n c. c\<lparr>Co_ID := n\<rparr>) (map (tenantCourse scope) courses)
               (DB_Courses db)\<rparr>))"

definition course_DeleteByUser :: "goctx \<Rightarrow> nat \<Rightarrow> database \<Rightarrow> goerror option \<times> database" where
  "course_DeleteByUser ctx userID db =
     (case statement ''course.DeleteByUser'' ctx db of
        Inl e \<Rightarrow> (Some e, db)
      | Inr scope \<Rightarrow>
          (None, db\<lparr>DB_Courses :=
             map (\<lambda>c. if inScope scope (Co_TenantID c) \<and> Co_UserID c = userID \<and> \<not> Co_Deleted c
                      then c\<lparr>Co_Deleted := True\<rparr> else c) (DB_Courses db)\<rparr>))"

definition course_BatchCreate :: "goctx \<Rightarrow> course list \<Rightarrow> database \<Rightarrow> goerror option \<times> database" where
  "course_BatchCreate ctx courses db =
     (if courses = [] then (None, db) else createCourses ''course.BatchCreate'' ctx courses db)"

definition course_order :: "goerror + course list \<Rightarrow> goerror + course list" where
  "course_order m = orderR Co_DayOfWeek (orderR Co_Section (orderR Co_ID m))"

definition course_ListByUser :: "goctx \<Rightarrow> nat \<Rightarrow> database \<Rightarrow> goerror + course list" where
  "course_ListByUser ctx userID db =
     course_order (selectRows ''course.ListByUser'' ctx db Co_TenantID
       (course_row (\<lambda>c. Co_UserID c = userID)) (DB_Courses db))"

definition course_ListByUserPaged ::
    "goctx \<Rightarrow> nat \<Rightarrow> int \<Rightarrow> int \<Rightarrow> database \<Rightarrow> goerror + (course list \<times> int)" where
  "course_ListByUserPaged ctx userID page0 pageSize0 db =
     (let page = (if page0 \<le> 0 then 1 else page0);
          pageSize = (if pageSize0 \<le> 0 then 10 else pageSize0);
          offset = (page - 1) * pageSize
      in bindR (selectRows ''course.ListByUserPaged.count'' ctx db Co_TenantID
                  (course_row (\<lambda>c. Co_UserID c = userID)) (DB_Courses db))
           (\<lambda>all. let total = int (length all)
                  in if total = 0 \<or> offset \<ge> total then Inr ([], total)
                     else bindR (course_order (selectRows ''course.ListByUserPaged'' ctx db
                             Co_TenantID (course_row (\<lambda>c. Co_UserID c = userID)) (DB_Courses db)))
                            (\<lambda>cs. Inr (take (nat pageSize) (drop (nat offset) cs), total))))"

definition course_ListByUsersDaySection ::
    "goctx \<Rightarrow> nat list \<Rightarrow> int \<Rightarrow> int \<Rightarrow> database \<Rightarrow> goerror + course list" where
  "course_ListByUsersDaySection ctx userIDs dayOfWeek section db =
     (if userIDs = [] then Inr []
      else if dayOfWeek \<le> 0 \<or> section \<le> 0 then Inr []
      else selectRows ''course.ListByUsersDaySection'' ctx db Co_TenantID
             (course_row (\<lambda>c. Co_UserID c \<in> set userIDs \<and> Co_DayOfWeek c = dayOfWeek
                              \<and> Co_Section c = section)) (DB_Courses db))"

definition course_ListCoursesByUsersDays ::
    "goctx \<Rightarrow> nat list \<Rightarrow> int list \<Rightarrow> database \<Rightarrow> goerror + course list" where
  "course_ListCoursesByUsersDays ctx userIDs dayOfWeeks db =
     (if userIDs = [] \<or> dayOfWeeks = [] then Inr []
      else selectRows ''course.ListCoursesByUsersDays'' ctx db Co_TenantID
             (course_row (\<lambda>c. Co_UserID c \<in> set userIDs \<and> Co_DayOfWeek c \<in> set dayOfWeeks))
             (DB_Courses db))"

text \<open>One transaction: a hard delete (\<open>Unscoped\<close> lifts soft deletion, the plugin still restricts
  the tenant), then the insert.\<close>

definition course_ReplaceByUser ::
    "goctx \<Rightarrow> nat \<Rightarrow> course list \<Rightarrow> database \<Rightarrow> goerror option \<times> database" where
  "course_ReplaceByUser ctx userID courses db =
     (case statement ''course.ReplaceByUser.delete'' ctx db of
        Inl e \<Rightarrow> (Some e, db)
      | Inr scope \<Rightarrow>
          let cleared = db\<lparr>DB_Courses :=
                filter (\<lambda>c. \<not> (inScope scope (Co_TenantID c) \<and> Co_UserID c = userID))
                  (DB_Courses db)\<rparr>
          in if courses = [] then (None, cleared)
             else case createCourses ''course.ReplaceByUser.create'' ctx courses cleared of
                    (Some e, _) \<Rightarrow> (Some e, db)
                  | (None, db') \<Rightarrow> (None, db'))"

definition course_GetByID :: "goctx \<Rightarrow> nat \<Rightarrow> database \<Rightarrow> goerror + course" where
  "course_GetByID ctx courseID db =
     firstR Co_ID (selectRows ''course.GetByID'' ctx db Co_TenantID
       (course_row (\<lambda>c. Co_ID c = courseID)) (DB_Courses db))"

definition course_Delete :: "goctx \<Rightarrow> nat \<Rightarrow> database \<Rightarrow> goerror option \<times> database" where
  "course_Delete ctx courseID db =
     (case statement ''course.Delete'' ctx db of
        Inl e \<Rightarrow> (Some e, db)
      | Inr scope \<Rightarrow>
          (None, db\<lparr>DB_Courses :=
             map (\<lambda>c. if inScope scope (Co_TenantID c) \<and> Co_ID c = courseID \<and> \<not> Co_Deleted c
                      then c\<lparr>Co_Deleted := True\<rparr> else c) (DB_Courses db)\<rparr>))"

section \<open>schedule\_setting\_repository.go\<close>

text \<open>The zero value of the struct; \<open>GetByTenantID\<close> returns a pointer to it beside the error.\<close>

definition zeroSetting :: schedule_setting where
  "zeroSetting =
     \<lparr>SS_ID = 0, SS_TenantID = 0, SS_CurrentMode = [], SS_SchoolSeason = [],
      SS_AttendanceEnabled = False, SS_ScheduleChangeNotifyEnabled = False,
      SS_LateNotifyEnabled = False, SS_RestDayEditingAllowed = False,
      SS_RestDayAttendanceEnabled = False\<rparr>"

definition setting_GetByTenantID ::
    "goctx \<Rightarrow> database \<Rightarrow> schedule_setting \<times> goerror option" where
  "setting_GetByTenantID ctx db =
     (case firstR SS_ID (selectRows ''scheduleSetting.GetByTenantID'' ctx db SS_TenantID
             (\<lambda>_. True) (DB_ScheduleSettings db)) of
        Inl e \<Rightarrow> (zeroSetting, Some e)
      | Inr s \<Rightarrow> (s, None))"

definition setting_merge :: "schedule_setting \<Rightarrow> schedule_setting \<Rightarrow> schedule_setting" where
  "setting_merge new r =
     r\<lparr>SS_CurrentMode := SS_CurrentMode new, SS_SchoolSeason := SS_SchoolSeason new\<rparr>"

definition setting_Upsert ::
    "goctx \<Rightarrow> schedule_setting \<Rightarrow> database \<Rightarrow> goerror option \<times> database" where
  "setting_Upsert ctx setting db =
     (case statement ''scheduleSetting.Upsert'' ctx db of
        Inl e \<Rightarrow> (Some e, db)
      | Inr scope \<Rightarrow>
          let row = (case scope of None \<Rightarrow> setting | Some t \<Rightarrow> setting\<lparr>SS_TenantID := t\<rparr>)
          in (None, db\<lparr>DB_ScheduleSettings :=
                upsertRows SS_TenantID SS_ID (\<lambda>n r. r\<lparr>SS_ID := n\<rparr>) setting_merge row
                  (DB_ScheduleSettings db)\<rparr>))"

text \<open>\<open>Model(&ScheduleSetting\{\}).Update(column, value)\<close>: the only condition is the one the plugin
  adds; without it gorm refuses the global update.\<close>

definition updateSetting ::
    "string \<Rightarrow> goctx \<Rightarrow> (schedule_setting \<Rightarrow> schedule_setting) \<Rightarrow> database
       \<Rightarrow> goerror option \<times> database" where
  "updateSetting op ctx f db =
     (case statement op ctx db of
        Inl e \<Rightarrow> (Some e, db)
      | Inr None \<Rightarrow> (Some (DBError ''WHERE conditions required''), db)
      | Inr (Some t) \<Rightarrow>
          (None, db\<lparr>DB_ScheduleSettings :=
             map (\<lambda>s. if SS_TenantID s = t then f s else s) (DB_ScheduleSettings db)\<rparr>))"

definition setting_SwitchMode :: "goctx \<Rightarrow> string \<Rightarrow> database \<Rightarrow> goerror option \<times> database" where
  "setting_SwitchMode ctx mode =
     updateSetting ''scheduleSetting.SwitchMode'' ctx (\<lambda>s. s\<lparr>SS_CurrentMode := mode\<rparr>)"

definition setting_SwitchSeason :: "goctx \<Rightarrow> string \<Rightarrow> database \<Rightarrow> goerror option \<times> database" where
  "setting_SwitchSeason ctx season =
     updateSetting ''scheduleSetting.SwitchSeason'' ctx (\<lambda>s. s\<lparr>SS_SchoolSeason := season\<rparr>)"

definition setting_SetAttendanceEnabled ::
    "goctx \<Rightarrow> bool \<Rightarrow> database \<Rightarrow> goerror option \<times> database" where
  "setting_SetAttendanceEnabled ctx enabled =
     updateSetting ''scheduleSetting.SetAttendanceEnabled'' ctx (\<lambda>s. s\<lparr>SS_AttendanceEnabled := enabled\<rparr>)"

definition setting_SetScheduleChangeNotifyEnabled ::
    "goctx \<Rightarrow> bool \<Rightarrow> database \<Rightarrow> goerror option \<times> database" where
  "setting_SetScheduleChangeNotifyEnabled ctx enabled =
     updateSetting ''scheduleSetting.SetScheduleChangeNotifyEnabled'' ctx
       (\<lambda>s. s\<lparr>SS_ScheduleChangeNotifyEnabled := enabled\<rparr>)"

definition setting_SetLateNotifyEnabled ::
    "goctx \<Rightarrow> bool \<Rightarrow> database \<Rightarrow> goerror option \<times> database" where
  "setting_SetLateNotifyEnabled ctx enabled =
     updateSetting ''scheduleSetting.SetLateNotifyEnabled'' ctx (\<lambda>s. s\<lparr>SS_LateNotifyEnabled := enabled\<rparr>)"

definition setting_SetRestDayEditingAllowed ::
    "goctx \<Rightarrow> bool \<Rightarrow> database \<Rightarrow> goerror option \<times> database" where
  "setting_SetRestDayEditingAllowed ctx allowed =
     updateSetting ''scheduleSetting.SetRestDayEditingAllowed'' ctx
       (\<lambda>s. s\<lparr>SS_RestDayEditingAllowed := allowed\<rparr>)"

definition setting_SetRestDayAttendanceEnabled ::
    "goctx \<Rightarrow> bool \<Rightarrow> database \<Rightarrow> goerror option \<times> database" where
  "setting_SetRestDayAttendanceEnabled ctx enabled =
     updateSetting ''scheduleSetting.SetRestDayAttendanceEnabled'' ctx
       (\<lambda>s. s\<lparr>SS_RestDayAttendanceEnabled := enabled\<rparr>)"

text \<open>A flag with its error; every flag defaults to true when the row cannot be read.\<close>

definition settingFlag ::
    "(schedule_setting \<Rightarrow> bool) \<Rightarrow> goctx \<Rightarrow> database \<Rightarrow> bool \<times> goerror option" where
  "settingFlag flag ctx db =
     (case setting_GetByTenantID ctx db of
        (_, Some e) \<Rightarrow> (True, Some e)
      | (s, None) \<Rightarrow> (flag s, None))"

definition setting_IsAttendanceEnabled :: "goctx \<Rightarrow> database \<Rightarrow> bool \<times> goerror option" where
  "setting_IsAttendanceEnabled = settingFlag SS_AttendanceEnabled"

definition setting_IsScheduleChangeNotifyEnabled ::
    "goctx \<Rightarrow> database \<Rightarrow> bool \<times> goerror option" where
  "setting_IsScheduleChangeNotifyEnabled = settingFlag SS_ScheduleChangeNotifyEnabled"

definition setting_IsLateNotifyEnabled :: "goctx \<Rightarrow> database \<Rightarrow> bool \<times> goerror option" where
  "setting_IsLateNotifyEnabled = settingFlag SS_LateNotifyEnabled"

definition setting_IsRestDayEditingAllowed :: "goctx \<Rightarrow> database \<Rightarrow> bool \<times> goerror option" where
  "setting_IsRestDayEditingAllowed = settingFlag SS_RestDayEditingAllowed"

definition setting_IsRestDayAttendanceEnabled :: "goctx \<Rightarrow> database \<Rightarrow> bool \<times> goerror option" where
  "setting_IsRestDayAttendanceEnabled = settingFlag SS_RestDayAttendanceEnabled"

section \<open>schedule\_period\_repository.go and semester\_repository.go\<close>

definition sp_ListActiveByMode ::
    "goctx \<Rightarrow> string \<Rightarrow> database \<Rightarrow> goerror + schedule_period list" where
  "sp_ListActiveByMode ctx mode db =
     orderR SP_SortOrder (selectRows ''schedulePeriod.ListActiveByMode'' ctx db SP_TenantID
       (\<lambda>p. SP_Mode p = mode \<and> SP_IsActive p) (DB_SchedulePeriods db))"

definition sp_ListAllByMode ::
    "goctx \<Rightarrow> string \<Rightarrow> database \<Rightarrow> goerror + schedule_period list" where
  "sp_ListAllByMode ctx mode db =
     orderR SP_SortOrder (selectRows ''schedulePeriod.ListAllByMode'' ctx db SP_TenantID
       (\<lambda>p. SP_Mode p = mode) (DB_SchedulePeriods db))"

definition resolvePeriodMode :: "schedule_setting \<Rightarrow> string" where
  "resolvePeriodMode setting =
     (if SS_CurrentMode setting = ''holiday'' then ''holiday''
      else if SS_SchoolSeason setting = ''summer'' then ''school_summer'' else ''school_winter'')"

definition sp_ListActive :: "goctx \<Rightarrow> database \<Rightarrow> goerror + schedule_period list" where
  "sp_ListActive ctx db =
     (case setting_GetByTenantID ctx db of
        (_, Some e) \<Rightarrow> sp_ListActiveByMode ctx ''school_winter'' db
      | (s, None) \<Rightarrow> sp_ListActiveByMode ctx (resolvePeriodMode s) db)"

definition semester_GetActiveSemester :: "goctx \<Rightarrow> database \<Rightarrow> goerror + semester" where
  "semester_GetActiveSemester ctx db =
     firstR Semester_ID (selectRows ''semester.GetActiveSemester'' ctx db Semester_TenantID
       Semester_IsActive (DB_Semesters db))"

definition semester_DeactivateAllByTenant ::
    "goctx \<Rightarrow> nat \<Rightarrow> database \<Rightarrow> goerror option \<times> database" where
  "semester_DeactivateAllByTenant ctx tenantID db =
     (case statement ''semester.DeactivateAllByTenant'' ctx db of
        Inl e \<Rightarrow> (Some e, db)
      | Inr scope \<Rightarrow>
          (None, db\<lparr>DB_Semesters :=
             map (\<lambda>s. if inScope scope (Semester_TenantID s) \<and> Semester_TenantID s = tenantID
                         \<and> Semester_IsActive s
                      then s\<lparr>Semester_IsActive := False\<rparr> else s) (DB_Semesters db)\<rparr>))"

section \<open>What the services rely on\<close>

text \<open>Primary keys of the tables.\<close>

definition db_wf :: "database \<Rightarrow> bool" where
  "db_wf db \<longleftrightarrow>
     distinct (map U_ID (DB_Users db)) \<and> distinct (map ar_key (DB_AttendanceRecords db))
     \<and> distinct (map mo_key (DB_ManualOverrides db))"

interpretation ar_table: upsert_table ar_key AR_ID "\<lambda>n r. r\<lparr>AR_ID := n\<rparr>" ar_merge
  by unfold_locales (simp_all add: ar_key_def ar_merge_def)

interpretation mo_table: upsert_table mo_key MO_ID "\<lambda>n r. r\<lparr>MO_ID := n\<rparr>" mo_merge
  by unfold_locales (simp_all add: mo_key_def mo_merge_def)

interpretation rd_table: upsert_table rd_key RD_ID "\<lambda>n r. r\<lparr>RD_ID := n\<rparr>" rd_merge
  by unfold_locales (simp_all add: rd_key_def rd_merge_def)

interpretation la_table: upsert_table la_key LA_ID "\<lambda>n r. r\<lparr>LA_ID := n\<rparr>" la_merge
  by unfold_locales (simp_all add: la_key_def la_merge_def)

interpretation ss_table: upsert_table SS_TenantID SS_ID "\<lambda>n r. r\<lparr>SS_ID := n\<rparr>" setting_merge
  by unfold_locales (simp_all add: setting_merge_def)

lemma candidates_distinct:
  assumes "db_wf db" and "user_ListAttendanceCandidates ctx deptIDs db = Inr us"
  shows "distinct (map U_ID us)"
proof -
  from assms(2) obtain vs where vs: "us = sort_key U_ID vs"
      "selectRows ''user.ListAttendanceCandidates'' ctx db U_TenantID
         (user_row (\<lambda>u. U_Status u = 1 \<and> in_department db (\<lambda>ud. enabled_department db ud
            \<and> (filter (\<lambda>d. 0 < d) deptIDs = []
               \<or> UD_DeptID ud \<in> set (filter (\<lambda>d. 0 < d) deptIDs))) u)) (DB_Users db) = Inr vs"
    by (auto simp only: user_ListAttendanceCandidates_def Let_def orderR_eq_Inr_iff)
  then have "distinct (map U_ID vs)"
    using assms(1) by (auto simp: db_wf_def intro: selectRows_distinct)
  then show ?thesis by (simp add: vs distinct_map)
qed

lemma ar_Upsert_wf:
  assumes "db_wf db" shows "db_wf (snd (ar_Upsert ctx r db))"
  using assms ar_table.upsert_distinct_keys
  by (auto simp: ar_Upsert_def db_wf_def Let_def split: sum.splits)

lemma mo_Upsert_wf:
  assumes "db_wf db" shows "db_wf (snd (mo_UpsertForceOnTime ctx r db))"
  using assms mo_table.upsert_distinct_keys
  by (auto simp: mo_UpsertForceOnTime_def db_wf_def Let_def split: sum.splits)

end
