(* ===== verification/SchedulePeriods.thy ===== *)
theory SchedulePeriods
  imports Directory
begin

text \<open>
  internal/service/schedule\_period\_service.go: which timetable is in force, the switches between
  school and holiday mode and between seasons, and the tenant's flags. \<open>fallbackConfig\<close> is a
  pointer, hence an option.
\<close>

text \<open>\<open>config.Schedule\<close>.\<close>

record schedule_cfg =
  Cfg_Periods :: "period list"
  Cfg_LateGraceMinutes :: int
  Cfg_MaxCarryForwardGapMinutes :: int

definition trimTimeSeconds :: "string \<Rightarrow> string" where
  "trimTimeSeconds timeStr = (if 5 \<le> length timeStr then take 5 timeStr else timeStr)"

definition toConfigPeriod :: "schedule_period \<Rightarrow> period" where
  "toConfigPeriod p =
     \<lparr>Period_Name = SP_Name p, Period_Start = trimTimeSeconds (SP_StartTime p),
      Period_End = trimTimeSeconds (SP_EndTime p)\<rparr>"

definition seasonToPeriodMode :: "string \<Rightarrow> string" where
  "seasonToPeriodMode season = (if season = ''summer'' then ''school_summer'' else ''school_winter'')"

definition getCurrentMode :: "goctx \<Rightarrow> database \<Rightarrow> string" where
  "getCurrentMode ctx db =
     (case setting_GetByTenantID ctx db of
        (_, Some e) \<Rightarrow> ''school''
      | (s, None) \<Rightarrow> SS_CurrentMode s)"

definition getCurrentSeason :: "goctx \<Rightarrow> database \<Rightarrow> string" where
  "getCurrentSeason ctx db =
     (case setting_GetByTenantID ctx db of
        (_, Some e) \<Rightarrow> ''winter''
      | (s, None) \<Rightarrow> if SS_SchoolSeason s = [] then ''winter'' else SS_SchoolSeason s)"

definition resolveSchoolPeriodMode :: "goctx \<Rightarrow> string \<Rightarrow> database \<Rightarrow> string" where
  "resolveSchoolPeriodMode ctx mode db =
     (if mode = ''holiday'' then ''holiday'' else seasonToPeriodMode (getCurrentSeason ctx db))"

definition getActivePeriods ::
    "schedule_cfg option \<Rightarrow> goctx \<Rightarrow> database \<Rightarrow> goerror + period list" where
  "getActivePeriods fallbackConfig ctx db =
     (let periodMode = resolveSchoolPeriodMode ctx (getCurrentMode ctx db) db
      in bindR (sp_ListActiveByMode ctx periodMode db)
           (\<lambda>dbPeriods.
              if dbPeriods \<noteq> [] then Inr (map toConfigPeriod dbPeriods)
              else case fallbackConfig of
                     Some cfg \<Rightarrow> if Cfg_Periods cfg \<noteq> [] then Inr (Cfg_Periods cfg) else Inr []
                   | None \<Rightarrow> Inr []))"

definition getPeriodsByMode :: "goctx \<Rightarrow> string \<Rightarrow> database \<Rightarrow> goerror + period list" where
  "getPeriodsByMode ctx mode db =
     (if mode \<noteq> ''school_summer'' \<and> mode \<noteq> ''school_winter'' \<and> mode \<noteq> ''holiday''
      then Inl (errInvalidParamWithMsg zh_mode_invalid)
      else bindR (sp_ListActiveByMode ctx mode db) (\<lambda>ps. Inr (map toConfigPeriod ps)))"

definition switchMode :: "goctx \<Rightarrow> string \<Rightarrow> database \<Rightarrow> goerror option \<times> database" where
  "switchMode ctx mode db =
     (if mode \<noteq> ''school'' \<and> mode \<noteq> ''holiday'' then
        (Some (errInvalidParamWithMsg zh_mode_options), db)
      else case sp_ListActiveByMode ctx (resolveSchoolPeriodMode ctx mode db) db of
             Inl e \<Rightarrow> (Some e, db)
           | Inr periods \<Rightarrow>
               if periods = [] then (Some (errInvalidParamWithMsg zh_mode_empty), db)
               else setting_SwitchMode ctx mode db)"

definition switchSeason :: "goctx \<Rightarrow> string \<Rightarrow> database \<Rightarrow> goerror option \<times> database" where
  "switchSeason ctx season db =
     (if season \<noteq> ''summer'' \<and> season \<noteq> ''winter'' then
        (Some (errInvalidParamWithMsg zh_season_options), db)
      else case sp_ListActiveByMode ctx (seasonToPeriodMode season) db of
             Inl e \<Rightarrow> (Some e, db)
           | Inr periods \<Rightarrow>
               if periods = [] then (Some (errInvalidParamWithMsg zh_season_empty), db)
               else setting_SwitchSeason ctx season db)"

record schedule_info =
  Info_CurrentMode :: string
  Info_SchoolSeason :: string
  Info_AttendanceEnabled :: bool
  Info_RestDayEditingAllowed :: bool
  Info_RestDayAttendanceEnabled :: bool
  Info_ActivePeriods :: "period list"
  Info_SchoolSummerPeriods :: "period list"
  Info_SchoolWinterPeriods :: "period list"
  Info_HolidayPeriods :: "period list"

text \<open>\<open>x, _ := f()\<close> for a slice: an error leaves it nil.\<close>

definition orNil :: "goerror + 'a list \<Rightarrow> 'a list" where
  "orNil m = (case m of Inl _ \<Rightarrow> [] | Inr xs \<Rightarrow> xs)"

text \<open>\<open>GetScheduleInfo\<close> tests \<open>setting != nil\<close>, and \<open>GetByTenantID\<close> always returns a pointer, so
  the branch is always taken.\<close>

definition getScheduleInfo :: "schedule_cfg option \<Rightarrow> goctx \<Rightarrow> database \<Rightarrow> schedule_info" where
  "getScheduleInfo fallbackConfig ctx db =
     (let setting = fst (setting_GetByTenantID ctx db)
      in \<lparr>Info_CurrentMode = SS_CurrentMode setting,
          Info_SchoolSeason =
            (if SS_SchoolSeason setting \<noteq> [] then SS_SchoolSeason setting else ''winter''),
          Info_AttendanceEnabled = SS_AttendanceEnabled setting,
          Info_RestDayEditingAllowed = SS_RestDayEditingAllowed setting,
          Info_RestDayAttendanceEnabled = SS_RestDayAttendanceEnabled setting,
          Info_ActivePeriods = orNil (getActivePeriods fallbackConfig ctx db),
          Info_SchoolSummerPeriods = orNil (getPeriodsByMode ctx ''school_summer'' db),
          Info_SchoolWinterPeriods = orNil (getPeriodsByMode ctx ''school_winter'' db),
          Info_HolidayPeriods = orNil (getPeriodsByMode ctx ''holiday'' db)\<rparr>)"

section \<open>Properties\<close>

lemma firstR_update:
  assumes "\<And>s. idOf (f s) = idOf s"
  shows "firstR idOf (Inr (map f rows))
           = (case firstR idOf (Inr rows) of Inl e \<Rightarrow> Inl e | Inr r \<Rightarrow> Inr (f r))"
proof -
  have *: "insort_key idOf (f r) (map f rs) = map f (insort_key idOf r rs)" for r rs
    by (induct rs) (auto simp: assms)
  have "sort_key idOf (map f rows) = map f (sort_key idOf rows)"
    by (induct rows) (auto simp: assms *)
  then show ?thesis by (simp add: firstR_def split: list.splits)
qed

lemma setting_after_update:
  assumes "updateSetting op ctx f db = (None, db')"
    and "\<And>s. SS_ID (f s) = SS_ID s" and "\<And>s. SS_TenantID (f s) = SS_TenantID s"
    and "setting_GetByTenantID ctx db = (s, None)"
  shows "setting_GetByTenantID ctx db' = (f s, None)"
proof -
  from assms(1) obtain t where t: "tenantScope ctx = Inr (Some t)"
      and db': "db' = db\<lparr>DB_ScheduleSettings :=
             map (\<lambda>s. if SS_TenantID s = t then f s else s) (DB_ScheduleSettings db)\<rparr>"
    by (auto simp: updateSetting_def statement_def bindR_eq_Inr_iff
        split: sum.splits option.splits if_splits)
  let ?in = "\<lambda>r. inScope (Some t) (SS_TenantID r)"
  have filt: "filter ?in (map (\<lambda>s. if SS_TenantID s = t then f s else s) rows)
      = map f (filter ?in rows)" for rows
    using assms(3) by (induct rows) (auto simp: inScope_def)
  from assms(4) t have "''scheduleSetting.GetByTenantID'' \<notin> set (DB_Faults db)"
    and first: "firstR SS_ID (Inr (filter ?in (DB_ScheduleSettings db))) = Inr s"
    by (auto simp: setting_GetByTenantID_def selectRows_def statement_def firstR_def
        split: sum.splits if_splits)
  then show ?thesis
    using t db' firstR_update [of SS_ID f "filter ?in (DB_ScheduleSettings db)", OF assms(2)]
    by (simp add: setting_GetByTenantID_def selectRows_def statement_def filt)
qed


text \<open>C19: For a tenant without a settings row \<open>GetScheduleInfo\<close> reports attendance as disabled and
  an empty mode, although \<open>IsAttendanceEnabled\<close> says enabled and \<open>GetCurrentMode\<close> says school.\<close>

theorem schedule_info_without_settings:
  assumes "setting_GetByTenantID ctx db = (s, Some e)"
  shows "\<not> Info_AttendanceEnabled (getScheduleInfo fallback ctx db)
    \<and> Info_CurrentMode (getScheduleInfo fallback ctx db) = []
    \<and> fst (setting_IsAttendanceEnabled ctx db) \<and> getCurrentMode ctx db = ''school''"
proof -
  have "s = zeroSetting" using assms by (auto simp: setting_GetByTenantID_def split: sum.splits)
  with assms show ?thesis
    by (simp add: getScheduleInfo_def setting_IsAttendanceEnabled_def settingFlag_def
        getCurrentMode_def zeroSetting_def Let_def)
qed

definition emptyDB :: database where
  "emptyDB =
     \<lparr>DB_Faults = [], DB_Tz = 28800, DB_Users = [], DB_Departments = [], DB_UserDepartments = [],
      DB_Courses = [], DB_LeaveApprovals = [], DB_AttendanceRecords = [], DB_ManualOverrides = [],
      DB_RestDays = [], DB_ScheduleSettings = [], DB_SchedulePeriods = [], DB_Semesters = []\<rparr>"

definition tenantCtx :: goctx where
  "tenantCtx = \<lparr>Ctx_TenantID = Some 1, Ctx_SkipTenantScope = False\<rparr>"

lemmas repo_simps = statement_def tenantScope_def tenantIDFrom_def selectRows_def inScope_def
  firstR_def orderR_def

theorem schedule_info_without_settings_witness:
  "\<not> Info_AttendanceEnabled (getScheduleInfo None tenantCtx emptyDB)
    \<and> Info_CurrentMode (getScheduleInfo None tenantCtx emptyDB) = []
    \<and> fst (setting_IsAttendanceEnabled tenantCtx emptyDB)
    \<and> getCurrentMode tenantCtx emptyDB = ''school''"
  by (rule schedule_info_without_settings [of _ _ zeroSetting ErrRecordNotFound])
    (simp add: setting_GetByTenantID_def repo_simps tenantCtx_def emptyDB_def)

definition exampleSetting :: schedule_setting where
  "exampleSetting = zeroSetting\<lparr>SS_ID := 1, SS_TenantID := 1, SS_CurrentMode := ''school''\<rparr>"

definition examplePeriod :: schedule_period where
  "examplePeriod =
     \<lparr>SP_ID = 1, SP_TenantID = 1, SP_Mode = ''holiday'', SP_Name = ''A'',
      SP_StartTime = ''08:00:00'', SP_EndTime = ''09:40:00'', SP_SortOrder = 1, SP_IsActive = True\<rparr>"


end
