(* ===== verification/AttendanceDetail.thy ===== *)
theory AttendanceDetail
  imports AttendanceColumns SchedulePeriods
begin

text \<open>
  The computation of one attendance slot in internal/service/attendance\_record\_service.go: the
  window of the slot, the candidates and their courses, rest days, leave, check records, the
  carry-over from the previous section, and the assembled response (\<open>buildAttendanceDetail\<close>,
  \<open>getAttendanceDetailWithLateUsers\<close>). The service is a record: which optional dependencies are
  set, the configuration, the DingTalk client (code outside the repository, a function), and the
  orders in which Go ranges over its maps (permutations). \<open>DB_Tz\<close> is \<open>time.Local\<close>, in which the
  database connection also works.

  The lemmas give the exact meaning of every list; they end in the partition of the candidates.
\<close>

section \<open>The service\<close>

type_synonym fetch_checks = "string list \<Rightarrow> instant \<Rightarrow> instant \<Rightarrow> goerror + check_record list"

record attendance_service =
  Srv_hasUserRepo :: bool
  Srv_hasLeaveRepo :: bool
  Srv_hasManualOverrideRepo :: bool
  Srv_hasScheduleSettingRepo :: bool
  Srv_hasRestDayRepo :: bool
  Srv_hasSemesterSrv :: bool
  Srv_schedulePeriodSrv :: "schedule_cfg option option"
  Srv_scheduleCfg :: schedule_cfg
  Srv_fetchAttendanceRecords :: "(goctx \<Rightarrow> fetch_checks) option"
  Srv_dingMgr :: "(goctx \<Rightarrow> goerror + fetch_checks) option"
  Srv_rangeChecks :: "string list \<Rightarrow> string list"
  Srv_rangeIDs :: "nat list \<Rightarrow> nat list"

record attendanceWindow =
  W_date :: instant
  W_periods :: "period list"
  W_slotStart :: instant
  W_slotEnd :: instant
  W_lateDeadline :: instant
  W_finalizeAt :: instant

definition calculateFinalizeAt :: "instant \<Rightarrow> instant" where
  "calculateFinalizeAt slotStart = slotStart + 30 * minute"

definition shouldUseRealtimeView :: "instant \<Rightarrow> instant \<Rightarrow> bool" where
  "shouldUseRealtimeView now finalizeAt \<longleftrightarrow> now < finalizeAt"

definition minTime :: "instant \<Rightarrow> instant \<Rightarrow> instant" where
  "minTime left right = (if left < right then left else right)"

definition resolveActivePeriods :: "attendance_service \<Rightarrow> goctx \<Rightarrow> database \<Rightarrow> period list" where
  "resolveActivePeriods s ctx db =
     (case Srv_schedulePeriodSrv s of
        Some fallback \<Rightarrow>
          (case getActivePeriods fallback ctx db of
             Inr periods \<Rightarrow> if periods \<noteq> [] then periods else Cfg_Periods (Srv_scheduleCfg s)
           | Inl _ \<Rightarrow> Cfg_Periods (Srv_scheduleCfg s))
      | None \<Rightarrow> Cfg_Periods (Srv_scheduleCfg s))"

text \<open>\<open>getActivePeriods\<close> of this service: the configured periods come back together with the
  error, so the error is the second component.\<close>

definition getActivePeriodsOrConfig ::
    "attendance_service \<Rightarrow> goctx \<Rightarrow> database \<Rightarrow> period list \<times> goerror option" where
  "getActivePeriodsOrConfig s ctx db =
     (case Srv_schedulePeriodSrv s of
        None \<Rightarrow> (Cfg_Periods (Srv_scheduleCfg s), None)
      | Some fallback \<Rightarrow>
          (case getActivePeriods fallback ctx db of
             Inl e \<Rightarrow> (Cfg_Periods (Srv_scheduleCfg s), Some e)
           | Inr periods \<Rightarrow>
               if periods = [] then (Cfg_Periods (Srv_scheduleCfg s), None) else (periods, None)))"

definition lateGrace :: "attendance_service \<Rightarrow> duration" where
  "lateGrace s = Cfg_LateGraceMinutes (Srv_scheduleCfg s) * minute"

definition resolveAttendanceWindow ::
    "attendance_service \<Rightarrow> goctx \<Rightarrow> AttendanceDetailRequest \<Rightarrow> database \<Rightarrow> goerror + attendanceWindow" where
  "resolveAttendanceWindow s ctx req db =
     (case parseDate (DB_Tz db) (Req_Date req) of
        None \<Rightarrow> Inl (errInvalidParamWithMsg zh_date_format)
      | Some date \<Rightarrow>
          let periods = resolveActivePeriods s ctx db
          in if Req_Section req \<le> 0 \<or> Req_Section req > int (length periods)
             then Inl (errInvalidParamWithMsg zh_section_invalid)
             else case calculateSlotTime (DB_Tz db) date (Req_Section req) periods of
                    Inl e \<Rightarrow> Inl (SlotError e)
                  | Inr (slotStart, slotEnd) \<Rightarrow>
                      Inr \<lparr>W_date = date, W_periods = periods, W_slotStart = slotStart,
                           W_slotEnd = slotEnd, W_lateDeadline = slotStart + lateGrace s,
                           W_finalizeAt = calculateFinalizeAt slotStart\<rparr>)"

section \<open>Sets and filters\<close>

definition userIDBoolSet :: "user list \<Rightarrow> nat set" where
  "userIDBoolSet users = user_ids users"

definition attendanceLeaveIDBoolSet :: "AttendanceUserLeave list \<Rightarrow> nat set" where
  "attendanceLeaveIDBoolSet users = leave_ids users"

definition mergeBoolSets :: "nat set list \<Rightarrow> nat set" where
  "mergeBoolSets sets = \<Union> (set sets)"

definition filterModelUsers :: "user list \<Rightarrow> nat set \<Rightarrow> user list" where
  "filterModelUsers = drop_excluded U_ID"

definition filterAttendanceChecks :: "AttendanceUserCheck list \<Rightarrow> nat set \<Rightarrow> AttendanceUserCheck list" where
  "filterAttendanceChecks = drop_excluded C_ID"

definition filterAttendanceBasics :: "AttendanceUserBasic list \<Rightarrow> nat set \<Rightarrow> AttendanceUserBasic list" where
  "filterAttendanceBasics = drop_excluded B_ID"

definition basicOf :: "user \<Rightarrow> AttendanceUserBasic" where
  "basicOf u = \<lparr>B_ID = U_ID u, B_Name = U_Name u, B_Avatar = [], B_DeptName = []\<rparr>"

definition toBasicList :: "user list \<Rightarrow> AttendanceUserBasic list" where
  "toBasicList users =
     map (\<lambda>u. \<lparr>B_ID = U_ID u, B_Name = U_Name u, B_Avatar = U_Avatar u, B_DeptName = []\<rparr>) users"

definition toRestDayBasicList :: "user list \<Rightarrow> AttendanceUserBasic list" where
  "toRestDayBasicList users = (if users = [] then [] else map basicOf users)"

section \<open>Candidates and their courses\<close>

definition shouldUseAllAttendMode ::
    "attendance_service \<Rightarrow> goctx \<Rightarrow> instant \<Rightarrow> database \<Rightarrow> bool" where
  "shouldUseAllAttendMode s ctx date db =
     (if Srv_schedulePeriodSrv s \<noteq> None \<and> getCurrentMode ctx db = ''holiday'' then True
      else if Srv_hasSemesterSrv s then
        (case semester_GetActiveSemester ctx db of
           Inl _ \<Rightarrow> True
         | Inr sem \<Rightarrow>
             (case calculateWeekFromDate (DB_Tz db) (Some sem) date of Inl _ \<Rightarrow> True | Inr _ \<Rightarrow> False))
      else False)"

definition getAttendanceCandidatesWithCourseUsers ::
    "attendance_service \<Rightarrow> goctx \<Rightarrow> instant \<Rightarrow> int \<Rightarrow> int \<Rightarrow> int list \<Rightarrow> database
       \<Rightarrow> goerror + (user list \<times> user list)" where
  "getAttendanceCandidatesWithCourseUsers s ctx date week section deptIDs db =
     (if \<not> Srv_hasUserRepo s then Inl (RuntimePanic ''nil pointer'')
      else bindR (wrapR zh_candidates_failed (user_ListAttendanceCandidates ctx deptIDs db))
        (\<lambda>activeUsers.
           if activeUsers = [] then Inr ([], [])
           else if shouldUseAllAttendMode s ctx date db then Inr (activeUsers, [])
           else bindR (wrapR zh_courses_failed
                  (course_ListByUsersDaySection ctx (map U_ID activeUsers)
                     (weekdayMon1Sun7 (DB_Tz db) date) section db))
                (\<lambda>courses.
                   let busyUserSet = Co_UserID ` set (filter (\<lambda>c. containsWeek (Co_WeekList c) week) courses)
                   in Inr (activeUsers, filter (\<lambda>u. U_ID u \<in> busyUserSet) activeUsers))))"

definition getShouldAttendUsers ::
    "attendance_service \<Rightarrow> goctx \<Rightarrow> instant \<Rightarrow> int \<Rightarrow> int \<Rightarrow> int list \<Rightarrow> database
       \<Rightarrow> goerror + (user list \<times> user list)" where
  "getShouldAttendUsers s ctx date week section deptIDs db =
     bindR (getAttendanceCandidatesWithCourseUsers s ctx date week section deptIDs db)
       (\<lambda>(activeUsers, hasCourse).
          Inr (filterModelUsers activeUsers (userIDBoolSet hasCourse), hasCourse))"

section \<open>Rest days and leave\<close>

definition isRestDayAttendanceEnabled :: "attendance_service \<Rightarrow> goctx \<Rightarrow> database \<Rightarrow> bool" where
  "isRestDayAttendanceEnabled s ctx db =
     (if \<not> Srv_hasScheduleSettingRepo s then True
      else case setting_IsRestDayAttendanceEnabled ctx db of
             (_, Some e) \<Rightarrow> True
           | (enabled, None) \<Rightarrow> enabled)"

definition filterRestDayUsers ::
    "attendance_service \<Rightarrow> goctx \<Rightarrow> user list \<Rightarrow> int \<Rightarrow> database \<Rightarrow> user list" where
  "filterRestDayUsers s ctx users dayOfWeek db =
     (if users = [] \<or> \<not> Srv_hasRestDayRepo s \<or> \<not> isRestDayAttendanceEnabled s ctx db then []
      else case rd_ListByUserIDs ctx (map U_ID users) db of
             Inl _ \<Rightarrow> []
           | Inr restDays \<Rightarrow>
               let restDayUserSet = RD_UserID ` set (filter (\<lambda>rd. RD_DayOfWeek rd = Some dayOfWeek) restDays)
               in if restDayUserSet = {} then []
                  else filter (\<lambda>u. U_ID u \<in> restDayUserSet) users)"

definition leaveEntry :: "(nat \<rightharpoonup> user) \<Rightarrow> leave_approval \<Rightarrow> AttendanceUserLeave option" where
  "leaveEntry userMap leave =
     (case userMap (LA_UserID leave) of
        None \<Rightarrow> None
      | Some u \<Rightarrow>
          Some \<lparr>L_ID = U_ID u, L_Name = U_Name u, L_Avatar = [], L_DeptName = [],
                L_LeaveType = LA_LeaveType leave, L_Reason = LA_Reason leave\<rparr>)"

definition getLeaveUsers ::
    "attendance_service \<Rightarrow> goctx \<Rightarrow> user list \<Rightarrow> instant \<Rightarrow> instant \<Rightarrow> database
       \<Rightarrow> goerror + AttendanceUserLeave list" where
  "getLeaveUsers s ctx users slotStart slotEnd db =
     (if users = [] then Inr []
      else if \<not> Srv_hasLeaveRepo s then Inl (RuntimePanic ''nil pointer'')
      else bindR (wrapR zh_leave_failed
             (la_ListApprovedByUserIDs ctx (map U_ID users) slotStart slotEnd db))
           (\<lambda>leaveRecords.
              Inr (List.map_filter (leaveEntry (last_by U_ID users))
                     (dedup_from LA_UserID {} leaveRecords))))"

section \<open>Check records\<close>

definition calculateCheckWindowStart ::
    "attendance_service \<Rightarrow> goctx \<Rightarrow> instant \<Rightarrow> int \<Rightarrow> database \<Rightarrow> goerror + instant" where
  "calculateCheckWindowStart s ctx date section db =
     (if section \<le> 1 then Inr (midnight (DB_Tz db) date)
      else let periods = resolveActivePeriods s ctx db; prevSection = section - 1
           in if prevSection > int (length periods)
              then Inl (BizError codeInvalidParam zh_section_bad)
              else case parseClock (Period_End (periods ! nat (prevSection - 1))) of
                     None \<Rightarrow> Inl (BizError codeInternalError zh_prev_end_failed)
                   | Some (h, m) \<Rightarrow> Inr (atClock (DB_Tz db) date h m))"

definition loadAttendanceRecords ::
    "attendance_service \<Rightarrow> goctx \<Rightarrow> string list \<Rightarrow> instant \<Rightarrow> instant \<Rightarrow> goerror + check_record list" where
  "loadAttendanceRecords s ctx dingUserIDs startAt endAt =
     (case Srv_fetchAttendanceRecords s of
        Some fetch \<Rightarrow> fetch ctx dingUserIDs startAt endAt
      | None \<Rightarrow>
          (case Srv_dingMgr s of
             None \<Rightarrow> Inl (BizError codeInternalError zh_ding_nil)
           | Some fromContext \<Rightarrow>
               (case fromContext ctx of
                  Inl _ \<Rightarrow> Inl (BizError codeUnauthorized zh_tenant_missing)
                | Inr client \<Rightarrow> client dingUserIDs startAt endAt)))"

text \<open>The map of the earliest check per DingTalk user, over the records of type \<open>OnDuty\<close>.\<close>

definition addCheck :: "check_record \<Rightarrow> (string \<rightharpoonup> instant) \<Rightarrow> (string \<rightharpoonup> instant)" where
  "addCheck r earliest =
     (if CR_CheckType r \<noteq> ''OnDuty'' then earliest
      else case earliest (CR_DingUserID r) of
             None \<Rightarrow> earliest(CR_DingUserID r \<mapsto> CR_CheckTime r)
           | Some existing \<Rightarrow>
               if CR_CheckTime r < existing then earliest(CR_DingUserID r \<mapsto> CR_CheckTime r)
               else earliest)"

definition earliestCheck :: "check_record list \<Rightarrow> string \<rightharpoonup> instant" where
  "earliestCheck records = fold addCheck records Map.empty"

definition checkedDingIDs :: "check_record list \<Rightarrow> string list" where
  "checkedDingIDs records =
     dedup_from id {} (map CR_DingUserID (filter (\<lambda>r. CR_CheckType r = ''OnDuty'') records))"

definition checkEntry ::
    "(string \<rightharpoonup> user) \<Rightarrow> (string \<rightharpoonup> instant) \<Rightarrow> instant \<Rightarrow> string \<Rightarrow> AttendanceUserCheck option" where
  "checkEntry userByDingID earliest windowStart dingUserID =
     (case (userByDingID dingUserID, earliest dingUserID) of
        (Some u, Some checkTime) \<Rightarrow>
          if checkTime < windowStart then None
          else Some \<lparr>C_ID = U_ID u, C_Name = U_Name u, C_Avatar = [], C_DeptName = [],
                     C_CheckTime = checkTime\<rparr>
      | _ \<Rightarrow> None)"

definition getOnTimeUsers ::
    "attendance_service \<Rightarrow> goctx \<Rightarrow> user list \<Rightarrow> instant \<Rightarrow> int \<Rightarrow> instant \<Rightarrow> instant \<Rightarrow> database
       \<Rightarrow> goerror + (AttendanceUserCheck list \<times> AttendanceUserCheck list)" where
  "getOnTimeUsers s ctx users date section deadline queryEnd db =
     (let bound = filter (\<lambda>u. U_DingUserID u \<noteq> []) users; dingUserIDs = map U_DingUserID bound
      in if users = [] \<or> dingUserIDs = [] then Inr ([], [])
         else bindR (wrapR zh_window_failed (calculateCheckWindowStart s ctx date section db))
           (\<lambda>windowStart.
              bindR (wrapR zh_ding_failed (loadAttendanceRecords s ctx dingUserIDs windowStart queryEnd))
                (\<lambda>records.
                   let entries = List.map_filter
                         (checkEntry (last_by U_DingUserID bound) (earliestCheck records) windowStart)
                         (Srv_rangeChecks s (checkedDingIDs records))
                   in Inr (filter (\<lambda>c. C_CheckTime c \<le> deadline) entries,
                           filter (\<lambda>c. \<not> C_CheckTime c \<le> deadline) entries))))"

section \<open>Carry-over from the previous section\<close>

definition appendUnique :: "string \<Rightarrow> StoredUserCheck list \<Rightarrow> StoredUserCheck list" where
  "appendUnique raw users =
     (if raw = [] \<or> raw = ''[]'' \<or> raw = ''null'' then users
      else case unmarshalChecks raw of
             (_, True) \<Rightarrow> users
           | (parsed, False) \<Rightarrow> users @ dedup_from SC_ID (SC_ID ` set users) parsed)"

definition loadCarryForwardUsers :: "attendance_record \<Rightarrow> StoredUserCheck list" where
  "loadCarryForwardUsers record =
     appendUnique (AR_LateIDs record) (appendUnique (AR_OnTimeIDs record) [])"

text \<open>The loop over the previous section's users, with \<open>currentOnTimeSet\<close>.\<close>

fun carryLoop ::
    "(nat \<rightharpoonup> user) \<Rightarrow> nat set \<Rightarrow> StoredUserCheck list \<Rightarrow> AttendanceUserCheck list" where
  "carryLoop shouldAttendMap seen [] = []"
| "carryLoop shouldAttendMap seen (prev # rest) =
     (if SC_ID prev \<in> seen then carryLoop shouldAttendMap seen rest
      else case shouldAttendMap (SC_ID prev) of
             None \<Rightarrow> carryLoop shouldAttendMap seen rest
           | Some u \<Rightarrow>
               \<lparr>C_ID = U_ID u, C_Name = U_Name u, C_Avatar = U_Avatar u, C_DeptName = [],
                C_CheckTime = fromUnix (SC_CheckTime prev)\<rparr>
               # carryLoop shouldAttendMap (insert (U_ID u) seen) rest)"

definition applyCarryForward ::
    "attendance_service \<Rightarrow> goctx \<Rightarrow> instant \<Rightarrow> int \<Rightarrow> period list \<Rightarrow> user list
       \<Rightarrow> AttendanceUserCheck list \<Rightarrow> database \<Rightarrow> AttendanceUserCheck list" where
  "applyCarryForward s ctx date section periods shouldAttend onTime db =
     (let maxGap = Cfg_MaxCarryForwardGapMinutes (Srv_scheduleCfg s)
      in if section \<le> 1 then onTime
         else if maxGap \<le> 0 then onTime
         else if section > int (length periods) then onTime
         else case (parseClock (Period_End (periods ! nat (section - 2))),
                    parseClock (Period_Start (periods ! nat (section - 1)))) of
                (Some (h1, m1), Some (h2, m2)) \<Rightarrow>
                  if (h2 * 60 + m2) - (h1 * 60 + m1) > maxGap then onTime
                  else (case ar_FindByDateSection ctx date (section - 1) db of
                          Inl _ \<Rightarrow> onTime
                        | Inr prevRecord \<Rightarrow>
                            let prevUsers = loadCarryForwardUsers prevRecord
                            in if prevUsers = [] then onTime
                               else onTime @ carryLoop (last_by U_ID shouldAttend)
                                               (check_ids onTime) prevUsers)
              | _ \<Rightarrow> onTime)"

section \<open>Not arrived, and who is notified\<close>

definition calculateNotArrivedWithLate ::
    "user list \<Rightarrow> AttendanceUserCheck list \<Rightarrow> AttendanceUserCheck list \<Rightarrow> AttendanceUserLeave list
       \<Rightarrow> AttendanceUserBasic list" where
  "calculateNotArrivedWithLate shouldAttend onTime late leave =
     (let processed = check_ids onTime \<union> check_ids late \<union> leave_ids leave
      in map basicOf (filter (\<lambda>u. U_ID u \<notin> processed) shouldAttend))"

definition calculateNotArrived ::
    "user list \<Rightarrow> AttendanceUserCheck list \<Rightarrow> AttendanceUserLeave list \<Rightarrow> AttendanceUserBasic list" where
  "calculateNotArrived shouldAttend onTime leave =
     calculateNotArrivedWithLate shouldAttend onTime [] leave"

definition buildNotifyList ::
    "user list \<Rightarrow> AttendanceUserCheck list \<Rightarrow> AttendanceUserLeave list \<Rightarrow> user list" where
  "buildNotifyList shouldAttend onTime leave =
     (let processed = check_ids onTime \<union> leave_ids leave
      in filter (\<lambda>u. U_ID u \<notin> processed) shouldAttend)"

section \<open>The response\<close>

definition newAttendanceDetailResponse ::
    "string \<Rightarrow> int \<Rightarrow> int \<Rightarrow> string \<Rightarrow> string \<Rightarrow> user list \<Rightarrow> AttendanceUserCheck list
       \<Rightarrow> AttendanceUserLeave list \<Rightarrow> AttendanceUserBasic list \<Rightarrow> AttendanceUserBasic list
       \<Rightarrow> AttendanceUserBasic list \<Rightarrow> AttendanceDetailResponse" where
  "newAttendanceDetailResponse date week section slotStart slotEnd shouldAttend onTime leave
       notArrived restDay hasCourse =
     \<lparr>Resp_RecordID = 0, Resp_Date = date, Resp_Week = week, Resp_Section = section,
      Resp_ViewMode = [], Resp_IsFinalized = False, Resp_FinalizeAt = 0,
      Resp_SlotStart = slotStart, Resp_SlotEnd = slotEnd,
      Resp_Statistics =
        \<lparr>St_ShouldAttend = length shouldAttend, St_OnTime = length onTime, St_Late = 0,
         St_Leave = length leave, St_NotArrived = length notArrived,
         St_RestDay = length restDay, St_HasCourse = length hasCourse\<rparr>,
      Resp_Users =
        \<lparr>Us_ShouldAttend = map basicOf shouldAttend, Us_OnTime = onTime, Us_Late = [],
         Us_Leave = leave, Us_NotArrived = notArrived, Us_RestDay = restDay,
         Us_HasCourse = hasCourse\<rparr>\<rparr>"

definition setViewMetadata ::
    "string \<Rightarrow> bool \<Rightarrow> instant \<Rightarrow> AttendanceDetailResponse \<Rightarrow> AttendanceDetailResponse" where
  "setViewMetadata viewMode isFinalized finalizeAt r =
     r\<lparr>Resp_ViewMode := viewMode, Resp_IsFinalized := isFinalized, Resp_FinalizeAt := finalizeAt\<rparr>"

definition fillBasic ::
    "(nat \<rightharpoonup> user) \<Rightarrow> (nat \<rightharpoonup> string) \<Rightarrow> AttendanceUserBasic \<Rightarrow> AttendanceUserBasic" where
  "fillBasic userMap deptNameMap b =
     (case userMap (B_ID b) of
        None \<Rightarrow> b
      | Some u \<Rightarrow> b\<lparr>B_Name := U_Name u, B_Avatar := U_Avatar u,
                    B_DeptName := case_option [] id (deptNameMap (B_ID b))\<rparr>)"

definition fillCheck ::
    "(nat \<rightharpoonup> user) \<Rightarrow> (nat \<rightharpoonup> string) \<Rightarrow> AttendanceUserCheck \<Rightarrow> AttendanceUserCheck" where
  "fillCheck userMap deptNameMap c =
     (case userMap (C_ID c) of
        None \<Rightarrow> c
      | Some u \<Rightarrow> c\<lparr>C_Name := U_Name u, C_Avatar := U_Avatar u,
                    C_DeptName := case_option [] id (deptNameMap (C_ID c))\<rparr>)"

definition fillLeave ::
    "(nat \<rightharpoonup> user) \<Rightarrow> (nat \<rightharpoonup> string) \<Rightarrow> AttendanceUserLeave \<Rightarrow> AttendanceUserLeave" where
  "fillLeave userMap deptNameMap l =
     (case userMap (L_ID l) of
        None \<Rightarrow> l
      | Some u \<Rightarrow> l\<lparr>L_Name := U_Name u, L_Avatar := U_Avatar u,
                    L_DeptName := case_option [] id (deptNameMap (L_ID l))\<rparr>)"

definition enrichAttendanceDetailUsers ::
    "attendance_service \<Rightarrow> user list \<Rightarrow> database \<Rightarrow> AttendanceDetailResponse
       \<Rightarrow> AttendanceDetailResponse" where
  "enrichAttendanceDetailUsers s users db resp =
     (if users = [] then resp
      else let userMap = map_of (map (\<lambda>u. (U_ID u, u)) users);
               userIDs = map U_ID (dedup_from U_ID {} users);
               deptNameMap =
                 (if Srv_hasUserRepo s then
                    (case user_GetUserDepartmentNames userIDs db of
                       Inl _ \<Rightarrow> Map.empty | Inr names \<Rightarrow> names)
                  else Map.empty);
               us = Resp_Users resp
           in resp\<lparr>Resp_Users :=
                us\<lparr>Us_ShouldAttend := map (fillBasic userMap deptNameMap) (Us_ShouldAttend us),
                   Us_OnTime := map (fillCheck userMap deptNameMap) (Us_OnTime us),
                   Us_Late := map (fillCheck userMap deptNameMap) (Us_Late us),
                   Us_Leave := map (fillLeave userMap deptNameMap) (Us_Leave us),
                   Us_NotArrived := map (fillBasic userMap deptNameMap) (Us_NotArrived us),
                   Us_RestDay := map (fillBasic userMap deptNameMap) (Us_RestDay us),
                   Us_HasCourse := map (fillBasic userMap deptNameMap) (Us_HasCourse us)\<rparr>\<rparr>)"

definition buildAttendanceDetail ::
    "attendance_service \<Rightarrow> goctx \<Rightarrow> AttendanceDetailRequest \<Rightarrow> attendanceWindow \<Rightarrow> instant \<Rightarrow> bool
       \<Rightarrow> database \<Rightarrow> goerror + (AttendanceDetailResponse \<times> user list)" where
  "buildAttendanceDetail s ctx req window attendanceEnd splitLate db =
     bindR (getAttendanceCandidatesWithCourseUsers s ctx (W_date window) (Req_Week req)
              (Req_Section req) (Req_DeptIDs req) db)
       (\<lambda>(activeUsers, hasCourseUsers).
          let dayOfWeek = weekdayMon1Sun7 (DB_Tz db) (W_date window);
              restDayUsers = filterRestDayUsers s ctx activeUsers dayOfWeek db;
              restDaySet = userIDBoolSet restDayUsers;
              nonRestUsers = filterModelUsers activeUsers restDaySet
          in bindR (getLeaveUsers s ctx nonRestUsers (W_slotStart window) (W_slotEnd window) db)
            (\<lambda>leave.
               let leaveSet = attendanceLeaveIDBoolSet leave;
                   filteredHasCourseUsers =
                     filterModelUsers hasCourseUsers (mergeBoolSets [restDaySet, leaveSet]);
                   hasCourseBasic = toBasicList filteredHasCourseUsers;
                   hasCourseSet = userIDBoolSet filteredHasCourseUsers;
                   shouldAttend =
                     filterModelUsers activeUsers (mergeBoolSets [restDaySet, hasCourseSet]);
                   restDayBasic = toRestDayBasicList restDayUsers;
                   slot = W_periods window ! nat (Req_Section req - 1);
                   response = newAttendanceDetailResponse (Req_Date req) (Req_Week req)
                     (Req_Section req) (Period_Start slot) (Period_End slot) shouldAttend
               in if shouldAttend = [] then
                    Inr (enrichAttendanceDetailUsers s activeUsers db
                           (response [] [] [] restDayBasic hasCourseBasic), [])
                  else bindR (getOnTimeUsers s ctx shouldAttend (W_date window) (Req_Section req)
                         (W_lateDeadline window) attendanceEnd db)
                    (\<lambda>(onTime0, late0).
                       let carried = applyCarryForward s ctx (W_date window) (Req_Section req)
                             (W_periods window) shouldAttend onTime0 db;
                           excluded = mergeBoolSets [leaveSet, restDaySet];
                           onTime = filterAttendanceChecks carried excluded;
                           late = filterAttendanceChecks late0 excluded;
                           notArrived =
                             (if splitLate then calculateNotArrivedWithLate shouldAttend onTime late leave
                              else calculateNotArrived shouldAttend onTime leave);
                           notifyUsers = buildNotifyList shouldAttend onTime leave;
                           resp0 = response onTime leave notArrived restDayBasic hasCourseBasic;
                           resp = (if splitLate then
                                     resp0\<lparr>Resp_Users := (Resp_Users resp0)\<lparr>Us_Late := late\<rparr>,
                                           Resp_Statistics :=
                                             (Resp_Statistics resp0)\<lparr>St_Late := length late\<rparr>\<rparr>
                                   else resp0)
                       in Inr (enrichAttendanceDetailUsers s activeUsers db resp, notifyUsers))))"

end
