(* ===== verification/AttendancePartition.thy ===== *)
theory AttendancePartition
  imports AttendanceDetail
begin

text \<open>
  What the lists of a computed attendance slot contain: the earliest check decides between on time
  and late, every candidate is in exactly one of rest day, course and should-attend, and every
  user that should attend is on time, late, on leave or not arrived.
\<close>

section \<open>Check records\<close>

definition duty_times :: "check_record list \<Rightarrow> string \<Rightarrow> instant set" where
  "duty_times records d =
     CR_CheckTime ` {r \<in> set records. CR_CheckType r = ''OnDuty'' \<and> CR_DingUserID r = d}"

lemma duty_times_simps [simp]:
  "duty_times [] d = {}"
  "duty_times (records @ [r]) d =
     (if CR_CheckType r = ''OnDuty'' \<and> CR_DingUserID r = d
      then insert (CR_CheckTime r) (duty_times records d) else duty_times records d)"
  by (auto simp: duty_times_def)

lemma finite_duty_times [simp]: "finite (duty_times records d)"
  by (simp add: duty_times_def)

lemma addCheck_duty:
  "earliest d = Some m \<Longrightarrow> CR_CheckType r = ''OnDuty'' \<Longrightarrow> CR_DingUserID r = d \<Longrightarrow>
     addCheck r earliest d = Some (min (CR_CheckTime r) m)"
  by (auto simp: addCheck_def min_def)

lemma earliestCheck_eq:
  "earliestCheck records d =
     (if duty_times records d = {} then None else Some (Min (duty_times records d)))"
proof (induction records rule: rev_induct)
  case Nil
  then show ?case by (simp add: earliestCheck_def)
next
  case (snoc r records)
  have step: "earliestCheck (records @ [r]) = addCheck r (earliestCheck records)"
    by (simp add: earliestCheck_def)
  show ?case
  proof (cases "CR_CheckType r = ''OnDuty'' \<and> CR_DingUserID r = d")
    case True
    show ?thesis
    proof (cases "duty_times records d = {}")
      case empty: True
      with True snoc step show ?thesis by (simp add: addCheck_def)
    next
      case False
      with True have "Min (duty_times (records @ [r]) d)
          = min (CR_CheckTime r) (Min (duty_times records d))" by (simp add: Min_insert)
      moreover have "addCheck r (earliestCheck records) d
          = Some (min (CR_CheckTime r) (Min (duty_times records d)))"
        using True False snoc.IH by (intro addCheck_duty) simp_all
      ultimately show ?thesis using True step by simp
    qed
  next
    case False
    with snoc step show ?thesis by (auto simp: addCheck_def split: option.splits)
  qed
qed

lemma set_checkedDingIDs:
  "set (checkedDingIDs records) = {d. duty_times records d \<noteq> {}}"
proof -
  have "set (checkedDingIDs records) = id ` set (checkedDingIDs records)" by simp
  also have "\<dots> = set (map CR_DingUserID (filter (\<lambda>r. CR_CheckType r = ''OnDuty'') records))"
    unfolding checkedDingIDs_def by (subst keys_dedup_from) simp
  also have "\<dots> = {d. duty_times records d \<noteq> {}}" by (auto simp: duty_times_def)
  finally show ?thesis .
qed

lemma distinct_checkedDingIDs: "distinct (checkedDingIDs records)"
  using distinct_dedup_from [of id "{}"] by (simp add: checkedDingIDs_def)

lemma map_filter_Cons:
  "List.map_filter f (x # xs) = (case f x of None \<Rightarrow> [] | Some y \<Rightarrow> [y]) @ List.map_filter f xs"
  by (simp add: List.map_filter_def split: option.splits)

lemma set_map_filter: "set (List.map_filter f xs) = {y. \<exists>x \<in> set xs. f x = Some y}"
  by (force simp: List.map_filter_def)

lemma distinct_map_filter_key:
  assumes "distinct xs"
    and "\<And>x y a b. x \<in> set xs \<Longrightarrow> y \<in> set xs \<Longrightarrow> f x = Some a \<Longrightarrow> f y = Some b \<Longrightarrow> key a = key b \<Longrightarrow> x = y"
  shows "distinct (map key (List.map_filter f xs))"
  using assms
proof (induction xs)
  case Nil
  then show ?case by (simp add: List.map_filter_def)
next
  case (Cons x xs)
  then have IH: "distinct (map key (List.map_filter f xs))" by (metis distinct.simps(2) list.set_intros(2))
  show ?case
  proof (cases "f x")
    case None
    with IH show ?thesis by (simp add: map_filter_Cons)
  next
    case (Some a)
    have "key a \<notin> key ` set (List.map_filter f xs)"
    proof
      assume "key a \<in> key ` set (List.map_filter f xs)"
      then obtain y b where "y \<in> set xs" "f y = Some b" "key a = key b"
        by (auto simp: set_map_filter)
      with Cons.prems(2) [of x y a b] Some Cons.prems(1) show False by auto
    qed
    with IH Some show ?thesis by (simp add: map_filter_Cons)
  qed
qed

lemma checkEntry_SomeD:
  "checkEntry byDing earliest ws d = Some c \<Longrightarrow>
     \<exists>u. byDing d = Some u \<and> C_ID c = U_ID u \<and> earliest d = Some (C_CheckTime c) \<and> ws \<le> C_CheckTime c"
  by (auto simp: checkEntry_def split: option.splits if_splits)

text \<open>The entries of \<open>getOnTimeUsers\<close> before the split at the deadline.\<close>

definition checkEntries ::
    "attendance_service \<Rightarrow> user list \<Rightarrow> check_record list \<Rightarrow> instant \<Rightarrow> AttendanceUserCheck list" where
  "checkEntries s users records windowStart =
     List.map_filter
       (checkEntry (last_by U_DingUserID (filter (\<lambda>u. U_DingUserID u \<noteq> []) users))
          (earliestCheck records) windowStart)
       (Srv_rangeChecks s (checkedDingIDs records))"

lemma getOnTimeUsers_cases:
  assumes "getOnTimeUsers s ctx users date section deadline queryEnd db = Inr (onTime, late)"
  obtains (none) "onTime = []" "late = []" "list_all (\<lambda>u. U_DingUserID u = []) users"
  | (some) windowStart records where
      "calculateCheckWindowStart s ctx date section db = Inr windowStart"
      "loadAttendanceRecords s ctx (map U_DingUserID (filter (\<lambda>u. U_DingUserID u \<noteq> []) users))
         windowStart queryEnd = Inr records"
      "onTime = filter (\<lambda>c. C_CheckTime c \<le> deadline) (checkEntries s users records windowStart)"
      "late = filter (\<lambda>c. \<not> C_CheckTime c \<le> deadline) (checkEntries s users records windowStart)"
proof (cases "filter (\<lambda>u. U_DingUserID u \<noteq> []) users = []")
  case True
  with assms none show thesis
    by (auto simp: getOnTimeUsers_def Let_def filter_empty_conv list_all_iff)
next
  case False
  then have "users \<noteq> []" by auto
  with False assms some show thesis
    by (auto simp: getOnTimeUsers_def Let_def bindR_eq_Inr_iff checkEntries_def)
qed

lemma checkEntries_ids: "check_ids (checkEntries s users records ws) \<subseteq> user_ids users"
  by (auto simp: checkEntries_def set_map_filter dest!: checkEntry_SomeD last_by_SomeD)

lemma checkEntries_distinct:
  assumes "distinct (map U_ID users)" and "permutes_lists (Srv_rangeChecks s)"
  shows "distinct (map C_ID (checkEntries s users records ws))"
  unfolding checkEntries_def
proof (rule distinct_map_filter_key)
  show "distinct (Srv_rangeChecks s (checkedDingIDs records))"
    using assms(2) by (simp add: permutes_lists_distinct distinct_checkedDingIDs)
next
  let ?by = "last_by U_DingUserID (filter (\<lambda>u. U_DingUserID u \<noteq> []) users)"
  fix d e a b
  assume "checkEntry ?by (earliestCheck records) ws d = Some a"
    and "checkEntry ?by (earliestCheck records) ws e = Some b" and "C_ID a = C_ID b"
  then obtain u v where uv: "?by d = Some u" "?by e = Some v" "U_ID u = U_ID v"
    by (auto dest!: checkEntry_SomeD)
  then have "u \<in> set users" "v \<in> set users" "U_DingUserID u = d" "U_DingUserID v = e"
    by (auto dest: last_by_SomeD)
  with assms(1) uv(3) show "d = e" by (metis distinct_map inj_onD)
qed

lemma getOnTimeUsers_ids:
  assumes "getOnTimeUsers s ctx users date section deadline queryEnd db = Inr (onTime, late)"
  shows "check_ids onTime \<subseteq> user_ids users" and "check_ids late \<subseteq> user_ids users"
  using assms
  by (elim getOnTimeUsers_cases; use checkEntries_ids in fastforce)+

lemma distinct_filter_pair:
  "distinct (map key xs) \<Longrightarrow> key ` set (filter P xs) \<inter> key ` set (filter (\<lambda>x. \<not> P x) xs) = {}"
  by (auto simp: distinct_map dest: inj_onD)

lemma getOnTimeUsers_distinct:
  assumes "getOnTimeUsers s ctx users date section deadline queryEnd db = Inr (onTime, late)"
    and "distinct (map U_ID users)" and "permutes_lists (Srv_rangeChecks s)"
  shows "distinct (map C_ID onTime)" and "distinct (map C_ID late)"
    and "check_ids onTime \<inter> check_ids late = {}"
proof -
  have d: "distinct (map C_ID (checkEntries s users records ws))" for records ws
    using assms(2,3) by (rule checkEntries_distinct)
  show "distinct (map C_ID onTime)" "distinct (map C_ID late)"
    using assms(1) by (elim getOnTimeUsers_cases; simp add: distinct_map_filter d)+
  show "check_ids onTime \<inter> check_ids late = {}"
    using assms(1) distinct_filter_pair [OF d] by (elim getOnTimeUsers_cases) auto
qed

section \<open>Carry-over\<close>

lemma carryLoop_ids:
  assumes "\<And>i u. m i = Some u \<Longrightarrow> U_ID u = i"
  shows "check_ids (carryLoop m seen prev) \<subseteq> dom m - seen
     \<and> distinct (map C_ID (carryLoop m seen prev))"
proof (induction prev arbitrary: seen)
  case Nil
  then show ?case by simp
next
  case (Cons p prev)
  show ?case
  proof (cases "SC_ID p \<in> seen \<or> m (SC_ID p) = None")
    case True
    then have "carryLoop m seen (p # prev) = carryLoop m seen prev" by auto
    then show ?thesis using Cons.IH [of seen] by simp
  next
    case False
    then obtain u where u: "m (SC_ID p) = Some u" "U_ID u = SC_ID p" using assms by auto
    with False have "carryLoop m seen (p # prev)
        = \<lparr>C_ID = U_ID u, C_Name = U_Name u, C_Avatar = U_Avatar u, C_DeptName = [],
           C_CheckTime = fromUnix (SC_CheckTime p)\<rparr> # carryLoop m (insert (U_ID u) seen) prev"
      by simp
    with Cons.IH [of "insert (U_ID u) seen"] u False show ?thesis by auto
  qed
qed

lemma applyCarryForward_shape:
  "applyCarryForward s ctx date section periods should onTime db = onTime
   \<or> (\<exists>prev. applyCarryForward s ctx date section periods should onTime db
          = onTime @ carryLoop (last_by U_ID should) (check_ids onTime) prev)"
  by (simp add: applyCarryForward_def Let_def split: option.splits sum.splits prod.splits) blast

lemma applyCarryForward_ids:
  assumes "check_ids onTime \<subseteq> user_ids should" and "distinct (map C_ID onTime)"
    and r_def: "r = applyCarryForward s ctx date section periods should onTime db"
  shows "check_ids r \<subseteq> user_ids should" and "distinct (map C_ID r)" and "set onTime \<subseteq> set r"
proof -
  have m: "last_by U_ID should i = Some u \<Longrightarrow> U_ID u = i" for i u by (auto dest: last_by_SomeD)
  obtain extra where e: "r = onTime @ extra"
      "extra = [] \<or> (\<exists>prev. extra = carryLoop (last_by U_ID should) (check_ids onTime) prev)"
    using applyCarryForward_shape [of s ctx date "section" periods should onTime db] r_def by auto
  have ex: "check_ids extra \<subseteq> user_ids should - check_ids onTime \<and> distinct (map C_ID extra)"
    using e(2) carryLoop_ids [of "last_by U_ID should" "check_ids onTime", OF m] by auto
  show "check_ids r \<subseteq> user_ids should" "distinct (map C_ID r)" "set onTime \<subseteq> set r"
    unfolding e(1) using assms(1,2) ex by auto
qed

section \<open>Leave and rest\<close>

lemma leaveEntry_SomeD:
  "leaveEntry (last_by U_ID users) l = Some e \<Longrightarrow> L_ID e = LA_UserID l \<and> L_ID e \<in> user_ids users"
  by (auto simp: leaveEntry_def split: option.splits dest: last_by_SomeD)

lemma getLeaveUsers_ids:
  assumes "getLeaveUsers s ctx users a b db = Inr leave"
  shows "leave_ids leave \<subseteq> user_ids users" and "distinct (map L_ID leave)"
proof -
  have *: "users = [] \<and> leave = [] \<or> (\<exists>ls. leave = List.map_filter (leaveEntry (last_by U_ID users))
              (dedup_from LA_UserID {} ls))"
    using assms by (auto simp: getLeaveUsers_def bindR_eq_Inr_iff split: if_splits)
  then show "leave_ids leave \<subseteq> user_ids users"
    by (auto simp: set_map_filter dest!: leaveEntry_SomeD)
  have "distinct (map L_ID (List.map_filter (leaveEntry (last_by U_ID users))
              (dedup_from LA_UserID {} ls)))" for ls
  proof (rule distinct_map_filter_key)
    have d: "distinct (map LA_UserID (dedup_from LA_UserID {} ls))" by simp
    then show "distinct (dedup_from LA_UserID {} ls)" by (simp add: distinct_map)
    fix x y a b
    assume "x \<in> set (dedup_from LA_UserID {} ls)" "y \<in> set (dedup_from LA_UserID {} ls)"
      "leaveEntry (last_by U_ID users) x = Some a" "leaveEntry (last_by U_ID users) y = Some b"
      "L_ID a = L_ID b"
    with d show "x = y" by (metis leaveEntry_SomeD distinct_map inj_onD)
  qed
  with * show "distinct (map L_ID leave)" by auto
qed

lemma nil_filter: "\<exists>P. [] = filter P xs"
  by (rule exI [of _ "\<lambda>_. False"]) simp

lemma filterRestDayUsers_filter: "\<exists>P. filterRestDayUsers s ctx users d db = filter P users"
proof -
  have "filterRestDayUsers s ctx users d db = []
      \<or> (\<exists>A. filterRestDayUsers s ctx users d db = filter (\<lambda>u. U_ID u \<in> A) users)"
    by (simp add: filterRestDayUsers_def Let_def split: sum.splits) blast
  then show ?thesis using nil_filter by metis
qed

lemma candidates_filter:
  assumes "getAttendanceCandidatesWithCourseUsers s ctx date week section depts db = Inr (active, course)"
  shows "(\<exists>P. course = filter P active)
    \<and> (active = [] \<or> user_ListAttendanceCandidates ctx depts db = Inr active)"
proof -
  have "(course = [] \<or> (\<exists>A. course = filter (\<lambda>u. U_ID u \<in> A) active))
      \<and> (active = [] \<or> user_ListAttendanceCandidates ctx depts db = Inr active)"
    using assms
    by (auto simp: getAttendanceCandidatesWithCourseUsers_def Let_def bindR_eq_Inr_iff
        split: if_splits)
  then show ?thesis using nil_filter by metis
qed

lemma candidates_ids_distinct:
  assumes "getAttendanceCandidatesWithCourseUsers s ctx date week section depts db = Inr (active, course)"
    and "db_wf db"
  shows "distinct (map U_ID active)"
  using candidates_filter [OF assms(1)] candidates_distinct [OF assms(2)] by auto

section \<open>The assembled response\<close>

definition id_lists :: "AttendanceUserLists \<Rightarrow> nat list list" where
  "id_lists us =
     [map B_ID (Us_ShouldAttend us), map C_ID (Us_OnTime us), map C_ID (Us_Late us),
      map L_ID (Us_Leave us), map B_ID (Us_NotArrived us), map B_ID (Us_RestDay us),
      map B_ID (Us_HasCourse us)]"

lemma fill_ids [simp]:
  "B_ID (fillBasic m d b) = B_ID b" "C_ID (fillCheck m d c) = C_ID c" "L_ID (fillLeave m d l) = L_ID l"
  "C_CheckTime (fillCheck m d c) = C_CheckTime c"
  by (simp_all add: fillBasic_def fillCheck_def fillLeave_def split: option.splits)

lemma enrich_ids:
  "id_lists (Resp_Users (enrichAttendanceDetailUsers s users db resp)) = id_lists (Resp_Users resp)"
  by (simp add: enrichAttendanceDetailUsers_def id_lists_def Let_def)

lemma enrich_statistics [simp]:
  "Resp_Statistics (enrichAttendanceDetailUsers s users db resp) = Resp_Statistics resp"
  by (simp add: enrichAttendanceDetailUsers_def Let_def)

lemma statistics_of_ids:
  "id_lists us = id_lists vs \<Longrightarrow> statistics_of us = statistics_of vs"
  unfolding id_lists_def statistics_of_def by (simp, metis length_map)

text \<open>The classification promised for a slot: rest day, course and should-attend split the
  candidates, and on time, late, leave and not arrived cover those that should attend, where
  only on time and late may share users.\<close>

definition slot_partition :: "nat set \<Rightarrow> AttendanceUserLists \<Rightarrow> bool" where
  "slot_partition active us \<longleftrightarrow>
     (let should = basic_ids (Us_ShouldAttend us); rest = basic_ids (Us_RestDay us);
          course = basic_ids (Us_HasCourse us); onTime = check_ids (Us_OnTime us);
          late = check_ids (Us_Late us); leave = leave_ids (Us_Leave us);
          notArrived = basic_ids (Us_NotArrived us)
      in active = should \<union> rest \<union> course
         \<and> should \<inter> rest = {} \<and> should \<inter> course = {} \<and> rest \<inter> course = {}
         \<and> should = onTime \<union> late \<union> leave \<union> notArrived
         \<and> leave \<inter> (onTime \<union> late \<union> notArrived) = {} \<and> notArrived \<inter> (onTime \<union> late) = {})"

lemma id_lists_sets:
  assumes "id_lists us = id_lists vs"
  shows "basic_ids (Us_ShouldAttend us) = basic_ids (Us_ShouldAttend vs)"
    "check_ids (Us_OnTime us) = check_ids (Us_OnTime vs)"
    "check_ids (Us_Late us) = check_ids (Us_Late vs)"
    "leave_ids (Us_Leave us) = leave_ids (Us_Leave vs)"
    "basic_ids (Us_NotArrived us) = basic_ids (Us_NotArrived vs)"
    "basic_ids (Us_RestDay us) = basic_ids (Us_RestDay vs)"
    "basic_ids (Us_HasCourse us) = basic_ids (Us_HasCourse vs)"
  using arg_cong [OF assms, of "map set"] by (simp_all add: id_lists_def)

lemma slot_partition_ids:
  assumes "id_lists us = id_lists vs"
  shows "slot_partition active us = slot_partition active vs"
  unfolding slot_partition_def id_lists_sets [OF assms] ..

lemma response_ids:
  "id_lists (Resp_Users (newAttendanceDetailResponse d w sec a b should on leave na rest course))
     = [map U_ID should, map C_ID on, [], map L_ID leave, map B_ID na, map B_ID rest,
        map B_ID course]"
  by (simp add: id_lists_def newAttendanceDetailResponse_def basicOf_def)

lemma response_statistics:
  "Resp_Statistics (newAttendanceDetailResponse d w sec a b should on leave na rest course)
     = statistics_of (Resp_Users (newAttendanceDetailResponse d w sec a b should on leave na rest course))"
  by (simp add: newAttendanceDetailResponse_def statistics_of_def)

lemma enrich_statistics_of [simp]:
  "statistics_of (Resp_Users (enrichAttendanceDetailUsers s us db r)) = statistics_of (Resp_Users r)"
  by (rule statistics_of_ids) (rule enrich_ids)

lemma B_ID_basicOf [simp]: "B_ID (basicOf u) = U_ID u"
  by (simp add: basicOf_def)

lemma list_ids [simp]:
  "map B_ID (map basicOf us) = map U_ID us" "map B_ID (toBasicList us) = map U_ID us"
  "map B_ID (toRestDayBasicList us) = map U_ID us"
  by (simp_all add: basicOf_def toBasicList_def toRestDayBasicList_def)

lemma list_id_sets [simp]:
  "basic_ids (map basicOf us) = user_ids us" "basic_ids (toBasicList us) = user_ids us"
  "basic_ids (toRestDayBasicList us) = user_ids us"
  by (simp_all add: basicOf_def toBasicList_def toRestDayBasicList_def image_image)

lemma list_lengths [simp]:
  "length (toBasicList us) = length us" "length (toRestDayBasicList us) = length us"
  by (simp_all add: toBasicList_def toRestDayBasicList_def)

lemma partition_sets:
  assumes "rest \<subseteq> active" "course0 \<subseteq> active" "leave \<subseteq> active - rest"
    and "course = course0 - (rest \<union> leave)" and "should = active - (rest \<union> course)"
    and "onTime \<subseteq> should - (leave \<union> rest)" and "late \<subseteq> should - (leave \<union> rest)"
    and "notArrived = should - (onTime \<union> late \<union> leave)"
  shows "active = should \<union> rest \<union> course
         \<and> should \<inter> rest = {} \<and> should \<inter> course = {} \<and> rest \<inter> course = {}
         \<and> should = onTime \<union> late \<union> leave \<union> notArrived
         \<and> leave \<inter> (onTime \<union> late \<union> notArrived) = {} \<and> notArrived \<inter> (onTime \<union> late) = {}"
  using assms by blast

text \<open>One successful run of \<open>buildAttendanceDetail\<close>: the intermediate lists, and the identifiers
  the response ends up with.\<close>

lemma buildAttendanceDetail_cases:
  assumes "buildAttendanceDetail s ctx req window attendanceEnd splitLate db = Inr (resp, notify)"
  obtains active courseUsers rest leave course should onTime late where
    "getAttendanceCandidatesWithCourseUsers s ctx (W_date window) (Req_Week req)
       (Req_Section req) (Req_DeptIDs req) db = Inr (active, courseUsers)"
    "rest = filterRestDayUsers s ctx active (weekdayMon1Sun7 (DB_Tz db) (W_date window)) db"
    "getLeaveUsers s ctx (filterModelUsers active (user_ids rest)) (W_slotStart window)
       (W_slotEnd window) db = Inr leave"
    "course = filterModelUsers courseUsers (user_ids rest \<union> leave_ids leave)"
    "should = filterModelUsers active (user_ids rest \<union> user_ids course)"
    "should = [] \<and> onTime = [] \<and> late = [] \<or>
     (\<exists>onTime0 late0. getOnTimeUsers s ctx should (W_date window) (Req_Section req)
          (W_lateDeadline window) attendanceEnd db = Inr (onTime0, late0)
        \<and> onTime = filterAttendanceChecks (applyCarryForward s ctx (W_date window)
              (Req_Section req) (W_periods window) should onTime0 db) (leave_ids leave \<union> user_ids rest)
        \<and> late = filterAttendanceChecks late0 (leave_ids leave \<union> user_ids rest))"
    "id_lists (Resp_Users resp) =
       [map U_ID should, map C_ID onTime, if splitLate then map C_ID late else [],
        if should = [] then [] else map L_ID leave,
        map U_ID (filter (\<lambda>u. U_ID u \<notin> check_ids onTime
          \<union> (if splitLate then check_ids late else {}) \<union> leave_ids leave) should),
        map U_ID rest, map U_ID course]"
    "Resp_Statistics resp = statistics_of (Resp_Users resp)"
    "notify = filter (\<lambda>u. U_ID u \<notin> check_ids onTime \<union> leave_ids leave) should"
proof -
  from assms obtain active courseUsers where
    cand: "getAttendanceCandidatesWithCourseUsers s ctx (W_date window) (Req_Week req)
       (Req_Section req) (Req_DeptIDs req) db = Inr (active, courseUsers)"
    by (auto simp: buildAttendanceDetail_def bindR_eq_Inr_iff)
  define rest where
    "rest = filterRestDayUsers s ctx active (weekdayMon1Sun7 (DB_Tz db) (W_date window)) db"
  from assms cand obtain leave where
    leave: "getLeaveUsers s ctx (filterModelUsers active (user_ids rest)) (W_slotStart window)
       (W_slotEnd window) db = Inr leave"
    by (auto simp: buildAttendanceDetail_def bindR_eq_Inr_iff Let_def rest_def userIDBoolSet_def)
  define course where "course = filterModelUsers courseUsers (user_ids rest \<union> leave_ids leave)"
  define should where "should = filterModelUsers active (user_ids rest \<union> user_ids course)"
  let ?R = "newAttendanceDetailResponse (Req_Date req) (Req_Week req) (Req_Section req)
    (Period_Start (W_periods window ! nat (Req_Section req - 1)))
    (Period_End (W_periods window ! nat (Req_Section req - 1))) should"
  have sets: "\<Union> (set [user_ids rest, leave_ids leave]) = user_ids rest \<union> leave_ids leave"
    "\<Union> (set [user_ids rest, user_ids course]) = user_ids rest \<union> user_ids course"
    "\<Union> (set [leave_ids leave, user_ids rest]) = leave_ids leave \<union> user_ids rest"
    by simp_all
  note run = assms [unfolded buildAttendanceDetail_def cand bindR_Inr prod.case Let_def
      userIDBoolSet_def attendanceLeaveIDBoolSet_def mergeBoolSets_def, folded rest_def,
      unfolded leave bindR_Inr sets, folded course_def, unfolded sets, folded should_def]
  show thesis
  proof (cases "should = []")
    case True
    then have "resp = enrichAttendanceDetailUsers s active db
        (?R [] [] [] (toRestDayBasicList rest) (toBasicList course))" and "notify = []"
      using run by simp_all
    then have "id_lists (Resp_Users resp) =
        [map U_ID should, [], [], [], [], map U_ID rest, map U_ID course]"
      and "Resp_Statistics resp = statistics_of (Resp_Users resp)"
      using True by (simp_all add: enrich_ids response_ids response_statistics)
    then show thesis
      using that [OF cand rest_def leave course_def should_def, of "[]" "[]"] True \<open>notify = []\<close> by simp
  next
    case False
    from run obtain onTime0 late0 where
      checks: "getOnTimeUsers s ctx should (W_date window) (Req_Section req)
          (W_lateDeadline window) attendanceEnd db = Inr (onTime0, late0)"
      using False by (auto simp: bindR_eq_Inr_iff)
    define onTime where "onTime = filterAttendanceChecks (applyCarryForward s ctx (W_date window)
        (Req_Section req) (W_periods window) should onTime0 db) (leave_ids leave \<union> user_ids rest)"
    define late where "late = filterAttendanceChecks late0 (leave_ids leave \<union> user_ids rest)"
    define R where "R = ?R onTime leave (if splitLate then calculateNotArrivedWithLate should onTime late leave
        else calculateNotArrived should onTime leave) (toRestDayBasicList rest) (toBasicList course)"
    define R' where "R' = (if splitLate then R\<lparr>Resp_Users := (Resp_Users R)\<lparr>Us_Late := late\<rparr>,
        Resp_Statistics := (Resp_Statistics R)\<lparr>St_Late := length late\<rparr>\<rparr> else R)"
    note run' = run [unfolded checks bindR_Inr prod.case, folded onTime_def late_def, folded R_def,
        folded R'_def]
    have resp: "resp = enrichAttendanceDetailUsers s active db R'"
      and notify: "notify = filter (\<lambda>u. U_ID u \<notin> check_ids onTime \<union> leave_ids leave) should"
      using run' False by (simp_all add: buildNotifyList_def)
    have "id_lists (Resp_Users R') =
       [map U_ID should, map C_ID onTime, if splitLate then map C_ID late else [], map L_ID leave,
        map U_ID (filter (\<lambda>u. U_ID u \<notin> check_ids onTime
          \<union> (if splitLate then check_ids late else {}) \<union> leave_ids leave) should),
        map U_ID rest, map U_ID course]"
      using response_ids
      by (auto simp: R'_def R_def id_lists_def calculateNotArrived_def calculateNotArrivedWithLate_def)
    moreover have "Resp_Statistics R' = statistics_of (Resp_Users R')"
      using response_statistics by (simp add: R'_def R_def statistics_of_def)
    ultimately show thesis
      using that [OF cand rest_def leave course_def should_def, of onTime late] False checks resp notify
        onTime_def late_def by (simp add: enrich_ids)
  qed
qed

text \<open>The sets behind a response, over the same run.\<close>

lemma buildAttendanceDetail_sets:
  assumes "buildAttendanceDetail s ctx req window attendanceEnd splitLate db = Inr (resp, notify)"
    and "db_wf db" and "permutes_lists (Srv_rangeChecks s)"
  obtains active courseUsers where
    "getAttendanceCandidatesWithCourseUsers s ctx (W_date window) (Req_Week req)
       (Req_Section req) (Req_DeptIDs req) db = Inr (active, courseUsers)"
    "slot_partition (user_ids active) (Resp_Users resp)"
    "list_all distinct (id_lists (Resp_Users resp))"
    "Resp_Statistics resp = statistics_of (Resp_Users resp)"
    "user_ids notify = basic_ids (Us_ShouldAttend (Resp_Users resp))
       - check_ids (Us_OnTime (Resp_Users resp)) - leave_ids (Us_Leave (Resp_Users resp))"
proof (rule buildAttendanceDetail_cases [OF assms(1)])
  fix active courseUsers rest leave course should onTime late
  assume cand: "getAttendanceCandidatesWithCourseUsers s ctx (W_date window) (Req_Week req)
       (Req_Section req) (Req_DeptIDs req) db = Inr (active, courseUsers)"
    and rest: "rest = filterRestDayUsers s ctx active (weekdayMon1Sun7 (DB_Tz db) (W_date window)) db"
    and leave: "getLeaveUsers s ctx (filterModelUsers active (user_ids rest)) (W_slotStart window)
       (W_slotEnd window) db = Inr leave"
    and course: "course = filterModelUsers courseUsers (user_ids rest \<union> leave_ids leave)"
    and should: "should = filterModelUsers active (user_ids rest \<union> user_ids course)"
    and checks: "should = [] \<and> onTime = [] \<and> late = [] \<or>
     (\<exists>onTime0 late0. getOnTimeUsers s ctx should (W_date window) (Req_Section req)
          (W_lateDeadline window) attendanceEnd db = Inr (onTime0, late0)
        \<and> onTime = filterAttendanceChecks (applyCarryForward s ctx (W_date window)
              (Req_Section req) (W_periods window) should onTime0 db) (leave_ids leave \<union> user_ids rest)
        \<and> late = filterAttendanceChecks late0 (leave_ids leave \<union> user_ids rest))"
    and ids: "id_lists (Resp_Users resp) =
       [map U_ID should, map C_ID onTime, if splitLate then map C_ID late else [],
        if should = [] then [] else map L_ID leave,
        map U_ID (filter (\<lambda>u. U_ID u \<notin> check_ids onTime
          \<union> (if splitLate then check_ids late else {}) \<union> leave_ids leave) should),
        map U_ID rest, map U_ID course]"
    and stat: "Resp_Statistics resp = statistics_of (Resp_Users resp)"
    and notify: "notify = filter (\<lambda>u. U_ID u \<notin> check_ids onTime \<union> leave_ids leave) should"
  have dA: "distinct (map U_ID active)" using candidates_ids_distinct [OF cand assms(2)] .
  obtain P Q where PQ: "courseUsers = filter P active" "rest = filter Q active"
    using candidates_filter [OF cand] filterRestDayUsers_filter rest by metis
  have dS: "distinct (map U_ID should)" using dA by (simp add: should filterModelUsers_def)
  have onT: "check_ids onTime \<subseteq> user_ids should - (leave_ids leave \<union> user_ids rest)
      \<and> distinct (map C_ID onTime)"
    using checks
  proof
    assume "\<exists>onTime0 late0. getOnTimeUsers s ctx should (W_date window) (Req_Section req)
          (W_lateDeadline window) attendanceEnd db = Inr (onTime0, late0)
        \<and> onTime = filterAttendanceChecks (applyCarryForward s ctx (W_date window)
              (Req_Section req) (W_periods window) should onTime0 db) (leave_ids leave \<union> user_ids rest)
        \<and> late = filterAttendanceChecks late0 (leave_ids leave \<union> user_ids rest)"
    then show ?thesis
      using applyCarryForward_ids(1,2) [OF getOnTimeUsers_ids(1) getOnTimeUsers_distinct(1) refl]
        dS assms(3) by (fastforce simp: filterAttendanceChecks_def)
  qed auto
  have lat: "check_ids late \<subseteq> user_ids should - (leave_ids leave \<union> user_ids rest)
      \<and> distinct (map C_ID late)"
    using checks getOnTimeUsers_ids(2) getOnTimeUsers_distinct(2) dS assms(3)
    by (fastforce simp: filterAttendanceChecks_def)
  have lv: "leave_ids leave \<subseteq> user_ids active - user_ids rest" "distinct (map L_ID leave)"
    using getLeaveUsers_ids [OF leave] by (auto simp: filterModelUsers_def)
  let ?late = "if splitLate then check_ids late else {}"
  let ?na = "user_ids should - (check_ids onTime \<union> ?late \<union> leave_ids leave)"
  have part: "user_ids active = user_ids should \<union> user_ids rest \<union> user_ids course
      \<and> user_ids should \<inter> user_ids rest = {} \<and> user_ids should \<inter> user_ids course = {}
      \<and> user_ids rest \<inter> user_ids course = {}
      \<and> user_ids should = check_ids onTime \<union> ?late \<union> leave_ids leave \<union> ?na
      \<and> leave_ids leave \<inter> (check_ids onTime \<union> ?late \<union> ?na) = {}
      \<and> ?na \<inter> (check_ids onTime \<union> ?late) = {}"
  proof (rule partition_sets [of _ _ "user_ids courseUsers"])
    show "user_ids course = user_ids courseUsers - (user_ids rest \<union> leave_ids leave)"
      "user_ids should = user_ids active - (user_ids rest \<union> user_ids course)"
      unfolding course should filterModelUsers_def by (rule ids_drop_excluded)+
    show "?late \<subseteq> user_ids should - (leave_ids leave \<union> user_ids rest)"
      using lat by (cases splitLate) simp_all
  qed (use PQ lv(1) onT in auto)
  note sets = arg_cong [OF ids, of "map set", unfolded id_lists_def]
  have e: "basic_ids (Us_ShouldAttend (Resp_Users resp)) = user_ids should"
      "check_ids (Us_OnTime (Resp_Users resp)) = check_ids onTime"
      "check_ids (Us_Late (Resp_Users resp)) = ?late"
      "basic_ids (Us_RestDay (Resp_Users resp)) = user_ids rest"
      "basic_ids (Us_HasCourse (Resp_Users resp)) = user_ids course"
    using sets by simp_all
  have lset: "leave_ids (Us_Leave (Resp_Users resp)) = leave_ids leave"
  proof -
    have "leave_ids leave \<subseteq> user_ids should"
      unfolding should course filterModelUsers_def ids_drop_excluded using lv(1) by blast
    then have "should = [] \<Longrightarrow> leave = []" by auto
    then show ?thesis using sets by (cases "should = []") simp_all
  qed
  have na: "basic_ids (Us_NotArrived (Resp_Users resp)) = ?na" using sets by auto
  have "slot_partition (user_ids active) (Resp_Users resp)"
    unfolding slot_partition_def Let_def lset na e by (rule part)
  moreover have "list_all distinct (id_lists (Resp_Users resp))"
    unfolding ids using dS onT lat lv(2) dA PQ
    by (simp add: distinct_map_filter course filterModelUsers_def)
  moreover have "user_ids notify = basic_ids (Us_ShouldAttend (Resp_Users resp))
       - check_ids (Us_OnTime (Resp_Users resp)) - leave_ids (Us_Leave (Resp_Users resp))"
    unfolding lset e by (auto simp: notify)
  ultimately show thesis using that cand stat by blast
qed

section \<open>An example slot\<close>

text \<open>One user with two adjacent sections: on time in the first, and a late check in the second.\<close>

definition exUser :: user where
  "exUser = \<lparr>U_ID = 1, U_TenantID = 1, U_DingUserID = ''d1'', U_Name = ''Li'', U_Avatar = [],
     U_Role = 0, U_Status = 1, U_Deleted = False\<rparr>"

definition exPeriods :: "period list" where
  "exPeriods =
     [\<lparr>Period_Name = ''A'', Period_Start = ''08:00'', Period_End = ''08:45''\<rparr>,
      \<lparr>Period_Name = ''B'', Period_Start = ''08:50'', Period_End = ''09:35''\<rparr>]"

definition exDay :: instant where
  "exDay = (739312 * 86400 - 28800) * 1000000000"

definition exRecord :: attendance_record where
  "exRecord = \<lparr>AR_ID = 1, AR_TenantID = 1, AR_Date = exDay, AR_Week = 1, AR_Section = 1,
     AR_OnTimeIDs = ''[{\"id\":1,\"check_time\":1740960000}]'', AR_LateIDs = ''[]'',
     AR_LeaveIDs = ''[]'', AR_NotArrivedIDs = ''[]'', AR_RestDayIDs = ''[]'', AR_HasCourseIDs = ''[]'',
     AR_Deleted = False\<rparr>"

definition exDB :: database where
  "exDB = emptyDB\<lparr>DB_Users := [exUser],
     DB_Departments := [\<lparr>D_TenantID = 1, D_DeptID = 7, D_Name = ''Lab'', D_Status = 1\<rparr>],
     DB_UserDepartments := [\<lparr>UD_TenantID = 1, UD_UserID = 1, UD_DeptID = 7\<rparr>],
     DB_AttendanceRecords := [exRecord]\<rparr>"

definition exFetch :: "goctx \<Rightarrow> fetch_checks" where
  "exFetch ctx ids a b =
     Inr [\<lparr>CR_DingUserID = ''d1'', CR_CheckTime = exDay + 9 * hour, CR_CheckType = ''OnDuty''\<rparr>]"

definition exService :: attendance_service where
  "exService =
     \<lparr>Srv_hasUserRepo = True, Srv_hasLeaveRepo = True, Srv_hasManualOverrideRepo = True,
      Srv_hasScheduleSettingRepo = True, Srv_hasRestDayRepo = True, Srv_hasSemesterSrv = False,
      Srv_schedulePeriodSrv = None,
      Srv_scheduleCfg = \<lparr>Cfg_Periods = exPeriods, Cfg_LateGraceMinutes = 5,
        Cfg_MaxCarryForwardGapMinutes = 10\<rparr>,
      Srv_fetchAttendanceRecords = Some exFetch, Srv_dingMgr = None,
      Srv_rangeChecks = id, Srv_rangeIDs = id\<rparr>"

definition exReq :: AttendanceDetailRequest where
  "exReq = \<lparr>Req_Date = ''2025-03-03'', Req_Week = 1, Req_Section = 2, Req_DeptIDs = []\<rparr>"

definition exWindow :: attendanceWindow where
  "exWindow = \<lparr>W_date = exDay, W_periods = exPeriods, W_slotStart = exDay + 8 * hour + 50 * minute,
     W_slotEnd = exDay + 9 * hour + 35 * minute, W_lateDeadline = exDay + 8 * hour + 55 * minute,
     W_finalizeAt = exDay + 9 * hour + 20 * minute\<rparr>"

lemma exDB_wf: "db_wf exDB"
  by code_simp

lemma exWindow_resolved: "resolveAttendanceWindow exService tenantCtx exReq exDB = Inr exWindow"
  by code_simp

section \<open>Properties\<close>

text \<open>C1: Every attendance candidate of a computed slot is in exactly one of rest day, course and
  should-attend; those that should attend are exactly the on-time, late, leave and not-arrived users,
  where leave and not arrived are disjoint from the others; no list repeats a user, and the
  statistics are the lengths of the lists.\<close>

theorem attendance_detail_partition:
  assumes "buildAttendanceDetail s ctx req window attendanceEnd splitLate db = Inr (resp, notify)"
    and "db_wf db" and "permutes_lists (Srv_rangeChecks s)"
  shows "\<exists>active courseUsers.
      getAttendanceCandidatesWithCourseUsers s ctx (W_date window) (Req_Week req)
        (Req_Section req) (Req_DeptIDs req) db = Inr (active, courseUsers)
    \<and> slot_partition (user_ids active) (Resp_Users resp)
    \<and> list_all distinct (id_lists (Resp_Users resp))
    \<and> Resp_Statistics resp = statistics_of (Resp_Users resp)"
  using assms by (rule buildAttendanceDetail_sets) blast

definition exBuilt :: "AttendanceDetailResponse \<times> user list" where
  "exBuilt = (case buildAttendanceDetail exService tenantCtx exReq exWindow (exDay + 10 * hour) True exDB of
     Inr r \<Rightarrow> r | Inl _ \<Rightarrow> undefined)"

lemma exBuilt: "buildAttendanceDetail exService tenantCtx exReq exWindow (exDay + 10 * hour) True exDB
    = Inr (fst exBuilt, snd exBuilt)"
proof -
  have "case buildAttendanceDetail exService tenantCtx exReq exWindow (exDay + 10 * hour) True exDB of
     Inr _ \<Rightarrow> True | Inl _ \<Rightarrow> False" by code_simp
  then show ?thesis by (auto simp: exBuilt_def split: sum.splits)
qed

theorem attendance_detail_partition_witness:
  "\<exists>active courseUsers.
      getAttendanceCandidatesWithCourseUsers exService tenantCtx (W_date exWindow) (Req_Week exReq)
        (Req_Section exReq) (Req_DeptIDs exReq) exDB = Inr (active, courseUsers)
    \<and> slot_partition (user_ids active) (Resp_Users (fst exBuilt))
    \<and> list_all distinct (id_lists (Resp_Users (fst exBuilt)))
    \<and> Resp_Statistics (fst exBuilt) = statistics_of (Resp_Users (fst exBuilt))"
  by (rule attendance_detail_partition [OF exBuilt exDB_wf]) (simp add: exService_def)

text \<open>Without carry-over (the first section, or the feature switched off) no user is both on
  time and late, so the four lists partition those that should attend.\<close>

theorem on_time_late_disjoint:
  assumes "buildAttendanceDetail s ctx req window attendanceEnd splitLate db = Inr (resp, notify)"
    and "db_wf db" and "permutes_lists (Srv_rangeChecks s)"
    and "Req_Section req \<le> 1 \<or> Cfg_MaxCarryForwardGapMinutes (Srv_scheduleCfg s) \<le> 0"
  shows "check_ids (Us_OnTime (Resp_Users resp)) \<inter> check_ids (Us_Late (Resp_Users resp)) = {}"
proof (rule buildAttendanceDetail_cases [OF assms(1)])
  fix active courseUsers rest leave course should onTime late
  assume cand: "getAttendanceCandidatesWithCourseUsers s ctx (W_date window) (Req_Week req)
       (Req_Section req) (Req_DeptIDs req) db = Inr (active, courseUsers)"
    and should: "should = filterModelUsers active (user_ids rest \<union> user_ids course)"
    and checks: "should = [] \<and> onTime = [] \<and> late = [] \<or>
     (\<exists>onTime0 late0. getOnTimeUsers s ctx should (W_date window) (Req_Section req)
          (W_lateDeadline window) attendanceEnd db = Inr (onTime0, late0)
        \<and> onTime = filterAttendanceChecks (applyCarryForward s ctx (W_date window)
              (Req_Section req) (W_periods window) should onTime0 db) (leave_ids leave \<union> user_ids rest)
        \<and> late = filterAttendanceChecks late0 (leave_ids leave \<union> user_ids rest))"
    and ids: "id_lists (Resp_Users resp) =
       [map U_ID should, map C_ID onTime, if splitLate then map C_ID late else [],
        if should = [] then [] else map L_ID leave,
        map U_ID (filter (\<lambda>u. U_ID u \<notin> check_ids onTime
          \<union> (if splitLate then check_ids late else {}) \<union> leave_ids leave) should),
        map U_ID rest, map U_ID course]"
  have "distinct (map U_ID should)"
    using candidates_ids_distinct [OF cand assms(2)] by (simp add: should filterModelUsers_def)
  moreover have "applyCarryForward s ctx date (Req_Section req) periods us on db = on" for date periods us on
    using assms(4) by (auto simp: applyCarryForward_def Let_def)
  ultimately have "check_ids onTime \<inter> check_ids late = {}"
    using checks getOnTimeUsers_distinct(3) assms(3) by (fastforce simp: filterAttendanceChecks_def)
  moreover have "check_ids (Us_OnTime (Resp_Users resp)) = check_ids onTime"
    "check_ids (Us_Late (Resp_Users resp)) \<subseteq> check_ids late"
    using arg_cong [OF ids, of "map set"] by (auto simp: id_lists_def split: if_splits)
  ultimately show ?thesis by blast
qed

definition exServiceNoCarry :: attendance_service where
  "exServiceNoCarry = exService\<lparr>Srv_scheduleCfg := \<lparr>Cfg_Periods = exPeriods,
     Cfg_LateGraceMinutes = 5, Cfg_MaxCarryForwardGapMinutes = 0\<rparr>\<rparr>"

theorem on_time_late_disjoint_witness:
  "\<exists>resp notify. buildAttendanceDetail exServiceNoCarry tenantCtx exReq exWindow (exDay + 10 * hour)
       True exDB = Inr (resp, notify)
     \<and> check_ids (Us_OnTime (Resp_Users resp)) \<inter> check_ids (Us_Late (Resp_Users resp)) = {}
     \<and> Us_Late (Resp_Users resp) \<noteq> []"
proof -
  have "case buildAttendanceDetail exServiceNoCarry tenantCtx exReq exWindow (exDay + 10 * hour)
       True exDB of Inr (resp, _) \<Rightarrow> Us_Late (Resp_Users resp) \<noteq> [] | Inl _ \<Rightarrow> False" by code_simp
  then obtain resp notify where r: "buildAttendanceDetail exServiceNoCarry tenantCtx exReq exWindow
      (exDay + 10 * hour) True exDB = Inr (resp, notify)" "Us_Late (Resp_Users resp) \<noteq> []"
    by (auto split: sum.splits)
  show ?thesis
    using on_time_late_disjoint [OF r(1) exDB_wf] r
    by (simp add: exServiceNoCarry_def exService_def)
qed


text \<open>C3: Among the users asked for, a user with a unique, non-empty DingTalk id is on time exactly
  when the earliest on-duty check of that id lies between the start of the check window and the
  deadline, and late exactly when it lies after the deadline.\<close>

theorem on_time_iff_earliest_check:
  assumes "getOnTimeUsers s ctx users date section deadline queryEnd db = Inr (onTime, late)"
    and "permutes_lists (Srv_rangeChecks s)" and "distinct (map U_ID users)"
    and "distinct (map U_DingUserID users)" and "u \<in> set users" and "U_DingUserID u \<noteq> []"
  shows "\<exists>windowStart records.
      calculateCheckWindowStart s ctx date section db = Inr windowStart
    \<and> loadAttendanceRecords s ctx (map U_DingUserID (filter (\<lambda>u. U_DingUserID u \<noteq> []) users))
        windowStart queryEnd = Inr records
    \<and> (U_ID u \<in> check_ids onTime \<longleftrightarrow> duty_times records (U_DingUserID u) \<noteq> {}
         \<and> Min (duty_times records (U_DingUserID u)) \<in> {windowStart .. deadline})
    \<and> (U_ID u \<in> check_ids late \<longleftrightarrow> duty_times records (U_DingUserID u) \<noteq> {}
         \<and> windowStart \<le> Min (duty_times records (U_DingUserID u))
         \<and> deadline < Min (duty_times records (U_DingUserID u)))"
  using assms(1)
proof (cases rule: getOnTimeUsers_cases)
  case none
  with assms(5,6) show ?thesis by (auto simp: list_all_iff)
next
  case (some windowStart records)
  let ?d = "U_DingUserID u" and ?E = "checkEntries s users records windowStart"
  let ?by = "last_by U_DingUserID (filter (\<lambda>u. U_DingUserID u \<noteq> []) users)"
  have u: "?by ?d = Some u"
    using assms(4,5,6) by (intro last_by_unique) (auto simp: distinct_map_filter)
  have entry: "c \<in> set ?E \<and> C_ID c = U_ID u \<longleftrightarrow> ?d \<in> set (checkedDingIDs records)
      \<and> checkEntry ?by (earliestCheck records) windowStart ?d = Some c" for c
  proof
    assume c: "c \<in> set ?E \<and> C_ID c = U_ID u"
    then obtain d where d0: "d \<in> set (checkedDingIDs records)"
        "checkEntry ?by (earliestCheck records) windowStart d = Some c"
      using assms(2) by (auto simp: checkEntries_def set_map_filter permutes_lists_set)
    with c obtain v where d: "d \<in> set (checkedDingIDs records)" "?by d = Some v" "U_ID v = U_ID u"
        "checkEntry ?by (earliestCheck records) windowStart d = Some c"
      using checkEntry_SomeD [OF d0(2)] by auto
    then have "v \<in> set users" "U_DingUserID v = d" by (auto dest: last_by_SomeD)
    with d assms(3,5) have "v = u" by (metis distinct_map inj_onD)
    with d \<open>U_DingUserID v = d\<close> show "?d \<in> set (checkedDingIDs records)
      \<and> checkEntry ?by (earliestCheck records) windowStart ?d = Some c" by simp
  next
    assume r: "?d \<in> set (checkedDingIDs records)
      \<and> checkEntry ?by (earliestCheck records) windowStart ?d = Some c"
    then have "C_ID c = U_ID u" using u by (auto dest: checkEntry_SomeD)
    with r assms(2) show "c \<in> set ?E \<and> C_ID c = U_ID u"
      by (auto simp: checkEntries_def set_map_filter permutes_lists_set)
  qed
  have time: "checkEntry ?by (earliestCheck records) windowStart ?d = Some c \<Longrightarrow>
      C_CheckTime c = Min (duty_times records ?d)" for c
    by (auto dest!: checkEntry_SomeD simp: earliestCheck_eq split: if_splits)
  have found: "(\<exists>c. checkEntry ?by (earliestCheck records) windowStart ?d = Some c)
      \<longleftrightarrow> duty_times records ?d \<noteq> {} \<and> windowStart \<le> Min (duty_times records ?d)"
    using u by (simp add: checkEntry_def earliestCheck_eq not_less del: Min_ge_iff Min_less_iff)
  have mem: "U_ID u \<in> check_ids (filter P ?E) \<longleftrightarrow>
      (\<exists>c. P c \<and> ?d \<in> set (checkedDingIDs records)
         \<and> checkEntry ?by (earliestCheck records) windowStart ?d = Some c)" for P
    using entry by (auto simp: image_iff) metis+
  have "U_ID u \<in> check_ids onTime \<longleftrightarrow> duty_times records ?d \<noteq> {}
         \<and> Min (duty_times records ?d) \<in> {windowStart .. deadline}"
    unfolding some(3) mem set_checkedDingIDs using time found by auto
  moreover have "U_ID u \<in> check_ids late \<longleftrightarrow> duty_times records ?d \<noteq> {}
         \<and> windowStart \<le> Min (duty_times records ?d) \<and> deadline < Min (duty_times records ?d)"
    unfolding some(4) mem set_checkedDingIDs using time found by auto
  ultimately show ?thesis using some(1,2) by blast
qed

theorem on_time_iff_earliest_check_witness:
  "\<exists>onTime late windowStart records.
      getOnTimeUsers exService tenantCtx [exUser] exDay 2 (exDay + 535 * minute) (exDay + 10 * hour) exDB
        = Inr (onTime, late)
    \<and> calculateCheckWindowStart exService tenantCtx exDay 2 exDB = Inr windowStart
    \<and> (1 \<in> check_ids late \<longleftrightarrow> duty_times records ''d1'' \<noteq> {}
         \<and> windowStart \<le> Min (duty_times records ''d1'')
         \<and> exDay + 535 * minute < Min (duty_times records ''d1''))"
proof -
  have "case getOnTimeUsers exService tenantCtx [exUser] exDay 2 (exDay + 535 * minute)
      (exDay + 10 * hour) exDB of Inr _ \<Rightarrow> True | Inl _ \<Rightarrow> False" by code_simp
  then obtain onTime late where r: "getOnTimeUsers exService tenantCtx [exUser] exDay 2
      (exDay + 535 * minute) (exDay + 10 * hour) exDB = Inr (onTime, late)"
    by (auto split: sum.splits)
  show ?thesis
    using on_time_iff_earliest_check [OF r, of exUser] r by (simp add: exService_def exUser_def) blast
qed

end
