(* ===== verification/AttendanceStore.thy ===== *)
theory AttendanceStore
  imports AttendancePartition
begin

text \<open>
  Manual overrides and stored snapshots of internal/service/attendance\_record\_service.go and
  internal/dto/attendance\_record.go: \<open>applyManualOverridesToDetail\<close>, saving a response as a
  record, rebuilding the response from a record, re-checking leave that was refused after the
  snapshot, and the entry points \<open>GetAttendanceDetail\<close>, \<open>GetAttendanceRecordFromDB\<close>,
  \<open>GetAttendanceRecordsByDate\<close> and \<open>FinalizeAttendanceRecord\<close>. The current time is an argument.
\<close>

section \<open>Manual overrides\<close>

definition overrideForceOnTime :: string where
  "overrideForceOnTime = ''force_on_time''"

definition basicOfCheck :: "AttendanceUserCheck \<Rightarrow> AttendanceUserBasic" where
  "basicOfCheck c = \<lparr>B_ID = C_ID c, B_Name = C_Name c, B_Avatar = C_Avatar c, B_DeptName = C_DeptName c\<rparr>"

definition basicOfLeave :: "AttendanceUserLeave \<Rightarrow> AttendanceUserBasic" where
  "basicOfLeave l = \<lparr>B_ID = L_ID l, B_Name = L_Name l, B_Avatar = L_Avatar l, B_DeptName = L_DeptName l\<rparr>"

text \<open>\<open>sourceByID\<close>: the users that can be forced are entered last-wins, those of the excluded lists
  only where no entry exists.\<close>

definition addSource :: "AttendanceUserBasic \<Rightarrow> (nat \<rightharpoonup> AttendanceUserBasic) \<Rightarrow> (nat \<rightharpoonup> AttendanceUserBasic)" where
  "addSource b m = m(B_ID b \<mapsto> b)"

definition addSourceIfAbsent ::
    "AttendanceUserBasic \<Rightarrow> (nat \<rightharpoonup> AttendanceUserBasic) \<Rightarrow> (nat \<rightharpoonup> AttendanceUserBasic)" where
  "addSourceIfAbsent b m = (if m (B_ID b) = None then m(B_ID b \<mapsto> b) else m)"

definition sourceByID :: "AttendanceUserLists \<Rightarrow> nat \<rightharpoonup> AttendanceUserBasic" where
  "sourceByID us =
     fold addSourceIfAbsent (map basicOfLeave (Us_Leave us) @ Us_RestDay us @ Us_HasCourse us)
       (fold addSource (Us_ShouldAttend us @ map basicOfCheck (Us_OnTime us)
          @ map basicOfCheck (Us_Late us) @ Us_NotArrived us) Map.empty)"

definition overrideAllowed :: "AttendanceUserLists \<Rightarrow> nat set" where
  "overrideAllowed us = basic_ids (Us_ShouldAttend us) \<union> check_ids (Us_OnTime us)
     \<union> check_ids (Us_Late us) \<union> basic_ids (Us_NotArrived us)"

definition overrideExcluded :: "AttendanceUserLists \<Rightarrow> nat set" where
  "overrideExcluded us = leave_ids (Us_Leave us) \<union> basic_ids (Us_RestDay us) \<union> basic_ids (Us_HasCourse us)"

definition indexOfChecks :: "AttendanceUserCheck list \<Rightarrow> nat \<rightharpoonup> nat" where
  "indexOfChecks cs = fold (\<lambda>i m. m(C_ID (cs ! i) \<mapsto> i)) [0 ..< length cs] Map.empty"

definition zeroBasic :: AttendanceUserBasic where
  "zeroBasic = \<lparr>B_ID = 0, B_Name = [], B_Avatar = [], B_DeptName = []\<rparr>"

definition checkFromSource :: "AttendanceUserBasic \<Rightarrow> instant \<Rightarrow> AttendanceUserCheck" where
  "checkFromSource b t =
     \<lparr>C_ID = B_ID b, C_Name = B_Name b, C_Avatar = B_Avatar b, C_DeptName = B_DeptName b, C_CheckTime = t\<rparr>"

text \<open>One iteration over the overrides; the state is the lists, \<open>onTimeIndex\<close> and \<open>applied\<close>.\<close>

definition overrideStep ::
    "(nat \<rightharpoonup> AttendanceUserBasic) \<Rightarrow> nat set \<Rightarrow> nat set \<Rightarrow> manual_override
       \<Rightarrow> AttendanceUserLists \<times> (nat \<rightharpoonup> nat) \<times> bool \<Rightarrow> AttendanceUserLists \<times> (nat \<rightharpoonup> nat) \<times> bool" where
  "overrideStep source allowed excluded override st =
     (case st of (us, onTimeIndex, applied) \<Rightarrow>
        let uid = MO_UserID override
        in if MO_OverrideType override \<noteq> overrideForceOnTime then st
           else if uid \<in> excluded \<or> uid \<notin> allowed then st
           else let us1 = us\<lparr>Us_Late := filterAttendanceChecks (Us_Late us) {uid},
                             Us_NotArrived := filterAttendanceBasics (Us_NotArrived us) {uid}\<rparr>
                in case onTimeIndex uid of
                     Some i \<Rightarrow>
                       (us1\<lparr>Us_OnTime := (Us_OnTime us)[i := (Us_OnTime us ! i)\<lparr>C_CheckTime := MO_AppliedAt override\<rparr>]\<rparr>,
                        onTimeIndex, True)
                   | None \<Rightarrow>
                       (us1\<lparr>Us_OnTime := Us_OnTime us
                          @ [checkFromSource (case_option zeroBasic id (source uid)) (MO_AppliedAt override)]\<rparr>,
                        onTimeIndex(uid \<mapsto> length (Us_OnTime us)), True))"

definition applyOverrides :: "manual_override list \<Rightarrow> AttendanceDetailResponse \<Rightarrow> AttendanceDetailResponse" where
  "applyOverrides overrides resp =
     (let us = Resp_Users resp
      in case fold (overrideStep (sourceByID us) (overrideAllowed us) (overrideExcluded us)) overrides
                (us, indexOfChecks (Us_OnTime us), False) of
           (us', _, applied) \<Rightarrow>
             if applied then
               resp\<lparr>Resp_Users := us',
                    Resp_Statistics := (Resp_Statistics resp)\<lparr>St_OnTime := length (Us_OnTime us'),
                      St_Late := length (Us_Late us'), St_NotArrived := length (Us_NotArrived us')\<rparr>\<rparr>
             else resp)"

definition applyManualOverridesToDetail ::
    "attendance_service \<Rightarrow> goctx \<Rightarrow> instant \<Rightarrow> int \<Rightarrow> database \<Rightarrow> AttendanceDetailResponse
       \<Rightarrow> goerror + AttendanceDetailResponse" where
  "applyManualOverridesToDetail s ctx date section db resp =
     (if \<not> Srv_hasManualOverrideRepo s then Inr resp
      else bindR (wrapR zh_override_failed
             (mo_ListByDateSection ctx (midnight (DB_Tz db) date) section db))
           (\<lambda>overrides. if overrides = [] then Inr resp else Inr (applyOverrides overrides resp)))"

section \<open>Records\<close>

definition saveAttendanceRecord ::
    "goctx \<Rightarrow> AttendanceDetailResponse \<Rightarrow> database \<Rightarrow> goerror option \<times> database" where
  "saveAttendanceRecord ctx resp db =
     (let us = Resp_Users resp
      in ar_Upsert ctx
           \<lparr>AR_ID = 0, AR_TenantID = 0, AR_Date = case_option 0 id (parseDate (DB_Tz db) (Resp_Date resp)),
            AR_Week = Resp_Week resp, AR_Section = Resp_Section resp,
            AR_OnTimeIDs = serializeOnTimeUsers (Us_OnTime us),
            AR_LateIDs = serializeOnTimeUsers (Us_Late us),
            AR_LeaveIDs = serializeLeaveUsers (Us_Leave us),
            AR_NotArrivedIDs = serializeNotArrivedUsers (Us_NotArrived us),
            AR_RestDayIDs = serializeRestDayUsers (Us_RestDay us),
            AR_HasCourseIDs = serializeBasicUsers (Us_HasCourse us), AR_Deleted = False\<rparr> db)"

definition storedOr :: "(string \<Rightarrow> 'a list \<times> bool) \<Rightarrow> string \<Rightarrow> 'a list" where
  "storedOr unmarshal raw = (if raw \<noteq> [] \<and> raw \<noteq> ''[]'' then fst (unmarshal raw) else [])"

definition infoBasic :: "(nat \<rightharpoonup> user) \<Rightarrow> (nat \<rightharpoonup> string) \<Rightarrow> nat \<Rightarrow> AttendanceUserBasic option" where
  "infoBasic userMap depts uid =
     (case userMap uid of
        None \<Rightarrow> None
      | Some u \<Rightarrow> Some \<lparr>B_ID = uid, B_Name = U_Name u, B_Avatar = U_Avatar u,
                        B_DeptName = case_option [] id (depts uid)\<rparr>)"

definition infoCheck ::
    "(nat \<rightharpoonup> user) \<Rightarrow> (nat \<rightharpoonup> string) \<Rightarrow> StoredUserCheck \<Rightarrow> AttendanceUserCheck option" where
  "infoCheck userMap depts c =
     map_option (\<lambda>b. checkFromSource b (fromUnix (SC_CheckTime c))) (infoBasic userMap depts (SC_ID c))"

definition infoLeave ::
    "(nat \<rightharpoonup> user) \<Rightarrow> (nat \<rightharpoonup> string) \<Rightarrow> StoredUserLeave \<Rightarrow> AttendanceUserLeave option" where
  "infoLeave userMap depts l =
     map_option (\<lambda>b. \<lparr>L_ID = B_ID b, L_Name = B_Name b, L_Avatar = B_Avatar b, L_DeptName = B_DeptName b,
                      L_LeaveType = SL_LeaveType l, L_Reason = SL_Reason l\<rparr>)
       (infoBasic userMap depts (SL_ID l))"

definition newAttendanceDetailResponseFromRecord ::
    "int \<Rightarrow> attendance_record \<Rightarrow> string \<Rightarrow> string \<Rightarrow> (nat \<rightharpoonup> user) \<Rightarrow> (nat \<rightharpoonup> string)
       \<Rightarrow> AttendanceDetailResponse" where
  "newAttendanceDetailResponseFromRecord tz record slotStart slotEnd userMap depts =
     (let onTimeUsers = storedOr unmarshalChecks (AR_OnTimeIDs record);
          leaveUsers = storedOr unmarshalLeaves (AR_LeaveIDs record);
          lateUsers = storedOr unmarshalChecks (AR_LateIDs record);
          notArrivedIDs = storedOr unmarshalIDs (AR_NotArrivedIDs record);
          restDayIDs = storedOr unmarshalIDs (AR_RestDayIDs record);
          hasCourseIDs = storedOr unmarshalIDs (AR_HasCourseIDs record);
          basics = List.map_filter (infoBasic userMap depts);
          us = \<lparr>Us_ShouldAttend =
                  basics (dedup_from id {} (map SC_ID onTimeUsers @ map SC_ID lateUsers
                    @ map SL_ID leaveUsers @ notArrivedIDs)),
                Us_OnTime = List.map_filter (infoCheck userMap depts) onTimeUsers,
                Us_Late = List.map_filter (infoCheck userMap depts) lateUsers,
                Us_Leave = List.map_filter (infoLeave userMap depts) leaveUsers,
                Us_NotArrived = basics notArrivedIDs,
                Us_RestDay = basics restDayIDs,
                Us_HasCourse = basics hasCourseIDs\<rparr>
      in \<lparr>Resp_RecordID = AR_ID record, Resp_Date = formatDate tz (AR_Date record),
          Resp_Week = AR_Week record, Resp_Section = AR_Section record, Resp_ViewMode = [],
          Resp_IsFinalized = False, Resp_FinalizeAt = 0, Resp_SlotStart = slotStart,
          Resp_SlotEnd = slotEnd, Resp_Statistics = statistics_of us, Resp_Users = us\<rparr>)"

definition extractAllUserIDs :: "attendance_service \<Rightarrow> attendance_record \<Rightarrow> nat list" where
  "extractAllUserIDs s record =
     Srv_rangeIDs s (dedup_from id {}
       (map SC_ID (fst (unmarshalChecks (AR_OnTimeIDs record)))
        @ map SC_ID (fst (unmarshalChecks (AR_LateIDs record)))
        @ map SL_ID (fst (unmarshalLeaves (AR_LeaveIDs record)))
        @ fst (unmarshalIDs (AR_NotArrivedIDs record))
        @ fst (unmarshalIDs (AR_RestDayIDs record))
        @ (if AR_HasCourseIDs record \<noteq> [] \<and> AR_HasCourseIDs record \<noteq> ''null''
           then fst (unmarshalIDs (AR_HasCourseIDs record)) else [])))"

definition buildUserMapWithDeptFilter ::
    "goctx \<Rightarrow> user list \<Rightarrow> int list \<Rightarrow> database \<Rightarrow> goerror + (nat \<rightharpoonup> user)" where
  "buildUserMapWithDeptFilter ctx users deptIDs db =
     (if deptIDs = [] then Inr (last_by U_ID users)
      else bindR (wrapR zh_dept_candidates_failed (user_ListAttendanceCandidates ctx deptIDs db))
        (\<lambda>deptUsers. Inr (last_by U_ID (filter (\<lambda>u. U_ID u \<in> user_ids deptUsers) users))))"

section \<open>Leave refused after the snapshot\<close>

definition fillCheckProfile ::
    "(nat \<rightharpoonup> user) \<Rightarrow> (nat \<rightharpoonup> string) \<Rightarrow> AttendanceUserCheck \<Rightarrow> AttendanceUserCheck" where
  "fillCheckProfile userMap depts c =
     (case userMap (C_ID c) of
        None \<Rightarrow> c\<lparr>C_DeptName := case_option [] id (depts (C_ID c))\<rparr>
      | Some u \<Rightarrow> c\<lparr>C_Name := U_Name u, C_Avatar := U_Avatar u,
                    C_DeptName := case_option [] id (depts (C_ID c))\<rparr>)"

definition reconcileSnapshotRefusedLeaves ::
    "attendance_service \<Rightarrow> goctx \<Rightarrow> instant \<Rightarrow> int \<Rightarrow> period list \<Rightarrow> instant \<Rightarrow> instant
       \<Rightarrow> (nat \<rightharpoonup> user) \<Rightarrow> (nat \<rightharpoonup> string) \<Rightarrow> database \<Rightarrow> AttendanceDetailResponse
       \<Rightarrow> goerror + AttendanceDetailResponse" where
  "reconcileSnapshotRefusedLeaves s ctx date section periods slotStart slotEnd userMap depts db resp =
     (let us = Resp_Users resp
      in if Us_Leave us = [] \<or> \<not> Srv_hasLeaveRepo s then Inr resp
         else bindR (wrapR zh_snapshot_leave_failed
                (la_ListApprovedByUserIDs ctx (map L_ID (Us_Leave us)) slotStart slotEnd db))
           (\<lambda>currentLeaves.
              let currentLeaveSet = LA_UserID ` set currentLeaves;
                  stillLeave = filter (\<lambda>l. L_ID l \<in> currentLeaveSet) (Us_Leave us);
                  recheckUsers = List.map_filter (\<lambda>l. userMap (L_ID l))
                    (filter (\<lambda>l. L_ID l \<notin> currentLeaveSet) (Us_Leave us))
              in if recheckUsers = [] then
                   Inr (resp\<lparr>Resp_Users := us\<lparr>Us_Leave := stillLeave\<rparr>,
                             Resp_Statistics := (Resp_Statistics resp)\<lparr>St_Leave := length stillLeave\<rparr>\<rparr>)
                 else bindR (getOnTimeUsers s ctx recheckUsers date section (slotStart + lateGrace s)
                          (minTime (calculateFinalizeAt slotStart) slotEnd) db)
                   (\<lambda>(onTime0, late0).
                      let onTime = map (fillCheckProfile userMap depts)
                            (applyCarryForward s ctx date section periods recheckUsers onTime0 db);
                          late = map (fillCheckProfile userMap depts) late0;
                          processed = check_ids onTime \<union> check_ids late;
                          existingNotArrived = basic_ids (Us_NotArrived us);
                          notArrived = Us_NotArrived us @
                            map (\<lambda>u. \<lparr>B_ID = U_ID u, B_Name = U_Name u, B_Avatar = U_Avatar u,
                                       B_DeptName = case_option [] id (depts (U_ID u))\<rparr>)
                              (filter (\<lambda>u. \<not> (U_ID u \<in> processed \<or> U_ID u \<in> existingNotArrived)) recheckUsers);
                          us' = us\<lparr>Us_OnTime := Us_OnTime us @ onTime, Us_Late := Us_Late us @ late,
                                   Us_Leave := stillLeave, Us_NotArrived := notArrived\<rparr>
                      in Inr (resp\<lparr>Resp_Users := us',
                           Resp_Statistics := (Resp_Statistics resp)\<lparr>St_OnTime := length (Us_OnTime us'),
                             St_Late := length (Us_Late us'), St_Leave := length (Us_Leave us'),
                             St_NotArrived := length (Us_NotArrived us')\<rparr>\<rparr>))))"

section \<open>Entry points\<close>

definition buildFinalAttendanceDetailForRead ::
    "attendance_service \<Rightarrow> goctx \<Rightarrow> AttendanceDetailRequest \<Rightarrow> nat \<Rightarrow> database
       \<Rightarrow> goerror + AttendanceDetailResponse" where
  "buildFinalAttendanceDetailForRead s ctx req recordID db =
     bindR (resolveAttendanceWindow s ctx req db)
       (\<lambda>window.
          bindR (buildAttendanceDetail s ctx req window
                   (minTime (W_finalizeAt window) (W_slotEnd window)) True db)
            (\<lambda>(resp, _).
               bindR (applyManualOverridesToDetail s ctx (W_date window) (Req_Section req) db resp)
                 (\<lambda>resp'. Inr (setViewMetadata ''final'' True (W_finalizeAt window)
                                 (resp'\<lparr>Resp_RecordID := recordID\<rparr>)))))"

text \<open>Indexing a slice out of its range is a run-time panic.\<close>

definition periodAt :: "period list \<Rightarrow> int \<Rightarrow> goerror + period" where
  "periodAt periods i =
     (if 0 \<le> i \<and> i < int (length periods) then Inr (periods ! nat i)
      else Inl (RuntimePanic ''index out of range''))"

definition getAttendanceRecordFromDB ::
    "attendance_service \<Rightarrow> goctx \<Rightarrow> AttendanceDetailRequest \<Rightarrow> database
       \<Rightarrow> goerror + AttendanceDetailResponse" where
  "getAttendanceRecordFromDB s ctx req db =
     (case parseDate (DB_Tz db) (Req_Date req) of
        None \<Rightarrow> Inl (errInvalidParamWithMsg zh_date_format)
      | Some date \<Rightarrow>
          (case ar_FindByDateSection ctx date (Req_Section req) db of
             Inl e \<Rightarrow> if isRecordNotFound e then Inl (errNotFoundWithMsg zh_no_record) else Inl e
           | Inr record \<Rightarrow>
               if \<not> isRestDayAttendanceEnabled s ctx db
               then buildFinalAttendanceDetailForRead s ctx req (AR_ID record) db
               else let userIDs = extractAllUserIDs s record
                    in bindR (user_ListByIDs ctx userIDs db)
                      (\<lambda>users. bindR (buildUserMapWithDeptFilter ctx users (Req_DeptIDs req) db)
                      (\<lambda>userMap. bindR (user_GetUserDepartmentNames userIDs db)
                      (\<lambda>depts.
                        let (active, err) = getActivePeriodsOrConfig s ctx db;
                            periods = (if err \<noteq> None \<or> Req_Section req > int (length active)
                                       then Cfg_Periods (Srv_scheduleCfg s) else active)
                        in bindR (periodAt periods (Req_Section req - 1))
                          (\<lambda>slot.
                            let resp0 = newAttendanceDetailResponseFromRecord (DB_Tz db) record
                                  (Period_Start slot) (Period_End slot) userMap depts;
                                calc = calculateSlotTime (DB_Tz db) date (Req_Section req) periods
                            in bindR (case calc of
                                        Inl _ \<Rightarrow> Inr resp0
                                      | Inr (a, b) \<Rightarrow>
                                          reconcileSnapshotRefusedLeaves s ctx date (Req_Section req)
                                            periods a b userMap depts db resp0)
                              (\<lambda>resp1. bindR (applyManualOverridesToDetail s ctx date (Req_Section req) db resp1)
                              (\<lambda>resp2.
                                Inr (case calc of
                                       Inl _ \<Rightarrow> resp2
                                     | Inr (a, _) \<Rightarrow>
                                         setViewMetadata ''final'' True (calculateFinalizeAt a) resp2)))))))))"

definition getAttendanceDetail ::
    "attendance_service \<Rightarrow> goctx \<Rightarrow> AttendanceDetailRequest \<Rightarrow> instant \<Rightarrow> database
       \<Rightarrow> goerror + AttendanceDetailResponse" where
  "getAttendanceDetail s ctx req now db =
     bindR (resolveAttendanceWindow s ctx req db)
       (\<lambda>window.
          if shouldUseRealtimeView now (W_finalizeAt window) then
            bindR (buildAttendanceDetail s ctx req window
                     (minTime now (minTime (W_finalizeAt window) (W_slotEnd window))) True db)
              (\<lambda>(resp, _).
                 bindR (applyManualOverridesToDetail s ctx (W_date window) (Req_Section req) db resp)
                   (\<lambda>resp'. Inr (setViewMetadata ''current'' False (W_finalizeAt window) resp')))
          else getAttendanceRecordFromDB s ctx req db)"

definition finalizeAttendanceRecord ::
    "attendance_service \<Rightarrow> goctx \<Rightarrow> AttendanceDetailRequest \<Rightarrow> database
       \<Rightarrow> (goerror + AttendanceDetailResponse) \<times> database" where
  "finalizeAttendanceRecord s ctx req db =
     (case bindR (resolveAttendanceWindow s ctx req db)
             (\<lambda>window.
                bindR (buildAttendanceDetail s ctx req window
                         (minTime (W_finalizeAt window) (W_slotEnd window)) True db)
                  (\<lambda>(resp, _).
                     bindR (applyManualOverridesToDetail s ctx (W_date window) (Req_Section req) db resp)
                       (\<lambda>resp'. Inr (setViewMetadata ''final'' True (W_finalizeAt window) resp')))) of
        Inl e \<Rightarrow> (Inl e, db)
      | Inr resp \<Rightarrow>
          (case saveAttendanceRecord ctx resp db of
             (Some e, db') \<Rightarrow> (Inl e, db')
           | (None, db') \<Rightarrow> (Inr resp, db')))"

text \<open>\<open>getAttendanceDetailWithLateUsers\<close>: the automatic statistics, with the users to notify.\<close>

definition getAttendanceDetailWithLateUsers ::
    "attendance_service \<Rightarrow> goctx \<Rightarrow> AttendanceDetailRequest \<Rightarrow> database
       \<Rightarrow> goerror + (AttendanceDetailResponse \<times> user list)" where
  "getAttendanceDetailWithLateUsers s ctx req db =
     bindR (resolveAttendanceWindow s ctx req db)
       (\<lambda>window.
     bindR (getAttendanceCandidatesWithCourseUsers s ctx (W_date window) (Req_Week req)
              (Req_Section req) (Req_DeptIDs req) db)
       (\<lambda>(activeUsers, hasCourseUsers).
          let restDayUsers = filterRestDayUsers s ctx activeUsers
                (weekdayMon1Sun7 (DB_Tz db) (W_date window)) db;
              restDaySet = userIDBoolSet restDayUsers
          in bindR (getLeaveUsers s ctx (filterModelUsers activeUsers restDaySet)
                      (W_slotStart window) (W_slotEnd window) db)
            (\<lambda>leave.
               let leaveSet = attendanceLeaveIDBoolSet leave;
                   filteredHasCourseUsers =
                     filterModelUsers hasCourseUsers (mergeBoolSets [restDaySet, leaveSet]);
                   shouldAttend = filterModelUsers activeUsers
                     (mergeBoolSets [restDaySet, userIDBoolSet filteredHasCourseUsers]);
                   slot = W_periods window ! nat (Req_Section req - 1);
                   response = newAttendanceDetailResponse (Req_Date req) (Req_Week req)
                     (Req_Section req) (Period_Start slot) (Period_End slot) shouldAttend
               in if shouldAttend = [] then
                    Inr (enrichAttendanceDetailUsers s activeUsers db
                           (response [] [] [] (toRestDayBasicList restDayUsers)
                              (toBasicList filteredHasCourseUsers)), [])
                  else bindR (getOnTimeUsers s ctx shouldAttend (W_date window) (Req_Section req)
                         (W_lateDeadline window) (W_slotEnd window) db)
                    (\<lambda>(onTime0, _).
                       let onTime = filterAttendanceChecks
                             (applyCarryForward s ctx (W_date window) (Req_Section req)
                                (W_periods window) shouldAttend onTime0 db)
                             (mergeBoolSets [leaveSet, restDaySet]);
                           resp = enrichAttendanceDetailUsers s activeUsers db
                             (response onTime leave (calculateNotArrived shouldAttend onTime leave)
                                (toRestDayBasicList restDayUsers) (toBasicList filteredHasCourseUsers))
                       in bindR (applyManualOverridesToDetail s ctx (W_date window) (Req_Section req) db resp)
                         (\<lambda>resp'. Inr (resp', buildNotifyList shouldAttend
                              (Us_OnTime (Resp_Users resp')) (Us_Leave (Resp_Users resp'))))))))"

definition getAttendanceRecordsByDate ::
    "attendance_service \<Rightarrow> goctx \<Rightarrow> instant \<Rightarrow> int list \<Rightarrow> database
       \<Rightarrow> goerror + AttendanceDetailResponse list" where
  "getAttendanceRecordsByDate s ctx date deptIDs db =
     bindR (wrapR zh_records_failed (ar_ListByDate ctx date db))
       (\<lambda>records.
          if records = [] then Inl (errNotFoundWithMsg zh_no_record_date)
          else if \<not> isRestDayAttendanceEnabled s ctx db then
            map_result (\<lambda>r. buildFinalAttendanceDetailForRead s ctx
              \<lparr>Req_Date = formatDate (DB_Tz db) date, Req_Week = AR_Week r, Req_Section = AR_Section r,
               Req_DeptIDs = deptIDs\<rparr> (AR_ID r) db) records
          else
            let userIDList = Srv_rangeIDs s (dedup_from id {} (concat (map (extractAllUserIDs s) records)))
            in bindR (wrapR zh_users_failed (user_ListByIDs ctx userIDList db))
              (\<lambda>users. bindR (buildUserMapWithDeptFilter ctx users deptIDs db)
              (\<lambda>userMap. bindR (user_GetUserDepartmentNames userIDList db)
              (\<lambda>depts.
                let (active, err) = getActivePeriodsOrConfig s ctx db;
                    periods = (if err \<noteq> None then Cfg_Periods (Srv_scheduleCfg s) else active)
                in Inr (map (\<lambda>r. let slot = periods ! nat (AR_Section r - 1)
                                 in newAttendanceDetailResponseFromRecord (DB_Tz db) r
                                      (Period_Start slot) (Period_End slot) userMap depts)
                          (filter (\<lambda>r. 0 < AR_Section r \<and> AR_Section r \<le> int (length periods)) records))))))"

end
