(* ===== verification/AttendanceOverrides.thy ===== *)
theory AttendanceOverrides
  imports AttendanceStore
begin

text \<open>
  The effect of manual overrides on a computed slot, and the slot that \<open>FinalizeAttendanceRecord\<close>
  stores. The loop of \<open>applyOverrides\<close> is described by an invariant over the overrides seen so
  far (\<open>override_inv\<close>): the users forced on time are exactly those with an override who are
  neither excluded nor unknown. The partition of the candidates survives the overrides.
\<close>

section \<open>Overrides\<close>

definition forces :: "AttendanceUserLists \<Rightarrow> manual_override \<Rightarrow> bool" where
  "forces us ov \<longleftrightarrow> MO_OverrideType ov = overrideForceOnTime
     \<and> MO_UserID ov \<notin> overrideExcluded us \<and> MO_UserID ov \<in> overrideAllowed us"

definition forcedIDs :: "AttendanceUserLists \<Rightarrow> manual_override list \<Rightarrow> nat set" where
  "forcedIDs us ovs = MO_UserID ` {ov \<in> set ovs. forces us ov}"

lemma forcedIDs_simps [simp]:
  "forcedIDs us [] = {}"
  "forcedIDs us (ovs @ [ov]) =
     (if forces us ov then insert (MO_UserID ov) (forcedIDs us ovs) else forcedIDs us ovs)"
  by (auto simp: forcedIDs_def)

text \<open>\<open>onTimeIndex\<close> finds exactly the users on time.\<close>

definition index_ok :: "AttendanceUserCheck list \<Rightarrow> (nat \<rightharpoonup> nat) \<Rightarrow> bool" where
  "index_ok cs idx \<longleftrightarrow> dom idx = check_ids cs
     \<and> (\<forall>uid i. idx uid = Some i \<longrightarrow> i < length cs \<and> C_ID (cs ! i) = uid)"

lemma index_ok_snoc:
  assumes "index_ok cs idx" and "length cs = n"
  shows "index_ok (cs @ [c]) (idx(C_ID c \<mapsto> n))"
  using assms unfolding index_ok_def by (auto simp: nth_append less_Suc_eq)

lemma index_ok_map:
  assumes "index_ok cs idx" and m: "map C_ID cs' = map C_ID cs"
  shows "index_ok cs' idx"
proof -
  have l: "length cs' = length cs" using m by (metis length_map)
  have "check_ids cs' = check_ids cs" using m by (metis list.set_map)
  moreover have "C_ID (cs' ! i) = C_ID (cs ! i)" if "i < length cs" for i
    using m that l by (metis nth_map)
  ultimately show ?thesis using assms(1) l by (simp add: index_ok_def)
qed

lemma index_ok_prefix:
  assumes "n \<le> length cs"
  shows "index_ok (take n cs) (fold (\<lambda>i m. m(C_ID (cs ! i) \<mapsto> i)) [0 ..< n] Map.empty)"
  using assms
proof (induction n)
  case 0
  then show ?case by (simp add: index_ok_def)
next
  case (Suc n)
  have IH: "index_ok (take n cs) (fold (\<lambda>i m. m(C_ID (cs ! i) \<mapsto> i)) [0 ..< n] Map.empty)"
    by (rule Suc.IH) (use Suc.prems in simp)
  have t: "take (Suc n) cs = take n cs @ [cs ! n]" using Suc.prems by (simp add: take_Suc_conv_app_nth)
  let ?m = "fold (\<lambda>i m. m(C_ID (cs ! i) \<mapsto> i)) [0 ..< n] Map.empty"
  have step: "fold (\<lambda>i m. m(C_ID (cs ! i) \<mapsto> i)) [0 ..< Suc n] Map.empty = ?m(C_ID (cs ! n) \<mapsto> n)" by simp
  show ?case unfolding t step
    using Suc.prems by (intro index_ok_snoc IH) simp
qed

lemma index_ok_indexOfChecks: "index_ok cs (indexOfChecks cs)"
  using index_ok_prefix [of "length cs" cs] by (simp add: indexOfChecks_def)

text \<open>Every user that can be forced has a source entry of its own.\<close>

definition own_entries :: "(nat \<rightharpoonup> AttendanceUserBasic) \<Rightarrow> bool" where
  "own_entries m \<longleftrightarrow> (\<forall>k b. m k = Some b \<longrightarrow> B_ID b = k)"

lemma addSource_own: "own_entries m \<Longrightarrow> own_entries (addSource b m)"
  and addSourceIfAbsent_own: "own_entries m \<Longrightarrow> own_entries (addSourceIfAbsent b m)"
  unfolding own_entries_def by (simp_all add: addSource_def addSourceIfAbsent_def)

lemma addSource_dom: "dom (addSource b m) = insert (B_ID b) (dom m)"
  and addSourceIfAbsent_dom: "dom m \<subseteq> dom (addSourceIfAbsent b m)"
  by (auto simp: addSource_def addSourceIfAbsent_def)

lemma fold_addSource:
  "own_entries m \<Longrightarrow> own_entries (fold addSource bs m)
     \<and> dom (fold addSource bs m) = dom m \<union> basic_ids bs"
proof (induction bs arbitrary: m)
  case (Cons a bs)
  from Cons.IH [OF addSource_own [OF Cons.prems]] show ?case by (simp add: addSource_dom)
qed simp

lemma fold_addSourceIfAbsent:
  "own_entries m \<Longrightarrow> own_entries (fold addSourceIfAbsent bs m)
     \<and> dom m \<subseteq> dom (fold addSourceIfAbsent bs m)"
proof (induction bs arbitrary: m)
  case (Cons a bs)
  from Cons.IH [OF addSourceIfAbsent_own [OF Cons.prems, of a]] addSourceIfAbsent_dom [of m a]
  show ?case by (simp, metis order_trans)
qed simp

lemma sourceByID_own:
  assumes "uid \<in> overrideAllowed us"
  shows "\<exists>b. sourceByID us uid = Some b \<and> B_ID b = uid"
proof -
  let ?bs = "Us_ShouldAttend us @ map basicOfCheck (Us_OnTime us)
     @ map basicOfCheck (Us_Late us) @ Us_NotArrived us"
  have e: "own_entries Map.empty" by (simp add: own_entries_def)
  have "basic_ids ?bs = overrideAllowed us"
    by (simp add: overrideAllowed_def basicOfCheck_def image_image image_Un Un_assoc)
  with fold_addSource [OF e, of ?bs]
  have m: "own_entries (fold addSource ?bs Map.empty)"
      "dom (fold addSource ?bs Map.empty) = overrideAllowed us" by simp_all
  have "own_entries (sourceByID us) \<and> overrideAllowed us \<subseteq> dom (sourceByID us)"
    unfolding sourceByID_def using fold_addSourceIfAbsent [OF m(1)] m(2) by metis
  with assms show ?thesis unfolding own_entries_def by blast
qed

text \<open>What the loop keeps while it runs over the overrides of the lists \<open>us\<close>.\<close>

definition overridden :: "AttendanceUserLists \<Rightarrow> nat set \<Rightarrow> AttendanceUserLists \<Rightarrow> bool" where
  "overridden us F us' \<longleftrightarrow>
     check_ids (Us_OnTime us') = check_ids (Us_OnTime us) \<union> F
     \<and> Us_Late us' = filter (\<lambda>c. C_ID c \<notin> F) (Us_Late us)
     \<and> Us_NotArrived us' = filter (\<lambda>b. B_ID b \<notin> F) (Us_NotArrived us)
     \<and> Us_ShouldAttend us' = Us_ShouldAttend us \<and> Us_Leave us' = Us_Leave us
     \<and> Us_RestDay us' = Us_RestDay us \<and> Us_HasCourse us' = Us_HasCourse us
     \<and> distinct (map C_ID (Us_OnTime us'))"

definition override_times :: "AttendanceUserLists \<Rightarrow> manual_override list \<Rightarrow> AttendanceUserCheck list \<Rightarrow> bool" where
  "override_times us ovs cs \<longleftrightarrow>
     (\<forall>ov \<in> set ovs. forces us ov \<longrightarrow>
        (\<exists>c \<in> set cs. C_ID c = MO_UserID ov \<and> C_CheckTime c = MO_AppliedAt ov))"

definition override_inv ::
    "AttendanceUserLists \<Rightarrow> manual_override list \<Rightarrow> AttendanceUserLists \<times> (nat \<rightharpoonup> nat) \<times> bool \<Rightarrow> bool" where
  "override_inv us ovs st =
     (case st of (us', idx, applied) \<Rightarrow>
        index_ok (Us_OnTime us') idx \<and> overridden us (forcedIDs us ovs) us'
        \<and> override_times us ovs (Us_OnTime us')
        \<and> (if applied then forcedIDs us ovs \<noteq> {} else us' = us \<and> forcedIDs us ovs = {}))"

lemma override_times_snoc:
  "override_times us ovs cs \<Longrightarrow> set cs \<subseteq> set cs' \<Longrightarrow>
     (forces us ov \<Longrightarrow> \<exists>c \<in> set cs'. C_ID c = MO_UserID ov \<and> C_CheckTime c = MO_AppliedAt ov) \<Longrightarrow>
     override_times us (ovs @ [ov]) cs'"
  unfolding override_times_def by fastforce

lemma set_check_time:
  assumes "i < length cs"
    and cs'_def: "cs' = cs[i := (cs ! i)\<lparr>C_CheckTime := t\<rparr>]"
  shows "map C_ID cs' = map C_ID cs"
    and "\<exists>c \<in> set cs'. C_ID c = C_ID (cs ! i) \<and> C_CheckTime c = t"
    and "c \<in> set cs \<Longrightarrow> C_ID c \<noteq> C_ID (cs ! i) \<Longrightarrow> c \<in> set cs'"
proof -
  show "map C_ID cs' = map C_ID cs"
    using assms(1) by (simp add: cs'_def map_update list_update_same_conv)
  have "(cs ! i)\<lparr>C_CheckTime := t\<rparr> \<in> set cs'"
    unfolding cs'_def using assms(1) by (rule set_update_memI)
  then show "\<exists>c \<in> set cs'. C_ID c = C_ID (cs ! i) \<and> C_CheckTime c = t" by (rule rev_bexI) simp
  assume "c \<in> set cs" and n: "C_ID c \<noteq> C_ID (cs ! i)"
  then obtain j where j: "j < length cs" "cs ! j = c" by (auto simp: in_set_conv_nth)
  with n have "j \<noteq> i" by auto
  with j have "cs' ! j = c" "j < length cs'" by (simp_all add: cs'_def)
  then show "c \<in> set cs'" by (metis nth_mem)
qed

lemma overridden_force:
  assumes "overridden us F us'" and "check_ids cs = insert uid (check_ids (Us_OnTime us'))"
    and "distinct (map C_ID cs)"
  shows "overridden us (insert uid F)
    (us'\<lparr>Us_Late := filterAttendanceChecks (Us_Late us') {uid},
         Us_NotArrived := filterAttendanceBasics (Us_NotArrived us') {uid}, Us_OnTime := cs\<rparr>)"
  using assms
  by (simp add: overridden_def filterAttendanceChecks_def filterAttendanceBasics_def
      drop_excluded_filter conj_commute)

lemma override_step_inv:
  assumes inv: "override_inv us ovs st" and new: "MO_UserID ov \<notin> MO_UserID ` set ovs"
  shows "override_inv us (ovs @ [ov])
           (overrideStep (sourceByID us) (overrideAllowed us) (overrideExcluded us) ov st)"
proof (cases "forces us ov")
  case False
  then have "overrideStep (sourceByID us) (overrideAllowed us) (overrideExcluded us) ov st = st"
    by (auto simp: overrideStep_def forces_def Let_def split: prod.splits)
  with False inv show ?thesis
    by (auto simp: override_inv_def intro!: override_times_snoc split: prod.splits)
next
  case f: True
  obtain us' idx applied where st: "st = (us', idx, applied)" by (cases st)
  let ?uid = "MO_UserID ov" and ?F = "forcedIDs us ovs" and ?ons = "Us_OnTime us'"
  have ok: "index_ok ?ons idx" and o: "overridden us ?F us'" and times: "override_times us ovs ?ons"
    using inv by (simp_all add: override_inv_def st)
  have d: "distinct (map C_ID ?ons)" using o by (simp add: overridden_def)
  have F: "forcedIDs us (ovs @ [ov]) = insert ?uid ?F" using f by simp
  let ?us = "\<lambda>cs. us'\<lparr>Us_Late := filterAttendanceChecks (Us_Late us') {?uid},
        Us_NotArrived := filterAttendanceBasics (Us_NotArrived us') {?uid}, Us_OnTime := cs\<rparr>"
  let ?st = "overrideStep (sourceByID us) (overrideAllowed us) (overrideExcluded us) ov st"
  show ?thesis
  proof (cases "idx ?uid")
    case (Some i)
    then have i: "i < length ?ons" "C_ID (?ons ! i) = ?uid" using ok by (auto simp: index_ok_def)
    let ?cs = "?ons[i := (?ons ! i)\<lparr>C_CheckTime := MO_AppliedAt ov\<rparr>]"
    note cs = set_check_time [OF i(1), where t = "MO_AppliedAt ov", OF refl, unfolded i(2)]
    have step: "?st = (?us ?cs, idx, True)"
      using f Some by (simp add: overrideStep_def st forces_def Let_def)
    have s: "check_ids ?cs = check_ids ?ons" using cs(1) by (metis list.set_map)
    have "index_ok ?cs idx" using ok cs(1) by (rule index_ok_map)
    moreover have "?uid \<in> check_ids ?ons"
      using imageI [OF nth_mem [OF i(1)], of C_ID] unfolding i(2) .
    then have "check_ids ?cs = insert ?uid (check_ids ?ons)" by (simp only: s insert_absorb)
    then have "overridden us (insert ?uid ?F) (?us ?cs)"
      by (rule overridden_force [OF o]) (simp only: cs(1) d)
    moreover have "override_times us (ovs @ [ov]) ?cs"
      unfolding override_times_def
    proof (intro ballI impI)
      fix ov' assume ov': "ov' \<in> set (ovs @ [ov])" "forces us ov'"
      show "\<exists>c \<in> set ?cs. C_ID c = MO_UserID ov' \<and> C_CheckTime c = MO_AppliedAt ov'"
      proof (cases "ov' = ov")
        case True
        with cs(2) show ?thesis by simp
      next
        case False
        with ov' times obtain c where "c \<in> set ?ons" "C_ID c = MO_UserID ov'"
            "C_CheckTime c = MO_AppliedAt ov'" by (auto simp: override_times_def)
        moreover have "MO_UserID ov' \<noteq> ?uid" using False ov'(1) new by (auto simp: image_iff)
        ultimately show ?thesis using cs(3) [of c] by auto
      qed
    qed
    ultimately show ?thesis unfolding step override_inv_def F by simp
  next
    case None
    obtain b where b: "sourceByID us ?uid = Some b" "B_ID b = ?uid"
      using sourceByID_own f by (auto simp: forces_def)
    let ?c = "checkFromSource b (MO_AppliedAt ov)"
    have c: "C_ID ?c = ?uid" "C_CheckTime ?c = MO_AppliedAt ov" using b by (simp_all add: checkFromSource_def)
    have step: "?st = (?us (?ons @ [?c]), idx(?uid \<mapsto> length ?ons), True)"
      using f None b by (simp add: overrideStep_def st forces_def Let_def)
    have "?uid \<notin> check_ids ?ons" using None ok unfolding index_ok_def by (metis domIff)
    then have "overridden us (insert ?uid ?F) (?us (?ons @ [?c]))"
      using o d c by (intro overridden_force) auto
    moreover have "index_ok (?ons @ [?c]) (idx(?uid \<mapsto> length ?ons))"
      using index_ok_snoc [OF ok refl, of ?c] c by simp
    moreover have "override_times us (ovs @ [ov]) (?ons @ [?c])"
      using times c by (intro override_times_snoc [OF times]) auto
    ultimately show ?thesis unfolding step override_inv_def F by simp
  qed
qed

lemma override_fold_inv:
  assumes "distinct (map C_ID (Us_OnTime us))" and "distinct (map MO_UserID ovs)"
  shows "override_inv us ovs (fold (overrideStep (sourceByID us) (overrideAllowed us) (overrideExcluded us))
           ovs (us, indexOfChecks (Us_OnTime us), False))"
  using assms(2)
proof (induction ovs rule: rev_induct)
  case Nil
  then show ?case
    using assms(1) by (simp add: override_inv_def index_ok_indexOfChecks overridden_def override_times_def)
next
  case (snoc ov ovs)
  then show ?case using override_step_inv [of us ovs _ ov] by simp
qed

lemma applyOverrides_result:
  assumes "distinct (map C_ID (Us_OnTime (Resp_Users resp)))" and "distinct (map MO_UserID ovs)"
    and "Resp_Statistics resp = statistics_of (Resp_Users resp)"
  shows "overridden (Resp_Users resp) (forcedIDs (Resp_Users resp) ovs)
           (Resp_Users (applyOverrides ovs resp))"
    and "override_times (Resp_Users resp) ovs (Us_OnTime (Resp_Users (applyOverrides ovs resp)))"
    and "Resp_Statistics (applyOverrides ovs resp) = statistics_of (Resp_Users (applyOverrides ovs resp))"
proof -
  let ?us = "Resp_Users resp"
  obtain u i a where f: "fold (overrideStep (sourceByID ?us) (overrideAllowed ?us) (overrideExcluded ?us))
           ovs (?us, indexOfChecks (Us_OnTime ?us), False) = (u, i, a)" by (metis prod_cases3)
  have inv: "override_inv ?us ovs (u, i, a)"
    using override_fold_inv [of ?us ovs] assms(1,2) f by simp
  then have u: "Resp_Users (applyOverrides ovs resp) = u"
    using f by (cases a) (simp_all add: applyOverrides_def override_inv_def Let_def)
  show "overridden ?us (forcedIDs ?us ovs) (Resp_Users (applyOverrides ovs resp))"
    "override_times ?us ovs (Us_OnTime (Resp_Users (applyOverrides ovs resp)))"
    using inv unfolding u override_inv_def by simp_all
  show "Resp_Statistics (applyOverrides ovs resp) = statistics_of (Resp_Users (applyOverrides ovs resp))"
    unfolding u using inv f assms(3)
    by (cases a) (simp_all add: applyOverrides_def statistics_of_def override_inv_def overridden_def Let_def)
qed

lemma mo_list_distinct:
  assumes "mo_ListByDateSection ctx date section db = Inr ovs" and "db_wf db"
    and "\<not> Ctx_SkipTenantScope ctx"
  shows "distinct (map MO_UserID ovs)"
proof -
  obtain t where t: "statement ''manualOverride.ListByDateSection'' ctx db = Inr (Some t)"
    using assms(1,3) tenantScope_scoped [of ctx "''manualOverride.ListByDateSection''" db]
    by (auto simp: mo_ListByDateSection_def orderR_def selectRows_def bindR_eq_Inr_iff)
  let ?P = "\<lambda>r. MO_TenantID r = t \<and> MO_Date r = date \<and> MO_Section r = section \<and> \<not> MO_Deleted r"
  let ?vs = "filter ?P (DB_ManualOverrides db)"
  have ovs: "ovs = sort_key MO_UserID ?vs"
    using assms(1) t by (simp add: mo_ListByDateSection_def orderR_def selectRows_def inScope_def conj_assoc)
  have "distinct (map mo_key ?vs)" using assms(2) by (simp add: db_wf_def distinct_map_filter)
  then have "distinct ?vs" and "inj_on mo_key (set ?vs)" by (simp_all add: distinct_map)
  moreover have "inj_on MO_UserID (set ?vs)"
    using \<open>inj_on mo_key (set ?vs)\<close> by (auto simp: inj_on_def mo_key_def)
  ultimately show ?thesis by (simp add: ovs distinct_map)
qed

lemma applyOverrides_Nil: "overridden us {} us \<longleftrightarrow> distinct (map C_ID (Us_OnTime us))"
  by (simp add: overridden_def)

lemma applyManualOverrides_result:
  assumes "applyManualOverridesToDetail s ctx date section db resp = Inr resp'"
    and "Srv_hasManualOverrideRepo s" and "db_wf db" and "\<not> Ctx_SkipTenantScope ctx"
    and "distinct (map C_ID (Us_OnTime (Resp_Users resp)))"
    and "Resp_Statistics resp = statistics_of (Resp_Users resp)"
  shows "\<exists>ovs. mo_ListByDateSection ctx (midnight (DB_Tz db) date) section db = Inr ovs
    \<and> overridden (Resp_Users resp) (forcedIDs (Resp_Users resp) ovs) (Resp_Users resp')
    \<and> override_times (Resp_Users resp) ovs (Us_OnTime (Resp_Users resp'))
    \<and> Resp_Statistics resp' = statistics_of (Resp_Users resp')"
proof -
  from assms(1,2) obtain ovs where
      ovs: "mo_ListByDateSection ctx (midnight (DB_Tz db) date) section db = Inr ovs"
      and r: "resp' = (if ovs = [] then resp else applyOverrides ovs resp)"
    by (auto simp: applyManualOverridesToDetail_def bindR_eq_Inr_iff split: if_splits)
  have d: "distinct (map MO_UserID ovs)" using mo_list_distinct [OF ovs assms(3,4)] .
  show ?thesis
  proof (cases "ovs = []")
    case True
    with ovs r assms(5,6) show ?thesis by (auto simp: applyOverrides_Nil override_times_def)
  next
    case False
    with ovs r applyOverrides_result [OF assms(5) d assms(6)] show ?thesis by auto
  qed
qed

lemma slot_partition_should:
  "slot_partition active us \<Longrightarrow> basic_ids (Us_ShouldAttend us)
     = check_ids (Us_OnTime us) \<union> check_ids (Us_Late us) \<union> leave_ids (Us_Leave us)
       \<union> basic_ids (Us_NotArrived us)"
  by (simp add: slot_partition_def Let_def)

lemma partition_move:
  assumes "active = should \<union> rest \<union> course
         \<and> should \<inter> rest = {} \<and> should \<inter> course = {} \<and> rest \<inter> course = {}
         \<and> should = onTime \<union> late \<union> leave \<union> notArrived
         \<and> leave \<inter> (onTime \<union> late \<union> notArrived) = {} \<and> notArrived \<inter> (onTime \<union> late) = {}"
    and "F \<subseteq> should - leave"
  shows "active = should \<union> rest \<union> course
         \<and> should \<inter> rest = {} \<and> should \<inter> course = {} \<and> rest \<inter> course = {}
         \<and> should = (onTime \<union> F) \<union> (late - F) \<union> leave \<union> (notArrived - F)
         \<and> leave \<inter> ((onTime \<union> F) \<union> (late - F) \<union> (notArrived - F)) = {}
         \<and> (notArrived - F) \<inter> ((onTime \<union> F) \<union> (late - F)) = {}"
  using assms by blast

lemma overridden_partition:
  assumes "slot_partition active us" and "overridden us (forcedIDs us ovs) us'"
  shows "slot_partition active us'"
proof -
  let ?F = "forcedIDs us ovs"
  have "?F \<subseteq> overrideAllowed us - overrideExcluded us" by (auto simp: forcedIDs_def forces_def)
  moreover have "overrideAllowed us = basic_ids (Us_ShouldAttend us)"
    using slot_partition_should [OF assms(1)] by (auto simp: overrideAllowed_def)
  ultimately have F: "?F \<subseteq> basic_ids (Us_ShouldAttend us) - leave_ids (Us_Leave us)"
    by (auto simp: overrideExcluded_def)
  have e: "check_ids (Us_OnTime us') = check_ids (Us_OnTime us) \<union> ?F"
    "check_ids (Us_Late us') = check_ids (Us_Late us) - ?F"
    "basic_ids (Us_NotArrived us') = basic_ids (Us_NotArrived us) - ?F"
    "Us_ShouldAttend us' = Us_ShouldAttend us" "Us_Leave us' = Us_Leave us"
    "Us_RestDay us' = Us_RestDay us" "Us_HasCourse us' = Us_HasCourse us"
    using assms(2) by (auto simp: overridden_def)
  show ?thesis
    unfolding slot_partition_def Let_def e
    by (rule partition_move [OF assms(1) [unfolded slot_partition_def Let_def] F])
qed

lemma overridden_distinct:
  assumes "list_all distinct (id_lists us)" and "overridden us F us'"
  shows "list_all distinct (id_lists us')"
  using assms by (simp add: id_lists_def overridden_def distinct_map_filter)

text \<open>The computation shared by the entry points: build, then override.\<close>

lemma build_then_override:
  assumes "buildAttendanceDetail s ctx req window attendanceEnd splitLate db = Inr (resp, notify)"
    and "applyManualOverridesToDetail s ctx date section db resp = Inr resp'"
    and "db_wf db" and "permutes_lists (Srv_rangeChecks s)" and "\<not> Ctx_SkipTenantScope ctx"
  obtains active courseUsers where
    "getAttendanceCandidatesWithCourseUsers s ctx (W_date window) (Req_Week req)
       (Req_Section req) (Req_DeptIDs req) db = Inr (active, courseUsers)"
    "slot_partition (user_ids active) (Resp_Users resp')"
    "list_all distinct (id_lists (Resp_Users resp'))"
    "Resp_Statistics resp' = statistics_of (Resp_Users resp')"
proof (rule buildAttendanceDetail_sets [OF assms(1,3,4)])
  fix active courseUsers
  assume a: "getAttendanceCandidatesWithCourseUsers s ctx (W_date window) (Req_Week req)
       (Req_Section req) (Req_DeptIDs req) db = Inr (active, courseUsers)"
    "slot_partition (user_ids active) (Resp_Users resp)"
    "list_all distinct (id_lists (Resp_Users resp))"
    "Resp_Statistics resp = statistics_of (Resp_Users resp)"
  show thesis
  proof (cases "Srv_hasManualOverrideRepo s")
    case False
    with assms(2) that a show thesis by (simp add: applyManualOverridesToDetail_def)
  next
    case True
    have "distinct (map C_ID (Us_OnTime (Resp_Users resp)))" using a(3) by (simp add: id_lists_def)
    with assms(2,3,5) True a(4) obtain ovs where
      "overridden (Resp_Users resp) (forcedIDs (Resp_Users resp) ovs) (Resp_Users resp')"
      "Resp_Statistics resp' = statistics_of (Resp_Users resp')"
      using applyManualOverrides_result by metis
    with that a show thesis using overridden_partition overridden_distinct by metis
  qed
qed

definition exOverride :: manual_override where
  "exOverride = \<lparr>MO_ID = 1, MO_TenantID = 1, MO_Date = exDay, MO_Week = 1, MO_Section = 2,
     MO_UserID = 1, MO_OverrideType = overrideForceOnTime, MO_OperatorID = 9,
     MO_AppliedAt = exDay + 11 * hour, MO_Deleted = False\<rparr>"

definition exDBOverride :: database where
  "exDBOverride = exDB\<lparr>DB_ManualOverrides := [exOverride]\<rparr>"

lemma exDBOverride_wf: "db_wf exDBOverride"
  by code_simp



lemma filter_key_singleton:
  assumes "distinct (map f xs)" and "k \<in> f ` set xs"
  shows "\<exists>x. filter (\<lambda>x. f x = k) xs = [x]"
  using assms
proof (induction xs)
  case (Cons x xs)
  show ?case
  proof (cases "f x = k")
    case True
    with Cons.prems(1) have "filter (\<lambda>x. f x = k) xs = []" by (auto simp: filter_empty_conv image_iff)
    with True show ?thesis by simp
  next
    case False
    with Cons show ?thesis by auto
  qed
qed simp

lemma enrich_meta [simp]:
  "Resp_Date (enrichAttendanceDetailUsers s us db r) = Resp_Date r"
  "Resp_Section (enrichAttendanceDetailUsers s us db r) = Resp_Section r"
  by (simp_all add: enrichAttendanceDetailUsers_def Let_def)

lemma build_meta:
  assumes "buildAttendanceDetail s ctx req window attendanceEnd splitLate db = Inr (resp, notify)"
  shows "Resp_Date resp = Req_Date req" and "Resp_Section resp = Req_Section req"
  using assms
  by (auto simp: buildAttendanceDetail_def bindR_eq_Inr_iff Let_def newAttendanceDetailResponse_def
      split: if_splits)

lemma override_meta:
  assumes "applyManualOverridesToDetail s ctx date section db resp = Inr resp'"
  shows "Resp_Date resp' = Resp_Date resp" and "Resp_Section resp' = Resp_Section resp"
  using assms
  by (auto simp: applyManualOverridesToDetail_def applyOverrides_def bindR_eq_Inr_iff Let_def
      split: if_splits prod.splits)

lemma setViewMetadata_simps [simp]:
  "Resp_Users (setViewMetadata m f t r) = Resp_Users r"
  "Resp_Statistics (setViewMetadata m f t r) = Resp_Statistics r"
  "Resp_Date (setViewMetadata m f t r) = Resp_Date r"
  "Resp_Section (setViewMetadata m f t r) = Resp_Section r"
  by (simp_all add: setViewMetadata_def)



end
