(* ===== verification/AttendanceSign.thy ===== *)
theory AttendanceSign
  imports AttendanceOverrides
begin

text \<open>
  Signing on behalf of users, \<open>SignForUsers\<close> of internal/service/attendance\_record\_service.go:
  the slot is found by record id or by date and section, the targets must be late or not arrived
  (or already overridden), an override is written per target, and a stored snapshot is rewritten.
  The two readings of the clock are the arguments \<open>now\<close> and \<open>appliedAt\<close>.
\<close>

record attendanceSignSlot =
  Slot_date :: instant
  Slot_week :: int
  Slot_section :: int
  Slot_record :: "attendance_record option"

definition validateSignRequest :: "SignForUserRequest \<Rightarrow> string option" where
  "validateSignRequest r =
     (if Sign_TargetUserIDs r = [] then Some ''target_user_ids is required''
      else if Sign_RecordID r \<noteq> 0 then None
      else if parseDate 0 (Sign_Date r) = None \<or> Sign_Section r < 1
      then Some ''record_id or date and section is required''
      else None)"

definition deriveAttendanceWeek :: "attendance_service \<Rightarrow> goctx \<Rightarrow> instant \<Rightarrow> database \<Rightarrow> int" where
  "deriveAttendanceWeek s ctx date db =
     (if Srv_hasSemesterSrv s then
        (case semester_GetActiveSemester ctx db of
           Inl _ \<Rightarrow> 1
         | Inr sem \<Rightarrow>
             (case calculateWeekFromDate (DB_Tz db) (Some sem) date of
                Inr week \<Rightarrow> if 0 < week then week else 1
              | Inl _ \<Rightarrow> 1))
      else 1)"

definition resolveSignSlot ::
    "attendance_service \<Rightarrow> goctx \<Rightarrow> SignForUserRequest \<Rightarrow> database \<Rightarrow> goerror + attendanceSignSlot" where
  "resolveSignSlot s ctx req db =
     (case validateSignRequest req of
        Some msg \<Rightarrow> Inl (errInvalidParamWithMsg msg)
      | None \<Rightarrow>
          if Sign_RecordID req \<noteq> 0 then
            (case ar_FindByID ctx (Sign_RecordID req) db of
               Inl e \<Rightarrow> if isRecordNotFound e then Inl (errNotFoundWithMsg zh_record_not_found) else Inl e
             | Inr record \<Rightarrow>
                 Inr \<lparr>Slot_date = midnight (DB_Tz db) (AR_Date record), Slot_week = AR_Week record,
                      Slot_section = AR_Section record, Slot_record = Some record\<rparr>)
          else
            (case parseDate (DB_Tz db) (Sign_Date req) of
               None \<Rightarrow> Inl (errInvalidParamWithMsg zh_date_format)
             | Some parsed \<Rightarrow>
                 let date = midnight (DB_Tz db) parsed; periods = resolveActivePeriods s ctx db
                 in if Sign_Section req \<le> 0 \<or> Sign_Section req > int (length periods)
                    then Inl (errInvalidParamWithMsg zh_section_invalid)
                    else let slot = \<lparr>Slot_date = date, Slot_week = deriveAttendanceWeek s ctx date db,
                                     Slot_section = Sign_Section req, Slot_record = None\<rparr>
                         in (case ar_FindByDateSection ctx date (Sign_Section req) db of
                               Inr record \<Rightarrow>
                                 Inr (slot\<lparr>Slot_record := Some record,
                                           Slot_week := if 0 < AR_Week record then AR_Week record
                                                        else Slot_week slot\<rparr>)
                             | Inl e \<Rightarrow> if isRecordNotFound e then Inr slot else Inl e)))"

definition slotRequest :: "int \<Rightarrow> attendanceSignSlot \<Rightarrow> AttendanceDetailRequest" where
  "slotRequest tz slot =
     \<lparr>Req_Date = formatDate tz (Slot_date slot), Req_Week = Slot_week slot,
      Req_Section = Slot_section slot, Req_DeptIDs = []\<rparr>"

definition loadAttendanceDetailForSign ::
    "attendance_service \<Rightarrow> goctx \<Rightarrow> attendanceSignSlot \<Rightarrow> instant \<Rightarrow> database
       \<Rightarrow> goerror + AttendanceDetailResponse" where
  "loadAttendanceDetailForSign s ctx slot now db =
     (let req = slotRequest (DB_Tz db) slot
      in if Slot_record slot \<noteq> None then getAttendanceRecordFromDB s ctx req db
         else bindR (resolveAttendanceWindow s ctx req db)
           (\<lambda>window.
              bindR (buildAttendanceDetail s ctx req window
                       (minTime now (minTime (W_finalizeAt window) (W_slotEnd window))) True db)
                (\<lambda>(resp, _). applyManualOverridesToDetail s ctx (Slot_date slot) (Slot_section slot) db resp)))"

definition resolveOverrideTenantID ::
    "attendance_service \<Rightarrow> goctx \<Rightarrow> attendanceSignSlot \<Rightarrow> nat list \<Rightarrow> database \<Rightarrow> nat" where
  "resolveOverrideTenantID s ctx slot targets db =
     (let fallback =
        (case tenantIDFrom ctx of
           Some t \<Rightarrow> t
         | None \<Rightarrow>
             if \<not> Srv_hasUserRepo s \<or> targets = [] then 0
             else (case user_ListByIDs ctx targets db of
                     Inr (u # _) \<Rightarrow> U_TenantID u
                   | _ \<Rightarrow> 0))
      in case Slot_record slot of
           Some record \<Rightarrow> if AR_TenantID record \<noteq> 0 then AR_TenantID record else fallback
         | None \<Rightarrow> fallback)"

definition newOverride ::
    "nat \<Rightarrow> instant \<Rightarrow> attendanceSignSlot \<Rightarrow> nat \<Rightarrow> instant \<Rightarrow> nat \<Rightarrow> manual_override" where
  "newOverride tenantID slotDate slot operatorID appliedAt targetID =
     \<lparr>MO_ID = 0, MO_TenantID = tenantID, MO_Date = slotDate, MO_Week = Slot_week slot,
      MO_Section = Slot_section slot, MO_UserID = targetID, MO_OverrideType = overrideForceOnTime,
      MO_OperatorID = operatorID, MO_AppliedAt = appliedAt, MO_Deleted = False\<rparr>"

text \<open>The write loop: the first failing write ends the request, earlier ones stay.\<close>

fun writeOverrides :: "goctx \<Rightarrow> manual_override list \<Rightarrow> database \<Rightarrow> goerror option \<times> database" where
  "writeOverrides ctx [] db = (None, db)"
| "writeOverrides ctx (ov # ovs) db =
     (case mo_UpsertForceOnTime ctx ov db of
        (Some e, db') \<Rightarrow> (Some (MsgErr zh_override_write e), db')
      | (None, db') \<Rightarrow> writeOverrides ctx ovs db')"

text \<open>Everything before the first write: the slot, its current detail, and the check of the targets.\<close>

definition checkSignTargets ::
    "attendance_service \<Rightarrow> goctx \<Rightarrow> SignForUserRequest \<Rightarrow> instant \<Rightarrow> database
       \<Rightarrow> goerror + attendanceSignSlot" where
  "checkSignTargets s ctx req now db =
     bindR (resolveSignSlot s ctx req db)
       (\<lambda>slot. bindR (loadAttendanceDetailForSign s ctx slot now db)
          (\<lambda>detail.
             if \<not> Srv_hasManualOverrideRepo s
             then Inl (BizError codeInternalError zh_override_repo_nil)
             else bindR (wrapR zh_override_failed
                    (mo_ListByDateSection ctx (Slot_date slot) (Slot_section slot) db))
               (\<lambda>overrides.
                  let signable = check_ids (Us_Late (Resp_Users detail))
                        \<union> basic_ids (Us_NotArrived (Resp_Users detail));
                      overrideSet = MO_UserID ` set (filter
                        (\<lambda>ov. MO_OverrideType ov = overrideForceOnTime) overrides)
                  in if list_all (\<lambda>t. t \<in> signable \<or> t \<in> overrideSet) (Sign_TargetUserIDs req)
                     then Inr slot
                     else Inl (BizError codeOperationFailed zh_not_signable))))"

text \<open>After the writes: a stored record of the slot is read again, now with the overrides, and saved.\<close>

definition findSignedRecord ::
    "goctx \<Rightarrow> attendanceSignSlot \<Rightarrow> instant \<Rightarrow> database \<Rightarrow> goerror + attendanceSignSlot option" where
  "findSignedRecord ctx slot slotDate db =
     (case Slot_record slot of
        Some _ \<Rightarrow> Inr (Some slot)
      | None \<Rightarrow>
          (case ar_FindByDateSection ctx slotDate (Slot_section slot) db of
             Inr record \<Rightarrow>
               Inr (Some (slot\<lparr>Slot_record := Some record,
                 Slot_week := if 0 < AR_Week record then AR_Week record else Slot_week slot\<rparr>))
           | Inl e \<Rightarrow> if isRecordNotFound e then Inr None else Inl e))"

definition refreshSnapshot ::
    "attendance_service \<Rightarrow> goctx \<Rightarrow> attendanceSignSlot \<Rightarrow> instant \<Rightarrow> database
       \<Rightarrow> goerror option \<times> database" where
  "refreshSnapshot s ctx slot slotDate db =
     (case findSignedRecord ctx slot slotDate db of
        Inl e \<Rightarrow> (Some e, db)
      | Inr None \<Rightarrow> (None, db)
      | Inr (Some slot') \<Rightarrow>
          (case getAttendanceRecordFromDB s ctx
                  (slotRequest (DB_Tz db) (slot'\<lparr>Slot_date := slotDate\<rparr>)) db of
             Inl e \<Rightarrow> (Some e, db)
           | Inr snapshot \<Rightarrow> saveAttendanceRecord ctx snapshot db))"

definition signForUsers ::
    "attendance_service \<Rightarrow> goctx \<Rightarrow> SignForUserRequest \<Rightarrow> instant \<Rightarrow> instant \<Rightarrow> database
       \<Rightarrow> (goerror + SignForUserResponse) \<times> database" where
  "signForUsers s ctx req now appliedAt db =
     (case checkSignTargets s ctx req now db of
        Inl e \<Rightarrow> (Inl e, db)
      | Inr slot \<Rightarrow>
          let slotDate = midnight (DB_Tz db) (Slot_date slot);
              targets = Sign_TargetUserIDs req;
              tenantID = resolveOverrideTenantID s ctx slot targets db
          in (case writeOverrides ctx
                (map (newOverride tenantID slotDate slot (Sign_OperatorID req) appliedAt) targets) db of
                (Some e, db1) \<Rightarrow> (Inl e, db1)
              | (None, db1) \<Rightarrow>
                  (case refreshSnapshot s ctx slot slotDate db1 of
                     (Some e, db2) \<Rightarrow> (Inl e, db2)
                   | (None, db2) \<Rightarrow> (Inr \<lparr>Sign_SuccessIDs = targets, Sign_FailedIDs = []\<rparr>, db2))))"

section \<open>Overrides written\<close>

text \<open>The override a user has in the table, and the absence of soft-deleted rows of a key.\<close>

definition has_override ::
    "manual_override list \<Rightarrow> nat \<times> instant \<times> int \<times> nat \<Rightarrow> nat \<Rightarrow> instant \<Rightarrow> bool" where
  "has_override rows k operator appliedAt \<longleftrightarrow>
     (\<exists>r \<in> set rows. mo_key r = k \<and> MO_OverrideType r = overrideForceOnTime
        \<and> MO_OperatorID r = operator \<and> MO_AppliedAt r = appliedAt \<and> \<not> MO_Deleted r)"

definition no_deleted :: "manual_override list \<Rightarrow> bool" where
  "no_deleted rows \<longleftrightarrow> list_all (\<lambda>r. \<not> MO_Deleted r) rows"

abbreviation mo_upsert :: "manual_override \<Rightarrow> manual_override list \<Rightarrow> manual_override list" where
  "mo_upsert \<equiv> upsertRows mo_key MO_ID (\<lambda>n r. r\<lparr>MO_ID := n\<rparr>) mo_merge"

lemma mo_upsert_no_deleted:
  assumes "no_deleted rows" and "\<not> MO_Deleted ov"
  shows "no_deleted (mo_upsert ov rows)"
  using assms by (auto simp: no_deleted_def upsertRows_def list_all_iff mo_merge_def)

lemma has_override_filter:
  "has_override rows k op at \<longleftrightarrow>
     (\<exists>r \<in> set (filter (\<lambda>r. mo_key r = k) rows). MO_OverrideType r = overrideForceOnTime
        \<and> MO_OperatorID r = op \<and> MO_AppliedAt r = at \<and> \<not> MO_Deleted r)"
  by (auto simp: has_override_def)

lemma mo_upsert_has:
  assumes "no_deleted rows" and "\<not> MO_Deleted ov" and "MO_OverrideType ov = overrideForceOnTime"
  shows "has_override (mo_upsert ov rows) (mo_key ov) (MO_OperatorID ov) (MO_AppliedAt ov)"
proof (cases "mo_key ov \<in> mo_key ` set rows")
  case True
  then obtain r where r: "r \<in> set rows" "mo_key r = mo_key ov" by auto
  with assms(1) have "\<not> MO_Deleted r" by (simp add: no_deleted_def list_all_iff)
  with r True assms(3) show ?thesis
    unfolding has_override_filter mo_table.upsert_same
    by (auto simp: mo_merge_def intro!: bexI [of _ r])
next
  case False
  with assms(2,3) show ?thesis unfolding has_override_filter mo_table.upsert_same by simp
qed

lemma mo_upsert_keeps:
  "k \<noteq> mo_key ov \<Longrightarrow> has_override (mo_upsert ov rows) k op at = has_override rows k op at"
  unfolding has_override_filter by (simp add: mo_table.upsert_other)

text \<open>The write loop under the tenant \<open>t\<close>: a fold of upserts that changes the override table alone.\<close>

definition stored :: "nat \<Rightarrow> int \<Rightarrow> manual_override \<Rightarrow> manual_override" where
  "stored t tz ov = ov\<lparr>MO_TenantID := t, MO_Date := midnight tz (MO_Date ov)\<rparr>"

lemma mo_Upsert_scoped:
  assumes "Ctx_TenantID ctx = Some t" and "\<not> Ctx_SkipTenantScope ctx"
    and "mo_UpsertForceOnTime ctx ov db = (None, db')"
  shows "db' = db\<lparr>DB_ManualOverrides := mo_upsert (stored t (DB_Tz db) ov) (DB_ManualOverrides db)\<rparr>"
  using assms
  by (auto simp: mo_UpsertForceOnTime_def statement_def tenantScope_def tenantIDFrom_def bindR_def
      stored_def Let_def split: if_splits)

lemma writeOverrides_fold:
  assumes "Ctx_TenantID ctx = Some t" and "\<not> Ctx_SkipTenantScope ctx"
    and "writeOverrides ctx ovs db = (None, db')"
  shows "db' = db\<lparr>DB_ManualOverrides :=
           fold mo_upsert (map (stored t (DB_Tz db)) ovs) (DB_ManualOverrides db)\<rparr>"
  using assms(3)
proof (induction ovs arbitrary: db)
  case (Cons ov ovs)
  from Cons.prems obtain db1 where s: "mo_UpsertForceOnTime ctx ov db = (None, db1)"
    and w: "writeOverrides ctx ovs db1 = (None, db')"
    by (auto split: prod.splits option.splits)
  from Cons.IH [OF w] mo_Upsert_scoped [OF assms(1,2) s] show ?case by simp
qed simp

lemma fold_mo_upsert:
  assumes "no_deleted rows" and "distinct (map mo_key rows)"
    and "\<And>ov. ov \<in> set ovs \<Longrightarrow> \<not> MO_Deleted ov \<and> MO_OverrideType ov = overrideForceOnTime
            \<and> MO_OperatorID ov = op \<and> MO_AppliedAt ov = at"
  shows "(\<forall>k \<in> mo_key ` set ovs. has_override (fold mo_upsert ovs rows) k op at)
    \<and> (\<forall>k. k \<notin> mo_key ` set ovs \<longrightarrow>
          filter (\<lambda>r. mo_key r = k) (fold mo_upsert ovs rows) = filter (\<lambda>r. mo_key r = k) rows)
    \<and> no_deleted (fold mo_upsert ovs rows) \<and> distinct (map mo_key (fold mo_upsert ovs rows))"
  using assms(3)
proof (induction ovs rule: rev_induct)
  case Nil
  with assms(1,2) show ?case by simp
next
  case (snoc ov ovs)
  let ?rows = "fold mo_upsert ovs rows"
  have IH: "\<forall>k \<in> mo_key ` set ovs. has_override ?rows k op at"
    "\<forall>k. k \<notin> mo_key ` set ovs \<longrightarrow> filter (\<lambda>r. mo_key r = k) ?rows = filter (\<lambda>r. mo_key r = k) rows"
    "no_deleted ?rows" "distinct (map mo_key ?rows)" using snoc by simp_all
  have ov: "\<not> MO_Deleted ov" "MO_OverrideType ov = overrideForceOnTime" "MO_OperatorID ov = op"
    "MO_AppliedAt ov = at" using snoc.prems [of ov] by simp_all
  have new: "has_override (mo_upsert ov ?rows) (mo_key ov) op at"
    using mo_upsert_has [OF IH(3) ov(1,2)] ov by simp
  have "has_override (mo_upsert ov ?rows) k op at" if "k \<in> mo_key ` set (ovs @ [ov])" for k
    using that IH(1) new mo_upsert_keeps [of k ov ?rows op at] by (cases "k = mo_key ov") auto
  moreover have "filter (\<lambda>r. mo_key r = k) (mo_upsert ov ?rows) = filter (\<lambda>r. mo_key r = k) rows"
    if "k \<notin> mo_key ` set (ovs @ [ov])" for k
    using that IH(2) [rule_format, of k] mo_table.upsert_other [of k ov ?rows] by auto
  ultimately show ?case
    using mo_upsert_no_deleted [OF IH(3) ov(1)] mo_table.upsert_distinct_keys [OF IH(4)] by simp
qed

lemma writeOverrides_targets:
  assumes "Ctx_TenantID ctx = Some t" and "\<not> Ctx_SkipTenantScope ctx" and "db_wf db"
    and "no_deleted (DB_ManualOverrides db)"
    and "writeOverrides ctx (map (newOverride tn date slot op at) targets) db = (None, db')"
  defines "key \<equiv> \<lambda>u. (t, midnight (DB_Tz db) date, Slot_section slot, u)"
  shows "(\<forall>u \<in> set targets. has_override (DB_ManualOverrides db') (key u) op at)
    \<and> (\<forall>k. k \<notin> key ` set targets \<longrightarrow> filter (\<lambda>r. mo_key r = k) (DB_ManualOverrides db')
          = filter (\<lambda>r. mo_key r = k) (DB_ManualOverrides db))
    \<and> db_wf db' \<and> no_deleted (DB_ManualOverrides db')"
proof -
  let ?ovs = "map (stored t (DB_Tz db)) (map (newOverride tn date slot op at) targets)"
  have db': "db' = db\<lparr>DB_ManualOverrides := fold mo_upsert ?ovs (DB_ManualOverrides db)\<rparr>"
    by (rule writeOverrides_fold [OF assms(1,2,5)])
  have keys: "mo_key ` set ?ovs = key ` set targets"
    by (simp add: image_image mo_key_def stored_def newOverride_def key_def)
  have sel: "DB_ManualOverrides db' = fold mo_upsert ?ovs (DB_ManualOverrides db)" unfolding db' by simp
  have d: "distinct (map mo_key (DB_ManualOverrides db))" using assms(3) by (simp add: db_wf_def)
  have f: "(\<forall>k \<in> mo_key ` set ?ovs. has_override (DB_ManualOverrides db') k op at)
    \<and> (\<forall>k. k \<notin> mo_key ` set ?ovs \<longrightarrow> filter (\<lambda>r. mo_key r = k) (DB_ManualOverrides db')
          = filter (\<lambda>r. mo_key r = k) (DB_ManualOverrides db))
    \<and> no_deleted (DB_ManualOverrides db') \<and> distinct (map mo_key (DB_ManualOverrides db'))"
    unfolding sel by (rule fold_mo_upsert [OF assms(4) d]) (auto simp: stored_def newOverride_def)
  then have "db_wf db'" using assms(3) by (simp add: db' db_wf_def)
  with f show ?thesis unfolding keys by blast
qed

text \<open>A live override under the tenant's key is listed for its slot.\<close>

lemma has_override_listed:
  assumes "has_override (DB_ManualOverrides db) (t, date, section, u) op at"
    and "Ctx_TenantID ctx = Some t" and "mo_ListByDateSection ctx date section db = Inr ovs"
    and "\<not> Ctx_SkipTenantScope ctx"
  shows "\<exists>ov \<in> set ovs. MO_UserID ov = u \<and> MO_OverrideType ov = overrideForceOnTime
           \<and> MO_OperatorID ov = op \<and> MO_AppliedAt ov = at"
  using assms
  by (auto simp: mo_ListByDateSection_def orderR_def selectRows_def statement_def tenantScope_def
      tenantIDFrom_def bindR_def inScope_def has_override_def mo_key_def split: if_splits)

lemma saveAttendanceRecord_frame:
  assumes "saveAttendanceRecord ctx resp db = (e, db')" and "db_wf db"
  shows "db_wf db'" and "DB_ManualOverrides db' = DB_ManualOverrides db" and "DB_Tz db' = DB_Tz db"
    and "DB_Faults db' = DB_Faults db"
proof -
  obtain r where "ar_Upsert ctx r db = (e, db')"
    using assms(1) unfolding saveAttendanceRecord_def Let_def by blast
  then show "db_wf db'" using ar_Upsert_wf [OF assms(2), of ctx r] by simp
  show "DB_ManualOverrides db' = DB_ManualOverrides db" "DB_Tz db' = DB_Tz db"
    "DB_Faults db' = DB_Faults db"
    using assms(1) by (auto simp: saveAttendanceRecord_def ar_Upsert_def Let_def split: sum.splits)
qed

section \<open>Signing\<close>

lemma excused_disjoint:
  assumes "S \<inter> R = {}" and "S \<inter> C = {}" and "S = O' \<union> L \<union> V \<union> N" and "V \<inter> (O' \<union> L \<union> N) = {}"
    and "u \<in> V \<union> R \<union> C"
  shows "u \<notin> L \<union> N"
  using assms by blast

lemma excused_not_signable:
  "slot_partition active us \<Longrightarrow>
     u \<in> leave_ids (Us_Leave us) \<union> basic_ids (Us_RestDay us) \<union> basic_ids (Us_HasCourse us) \<Longrightarrow>
     u \<notin> check_ids (Us_Late us) \<union> basic_ids (Us_NotArrived us)"
  unfolding slot_partition_def Let_def by (elim conjE) (rule excused_disjoint)

lemma sign_not_signable:
  assumes "resolveSignSlot s ctx req db = Inr slot"
    and "loadAttendanceDetailForSign s ctx slot now db = Inr detail"
    and "Srv_hasManualOverrideRepo s"
    and "mo_ListByDateSection ctx (Slot_date slot) (Slot_section slot) db = Inr ovs"
    and "u \<in> set (Sign_TargetUserIDs req)"
    and "u \<notin> check_ids (Us_Late (Resp_Users detail)) \<union> basic_ids (Us_NotArrived (Resp_Users detail))"
    and "u \<notin> MO_UserID ` set ovs"
  shows "signForUsers s ctx req now appliedAt db = (Inl (BizError codeOperationFailed zh_not_signable), db)"
proof -
  let ?ok = "\<lambda>t. t \<in> check_ids (Us_Late (Resp_Users detail)) \<union> basic_ids (Us_NotArrived (Resp_Users detail))
     \<or> t \<in> MO_UserID ` set (filter (\<lambda>ov. MO_OverrideType ov = overrideForceOnTime) ovs)"
  have "\<not> ?ok u" using assms(6,7) by auto
  with assms(5) have "\<not> list_all ?ok (Sign_TargetUserIDs req)" by (auto simp: list_all_iff)
  with assms(1-4) show ?thesis by (simp add: signForUsers_def checkSignTargets_def)
qed

lemma checkSignTargets_InrD:
  assumes "checkSignTargets s ctx req now db = Inr slot"
  shows "\<exists>detail ovs. resolveSignSlot s ctx req db = Inr slot
    \<and> loadAttendanceDetailForSign s ctx slot now db = Inr detail
    \<and> mo_ListByDateSection ctx (Slot_date slot) (Slot_section slot) db = Inr ovs
    \<and> set (Sign_TargetUserIDs req) \<subseteq> check_ids (Us_Late (Resp_Users detail))
        \<union> basic_ids (Us_NotArrived (Resp_Users detail)) \<union> MO_UserID ` set ovs"
proof -
  from assms obtain detail ovs where r: "resolveSignSlot s ctx req db = Inr slot"
    "loadAttendanceDetailForSign s ctx slot now db = Inr detail"
    "mo_ListByDateSection ctx (Slot_date slot) (Slot_section slot) db = Inr ovs"
    and t: "list_all (\<lambda>t. t \<in> check_ids (Us_Late (Resp_Users detail))
        \<union> basic_ids (Us_NotArrived (Resp_Users detail)) \<or> t \<in> MO_UserID ` set (filter
          (\<lambda>ov. MO_OverrideType ov = overrideForceOnTime) ovs)) (Sign_TargetUserIDs req)"
    by (auto simp: checkSignTargets_def bindR_eq_Inr_iff Let_def split: if_splits)
  have "MO_UserID ` set (filter (\<lambda>ov. MO_OverrideType ov = overrideForceOnTime) ovs)
      \<subseteq> MO_UserID ` set ovs" by auto
  with t have "set (Sign_TargetUserIDs req) \<subseteq> check_ids (Us_Late (Resp_Users detail))
        \<union> basic_ids (Us_NotArrived (Resp_Users detail)) \<union> MO_UserID ` set ovs"
    unfolding list_all_iff by blast
  with r show ?thesis by blast
qed

lemma refreshSnapshot_frame:
  assumes "refreshSnapshot s ctx slot slotDate db = (e, db')" and "db_wf db"
  shows "db_wf db'" and "DB_ManualOverrides db' = DB_ManualOverrides db"
proof -
  have "db' = db \<or> (\<exists>snapshot. saveAttendanceRecord ctx snapshot db = (e, db'))"
    using assms(1) by (auto simp: refreshSnapshot_def split: sum.splits option.splits)
  then show "db_wf db'" "DB_ManualOverrides db' = DB_ManualOverrides db"
    using assms(2) saveAttendanceRecord_frame(1,2) by blast+
qed

text \<open>C10: A successful signing names targets that were all late, not arrived or overridden before;
  each of them then has a live force-on-time override by the operator, with the time of signing,
  for the slot of the request; the overrides of all other users and slots are unchanged.\<close>

theorem sign_records_overrides:
  assumes "signForUsers s ctx req now appliedAt db = (Inr resp, db')"
    and "Ctx_TenantID ctx = Some t" and "\<not> Ctx_SkipTenantScope ctx" and "db_wf db"
    and "no_deleted (DB_ManualOverrides db)"
  shows "\<exists>slot detail ovs.
      resolveSignSlot s ctx req db = Inr slot
    \<and> loadAttendanceDetailForSign s ctx slot now db = Inr detail
    \<and> mo_ListByDateSection ctx (Slot_date slot) (Slot_section slot) db = Inr ovs
    \<and> set (Sign_TargetUserIDs req) \<subseteq> check_ids (Us_Late (Resp_Users detail))
        \<union> basic_ids (Us_NotArrived (Resp_Users detail)) \<union> MO_UserID ` set ovs
    \<and> (\<forall>u \<in> set (Sign_TargetUserIDs req). has_override (DB_ManualOverrides db')
          (t, midnight (DB_Tz db) (Slot_date slot), Slot_section slot, u) (Sign_OperatorID req) appliedAt)
    \<and> (\<forall>k. k \<notin> (\<lambda>u. (t, midnight (DB_Tz db) (Slot_date slot), Slot_section slot, u))
             ` set (Sign_TargetUserIDs req) \<longrightarrow>
          filter (\<lambda>r. mo_key r = k) (DB_ManualOverrides db')
            = filter (\<lambda>r. mo_key r = k) (DB_ManualOverrides db))
    \<and> db_wf db'"
proof -
  from assms(1) obtain slot db1 where c: "checkSignTargets s ctx req now db = Inr slot"
    and w: "writeOverrides ctx (map (newOverride (resolveOverrideTenantID s ctx slot
          (Sign_TargetUserIDs req) db) (midnight (DB_Tz db) (Slot_date slot)) slot
          (Sign_OperatorID req) appliedAt) (Sign_TargetUserIDs req)) db = (None, db1)"
    and f: "refreshSnapshot s ctx slot (midnight (DB_Tz db) (Slot_date slot)) db1 = (None, db')"
    by (auto simp: signForUsers_def Let_def split: sum.splits prod.splits option.splits)
  note r = writeOverrides_targets [OF assms(2-5) w, unfolded midnight_midnight]
  have "db_wf db'" "DB_ManualOverrides db' = DB_ManualOverrides db1"
    using refreshSnapshot_frame [OF f] r by blast+
  with r checkSignTargets_InrD [OF c] show ?thesis by auto
qed

definition exSign :: SignForUserRequest where
  "exSign = \<lparr>Sign_RecordID = 0, Sign_Date = ''2025-03-03'', Sign_Section = 2, Sign_OperatorID = 9,
     Sign_TargetUserIDs = [1]\<rparr>"

theorem sign_records_overrides_witness:
  "\<exists>resp db'. signForUsers exService tenantCtx exSign (exDay + 10 * hour) (exDay + 11 * hour) exDB
      = (Inr resp, db')
    \<and> has_override (DB_ManualOverrides db') (1, exDay, 2, 1) 9 (exDay + 11 * hour) \<and> db_wf db'"
proof -
  have "case signForUsers exService tenantCtx exSign (exDay + 10 * hour) (exDay + 11 * hour) exDB of
      (Inr _, _) \<Rightarrow> True | (Inl _, _) \<Rightarrow> False" by code_simp
  then obtain resp db' where r: "signForUsers exService tenantCtx exSign (exDay + 10 * hour)
      (exDay + 11 * hour) exDB = (Inr resp, db')" by (auto split: prod.splits sum.splits)
  have slot: "case resolveSignSlot exService tenantCtx exSign exDB of
      Inr slot \<Rightarrow> midnight (DB_Tz exDB) (Slot_date slot) = exDay \<and> Slot_section slot = 2
    | Inl _ \<Rightarrow> False" by code_simp
  have "Ctx_TenantID tenantCtx = Some 1" "\<not> Ctx_SkipTenantScope tenantCtx"
    "no_deleted (DB_ManualOverrides exDB)" by code_simp+
  from sign_records_overrides [OF r this(1,2) exDB_wf this(3)] slot r
  show ?thesis by (auto simp: exSign_def)
qed

text \<open>C12: For a slot without a stored record, a target on leave, resting or in class that has no
  override is refused, and the database stays as it was.\<close>

theorem sign_refuses_excused:
  assumes "resolveSignSlot s ctx req db = Inr slot" and "Slot_record slot = None"
    and "loadAttendanceDetailForSign s ctx slot now db = Inr detail"
    and "Srv_hasManualOverrideRepo s"
    and "mo_ListByDateSection ctx (Slot_date slot) (Slot_section slot) db = Inr ovs"
    and "db_wf db" and "permutes_lists (Srv_rangeChecks s)" and "\<not> Ctx_SkipTenantScope ctx"
    and "u \<in> set (Sign_TargetUserIDs req)" and "u \<notin> MO_UserID ` set ovs"
    and "u \<in> leave_ids (Us_Leave (Resp_Users detail)) \<union> basic_ids (Us_RestDay (Resp_Users detail))
           \<union> basic_ids (Us_HasCourse (Resp_Users detail))"
  shows "signForUsers s ctx req now appliedAt db = (Inl (BizError codeOperationFailed zh_not_signable), db)"
proof -
  obtain window resp0 notify where
    b: "buildAttendanceDetail s ctx (slotRequest (DB_Tz db) slot) window
          (minTime now (minTime (W_finalizeAt window) (W_slotEnd window))) True db = Inr (resp0, notify)"
    and o: "applyManualOverridesToDetail s ctx (Slot_date slot) (Slot_section slot) db resp0 = Inr detail"
    using assms(2,3) by (auto simp: loadAttendanceDetailForSign_def bindR_eq_Inr_iff Let_def)
  obtain active where "slot_partition (user_ids active) (Resp_Users detail)"
    using build_then_override [OF b o assms(6-8)] by metis
  then have "u \<notin> check_ids (Us_Late (Resp_Users detail)) \<union> basic_ids (Us_NotArrived (Resp_Users detail))"
    using assms(11) by (rule excused_not_signable)
  with assms show ?thesis by (intro sign_not_signable) auto
qed

definition exRest :: user_rest_day where
  "exRest = \<lparr>RD_ID = 1, RD_TenantID = 1, RD_UserID = 1, RD_DayOfWeek = Some 1\<rparr>"

definition exDBRest :: database where
  "exDBRest = exDB\<lparr>DB_RestDays := [exRest]\<rparr>"

theorem sign_refuses_excused_witness:
  "signForUsers exService tenantCtx exSign (exDay + 10 * hour) (exDay + 11 * hour) exDBRest
     = (Inl (BizError codeOperationFailed zh_not_signable), exDBRest)"
proof -
  have "case resolveSignSlot exService tenantCtx exSign exDBRest of
      Inl _ \<Rightarrow> False
    | Inr slot \<Rightarrow>
        Slot_record slot = None
        \<and> mo_ListByDateSection tenantCtx (Slot_date slot) (Slot_section slot) exDBRest = Inr []
        \<and> (case loadAttendanceDetailForSign exService tenantCtx slot (exDay + 10 * hour) exDBRest of
             Inl _ \<Rightarrow> False | Inr detail \<Rightarrow> basic_ids (Us_RestDay (Resp_Users detail)) = {1})"
    by code_simp
  then obtain slot detail where
    r: "resolveSignSlot exService tenantCtx exSign exDBRest = Inr slot" "Slot_record slot = None"
      "loadAttendanceDetailForSign exService tenantCtx slot (exDay + 10 * hour) exDBRest = Inr detail"
      "mo_ListByDateSection tenantCtx (Slot_date slot) (Slot_section slot) exDBRest = Inr []"
    and rest: "basic_ids (Us_RestDay (Resp_Users detail)) = {1}" by (auto split: sum.splits)
  have "db_wf exDBRest" "Srv_hasManualOverrideRepo exService" "\<not> Ctx_SkipTenantScope tenantCtx"
    "1 \<in> set (Sign_TargetUserIDs exSign)" by code_simp+
  with sign_refuses_excused [OF r(1-3) _ r(4), of 1] rest show ?thesis
    by (simp add: exService_def)
qed

end
