(* ===== verification/AttendanceReports.thy ===== *)
theory AttendanceReports
  imports AttendanceOverrides
begin

text \<open>
  Reports over attendance responses and records, from internal/service/attendance\_record\_service.go:
  restriction to a department, the text posted to a group, the weekly ranking of late users and
  the counts behind the weekly attendance rate. \<open>sort.Slice\<close> is a parameter that permutes its
  input and leaves no inversion; the floating-point rate itself is not modelled, the two counts it
  divides are.
\<close>

section \<open>Restriction to a department\<close>

definition filterDetailByDeptSet :: "nat set \<Rightarrow> AttendanceDetailResponse \<Rightarrow> AttendanceDetailResponse" where
  "filterDetailByDeptSet deptSet result =
     (let us = Resp_Users result;
          onTime = filter (\<lambda>u. C_ID u \<in> deptSet) (Us_OnTime us);
          late = filter (\<lambda>u. C_ID u \<in> deptSet) (Us_Late us);
          leave = filter (\<lambda>u. L_ID u \<in> deptSet) (Us_Leave us);
          notArrived = filter (\<lambda>u. B_ID u \<in> deptSet) (Us_NotArrived us);
          restDay = filter (\<lambda>u. B_ID u \<in> deptSet) (Us_RestDay us);
          shouldAttend = filter (\<lambda>u. B_ID u \<in> deptSet) (Us_ShouldAttend us)
      in result\<lparr>Resp_Statistics :=
             \<lparr>St_ShouldAttend = length shouldAttend, St_OnTime = length onTime, St_Late = length late,
              St_Leave = length leave, St_NotArrived = length notArrived, St_RestDay = length restDay,
              St_HasCourse = length (Us_HasCourse us)\<rparr>,
           Resp_Users :=
             \<lparr>Us_ShouldAttend = shouldAttend, Us_OnTime = onTime, Us_Late = late, Us_Leave = leave,
              Us_NotArrived = notArrived, Us_RestDay = restDay, Us_HasCourse = Us_HasCourse us\<rparr>\<rparr>)"

section \<open>The text of a slot\<close>

text \<open>\<open>joinNames\<close>: the separator goes before every name but the first.\<close>

fun joinNamesFrom :: "nat \<Rightarrow> string list \<Rightarrow> string" where
  "joinNamesFrom i [] = []"
| "joinNamesFrom i (name # names) = (if 0 < i then zh_comma else []) @ name @ joinNamesFrom (Suc i) names"

definition joinNames :: "string list \<Rightarrow> string" where
  "joinNames names = (if names = [] then [] else joinNamesFrom 0 names)"

text \<open>The loop of \<open>intToString\<close> prepends the digits of a positive number.\<close>

function intDigits :: "int \<Rightarrow> string \<Rightarrow> string" where
  "intDigits n digits =
     (if 0 < n then intDigits (n div 10) (char_of (nat (48 + n mod 10)) # digits) else digits)"
  by pat_completeness auto
termination by (relation "measure (\<lambda>(n, _). nat n)") auto

declare intDigits.simps [simp del]

text \<open>\<open>intToString\<close> on 64-bit integers: the negation of the least one is itself, and the recursion
  does not end, which is \<open>None\<close>.\<close>

definition intToString :: "int \<Rightarrow> string option" where
  "intToString n =
     (if n = 0 then Some ''0''
      else if n < 0 then
        (if n = minInt64 then None else Some (CHR ''-'' # intDigits (- n) []))
      else Some (intDigits n []))"

definition showCount :: "nat \<Rightarrow> string" where
  "showCount n = case_option [] id (intToString (int n))"

definition showInt :: "int \<Rightarrow> string" where
  "showInt n = case_option [] id (intToString n)"

definition getWeekdayName :: "int \<Rightarrow> string" where
  "getWeekdayName day =
     (if 1 \<le> day \<and> day \<le> 7
      then [[], zh_mon, zh_tue, zh_wed, zh_thu, zh_fri, zh_sat, zh_sun] ! nat day
      else zh_no_day)"

definition notArrivedLabel :: "AttendanceDetailResponse \<Rightarrow> string" where
  "notArrivedLabel detail =
     (if Resp_ViewMode detail = ''current'' then zh_now_not_arrived else zh_not_arrived)"

record AttendanceTextResponse =
  Text_Title :: string
  Text_Statistics :: string
  Text_Content :: "string list"
  Text_FullText :: string

definition periodLabel :: "AttendanceDetailResponse \<Rightarrow> string \<Rightarrow> period list \<Rightarrow> string" where
  "periodLabel detail mode periods =
     (let sec = Resp_Section detail
      in if mode = ''holiday'' then
           (if sec = 1 then zh_morning else if sec = 2 then zh_afternoon else if sec = 3 then zh_evening
            else zh_ordinal @ showInt sec @ zh_times)
         else if 0 < sec \<and> sec \<le> int (length periods) then Period_Name (periods ! nat (sec - 1))
         else zh_ordinal @ showInt sec @ zh_section)"

definition listLine :: "string \<Rightarrow> string list \<Rightarrow> string list" where
  "listLine heading names =
     (if names = [] then []
      else [heading @ showCount (length names) @ zh_people @ zh_colon @ joinNames names])"

definition formatAttendanceText ::
    "int \<Rightarrow> AttendanceDetailResponse \<Rightarrow> string \<Rightarrow> period list \<Rightarrow> AttendanceTextResponse" where
  "formatAttendanceText tz detail mode periods =
     (let date = case_option 0 id (parseDate tz (Resp_Date detail));
          weekdayStr = getWeekdayName (weekdayMon1Sun7 tz date);
          label = periodLabel detail mode periods;
          title =
            (if mode = ''holiday''
             then zh_calendar @ Resp_Date detail @ '' '' @ weekdayStr @ '' '' @ label @ zh_attendance
             else zh_calendar @ Resp_Date detail @ '' '' @ weekdayStr @ '' '' @ zh_ordinal
                    @ showInt (Resp_Week detail) @ zh_week @ label @ zh_attendance);
          st = Resp_Statistics detail; us = Resp_Users detail;
          statistics =
            zh_should @ showCount (St_ShouldAttend st) @ zh_people @ zh_fullwidth_comma
            @ zh_on_time @ showCount (St_OnTime st) @ zh_people @ zh_fullwidth_comma
            @ zh_on_leave @ showCount (St_Leave st) @ zh_people
            @ (if Resp_ViewMode detail = []
               then zh_fullwidth_comma @ zh_not_arrived @ showCount (St_NotArrived st) @ zh_people
               else zh_fullwidth_comma @ zh_late @ showCount (St_Late st) @ zh_people
                    @ zh_fullwidth_comma @ notArrivedLabel detail @ showCount (St_NotArrived st) @ zh_people)
            @ (if 0 < St_RestDay st
               then zh_fullwidth_comma @ zh_rest @ showCount (St_RestDay st) @ zh_people else []);
          content =
            listLine zh_on_time_line (map C_Name (Us_OnTime us))
            @ listLine zh_leave_line (map L_Name (Us_Leave us))
            @ listLine zh_rest_line (map B_Name (Us_RestDay us))
            @ listLine zh_late_line (map C_Name (Us_Late us))
            @ listLine (if Resp_ViewMode detail \<noteq> [] then zh_hourglass @ notArrivedLabel detail @ ''(''
                        else zh_absent_late_line) (map B_Name (Us_NotArrived us))
      in \<lparr>Text_Title = title, Text_Statistics = statistics, Text_Content = content,
          Text_FullText = fold (\<lambda>line text. text @ [CHR 0x0A] @ line) content
            (title @ [CHR 0x0A] @ statistics)\<rparr>)"

definition getAttendanceText ::
    "attendance_service \<Rightarrow> goctx \<Rightarrow> AttendanceDetailRequest \<Rightarrow> instant \<Rightarrow> database
       \<Rightarrow> goerror + AttendanceTextResponse" where
  "getAttendanceText s ctx req now db =
     bindR (getAttendanceDetail s ctx req now db)
       (\<lambda>detail.
          if Srv_schedulePeriodSrv s = None then Inl (RuntimePanic ''nil pointer'')
          else Inr (formatAttendanceText (DB_Tz db) detail (getCurrentMode ctx db)
                      (resolveActivePeriods s ctx db)))"

definition formatAttendanceTextFromDetail ::
    "attendance_service \<Rightarrow> goctx \<Rightarrow> AttendanceDetailResponse \<Rightarrow> int list \<Rightarrow> database
       \<Rightarrow> goerror + AttendanceTextResponse" where
  "formatAttendanceTextFromDetail s ctx result deptIDs db =
     bindR (if deptIDs \<noteq> []
            then bindR (wrapR zh_dept_users_failed (user_ListByScope ctx deptIDs [] db))
                   (\<lambda>deptUsers. Inr (filterDetailByDeptSet (user_ids deptUsers) result))
            else Inr result)
       (\<lambda>detail.
          if Srv_schedulePeriodSrv s = None then Inl (RuntimePanic ''nil pointer'')
          else Inr (formatAttendanceText (DB_Tz db) detail (getCurrentMode ctx db)
                      (resolveActivePeriods s ctx db)))"

section \<open>The weekly ranking\<close>

record AttendanceRankingItem =
  Rank_UserID :: nat
  Rank_Name :: string
  Rank_Avatar :: string
  Rank_LateCount :: nat

definition weekStartOf :: "int \<Rightarrow> instant \<Rightarrow> int \<Rightarrow> instant" where
  "weekStartOf tz now weekOffset =
     (let offset0 = 1 - weekday tz now;
          offset = (if offset0 > 0 then - 6 else offset0)
      in addDays (midnight tz now) (offset - weekOffset * 7))"

text \<open>The late users a record contributes; a record that cannot be decoded contributes none.\<close>

definition lateOfRecord :: "attendance_record \<Rightarrow> nat list" where
  "lateOfRecord r =
     (if AR_LateIDs r = [] \<or> AR_LateIDs r = ''[]'' then []
      else case unmarshalChecks (AR_LateIDs r) of
             (_, True) \<Rightarrow> []
           | (cs, False) \<Rightarrow> map SC_ID cs)"

definition bump :: "nat \<Rightarrow> (nat \<Rightarrow> nat) \<Rightarrow> nat \<Rightarrow> nat" where
  "bump uid counts = counts(uid := Suc (counts uid))"

definition lateCounts :: "attendance_record list \<Rightarrow> nat \<Rightarrow> nat" where
  "lateCounts records = fold bump (concat (map lateOfRecord records)) (\<lambda>_. 0)"

definition lateUserIDs :: "attendance_record list \<Rightarrow> nat list" where
  "lateUserIDs records = dedup_from id {} (concat (map lateOfRecord records))"

definition getWeeklyRanking ::
    "attendance_service \<Rightarrow> goctx
       \<Rightarrow> ((AttendanceRankingItem \<Rightarrow> AttendanceRankingItem \<Rightarrow> bool)
             \<Rightarrow> AttendanceRankingItem list \<Rightarrow> AttendanceRankingItem list)
       \<Rightarrow> instant \<Rightarrow> int \<Rightarrow> int list \<Rightarrow> database \<Rightarrow> goerror + AttendanceRankingItem list" where
  "getWeeklyRanking s ctx sortSlice now weekOffset deptIDs db =
     (let weekStart = weekStartOf (DB_Tz db) now weekOffset; weekEnd = addDays weekStart 6
      in bindR (wrapR zh_records_failed (ar_ListByDateRange ctx weekStart weekEnd db))
        (\<lambda>records.
           let ids = Srv_rangeIDs s (lateUserIDs records)
           in if lateUserIDs records = [] then Inr []
              else bindR (if deptIDs \<noteq> []
                          then wrapR zh_dept_users_failed (user_ListByScope ctx deptIDs ids db)
                          else wrapR zh_users_failed (user_ListByIDs ctx ids db))
                (\<lambda>users.
                   Inr (sortSlice (\<lambda>a b. Rank_LateCount a > Rank_LateCount b)
                     (map (\<lambda>u. \<lparr>Rank_UserID = U_ID u, Rank_Name = U_Name u, Rank_Avatar = U_Avatar u,
                                Rank_LateCount = lateCounts records (U_ID u)\<rparr>) users)))))"

section \<open>The counts of the weekly rate\<close>

definition onTimeOfRecord :: "attendance_record \<Rightarrow> nat list" where
  "onTimeOfRecord r = map SC_ID (storedOr unmarshalChecks (AR_OnTimeIDs r))"

definition expectedOfRecord :: "attendance_record \<Rightarrow> nat list" where
  "expectedOfRecord r =
     onTimeOfRecord r @ storedOr unmarshalIDs (AR_NotArrivedIDs r)
     @ map SC_ID (storedOr unmarshalChecks (AR_LateIDs r))
     @ map SL_ID (storedOr unmarshalLeaves (AR_LeaveIDs r))"

definition totalSlots :: "attendance_record list \<Rightarrow> nat \<Rightarrow> nat" where
  "totalSlots records = fold bump (concat (map expectedOfRecord records)) (\<lambda>_. 0)"

definition onTimeSlots :: "attendance_record list \<Rightarrow> nat \<Rightarrow> nat" where
  "onTimeSlots records = fold bump (concat (map onTimeOfRecord records)) (\<lambda>_. 0)"

record AttendanceRateRankingItem =
  Rate_UserID :: nat
  Rate_Name :: string
  Rate_Avatar :: string
  Rate_OnTimeCount :: nat
  Rate_TotalCount :: nat
  Rate_Rate :: string

record 'f rateEntry =
  Entry_userID :: nat
  Entry_onTime :: nat
  Entry_total :: nat
  Entry_rate :: 'f

text \<open>The floating-point quotient \<open>rateOf\<close> and its formatting \<open>showRate\<close> are parameters.\<close>

definition rateItem ::
    "('f \<Rightarrow> string) \<Rightarrow> (nat \<rightharpoonup> user) \<Rightarrow> 'f rateEntry \<Rightarrow> AttendanceRateRankingItem option" where
  "rateItem showRate userMap e =
     map_option (\<lambda>u. \<lparr>Rate_UserID = U_ID u, Rate_Name = U_Name u, Rate_Avatar = U_Avatar u,
         Rate_OnTimeCount = Entry_onTime e, Rate_TotalCount = Entry_total e,
         Rate_Rate = showRate (Entry_rate e)\<rparr>) (userMap (Entry_userID e))"

definition rateEntries ::
    "(nat \<Rightarrow> nat \<Rightarrow> 'f) \<Rightarrow> (nat list \<Rightarrow> nat list) \<Rightarrow> attendance_record list \<Rightarrow> 'f rateEntry list" where
  "rateEntries rateOf rangeIDs records =
     map (\<lambda>uid. \<lparr>Entry_userID = uid, Entry_onTime = onTimeSlots records uid,
                 Entry_total = totalSlots records uid,
                 Entry_rate = rateOf (onTimeSlots records uid) (totalSlots records uid)\<rparr>)
       (rangeIDs (dedup_from id {} (concat (map expectedOfRecord records))))"

definition getWeeklyAttendanceRateRanking ::
    "attendance_service \<Rightarrow> goctx
       \<Rightarrow> (('f::linorder rateEntry \<Rightarrow> 'f rateEntry \<Rightarrow> bool) \<Rightarrow> 'f rateEntry list \<Rightarrow> 'f rateEntry list)
       \<Rightarrow> (nat \<Rightarrow> nat \<Rightarrow> 'f) \<Rightarrow> ('f \<Rightarrow> string) \<Rightarrow> instant \<Rightarrow> int \<Rightarrow> database
       \<Rightarrow> goerror + AttendanceRateRankingItem list" where
  "getWeeklyAttendanceRateRanking s ctx sortSlice rateOf showRate now weekOffset db =
     (let weekStart = weekStartOf (DB_Tz db) now weekOffset; weekEnd = addDays weekStart 6
      in bindR (wrapR zh_records_failed (ar_ListByDateRange ctx weekStart weekEnd db))
        (\<lambda>records.
           let entries = rateEntries rateOf (Srv_rangeIDs s) records
           in if concat (map expectedOfRecord records) = [] then Inr []
              else let top = take 10 (sortSlice (\<lambda>a b. Entry_rate a > Entry_rate b) entries)
                   in bindR (wrapR zh_users_failed (user_ListByIDs ctx (map Entry_userID top) db))
                     (\<lambda>users. Inr (List.map_filter (rateItem showRate (last_by U_ID users)) top))))"

section \<open>Facts about the reports\<close>

lemma intDigits_nat_digits: "0 < n \<Longrightarrow> intDigits n ds = nat_digits (nat n) @ ds"
proof (induction n ds rule: intDigits.induct)
  case (1 n ds)
  have d: "char_of (nat (48 + n mod 10)) = digit_char (nat n mod 10)"
    using 1 by (simp add: digit_char_def nat_add_distrib nat_mod_distrib)
  have q: "nat n div 10 = nat (n div 10)" using 1 by (simp add: nat_div_distrib)
  show ?case
  proof (cases "n < 10")
    case True
    with 1 have "n div 10 = 0" by simp
    with 1 True d show ?thesis
      by (simp add: intDigits.simps [of n] intDigits.simps [of 0] nat_digits.simps [of "nat n"])
  next
    case False
    with 1 have "0 < n div 10" by (simp add: pos_imp_zdiv_pos_iff)
    with 1 False d q show ?thesis
      by (simp add: intDigits.simps [of n] nat_digits.simps [of "nat n"])
  qed
qed

lemma intToString_itoa: "minInt64 < n \<Longrightarrow> intToString n = Some (itoa n)"
proof -
  have "itoa 0 = ''0''" by code_simp
  then show "minInt64 < n \<Longrightarrow> intToString n = Some (itoa n)"
    by (cases "n = 0") (simp_all add: intToString_def itoa_def intDigits_nat_digits)
qed



lemma bump_fold: "fold bump xs f u = f u + count_list xs u"
  by (induction xs arbitrary: f) (auto simp: bump_def)

lemma count_list_pos: "0 < count_list xs x \<longleftrightarrow> x \<in> set xs"
  by (induction xs) auto

lemma lateCounts_count: "lateCounts records u = count_list (concat (map lateOfRecord records)) u"
  and totalSlots_count: "totalSlots records u = count_list (concat (map expectedOfRecord records)) u"
  and onTimeSlots_count: "onTimeSlots records u = count_list (concat (map onTimeOfRecord records)) u"
  by (simp_all add: lateCounts_def totalSlots_def onTimeSlots_def bump_fold)

lemma dept_partition:
  assumes "active = S \<union> R \<union> C \<and> S \<inter> R = {} \<and> S \<inter> C = {} \<and> R \<inter> C = {}
         \<and> S = T \<union> L \<union> V \<union> N \<and> V \<inter> (T \<union> L \<union> N) = {} \<and> N \<inter> (T \<union> L) = {}"
  shows "active \<inter> D \<union> C = (S \<inter> D) \<union> (R \<inter> D) \<union> C \<and> (S \<inter> D) \<inter> (R \<inter> D) = {}
     \<and> (S \<inter> D) \<inter> C = {} \<and> (R \<inter> D) \<inter> C = {}
     \<and> S \<inter> D = (T \<inter> D) \<union> (L \<inter> D) \<union> (V \<inter> D) \<union> (N \<inter> D)
     \<and> (V \<inter> D) \<inter> ((T \<inter> D) \<union> (L \<inter> D) \<union> (N \<inter> D)) = {} \<and> (N \<inter> D) \<inter> ((T \<inter> D) \<union> (L \<inter> D)) = {}"
  using assms by blast

lemma ids_filter: "key ` set (filter (\<lambda>x. key x \<in> D) xs) = key ` set xs \<inter> D"
  by auto

text \<open>Restricting a response to the users of a department restricts the partition to them,
  except for the users in class, who are all kept; the statistics stay the lengths of the lists.\<close>

theorem dept_filter_keeps_partition:
  assumes "slot_partition active (Resp_Users resp)" and "list_all distinct (id_lists (Resp_Users resp))"
    and "resp' = filterDetailByDeptSet D resp"
  shows "slot_partition (active \<inter> D \<union> basic_ids (Us_HasCourse (Resp_Users resp))) (Resp_Users resp')
    \<and> list_all distinct (id_lists (Resp_Users resp'))
    \<and> Us_HasCourse (Resp_Users resp') = Us_HasCourse (Resp_Users resp)
    \<and> Resp_Statistics resp' = statistics_of (Resp_Users resp')"
proof -
  have us: "Resp_Users resp' = (let us = Resp_Users resp in
     \<lparr>Us_ShouldAttend = filter (\<lambda>u. B_ID u \<in> D) (Us_ShouldAttend us),
      Us_OnTime = filter (\<lambda>u. C_ID u \<in> D) (Us_OnTime us), Us_Late = filter (\<lambda>u. C_ID u \<in> D) (Us_Late us),
      Us_Leave = filter (\<lambda>u. L_ID u \<in> D) (Us_Leave us),
      Us_NotArrived = filter (\<lambda>u. B_ID u \<in> D) (Us_NotArrived us),
      Us_RestDay = filter (\<lambda>u. B_ID u \<in> D) (Us_RestDay us), Us_HasCourse = Us_HasCourse us\<rparr>)"
    by (simp add: assms(3) filterDetailByDeptSet_def Let_def)
  have "slot_partition (active \<inter> D \<union> basic_ids (Us_HasCourse (Resp_Users resp))) (Resp_Users resp')"
    unfolding us slot_partition_def Let_def AttendanceUserLists.select_convs ids_filter
    by (rule dept_partition [OF assms(1) [unfolded slot_partition_def Let_def]])
  moreover have "list_all distinct (id_lists (Resp_Users resp'))"
    using assms(2) by (simp add: us Let_def id_lists_def distinct_map_filter)
  moreover have "Resp_Statistics resp' = statistics_of (Resp_Users resp')"
    by (simp add: assms(3) filterDetailByDeptSet_def Let_def statistics_of_def)
  ultimately show ?thesis by (simp add: us Let_def)
qed

theorem dept_filter_keeps_partition_witness:
  "\<exists>active resp. slot_partition active (Resp_Users resp)
    \<and> slot_partition (active \<inter> {} \<union> basic_ids (Us_HasCourse (Resp_Users resp)))
        (Resp_Users (filterDetailByDeptSet {} resp))
    \<and> Us_OnTime (Resp_Users resp) \<noteq> []"
proof -
  have "Us_OnTime (Resp_Users (fst exBuilt)) \<noteq> []" by code_simp
  moreover have perm: "permutes_lists (Srv_rangeChecks exService)" by (simp add: exService_def)
  obtain active where
    "slot_partition (user_ids active) (Resp_Users (fst exBuilt))"
    "list_all distinct (id_lists (Resp_Users (fst exBuilt)))"
    using buildAttendanceDetail_sets [OF exBuilt exDB_wf perm] by metis
  ultimately show ?thesis using dept_filter_keeps_partition [OF _ _ refl, of _ "fst exBuilt" "{}"] by blast
qed

lemma lateUserIDs_set: "set (lateUserIDs records) = set (concat (map lateOfRecord records))"
  using keys_dedup_from [of id "{}" "concat (map lateOfRecord records)"] by (simp add: lateUserIDs_def)

lemma selectRows_scoped:
  assumes "Ctx_TenantID ctx = Some t" and "\<not> Ctx_SkipTenantScope ctx"
    and "selectRows op ctx db tenantOf P rows = Inr rs"
  shows "rs = filter (\<lambda>r. tenantOf r = t \<and> P r) rows"
  using assms
  by (auto simp: selectRows_def bindR_eq_Inr_iff statement_def tenantScope_def tenantIDFrom_def
      inScope_def split: if_splits)

lemma user_ListByIDs_scoped:
  assumes "Ctx_TenantID ctx = Some t" and "\<not> Ctx_SkipTenantScope ctx"
    and "user_ListByIDs ctx ids db = Inr us" and "ids \<noteq> []"
  shows "us = filter (\<lambda>u. U_TenantID u = t \<and> U_ID u \<in> set ids \<and> \<not> U_Deleted u) (DB_Users db)"
proof -
  have "selectRows ''user.ListByIDs'' ctx db U_TenantID (user_row (\<lambda>u. U_ID u \<in> set ids)) (DB_Users db)
      = Inr us" using assms(3,4) by (simp add: user_ListByIDs_def)
  from selectRows_scoped [OF assms(1,2) this] show ?thesis by (simp add: user_row_def)
qed

lemma user_ListByScope_scoped:
  assumes "user_ListByScope ctx deptIDs ids db = Inr us" and "ids \<noteq> []" and "db_wf db"
  shows "distinct (map U_ID us)" and "user_ids us \<subseteq> set ids"
proof -
  obtain P vs where us: "us = sort_key U_ID vs"
    and vs: "selectRows ''user.ListByScope'' ctx db U_TenantID P (DB_Users db) = Inr vs"
    and P: "\<forall>u. P u \<longrightarrow> U_ID u \<in> set ids"
  proof -
    have "\<exists>P. (\<forall>u. P u \<longrightarrow> U_ID u \<in> set ids) \<and> user_ListByScope ctx deptIDs ids db
        = orderR U_ID (selectRows ''user.ListByScope'' ctx db U_TenantID P (DB_Users db))"
      using assms(2) unfolding user_ListByScope_def Let_def
      by (intro exI conjI) (auto simp: user_row_def)
    then obtain P where P: "\<forall>u. P u \<longrightarrow> U_ID u \<in> set ids"
      and "orderR U_ID (selectRows ''user.ListByScope'' ctx db U_TenantID P (DB_Users db)) = Inr us"
      using assms(1) by metis
    with that show thesis unfolding orderR_eq_Inr_iff by blast
  qed
  have "distinct (map U_ID vs)" by (rule selectRows_distinct [OF vs]) (use assms(3) in \<open>simp add: db_wf_def\<close>)
  then show "distinct (map U_ID us)" by (simp add: us distinct_map)
  show "user_ids us \<subseteq> set ids" using selectRows_InrD [OF vs] P by (auto simp: us)
qed


definition exLateRecord :: attendance_record where
  "exLateRecord = exRecord\<lparr>AR_LateIDs := ''[{\"id\":1,\"check_time\":1740963600}]''\<rparr>"

definition exLateDB :: database where
  "exLateDB = exDB\<lparr>DB_AttendanceRecords := [exLateRecord]\<rparr>"

definition sortByCount ::
    "(AttendanceRankingItem \<Rightarrow> AttendanceRankingItem \<Rightarrow> bool) \<Rightarrow> AttendanceRankingItem list
       \<Rightarrow> AttendanceRankingItem list" where
  "sortByCount lt items = sort_key (\<lambda>i. - int (Rank_LateCount i)) items"

lemma sortByCount_sorts: "sorts (sortByCount lt) (\<lambda>a b. Rank_LateCount a > Rank_LateCount b)"
proof -
  have "sorted_wrt (\<lambda>a b. \<not> Rank_LateCount b > Rank_LateCount a) (sortByCount lt xs)" for xs
    using sorted_sort_key [of "\<lambda>i. - int (Rank_LateCount i)" xs]
    by (simp add: sortByCount_def sorted_map not_less)
  then show ?thesis by (simp add: sorts_def sortByCount_def)
qed


lemma sorted_wrt_map_filter:
  assumes "sorted_wrt P xs" and "\<And>x y a b. P x y \<Longrightarrow> f x = Some a \<Longrightarrow> f y = Some b \<Longrightarrow> Q a b"
  shows "sorted_wrt Q (List.map_filter f xs)"
  using assms(1)
proof (induction xs)
  case Nil
  then show ?case by (simp add: List.map_filter_def)
next
  case (Cons x xs)
  then have "sorted_wrt Q (List.map_filter f xs)" by simp
  moreover have "\<forall>b \<in> set (List.map_filter f xs). Q a b" if "f x = Some a" for a
    using Cons.prems that assms(2) by (fastforce simp: set_map_filter)
  ultimately show ?case by (simp add: map_filter_Cons split: option.split)
qed

lemma length_map_filter_le: "length (List.map_filter f xs) \<le> length xs"
  by (simp add: List.map_filter_def)

lemma onTimeSlots_le_totalSlots: "onTimeSlots records u \<le> totalSlots records u"
  unfolding totalSlots_count onTimeSlots_count
  by (induction records) (auto simp: expectedOfRecord_def)

text \<open>C21: The weekly rate ranking has at most ten entries, in descending order of the rate; each is a
  user who was expected at least once, was on time at most as often as expected, and carries the
  rate computed from these two counts.\<close>

theorem rate_ranking_bounds:
  fixes rateOf :: "nat \<Rightarrow> nat \<Rightarrow> 'f::linorder"
  assumes "getWeeklyAttendanceRateRanking s ctx sortSlice rateOf showRate now weekOffset db = Inr items"
    and "sorts (sortSlice (\<lambda>a b. Entry_rate a > Entry_rate b)) (\<lambda>a b. Entry_rate a > Entry_rate b)"
    and "permutes_lists (Srv_rangeIDs s)"
  shows "length items \<le> 10
    \<and> sorted_wrt (\<lambda>a b. rateOf (Rate_OnTimeCount a) (Rate_TotalCount a)
          \<ge> rateOf (Rate_OnTimeCount b) (Rate_TotalCount b)) items
    \<and> (\<forall>i \<in> set items. Rate_OnTimeCount i \<le> Rate_TotalCount i \<and> 0 < Rate_TotalCount i
          \<and> Rate_Rate i = showRate (rateOf (Rate_OnTimeCount i) (Rate_TotalCount i)))"
proof -
  let ?start = "weekStartOf (DB_Tz db) now weekOffset"
  from assms(1) obtain records where
    rec: "ar_ListByDateRange ctx ?start (addDays ?start 6) db = Inr records"
    by (auto simp: getWeeklyAttendanceRateRanking_def Let_def bindR_eq_Inr_iff)
  let ?sorted = "sortSlice (\<lambda>a b. Entry_rate a > Entry_rate b) (rateEntries rateOf (Srv_rangeIDs s) records)"
  show ?thesis
  proof (cases "concat (map expectedOfRecord records) = []")
    case True
    with assms(1) rec have "items = []"
      by (auto simp: getWeeklyAttendanceRateRanking_def Let_def)
    then show ?thesis by simp
  next
    case False
    with assms(1) rec obtain userMap where
      items: "items = List.map_filter (rateItem showRate userMap) (take 10 ?sorted)"
      by (auto simp: getWeeklyAttendanceRateRanking_def Let_def bindR_eq_Inr_iff split: if_splits)
    define entry_ok where "entry_ok e \<longleftrightarrow> Entry_onTime e \<le> Entry_total e \<and> 0 < Entry_total e
       \<and> Entry_rate e = rateOf (Entry_onTime e) (Entry_total e)" for e :: "'f rateEntry"
    have "set ?sorted = set (rateEntries rateOf (Srv_rangeIDs s) records)"
      using assms(2) by (metis sorts_def set_mset_mset)
    also have "\<dots> = (\<lambda>uid. \<lparr>Entry_userID = uid, Entry_onTime = onTimeSlots records uid,
                 Entry_total = totalSlots records uid,
                 Entry_rate = rateOf (onTimeSlots records uid) (totalSlots records uid)\<rparr>)
         ` set (concat (map expectedOfRecord records))"
      using permutes_lists_set [OF assms(3)]
        keys_dedup_from [of id "{}" "concat (map expectedOfRecord records)"]
      by (simp add: rateEntries_def)
    finally have ok: "\<forall>e \<in> set ?sorted. entry_ok e"
      using onTimeSlots_le_totalSlots count_list_pos [of "concat (map expectedOfRecord records)"]
      by (auto simp: entry_ok_def simp flip: totalSlots_count simp del: set_concat)
    then have ok10: "\<forall>e \<in> set (take 10 ?sorted). entry_ok e" by (meson in_set_takeD)
    have item: "rateItem showRate userMap e = Some i \<Longrightarrow> Rate_OnTimeCount i = Entry_onTime e
        \<and> Rate_TotalCount i = Entry_total e \<and> Rate_Rate i = showRate (Entry_rate e)" for e i
      by (auto simp: rateItem_def)
    have "sorted_wrt (\<lambda>a b. Entry_rate a \<ge> Entry_rate b) ?sorted"
      using assms(2) by (simp add: sorts_def not_less)
    then have "sorted_wrt (\<lambda>a b. Entry_rate a \<ge> Entry_rate b \<and> entry_ok a \<and> entry_ok b) (take 10 ?sorted)"
      using ok10 by (auto intro: sorted_wrt_take sorted_wrt_mono_rel)
    then have "sorted_wrt (\<lambda>a b. rateOf (Rate_OnTimeCount a) (Rate_TotalCount a)
          \<ge> rateOf (Rate_OnTimeCount b) (Rate_TotalCount b)) items"
      unfolding items by (rule sorted_wrt_map_filter) (auto dest!: item simp: entry_ok_def)
    moreover have "length items \<le> 10"
      using length_map_filter_le [of "rateItem showRate userMap" "take 10 ?sorted"] by (simp add: items)
    moreover have "\<forall>i \<in> set items. Rate_OnTimeCount i \<le> Rate_TotalCount i \<and> 0 < Rate_TotalCount i
          \<and> Rate_Rate i = showRate (rateOf (Rate_OnTimeCount i) (Rate_TotalCount i))"
    proof
      fix i assume "i \<in> set items"
      then obtain e where "e \<in> set (take 10 ?sorted)" "rateItem showRate userMap e = Some i"
        by (auto simp: items set_map_filter)
      with ok10 item [of e i] show "Rate_OnTimeCount i \<le> Rate_TotalCount i \<and> 0 < Rate_TotalCount i
          \<and> Rate_Rate i = showRate (rateOf (Rate_OnTimeCount i) (Rate_TotalCount i))"
        unfolding entry_ok_def by metis
    qed
    ultimately show ?thesis by simp
  qed
qed

text \<open>An instance over the natural numbers: the rate in percent, rounded down.\<close>

definition sortByRate :: "(nat rateEntry \<Rightarrow> nat rateEntry \<Rightarrow> bool) \<Rightarrow> nat rateEntry list \<Rightarrow> nat rateEntry list" where
  "sortByRate lt es = sort_key (\<lambda>e. - int (Entry_rate e)) es"

theorem rate_ranking_bounds_witness:
  "\<exists>items. getWeeklyAttendanceRateRanking exService tenantCtx sortByRate (\<lambda>a b. 100 * a div b)
        (\<lambda>n. itoa (int n)) exDay 0 exLateDB = Inr items
    \<and> map Rate_UserID items = [1] \<and> length items \<le> 10
    \<and> (\<forall>i \<in> set items. Rate_OnTimeCount i \<le> Rate_TotalCount i \<and> 0 < Rate_TotalCount i)"
proof -
  let ?r = "getWeeklyAttendanceRateRanking exService tenantCtx sortByRate (\<lambda>a b. 100 * a div b)
        (\<lambda>n. itoa (int n)) exDay 0 exLateDB"
  have "case ?r of Inr items \<Rightarrow> map Rate_UserID items = [1] | Inl _ \<Rightarrow> False" by code_simp
  then obtain items where r: "?r = Inr items" and i: "map Rate_UserID items = [1]"
    by (auto split: sum.splits)
  have "sorts (sortByRate lt) (\<lambda>a b. Entry_rate a > Entry_rate b)" for lt
  proof -
    have "sorted_wrt (\<lambda>a b. \<not> Entry_rate b > Entry_rate a) (sortByRate lt xs)" for xs
      using sorted_sort_key [of "\<lambda>e. - int (Entry_rate e)" xs]
      by (simp add: sortByRate_def sorted_map not_less)
    then show ?thesis by (simp add: sorts_def sortByRate_def)
  qed
  from rate_ranking_bounds [OF r this] r i show ?thesis by (simp add: exService_def)
qed

section \<open>Facts about the text\<close>

lemma joinNamesFrom_member: "n \<in> set names \<Longrightarrow> \<exists>p q. joinNamesFrom i names = p @ n @ q"
proof (induction names arbitrary: i)
  case (Cons m names)
  show ?case
  proof (cases "n = m")
    case True
    then have "joinNamesFrom i (m # names) = (if 0 < i then zh_comma else []) @ n @ joinNamesFrom (Suc i) names"
      by simp
    then show ?thesis by blast
  next
    case False
    with Cons.prems Cons.IH [of "Suc i"] obtain p q where
      "joinNamesFrom (Suc i) names = p @ n @ q" by auto
    then have "joinNamesFrom i (m # names) = ((if 0 < i then zh_comma else []) @ m @ p) @ n @ q" by simp
    then show ?thesis by blast
  qed
qed simp

lemma listLine_member: "n \<in> set names \<Longrightarrow> \<exists>p q. p @ n @ q \<in> set (listLine heading names)"
proof -
  assume n: "n \<in> set names"
  then have "joinNames names = joinNamesFrom 0 names" by (auto simp: joinNames_def)
  then obtain p q where "joinNames names = p @ n @ q"
    using joinNamesFrom_member [OF n, of 0] by auto
  with n have "(heading @ showCount (length names) @ zh_people @ zh_colon @ p) @ n @ q
      \<in> set (listLine heading names)" by (auto simp: listLine_def)
  then show ?thesis by blast
qed

lemma fold_lines: "fold (\<lambda>line text. text @ c # line) ls t = t @ concat (map (\<lambda>l. c # l) ls)"
  by (induction ls arbitrary: t) simp_all

text \<open>The text of a slot is its title, its statistics and its content, one per line, and the
  content names every user who is on time, late, on leave, resting or not arrived.\<close>

theorem text_mentions_everyone:
  assumes "text = formatAttendanceText tz detail mode periods"
  shows "Text_FullText text = Text_Title text @ [CHR 0x0A] @ Text_Statistics text
            @ concat (map (\<lambda>l. CHR 0x0A # l) (Text_Content text))
    \<and> (\<forall>n \<in> C_Name ` set (Us_OnTime (Resp_Users detail) @ Us_Late (Resp_Users detail))
          \<union> L_Name ` set (Us_Leave (Resp_Users detail))
          \<union> B_Name ` set (Us_RestDay (Resp_Users detail) @ Us_NotArrived (Resp_Users detail)).
         \<exists>p q. p @ n @ q \<in> set (Text_Content text))"
proof -
  have c: "\<exists>h. Text_Content text =
      listLine zh_on_time_line (map C_Name (Us_OnTime (Resp_Users detail)))
      @ listLine zh_leave_line (map L_Name (Us_Leave (Resp_Users detail)))
      @ listLine zh_rest_line (map B_Name (Us_RestDay (Resp_Users detail)))
      @ listLine zh_late_line (map C_Name (Us_Late (Resp_Users detail)))
      @ listLine h (map B_Name (Us_NotArrived (Resp_Users detail)))"
    unfolding assms formatAttendanceText_def Let_def by simp blast
  have f: "Text_FullText text = Text_Title text @ [CHR 0x0A] @ Text_Statistics text
            @ concat (map (\<lambda>l. CHR 0x0A # l) (Text_Content text))"
    unfolding assms formatAttendanceText_def Let_def by (simp add: fold_lines)
  moreover have "\<exists>p q. p @ n @ q \<in> set (Text_Content text)"
    if "n \<in> C_Name ` set (Us_OnTime (Resp_Users detail) @ Us_Late (Resp_Users detail))
          \<union> L_Name ` set (Us_Leave (Resp_Users detail))
          \<union> B_Name ` set (Us_RestDay (Resp_Users detail) @ Us_NotArrived (Resp_Users detail))" for n
  proof -
    obtain h where h: "Text_Content text =
      listLine zh_on_time_line (map C_Name (Us_OnTime (Resp_Users detail)))
      @ listLine zh_leave_line (map L_Name (Us_Leave (Resp_Users detail)))
      @ listLine zh_rest_line (map B_Name (Us_RestDay (Resp_Users detail)))
      @ listLine zh_late_line (map C_Name (Us_Late (Resp_Users detail)))
      @ listLine h (map B_Name (Us_NotArrived (Resp_Users detail)))" using c by blast
    have "n \<in> set (map C_Name (Us_OnTime (Resp_Users detail)))
      \<or> n \<in> set (map L_Name (Us_Leave (Resp_Users detail)))
      \<or> n \<in> set (map B_Name (Us_RestDay (Resp_Users detail)))
      \<or> n \<in> set (map C_Name (Us_Late (Resp_Users detail)))
      \<or> n \<in> set (map B_Name (Us_NotArrived (Resp_Users detail)))"
      using that by (simp add: image_Un) blast
    moreover have in_line: "\<exists>p q. p @ n @ q \<in> set (Text_Content text)"
      if "n \<in> set ns" and "set (listLine hd' ns) \<subseteq> set (Text_Content text)" for hd' ns
      using listLine_member [OF that(1), of hd'] that(2) by blast
    ultimately show ?thesis
      using in_line [of _ zh_on_time_line] in_line [of _ zh_leave_line] in_line [of _ zh_rest_line]
        in_line [of _ zh_late_line] in_line [of _ h]
      by (elim disjE) (force simp: h)+
  qed
  ultimately show ?thesis by blast
qed

theorem text_mentions_everyone_witness:
  "\<exists>p q. p @ ''Li'' @ q \<in> set (Text_Content (formatAttendanceText 28800 (fst exBuilt) ''school'' exPeriods))"
proof -
  have "''Li'' \<in> C_Name ` set (Us_OnTime (Resp_Users (fst exBuilt)) @ Us_Late (Resp_Users (fst exBuilt)))"
    by code_simp
  with text_mentions_everyone [OF refl, of 28800 "fst exBuilt" "''school''" exPeriods] show ?thesis by blast
qed

end
