(* ===== verification/AgentProtocol.thy ===== *)
theory AgentProtocol
  imports Complex_Main GoTime
begin

text \<open>
  The vocabulary of the chat agent (src/internal/agent/protocol\_contract.go,
  workflow\_contract.go, operation\_request\_context.go): acts, domains, response kinds, the
  draft a classifier returns, trusted parameters, and the accessors that read a parameter with
  the type its field demands.

  \<^item> A Go string type with named constants is a datatype with one constructor per constant and
    an \<open>Other\<close> constructor for the strings a classifier may invent; workflow types and
    operation names are compared with each other as strings and stay \<^typ>\<open>string\<close>.
  \<^item> A Go \<open>map[string]T\<close> that the code copies, counts and ranges over is an association list;
    its order is the order the iteration happens to take.
  \<^item> \<open>any\<close> is the datatype \<open>goAny\<close> of the dynamic types the source switches on.
  \<^item> A \<open>float64\<close> confidence is a rational (the only operations on it are comparisons).
\<close>

section \<open>Enumerations\<close>

datatype userAct =
    ActCapabilityQuestion | ActRuleQuestion | ActReadQuery | ActWriteRequest
  | ActWorkflowContinue | ActWorkflowCancel | ActHelp | ActUnknown | OtherAct string

datatype businessDomain =
    DomainSystem | DomainAttendance | DomainSubscription | DomainManualSign | DomainSchedule
  | DomainLeave | DomainAnalytics | DomainUnknown | DomainUnset | OtherDomain string

datatype responseKind =
    ResponseAnswer | ResponseResult | ResponseClarify | ResponseSelectOptions | ResponseRefuse
  | ResponseConfirm | ResponseUnset

datatype riskLevel = RiskRead | RiskWriteLow | RiskWriteMedium | RiskWriteHigh | RiskUnset

datatype conversationScope =
    ConversationScopeBoth | ConversationScopeDM | ConversationScopeGroup
  | ConversationScopeUnset | OtherScope string

datatype workflowMode =
    WorkflowModeSingleTurn | WorkflowModeMultiTurn | WorkflowModeAuxiliary | WorkflowModeUnset

type_synonym workflowType = string

abbreviation WorkflowSubscriptionStart :: workflowType where
  "WorkflowSubscriptionStart \<equiv> ''subscription.start''"

abbreviation WorkflowSubscriptionCancel :: workflowType where
  "WorkflowSubscriptionCancel \<equiv> ''subscription.cancel''"

abbreviation WorkflowManualSignCreate :: workflowType where
  "WorkflowManualSignCreate \<equiv> ''manual_sign.create''"

datatype workflowState =
    WorkflowCollectScope | WorkflowCollectDepartments | WorkflowCollectUser
  | WorkflowCollectDate | WorkflowCollectSection | WorkflowReady | WorkflowCompleted
  | WorkflowCancelled | WorkflowInterruptedState | OtherState string

datatype workflowDecision =
    WorkflowContinueDecision | WorkflowReadyToExecute | WorkflowSuspendForNewRequest
  | WorkflowRejectInvalidShape | WorkflowMetaResult | WorkflowCompletedDecision
  | WorkflowCanceled | WorkflowInterrupted | WorkflowStartNew | WorkflowSingleTurn

datatype sourceKind =
    TrustedParamSourceRawSlot | TrustedParamSourceDefault | TrustedParamSourceRuntime
  | TrustedParamSourceWorkflow | TrustedParamSourceCandidate | TrustedParamSourceDerived
  | SourceUnset | OtherSource string

section \<open>Dynamic values and maps\<close>

text \<open>\<open>GoOther\<close> stands for a value of any other dynamic type (\<open>nil\<close>, \<open>float64\<close>, \<open>map\<close>
  \<open>[]any\<close> and so on), with the text \<open>fmt.Sprint\<close> prints for it.\<close>

datatype goAny =
    GoString string | GoInt int | GoInt64 int | GoUint nat | GoInt64s "int list"
  | GoInts "int list" | GoUint64s "nat list" | GoStrings "string list" | GoBool bool
  | GoOther string

type_synonym 'a goMap = "(string \<times> 'a) list"

definition goMap_ok :: "'a goMap \<Rightarrow> bool" where
  "goMap_ok m \<longleftrightarrow> distinct (map fst m)"

fun mapSet :: "string \<Rightarrow> 'a \<Rightarrow> 'a goMap \<Rightarrow> 'a goMap" where
  "mapSet k v [] = [(k, v)]"
| "mapSet k v ((k', v') # m) = (if k = k' then (k, v) # m else (k', v') # mapSet k v m)"

definition mapDelete :: "string \<Rightarrow> 'a goMap \<Rightarrow> 'a goMap" where
  "mapDelete k m = filter (\<lambda>e. fst e \<noteq> k) m"

lemma map_of_mapSet [simp]: "map_of (mapSet k v m) = (map_of m)(k \<mapsto> v)"
  by (induction m) (auto simp: fun_eq_iff)

lemma keys_mapSet [simp]: "fst ` set (mapSet k v m) = insert k (fst ` set m)"
proof (induction m)
  case (Cons e m)
  then show ?case by (cases e) (simp add: insert_commute)
qed simp

lemma goMap_ok_mapSet [simp]: "goMap_ok m \<Longrightarrow> goMap_ok (mapSet k v m)"
proof (induction m)
  case (Cons e m)
  have "fst ` set (mapSet k v m) = insert k (fst ` set m)" by simp
  with Cons show ?case by (cases e) (auto simp: goMap_ok_def simp del: keys_mapSet)
qed (simp add: goMap_ok_def)

lemma goMap_ok_Nil [simp]: "goMap_ok []"
  by (simp add: goMap_ok_def)

lemma map_of_mapDelete [simp]: "map_of (mapDelete k m) = (map_of m)(k := None)"
  by (induction m) (auto simp: mapDelete_def fun_eq_iff)

lemma goMap_ok_mapDelete [simp]: "goMap_ok m \<Longrightarrow> goMap_ok (mapDelete k m)"
  by (auto simp: mapDelete_def goMap_ok_def distinct_map inj_on_def)

section \<open>Errors\<close>

text \<open>The sentinel errors of the agent, \<open>errors.New\<close> and \<open>fmt.Errorf\<close> with their text (quoted
  arguments unquoted), and wrapping with \<open>%w\<close>. \<open>ErrContext\<close> is a cancelled or expired context,
  \<open>ErrDatabase\<close> a failure of the database itself.\<close>

datatype agentError =
    ErrWorkflowConflict | ErrExecutionInProgress | ErrWorkflowKeyIncomplete
  | ErrAgentWorkflowConflict | ErrAgentWorkflowTenantMismatch | ErrTenantMissing
  | ErrContext string | ErrDatabase string | Errorf string | Wrapped string agentError

text \<open>\<open>errors.Is\<close>.\<close>

fun errorIs :: "agentError \<Rightarrow> agentError \<Rightarrow> bool" where
  "errorIs (Wrapped text e) target = (Wrapped text e = target \<or> errorIs e target)"
| "errorIs e target = (e = target)"

section \<open>Drafts, trusted parameters and requests\<close>

record SlotDraft =
  SD_Field :: string
  SD_Raw :: string

record IntentDraft =
  Act :: userAct
  Domain :: businessDomain
  Operation :: string
  Confidence :: rat
  Slots :: "SlotDraft goMap"
  Reason :: string
  DraftParams :: "goAny goMap"
  DraftMissingFields :: "string list"
  ClarifyReason :: string

type_synonym ProtocolDraft = IntentDraft

record TrustedParamSource =
  SourceKind :: sourceKind
  SourceRaw :: string
  Resolver :: string

record TrustedParam =
  TP_Field :: string
  TP_Value :: goAny
  TP_Source :: TrustedParamSource
  TP_TenantID :: nat

record OperationRequest =
  OR_Operation :: string
  OR_TenantID :: nat
  OR_ActorUserID :: nat
  OR_ConversationID :: string
  OR_TrustedParams :: "TrustedParam goMap"
  OR_IdempotencyKey :: string

record UserContext =
  UC_TenantID :: nat
  UC_UserID :: nat
  UC_UserRole :: int
  UC_DingUserID :: string
  UC_Name :: string
  UC_ConversationType :: string
  UC_ConversationID :: string
  UC_ConversationTitle :: string

record trustedEntities =
  TE_TenantID :: nat
  TE_DepartmentID :: int
  TE_DeptIDs :: "int list"
  TE_UserID :: nat
  TE_UserName :: string
  TE_Date :: string
  TE_Section :: int
  TE_Week :: int
  TE_ConversationID :: string
  TE_Scope :: string
  TE_QueryShape :: string
  TE_UserRole :: int
  TE_TrustedParams :: "TrustedParam goMap"

definition noTrustedEntities :: trustedEntities where
  "noTrustedEntities = \<lparr>TE_TenantID = 0, TE_DepartmentID = 0, TE_DeptIDs = [], TE_UserID = 0,
     TE_UserName = [], TE_Date = [], TE_Section = 0, TE_Week = 0, TE_ConversationID = [],
     TE_Scope = [], TE_QueryShape = [], TE_UserRole = 0, TE_TrustedParams = []\<rparr>"

record Candidate =
  Cand_ID :: string
  Cand_Label :: string
  Cand_Value :: goAny
  Cand_TenantID :: nat

record protocolWorkflowContext =
  PW_Type :: string
  PW_State :: workflowState
  PW_MissingFields :: "string list"
  PW_Candidates :: "Candidate list goMap"
  PW_CollectedLabels :: "string goMap"

record TrustedEntity =
  Ent_ID :: string
  Ent_Type :: string
  Ent_Label :: string
  Ent_Value :: goAny
  Ent_TenantID :: nat

text \<open>The state of a multi-turn workflow; times are instants, the version counts at 64 bits.\<close>

record WorkflowSnapshot =
  WF_ID :: string
  WF_TenantID :: nat
  WF_ActorUserID :: nat
  WF_ConversationID :: string
  WF_Type :: workflowType
  WF_State :: workflowState
  WF_MissingFields :: "string list"
  WF_TrustedEntities :: "TrustedEntity goMap"
  WF_Candidates :: "Candidate list goMap"
  WF_LastUserMessage :: string
  WF_CreatedAt :: instant
  WF_UpdatedAt :: instant
  WF_ExpiresAt :: instant
  WF_Version :: "64 word"
  WF_MissingSlots :: "string list"
  WF_Trusted :: trustedEntities

record WorkflowResult =
  WR_Decision :: workflowDecision
  WR_Workflow :: "WorkflowSnapshot option"

definition trustedParam :: "string \<Rightarrow> goAny \<Rightarrow> nat \<Rightarrow> TrustedParamSource \<Rightarrow> TrustedParam" where
  "trustedParam field value tenantID source =
     \<lparr>TP_Field = field, TP_Value = value, TP_Source = source, TP_TenantID = tenantID\<rparr>"

section \<open>Canonical values of trusted parameters\<close>

abbreviation operationParamActorRole :: string where
  "operationParamActorRole \<equiv> ''actor_role''"

abbreviation operationParamConversationType :: string where
  "operationParamConversationType \<equiv> ''conversation_type''"

abbreviation operationParamConversationTitle :: string where
  "operationParamConversationTitle \<equiv> ''conversation_title''"

definition nonEmptyString :: "goAny \<Rightarrow> goAny option" where
  "nonEmptyString value =
     (case value of GoString s \<Rightarrow> if s \<noteq> [] then Some value else None | _ \<Rightarrow> None)"

text \<open>\<open>canonicalTrustedParamValue\<close> (execution\_gate.go): the value when it has the dynamic type
  and range of the field, \<^const>\<open>None\<close> for \<open>ok = false\<close>.\<close>

definition canonicalTrustedParamValue :: "string \<Rightarrow> goAny \<Rightarrow> goAny option" where
  "canonicalTrustedParamValue field value =
     (if field = ''conversation_id'' then nonEmptyString value
      else if field = ''scope'' then nonEmptyString value
      else if field = ''dept_ids'' then
        (case value of GoInt64s ids \<Rightarrow> if ids \<noteq> [] then Some (GoInt64s ids) else None | _ \<Rightarrow> None)
      else if field = ''user_id'' then
        (case value of GoUint n \<Rightarrow> if n \<noteq> 0 then Some value else None | _ \<Rightarrow> None)
      else if field = ''date'' then
        (case value of
           GoString s \<Rightarrow> if s \<noteq> [] \<and> parseDay s \<noteq> None then Some value else None
         | _ \<Rightarrow> None)
      else if field = ''section'' \<or> field = ''week'' then
        (case value of GoInt n \<Rightarrow> if 0 < n then Some value else None | _ \<Rightarrow> None)
      else if field = ''rule_topic'' \<or> field = ''query_shape'' then nonEmptyString value
      else if field = operationParamActorRole then
        (case value of GoInt n \<Rightarrow> if 0 \<le> n then Some value else None | _ \<Rightarrow> None)
      else if field = operationParamConversationType then nonEmptyString value
      else if field = operationParamConversationTitle then
        (case value of GoString s \<Rightarrow> Some value | _ \<Rightarrow> None)
      else None)"

definition trustedParamConcreteValue :: "TrustedParam goMap \<Rightarrow> string \<Rightarrow> goAny option" where
  "trustedParamConcreteValue params field =
     (case map_of params field of
        None \<Rightarrow> None
      | Some param \<Rightarrow> canonicalTrustedParamValue field (TP_Value param))"

definition extractParamString :: "TrustedParam goMap \<Rightarrow> string \<Rightarrow> string option" where
  "extractParamString params key =
     (case trustedParamConcreteValue params key of Some (GoString s) \<Rightarrow> Some s | _ \<Rightarrow> None)"

definition extractParamInt :: "TrustedParam goMap \<Rightarrow> string \<Rightarrow> int option" where
  "extractParamInt params key =
     (case trustedParamConcreteValue params key of Some (GoInt n) \<Rightarrow> Some n | _ \<Rightarrow> None)"

definition extractParamUint :: "TrustedParam goMap \<Rightarrow> string \<Rightarrow> nat option" where
  "extractParamUint params key =
     (case trustedParamConcreteValue params key of
        Some (GoUint n) \<Rightarrow> Some n
      | Some (GoInt n) \<Rightarrow> if n < 0 then None else Some (nat n)
      | _ \<Rightarrow> None)"

definition extractParamInt64Slice :: "TrustedParam goMap \<Rightarrow> string \<Rightarrow> int list option" where
  "extractParamInt64Slice params key =
     (case trustedParamConcreteValue params key of
        Some (GoInt64s ids) \<Rightarrow> if ids = [] then None else Some ids
      | Some (GoInts ids) \<Rightarrow> if ids = [] then None else Some ids
      | _ \<Rightarrow> None)"

lemma canonical_value_same: "canonicalTrustedParamValue field v = Some w \<Longrightarrow> w = v"
  by (auto simp: canonicalTrustedParamValue_def nonEmptyString_def split: if_splits goAny.splits)

lemma canonical_value_idem:
  "canonicalTrustedParamValue field v = Some w \<Longrightarrow> canonicalTrustedParamValue field w = Some w"
  using canonical_value_same by blast

lemma canonical_dept_ids:
  "canonicalTrustedParamValue ''dept_ids'' v = Some w \<longleftrightarrow>
     (\<exists>ids. v = GoInt64s ids \<and> ids \<noteq> [] \<and> w = v)"
  by (auto simp: canonicalTrustedParamValue_def split: goAny.splits)

section \<open>The request context\<close>

definition setIfMissing :: "string \<Rightarrow> 'a \<Rightarrow> 'a goMap \<Rightarrow> 'a goMap" where
  "setIfMissing k v m = (if map_of m k = None then mapSet k v m else m)"

definition enrichOperationRequestFromUser ::
  "OperationRequest \<Rightarrow> UserContext option \<Rightarrow> OperationRequest" where
  "enrichOperationRequestFromUser req uctx =
     (case uctx of
        None \<Rightarrow> req
      | Some u \<Rightarrow>
          let tenant = (if OR_TenantID req = 0 then UC_TenantID u else OR_TenantID req);
              actor = (if OR_ActorUserID req = 0 then UC_UserID u else OR_ActorUserID req);
              conversation =
                (if trimSpace (OR_ConversationID req) = [] then
                   if trimSpace (UC_ConversationID u) \<noteq> [] then trimSpace (UC_ConversationID u)
                   else (case extractParamString (OR_TrustedParams req) ''conversation_id'' of
                           Some value \<Rightarrow> value
                         | None \<Rightarrow> OR_ConversationID req)
                 else OR_ConversationID req);
              source = \<lparr>SourceKind = TrustedParamSourceRuntime, SourceRaw = [],
                        Resolver = ''user_context_runtime''\<rparr>;
              params0 = OR_TrustedParams req;
              params1 = setIfMissing operationParamActorRole
                (trustedParam operationParamActorRole (GoInt (UC_UserRole u)) (UC_TenantID u) source)
                params0;
              params2 = (if trimSpace (UC_ConversationType u) \<noteq> []
                then setIfMissing operationParamConversationType
                  (trustedParam operationParamConversationType
                     (GoString (trimSpace (UC_ConversationType u))) (UC_TenantID u) source) params1
                else params1);
              params3 = (if trimSpace (UC_ConversationTitle u) \<noteq> []
                then setIfMissing operationParamConversationTitle
                  (trustedParam operationParamConversationTitle
                     (GoString (trimSpace (UC_ConversationTitle u))) (UC_TenantID u) source) params2
                else params2)
          in req\<lparr>OR_TenantID := tenant, OR_ActorUserID := actor,
                 OR_ConversationID := conversation, OR_TrustedParams := params3\<rparr>)"

definition operationRequestActorRole :: "OperationRequest \<Rightarrow> int" where
  "operationRequestActorRole req =
     (case extractParamInt (OR_TrustedParams req) operationParamActorRole of
        Some role \<Rightarrow> role | None \<Rightarrow> 0)"

definition operationRequestConversationType :: "OperationRequest \<Rightarrow> string" where
  "operationRequestConversationType req =
     (case extractParamString (OR_TrustedParams req) operationParamConversationType of
        Some value \<Rightarrow> trimSpace value | None \<Rightarrow> [])"

definition operationRequestConversationTitle :: "OperationRequest \<Rightarrow> string" where
  "operationRequestConversationTitle req =
     (case extractParamString (OR_TrustedParams req) operationParamConversationTitle of
        Some value \<Rightarrow> trimSpace value | None \<Rightarrow> [])"

end
