(* ===== verification/OperationCatalog.thy ===== *)
theory OperationCatalog
  imports AgentProtocol GoJson
begin

text \<open>
  The catalogue of operations of the chat agent (src/internal/agent/operation\_catalog.go,
  operation\_recognition.go, workflow\_operation\_catalog.go, capability\_catalog.go and the
  binding tables of operation\_executor\_bindings.go and protocol\_live\_dispatch.go): the
  manifest type, its fifteen entries as the source lists them, the lookups, and the lint that
  checks a catalogue. UTF-8 texts are given by their code points (\<open>utf8\<close>).
\<close>

section \<open>Manifests\<close>

definition utf8 :: "nat list \<Rightarrow> string" where
  "utf8 rs = concat (map encode_rune rs)"

datatype slotDefault = SlotDefaultNone | SlotDefaultToday | SlotDefaultCurrentWeek

datatype idempotencyGuarantee =
    IdempotencyGuaranteeRepositoryUniqueUpsert | IdempotencyGuaranteeRepositorySoftDelete
  | GuaranteeUnset

type_synonym paramSpec = string

record QueryShapeMetadata =
  QS_Name :: string
  QS_RequiredTrustedParams :: "paramSpec list"

record WorkflowSpec =
  WS_Type :: workflowType
  WS_Mode :: workflowMode
  WS_CollectStates :: "workflowState list"
  WS_RequiredTrustedParams :: "paramSpec list"
  WS_AuxiliaryOperations :: "string list"

record RawSlotSpec =
  RawName :: string
  TargetParam :: string
  RS_Resolver :: string
  Shape :: string
  Required :: bool

record ContinueShape =
  CS_WorkflowType :: workflowType
  CS_States :: "workflowState list"
  CS_Fields :: "string list"
  CS_Source :: string

record RecognitionSpec =
  Recog_Description :: string
  Aliases :: "string list"
  Examples :: "string list"
  NegativeExamples :: "string list"
  RawSlots :: "RawSlotSpec list"
  ContinueShapes :: "ContinueShape list"

record IdempotencySpec =
  KeyFields :: "string list"
  Guarantee :: idempotencyGuarantee

record EvalBinding =
  CaseIDs :: "string list"
  ReplayTags :: "string list"

record CapabilityBinding =
  Title :: string
  Description :: string
  AnswerOnly :: bool
  DirectlyUsable :: bool

text \<open>The one-field structs \<open>ParamSpec\<close>, \<open>PolicySpec\<close>, \<open>ExecutorBinding\<close>, \<open>WriteGuardBinding\<close>
  and \<open>ProtocolLiveDispatchBinding\<close> are their names; a \<open>ResolverSpec\<close> is the pair of the
  parameter and the resolver, \<open>RendererBinding\<close> is spread over two fields.\<close>

record OperationManifest =
  OM_Name :: string
  AllowedActs :: "userAct list"
  OM_Domain :: businessDomain
  IsWrite :: bool
  Risk :: riskLevel
  OM_Scope :: conversationScope
  MinRole :: int
  RequiredTrustedParams :: "paramSpec list"
  OptionalTrustedParams :: "paramSpec list"
  QueryShapes :: "QueryShapeMetadata list"
  Defaults :: "slotDefault goMap"
  Recognition :: RecognitionSpec
  OM_Workflow :: "WorkflowSpec option"
  Dispatch :: string
  Resolvers :: "(string \<times> string) list"
  Policies :: "string list"
  Idempotency :: IdempotencySpec
  WriteGuardName :: string
  Executor :: string
  RendererName :: string
  RendererKind :: responseKind
  Eval :: EvalBinding
  Capability :: "CapabilityBinding option"

definition params :: "string list \<Rightarrow> paramSpec list" where
  "params names = map (\<lambda>name. name) names"

definition singleTurnWorkflowSpec :: WorkflowSpec where
  "singleTurnWorkflowSpec =
     \<lparr>WS_Type = [], WS_Mode = WorkflowModeSingleTurn, WS_CollectStates = [],
      WS_RequiredTrustedParams = [], WS_AuxiliaryOperations = []\<rparr>"

definition rawSlot :: "string \<Rightarrow> string \<Rightarrow> string \<Rightarrow> string \<Rightarrow> bool \<Rightarrow> RawSlotSpec" where
  "rawSlot name target res sh req =
     \<lparr>RawName = name, TargetParam = target, RS_Resolver = res, Shape = sh, Required = req\<rparr>"

definition paramNames :: "paramSpec list \<Rightarrow> string list" where
  "paramNames specs = filter (\<lambda>name. name \<noteq> []) specs"

section \<open>The entries\<close>

definition recognition_attendance_query_status :: RecognitionSpec where
  "recognition_attendance_query_status =
     \<lparr>Recog_Description = utf8 [0x67E5, 0x8BE2, 0x6307, 0x5B9A, 0x65E5, 0x671F, 0x548C, 0x8282,
        0x6B21, 0x7684, 0x8003, 0x52E4, 0x72B6, 0x6001, 0xFF0C, 0x6216, 0x67E5, 0x8BE2, 0x6307,
        0x5B9A, 0x7528, 0x6237, 0x67D0, 0x5929, 0x7684, 0x8003, 0x52E4, 0x72B6, 0x6001],
      Aliases = [],
      Examples = [utf8 [0x67E5, 0x8BE2, 0x4ECA, 0x5929, 0x7B2C, 0x4E8C, 0x8282, 0x8003, 0x52E4,
        0x72B6, 0x6001], utf8 [0x5F20, 0x4E09, 0x4ECA, 0x5929, 0x8003, 0x52E4, 0x600E, 0x4E48,
        0x6837]],
      NegativeExamples = [utf8 [0x8003, 0x52E4, 0x8FDF, 0x5230, 0x89C4, 0x5219, 0x662F, 0x4EC0,
        0x4E48], utf8 [0x5F00, 0x542F, 0x672C, 0x7FA4, 0x8003, 0x52E4, 0x8BA2, 0x9605]],
      RawSlots = [rawSlot ''date'' ''date'' ''date_slot'' [] False, rawSlot ''section''
        ''section'' ''section_slot'' [] False, rawSlot ''user_name'' ''user_id'' ''user_resolver''
        [] False, rawSlot ''user'' ''user_id'' ''user_resolver'' [] False, rawSlot ''query_shape''
        ''query_shape'' ''query_shape_slot'' [] False],
      ContinueShapes = []\<rparr>"

definition op_attendance_query_status :: OperationManifest where
  "op_attendance_query_status =
     \<lparr>OM_Name = ''attendance.query_status'', AllowedActs = [ActReadQuery],
      OM_Domain = DomainAttendance, IsWrite = False, Risk = RiskRead,
      OM_Scope = ConversationScopeBoth, MinRole = 0,
      RequiredTrustedParams = params [''date'', ''section''],
      OptionalTrustedParams = params [''user_id'', ''query_shape''],
      QueryShapes = [\<lparr>QS_Name = ''slot_status'', QS_RequiredTrustedParams = params
        [''date'', ''section'']\<rparr>, \<lparr>QS_Name = ''user_day_status'',
        QS_RequiredTrustedParams = params [''date'', ''user_id'']\<rparr>],
      Defaults = [(''date'', SlotDefaultToday)], Recognition =
        recognition_attendance_query_status,
      OM_Workflow = Some singleTurnWorkflowSpec, Dispatch = ''attendance_request'',
      Resolvers = [(''date'', ''date_slot''), (''section'', ''section_slot''), (''user_id'',
        ''user_resolver''), (''week'', ''semester_default''), (''query_shape'',
        ''query_shape_slot'')],
      Policies = [''conversation_scope''],
      Idempotency = \<lparr>KeyFields = [], Guarantee = GuaranteeUnset\<rparr>,
      WriteGuardName = ''not_required'', Executor = ''executor.attendance.query_status'',
      RendererName = ''response_renderer'', RendererKind = ResponseResult,
      Eval = \<lparr>CaseIDs = [''protocol-attendance-slot-status''], ReplayTags =
        [''attendance'']\<rparr>,
      Capability = None\<rparr>"

definition recognition_subscription_start :: RecognitionSpec where
  "recognition_subscription_start =
     \<lparr>Recog_Description = utf8 [0x5728, 0x5F53, 0x524D, 0x7FA4, 0x5F00, 0x542F, 0x8003, 0x52E4,
        0x63A8, 0x9001, 0x8BA2, 0x9605, 0xFF1B, 0x8FD9, 0x662F, 0x5199, 0x64CD, 0x4F5C, 0xFF0C,
        0x9700, 0x8981, 0x7BA1, 0x7406, 0x5458, 0x6743, 0x9650, 0xFF0C, 0x5E76, 0x53EF, 0x80FD,
        0x7EE7, 0x7EED, 0x8BE2, 0x95EE, 0x8BA2, 0x9605, 0x8303, 0x56F4, 0x6216, 0x90E8, 0x95E8],
      Aliases = [utf8 [0x5F00, 0x542F, 0x8003, 0x52E4, 0x8BA2, 0x9605], utf8 [0x5F00, 0x542F,
        0x672C, 0x7FA4, 0x8003, 0x52E4, 0x8BA2, 0x9605], utf8 [0x6253, 0x5F00, 0x672C, 0x7FA4,
        0x8003, 0x52E4, 0x63A8, 0x9001], utf8 [0x5F00, 0x901A, 0x8003, 0x52E4, 0x8BA2, 0x9605]],
      Examples = [utf8 [0x5F00, 0x542F, 0x672C, 0x7FA4, 0x5168, 0x90E8, 0x4EBA, 0x5458, 0x8003,
        0x52E4, 0x8BA2, 0x9605], utf8 [0x7ED9, 0x672C, 0x7FA4, 0x5F00, 0x542F, 0x4FE1, 0x5DE5] @
        ''25'' @ utf8 [0x7EA7, 0x8003, 0x52E4, 0x63A8, 0x9001]],
      NegativeExamples = [utf8 [0x672C, 0x7FA4, 0x8BA2, 0x9605, 0x5F00, 0x4E86, 0x5417], utf8
        [0x5173, 0x95ED, 0x672C, 0x7FA4, 0x8003, 0x52E4, 0x63A8, 0x9001]],
      RawSlots = [rawSlot ''scope'' ''scope'' ''subscription_scope'' ''subscription_scope''
        False, rawSlot ''dept_names'' ''dept_ids'' ''department_resolver''
        ''department_name_or_candidate'' False, rawSlot ''dept_name'' ''dept_ids''
        ''department_resolver'' ''department_name_or_candidate'' False, rawSlot ''department''
        ''dept_ids'' ''department_resolver'' ''department_name_or_candidate'' False, rawSlot
        ''department_name'' ''dept_ids'' ''department_resolver'' ''department_name_or_candidate''
        False],
      ContinueShapes = []\<rparr>"

definition op_subscription_start :: OperationManifest where
  "op_subscription_start =
     \<lparr>OM_Name = ''subscription.start'', AllowedActs = [ActWriteRequest],
      OM_Domain = DomainSubscription, IsWrite = True, Risk = RiskWriteLow,
      OM_Scope = ConversationScopeGroup, MinRole = 1,
      RequiredTrustedParams = params [''conversation_id'', ''scope''],
      OptionalTrustedParams = params [''dept_ids''], QueryShapes = [], Defaults = [],
      Recognition = recognition_subscription_start,
      OM_Workflow = Some \<lparr>WS_Type = WorkflowSubscriptionStart, WS_Mode =
        WorkflowModeMultiTurn, WS_CollectStates = [WorkflowCollectScope,
        WorkflowCollectDepartments], WS_RequiredTrustedParams = params [''scope'', ''dept_ids''],
        WS_AuxiliaryOperations = [''subscription.list_departments'']\<rparr>,
      Dispatch = ''subscription_workflow'',
      Resolvers = [(''conversation_id'', ''runtime_conversation''), (''scope'',
        ''subscription_scope''), (''dept_ids'', ''department_resolver'')],
      Policies = [''admin_role'', ''group_conversation'', ''subscription_scope''],
      Idempotency = \<lparr>KeyFields = [''tenant_id'', ''conversation_id'', ''actor_user_id'',
        ''operation'', ''scope'', ''dept_ids'', ''workflow_id''], Guarantee =
        IdempotencyGuaranteeRepositoryUniqueUpsert\<rparr>,
      WriteGuardName = ''write_guard'', Executor = ''executor.subscription.start'',
      RendererName = ''response_renderer'', RendererKind = ResponseResult,
      Eval = \<lparr>CaseIDs = [''protocol-subscription-missing-scope'', ''protocol-
        subscription-first-turn-all'', ''protocol-workflow-cancel-active-subscription''],
        ReplayTags = [''subscription'', ''write_low'']\<rparr>,
      Capability = None\<rparr>"

definition recognition_subscription_cancel :: RecognitionSpec where
  "recognition_subscription_cancel =
     \<lparr>Recog_Description = utf8 [0x53D6, 0x6D88, 0x5F53, 0x524D, 0x7FA4, 0x5DF2, 0x7ECF, 0x5F00,
        0x542F, 0x7684, 0x8003, 0x52E4, 0x63A8, 0x9001, 0x8BA2, 0x9605, 0xFF1B, 0x8FD9, 0x662F,
        0x9700, 0x8981, 0x7BA1, 0x7406, 0x5458, 0x6743, 0x9650, 0x7684, 0x5199, 0x64CD, 0x4F5C],
      Aliases = [utf8 [0x53D6, 0x6D88, 0x8003, 0x52E4, 0x63A8, 0x9001], utf8 [0x53D6, 0x6D88,
        0x672C, 0x7FA4, 0x8003, 0x52E4, 0x63A8, 0x9001], utf8 [0x53D6, 0x6D88, 0x8003, 0x52E4,
        0x8BA2, 0x9605], utf8 [0x5173, 0x95ED, 0x8003, 0x52E4, 0x8BA2, 0x9605], utf8 [0x5173,
        0x95ED, 0x672C, 0x7FA4, 0x8003, 0x52E4, 0x63A8, 0x9001]],
      Examples = [utf8 [0x5173, 0x95ED, 0x8FD9, 0x4E2A, 0x7FA4, 0x7684, 0x8003, 0x52E4, 0x63A8,
        0x9001], utf8 [0x53D6, 0x6D88, 0x672C, 0x7FA4, 0x8003, 0x52E4, 0x8BA2, 0x9605]],
      NegativeExamples = [utf8 [0x672C, 0x7FA4, 0x8BA2, 0x9605, 0x72B6, 0x6001, 0x662F, 0x4EC0,
        0x4E48], utf8 [0x5F00, 0x542F, 0x672C, 0x7FA4, 0x8003, 0x52E4, 0x8BA2, 0x9605]],
      RawSlots = [],
      ContinueShapes = []\<rparr>"

definition op_subscription_cancel :: OperationManifest where
  "op_subscription_cancel =
     \<lparr>OM_Name = ''subscription.cancel'', AllowedActs = [ActWriteRequest],
      OM_Domain = DomainSubscription, IsWrite = True, Risk = RiskWriteLow,
      OM_Scope = ConversationScopeGroup, MinRole = 1,
      RequiredTrustedParams = params [''conversation_id''], OptionalTrustedParams = [],
      QueryShapes = [], Defaults = [], Recognition = recognition_subscription_cancel,
      OM_Workflow = Some \<lparr>WS_Type = ''subscription.cancel'', WS_Mode =
        WorkflowModeSingleTurn, WS_CollectStates = [], WS_RequiredTrustedParams = params
        [''conversation_id''], WS_AuxiliaryOperations = []\<rparr>,
      Dispatch = ''runtime_conversation'',
      Resolvers = [(''conversation_id'', ''runtime_conversation'')],
      Policies = [''admin_role'', ''group_conversation''],
      Idempotency = \<lparr>KeyFields = [''tenant_id'', ''conversation_id'', ''actor_user_id'',
        ''operation''], Guarantee = IdempotencyGuaranteeRepositorySoftDelete\<rparr>,
      WriteGuardName = ''write_guard'', Executor = ''executor.subscription.cancel'',
      RendererName = ''response_renderer'', RendererKind = ResponseResult,
      Eval = \<lparr>CaseIDs = [''catalog-subscription-cancel''], ReplayTags =
        [''subscription'', ''write_low'']\<rparr>,
      Capability = None\<rparr>"

definition recognition_subscription_query_status :: RecognitionSpec where
  "recognition_subscription_query_status =
     \<lparr>Recog_Description = utf8 [0x67E5, 0x8BE2, 0x5F53, 0x524D, 0x7FA4, 0x662F, 0x5426, 0x5DF2,
        0x5F00, 0x542F, 0x8003, 0x52E4, 0x63A8, 0x9001, 0x8BA2, 0x9605, 0x4EE5, 0x53CA, 0x8BA2,
        0x9605, 0x8303, 0x56F4],
      Aliases = [utf8 [0x67E5, 0x672C, 0x7FA4, 0x8BA2, 0x9605, 0x72B6, 0x6001], utf8 [0x5F53,
        0x524D, 0x7FA4, 0x6709, 0x6CA1, 0x6709, 0x8BA2, 0x9605], utf8 [0x6709, 0x6CA1, 0x6709,
        0x5F00, 0x542F, 0x8003, 0x52E4, 0x8BA2, 0x9605], utf8 [0x67E5, 0x8FD9, 0x4E2A, 0x7FA4,
        0x6709, 0x6CA1, 0x6709, 0x5F00, 0x542F, 0x8003, 0x52E4, 0x8BA2, 0x9605], utf8 [0x8BA2,
        0x9605, 0x72B6, 0x6001], utf8 [0x6709, 0x6CA1, 0x6709, 0x8BA2, 0x9605]],
      Examples = [utf8 [0x8FD9, 0x4E2A, 0x7FA4, 0x8003, 0x52E4, 0x8BA2, 0x9605, 0x5F00, 0x4E86,
        0x6CA1], utf8 [0x67E5, 0x4E00, 0x4E0B, 0x672C, 0x7FA4, 0x8BA2, 0x9605, 0x72B6, 0x6001]],
      NegativeExamples = [utf8 [0x5F00, 0x542F, 0x672C, 0x7FA4, 0x8003, 0x52E4, 0x8BA2, 0x9605],
        utf8 [0x7FA4, 0x8003, 0x52E4, 0x8BA2, 0x9605, 0x89C4, 0x5219, 0x662F, 0x4EC0, 0x4E48]],
      RawSlots = [],
      ContinueShapes = []\<rparr>"

definition op_subscription_query_status :: OperationManifest where
  "op_subscription_query_status =
     \<lparr>OM_Name = ''subscription.query_status'', AllowedActs = [ActReadQuery],
      OM_Domain = DomainSubscription, IsWrite = False, Risk = RiskRead,
      OM_Scope = ConversationScopeGroup, MinRole = 0,
      RequiredTrustedParams = params [''conversation_id''], OptionalTrustedParams = [],
      QueryShapes = [], Defaults = [], Recognition = recognition_subscription_query_status,
      OM_Workflow = Some singleTurnWorkflowSpec, Dispatch = ''runtime_conversation'',
      Resolvers = [(''conversation_id'', ''runtime_conversation'')],
      Policies = [''group_conversation''],
      Idempotency = \<lparr>KeyFields = [], Guarantee = GuaranteeUnset\<rparr>,
      WriteGuardName = ''not_required'', Executor = ''executor.subscription.query_status'',
      RendererName = ''response_renderer'', RendererKind = ResponseResult,
      Eval = \<lparr>CaseIDs = [''catalog-subscription-query-status''], ReplayTags =
        [''subscription'']\<rparr>,
      Capability = None\<rparr>"

definition recognition_subscription_list_departments :: RecognitionSpec where
  "recognition_subscription_list_departments =
     \<lparr>Recog_Description = utf8 [0x5217, 0x51FA, 0x7FA4, 0x8003, 0x52E4, 0x8BA2, 0x9605, 0x6D41,
        0x7A0B, 0x4E2D, 0x53EF, 0x4EE5, 0x9009, 0x62E9, 0x7684, 0x90E8, 0x95E8, 0xFF0C, 0x4E0D,
        0x4EE3, 0x8868, 0x6267, 0x884C, 0x5F00, 0x542F, 0x8BA2, 0x9605],
      Aliases = [utf8 [0x5F53, 0x524D, 0x90FD, 0x6709, 0x54EA, 0x4E9B, 0x90E8, 0x95E8], utf8
        [0x90FD, 0x6709, 0x54EA, 0x4E9B, 0x90E8, 0x95E8], utf8 [0x6709, 0x54EA, 0x4E9B, 0x90E8,
        0x95E8], utf8 [0x90E8, 0x95E8, 0x5217, 0x8868], utf8 [0x90E8, 0x95E8, 0x6709, 0x54EA,
        0x4E9B], utf8 [0x54EA, 0x4E9B, 0x90E8, 0x95E8]],
      Examples = [utf8 [0x5148, 0x770B, 0x770B, 0x6709, 0x54EA, 0x4E9B, 0x90E8, 0x95E8], utf8
        [0x663E, 0x793A, 0x90E8, 0x95E8, 0x5217, 0x8868]],
      NegativeExamples = [utf8 [0x8BA2, 0x9605, 0x4FE1, 0x5DE5] @ ''25'' @ utf8 [0x7EA7], utf8
        [0x5F00, 0x542F, 0x5168, 0x90E8, 0x4EBA, 0x5458, 0x8BA2, 0x9605]],
      RawSlots = [],
      ContinueShapes = [\<lparr>CS_WorkflowType = WorkflowSubscriptionStart, CS_States =
        [WorkflowCollectScope, WorkflowCollectDepartments], CS_Fields = [], CS_Source =
        ''auxiliary_operation''\<rparr>]\<rparr>"

definition op_subscription_list_departments :: OperationManifest where
  "op_subscription_list_departments =
     \<lparr>OM_Name = ''subscription.list_departments'',
      AllowedActs = [ActReadQuery, ActWorkflowContinue], OM_Domain = DomainSubscription,
      IsWrite = False, Risk = RiskRead, OM_Scope = ConversationScopeBoth, MinRole = 0,
      RequiredTrustedParams = [], OptionalTrustedParams = [], QueryShapes = [], Defaults = [],
      Recognition = recognition_subscription_list_departments,
      OM_Workflow = Some \<lparr>WS_Type = WorkflowSubscriptionStart, WS_Mode =
        WorkflowModeAuxiliary, WS_CollectStates = [], WS_RequiredTrustedParams = [],
        WS_AuxiliaryOperations = [''subscription.start'']\<rparr>,
      Dispatch = ''subscription_workflow'', Resolvers = [], Policies = [''conversation_scope''],
      Idempotency = \<lparr>KeyFields = [], Guarantee = GuaranteeUnset\<rparr>,
      WriteGuardName = ''not_required'', Executor = ''executor.subscription.list_departments'',
      RendererName = ''response_renderer'', RendererKind = ResponseSelectOptions,
      Eval = \<lparr>CaseIDs = [''protocol-subscription-list-departments-workflow-meta''],
        ReplayTags = [''subscription'', ''workflow'']\<rparr>,
      Capability = None\<rparr>"

definition recognition_system_describe_capability :: RecognitionSpec where
  "recognition_system_describe_capability =
     \<lparr>Recog_Description = utf8 [0x6982, 0x89C8, 0x667A, 0x80FD, 0x52A9, 0x624B, 0x5F53, 0x524D,
        0x652F, 0x6301, 0x7684, 0x5168, 0x90E8, 0x529F, 0x80FD],
      Aliases = [],
      Examples = [utf8 [0x4F60, 0x6709, 0x4EC0, 0x4E48, 0x529F, 0x80FD], utf8 [0x4F60, 0x80FD,
        0x5E2E, 0x6211, 0x505A, 0x4EC0, 0x4E48]],
      NegativeExamples = [utf8 [0x8003, 0x52E4, 0x80FD, 0x505A, 0x4EC0, 0x4E48], utf8 [0x67E5,
        0x8BE2, 0x6211, 0x7684, 0x8BFE, 0x8868]],
      RawSlots = [],
      ContinueShapes = []\<rparr>"

definition op_system_describe_capability :: OperationManifest where
  "op_system_describe_capability =
     \<lparr>OM_Name = ''system.describe_capability'', AllowedActs = [ActHelp], OM_Domain =
        DomainSystem,
      IsWrite = False, Risk = RiskRead, OM_Scope = ConversationScopeBoth, MinRole = 0,
      RequiredTrustedParams = [], OptionalTrustedParams = [], QueryShapes = [], Defaults = [],
      Recognition = recognition_system_describe_capability,
      OM_Workflow = Some singleTurnWorkflowSpec, Dispatch = ''capability_answer'', Resolvers =
        [],
      Policies = [''conversation_scope''],
      Idempotency = \<lparr>KeyFields = [], Guarantee = GuaranteeUnset\<rparr>,
      WriteGuardName = ''not_required'', Executor = ''executor.system.describe_capability'',
      RendererName = ''response_renderer'', RendererKind = ResponseAnswer,
      Eval = \<lparr>CaseIDs = [''protocol-help-overview''], ReplayTags =
        [''capability'']\<rparr>,
      Capability = Some \<lparr>Title = utf8 [0x529F, 0x80FD, 0x8BF4, 0x660E], Description =
        utf8 [0x8BF4, 0x660E, 0x6211, 0x5F53, 0x524D, 0x53EF, 0x4EE5, 0x5904, 0x7406, 0x7684,
        0x8003, 0x52E4, 0x3001, 0x8BA2, 0x9605, 0x3001, 0x89C4, 0x5219, 0x548C, 0x8BFE, 0x8868,
        0x80FD, 0x529B, 0x3002], AnswerOnly = True, DirectlyUsable = True\<rparr>\<rparr>"

definition recognition_attendance_describe_capability :: RecognitionSpec where
  "recognition_attendance_describe_capability =
     \<lparr>Recog_Description = utf8 [0x8BF4, 0x660E, 0x8003, 0x52E4, 0x67E5, 0x8BE2, 0x80FD, 0x529B,
        0xFF0C, 0x4E0D, 0x6267, 0x884C, 0x5177, 0x4F53, 0x8003, 0x52E4, 0x67E5, 0x8BE2],
      Aliases = [],
      Examples = [utf8 [0x8003, 0x52E4, 0x80FD, 0x505A, 0x4EC0, 0x4E48], utf8 [0x652F, 0x6301,
        0x54EA, 0x4E9B, 0x8003, 0x52E4, 0x67E5, 0x8BE2]],
      NegativeExamples = [utf8 [0x67E5, 0x8BE2, 0x4ECA, 0x5929, 0x7B2C, 0x4E8C, 0x8282, 0x8003,
        0x52E4, 0x72B6, 0x6001], utf8 [0x8FDF, 0x5230, 0x89C4, 0x5219, 0x662F, 0x4EC0, 0x4E48]],
      RawSlots = [],
      ContinueShapes = []\<rparr>"

definition op_attendance_describe_capability :: OperationManifest where
  "op_attendance_describe_capability =
     \<lparr>OM_Name = ''attendance.describe_capability'', AllowedActs = [ActCapabilityQuestion],
      OM_Domain = DomainAttendance, IsWrite = False, Risk = RiskRead,
      OM_Scope = ConversationScopeBoth, MinRole = 0, RequiredTrustedParams = [],
      OptionalTrustedParams = [], QueryShapes = [], Defaults = [],
      Recognition = recognition_attendance_describe_capability,
      OM_Workflow = Some singleTurnWorkflowSpec, Dispatch = ''capability_answer'', Resolvers =
        [],
      Policies = [''conversation_scope''],
      Idempotency = \<lparr>KeyFields = [], Guarantee = GuaranteeUnset\<rparr>,
      WriteGuardName = ''not_required'', Executor = ''executor.attendance.describe_capability'',
      RendererName = ''response_renderer'', RendererKind = ResponseAnswer,
      Eval = \<lparr>CaseIDs = [''catalog-attendance-describe-capability''], ReplayTags =
        [''capability'', ''attendance'']\<rparr>,
      Capability = Some \<lparr>Title = utf8 [0x8003, 0x52E4, 0x67E5, 0x8BE2], Description =
        utf8 [0x67E5, 0x8BE2, 0x6307, 0x5B9A, 0x65E5, 0x671F, 0x548C, 0x8282, 0x6B21, 0x7684,
        0x8003, 0x52E4, 0x72B6, 0x6001, 0x3002], AnswerOnly = True, DirectlyUsable = True\<rparr>\<rparr>"

definition recognition_schedule_describe_capability :: RecognitionSpec where
  "recognition_schedule_describe_capability =
     \<lparr>Recog_Description = utf8 [0x8BF4, 0x660E, 0x8BFE, 0x8868, 0x67E5, 0x8BE2, 0x80FD, 0x529B,
        0x548C, 0x53EF, 0x67E5, 0x8BE2, 0x5BF9, 0x8C61, 0xFF0C, 0x4E0D, 0x6267, 0x884C, 0x5177,
        0x4F53, 0x8BFE, 0x8868, 0x67E5, 0x8BE2],
      Aliases = [],
      Examples = [utf8 [0x8BFE, 0x8868, 0x80FD, 0x67E5, 0x4EC0, 0x4E48], utf8 [0x53EF, 0x4EE5,
        0x67E5, 0x522B, 0x4EBA, 0x7684, 0x8BFE, 0x7A0B, 0x5417]],
      NegativeExamples = [utf8 [0x67E5, 0x8BE2, 0x6768, 0x601D, 0x89C1, 0x7684, 0x8BFE, 0x7A0B,
        0x4FE1, 0x606F], utf8 [0x8BFE, 0x8868, 0x89C4, 0x5219, 0x662F, 0x4EC0, 0x4E48]],
      RawSlots = [],
      ContinueShapes = []\<rparr>"

definition op_schedule_describe_capability :: OperationManifest where
  "op_schedule_describe_capability =
     \<lparr>OM_Name = ''schedule.describe_capability'', AllowedActs = [ActCapabilityQuestion],
      OM_Domain = DomainSchedule, IsWrite = False, Risk = RiskRead,
      OM_Scope = ConversationScopeBoth, MinRole = 0, RequiredTrustedParams = [],
      OptionalTrustedParams = [], QueryShapes = [], Defaults = [],
      Recognition = recognition_schedule_describe_capability,
      OM_Workflow = Some singleTurnWorkflowSpec, Dispatch = ''capability_answer'', Resolvers =
        [],
      Policies = [''conversation_scope''],
      Idempotency = \<lparr>KeyFields = [], Guarantee = GuaranteeUnset\<rparr>,
      WriteGuardName = ''not_required'', Executor = ''executor.schedule.describe_capability'',
      RendererName = ''response_renderer'', RendererKind = ResponseAnswer,
      Eval = \<lparr>CaseIDs = [''catalog-schedule-describe-capability''], ReplayTags =
        [''capability'', ''schedule'']\<rparr>,
      Capability = Some \<lparr>Title = utf8 [0x8BFE, 0x8868, 0x67E5, 0x8BE2], Description =
        utf8 [0x67E5, 0x8BE2, 0x81EA, 0x5DF1, 0x7684, 0x8BFE, 0x8868, 0xFF0C, 0x4E5F, 0x53EF,
        0x4EE5, 0x67E5, 0x8BE2, 0x6307, 0x5B9A, 0x59D3, 0x540D, 0x7528, 0x6237, 0x7684, 0x8BFE,
        0x8868, 0x3002], AnswerOnly = True, DirectlyUsable = True\<rparr>\<rparr>"

definition recognition_subscription_describe_capability :: RecognitionSpec where
  "recognition_subscription_describe_capability =
     \<lparr>Recog_Description = utf8 [0x8BF4, 0x660E, 0x7FA4, 0x8003, 0x52E4, 0x8BA2, 0x9605, 0x652F,
        0x6301, 0x7684, 0x67E5, 0x8BE2, 0x3001, 0x5F00, 0x542F, 0x3001, 0x53D6, 0x6D88, 0x548C,
        0x6309, 0x90E8, 0x95E8, 0x7BA1, 0x7406, 0x80FD, 0x529B, 0xFF0C, 0x4E0D, 0x6267, 0x884C,
        0x5199, 0x64CD, 0x4F5C],
      Aliases = [],
      Examples = [utf8 [0x8003, 0x52E4, 0x8BA2, 0x9605, 0x80FD, 0x505A, 0x4EC0, 0x4E48], utf8
        [0x7FA4, 0x63A8, 0x9001, 0x652F, 0x6301, 0x54EA, 0x4E9B, 0x529F, 0x80FD]],
      NegativeExamples = [utf8 [0x5F00, 0x542F, 0x672C, 0x7FA4, 0x8003, 0x52E4, 0x8BA2, 0x9605],
        utf8 [0x672C, 0x7FA4, 0x8BA2, 0x9605, 0x5F00, 0x4E86, 0x5417]],
      RawSlots = [],
      ContinueShapes = []\<rparr>"

definition op_subscription_describe_capability :: OperationManifest where
  "op_subscription_describe_capability =
     \<lparr>OM_Name = ''subscription.describe_capability'', AllowedActs = [ActCapabilityQuestion],
      OM_Domain = DomainSubscription, IsWrite = False, Risk = RiskRead,
      OM_Scope = ConversationScopeGroup, MinRole = 0, RequiredTrustedParams = [],
      OptionalTrustedParams = [], QueryShapes = [], Defaults = [],
      Recognition = recognition_subscription_describe_capability,
      OM_Workflow = Some singleTurnWorkflowSpec, Dispatch = ''capability_answer'', Resolvers =
        [],
      Policies = [''group_conversation''],
      Idempotency = \<lparr>KeyFields = [], Guarantee = GuaranteeUnset\<rparr>,
      WriteGuardName = ''not_required'', Executor =
        ''executor.subscription.describe_capability'',
      RendererName = ''response_renderer'', RendererKind = ResponseAnswer,
      Eval = \<lparr>CaseIDs = [''catalog-subscription-describe-capability''], ReplayTags =
        [''capability'', ''subscription'']\<rparr>,
      Capability = Some \<lparr>Title = utf8 [0x7FA4, 0x8003, 0x52E4, 0x8BA2, 0x9605],
        Description = utf8 [0x5728, 0x7FA4, 0x804A, 0x91CC, 0x53EF, 0x4EE5, 0x67E5, 0x8BE2,
        0x5F53, 0x524D, 0x7FA4, 0x8003, 0x52E4, 0x63A8, 0x9001, 0x8BA2, 0x9605, 0x72B6, 0x6001,
        0xFF1B, 0x7BA1, 0x7406, 0x5458, 0x8FD8, 0x53EF, 0x4EE5, 0x5F00, 0x542F, 0x3001, 0x53D6,
        0x6D88, 0x6216, 0x6309, 0x90E8, 0x95E8, 0x7BA1, 0x7406, 0x8BA2, 0x9605, 0x3002],
        AnswerOnly = True, DirectlyUsable = True\<rparr>\<rparr>"

definition recognition_manual_sign_describe_capability :: RecognitionSpec where
  "recognition_manual_sign_describe_capability =
     \<lparr>Recog_Description = utf8 [0x8BF4, 0x660E, 0x8865, 0x7B7E, 0x6216, 0x4EE3, 0x7B7E, 0x6240,
        0x9700, 0x4FE1, 0x606F, 0x548C, 0x5F53, 0x524D, 0x804A, 0x5929, 0x80FD, 0x529B, 0x8FB9,
        0x754C, 0xFF1B, 0x5F53, 0x524D, 0x804A, 0x5929, 0x4E0D, 0x80FD, 0x76F4, 0x63A5, 0x6267,
        0x884C, 0x8865, 0x7B7E],
      Aliases = [],
      Examples = [utf8 [0x53EF, 0x4EE5, 0x8865, 0x7B7E, 0x5417], utf8 [0x8865, 0x7B7E, 0x652F,
        0x6301, 0x4EC0, 0x4E48, 0x6D41, 0x7A0B]],
      NegativeExamples = [utf8 [0x7ED9, 0x5F20, 0x4E09, 0x8865, 0x7B7E, 0x4ECA, 0x5929, 0x7B2C,
        0x4E00, 0x8282], utf8 [0x67E5, 0x8BE2, 0x5F20, 0x4E09, 0x4ECA, 0x5929, 0x8003, 0x52E4]],
      RawSlots = [],
      ContinueShapes = []\<rparr>"

definition op_manual_sign_describe_capability :: OperationManifest where
  "op_manual_sign_describe_capability =
     \<lparr>OM_Name = ''manual_sign.describe_capability'', AllowedActs = [ActCapabilityQuestion],
      OM_Domain = DomainManualSign, IsWrite = False, Risk = RiskRead,
      OM_Scope = ConversationScopeBoth, MinRole = 0, RequiredTrustedParams = [],
      OptionalTrustedParams = [], QueryShapes = [], Defaults = [],
      Recognition = recognition_manual_sign_describe_capability,
      OM_Workflow = Some singleTurnWorkflowSpec, Dispatch = ''capability_answer'', Resolvers =
        [],
      Policies = [''conversation_scope''],
      Idempotency = \<lparr>KeyFields = [], Guarantee = GuaranteeUnset\<rparr>,
      WriteGuardName = ''not_required'', Executor = ''executor.manual_sign.describe_capability'',
      RendererName = ''response_renderer'', RendererKind = ResponseAnswer,
      Eval = \<lparr>CaseIDs = [''protocol-manual-sign-capability'', ''protocol-workflow-
        interrupted-by-capability''], ReplayTags = [''capability'', ''manual_sign'']\<rparr>,
      Capability = Some \<lparr>Title = utf8 [0x7BA1, 0x7406, 0x5458, 0x8865, 0x7B7E],
        Description = utf8 [0x8BF4, 0x660E, 0x4EE3, 0x7B7E] @ ''/'' @ utf8 [0x8865, 0x7B7E,
        0x80FD, 0x529B, 0x548C, 0x6240, 0x9700, 0x4FE1, 0x606F, 0xFF1B, 0x5F53, 0x524D, 0x804A,
        0x5929, 0x8DEF, 0x5F84, 0x4E0D, 0x76F4, 0x63A5, 0x6267, 0x884C, 0x8865, 0x7B7E, 0x3002],
        AnswerOnly = True, DirectlyUsable = False\<rparr>\<rparr>"

definition recognition_attendance_rule_explain :: RecognitionSpec where
  "recognition_attendance_rule_explain =
     \<lparr>Recog_Description = utf8 [0x89E3, 0x91CA, 0x8003, 0x52E4, 0x3001, 0x8FDF, 0x5230, 0x3001,
        0x7F3A, 0x52E4, 0x3001, 0x6253, 0x5361, 0x6216, 0x4F11, 0x606F, 0x65E5, 0x76F8, 0x5173,
        0x89C4, 0x5219, 0xFF0C, 0x4E0D, 0x67E5, 0x8BE2, 0x5B9E, 0x65F6, 0x8003, 0x52E4, 0x7ED3,
        0x679C],
      Aliases = [],
      Examples = [utf8 [0x8FDF, 0x5230, 0x89C4, 0x5219, 0x662F, 0x4EC0, 0x4E48], utf8 [0x4F11,
        0x606F, 0x65E5, 0x548C, 0x8003, 0x52E4, 0x51B2, 0x7A81, 0x600E, 0x4E48, 0x5224]],
      NegativeExamples = [utf8 [0x67E5, 0x8BE2, 0x4ECA, 0x5929, 0x7B2C, 0x4E8C, 0x8282, 0x8003,
        0x52E4, 0x72B6, 0x6001], utf8 [0x8003, 0x52E4, 0x80FD, 0x505A, 0x4EC0, 0x4E48]],
      RawSlots = [rawSlot ''rule_topic'' ''rule_topic'' ''rule_topic_slot'' [] False],
      ContinueShapes = []\<rparr>"

definition op_attendance_rule_explain :: OperationManifest where
  "op_attendance_rule_explain =
     \<lparr>OM_Name = ''attendance.rule_explain'', AllowedActs = [ActRuleQuestion],
      OM_Domain = DomainAttendance, IsWrite = False, Risk = RiskRead,
      OM_Scope = ConversationScopeBoth, MinRole = 0,
      RequiredTrustedParams = params [''rule_topic''], OptionalTrustedParams = [],
      QueryShapes = [], Defaults = [], Recognition = recognition_attendance_rule_explain,
      OM_Workflow = Some singleTurnWorkflowSpec, Dispatch = ''rule_explain'',
      Resolvers = [(''rule_topic'', ''rule_topic_slot'')], Policies = [''conversation_scope''],
      Idempotency = \<lparr>KeyFields = [], Guarantee = GuaranteeUnset\<rparr>,
      WriteGuardName = ''not_required'', Executor = ''executor.attendance.rule_explain'',
      RendererName = ''response_renderer'', RendererKind = ResponseAnswer,
      Eval = \<lparr>CaseIDs = [''protocol-rule-no-hit''], ReplayTags = [''rule'',
        ''attendance'']\<rparr>,
      Capability = None\<rparr>"

definition recognition_schedule_rule_explain :: RecognitionSpec where
  "recognition_schedule_rule_explain =
     \<lparr>Recog_Description = utf8 [0x89E3, 0x91CA, 0x8BFE, 0x8868, 0x3001, 0x6392, 0x8BFE, 0x6216,
        0x8BFE, 0x7A0B, 0x53EF, 0x89C1, 0x6027, 0x89C4, 0x5219, 0xFF0C, 0x4E0D, 0x67E5, 0x8BE2,
        0x5177, 0x4F53, 0x8BFE, 0x8868],
      Aliases = [],
      Examples = [utf8 [0x8BFE, 0x8868, 0x89C4, 0x5219, 0x662F, 0x4EC0, 0x4E48], utf8 [0x6392,
        0x8BFE, 0x89C4, 0x5219, 0x6309, 0x4EC0, 0x4E48, 0x53E3, 0x5F84, 0x751F, 0x6548]],
      NegativeExamples = [utf8 [0x67E5, 0x8BE2, 0x6768, 0x601D, 0x89C1, 0x7684, 0x8BFE, 0x7A0B,
        0x4FE1, 0x606F], utf8 [0x8BFE, 0x8868, 0x80FD, 0x67E5, 0x4EC0, 0x4E48]],
      RawSlots = [rawSlot ''rule_topic'' ''rule_topic'' ''rule_topic_slot'' [] False],
      ContinueShapes = []\<rparr>"

definition op_schedule_rule_explain :: OperationManifest where
  "op_schedule_rule_explain =
     \<lparr>OM_Name = ''schedule.rule_explain'', AllowedActs = [ActRuleQuestion],
      OM_Domain = DomainSchedule, IsWrite = False, Risk = RiskRead,
      OM_Scope = ConversationScopeBoth, MinRole = 0,
      RequiredTrustedParams = params [''rule_topic''], OptionalTrustedParams = [],
      QueryShapes = [], Defaults = [], Recognition = recognition_schedule_rule_explain,
      OM_Workflow = Some singleTurnWorkflowSpec, Dispatch = ''rule_explain'',
      Resolvers = [(''rule_topic'', ''rule_topic_slot'')], Policies = [''conversation_scope''],
      Idempotency = \<lparr>KeyFields = [], Guarantee = GuaranteeUnset\<rparr>,
      WriteGuardName = ''not_required'', Executor = ''executor.schedule.rule_explain'',
      RendererName = ''response_renderer'', RendererKind = ResponseAnswer,
      Eval = \<lparr>CaseIDs = [''catalog-schedule-rule-explain''], ReplayTags = [''rule'',
        ''schedule'']\<rparr>,
      Capability = None\<rparr>"

definition recognition_subscription_rule_explain :: RecognitionSpec where
  "recognition_subscription_rule_explain =
     \<lparr>Recog_Description = utf8 [0x89E3, 0x91CA, 0x7FA4, 0x8003, 0x52E4, 0x8BA2, 0x9605, 0x3001,
        0x63A8, 0x9001, 0x8303, 0x56F4, 0x548C, 0x90E8, 0x95E8, 0x8BA2, 0x9605, 0x89C4, 0x5219,
        0xFF0C, 0x4E0D, 0x67E5, 0x8BE2, 0x6216, 0x4FEE, 0x6539, 0x5F53, 0x524D, 0x8BA2, 0x9605],
      Aliases = [],
      Examples = [utf8 [0x7FA4, 0x8BA2, 0x9605, 0x89C4, 0x5219, 0x662F, 0x4EC0, 0x4E48], utf8
        [0x6309, 0x90E8, 0x95E8, 0x8BA2, 0x9605, 0x5982, 0x4F55, 0x751F, 0x6548]],
      NegativeExamples = [utf8 [0x672C, 0x7FA4, 0x8BA2, 0x9605, 0x5F00, 0x4E86, 0x5417], utf8
        [0x5173, 0x95ED, 0x672C, 0x7FA4, 0x8003, 0x52E4, 0x63A8, 0x9001]],
      RawSlots = [rawSlot ''rule_topic'' ''rule_topic'' ''rule_topic_slot'' [] False],
      ContinueShapes = []\<rparr>"

definition op_subscription_rule_explain :: OperationManifest where
  "op_subscription_rule_explain =
     \<lparr>OM_Name = ''subscription.rule_explain'', AllowedActs = [ActRuleQuestion],
      OM_Domain = DomainSubscription, IsWrite = False, Risk = RiskRead,
      OM_Scope = ConversationScopeBoth, MinRole = 0,
      RequiredTrustedParams = params [''rule_topic''], OptionalTrustedParams = [],
      QueryShapes = [], Defaults = [], Recognition = recognition_subscription_rule_explain,
      OM_Workflow = Some singleTurnWorkflowSpec, Dispatch = ''rule_explain'',
      Resolvers = [(''rule_topic'', ''rule_topic_slot'')], Policies = [''conversation_scope''],
      Idempotency = \<lparr>KeyFields = [], Guarantee = GuaranteeUnset\<rparr>,
      WriteGuardName = ''not_required'', Executor = ''executor.subscription.rule_explain'',
      RendererName = ''response_renderer'', RendererKind = ResponseAnswer,
      Eval = \<lparr>CaseIDs = [''catalog-subscription-rule-explain''], ReplayTags = [''rule'',
        ''subscription'']\<rparr>,
      Capability = None\<rparr>"

definition recognition_schedule_query_my_schedule :: RecognitionSpec where
  "recognition_schedule_query_my_schedule =
     \<lparr>Recog_Description = utf8 [0x67E5, 0x8BE2, 0x5F53, 0x524D, 0x7528, 0x6237, 0x81EA, 0x5DF1,
        0x5728, 0x6307, 0x5B9A, 0x6559, 0x5B66, 0x5468, 0x7684, 0x8BFE, 0x7A0B, 0x5B89, 0x6392],
      Aliases = [],
      Examples = [utf8 [0x67E5, 0x6211, 0x7684, 0x8BFE, 0x8868], utf8 [0x6211, 0x8FD9, 0x5468,
        0x8BFE, 0x7A0B, 0x5B89, 0x6392, 0x770B, 0x4E00, 0x4E0B]],
      NegativeExamples = [utf8 [0x67E5, 0x8BE2, 0x5F20, 0x4E09, 0x7684, 0x8BFE, 0x8868], utf8
        [0x8BFE, 0x8868, 0x89C4, 0x5219, 0x662F, 0x4EC0, 0x4E48]],
      RawSlots = [rawSlot ''week'' ''week'' ''week_slot'' [] False],
      ContinueShapes = []\<rparr>"

definition op_schedule_query_my_schedule :: OperationManifest where
  "op_schedule_query_my_schedule =
     \<lparr>OM_Name = ''schedule.query_my_schedule'', AllowedActs = [ActReadQuery],
      OM_Domain = DomainSchedule, IsWrite = False, Risk = RiskRead,
      OM_Scope = ConversationScopeBoth, MinRole = 0, RequiredTrustedParams = params [''week''],
      OptionalTrustedParams = [], QueryShapes = [],
      Defaults = [(''week'', SlotDefaultCurrentWeek)],
      Recognition = recognition_schedule_query_my_schedule,
      OM_Workflow = Some singleTurnWorkflowSpec, Dispatch = ''schedule_request'',
      Resolvers = [(''week'', ''week_slot'')], Policies = [''conversation_scope''],
      Idempotency = \<lparr>KeyFields = [], Guarantee = GuaranteeUnset\<rparr>,
      WriteGuardName = ''not_required'', Executor = ''executor.schedule.query_my_schedule'',
      RendererName = ''response_renderer'', RendererKind = ResponseResult,
      Eval = \<lparr>CaseIDs = [''protocol-my-schedule''], ReplayTags = [''schedule'']\<rparr>,
      Capability = None\<rparr>"

definition recognition_schedule_query_user_schedule :: RecognitionSpec where
  "recognition_schedule_query_user_schedule =
     \<lparr>Recog_Description = utf8 [0x67E5, 0x8BE2, 0x6307, 0x5B9A, 0x7528, 0x6237, 0x5728, 0x6307,
        0x5B9A, 0x6559, 0x5B66, 0x5468, 0x7684, 0x8BFE, 0x7A0B, 0x5B89, 0x6392],
      Aliases = [],
      Examples = [utf8 [0x67E5, 0x8BE2, 0x4E00, 0x4E0B, 0x6768, 0x601D, 0x89C1, 0x7684, 0x8BFE,
        0x7A0B, 0x4FE1, 0x606F], utf8 [0x67E5, 0x5F20, 0x4E09, 0x672C, 0x5468, 0x8BFE, 0x8868]],
      NegativeExamples = [utf8 [0x67E5, 0x6211, 0x7684, 0x8BFE, 0x8868], utf8 [0x8BFE, 0x8868,
        0x89C4, 0x5219, 0x662F, 0x4EC0, 0x4E48]],
      RawSlots = [rawSlot ''user_name'' ''user_id'' ''user_resolver'' [] True, rawSlot ''user''
        ''user_id'' ''user_resolver'' [] False, rawSlot ''week'' ''week'' ''week_slot'' [] False],
      ContinueShapes = []\<rparr>"

definition op_schedule_query_user_schedule :: OperationManifest where
  "op_schedule_query_user_schedule =
     \<lparr>OM_Name = ''schedule.query_user_schedule'', AllowedActs = [ActReadQuery],
      OM_Domain = DomainSchedule, IsWrite = False, Risk = RiskRead,
      OM_Scope = ConversationScopeBoth, MinRole = 0,
      RequiredTrustedParams = params [''user_id'', ''week''], OptionalTrustedParams = [],
      QueryShapes = [], Defaults = [(''week'', SlotDefaultCurrentWeek)],
      Recognition = recognition_schedule_query_user_schedule,
      OM_Workflow = Some singleTurnWorkflowSpec, Dispatch = ''schedule_request'',
      Resolvers = [(''user_id'', ''user_resolver''), (''week'', ''week_slot'')],
      Policies = [''conversation_scope'', ''schedule_user_visibility''],
      Idempotency = \<lparr>KeyFields = [], Guarantee = GuaranteeUnset\<rparr>,
      WriteGuardName = ''not_required'', Executor = ''executor.schedule.query_user_schedule'',
      RendererName = ''response_renderer'', RendererKind = ResponseResult,
      Eval = \<lparr>CaseIDs = [''catalog-schedule-query-user-schedule''], ReplayTags =
        [''schedule'']\<rparr>,
      Capability = None\<rparr>"

definition operationCatalogEntries :: "OperationManifest list" where
  "operationCatalogEntries =
     [op_attendance_query_status,
      op_subscription_start,
      op_subscription_cancel,
      op_subscription_query_status,
      op_subscription_list_departments,
      op_system_describe_capability,
      op_attendance_describe_capability,
      op_schedule_describe_capability,
      op_subscription_describe_capability,
      op_manual_sign_describe_capability,
      op_attendance_rule_explain,
      op_schedule_rule_explain,
      op_subscription_rule_explain,
      op_schedule_query_my_schedule,
      op_schedule_query_user_schedule]"

lemmas catalog_manifests =
  op_attendance_query_status_def
  op_subscription_start_def
  op_subscription_cancel_def
  op_subscription_query_status_def
  op_subscription_list_departments_def
  op_system_describe_capability_def
  op_attendance_describe_capability_def
  op_schedule_describe_capability_def
  op_subscription_describe_capability_def
  op_manual_sign_describe_capability_def
  op_attendance_rule_explain_def
  op_schedule_rule_explain_def
  op_subscription_rule_explain_def
  op_schedule_query_my_schedule_def
  op_schedule_query_user_schedule_def

section \<open>Lookups\<close>

definition operationManifests :: "OperationManifest list" where
  "operationManifests = operationCatalogEntries"

definition operationNames :: "string list" where
  "operationNames = map OM_Name operationCatalogEntries"

definition lookupOperation :: "string \<Rightarrow> OperationManifest option" where
  "lookupOperation name = find (\<lambda>manifest. OM_Name manifest = name) operationCatalogEntries"

lemma lookup_subscription_start [simp]:
  "lookupOperation ''subscription.start'' = Some op_subscription_start"
  by (simp add: lookupOperation_def operationCatalogEntries_def catalog_manifests)

lemma lookup_subscription_cancel [simp]:
  "lookupOperation ''subscription.cancel'' = Some op_subscription_cancel"
  by (simp add: lookupOperation_def operationCatalogEntries_def catalog_manifests)

lemma lookup_subscription_list_departments [simp]:
  "lookupOperation ''subscription.list_departments'' = Some op_subscription_list_departments"
  by (simp add: lookupOperation_def operationCatalogEntries_def catalog_manifests)

definition actAllowed :: "userAct \<Rightarrow> userAct list \<Rightarrow> bool" where
  "actAllowed act allowed = list_ex (\<lambda>candidate. act = candidate) allowed"

definition operationNameForActDomain :: "userAct \<Rightarrow> businessDomain \<Rightarrow> string option" where
  "operationNameForActDomain act domain =
     (case find (\<lambda>m. OM_Domain m = domain \<and> actAllowed act (AllowedActs m))
        operationCatalogEntries of
        None \<Rightarrow> None | Some manifest \<Rightarrow> Some (OM_Name manifest))"

definition lookupWorkflowPrimaryOperation :: "workflowType \<Rightarrow> OperationManifest option" where
  "lookupWorkflowPrimaryOperation ty =
     find (\<lambda>manifest. case OM_Workflow manifest of
              None \<Rightarrow> False
            | Some w \<Rightarrow> WS_Type w = ty \<and> WS_Mode w = WorkflowModeMultiTurn)
       operationManifests"

definition workflowPrimaryOperationName :: "workflowType \<Rightarrow> string" where
  "workflowPrimaryOperationName ty =
     (case lookupWorkflowPrimaryOperation ty of Some manifest \<Rightarrow> OM_Name manifest | None \<Rightarrow> [])"

text \<open>The first auxiliary operation of the workflow whose executor is the wanted one.\<close>

definition workflowAuxiliaryOperationName :: "workflowType \<Rightarrow> string \<Rightarrow> string" where
  "workflowAuxiliaryOperationName ty executor =
     (case lookupWorkflowPrimaryOperation ty of
        None \<Rightarrow> []
      | Some primary \<Rightarrow>
          (case OM_Workflow primary of
             None \<Rightarrow> []
           | Some w \<Rightarrow>
               (case List.map_filter lookupOperation (WS_AuxiliaryOperations w) of ms \<Rightarrow>
                  (case find (\<lambda>m. Executor m = executor) ms of
                     Some m \<Rightarrow> OM_Name m | None \<Rightarrow> []))))"

definition rawSlotMapsTo :: "RawSlotSpec list \<Rightarrow> string \<Rightarrow> string \<Rightarrow> string \<Rightarrow> bool" where
  "rawSlotMapsTo specs rawName targetParam resolver =
     list_ex (\<lambda>s. RawName s = rawName \<and> TargetParam s = targetParam \<and> RS_Resolver s = resolver)
       specs"

definition lookupRawSlotSpec :: "RawSlotSpec list \<Rightarrow> string \<Rightarrow> RawSlotSpec option" where
  "lookupRawSlotSpec specs rawName = find (\<lambda>s. RawName s = rawName) specs"

definition rawSlotDeclared :: "RawSlotSpec list \<Rightarrow> string \<Rightarrow> bool" where
  "rawSlotDeclared specs rawName = (lookupRawSlotSpec specs rawName \<noteq> None)"

section \<open>Capabilities\<close>

record capabilityContext =
  Ctx_UserRole :: int
  Ctx_ConversationType :: string

record CapabilityEntry =
  OperationScope :: string
  CE_Title :: string
  CE_Description :: string
  CE_MinRole :: int
  CE_ConversationScope :: conversationScope
  CE_AnswerOnly :: bool

definition capabilityCatalogEntries :: "CapabilityEntry list" where
  "capabilityCatalogEntries =
     List.map_filter (\<lambda>manifest.
       (case Capability manifest of
          None \<Rightarrow> None
        | Some c \<Rightarrow> Some \<lparr>OperationScope = OM_Name manifest, CE_Title = Title c,
            CE_Description = Description c, CE_MinRole = MinRole manifest,
            CE_ConversationScope = OM_Scope manifest, CE_AnswerOnly = AnswerOnly c\<rparr>))
       operationManifests"

definition lookupCapability :: "string \<Rightarrow> CapabilityEntry option" where
  "lookupCapability operation = find (\<lambda>e. OperationScope e = operation) capabilityCatalogEntries"

definition matchesConversationScope :: "conversationScope \<Rightarrow> string \<Rightarrow> bool" where
  "matchesConversationScope scope conversationType =
     (case scope of
        ConversationScopeBoth \<Rightarrow> True
      | ConversationScopeUnset \<Rightarrow> True
      | ConversationScopeDM \<Rightarrow> conversationType \<noteq> ''2''
      | ConversationScopeGroup \<Rightarrow> conversationType = ''2''
      | OtherScope s \<Rightarrow> False)"

definition capabilityEntriesFor :: "capabilityContext \<Rightarrow> CapabilityEntry list" where
  "capabilityEntriesFor ctx =
     filter (\<lambda>entry. \<not> Ctx_UserRole ctx < CE_MinRole entry
               \<and> matchesConversationScope (CE_ConversationScope entry) (Ctx_ConversationType ctx))
       capabilityCatalogEntries"

section \<open>Bindings\<close>

datatype executorBinding =
    executeCapability | executeAttendanceQuery | executeRuleExplain | executeMySchedule
  | executeUserSchedule | executeSubscriptionStart | executeSubscriptionCancel
  | executeSubscriptionStatus | executeListDepartments

definition operationExecutorBindings :: "executorBinding goMap" where
  "operationExecutorBindings =
     [(''executor.system.describe_capability'', executeCapability),
      (''executor.attendance.query_status'', executeAttendanceQuery),
      (''executor.attendance.describe_capability'', executeCapability),
      (''executor.attendance.rule_explain'', executeRuleExplain),
      (''executor.schedule.query_my_schedule'', executeMySchedule),
      (''executor.schedule.query_user_schedule'', executeUserSchedule),
      (''executor.schedule.describe_capability'', executeCapability),
      (''executor.schedule.rule_explain'', executeRuleExplain),
      (''executor.subscription.start'', executeSubscriptionStart),
      (''executor.subscription.cancel'', executeSubscriptionCancel),
      (''executor.subscription.query_status'', executeSubscriptionStatus),
      (''executor.subscription.list_departments'', executeListDepartments),
      (''executor.subscription.describe_capability'', executeCapability),
      (''executor.subscription.rule_explain'', executeRuleExplain),
      (''executor.manual_sign.describe_capability'', executeCapability)]"

definition lookupOperationExecutorBinding :: "string \<Rightarrow> executorBinding option" where
  "lookupOperationExecutorBinding name = map_of operationExecutorBindings name"

datatype dispatchBinding =
    dispatchAttendance | dispatchSubscriptionWorkflow | dispatchRuntimeConversation
  | dispatchCapability | dispatchRuleExplain | dispatchSchedule

definition protocolLiveDispatchBindings :: "dispatchBinding goMap" where
  "protocolLiveDispatchBindings =
     [(''attendance_request'', dispatchAttendance),
      (''subscription_workflow'', dispatchSubscriptionWorkflow),
      (''runtime_conversation'', dispatchRuntimeConversation),
      (''capability_answer'', dispatchCapability),
      (''rule_explain'', dispatchRuleExplain),
      (''schedule_request'', dispatchSchedule)]"

definition lookupProtocolLiveDispatch :: "string \<Rightarrow> dispatchBinding option" where
  "lookupProtocolLiveDispatch name = map_of protocolLiveDispatchBindings name"

end
