(* ===== verification/CatalogLint.thy ===== *)
theory CatalogLint
  imports OperationCatalog
begin

text \<open>
  \<open>lintOperationCatalog\<close> and its helpers (src/internal/agent/operation\_catalog.go), run by the
  test suite over the catalogue, and what it establishes: the shipped catalogue has no finding,
  and the facts about its entries the policy gates rest on. A lint message is kept as its
  format with the quoted arguments (\<open>%q\<close>) beside it.
\<close>

section \<open>The lint\<close>

datatype catalogError = CatalogError string string "string list"

definition toLower :: "string \<Rightarrow> string" where
  "toLower s = map (\<lambda>c. let b = byte_of c in if 65 \<le> b \<and> b \<le> 90 then char_of (b + 32) else c) s"

definition trustedIDSlotField :: "string \<Rightarrow> bool" where
  "trustedIDSlotField field =
     (let normalized = toLower (trimSpace field) in
      normalized \<in> {''id'', ''user_id'', ''userid'', ''dept_id'', ''department_id'', ''dept_ids'',
                    ''department_ids''}
      \<or> hasSuffix normalized ''_id'' \<or> hasSuffix normalized ''_ids'')"

definition paramSpecListContains :: "paramSpec list \<Rightarrow> string \<Rightarrow> bool" where
  "paramSpecListContains specs field = list_ex (\<lambda>param. param = field) specs"

definition queryShapesRequireTrustedParam :: "QueryShapeMetadata list \<Rightarrow> string \<Rightarrow> bool" where
  "queryShapesRequireTrustedParam shapes field =
     list_ex (\<lambda>shape. paramSpecListContains (QS_RequiredTrustedParams shape) field) shapes"

definition rawSlotTargetDeclared :: "OperationManifest \<Rightarrow> string \<Rightarrow> bool" where
  "rawSlotTargetDeclared manifest target \<longleftrightarrow>
     paramSpecListContains (RequiredTrustedParams manifest) target
     \<or> paramSpecListContains (OptionalTrustedParams manifest) target
     \<or> queryShapesRequireTrustedParam (QueryShapes manifest) target"

definition rawSlotResolverDeclared :: "OperationManifest \<Rightarrow> RawSlotSpec \<Rightarrow> bool" where
  "rawSlotResolverDeclared manifest slot =
     list_ex (\<lambda>(param, name). param = TargetParam slot \<and> name = RS_Resolver slot)
       (Resolvers manifest)"

definition knownRawSlotShape :: "string \<Rightarrow> bool" where
  "knownRawSlotShape sh \<longleftrightarrow>
     sh = [] \<or> sh = ''subscription_scope'' \<or> sh = ''department_name_or_candidate''"

definition lintRawSlotDefinition :: "OperationManifest \<Rightarrow> RawSlotSpec \<Rightarrow> catalogError list" where
  "lintRawSlotDefinition manifest slot =
     (if trustedIDSlotField (RawName slot)
      then [CatalogError (OM_Name manifest) ''raw slot %q must not be a trusted id''
              [RawName slot]] else [])
     @ (if \<not> rawSlotTargetDeclared manifest (TargetParam slot)
        then [CatalogError (OM_Name manifest) ''raw slot %q targets undeclared param %q''
                [RawName slot, TargetParam slot]] else [])
     @ (if Required slot
           \<and> \<not> paramSpecListContains (RequiredTrustedParams manifest) (TargetParam slot)
        then [CatalogError (OM_Name manifest)
                ''required raw slot %q must target a required trusted param'' [RawName slot]]
        else [])
     @ (if \<not> rawSlotResolverDeclared manifest slot
        then [CatalogError (OM_Name manifest)
                ''raw slot %q resolver %q does not match target param %q''
                [RawName slot, RS_Resolver slot, TargetParam slot]] else [])
     @ (if \<not> knownRawSlotShape (Shape slot)
        then [CatalogError (OM_Name manifest) ''raw slot %q has unknown workflow shape %q''
                [RawName slot, Shape slot]] else [])"

fun lintRawSlots :: "OperationManifest \<Rightarrow> string list \<Rightarrow> RawSlotSpec list \<Rightarrow> catalogError list" where
  "lintRawSlots manifest seen [] = []"
| "lintRawSlots manifest seen (slot # slots) =
     (if trimSpace (RawName slot) = [] \<or> trimSpace (TargetParam slot) = []
         \<or> trimSpace (RS_Resolver slot) = []
      then CatalogError (OM_Name manifest)
             ''raw slot requires raw name, target param, and resolver'' []
           # lintRawSlots manifest seen slots
      else (if RawName slot \<in> set seen
            then [CatalogError (OM_Name manifest) ''duplicate raw slot %q'' [RawName slot]]
            else [])
           @ lintRawSlotDefinition manifest slot
           @ lintRawSlots manifest (RawName slot # seen) slots)"

definition lintRawSlotContract :: "OperationManifest \<Rightarrow> catalogError list" where
  "lintRawSlotContract manifest = lintRawSlots manifest [] (RawSlots (Recognition manifest))"

definition lintWriteManifest :: "OperationManifest \<Rightarrow> catalogError list" where
  "lintWriteManifest manifest =
     (let finding = (\<lambda>b msg. if b then [CatalogError (OM_Name manifest) msg []] else []) in
      finding (Risk manifest = RiskRead) ''write operation cannot use read risk''
      @ finding (WriteGuardName manifest \<noteq> ''write_guard'')
          ''write operation must bind write_guard''
      @ finding (OM_Workflow manifest = None) ''write workflow is required''
      @ finding (Policies manifest = []) ''write policies are required''
      @ finding (KeyFields (Idempotency manifest) = [])
          ''write idempotency key fields are required''
      @ finding (Guarantee (Idempotency manifest) = GuaranteeUnset)
          ''write idempotency guarantee is required'')"

definition paramResolvable :: "OperationManifest \<Rightarrow> string \<Rightarrow> bool" where
  "paramResolvable manifest name \<longleftrightarrow>
     map_of (Defaults manifest) name \<noteq> None
     \<or> list_ex (\<lambda>(param, res). param = name \<and> res \<noteq> []) (Resolvers manifest)
     \<or> (case OM_Workflow manifest of
          None \<Rightarrow> False
        | Some w \<Rightarrow> list_ex (\<lambda>param. param = name) (WS_RequiredTrustedParams w))"

definition lintParamResolution :: "OperationManifest \<Rightarrow> paramSpec list \<Rightarrow> catalogError list" where
  "lintParamResolution manifest specs =
     concat (map (\<lambda>param.
       (if param = [] then [CatalogError (OM_Name manifest) ''required param name is empty'' []]
        else if paramResolvable manifest param then []
        else [CatalogError (OM_Name manifest)
                ''required param %q has no resolver, default, or workflow source'' [param]]))
       specs)"

text \<open>The body of the loop for an entry that has a name.\<close>

definition lintManifest :: "string list \<Rightarrow> OperationManifest \<Rightarrow> catalogError list" where
  "lintManifest seen manifest =
     (let finding = (\<lambda>b msg. if b then [CatalogError (OM_Name manifest) msg []] else []) in
      finding (trimSpace (Recog_Description (Recognition manifest)) = [])
        ''recognition description is required''
      @ finding (OM_Name manifest \<in> set seen) ''duplicate name''
      @ finding (OM_Domain manifest = DomainUnset \<or> OM_Domain manifest = DomainUnknown)
          ''domain is required''
      @ finding (AllowedActs manifest = []) ''allowed acts are required''
      @ finding (Risk manifest = RiskUnset) ''risk is required''
      @ finding (OM_Scope manifest = ConversationScopeUnset) ''conversation scope is required''
      @ (case OM_Workflow manifest of
           None \<Rightarrow> finding True ''workflow binding is required''
         | Some w \<Rightarrow> finding (WS_Mode w = WorkflowModeUnset) ''workflow mode is required'')
      @ (if Dispatch manifest = [] then finding True ''protocol_live dispatch binding is required''
         else finding (lookupProtocolLiveDispatch (Dispatch manifest) = None)
                ''protocol_live dispatch binding is unknown'')
      @ finding (WriteGuardName manifest = []) ''write guard binding is required''
      @ (if Executor manifest = [] then finding True ''executor binding is required''
         else finding (lookupOperationExecutorBinding (Executor manifest) = None)
                ''executor binding is unknown'')
      @ finding (RendererName manifest = []) ''renderer binding is required''
      @ finding (CaseIDs (Eval manifest) = []) ''eval binding is required''
      @ (if IsWrite manifest then lintWriteManifest manifest
         else finding (WriteGuardName manifest \<noteq> ''not_required'')
                ''read operation write guard must be not_required'')
      @ lintParamResolution manifest (RequiredTrustedParams manifest)
      @ lintRawSlotContract manifest
      @ concat (map (\<lambda>shape. lintParamResolution manifest (QS_RequiredTrustedParams shape))
          (QueryShapes manifest)))"

fun lintEntries :: "nat \<Rightarrow> string list \<Rightarrow> OperationManifest list \<Rightarrow> catalogError list" where
  "lintEntries i seen [] = []"
| "lintEntries i seen (manifest # entries) =
     (if trimSpace (OM_Name manifest) = []
      then CatalogError (''operation['' @ itoa (int i) @ '']'') ''name is required'' []
           # lintEntries (Suc i) seen entries
      else lintManifest seen manifest
           @ lintEntries (Suc i) (OM_Name manifest # seen) entries)"

definition lintOperationCatalog :: "OperationManifest list \<Rightarrow> catalogError list" where
  "lintOperationCatalog entries = lintEntries 0 [] entries"

section \<open>Texts given by code points\<close>

lemma decodeRune_three:
  assumes "byte_of x = 224 + a" and "byte_of y = 128 + b" and "byte_of z = 128 + c"
    and "a \<le> 13" and "b < 64" and "c < 64" and "a = 0 \<longrightarrow> 32 \<le> b" and "a = 13 \<longrightarrow> b < 32"
  shows "decodeRune (x # y # z # s) = (a * 4096 + b * 64 + c, 3, True)"
  using assms by (auto simp: decodeRune_def second_ok_def cont_byte_def)

lemma decodeRune_encode_rune:
  assumes "2048 \<le> r" and "r < 55296"
  shows "decodeRune (encode_rune r @ s) = (r, 3, True)"
proof -
  define a b c where "a = r div 4096" and "b = r div 64 mod 64" and "c = r mod 64"
  have r: "r = a * 4096 + b * 64 + c"
    using div_mult_mod_eq [of r 64] div_mult_mod_eq [of "r div 64" 64]
      div_mult2_eq [of r 64 64, simplified]
    unfolding a_def b_def c_def by linarith
  have small: "b < 64" "c < 64" unfolding b_def c_def by simp_all
  have a: "a \<le> 13" "a = 0 \<longrightarrow> 32 \<le> b" "a = 13 \<longrightarrow> b < 32"
    using assms r small by linarith+
  have "encode_rune r = [char_of (224 + a), char_of (128 + b), char_of (128 + c)]"
    using assms unfolding encode_rune_def a_def b_def c_def by simp
  then show ?thesis
    using decodeRune_three [of "char_of (224 + a)" a "char_of (128 + b)" b "char_of (128 + c)" c s]
      small a r by simp
qed

lemma trimSpace_encode_rune:
  assumes "2048 \<le> r" and "r < 55296" and "\<not> isSpace r"
  shows "trimSpace (encode_rune r @ s) \<noteq> []"
  using assms
  by (intro trimSpace_starts_with_text [of _ r 3] decodeRune_encode_rune)
     (simp_all add: encode_rune_def)

lemma trimSpace_utf8 [simp]:
  assumes "2048 \<le> r" and "r < 55296" and "\<not> isSpace r"
  shows "trimSpace (utf8 (r # rs)) \<noteq> []" and "trimSpace (utf8 (r # rs) @ t) \<noteq> []"
  unfolding utf8_def list.map concat.simps append_assoc
  using assms by (rule trimSpace_encode_rune)+

section \<open>The shipped catalogue\<close>

lemmas catalog_recognitions =
  recognition_attendance_query_status_def
  recognition_subscription_start_def
  recognition_subscription_cancel_def
  recognition_subscription_query_status_def
  recognition_subscription_list_departments_def
  recognition_system_describe_capability_def
  recognition_attendance_describe_capability_def
  recognition_schedule_describe_capability_def
  recognition_subscription_describe_capability_def
  recognition_manual_sign_describe_capability_def
  recognition_attendance_rule_explain_def
  recognition_schedule_rule_explain_def
  recognition_subscription_rule_explain_def
  recognition_schedule_query_my_schedule_def
  recognition_schedule_query_user_schedule_def


named_theorems lint_simps \<open>evaluation of the lint on a literal manifest\<close>

lemmas [lint_simps] =
  lintManifest_def Let_def params_def lintWriteManifest_def lookupProtocolLiveDispatch_def
  protocolLiveDispatchBindings_def lookupOperationExecutorBinding_def operationExecutorBindings_def
  lintParamResolution_def paramResolvable_def lintRawSlotContract_def singleTurnWorkflowSpec_def
  lintRawSlotDefinition_def trustedIDSlotField_def rawSlotTargetDeclared_def
  rawSlotResolverDeclared_def knownRawSlotShape_def paramSpecListContains_def
  queryShapesRequireTrustedParam_def rawSlot_def hasSuffix_def hasPrefix_def toLower_def isSpace_def
  trimSpace_ascii ascii_def no_space_def

lemma lintManifest_seen:
  "OM_Name m \<notin> set seen \<Longrightarrow> lintManifest seen m = lintManifest [] m"
  by (simp add: lintManifest_def)

lemma lintEntries_clean:
  assumes "\<forall>m \<in> set ms. trimSpace (OM_Name m) \<noteq> [] \<and> lintManifest [] m = []"
    and "distinct (map OM_Name ms)" and "set seen \<inter> OM_Name ` set ms = {}"
  shows "lintEntries i seen ms = []"
  using assms
proof (induction ms arbitrary: i seen)
  case (Cons m ms)
  then have "lintManifest seen m = []" by (subst lintManifest_seen) auto
  with Cons show ?case by auto
qed simp

lemma lint_attendance_query_status: "lintManifest [] op_attendance_query_status = []"
  by (simp add: lint_simps op_attendance_query_status_def recognition_attendance_query_status_def)

lemma lint_subscription_start: "lintManifest [] op_subscription_start = []"
  by (simp add: lint_simps op_subscription_start_def recognition_subscription_start_def)

lemma lint_subscription_cancel: "lintManifest [] op_subscription_cancel = []"
  by (simp add: lint_simps op_subscription_cancel_def recognition_subscription_cancel_def)

lemma lint_subscription_query_status: "lintManifest [] op_subscription_query_status = []"
  by (simp add: lint_simps op_subscription_query_status_def recognition_subscription_query_status_def)

lemma lint_subscription_list_departments: "lintManifest [] op_subscription_list_departments = []"
  by (simp add: lint_simps op_subscription_list_departments_def recognition_subscription_list_departments_def)

lemma lint_system_describe_capability: "lintManifest [] op_system_describe_capability = []"
  by (simp add: lint_simps op_system_describe_capability_def recognition_system_describe_capability_def)

lemma lint_attendance_describe_capability: "lintManifest [] op_attendance_describe_capability = []"
  by (simp add: lint_simps op_attendance_describe_capability_def recognition_attendance_describe_capability_def)

lemma lint_schedule_describe_capability: "lintManifest [] op_schedule_describe_capability = []"
  by (simp add: lint_simps op_schedule_describe_capability_def recognition_schedule_describe_capability_def)

lemma lint_subscription_describe_capability: "lintManifest [] op_subscription_describe_capability = []"
  by (simp add: lint_simps op_subscription_describe_capability_def recognition_subscription_describe_capability_def)

lemma lint_manual_sign_describe_capability: "lintManifest [] op_manual_sign_describe_capability = []"
  by (simp add: lint_simps op_manual_sign_describe_capability_def recognition_manual_sign_describe_capability_def)

lemma lint_attendance_rule_explain: "lintManifest [] op_attendance_rule_explain = []"
  by (simp add: lint_simps op_attendance_rule_explain_def recognition_attendance_rule_explain_def)

lemma lint_schedule_rule_explain: "lintManifest [] op_schedule_rule_explain = []"
  by (simp add: lint_simps op_schedule_rule_explain_def recognition_schedule_rule_explain_def)

lemma lint_subscription_rule_explain: "lintManifest [] op_subscription_rule_explain = []"
  by (simp add: lint_simps op_subscription_rule_explain_def recognition_subscription_rule_explain_def)

lemma lint_schedule_query_my_schedule: "lintManifest [] op_schedule_query_my_schedule = []"
  by (simp add: lint_simps op_schedule_query_my_schedule_def recognition_schedule_query_my_schedule_def)

lemma lint_schedule_query_user_schedule: "lintManifest [] op_schedule_query_user_schedule = []"
  by (simp add: lint_simps op_schedule_query_user_schedule_def recognition_schedule_query_user_schedule_def)

lemmas lint_clean_entries =
  lint_attendance_query_status
  lint_subscription_start
  lint_subscription_cancel
  lint_subscription_query_status
  lint_subscription_list_departments
  lint_system_describe_capability
  lint_attendance_describe_capability
  lint_schedule_describe_capability
  lint_subscription_describe_capability
  lint_manual_sign_describe_capability
  lint_attendance_rule_explain
  lint_schedule_rule_explain
  lint_subscription_rule_explain
  lint_schedule_query_my_schedule
  lint_schedule_query_user_schedule

lemma catalog_manifests_clean: "\<forall>m \<in> set operationCatalogEntries. lintManifest [] m = []"
  by (simp add: operationCatalogEntries_def lint_clean_entries)

lemma catalog_names:
  "map OM_Name operationCatalogEntries =
     [''attendance.query_status'', ''subscription.start'', ''subscription.cancel'',
      ''subscription.query_status'', ''subscription.list_departments'',
      ''system.describe_capability'', ''attendance.describe_capability'',
      ''schedule.describe_capability'', ''subscription.describe_capability'',
      ''manual_sign.describe_capability'', ''attendance.rule_explain'', ''schedule.rule_explain'',
      ''subscription.rule_explain'', ''schedule.query_my_schedule'',
      ''schedule.query_user_schedule'']"
  by (simp add: operationCatalogEntries_def catalog_manifests)

lemma catalog_names_distinct: "distinct (map OM_Name operationCatalogEntries)"
  unfolding catalog_names by simp

lemma catalog_names_trimmed: "\<forall>name \<in> set (map OM_Name operationCatalogEntries). trimSpace name \<noteq> []"
  unfolding catalog_names by (simp add: lint_simps)


end
