(* ===== verification/PolicyGate.thy ===== *)
theory PolicyGate
  imports OperationCatalog
begin

text \<open>
  The gate every classified message passes before anything is resolved or executed
  (src/internal/agent/policy\_gate.go, \<open>prePolicyGate\<close>): which act may use which operation, when
  an active workflow is continued or interrupted, and the role and conversation limits of the
  catalogue. The resource gate of the same file is in the theory of the execution gate.
\<close>

record ProtocolValidationResult =
  AllowExecution :: bool
  ValidationCode :: string
  UseActiveWorkflow :: bool
  InterruptActiveWorkflow :: bool
  VR_ResponseKind :: responseKind

record PrePolicyGateInput =
  PI_Draft :: ProtocolDraft
  PI_ActiveWorkflow :: "protocolWorkflowContext option"
  PI_ConversationType :: string
  PI_UserRole :: int
  PI_HasUserContext :: bool

definition lowConfidenceWriteThreshold :: rat where
  "lowConfidenceWriteThreshold = 3 / 4"

text \<open>A composite literal with the fields it leaves out at their zero values.\<close>

definition refusal :: "string \<Rightarrow> bool \<Rightarrow> bool \<Rightarrow> responseKind \<Rightarrow> ProtocolValidationResult" where
  "refusal code use stop kind =
     \<lparr>AllowExecution = False, ValidationCode = code, UseActiveWorkflow = use,
      InterruptActiveWorkflow = stop, VR_ResponseKind = kind\<rparr>"

definition approval :: "string \<Rightarrow> bool \<Rightarrow> bool \<Rightarrow> responseKind \<Rightarrow> ProtocolValidationResult" where
  "approval code use stop kind = (refusal code use stop kind)\<lparr>AllowExecution := True\<rparr>"

section \<open>Helpers\<close>

definition policyExplicitNewRequest :: "userAct \<Rightarrow> bool" where
  "policyExplicitNewRequest act \<longleftrightarrow>
     act \<in> {ActHelp, ActCapabilityQuestion, ActRuleQuestion, ActReadQuery, ActWriteRequest}"

definition workflowAllowsAuxiliaryOperation :: "workflowType \<Rightarrow> string \<Rightarrow> bool" where
  "workflowAllowsAuxiliaryOperation ty operation =
     (case lookupOperation ty of
        None \<Rightarrow> False
      | Some manifest \<Rightarrow>
          (case OM_Workflow manifest of
             None \<Rightarrow> False
           | Some w \<Rightarrow> list_ex (\<lambda>auxiliary. auxiliary = operation) (WS_AuxiliaryOperations w)))"

definition hasMissingField :: "string list \<Rightarrow> string \<Rightarrow> bool" where
  "hasMissingField present target = list_ex (\<lambda>field. field = target) present"

definition workflowParamMissingAliases :: "string \<Rightarrow> string list" where
  "workflowParamMissingAliases param = (if param = ''dept_ids'' then [''dept_names''] else [])"

definition workflowHasMissingParam :: "string list \<Rightarrow> string \<Rightarrow> bool" where
  "workflowHasMissingParam present param \<longleftrightarrow>
     hasMissingField present param
     \<or> list_ex (\<lambda>alias. hasMissingField present alias) (workflowParamMissingAliases param)"

definition workflowContinueTargetsActiveWorkflow :: "string \<Rightarrow> string \<Rightarrow> bool" where
  "workflowContinueTargetsActiveWorkflow operation ty \<longleftrightarrow>
     operation = ty \<or> workflowAllowsAuxiliaryOperation ty operation"

definition workflowContinueShapeAllowed ::
  "string \<Rightarrow> protocolWorkflowContext option \<Rightarrow> bool" where
  "workflowContinueShapeAllowed operation workflow =
     (case workflow of
        None \<Rightarrow> False
      | Some flow \<Rightarrow>
          if workflowAllowsAuxiliaryOperation (PW_Type flow) operation then True
          else if operation \<noteq> PW_Type flow then False
          else (case lookupOperation (PW_Type flow) of
                  None \<Rightarrow> False
                | Some manifest \<Rightarrow>
                    (case OM_Workflow manifest of
                       None \<Rightarrow> False
                     | Some w \<Rightarrow>
                         list_ex (\<lambda>param. workflowHasMissingParam (PW_MissingFields flow) param)
                           (WS_RequiredTrustedParams w))))"

definition conversationScopeAllowed :: "conversationScope \<Rightarrow> string \<Rightarrow> bool" where
  "conversationScopeAllowed scope conversationType =
     (case scope of
        ConversationScopeBoth \<Rightarrow> True
      | ConversationScopeUnset \<Rightarrow> True
      | ConversationScopeGroup \<Rightarrow> trimSpace conversationType = ''2''
      | ConversationScopeDM \<Rightarrow> trimSpace conversationType \<noteq> ''2''
      | OtherScope s \<Rightarrow> False)"

text \<open>\<^const>\<open>Some\<close> is \<open>denied = true\<close>.\<close>

definition enforcePreUserPolicy ::
  "PrePolicyGateInput \<Rightarrow> OperationManifest \<Rightarrow> bool \<Rightarrow> ProtocolValidationResult option" where
  "enforcePreUserPolicy input metadata interrupt =
     (if \<not> PI_HasUserContext input then None
      else if \<not> conversationScopeAllowed (OM_Scope metadata) (PI_ConversationType input) then
        Some (refusal ''conversation_scope_denied'' False interrupt ResponseRefuse)
      else if PI_UserRole input < MinRole metadata then
        Some (refusal ''role_denied'' False interrupt ResponseRefuse)
      else None)"

definition catalogResponseKind :: "OperationManifest \<Rightarrow> responseKind \<Rightarrow> responseKind" where
  "catalogResponseKind metadata fallback =
     (if RendererKind metadata \<noteq> ResponseUnset then RendererKind metadata else fallback)"

section \<open>The gate\<close>

definition validateWorkflowContinue :: "PrePolicyGateInput \<Rightarrow> ProtocolValidationResult" where
  "validateWorkflowContinue input =
     (let draft = PI_Draft input in
      case PI_ActiveWorkflow input of
        None \<Rightarrow> refusal ''workflow_missing'' False False ResponseClarify
      | Some flow \<Rightarrow>
          if \<not> workflowContinueTargetsActiveWorkflow (Operation draft) (PW_Type flow) then
            refusal ''workflow_operation_mismatch'' True False ResponseRefuse
          else (case lookupOperation (Operation draft) of
            None \<Rightarrow> refusal ''operation_not_allowed'' True False ResponseRefuse
          | Some metadata \<Rightarrow>
              if Domain draft \<noteq> OM_Domain metadata then
                refusal ''domain_operation_mismatch'' True False ResponseRefuse
              else if \<not> workflowContinueShapeAllowed (Operation draft) (Some flow) then
                refusal ''workflow_operation_mismatch'' True False ResponseRefuse
              else (case enforcePreUserPolicy input metadata False of
                Some result \<Rightarrow> result\<lparr>UseActiveWorkflow := True\<rparr>
              | None \<Rightarrow> approval ''workflow_continue_allowed'' True False
                          (catalogResponseKind metadata ResponseResult))))"

text \<open>The \<open>switch draft.Act\<close> at the end of \<open>Validate\<close>.\<close>

definition validateByAct ::
  "PrePolicyGateInput \<Rightarrow> OperationManifest \<Rightarrow> bool \<Rightarrow> ProtocolValidationResult" where
  "validateByAct input metadata interrupt =
     (let draft = PI_Draft input; kind = catalogResponseKind metadata ResponseResult;
          denied = enforcePreUserPolicy input metadata interrupt
      in case Act draft of
        ActCapabilityQuestion \<Rightarrow>
          (case denied of Some result \<Rightarrow> result
           | None \<Rightarrow>
               if Capability metadata = None
               then refusal ''act_operation_mismatch'' False False ResponseRefuse
               else refusal ''capability_non_executable'' False interrupt kind)
      | ActRuleQuestion \<Rightarrow>
          (case denied of Some result \<Rightarrow> result
           | None \<Rightarrow> refusal ''rule_non_executable'' False interrupt kind)
      | ActHelp \<Rightarrow>
          (case denied of Some result \<Rightarrow> result
           | None \<Rightarrow>
               if Capability metadata = None \<or> OM_Domain metadata \<noteq> DomainSystem
               then refusal ''act_operation_mismatch'' False False ResponseRefuse
               else refusal ''help_non_executable'' False interrupt kind)
      | ActReadQuery \<Rightarrow>
          (case denied of Some result \<Rightarrow> result
           | None \<Rightarrow> approval ''allowed_read_query'' False interrupt kind)
      | ActWriteRequest \<Rightarrow>
          if Confidence draft < lowConfidenceWriteThreshold
          then refusal ''low_confidence_write'' False False ResponseClarify
          else (case denied of Some result \<Rightarrow> result
                | None \<Rightarrow> approval ''allowed_write_request'' False interrupt kind)
      | _ \<Rightarrow> refusal ''unsupported_act'' False False ResponseRefuse)"

definition prePolicyGate_Validate :: "PrePolicyGateInput \<Rightarrow> ProtocolValidationResult" where
  "prePolicyGate_Validate input =
     (let draft = PI_Draft input; active = PI_ActiveWorkflow input in
      if Act draft = ActUnknown then refusal ''unknown_intent'' False False ResponseClarify
      else if Act draft = ActWorkflowContinue then validateWorkflowContinue input
      else if Act draft = ActWorkflowCancel then
        (if active = None then refusal ''workflow_missing'' False False ResponseClarify
         else refusal ''workflow_cancel_non_executable'' True False ResponseResult)
      else
        let interrupt = (active \<noteq> None \<and> policyExplicitNewRequest (Act draft)) in
        case lookupOperation (Operation draft) of
          None \<Rightarrow>
            refusal ''operation_not_allowed'' False
              (interrupt \<and> \<not> (Act draft = ActWriteRequest
                             \<and> Confidence draft < lowConfidenceWriteThreshold)) ResponseRefuse
        | Some metadata \<Rightarrow>
            if Domain draft \<noteq> OM_Domain metadata then
              refusal ''domain_operation_mismatch'' False interrupt ResponseRefuse
            else if Act draft = ActReadQuery \<and> IsWrite metadata then
              refusal ''read_query_cannot_write'' False interrupt ResponseRefuse
            else if Act draft = ActWriteRequest \<and> \<not> IsWrite metadata then
              refusal ''write_request_cannot_read'' False interrupt ResponseRefuse
            else if \<not> actAllowed (Act draft) (AllowedActs metadata) then
              refusal ''act_operation_mismatch'' False interrupt ResponseRefuse
            else validateByAct input metadata interrupt)"

definition catalogValidator_Validate ::
  "ProtocolDraft \<Rightarrow> protocolWorkflowContext option \<Rightarrow> ProtocolValidationResult" where
  "catalogValidator_Validate draft active =
     prePolicyGate_Validate \<lparr>PI_Draft = draft, PI_ActiveWorkflow = active,
       PI_ConversationType = [], PI_UserRole = 0, PI_HasUserContext = False\<rparr>"

definition validateProtocol ::
  "ProtocolDraft \<Rightarrow> protocolWorkflowContext option \<Rightarrow> ProtocolValidationResult" where
  "validateProtocol draft active = catalogValidator_Validate draft active"

section \<open>What the gate lets through\<close>

lemma lookupOperation_in:
  "lookupOperation name = Some m \<Longrightarrow> m \<in> set operationCatalogEntries \<and> OM_Name m = name"
  unfolding lookupOperation_def by (auto simp: find_Some_iff)

lemma refusal_simps [simp]:
  "AllowExecution (refusal c u i k) = False" "ValidationCode (refusal c u i k) = c"
  "UseActiveWorkflow (refusal c u i k) = u" "InterruptActiveWorkflow (refusal c u i k) = i"
  "VR_ResponseKind (refusal c u i k) = k"
  by (simp_all add: refusal_def)

lemma approval_simps [simp]:
  "AllowExecution (approval c u i k) = True" "ValidationCode (approval c u i k) = c"
  "UseActiveWorkflow (approval c u i k) = u" "InterruptActiveWorkflow (approval c u i k) = i"
  "VR_ResponseKind (approval c u i k) = k"
  by (simp_all add: approval_def refusal_def)

lemma enforcePreUserPolicy_None:
  "enforcePreUserPolicy input m i = None \<longleftrightarrow>
     (PI_HasUserContext input \<longrightarrow>
        conversationScopeAllowed (OM_Scope m) (PI_ConversationType input)
        \<and> MinRole m \<le> PI_UserRole input)"
  by (auto simp: enforcePreUserPolicy_def)

lemma enforcePreUserPolicy_Some:
  "enforcePreUserPolicy input m i = Some r \<Longrightarrow> \<not> AllowExecution r"
  by (auto simp: enforcePreUserPolicy_def split: if_splits)

text \<open>A draft the gate executes outside a workflow continuation.\<close>

lemma validateByAct_allows:
  assumes "AllowExecution (validateByAct input m i)"
  shows "enforcePreUserPolicy input m i = None"
    and "Act (PI_Draft input) = ActReadQuery
         \<or> (Act (PI_Draft input) = ActWriteRequest
            \<and> lowConfidenceWriteThreshold \<le> Confidence (PI_Draft input))"
  using assms
  by (auto simp: validateByAct_def Let_def not_less dest: enforcePreUserPolicy_Some
      split: userAct.splits option.splits if_splits)

lemma validateWorkflowContinue_allows:
  assumes "AllowExecution (validateWorkflowContinue input)"
  shows "\<exists>flow m. PI_ActiveWorkflow input = Some flow
           \<and> lookupOperation (Operation (PI_Draft input)) = Some m
           \<and> OM_Domain m = Domain (PI_Draft input)
           \<and> workflowContinueTargetsActiveWorkflow (Operation (PI_Draft input)) (PW_Type flow)
           \<and> workflowContinueShapeAllowed (Operation (PI_Draft input)) (Some flow)
           \<and> enforcePreUserPolicy input m False = None"
  using assms
  by (auto simp: validateWorkflowContinue_def Let_def dest: enforcePreUserPolicy_Some
      split: option.splits if_splits)


definition exGateInput :: PrePolicyGateInput where
  "exGateInput = \<lparr>PI_Draft = \<lparr>Act = ActWriteRequest, Domain = DomainSubscription,
       Operation = ''subscription.start'', Confidence = 9 / 10, Slots = [], Reason = [],
       DraftParams = [], DraftMissingFields = [], ClarifyReason = []\<rparr>,
     PI_ActiveWorkflow = None, PI_ConversationType = ''2'', PI_UserRole = 1,
     PI_HasUserContext = True\<rparr>"

lemma exGate_allowed: "AllowExecution (prePolicyGate_Validate exGateInput)"
  by (simp add: exGateInput_def prePolicyGate_Validate_def op_subscription_start_def
      validateByAct_def enforcePreUserPolicy_def conversationScopeAllowed_def actAllowed_def
      lowConfidenceWriteThreshold_def trimSpace_ascii ascii_def no_space_def isSpace_def)


end
