(* ===== verification/GoCrypto.thy ===== *)
theory GoCrypto
  imports GoJson
begin

text \<open>
  \<open>crypto/sha256\<close> and \<open>encoding/hex\<close>, which the agent uses to derive idempotency keys:
  SHA-256 over a byte string (FIPS 180-4, section 6.2), and lower-case hexadecimal text.
\<close>

unbundle bit_operations_syntax

text \<open>The constants of the standard: the first 32 bits of the fractional parts of the cube roots
  (square roots, for the initial state) of the first primes, computed as integer roots.\<close>

definition first_primes :: "nat \<Rightarrow> nat list" where
  "first_primes k =
     take k (filter (\<lambda>p. list_all (\<lambda>d. p mod d \<noteq> 0) [2 ..< p]) [2 ..< 312])"

fun root_bits :: "nat \<Rightarrow> nat \<Rightarrow> nat \<Rightarrow> nat \<Rightarrow> nat" where
  "root_bits e 0 r n = r"
| "root_bits e (Suc b) r n = root_bits e b (if (r + 2 ^ b) ^ e \<le> n then r + 2 ^ b else r) n"

definition root_fraction :: "nat \<Rightarrow> nat \<Rightarrow> 32 word" where
  "root_fraction e p = word_of_nat (root_bits e 40 0 (p * 2 ^ (32 * e)))"

definition sha_k :: "32 word list" where
  "sha_k = map (root_fraction 3) (first_primes 64)"

definition sha_init :: "32 word list" where
  "sha_init = map (root_fraction 2) [2, 3, 5, 7, 11, 13, 17, 19]"

definition rotr :: "nat \<Rightarrow> 32 word \<Rightarrow> 32 word" where
  "rotr n x = drop_bit n x OR push_bit (32 - n) x"

definition small_sigma0 :: "32 word \<Rightarrow> 32 word" where
  "small_sigma0 x = rotr 7 x XOR rotr 18 x XOR drop_bit 3 x"

definition small_sigma1 :: "32 word \<Rightarrow> 32 word" where
  "small_sigma1 x = rotr 17 x XOR rotr 19 x XOR drop_bit 10 x"

definition big_sigma0 :: "32 word \<Rightarrow> 32 word" where
  "big_sigma0 x = rotr 2 x XOR rotr 13 x XOR rotr 22 x"

definition big_sigma1 :: "32 word \<Rightarrow> 32 word" where
  "big_sigma1 x = rotr 6 x XOR rotr 11 x XOR rotr 25 x"

text \<open>Four bytes, most significant first, and back.\<close>

definition be_word :: "char list \<Rightarrow> 32 word" where
  "be_word bs = foldl (\<lambda>w c. w * 256 + word_of_nat (byte_of c)) 0 bs"

definition be_bytes :: "nat \<Rightarrow> nat \<Rightarrow> char list" where
  "be_bytes k n = map (\<lambda>i. char_of (n div 256 ^ i mod 256)) (rev [0 ..< k])"

definition sha_pad :: "string \<Rightarrow> string" where
  "sha_pad s =
     (let zeros = (119 - length s mod 64) mod 64 in
      s @ [char_of (128::nat)] @ replicate zeros (char_of (0::nat)) @ be_bytes 8 (8 * length s))"

text \<open>The message schedule, kept with its newest word first.\<close>

fun schedule_from :: "nat \<Rightarrow> 32 word list \<Rightarrow> 32 word list" where
  "schedule_from 0 ws = ws"
| "schedule_from (Suc k) ws =
     schedule_from k
       ((small_sigma1 (ws ! 1) + ws ! 6 + small_sigma0 (ws ! 14) + ws ! 15) # ws)"

fun words_of :: "nat \<Rightarrow> char list \<Rightarrow> 32 word list" where
  "words_of 0 bs = []"
| "words_of (Suc k) bs = be_word (take 4 bs) # words_of k (drop 4 bs)"

definition sha_schedule :: "char list \<Rightarrow> 32 word list" where
  "sha_schedule block = rev (schedule_from 48 (rev (words_of 16 block)))"

definition sha_round :: "32 word list \<Rightarrow> 32 word \<times> 32 word \<Rightarrow> 32 word list" where
  "sha_round st kw =
     (case st of
        [a, b, c, d, e, f, g, h] \<Rightarrow>
          let t1 = h + big_sigma1 e + ((e AND f) XOR (NOT e AND g)) + fst kw + snd kw;
              t2 = big_sigma0 a + ((a AND b) XOR (a AND c) XOR (b AND c))
          in [t1 + t2, a, b, c, d + t1, e, f, g]
      | _ \<Rightarrow> st)"

definition sha_block :: "32 word list \<Rightarrow> char list \<Rightarrow> 32 word list" where
  "sha_block st block =
     map2 (+) st (foldl sha_round st (zip sha_k (sha_schedule block)))"

fun sha_blocks :: "nat \<Rightarrow> 32 word list \<Rightarrow> char list \<Rightarrow> 32 word list" where
  "sha_blocks 0 st bs = st"
| "sha_blocks (Suc k) st bs = sha_blocks k (sha_block st (take 64 bs)) (drop 64 bs)"

text \<open>\<open>sha256.Sum256\<close>, as the 32 bytes of the digest.\<close>

definition sha256 :: "string \<Rightarrow> string" where
  "sha256 s =
     (let padded = sha_pad s in
      concat (map (\<lambda>w. be_bytes 4 (unat w)) (sha_blocks (length padded div 64) sha_init padded)))"

text \<open>\<open>hex.EncodeToString\<close>.\<close>

definition hexEncode :: "string \<Rightarrow> string" where
  "hexEncode s =
     concat (map (\<lambda>c. [hex_digit (byte_of c div 16), hex_digit (byte_of c mod 16)]) s)"

lemma length_hexEncode: "length (hexEncode s) = 2 * length s"
  by (induction s) (simp_all add: hexEncode_def)

lemma length_sha_block [simp]: "length st = 8 \<Longrightarrow> length (sha_block st block) = 8"
proof -
  assume st: "length st = 8"
  have "length (foldl sha_round st kws) = 8" for kws
    using st
    by (induction kws arbitrary: st) (auto simp: sha_round_def Let_def split: list.splits)
  with st show ?thesis by (simp add: sha_block_def)
qed

lemma length_sha_blocks [simp]: "length st = 8 \<Longrightarrow> length (sha_blocks k st bs) = 8"
  by (induction k arbitrary: st bs) simp_all

lemma length_sha256: "length (sha256 s) = 32"
proof -
  have "length (concat (map (\<lambda>w. be_bytes 4 (unat w)) ws)) = 4 * length ws" for ws :: "32 word list"
    by (induction ws) (simp_all add: be_bytes_def)
  then show ?thesis by (simp add: sha256_def Let_def sha_init_def)
qed

end
