(* ===== verification/ExecutionGate.thy ===== *)
theory ExecutionGate
  imports PolicyGate CatalogLint GoCrypto
begin

text \<open>
  From trusted entities to an executable request (src/internal/agent/execution\_gate.go,
  subscription\_business\_key.go and the resource gate of policy\_gate.go): the request builder,
  the write guard with its idempotency keys, the business key of a subscription write, and the
  check of a request against the user and the departments of the tenant.
\<close>

section \<open>Building a request\<close>

definition trustedParamFromTrustedEntity ::
  "trustedEntities \<Rightarrow> string \<Rightarrow> goAny \<Rightarrow> sourceKind \<Rightarrow> string \<Rightarrow> TrustedParam option" where
  "trustedParamFromTrustedEntity trusted field value source resolver =
     (case canonicalTrustedParamValue field value of
        None \<Rightarrow> None
      | Some canonical \<Rightarrow>
          Some (trustedParam field canonical (TE_TenantID trusted)
                  \<lparr>SourceKind = source, SourceRaw = [], Resolver = resolver\<rparr>))"

text \<open>The \<open>switch field\<close> of \<open>trustedParamValue\<close>.\<close>

definition trustedParamFromFields :: "trustedEntities \<Rightarrow> string \<Rightarrow> TrustedParam option" where
  "trustedParamFromFields trusted field =
     (let from = trustedParamFromTrustedEntity trusted field in
      if field = ''conversation_id'' then
        from (GoString (TE_ConversationID trusted)) TrustedParamSourceRuntime ''conversation_runtime''
      else if field = ''scope'' then
        from (GoString (TE_Scope trusted)) TrustedParamSourceWorkflow ''subscription_scope''
      else if field = ''dept_ids'' then
        (if TE_DeptIDs trusted \<noteq> [] then
           from (GoInt64s (TE_DeptIDs trusted)) TrustedParamSourceWorkflow ''department_resolver''
         else if TE_DepartmentID trusted \<noteq> 0 then
           from (GoInt64s [TE_DepartmentID trusted]) TrustedParamSourceWorkflow
             ''department_resolver''
         else None)
      else if field = ''user_id'' then
        from (GoUint (TE_UserID trusted)) TrustedParamSourceWorkflow ''user_resolver''
      else if field = ''date'' then
        from (GoString (TE_Date trusted)) TrustedParamSourceWorkflow ''date_slot''
      else if field = ''section'' then
        from (GoInt (TE_Section trusted)) TrustedParamSourceWorkflow ''section_slot''
      else if field = ''week'' then
        from (GoInt (TE_Week trusted)) TrustedParamSourceWorkflow ''week_slot''
      else None)"

definition trustedParamValue :: "trustedEntities \<Rightarrow> string \<Rightarrow> TrustedParam option" where
  "trustedParamValue trusted field =
     (case map_of (TE_TrustedParams trusted) field of
        Some param \<Rightarrow>
          if TE_TenantID trusted \<noteq> 0 \<and> TP_TenantID param \<noteq> TE_TenantID trusted then None
          else (case canonicalTrustedParamValue field (TP_Value param) of
            None \<Rightarrow> None
          | Some value \<Rightarrow>
              Some (param\<lparr>TP_Field := field, TP_Value := value,
                TP_TenantID := (if TP_TenantID param = 0 then TE_TenantID trusted
                                else TP_TenantID param),
                TP_Source := (if SourceKind (TP_Source param) = SourceUnset
                  then \<lparr>SourceKind = TrustedParamSourceWorkflow, SourceRaw = [],
                        Resolver = ''trusted_params''\<rparr>
                  else TP_Source param)\<rparr>))
      | None \<Rightarrow> trustedParamFromFields trusted field)"

definition trustedHasRequiredParams :: "trustedEntities \<Rightarrow> string list \<Rightarrow> bool" where
  "trustedHasRequiredParams trusted required =
     list_all (\<lambda>field. trustedParamValue trusted field \<noteq> None) required"

definition selectQueryShape ::
  "OperationManifest \<Rightarrow> trustedEntities \<Rightarrow> QueryShapeMetadata option" where
  "selectQueryShape metadata trusted =
     (if TE_QueryShape trusted \<noteq> [] then
        find (\<lambda>shape. QS_Name shape = TE_QueryShape trusted) (QueryShapes metadata)
      else
        find (\<lambda>shape. trustedHasRequiredParams trusted
                         (paramNames (QS_RequiredTrustedParams shape))) (QueryShapes metadata))"

definition subscriptionScopeValid :: "string \<Rightarrow> TrustedParam goMap \<Rightarrow> bool" where
  "subscriptionScopeValid operation ps =
     (if operation \<noteq> ''subscription.start'' then True
      else (case map_of ps ''scope'' of
        None \<Rightarrow> False
      | Some scopeParam \<Rightarrow>
          (case TP_Value scopeParam of
             GoString scope \<Rightarrow>
               if scope = ''all'' then True
               else if scope = ''department'' then
                 (case map_of ps ''dept_ids'' of
                    None \<Rightarrow> False
                  | Some deptParam \<Rightarrow>
                      (case TP_Value deptParam of GoInt64s ids \<Rightarrow> ids \<noteq> [] | _ \<Rightarrow> False))
               else False
           | _ \<Rightarrow> False)))"

text \<open>\<open>None\<close> is \<open>return OperationRequest\{\}, true\<close>.\<close>

fun addRequired ::
  "trustedEntities \<Rightarrow> string list \<Rightarrow> TrustedParam goMap \<Rightarrow> TrustedParam goMap option" where
  "addRequired trusted [] ps = Some ps"
| "addRequired trusted (field # required) ps =
     (case trustedParamValue trusted field of
        None \<Rightarrow> None
      | Some value \<Rightarrow> addRequired trusted required (mapSet field value ps))"

fun addOptional ::
  "trustedEntities \<Rightarrow> string list \<Rightarrow> TrustedParam goMap \<Rightarrow> TrustedParam goMap" where
  "addOptional trusted [] ps = ps"
| "addOptional trusted (field # optional) ps =
     (case trustedParamValue trusted field of
        None \<Rightarrow> addOptional trusted optional ps
      | Some value \<Rightarrow> addOptional trusted optional (mapSet field value ps))"

text \<open>The query shape in use: its required parameters replace those of the manifest.\<close>

definition shapeParams ::
  "OperationManifest \<Rightarrow> trustedEntities \<Rightarrow> (string list \<times> TrustedParam goMap) option" where
  "shapeParams metadata trusted =
     (if QueryShapes metadata = [] then
        Some (paramNames (RequiredTrustedParams metadata), [])
      else (case selectQueryShape metadata trusted of
        None \<Rightarrow> None
      | Some shape \<Rightarrow>
          Some (paramNames (QS_RequiredTrustedParams shape),
            [(''query_shape'', trustedParam ''query_shape'' (GoString (QS_Name shape))
               (TE_TenantID trusted)
               \<lparr>SourceKind = TrustedParamSourceDerived, SourceRaw = [],
                Resolver = ''query_shape_selector''\<rparr>)])))"

definition buildOperationRequest ::
  "ProtocolDraft \<Rightarrow> trustedEntities \<Rightarrow> OperationRequest option" where
  "buildOperationRequest draft trusted =
     (case lookupOperation (Operation draft) of
        None \<Rightarrow> None
      | Some metadata \<Rightarrow>
          if IsWrite metadata \<and> TE_UserRole trusted < MinRole metadata then None
          else (case shapeParams metadata trusted of
            None \<Rightarrow> None
          | Some (required, ps0) \<Rightarrow>
              (case addRequired trusted required ps0 of
                 None \<Rightarrow> None
               | Some ps1 \<Rightarrow>
                   let ps = addOptional trusted (paramNames (OptionalTrustedParams metadata)) ps1
                   in if \<not> subscriptionScopeValid (Operation draft) ps then None
                      else Some \<lparr>OR_Operation = Operation draft, OR_TenantID = 0,
                             OR_ActorUserID = 0, OR_ConversationID = [],
                             OR_TrustedParams = ps, OR_IdempotencyKey = []\<rparr>)))"

definition trustedParamsFromValues ::
  "nat \<Rightarrow> TrustedParamSource \<Rightarrow> goAny goMap \<Rightarrow> TrustedParam goMap" where
  "trustedParamsFromValues tenantID source values =
     map (\<lambda>(field, value).
       (field, case canonicalTrustedParamValue field value of
                 None \<Rightarrow> trustedParam field value tenantID source
               | Some canonical \<Rightarrow> trustedParam field canonical tenantID source)) values"

section \<open>Idempotency keys and the write guard\<close>

record WriteGuardInput =
  WG_User :: "UserContext option"
  WG_Manifest :: "OperationManifest option"
  WG_Request :: OperationRequest
  WG_Workflow :: "WorkflowSnapshot option"
  WG_Confirmed :: bool

record WriteGuardResult =
  WG_Allow :: bool
  WG_ResponseKind :: responseKind
  WG_BlockedReason :: string
  WG_IdempotencyKey :: string

text \<open>\<open>fmt.Sprint\<close>.\<close>

definition sprint :: "goAny \<Rightarrow> string" where
  "sprint value =
     (case value of
        GoString s \<Rightarrow> s
      | GoInt n \<Rightarrow> itoa n
      | GoInt64 n \<Rightarrow> itoa n
      | GoUint n \<Rightarrow> itoa (int n)
      | GoInt64s ns \<Rightarrow> ''['' @ join_on CHR '' '' (map itoa ns) @ '']''
      | GoInts ns \<Rightarrow> ''['' @ join_on CHR '' '' (map itoa ns) @ '']''
      | GoUint64s ns \<Rightarrow> ''['' @ join_on CHR '' '' (map (\<lambda>n. itoa (int n)) ns) @ '']''
      | GoStrings ss \<Rightarrow> ''['' @ join_on CHR '' '' ss @ '']''
      | GoBool b \<Rightarrow> if b then ''true'' else ''false''
      | GoOther text \<Rightarrow> text)"

definition canonicalIdempotencyValue :: "goAny \<Rightarrow> string" where
  "canonicalIdempotencyValue value =
     (case value of
        GoInt64s ns \<Rightarrow> join_on CHR '','' (map itoa (sort ns))
      | GoInts ns \<Rightarrow> join_on CHR '','' (map itoa (sort ns))
      | _ \<Rightarrow> sprint value)"

definition idempotencyFieldValue :: "string \<Rightarrow> WriteGuardInput \<Rightarrow> string option" where
  "idempotencyFieldValue field input =
     (let req = WG_Request input; ps = OR_TrustedParams req in
      if field = ''tenant_id'' then
        (if OR_TenantID req \<noteq> 0 then Some (itoa (int (OR_TenantID req)))
         else (case WG_User input of
           Some u \<Rightarrow> if UC_TenantID u \<noteq> 0 then Some (itoa (int (UC_TenantID u))) else None
         | None \<Rightarrow> None))
      else if field = ''actor_user_id'' then
        (if OR_ActorUserID req \<noteq> 0 then Some (itoa (int (OR_ActorUserID req)))
         else (case WG_User input of
           Some u \<Rightarrow> if UC_UserID u \<noteq> 0 then Some (itoa (int (UC_UserID u))) else None
         | None \<Rightarrow> None))
      else if field = ''conversation_id'' then
        (if trimSpace (OR_ConversationID req) \<noteq> [] then Some (trimSpace (OR_ConversationID req))
         else (case extractParamString ps ''conversation_id'' of
           Some value \<Rightarrow> Some value
         | None \<Rightarrow>
             (case WG_User input of
                Some u \<Rightarrow> if trimSpace (UC_ConversationID u) \<noteq> []
                          then Some (trimSpace (UC_ConversationID u)) else None
              | None \<Rightarrow> None)))
      else if field = ''operation'' then
        (if trimSpace (OR_Operation req) \<noteq> [] then Some (trimSpace (OR_Operation req)) else None)
      else if field = ''workflow_id'' then
        (case WG_Workflow input of
           Some w \<Rightarrow> if trimSpace (WF_ID w) \<noteq> [] then Some (trimSpace (WF_ID w)) else None
         | None \<Rightarrow> None)
      else if field = ''dept_ids'' then
        (case trustedParamConcreteValue ps field of
           None \<Rightarrow> Some ''none'' | Some value \<Rightarrow> Some (canonicalIdempotencyValue value))
      else
        (case trustedParamConcreteValue ps field of
           None \<Rightarrow> None | Some value \<Rightarrow> Some (canonicalIdempotencyValue value)))"

fun idempotencyParts :: "string list \<Rightarrow> WriteGuardInput \<Rightarrow> string list option" where
  "idempotencyParts [] input = Some []"
| "idempotencyParts (field # rest) input =
     (case idempotencyFieldValue field input of
        None \<Rightarrow> None
      | Some value \<Rightarrow>
          (case idempotencyParts rest input of
             None \<Rightarrow> None | Some parts \<Rightarrow> Some ((field @ ''='' @ value) # parts)))"

definition buildIdempotencyKey :: "OperationManifest \<Rightarrow> WriteGuardInput \<Rightarrow> string" where
  "buildIdempotencyKey manifest input =
     (if KeyFields (Idempotency manifest) = [] then []
      else (case idempotencyParts (KeyFields (Idempotency manifest)) input of
        None \<Rightarrow> []
      | Some parts \<Rightarrow>
          OM_Name manifest @ '':'' @ take 16 (hexEncode (sha256 (join_on CHR ''|'' parts)))))"

definition writeGuardManifest :: "WriteGuardInput \<Rightarrow> OperationManifest option" where
  "writeGuardManifest input =
     (case WG_Manifest input of
        Some m \<Rightarrow> if OM_Name m \<noteq> [] then Some m else lookupOperation (OR_Operation (WG_Request input))
      | None \<Rightarrow> lookupOperation (OR_Operation (WG_Request input)))"

definition writeRequiresConfirmation :: "riskLevel \<Rightarrow> bool" where
  "writeRequiresConfirmation risk \<longleftrightarrow> risk = RiskWriteMedium \<or> risk = RiskWriteHigh"

definition manifestResponseKind :: "OperationManifest \<Rightarrow> responseKind" where
  "manifestResponseKind manifest =
     (if RendererKind manifest \<noteq> ResponseUnset then RendererKind manifest else ResponseResult)"

definition writeGuard_Check :: "WriteGuardInput \<Rightarrow> WriteGuardResult" where
  "writeGuard_Check input =
     (case writeGuardManifest input of
        None \<Rightarrow> \<lparr>WG_Allow = False, WG_ResponseKind = ResponseRefuse,
                 WG_BlockedReason = ''operation_not_allowed'', WG_IdempotencyKey = []\<rparr>
      | Some manifest \<Rightarrow>
          if \<not> IsWrite manifest then
            \<lparr>WG_Allow = True, WG_ResponseKind = manifestResponseKind manifest,
             WG_BlockedReason = [], WG_IdempotencyKey = []\<rparr>
          else if writeRequiresConfirmation (Risk manifest) \<and> \<not> WG_Confirmed input then
            \<lparr>WG_Allow = False, WG_ResponseKind = ResponseConfirm,
             WG_BlockedReason = ''write_confirmation_required'',
             WG_IdempotencyKey = buildIdempotencyKey manifest input\<rparr>
          else
            let key = buildIdempotencyKey manifest input in
            if key = [] then
              \<lparr>WG_Allow = False, WG_ResponseKind = ResponseRefuse,
               WG_BlockedReason = ''idempotency_key_missing'', WG_IdempotencyKey = []\<rparr>
            else
              \<lparr>WG_Allow = True, WG_ResponseKind = manifestResponseKind manifest,
               WG_BlockedReason = [], WG_IdempotencyKey = key\<rparr>)"

section \<open>Requests are well typed\<close>

text \<open>A parameter map whose entries carry their own field name, a value of the type the field
  demands, and the tenant of the trusted state.\<close>

definition paramsTyped :: "nat \<Rightarrow> TrustedParam goMap \<Rightarrow> bool" where
  "paramsTyped tenant ps \<longleftrightarrow>
     goMap_ok ps \<and>
     (\<forall>(field, param) \<in> set ps.
        TP_Field param = field
        \<and> canonicalTrustedParamValue field (TP_Value param) = Some (TP_Value param)
        \<and> (tenant \<noteq> 0 \<longrightarrow> TP_TenantID param = tenant)
        \<and> SourceKind (TP_Source param) \<noteq> SourceUnset)"

lemma set_mapSet_subset: "set (mapSet k v m) \<subseteq> insert (k, v) (set m)"
  by (induction m) (auto split: if_splits)

lemma trustedParamFromTrustedEntity_typed:
  assumes "trustedParamFromTrustedEntity trusted field value source res = Some p"
    and "source \<noteq> SourceUnset"
  shows "TP_Field p = field" "canonicalTrustedParamValue field (TP_Value p) = Some (TP_Value p)"
    "TP_TenantID p = TE_TenantID trusted" "SourceKind (TP_Source p) \<noteq> SourceUnset"
  using assms
  by (auto simp: trustedParamFromTrustedEntity_def trustedParam_def split: option.splits
      intro: canonical_value_idem)

lemma trustedParamFromFields_typed:
  assumes "trustedParamFromFields trusted field = Some p"
  shows "TP_Field p = field \<and> canonicalTrustedParamValue field (TP_Value p) = Some (TP_Value p)
         \<and> TP_TenantID p = TE_TenantID trusted \<and> SourceKind (TP_Source p) \<noteq> SourceUnset"
proof -
  from assms have "\<exists>v source res.
      trustedParamFromTrustedEntity trusted field v source res = Some p \<and> source \<noteq> SourceUnset"
    unfolding trustedParamFromFields_def Let_def by (fastforce split: if_splits)
  then show ?thesis by (auto dest: trustedParamFromTrustedEntity_typed)
qed

lemma trustedParamValue_typed:
  assumes "trustedParamValue trusted field = Some p"
  shows "TP_Field p = field \<and> canonicalTrustedParamValue field (TP_Value p) = Some (TP_Value p)
         \<and> (TE_TenantID trusted \<noteq> 0 \<longrightarrow> TP_TenantID p = TE_TenantID trusted)
         \<and> SourceKind (TP_Source p) \<noteq> SourceUnset"
  using assms
  by (auto simp: trustedParamValue_def split: option.splits if_splits
      dest: trustedParamFromFields_typed intro: canonical_value_idem)

lemma paramsTyped_Nil: "paramsTyped tenant []"
  by (simp add: paramsTyped_def)

lemma paramsTyped_mapSet:
  assumes "paramsTyped (TE_TenantID trusted) ps" and "trustedParamValue trusted field = Some p"
  shows "paramsTyped (TE_TenantID trusted) (mapSet field p ps)"
  using assms set_mapSet_subset [of field p ps] trustedParamValue_typed [OF assms(2)]
  unfolding paramsTyped_def by fastforce

lemma addRequired_typed:
  assumes "addRequired trusted required ps = Some qs" and "paramsTyped (TE_TenantID trusted) ps"
  shows "paramsTyped (TE_TenantID trusted) qs \<and> set required \<subseteq> fst ` set qs
         \<and> fst ` set ps \<subseteq> fst ` set qs"
  using assms
proof (induction required arbitrary: ps)
  case (Cons field required)
  from Cons.prems obtain p where p: "trustedParamValue trusted field = Some p"
    "addRequired trusted required (mapSet field p ps) = Some qs"
    by (auto split: option.splits)
  from Cons.IH [OF p(2) paramsTyped_mapSet [OF Cons.prems(2) p(1)]] show ?case by auto
qed simp

lemma addOptional_typed:
  assumes "paramsTyped (TE_TenantID trusted) ps"
  shows "paramsTyped (TE_TenantID trusted) (addOptional trusted optional ps)
         \<and> fst ` set ps \<subseteq> fst ` set (addOptional trusted optional ps)"
  using assms
proof (induction optional arbitrary: ps)
  case (Cons field optional)
  show ?case
  proof (cases "trustedParamValue trusted field")
    case None
    with Cons show ?thesis by simp
  next
    case (Some p)
    with Cons.IH [OF paramsTyped_mapSet [OF Cons.prems Some]] show ?thesis by auto
  qed
qed simp

lemma catalog_shapes_named:
  "\<forall>m \<in> set operationCatalogEntries. \<forall>shape \<in> set (QueryShapes m). QS_Name shape \<noteq> []"
  by (simp add: operationCatalogEntries_def catalog_manifests)

lemma shapeParams_typed:
  assumes "shapeParams m trusted = Some (required, ps)" and "m \<in> set operationCatalogEntries"
  shows "paramsTyped (TE_TenantID trusted) ps"
proof (cases "QueryShapes m = []")
  case True
  with assms show ?thesis by (simp add: shapeParams_def paramsTyped_Nil)
next
  case False
  with assms obtain shape where s: "selectQueryShape m trusted = Some shape"
    and ps: "ps = [(''query_shape'', trustedParam ''query_shape'' (GoString (QS_Name shape))
               (TE_TenantID trusted)
               \<lparr>SourceKind = TrustedParamSourceDerived, SourceRaw = [],
                Resolver = ''query_shape_selector''\<rparr>)]"
    by (auto simp: shapeParams_def split: option.splits)
  from s have "shape \<in> set (QueryShapes m)"
    by (auto simp: selectQueryShape_def find_Some_iff split: if_splits)
  with catalog_shapes_named assms(2) have "QS_Name shape \<noteq> []" by blast
  with ps show ?thesis
    by (simp add: paramsTyped_def goMap_ok_def trustedParam_def canonicalTrustedParamValue_def
        nonEmptyString_def)
qed

definition requiredOf :: "OperationManifest \<Rightarrow> trustedEntities \<Rightarrow> string list" where
  "requiredOf m trusted =
     (case shapeParams m trusted of None \<Rightarrow> [] | Some (required, ps) \<Rightarrow> required)"


text \<open>A complete request to start a subscription, used as the witness of the gates.\<close>

definition exStartDraft :: ProtocolDraft where
  "exStartDraft = \<lparr>Act = ActWriteRequest, Domain = DomainSubscription,
     Operation = ''subscription.start'', Confidence = 9 / 10, Slots = [], Reason = [],
     DraftParams = [], DraftMissingFields = [], ClarifyReason = []\<rparr>"

definition exStartTrusted :: trustedEntities where
  "exStartTrusted = noTrustedEntities\<lparr>TE_TenantID := 7, TE_ConversationID := ''cid1'',
     TE_Scope := ''department'', TE_DeptIDs := [12, 5], TE_UserRole := 1\<rparr>"

definition exStartRequest :: OperationRequest where
  "exStartRequest = \<lparr>OR_Operation = ''subscription.start'', OR_TenantID = 0, OR_ActorUserID = 0,
     OR_ConversationID = [],
     OR_TrustedParams =
       [(''conversation_id'', trustedParam ''conversation_id'' (GoString ''cid1'') 7
          \<lparr>SourceKind = TrustedParamSourceRuntime, SourceRaw = [],
           Resolver = ''conversation_runtime''\<rparr>),
        (''scope'', trustedParam ''scope'' (GoString ''department'') 7
          \<lparr>SourceKind = TrustedParamSourceWorkflow, SourceRaw = [],
           Resolver = ''subscription_scope''\<rparr>),
        (''dept_ids'', trustedParam ''dept_ids'' (GoInt64s [12, 5]) 7
          \<lparr>SourceKind = TrustedParamSourceWorkflow, SourceRaw = [],
           Resolver = ''department_resolver''\<rparr>)],
     OR_IdempotencyKey = []\<rparr>"

lemma exStart_built: "buildOperationRequest exStartDraft exStartTrusted = Some exStartRequest"
  by (simp add: exStartDraft_def exStartTrusted_def exStartRequest_def buildOperationRequest_def
      op_subscription_start_def shapeParams_def paramNames_def params_def trustedParamValue_def
      trustedParamFromFields_def trustedParamFromTrustedEntity_def noTrustedEntities_def
      canonicalTrustedParamValue_def nonEmptyString_def trustedParam_def subscriptionScopeValid_def)


end
