(* ===== verification/ResourceGate.thy ===== *)
theory ResourceGate
  imports ExecutionGate
begin

text \<open>
  The resource gate of src/internal/agent/policy\_gate.go, which checks a built request against
  the user, the conversation and the departments of the tenant just before execution, and the
  business key of subscription\_business\_key.go, the identity under which a subscription write
  is executed at most once.
\<close>

section \<open>The resource gate\<close>

record DeptItem =
  DI_DeptID :: int
  DI_Name :: string
  DI_TenantID :: nat
  DI_ParentID :: int

text \<open>\<open>Dept\<close> is the answer of \<open>DeptPort.ListDepts\<close> (\<^const>\<open>None\<close>: the port is nil).\<close>

record ResourcePolicyGateInput =
  RG_User :: "UserContext option"
  RG_Request :: OperationRequest
  RG_Dept :: "(string + DeptItem list) option"

record ResourcePolicyGateResult =
  RG_Allow :: bool
  RG_BlockedReason :: string
  RG_ResponseKind :: responseKind

definition denyResourcePolicy :: "string \<Rightarrow> ResourcePolicyGateResult" where
  "denyResourcePolicy reason =
     \<lparr>RG_Allow = False, RG_BlockedReason = reason, RG_ResponseKind = ResponseRefuse\<rparr>"

definition requestConversationMatchesUser :: "UserContext option \<Rightarrow> OperationRequest \<Rightarrow> bool" where
  "requestConversationMatchesUser user req =
     (case user of
        None \<Rightarrow> False
      | Some u \<Rightarrow>
          let conversationID = (case extractParamString (OR_TrustedParams req) ''conversation_id'' of
                Some value \<Rightarrow> value | None \<Rightarrow> trimSpace (OR_ConversationID req))
          in conversationID \<noteq> [] \<and> conversationID = trimSpace (UC_ConversationID u))"

definition scheduleUserVisible :: "UserContext option \<Rightarrow> TrustedParam goMap \<Rightarrow> bool" where
  "scheduleUserVisible user ps =
     (case user of
        None \<Rightarrow> False
      | Some u \<Rightarrow>
          (case extractParamUint ps ''user_id'' of
             None \<Rightarrow> False
           | Some target \<Rightarrow> target = UC_UserID u \<or> 1 \<le> UC_UserRole u))"

definition candidateDeptParamAllowed :: "UserContext option \<Rightarrow> TrustedParam option \<Rightarrow> bool" where
  "candidateDeptParamAllowed user param =
     (case param of
        None \<Rightarrow> False
      | Some p \<Rightarrow>
          if SourceKind (TP_Source p) \<noteq> TrustedParamSourceCandidate then False
          else (case user of
            None \<Rightarrow> TP_TenantID p \<noteq> 0
          | Some u \<Rightarrow>
              if UC_TenantID u = 0 then TP_TenantID p \<noteq> 0 else TP_TenantID p = UC_TenantID u))"

definition deptVisible :: "UserContext option \<Rightarrow> DeptItem \<Rightarrow> bool" where
  "deptVisible user dept =
     (case user of
        None \<Rightarrow> True
      | Some u \<Rightarrow> \<not> (UC_TenantID u \<noteq> 0 \<and> DI_TenantID dept \<noteq> 0
                     \<and> DI_TenantID dept \<noteq> UC_TenantID u))"

text \<open>\<^const>\<open>None\<close> is the empty result the caller takes as \<open>not denied\<close>.\<close>

definition validateDepartmentScope ::
  "ResourcePolicyGateInput \<Rightarrow> ResourcePolicyGateResult option" where
  "validateDepartmentScope input =
     (let ps = OR_TrustedParams (RG_Request input) in
      case (extractParamString ps ''scope'', RG_Dept input) of
        (Some scope, Some listed) \<Rightarrow>
          if scope \<noteq> ''department'' then None
          else (case extractParamInt64Slice ps ''dept_ids'' of
            None \<Rightarrow> Some (denyResourcePolicy ''department_scope_denied'')
          | Some deptIDs \<Rightarrow>
              if candidateDeptParamAllowed (RG_User input) (map_of ps ''dept_ids'') then None
              else (case listed of
                Inl err \<Rightarrow> Some (denyResourcePolicy ''department_scope_unverified'')
              | Inr depts \<Rightarrow>
                  let allowed = map DI_DeptID (filter (deptVisible (RG_User input)) depts) in
                  if list_all (\<lambda>deptID. deptID \<in> set allowed) deptIDs then None
                  else Some (denyResourcePolicy ''department_scope_denied'')))
      | _ \<Rightarrow> None)"

definition checkPolicy ::
  "ResourcePolicyGateInput \<Rightarrow> string \<Rightarrow> ResourcePolicyGateResult option" where
  "checkPolicy input policy =
     (if policy = ''group_conversation'' then
        (if (case RG_User input of
               None \<Rightarrow> True | Some u \<Rightarrow> trimSpace (UC_ConversationType u) \<noteq> ''2'')
         then Some (denyResourcePolicy ''group_chat_required'') else None)
      else if policy = ''subscription_scope'' then
        (if \<not> subscriptionScopeValid (OR_Operation (RG_Request input))
               (OR_TrustedParams (RG_Request input))
         then Some (denyResourcePolicy ''subscription_scope_invalid'')
         else validateDepartmentScope input)
      else if policy = ''schedule_user_visibility'' then
        (if \<not> scheduleUserVisible (RG_User input) (OR_TrustedParams (RG_Request input))
         then Some (denyResourcePolicy ''schedule_user_visibility_denied'') else None)
      else None)"

fun checkPolicies ::
  "ResourcePolicyGateInput \<Rightarrow> string list \<Rightarrow> ResourcePolicyGateResult option" where
  "checkPolicies input [] = None"
| "checkPolicies input (policy # policies) =
     (case checkPolicy input policy of
        Some denied \<Rightarrow> Some denied | None \<Rightarrow> checkPolicies input policies)"

definition subscriptionOperationRequiresCurrentConversation :: "string \<Rightarrow> bool" where
  "subscriptionOperationRequiresCurrentConversation operation =
     (case lookupOperation operation of
        None \<Rightarrow> False
      | Some manifest \<Rightarrow>
          OM_Domain manifest = DomainSubscription
          \<and> list_ex (\<lambda>param. param = ''conversation_id'') (RequiredTrustedParams manifest))"

definition resourcePolicyGate_Validate ::
  "ResourcePolicyGateInput \<Rightarrow> ResourcePolicyGateResult" where
  "resourcePolicyGate_Validate input =
     (let req = RG_Request input in
      case lookupOperation (OR_Operation req) of
        None \<Rightarrow> denyResourcePolicy ''operation_not_allowed''
      | Some manifest \<Rightarrow>
          (case checkPolicies input (Policies manifest) of
             Some denied \<Rightarrow> denied
           | None \<Rightarrow>
               if subscriptionOperationRequiresCurrentConversation (OR_Operation req)
                  \<and> \<not> requestConversationMatchesUser (RG_User input) req
               then denyResourcePolicy ''subscription_conversation_mismatch''
               else \<lparr>RG_Allow = True, RG_BlockedReason = [], RG_ResponseKind = ResponseResult\<rparr>))"

section \<open>The business key of a subscription write\<close>

record SubscriptionBusinessKeyV1 =
  BK_Version :: int
  BK_TenantID :: nat
  BK_ConversationID :: string
  BK_Operation :: string
  BK_Scope :: string
  BK_DeptIDs :: "nat list"

definition subscriptionBusinessKeyVersion :: int where
  "subscriptionBusinessKeyVersion = 1"

fun positiveIDs :: "int list \<Rightarrow> agentError + nat list" where
  "positiveIDs [] = Inr []"
| "positiveIDs (deptID # ids) =
     (if deptID \<le> 0 then Inl (Errorf (''invalid department id '' @ itoa deptID))
      else (case positiveIDs ids of Inl e \<Rightarrow> Inl e | Inr ns \<Rightarrow> Inr (nat deptID # ns)))"

definition normalizeBusinessKeyDeptIDs :: "int list \<Rightarrow> agentError + nat list" where
  "normalizeBusinessKeyDeptIDs ids =
     (case positiveIDs ids of Inl e \<Rightarrow> Inl e | Inr ns \<Rightarrow> Inr (sort (remdups ns)))"

text \<open>\<open>json.Marshal\<close> with the \<open>omitempty\<close> fields left out.\<close>

definition businessKey_json :: "SubscriptionBusinessKeyV1 \<Rightarrow> json" where
  "businessKey_json key =
     JObj ([(''version'', JNum (BK_Version key)), (''tenant_id'', JNum (int (BK_TenantID key))),
            (''conversation_id'', JStr (BK_ConversationID key)),
            (''operation'', JStr (BK_Operation key))]
        @ (if BK_Scope key = [] then [] else [(''scope'', JStr (BK_Scope key))])
        @ (if BK_DeptIDs key = [] then []
           else [(''dept_ids'', JArr (map (\<lambda>n. JNum (int n)) (BK_DeptIDs key)))]))"

definition businessKeyDigest :: "SubscriptionBusinessKeyV1 \<Rightarrow> string" where
  "businessKeyDigest key =
     hexEncode (sha256 (''v1'' @ [CHR 0x0A] @ print_json (businessKey_json key)))"

text \<open>The struct that is hashed, by operation.\<close>

definition subscriptionBusinessKeyOf ::
  "OperationRequest \<Rightarrow> agentError + SubscriptionBusinessKeyV1" where
  "subscriptionBusinessKeyOf req =
     (let key = \<lparr>BK_Version = subscriptionBusinessKeyVersion, BK_TenantID = OR_TenantID req,
                 BK_ConversationID = trimSpace (OR_ConversationID req),
                 BK_Operation = trimSpace (OR_Operation req), BK_Scope = [], BK_DeptIDs = []\<rparr>;
          ps = OR_TrustedParams req
      in if BK_TenantID key = 0 \<or> BK_ConversationID key = [] then
           Inl (Errorf ''subscription business key identity is incomplete'')
         else if BK_Operation key = ''subscription.start'' then
           (case extractParamString ps ''scope'' of
              None \<Rightarrow> Inl (Errorf ''subscription business key scope is missing'')
            | Some rawScope \<Rightarrow>
                let scope = trimSpace rawScope in
                (case normalizeBusinessKeyDeptIDs
                        (case extractParamInt64Slice ps ''dept_ids'' of
                           Some ids \<Rightarrow> ids | None \<Rightarrow> []) of
                   Inl e \<Rightarrow> Inl e
                 | Inr normalized \<Rightarrow>
                     if scope = ''all'' then
                       (if normalized \<noteq> []
                        then Inl (Errorf ''all scope cannot include department ids'')
                        else Inr (key\<lparr>BK_Scope := scope\<rparr>))
                     else if scope = ''department'' then
                       (if normalized = []
                        then Inl (Errorf ''department scope requires department ids'')
                        else Inr (key\<lparr>BK_Scope := scope, BK_DeptIDs := normalized\<rparr>))
                     else Inl (Errorf (''unsupported subscription scope '' @ scope))))
         else if BK_Operation key = ''subscription.cancel'' then Inr key
         else Inl (Errorf (''unsupported subscription write operation '' @ BK_Operation key)))"

definition subscriptionBusinessKeyForRequest :: "OperationRequest \<Rightarrow> agentError + string" where
  "subscriptionBusinessKeyForRequest req =
     (case subscriptionBusinessKeyOf req of
        Inl e \<Rightarrow> Inl e | Inr key \<Rightarrow> Inr (businessKeyDigest key))"

section \<open>What the resource gate lets through\<close>

lemma checkPolicies_denied: "checkPolicies input ps = Some r \<Longrightarrow> \<not> RG_Allow r"
proof (induction ps)
  case (Cons p ps)
  have "\<not> RG_Allow d" if "checkPolicy input p = Some d" for d
    using that
    by (auto simp: checkPolicy_def validateDepartmentScope_def denyResourcePolicy_def Let_def
        split: if_splits option.splits sum.splits)
  with Cons show ?case by (auto split: option.splits)
qed simp

lemma extract_scope:
  "map_of ps ''scope'' = Some p \<Longrightarrow> TP_Value p = GoString s \<Longrightarrow> s \<noteq> [] \<Longrightarrow>
     extractParamString ps ''scope'' = Some s"
  by (simp add: extractParamString_def trustedParamConcreteValue_def canonicalTrustedParamValue_def
      nonEmptyString_def)

lemma extract_dept_ids:
  "map_of ps ''dept_ids'' = Some p \<Longrightarrow> TP_Value p = GoInt64s ids \<Longrightarrow> ids \<noteq> [] \<Longrightarrow>
     extractParamInt64Slice ps ''dept_ids'' = Some ids"
  by (simp add: extractParamInt64Slice_def trustedParamConcreteValue_def
      canonicalTrustedParamValue_def)

lemma subscriptionScopeValid_start:
  assumes "subscriptionScopeValid ''subscription.start'' ps"
  shows "extractParamString ps ''scope'' = Some ''all''
         \<or> (\<exists>ids. extractParamString ps ''scope'' = Some ''department''
              \<and> extractParamInt64Slice ps ''dept_ids'' = Some ids \<and> ids \<noteq> [])"
  using assms unfolding subscriptionScopeValid_def
  by (auto split: option.splits goAny.splits if_splits intro: extract_scope extract_dept_ids)

lemma validateDepartmentScope_None:
  assumes "validateDepartmentScope input = None"
    and "extractParamString (OR_TrustedParams (RG_Request input)) ''scope'' = Some ''department''"
    and "extractParamInt64Slice (OR_TrustedParams (RG_Request input)) ''dept_ids'' = Some ids"
  shows "RG_Dept input = None
         \<or> candidateDeptParamAllowed (RG_User input)
             (map_of (OR_TrustedParams (RG_Request input)) ''dept_ids'')
         \<or> (\<exists>depts. RG_Dept input = Some (Inr depts)
              \<and> (\<forall>i \<in> set ids. \<exists>d \<in> set depts. DI_DeptID d = i \<and> deptVisible (RG_User input) d))"
  using assms
  by (auto simp: validateDepartmentScope_def Let_def list_all_iff image_iff
      split: option.splits sum.splits if_splits)


section \<open>The identity of a write\<close>

text \<open>What a subscription write is about, apart from who asks and when.\<close>

definition writeIdentity :: "OperationRequest \<Rightarrow> nat \<times> string \<times> string \<times> string \<times> int set" where
  "writeIdentity req =
     (let ps = OR_TrustedParams req; op = trimSpace (OR_Operation req);
          start = (op = ''subscription.start'')
      in (OR_TenantID req, trimSpace (OR_ConversationID req), op,
          (if start then (case extractParamString ps ''scope'' of
             Some s \<Rightarrow> trimSpace s | None \<Rightarrow> []) else []),
          (if start then (case extractParamInt64Slice ps ''dept_ids'' of
             Some ids \<Rightarrow> set ids | None \<Rightarrow> {}) else {})))"

lemma positiveIDs_Inr:
  "positiveIDs ids = Inr ns \<longleftrightarrow> ns = map nat ids \<and> (\<forall>i \<in> set ids. 0 < i)"
  by (induction ids arbitrary: ns) (auto split: sum.splits)

lemma sort_remdups_eq_iff: "sort (remdups xs) = sort (remdups ys) \<longleftrightarrow> set xs = set ys"
  for xs ys :: "nat list"
proof
  assume "sort (remdups xs) = sort (remdups ys)"
  then have "set (sort (remdups xs)) = set (sort (remdups ys))" by (rule arg_cong)
  then show "set xs = set ys" by simp
next
  assume "set xs = set ys"
  then show "sort (remdups xs) = sort (remdups ys)"
    by (intro sorted_distinct_set_unique) simp_all
qed

lemma nat_image_eq_iff:
  assumes "\<forall>i \<in> A. 0 < i" and "\<forall>i \<in> B. 0 < i"
  shows "nat ` A = nat ` B \<longleftrightarrow> A = B"
proof -
  have "inj_on nat (A \<union> B)" using assms by (auto simp: inj_on_def)
  then show ?thesis by (simp add: inj_on_Un_image_eq_iff)
qed

lemma businessKeyOf_identity:
  assumes "subscriptionBusinessKeyOf req = Inr key" and "writeIdentity req = (t, c, op, s, D)"
  shows "key = \<lparr>BK_Version = 1, BK_TenantID = t, BK_ConversationID = c, BK_Operation = op,
                BK_Scope = s, BK_DeptIDs = sorted_list_of_set (nat ` D)\<rparr>
         \<and> finite D \<and> (\<forall>i \<in> D. 0 < i) \<and> ascii op \<and> ascii s"
proof -
  have norm: "ns = sorted_list_of_set (nat ` set ids) \<and> (\<forall>i \<in> set ids. 0 < i)"
    if "normalizeBusinessKeyDeptIDs ids = Inr ns" for ids ns
    using that
    by (auto simp: normalizeBusinessKeyDeptIDs_def positiveIDs_Inr sorted_list_of_set_sort_remdups
        split: sum.splits simp flip: set_map)
  have empty: "ids = []" if "normalizeBusinessKeyDeptIDs ids = Inr []" for ids
    using norm [OF that] by (metis finite_imageI finite_set image_is_empty set_empty
        sorted_list_of_set_eq_Nil_iff)
  from assms show ?thesis
    by (auto simp: subscriptionBusinessKeyOf_def writeIdentity_def Let_def
        subscriptionBusinessKeyVersion_def ascii_def
        split: if_splits option.splits sum.splits dest: norm empty)
qed

lemma businessKey_json_inject: "businessKey_json k = businessKey_json k' \<longleftrightarrow> k = k'"
proof
  have inj: "map (\<lambda>n. JNum (int n)) xs = map (\<lambda>n. JNum (int n)) ys \<longleftrightarrow> xs = ys" for xs ys
    by (intro inj_map_eq_map) (auto simp: inj_def)
  assume "businessKey_json k = businessKey_json k'"
  then show "k = k'"
    by (cases k; cases k') (auto simp: businessKey_json_def inj split: if_splits)
qed simp

lemma businessKey_json_valid:
  assumes "ascii (BK_Operation k)" and "ascii (BK_Scope k)" and "validString (BK_ConversationID k)"
  shows "valid_json (businessKey_json k)"
  using assms by (auto simp: businessKey_json_def ascii_def)

text \<open>C29: Two subscription writes are hashed from the same text exactly when they are the same
  write: same tenant, conversation, operation, scope and set of departments, whatever the order
  and repetitions of the department list, the actor and the other parameters.\<close>

theorem business_key_identifies_write:
  assumes "subscriptionBusinessKeyOf req = Inr key" and "subscriptionBusinessKeyOf req' = Inr key'"
    and "validString (trimSpace (OR_ConversationID req))"
    and "validString (trimSpace (OR_ConversationID req'))"
  shows "print_json (businessKey_json key) = print_json (businessKey_json key')
         \<longleftrightarrow> writeIdentity req = writeIdentity req'"
proof -
  obtain t c op s D where id: "writeIdentity req = (t, c, op, s, D)" by (metis prod_cases5)
  obtain t' c' op' s' D' where id': "writeIdentity req' = (t', c', op', s', D')"
    by (metis prod_cases5)
  note k = businessKeyOf_identity [OF assms(1) id] and k' = businessKeyOf_identity [OF assms(2) id']
  have conv: "c = trimSpace (OR_ConversationID req)" "c' = trimSpace (OR_ConversationID req')"
    using id id' by (auto simp: writeIdentity_def Let_def)
  have "valid_json (businessKey_json key)" and "valid_json (businessKey_json key')"
    using k k' conv assms(3,4) by (auto intro!: businessKey_json_valid)
  then have "print_json (businessKey_json key) = print_json (businessKey_json key')
             \<longleftrightarrow> businessKey_json key = businessKey_json key'"
    by (metis option.inject parse_print)
  also have "\<dots> \<longleftrightarrow> key = key'" by (rule businessKey_json_inject)
  also have "\<dots> \<longleftrightarrow> (t = t' \<and> c = c' \<and> op = op' \<and> s = s' \<and> nat ` D = nat ` D')"
    using k k' sorted_list_of_set_inject [of "nat ` D" "nat ` D'"] by auto
  also have "nat ` D = nat ` D' \<longleftrightarrow> D = D'" using k k' by (intro nat_image_eq_iff) auto
  finally show ?thesis using id id' by simp
qed

section \<open>Witnesses\<close>

definition exUser :: UserContext where
  "exUser = \<lparr>UC_TenantID = 7, UC_UserID = 3, UC_UserRole = 1, UC_DingUserID = ''u3'',
     UC_Name = ''Ann'', UC_ConversationType = ''2'', UC_ConversationID = ''cid1'',
     UC_ConversationTitle = ''Class''\<rparr>"

definition exGate :: ResourcePolicyGateInput where
  "exGate = \<lparr>RG_User = Some exUser, RG_Request = exStartRequest,
     RG_Dept = Some (Inr [\<lparr>DI_DeptID = 5, DI_Name = ''A'', DI_TenantID = 7, DI_ParentID = 1\<rparr>,
                          \<lparr>DI_DeptID = 12, DI_Name = ''B'', DI_TenantID = 7, DI_ParentID = 1\<rparr>])\<rparr>"

lemmas ex_request_simps =
  exStartRequest_def trustedParam_def extractParamString_def extractParamInt64Slice_def
  trustedParamConcreteValue_def canonicalTrustedParamValue_def nonEmptyString_def
  trimSpace_ascii ascii_def no_space_def isSpace_def

lemma exGate_allowed_resource: "RG_Allow (resourcePolicyGate_Validate exGate)"
  by (simp add: exGate_def exUser_def resourcePolicyGate_Validate_def op_subscription_start_def
      checkPolicy_def subscriptionScopeValid_def validateDepartmentScope_def deptVisible_def
      candidateDeptParamAllowed_def subscriptionOperationRequiresCurrentConversation_def params_def
      requestConversationMatchesUser_def ex_request_simps)


definition exWrite :: "int list \<Rightarrow> OperationRequest" where
  "exWrite ids = exStartRequest\<lparr>OR_TenantID := 7, OR_ConversationID := ''cid1'',
     OR_TrustedParams := mapSet ''dept_ids'' (trustedParam ''dept_ids'' (GoInt64s ids) 7
       \<lparr>SourceKind = TrustedParamSourceWorkflow, SourceRaw = [], Resolver = []\<rparr>)
       (OR_TrustedParams exStartRequest)\<rparr>"

lemma exWrite_key:
  assumes "ids \<noteq> []" and "\<forall>i \<in> set ids. 0 < i"
  shows "subscriptionBusinessKeyOf (exWrite ids) =
    Inr \<lparr>BK_Version = 1, BK_TenantID = 7, BK_ConversationID = ''cid1'',
      BK_Operation = ''subscription.start'', BK_Scope = ''department'',
      BK_DeptIDs = sort (remdups (map nat ids))\<rparr>"
proof -
  have "sort (remdups (map nat ids)) \<noteq> []"
    using assms(1) by (metis map_is_Nil_conv set_empty set_remdups set_sort)
  then show ?thesis
    using assms positiveIDs_Inr [of ids "map nat ids"]
    by (simp add: subscriptionBusinessKeyOf_def exWrite_def normalizeBusinessKeyDeptIDs_def
        subscriptionBusinessKeyVersion_def ex_request_simps)
qed

theorem business_key_identifies_write_witness:
  "writeIdentity (exWrite [12, 5]) = writeIdentity (exWrite [5, 12, 5])"
proof -
  have key: "subscriptionBusinessKeyOf (exWrite ids) =
    Inr \<lparr>BK_Version = 1, BK_TenantID = 7, BK_ConversationID = ''cid1'',
      BK_Operation = ''subscription.start'', BK_Scope = ''department'', BK_DeptIDs = [5, 12]\<rparr>"
    if "ids = [12, 5] \<or> ids = [5, 12, 5]" for ids
    using that by (auto simp: exWrite_key)
  show ?thesis
    by (rule iffD1 [OF business_key_identifies_write [OF key key]])
       (simp_all add: exWrite_def ex_request_simps)
qed

end
