(* ===== verification/StrictJson.thy ===== *)
theory StrictJson
  imports AgentProtocol AttendanceColumns "HOL-Library.Char_ord" "HOL-Library.List_Lexorder"
begin

text \<open>
  \<open>json.Marshal\<close> of structs with tags and \<open>json.Decoder\<close> with \<open>DisallowUnknownFields\<close>, as
  the codecs of the agent use them (\<open>decodeStrictWorkflowJSON\<close>,
  src/internal/agent/workflow\_snapshot\_codec.go). A struct is read through a table of its field
  names with a setter for each: the setter gets the value already there (a member that occurs
  twice is decoded twice) and reports whether the JSON value had the wrong type. The lemmas show
  what the setters do with what the encoders write.
\<close>

section \<open>Reading\<close>

type_synonym 's setter = "json \<Rightarrow> 's \<Rightarrow> 's \<times> bool"

definition fieldSetter :: "'a setter \<Rightarrow> ('s \<Rightarrow> 'a) \<Rightarrow> ('a \<Rightarrow> 's \<Rightarrow> 's) \<Rightarrow> 's setter" where
  "fieldSetter dec get put v s = (case dec v (get s) of (x, err) \<Rightarrow> (put x s, err))"

definition decodeMember ::
  "(string \<times> 's setter) list \<Rightarrow> string \<times> json \<Rightarrow> 's \<times> bool \<Rightarrow> 's \<times> bool" where
  "decodeMember table m acc =
     (case (m, acc) of ((k, v), (s, err)) \<Rightarrow>
        (case find (\<lambda>f. fieldMatches (fst f) k) table of
           None \<Rightarrow> (s, True)
         | Some (name, dec) \<Rightarrow> (case dec v s of (s', e) \<Rightarrow> (s', err \<or> e))))"

definition decodeStruct :: "(string \<times> 's setter) list \<Rightarrow> 's setter" where
  "decodeStruct table v old =
     (case v of
        JObj ms \<Rightarrow> fold (decodeMember table) ms (old, False)
      | JNull \<Rightarrow> (old, False)
      | _ \<Rightarrow> (old, True))"

text \<open>An element of a map is always decoded over the zero value.\<close>

definition decodeEntry :: "'a setter \<Rightarrow> 'a \<Rightarrow> string \<times> json \<Rightarrow> 'a goMap \<times> bool \<Rightarrow> 'a goMap \<times> bool" where
  "decodeEntry dec zero m acc =
     (case (m, acc) of ((k, v), (vals, err)) \<Rightarrow>
        (case dec v zero of (x, e) \<Rightarrow> (mapSet k x vals, err \<or> e)))"

definition decodeMap :: "'a setter \<Rightarrow> 'a \<Rightarrow> 'a goMap setter" where
  "decodeMap dec zero v old =
     (case v of
        JObj ms \<Rightarrow> fold (decodeEntry dec zero) ms (old, False)
      | JNull \<Rightarrow> ([], False)
      | _ \<Rightarrow> (old, True))"

text \<open>An element of a slice is decoded over the element already at its place.\<close>

fun decodeElems :: "'a setter \<Rightarrow> 'a \<Rightarrow> json list \<Rightarrow> 'a list \<Rightarrow> 'a list \<times> bool" where
  "decodeElems dec zero [] old = ([], False)"
| "decodeElems dec zero (v # vs) old =
     (case dec v (case old of [] \<Rightarrow> zero | x # _ \<Rightarrow> x) of
        (x, e) \<Rightarrow> (case decodeElems dec zero vs (tl old) of (xs, e') \<Rightarrow> (x # xs, e \<or> e')))"

definition decodeSlice :: "'a setter \<Rightarrow> 'a \<Rightarrow> 'a list setter" where
  "decodeSlice dec zero v old =
     (case v of
        JArr vs \<Rightarrow> decodeElems dec zero vs old
      | JNull \<Rightarrow> ([], False)
      | _ \<Rightarrow> (old, True))"

definition setBool :: "bool setter" where
  "setBool v old = (case v of JBool b \<Rightarrow> (b, False) | JNull \<Rightarrow> (old, False) | _ \<Rightarrow> (old, True))"

text \<open>\<open>json.RawMessage\<close>: the value itself, \<^const>\<open>None\<close> while nothing was decoded.\<close>

definition setRaw :: "json option setter" where
  "setRaw v old = (Some v, False)"

text \<open>A string type with named constants.\<close>

definition setNamed :: "(string \<Rightarrow> 'a) \<Rightarrow> 'a setter" where
  "setNamed ofText v old =
     (case v of JStr s \<Rightarrow> (ofText s, False) | JNull \<Rightarrow> (old, False) | _ \<Rightarrow> (old, True))"

definition setWord64 :: "64 word setter" where
  "setWord64 v old = (case setUint v (unat old) of (n, err) \<Rightarrow> (word_of_nat n, err))"

text \<open>The payload must be one JSON value, of the right types, with no unknown member;
  \<^const>\<open>None\<close> is the error of the decoder.\<close>

definition decodeStrictWorkflowJSON :: "(string \<times> 's setter) list \<Rightarrow> 's \<Rightarrow> string \<Rightarrow> 's option" where
  "decodeStrictWorkflowJSON table zero payload =
     (case parse_json payload of
        None \<Rightarrow> None
      | Some v \<Rightarrow> (case decodeStruct table v zero of (s, err) \<Rightarrow> if err then None else Some s))"

section \<open>Writing\<close>

text \<open>A field tagged \<open>omitempty\<close>, and a map, written with its keys in order.\<close>

definition omitempty :: "bool \<Rightarrow> string \<Rightarrow> json \<Rightarrow> (string \<times> json) list" where
  "omitempty isZero name v = (if isZero then [] else [(name, v)])"

definition sortedMap :: "'a goMap \<Rightarrow> 'a goMap" where
  "sortedMap m = sort_key fst m"

definition map_json :: "('a \<Rightarrow> json) \<Rightarrow> 'a goMap \<Rightarrow> json" where
  "map_json enc m = JObj (map (\<lambda>(k, x). (k, enc x)) (sortedMap m))"

section \<open>Field names\<close>

definition plainName :: "string \<Rightarrow> bool" where
  "plainName s \<longleftrightarrow> list_all (\<lambda>c. byte_of c = 95 \<or> 97 \<le> byte_of c \<and> byte_of c \<le> 122) s"

lemma plainName_ascii: "plainName s \<Longrightarrow> ascii s"
  by (auto simp: plainName_def ascii_def list_all_iff)

lemma plainName_valid [simp]: "plainName s \<Longrightarrow> validString s"
  by (simp add: plainName_ascii)

lemma fold_rune_plain:
  fixes b c :: nat
  assumes "b = 95 \<or> 97 \<le> b \<and> b \<le> 122" and "c = 95 \<or> 97 \<le> c \<and> c \<le> 122"
  shows "fold_rune b = fold_rune c \<longleftrightarrow> b = c"
  using assms by (auto simp: fold_rune_def)

lemma fieldMatches_plain [simp]:
  assumes "plainName f" and "plainName k"
  shows "fieldMatches f k \<longleftrightarrow> f = k"
proof -
  have "map (\<lambda>c. fold_rune (byte_of c)) k = map (\<lambda>c. fold_rune (byte_of c)) f \<Longrightarrow> f = k"
    using assms
  proof (induction k arbitrary: f)
    case (Cons c k)
    then obtain d f' where f: "f = d # f'" by (cases f) auto
    with Cons.prems have "byte_of c = byte_of d"
      using fold_rune_plain [of "byte_of c" "byte_of d"] by (auto simp: plainName_def)
    then have "c = d" by simp
    with Cons f show ?case by (auto simp: plainName_def)
  qed simp
  then show ?thesis
    using assms by (auto simp: fieldMatches_def foldName_ascii plainName_ascii)
qed

section \<open>Reading back what was written\<close>

lemma decodeStruct_JObj [simp]:
  "decodeStruct table (JObj ms) old = fold (decodeMember table) ms (old, False)"
  by (simp add: decodeStruct_def)

lemma set_sortedMap [simp]: "set (sortedMap m) = set m"
  by (simp add: sortedMap_def)

lemma length_sortedMap [simp]: "length (sortedMap m) = length m"
  by (simp add: sortedMap_def)

lemma sortedMap_eq_Nil [simp]: "sortedMap m = [] \<longleftrightarrow> m = []"
  by (metis length_0_conv length_sortedMap)

lemma goMap_ok_sortedMap [simp]: "goMap_ok (sortedMap m) = goMap_ok m"
proof -
  have "mset (map fst (sort_key fst m)) = mset (map fst m)" by simp
  then show ?thesis
    unfolding goMap_ok_def sortedMap_def by (rule mset_eq_imp_distinct_iff)
qed

lemma map_of_sortedMap [simp]: "goMap_ok m \<Longrightarrow> map_of (sortedMap m) = map_of m"
  using goMap_ok_sortedMap [of m] unfolding goMap_ok_def
  by (metis map_of_inject_set set_sortedMap)

lemma sortedMap_idem [simp]: "sortedMap (sortedMap m) = sortedMap m"
  unfolding sortedMap_def by (rule sort_key_id_if_sorted) simp

lemma mapSet_fresh: "k \<notin> fst ` set m \<Longrightarrow> mapSet k v m = m @ [(k, v)]"
  by (induction m) auto

lemma decodeMap_JObj:
  assumes "goMap_ok m" and "\<And>k x. (k, x) \<in> set m \<Longrightarrow> dec (enc x) zero = (x, False)"
  shows "decodeMap dec zero (JObj (map (\<lambda>(k, x). (k, enc x)) m)) [] = (m, False)"
proof -
  have enc_ok: "\<forall>e \<in> set m. dec (enc (snd e)) zero = (snd e, False)" using assms(2) by auto
  have "fold (decodeEntry dec zero) (map (\<lambda>(k, x). (k, enc x)) m) (pre, False) = (pre @ m, False)"
    if "goMap_ok (pre @ m)" for pre
    using that enc_ok
  proof (induction m arbitrary: pre)
    case (Cons e m)
    obtain k x where e: "e = (k, x)" by (cases e)
    have "k \<notin> fst ` set pre" using Cons.prems(1) e by (auto simp: goMap_ok_def)
    moreover have "dec (enc x) zero = (x, False)" using Cons.prems(2) e by simp
    ultimately have "decodeEntry dec zero (k, enc x) (pre, False) = (pre @ [(k, x)], False)"
      by (simp add: decodeEntry_def mapSet_fresh)
    with Cons e show ?case by simp
  qed simp
  from this [of "[]"] assms(1) show ?thesis by (simp add: decodeMap_def)
qed

lemma decodeMap_map_json:
  assumes "goMap_ok m" and "\<And>k x. (k, x) \<in> set m \<Longrightarrow> dec (enc x) zero = (x, False)"
  shows "decodeMap dec zero (map_json enc m) [] = (sortedMap m, False)"
  unfolding map_json_def using assms by (intro decodeMap_JObj) auto

lemma decodeSlice_JArr:
  assumes "\<And>x. x \<in> set xs \<Longrightarrow> dec (enc x) zero = (x, False)"
  shows "decodeSlice dec zero (JArr (map enc xs)) [] = (xs, False)"
proof -
  have "decodeElems dec zero (map enc xs) [] = (xs, False)" using assms by (induction xs) auto
  then show ?thesis by (simp add: decodeSlice_def)
qed

lemma valid_map_json:
  assumes "\<And>k x. (k, x) \<in> set m \<Longrightarrow> validString k \<and> valid_json (enc x)"
  shows "valid_json (map_json enc m)"
  using assms by (auto simp: map_json_def)

lemma decodeStrict_print:
  assumes "valid_json v" and "decodeStruct table v zero = (s, False)"
  shows "decodeStrictWorkflowJSON table zero (print_json v) = Some s"
  using assms by (simp add: decodeStrictWorkflowJSON_def parse_print)

lemma setString_JStr [simp]: "setString (JStr s) old = (s, False)"
  by (simp add: setString_def)

lemma setNamed_JStr [simp]: "setNamed f (JStr s) old = (f s, False)"
  by (simp add: setNamed_def)

lemma setInt64_JNum [simp]: "minInt64 \<le> n \<Longrightarrow> n \<le> maxInt64 \<Longrightarrow> setInt64 (JNum n) old = (n, False)"
  by (simp add: setInt64_def)

lemma setUint_JNum [simp]: "int n \<le> maxUint64 \<Longrightarrow> setUint (JNum (int n)) old = (n, False)"
  by (simp add: setUint_def)

lemma setWord64_JNum [simp]: "setWord64 (JNum (uint w)) old = (w, False)"
proof -
  have "uint w < 2 ^ 64" using uint_lt2p [of w] by simp
  then have "uint w \<le> maxUint64" by (simp add: maxUint64_def)
  then show ?thesis by (simp add: setWord64_def setUint_def)
qed

lemma setRaw_simp [simp]: "setRaw v old = (Some v, False)"
  by (simp add: setRaw_def)

end
