(* ===== verification/GoTimeText.thy ===== *)
theory GoTimeText
  imports GoTime "HOL-Library.Monad_Syntax"
begin

text \<open>
  \<open>t.UTC().Format(time.RFC3339Nano)\<close> and \<open>time.Parse(time.RFC3339Nano, s)\<close>, with the leniencies
  of Go's parser (a one-digit hour, a comma before the fraction, any number of fraction digits, a
  numeric zone). The main fact is that an instant of the years 1 to 9999 reads back as itself;
  it rests on the correctness of the civil calendar.
\<close>

section \<open>Writing\<close>

definition yearText :: "int \<Rightarrow> string" where
  "yearText y =
     (if 0 \<le> y \<and> y \<le> 9999 then pad2 (y div 100) @ pad2 y
      else if 9999 < y then itoa y
      else CHR ''-'' # (let ds = nat_digits (nat (- y)) in replicate (4 - length ds) CHR ''0'' @ ds))"

definition fracDigits :: "int \<Rightarrow> string" where
  "fracDigits ns = map (\<lambda>i. digit_char (nat (ns div 10 ^ i mod 10))) (rev [0 ..< 9])"

text \<open>\<open>.999999999\<close>: trailing zeros are left out, and the point with them.\<close>

definition fracText :: "int \<Rightarrow> string" where
  "fracText ns =
     (if ns = 0 then []
      else CHR ''.'' # rev (dropWhile (\<lambda>c. c = CHR ''0'') (rev (fracDigits ns))))"

definition formatRFC3339Nano :: "instant \<Rightarrow> string" where
  "formatRFC3339Nano t =
     (let clock = t mod day_ns; s = clock div second in
      case civilDate (t div day_ns) of
        (y, m, d) \<Rightarrow>
          yearText y @ CHR ''-'' # pad2 m @ CHR ''-'' # pad2 d @ CHR ''T'' # pad2 (s div 3600)
          @ CHR '':'' # pad2 (s div 60 mod 60) @ CHR '':'' # pad2 (s mod 60)
          @ fracText (clock mod second) @ ''Z'')"

section \<open>Reading\<close>

definition expectChar :: "char \<Rightarrow> string \<Rightarrow> string option" where
  "expectChar c s = (case s of x # rest \<Rightarrow> if x = c then Some rest else None | [] \<Rightarrow> None)"

text \<open>\<open>getnum(value, fixed)\<close>.\<close>

definition getnum :: "bool \<Rightarrow> string \<Rightarrow> (int \<times> string) option" where
  "getnum fixed s =
     (case s of
        [] \<Rightarrow> None
      | a # rest \<Rightarrow>
          if \<not> isDigit a then None
          else (case rest of
                  b # rest' \<Rightarrow>
                    if isDigit b then Some (two_digits a b, rest')
                    else if fixed then None else Some (digit_val a, rest)
                | [] \<Rightarrow> if fixed then None else Some (digit_val a, [])))"

definition getYear :: "string \<Rightarrow> (int \<times> string) option" where
  "getYear s =
     (case s of
        a # b # c # d # rest \<Rightarrow>
          if list_all isDigit [a, b, c, d]
          then Some (two_digits a b * 100 + two_digits c d, rest) else None
      | _ \<Rightarrow> None)"

definition nanosOf :: "string \<Rightarrow> int" where
  "nanosOf ds = (let used = take 9 ds in digits_val used * 10 ^ (9 - length used))"

definition getFraction :: "string \<Rightarrow> int \<times> string" where
  "getFraction s =
     (case s of
        c # d # rest \<Rightarrow>
          if (c = CHR ''.'' \<or> c = CHR '','') \<and> isDigit d
          then (nanosOf (takeWhile isDigit (d # rest)), dropWhile isDigit (d # rest))
          else (0, s)
      | _ \<Rightarrow> (0, s))"

text \<open>\<open>Z07:00\<close>: the offset in seconds.\<close>

definition getZone :: "string \<Rightarrow> (int \<times> string) option" where
  "getZone s =
     (case s of
        [] \<Rightarrow> None
      | z # after \<Rightarrow>
          if z = CHR ''Z'' then Some (0, after)
          else (case s of
                  sign # h1 # h2 # c # m1 # m2 # rest \<Rightarrow>
                    if c = CHR '':'' \<and> list_all isDigit [h1, h2, m1, m2]
                       \<and> two_digits h1 h2 \<le> 24 \<and> two_digits m1 m2 \<le> 60
                       \<and> (sign = CHR ''+'' \<or> sign = CHR ''-'')
                    then let off = (two_digits h1 h2 * 60 + two_digits m1 m2) * 60
                         in Some (if sign = CHR ''+'' then off else - off, rest)
                    else None
                | _ \<Rightarrow> None))"

definition parseRFC3339Nano :: "string \<Rightarrow> instant option" where
  "parseRFC3339Nano s0 =
     do {
       (y, s1) \<leftarrow> getYear s0;
       s2 \<leftarrow> expectChar CHR ''-'' s1;
       (m, s3) \<leftarrow> getnum True s2;
       s4 \<leftarrow> expectChar CHR ''-'' s3;
       (d, s5) \<leftarrow> getnum True s4;
       s6 \<leftarrow> expectChar CHR ''T'' s5;
       (h, s7) \<leftarrow> getnum False s6;
       s8 \<leftarrow> expectChar CHR '':'' s7;
       (mi, s9) \<leftarrow> getnum True s8;
       s10 \<leftarrow> expectChar CHR '':'' s9;
       (sec, s11) \<leftarrow> getnum True s10;
       let (ns, s12) = getFraction s11;
       (off, s13) \<leftarrow> getZone s12;
       (if 1 \<le> m \<and> m \<le> 12 \<and> 1 \<le> d \<and> d \<le> daysIn m y \<and> h < 24 \<and> mi < 60 \<and> sec < 60 \<and> s13 = []
        then Some (dayNumber y m d * day_ns + (h * 3600 + mi * 60 + sec - off) * second + ns)
        else None)
     }"

section \<open>The civil calendar is correct\<close>

lemma monthFrom_correct:
  assumes "monthFrom k m y yd = (m', d)" and "0 \<le> yd"
    and "yd < sum_list (map (\<lambda>j. daysIn j y) [m .. m + int k])"
  shows "m \<le> m' \<and> m' \<le> m + int k \<and> 1 \<le> d \<and> d \<le> daysIn m' y
         \<and> sum_list (map (\<lambda>j. daysIn j y) [m .. m' - 1]) + d - 1 = yd"
  using assms
proof (induction k arbitrary: m yd)
  case 0
  then show ?case by auto
next
  case (Suc k)
  have split: "[m .. m + int (Suc k)] = m # [m + 1 .. m + 1 + int k]"
    by (subst upto.simps) (simp add: algebra_simps)
  show ?case
  proof (cases "yd < daysIn m y")
    case True
    with Suc.prems show ?thesis by auto
  next
    case False
    with Suc.prems split have IH: "m + 1 \<le> m' \<and> m' \<le> m + 1 + int k \<and> 1 \<le> d \<and> d \<le> daysIn m' y
        \<and> sum_list (map (\<lambda>j. daysIn j y) [m + 1 .. m' - 1]) + d - 1 = yd - daysIn m y"
      by (intro Suc.IH) auto
    then have "[m .. m' - 1] = m # [m + 1 .. m' - 1]" by (subst upto.simps) simp
    with IH show ?thesis by simp
  qed
qed

lemma upto_months: "[1 .. 1 + int 11] = [1, 2, 3, 4, 5, 6, 7, 8, 9, 10, 11, 12]"
  by (simp add: upto.simps)

lemma days_of_year:
  "sum_list (map (\<lambda>j. daysIn j y) [1 .. 1 + int 11]) = (if isLeap y then 366 else 365)"
  unfolding upto_months by (simp add: daysIn_def)

lemma cap_four: "0 \<le> (c::int) \<Longrightarrow> c \<le> 4 \<Longrightarrow> c - c div 4 = (if c = 4 then 3 else c)"
  by (auto simp: div_pos_pos_trivial)

lemma civilYear_correct:
  assumes "civilYear n = (y, yd)"
  shows "daysBeforeYear y + yd = n \<and> 0 \<le> yd \<and> yd < (if isLeap y then 366 else 365)"
proof -
  define a d where "a = n div 146097" and "d = n mod 146097"
  define b where "b = d div 36524 - d div 36524 div 4"
  define d1 where "d1 = d - 36524 * b"
  define c d2 where "c = d1 div 1461" and "d2 = d1 mod 1461"
  define e where "e = d2 div 365 - d2 div 365 div 4"
  have "civilYear n = (400 * a + 100 * b + 4 * c + e + 1, d2 - 365 * e)"
    unfolding civilYear_def Let_def a_def d_def b_def d1_def c_def d2_def e_def by (rule refl)
  then have y: "y = 400 * a + 100 * b + 4 * c + e + 1" and yd: "yd = d2 - 365 * e"
    using assms by simp_all
  have n: "n = 146097 * a + d" and d: "0 \<le> d" "d < 146097"
    by (simp_all add: a_def d_def)
  have b: "b = (if d div 36524 = 4 then 3 else d div 36524)"
    unfolding b_def by (rule cap_four) (use d in linarith)+
  have b_range: "0 \<le> b" "b \<le> 3" and d1: "0 \<le> d1" "d1 \<le> 36524" "d1 = 36524 \<longrightarrow> b = 3"
    using d b unfolding d1_def by (auto split: if_splits)
  have d1_eq: "d1 = 1461 * c + d2" and d2: "0 \<le> d2" "d2 < 1461"
    by (simp_all add: c_def d2_def)
  have c: "0 \<le> c" "c \<le> 24" using d1 d1_eq d2 unfolding c_def by linarith+
  have e: "e = (if d2 div 365 = 4 then 3 else d2 div 365)"
    unfolding e_def by (rule cap_four) (use d2 in linarith)+
  have e_range: "0 \<le> e" "e \<le> 3" and yd_range: "0 \<le> yd" "yd \<le> 365" "yd = 365 \<longrightarrow> d2 = 1460 \<and> e = 3"
    using d2 e unfolding yd by (auto split: if_splits)
  have Y: "y - 1 = 400 * a + (100 * b + 4 * c + e)" using y by simp
  have "(y - 1) div 4 = 100 * a + 25 * b + c" using y e_range by linarith
  moreover have "(y - 1) div 100 = 4 * a + b" using y e_range c by linarith
  moreover have "(y - 1) div 400 = a" using y e_range c b_range by linarith
  ultimately have "daysBeforeYear y = 146097 * a + 36524 * b + 1461 * c + 365 * e"
    unfolding daysBeforeYear_def using Y by simp
  then have days: "daysBeforeYear y + yd = n"
    using n d1_eq yd unfolding d1_def by simp
  have "isLeap y" if "yd = 365"
  proof -
    have d2': "d2 = 1460" and e': "e = 3" using yd_range that by auto
    have y': "y = 100 * (4 * a + b) + 4 * (c + 1)" using y e' by simp
    have "y = 4 * (100 * a + 25 * b + c + 1)" using y' by simp
    then have four: "4 dvd y" by (rule dvdI)
    have "400 dvd y" if "100 dvd y"
    proof -
      have "100 dvd 4 * (c + 1)" using that unfolding y' by (simp add: dvd_add_right_iff)
      then obtain k where k: "4 * (c + 1) = 100 * k" by (rule dvdE)
      then have "k \<le> 1" and "1 \<le> k" using c by presburger+
      then have "k = 1" by simp
      then have "c = 24" using k by simp
      then have "d1 = 36524" using d1_eq d2' by simp
      then have "b = 3" using d1 by simp
      with \<open>c = 24\<close> y' have "y = 400 * (a + 1)" by simp
      then show ?thesis by (rule dvdI)
    qed
    with four show ?thesis by (auto simp: isLeap_def)
  qed
  then have "yd < (if isLeap y then 366 else 365)"
    using yd_range by (cases "yd = 365") auto
  with days yd_range show ?thesis by simp
qed

lemma civilDate_correct:
  assumes "civilDate n = (y, m, d)"
  shows "dayNumber y m d = n" and "1 \<le> m" and "m \<le> 12" and "1 \<le> d" and "d \<le> daysIn m y"
proof -
  obtain yd where yd: "civilYear n = (y, yd)" "monthFrom 11 1 y yd = (m, d)"
    using assms by (auto simp: civilDate_def split: prod.splits)
  note year = civilYear_correct [OF yd(1)]
  have "m \<le> 1 + int 11 \<and> 1 \<le> m \<and> 1 \<le> d \<and> d \<le> daysIn m y
        \<and> sum_list (map (\<lambda>j. daysIn j y) [1 .. m - 1]) + d - 1 = yd"
    using monthFrom_correct [OF yd(2)] year unfolding days_of_year by auto
  with year show "dayNumber y m d = n" "1 \<le> m" "m \<le> 12" "1 \<le> d" "d \<le> daysIn m y"
    by (auto simp: dayNumber_def daysBeforeMonth_def)
qed

text \<open>The day numbers of the years 1 to 9999.\<close>

lemma civilDate_year:
  assumes "civilDate n = (y, m, d)" and "0 \<le> n" and "n < 3652059"
  shows "1 \<le> y" and "y \<le> 9999"
proof -
  obtain yd where "civilYear n = (y, yd)" using assms(1) by (auto simp: civilDate_def split: prod.splits)
  from civilYear_correct [OF this] have
    n: "daysBeforeYear y + yd = n" "0 \<le> yd" "yd \<le> 365" by (auto split: if_splits)
  obtain x where y: "y = x + 1" by (metis diff_add_cancel)
  have days: "365 * x + x div 4 - x div 100 + x div 400 + yd = n"
    using n(1) by (simp add: daysBeforeYear_def y)
  have "\<not> x < -1"
  proof
    assume "x < -1"
    moreover have "x div 4 \<le> 0" and "x div 400 \<le> 0" and "x \<le> 100 * (x div 100) + 99"
      using \<open>x < -1\<close> by linarith+
    ultimately show False using days n(3) assms(2) by linarith
  qed
  moreover have "x \<noteq> -1" using days n(3) assms(2) by auto
  ultimately show "1 \<le> y" using y by linarith
  show "y \<le> 9999"
  proof (rule ccontr)
    assume "\<not> y \<le> 9999"
    then have "9999 \<le> x" using y by simp
    then have "2499 \<le> x div 4" and "24 \<le> x div 400" and "100 * (x div 100) \<le> x"
      by linarith+
    moreover have "x - x div 100 \<ge> 9900" using \<open>9999 \<le> x\<close> \<open>100 * (x div 100) \<le> x\<close> by linarith
    ultimately show False using days n(2) assms(3) \<open>9999 \<le> x\<close> by linarith
  qed
qed

section \<open>Digits\<close>

lemma pad2_digits:
  assumes "0 \<le> n" and "n < 100"
  shows "pad2 n = [digit_char (nat (n div 10)), digit_char (nat (n mod 10))]"
  using assms by (simp add: pad2_def)

lemma pad2_two_digits:
  assumes "0 \<le> n" and "n < 100"
  shows "\<exists>a b. pad2 n = [a, b] \<and> isDigit a \<and> isDigit b \<and> two_digits a b = n"
proof -
  have "nat (n div 10) < 10" and "nat (n mod 10) < 10" and "0 \<le> n div 10"
    using assms by linarith+
  with assms show ?thesis
    by (simp add: pad2_digits isDigit_digit_char two_digits_def digit_val_digit_char)
qed

lemma getnum_pad2 [simp]:
  "0 \<le> n \<Longrightarrow> n < 100 \<Longrightarrow> getnum fixed (pad2 n @ rest) = Some (n, rest)"
  using pad2_two_digits [of n] by (auto simp: getnum_def)

lemma pad2_mod: "pad2 (n mod 100) = pad2 n"
proof -
  have "n mod 100 = 10 * (n div 10 mod 10) + n mod 10"
    using zmod_zmult2_eq [of 10 n 10] by simp
  then have "n mod 100 div 10 = n div 10 mod 10"
    using pos_mod_bound [of 10 n] pos_mod_sign [of 10 n] by linarith
  moreover have "n mod 100 mod 10 = n mod 10" by (rule mod_mod_cancel) simp
  ultimately show ?thesis by (simp only: pad2_def mod_mod_trivial)
qed

lemma getYear_yearText:
  assumes "0 \<le> y" and "y \<le> 9999"
  shows "getYear (yearText y @ rest) = Some (y, rest)"
proof -
  have hundreds: "0 \<le> y div 100" "y div 100 < 100" using assms by linarith+
  have "pad2 y = pad2 (y mod 100)" by (rule pad2_mod [symmetric])
  moreover obtain a b where "pad2 (y div 100) = [a, b]" "isDigit a" "isDigit b"
    "two_digits a b = y div 100"
    using pad2_two_digits [OF hundreds] by auto
  moreover obtain c d where "pad2 (y mod 100) = [c, d]" "isDigit c" "isDigit d"
    "two_digits c d = y mod 100"
    using pad2_two_digits [of "y mod 100"] by auto
  ultimately show ?thesis using assms by (simp add: yearText_def getYear_def)
qed

lemma expectChar_Cons [simp]: "expectChar c (c # rest) = Some rest"
  by (simp add: expectChar_def)

lemma digits_val_append_zeros: "digits_val (ds @ replicate k CHR ''0'') = digits_val ds * 10 ^ k"
proof (induction k)
  case (Suc k)
  have "replicate (Suc k) CHR ''0'' = replicate k CHR ''0'' @ [CHR ''0'']"
    by (simp add: replicate_append_same)
  then show ?case using Suc digits_val_snoc [of "ds @ replicate k CHR ''0''" "CHR ''0''"]
    by (simp add: digit_val_def)
qed simp

section \<open>The fraction\<close>

lemma digits_val_Cons: "digits_val (c # ds) = digit_val c * 10 ^ length ds + digits_val ds"
proof (induction ds rule: rev_induct)
  case (snoc d ds)
  have "digits_val (c # ds @ [d]) = digits_val (c # ds) * 10 + digit_val d"
    using digits_val_snoc [of "c # ds" d] by simp
  with snoc show ?case by (simp add: digits_val_snoc algebra_simps)
qed (simp add: digits_val_def)

lemma digits_val_positions:
  assumes "0 \<le> n"
  shows "digits_val (map (\<lambda>i. digit_char (nat (n div 10 ^ i mod 10))) (rev [0 ..< k]))
         = n mod 10 ^ k"
proof (induction k)
  case (Suc k)
  have digit: "digit_val (digit_char (nat (n div 10 ^ k mod 10))) = n div 10 ^ k mod 10"
    by (subst digit_val_digit_char) (simp_all add: nat_less_iff)
  have "n mod 10 ^ Suc k = 10 ^ k * (n div 10 ^ k mod 10) + n mod 10 ^ k"
    using zmod_zmult2_eq [of 10 n "10 ^ k"] by (simp add: mult.commute)
  with Suc digit show ?case by (simp add: digits_val_Cons)
qed (simp add: digits_val_def)

lemma fracDigits_val: "0 \<le> ns \<Longrightarrow> ns < second \<Longrightarrow> digits_val (fracDigits ns) = ns"
  unfolding fracDigits_def by (subst digits_val_positions) (simp_all add: second_def)

lemma fracDigits_digits: "list_all isDigit (fracDigits ns)" and length_fracDigits: "length (fracDigits ns) = 9"
  by (auto simp: fracDigits_def list_all_iff intro!: isDigit_digit_char simp: nat_less_iff)

text \<open>Cutting the trailing zeros off a digit string.\<close>

lemma strip_zeros:
  obtains k where "ds = rev (dropWhile (\<lambda>c. c = CHR ''0'') (rev ds)) @ replicate k CHR ''0''"
proof -
  let ?zs = "takeWhile (\<lambda>c. c = CHR ''0'') (rev ds)"
  have zs: "?zs = replicate (length ?zs) CHR ''0''"
    by (rule sym, rule replicate_length_same) (auto dest: set_takeWhileD)
  have "rev ds = ?zs @ dropWhile (\<lambda>c. c = CHR ''0'') (rev ds)" by simp
  then have "ds = rev (dropWhile (\<lambda>c. c = CHR ''0'') (rev ds)) @ rev ?zs"
    by (metis rev_append rev_rev_ident)
  with zs have "ds = rev (dropWhile (\<lambda>c. c = CHR ''0'') (rev ds)) @ replicate (length ?zs) CHR ''0''"
    by (metis rev_replicate)
  then show ?thesis by (rule that)
qed

lemma getFraction_fracText:
  assumes "0 \<le> ns" and "ns < second"
  shows "getFraction (fracText ns @ ''Z'') = (ns, ''Z'')"
proof (cases "ns = 0")
  case True
  then show ?thesis by (simp add: fracText_def getFraction_def)
next
  case False
  define kept where "kept = rev (dropWhile (\<lambda>c. c = CHR ''0'') (rev (fracDigits ns)))"
  obtain k where k: "fracDigits ns = kept @ replicate k CHR ''0''"
    unfolding kept_def by (rule strip_zeros)
  have val: "digits_val kept * 10 ^ k = ns"
    using fracDigits_val [OF assms] unfolding k digits_val_append_zeros .
  have len: "length kept + k = 9" using length_fracDigits [of ns] unfolding k by simp
  have digits: "list_all isDigit kept" using fracDigits_digits [of ns] unfolding k by simp
  obtain d ds where kept: "kept = d # ds"
    using val False by (cases kept) (auto simp: digits_val_def)
  have tw: "takeWhile isDigit (kept @ ''Z'') = kept" "dropWhile isDigit (kept @ ''Z'') = ''Z''"
    using digits by (auto simp: list_all_iff isDigit_def takeWhile_append dropWhile_append)
  have "fracText ns = CHR ''.'' # kept" using False by (simp add: fracText_def kept_def)
  then have "getFraction (fracText ns @ ''Z'') = (nanosOf kept, ''Z'')"
    using tw digits by (simp add: getFraction_def kept)
  moreover have "9 - length kept = k" using len by simp
  then have "nanosOf kept = ns" using val len by (simp add: nanosOf_def)
  ultimately show ?thesis by simp
qed

section \<open>Reading back\<close>

text \<open>The instants of the years 1 to 9999.\<close>

definition instant_ok :: "instant \<Rightarrow> bool" where
  "instant_ok t \<longleftrightarrow> 0 \<le> t \<and> t < 3652059 * day_ns"

lemma parse_text:
  assumes "0 \<le> y" "y \<le> 9999" "1 \<le> m" "m \<le> 12" "1 \<le> d" "d \<le> daysIn m y"
    and "0 \<le> h" "h < 24" "0 \<le> mi" "mi < 60" "0 \<le> sec" "sec < 60"
    and "0 \<le> ns" "ns < second"
  shows "parseRFC3339Nano
           (yearText y @ CHR ''-'' # pad2 m @ CHR ''-'' # pad2 d @ CHR ''T'' # pad2 h
            @ CHR '':'' # pad2 mi @ CHR '':'' # pad2 sec @ fracText ns @ ''Z'')
         = Some (dayNumber y m d * day_ns + (h * 3600 + mi * 60 + sec) * second + ns)"
proof -
  have "d < 100" using assms(6) by (auto simp: daysIn_def split: if_splits)
  with assms show ?thesis
    by (simp add: parseRFC3339Nano_def getYear_yearText getFraction_fracText getZone_def)
qed

lemma clock_split:
  fixes s :: int
  assumes "0 \<le> s" and "s < 86400"
  obtains h mi sec where "s div 3600 = h" and "s div 60 mod 60 = mi" and "s mod 60 = sec"
    and "s = h * 3600 + mi * 60 + sec" and "0 \<le> h" "h < 24" "0 \<le> mi" "mi < 60" "0 \<le> sec" "sec < 60"
proof -
  have "s div 3600 = s div 60 div 60" using zdiv_zmult2_eq [of 60 s 60] by simp
  moreover have "s = s div 60 * 60 + s mod 60" by (rule div_mult_mod_eq [symmetric])
  moreover have "s div 60 = s div 60 div 60 * 60 + s div 60 mod 60"
    by (rule div_mult_mod_eq [symmetric])
  ultimately have "s = s div 3600 * 3600 + s div 60 mod 60 * 60 + s mod 60" by linarith
  moreover have "0 \<le> s div 3600" "s div 3600 < 24" "0 \<le> s mod 60" "s mod 60 < 60"
    using assms by linarith+
  moreover have "0 \<le> s div 60 mod 60" "s div 60 mod 60 < 60"
    by (rule pos_mod_sign, simp, rule pos_mod_bound, simp)
  ultimately show ?thesis by (intro that [OF refl refl refl])
qed

lemma parse_format_RFC3339Nano:
  assumes "instant_ok t"
  shows "parseRFC3339Nano (formatRFC3339Nano t) = Some t"
proof -
  define n clock s ns where "n = t div day_ns" and "clock = t mod day_ns"
    and "s = clock div second" and "ns = clock mod second"
  have t: "t = n * day_ns + clock" and clock: "clock = s * second + ns"
    by (simp_all add: n_def clock_def s_def ns_def)
  have clock_range: "0 \<le> clock" "clock < day_ns" by (simp_all add: clock_def day_ns_def)
  have ns: "0 \<le> ns" "ns < second" by (simp_all add: ns_def second_def)
  have s: "0 \<le> s" "s < 86400"
    using clock_range unfolding s_def second_def day_ns_def by linarith+
  have n: "0 \<le> n" "n < 3652059"
    using assms unfolding instant_ok_def n_def day_ns_def by linarith+
  obtain y m d where date: "civilDate n = (y, m, d)" by (metis prod_cases3)
  note civil = civilDate_correct [OF date] and year = civilDate_year [OF date n]
  obtain h mi sec where hms: "s div 3600 = h" "s div 60 mod 60 = mi" "s mod 60 = sec"
    "s = h * 3600 + mi * 60 + sec" "0 \<le> h" "h < 24" "0 \<le> mi" "mi < 60" "0 \<le> sec" "sec < 60"
    using s by (rule clock_split)
  have written: "formatRFC3339Nano t =
      yearText y @ CHR ''-'' # pad2 m @ CHR ''-'' # pad2 d @ CHR ''T'' # pad2 h
          @ CHR '':'' # pad2 mi @ CHR '':'' # pad2 sec @ fracText ns @ ''Z''"
    unfolding formatRFC3339Nano_def Let_def n_def [symmetric] clock_def [symmetric]
      s_def [symmetric] ns_def [symmetric] date hms(1-3)
    by simp
  have "0 \<le> y" using year(1) by simp
  show ?thesis
    unfolding written parse_text [OF \<open>0 \<le> y\<close> year(2) civil(2-5) hms(5-10) ns]
    using t clock civil(1) hms(4) by simp
qed

section \<open>The characters of a written instant\<close>

definition timeChar :: "char \<Rightarrow> bool" where
  "timeChar c \<longleftrightarrow> isDigit c \<or> c \<in> {CHR ''-'', CHR ''T'', CHR '':'', CHR ''.'', CHR ''Z''}"

lemma digit_timeChar: "isDigit c \<Longrightarrow> timeChar c"
  by (simp add: timeChar_def)

lemma timeChar_simps [simp]:
  "timeChar CHR ''-''" "timeChar CHR ''T''" "timeChar CHR '':''" "timeChar CHR ''.''"
  "timeChar CHR ''Z''"
  by (simp_all add: timeChar_def)

lemma digit_timeChar_mod: "timeChar (digit_char (nat (n mod 10)))"
  by (rule digit_timeChar, rule isDigit_digit_char) (simp add: nat_less_iff)

lemma timeChars_pad2 [simp]: "list_all timeChar (pad2 n)"
  by (simp add: pad2_def digit_timeChar_mod)

lemma timeChars_nat_digits [simp]: "list_all timeChar (nat_digits n)"
  by (auto simp: list_all_iff intro: digit_timeChar nat_digits_isDigit)

lemma timeChar_zero [simp]: "timeChar CHR ''0''"
  by (simp add: timeChar_def isDigit_def)

lemma timeChars_yearText [simp]: "list_all timeChar (yearText y)"
proof -
  have "list_all timeChar (replicate k CHR ''0'')" for k by (simp add: list_all_iff)
  then show ?thesis by (simp add: yearText_def itoa_def Let_def)
qed

lemma timeChars_fracText [simp]: "list_all timeChar (fracText ns)"
proof -
  have "list_all timeChar (fracDigits ns)"
    using fracDigits_digits [of ns] by (auto simp: list_all_iff digit_timeChar)
  then show ?thesis
    by (auto simp: fracText_def list_all_iff dest: set_dropWhileD)
qed

lemma timeChars_format: "list_all timeChar (formatRFC3339Nano t)"
  by (simp add: formatRFC3339Nano_def Let_def split: prod.split)

lemma format_ascii: "ascii (formatRFC3339Nano t)" and format_no_space: "no_space (formatRFC3339Nano t)"
  using timeChars_format [of t]
  by (auto simp: ascii_def no_space_def list_all_iff timeChar_def isDigit_def isSpace_def)

lemma format_nonempty: "formatRFC3339Nano t \<noteq> []"
  by (simp add: formatRFC3339Nano_def Let_def split: prod.split)

lemma trimSpace_format [simp]: "trimSpace (formatRFC3339Nano t) = formatRFC3339Nano t"
  by (rule trimSpace_ascii [OF format_ascii format_no_space])

end
