(* ===== verification/ExecutionCodec.thy ===== *)
theory ExecutionCodec
  imports StrictJson GoTimeText
begin

text \<open>
  The persisted form of a reserved subscription write and of its result
  (src/internal/agent/workflow\_snapshot\_codec.go and the validation in workflow\_store.go): the
  exact authority needed to retry the write, as a strict JSON document of at most 64 KiB. The
  main property is that what is marshalled is read back in canonical form: times cut to
  milliseconds, department lists sorted without repetitions, parameters in key order.

  The text of an error that another package words (the JSON decoder, \<open>time.Parse\<close>) is left out
  of the error the code wraps it in.
\<close>

section \<open>Types\<close>

record WorkflowKey =
  WK_TenantID :: nat
  WK_ConversationID :: string
  WK_ActorUserID :: nat

datatype executionStatus =
    WorkflowExecutionExecuting | WorkflowExecutionResultRecorded
  | WorkflowExecutionRecoveryRequired | OtherStatus string

datatype writeEffect =
    WriteEffectCreated | WriteEffectUpdated | WriteEffectNoOp | WriteEffectCancelled
  | OtherEffect string

fun effectText :: "writeEffect \<Rightarrow> string" where
  "effectText WriteEffectCreated = ''created''"
| "effectText WriteEffectUpdated = ''updated''"
| "effectText WriteEffectNoOp = ''no_op''"
| "effectText WriteEffectCancelled = ''cancelled''"
| "effectText (OtherEffect s) = s"

definition effectOf :: "string \<Rightarrow> writeEffect" where
  "effectOf s =
     (if s = ''created'' then WriteEffectCreated
      else if s = ''updated'' then WriteEffectUpdated
      else if s = ''no_op'' then WriteEffectNoOp
      else if s = ''cancelled'' then WriteEffectCancelled
      else OtherEffect s)"

record ReservedExecutionV1 =
  RE_Operation :: string
  RE_BusinessKey :: string
  RE_TrustedParams :: "goAny goMap"
  RE_ExecutionToken :: string
  RE_AttemptRequestID :: string
  RE_StartedAt :: instant
  RE_LeaseExpiresAt :: instant

record PersistedExecutionResultV1 =
  PR_BusinessKey :: string
  PR_WriteEffect :: writeEffect
  PR_CompletedAt :: instant

record PersistedExecutionV1 =
  PE_Status :: executionStatus
  PE_Reservation :: ReservedExecutionV1
  PE_Result :: "PersistedExecutionResultV1 option"

record persistedTypedValueV1 =
  PV_Kind :: string
  PV_Value :: "json option"

record persistedReservedExecutionV1 =
  PX_SchemaVersion :: int
  PX_Operation :: string
  PX_BusinessKey :: string
  PX_TrustedParams :: "persistedTypedValueV1 goMap"
  PX_ExecutionToken :: string
  PX_AttemptRequestID :: string
  PX_StartedAt :: string
  PX_LeaseExpiresAt :: string

record persistedExecutionResultV1 =
  PQ_SchemaVersion :: int
  PQ_BusinessKey :: string
  PQ_WriteEffect :: writeEffect
  PQ_CompletedAt :: string

definition workflowSnapshotMaxBytes :: nat where "workflowSnapshotMaxBytes = 64 * 1024"
definition executionSchemaVersion :: int where "executionSchemaVersion = 1"
definition workflowSnapshotMaxInt64SliceItems :: nat where "workflowSnapshotMaxInt64SliceItems = 256"
definition workflowSnapshotMaxLabelRunes :: nat where "workflowSnapshotMaxLabelRunes = 256"
definition workflowSnapshotMaxTypedStringRunes :: nat where
  "workflowSnapshotMaxTypedStringRunes = 4096"
definition workflowSnapshotMaxConversationRunes :: nat where
  "workflowSnapshotMaxConversationRunes = 128"
definition executionMaxTrustedParams :: nat where "executionMaxTrustedParams = 6"
definition executionMaxProjectionRunes :: nat where "executionMaxProjectionRunes = 64"

section \<open>Times and ids\<close>

definition formatWorkflowTime :: "instant \<Rightarrow> string" where
  "formatWorkflowTime t = (if t = 0 then [] else formatRFC3339Nano t)"

definition parseExecutionTime :: "string \<Rightarrow> string \<Rightarrow> agentError + instant" where
  "parseExecutionTime field s =
     (if trimSpace s = [] then Inl (Errorf (''reserved execution '' @ field @ '' is required''))
      else (case parseRFC3339Nano s of
              None \<Rightarrow> Inl (Errorf (''invalid reserved execution '' @ field))
            | Some t \<Rightarrow> Inr t))"

text \<open>\<open>value.UTC().Truncate(time.Millisecond)\<close>.\<close>

definition normalizeWorkflowDatabaseTime :: "instant \<Rightarrow> instant" where
  "normalizeWorkflowDatabaseTime t = t - t mod millisecond"

definition sortedUniqueInt64s :: "int list \<Rightarrow> int list" where
  "sortedUniqueInt64s ids = remdups_adj (sort ids)"

section \<open>Typed values\<close>

definition encodePersistedTypedValue :: "goAny \<Rightarrow> agentError + persistedTypedValueV1" where
  "encodePersistedTypedValue v =
     (case v of
        GoString s \<Rightarrow>
          if \<not> runeLengthWithin s workflowSnapshotMaxTypedStringRunes
          then Inl (Errorf ''string value exceeds limit'')
          else Inr \<lparr>PV_Kind = ''string'', PV_Value = Some (JStr s)\<rparr>
      | GoInt n \<Rightarrow> Inr \<lparr>PV_Kind = ''int'', PV_Value = Some (JNum n)\<rparr>
      | GoInt64 n \<Rightarrow> Inr \<lparr>PV_Kind = ''int64'', PV_Value = Some (JNum n)\<rparr>
      | GoUint n \<Rightarrow> Inr \<lparr>PV_Kind = ''uint'', PV_Value = Some (JNum (int n))\<rparr>
      | GoInt64s ns \<Rightarrow>
          if workflowSnapshotMaxInt64SliceItems < length ns
          then Inl (Errorf ''int64 slice exceeds limit'')
          else Inr \<lparr>PV_Kind = ''int64_slice'', PV_Value = Some (JArr (map JNum ns))\<rparr>
      | GoBool b \<Rightarrow> Inr \<lparr>PV_Kind = ''bool'', PV_Value = Some (JBool b)\<rparr>
      | _ \<Rightarrow> Inl (Errorf ''unsupported persisted value type''))"

definition decoded :: "('a \<Rightarrow> goAny) \<Rightarrow> 'a \<times> bool \<Rightarrow> agentError + goAny" where
  "decoded mk r = (case r of (x, err) \<Rightarrow> if err then Inl (Errorf ''json: cannot unmarshal'') else Inr (mk x))"

definition decodePersistedTypedValue :: "persistedTypedValueV1 \<Rightarrow> agentError + goAny" where
  "decodePersistedTypedValue p =
     (case PV_Value p of
        None \<Rightarrow> Inl (Errorf ''typed value is empty or null'')
      | Some v \<Rightarrow>
          if v = JNull then Inl (Errorf ''typed value is empty or null'')
          else if PV_Kind p = ''string'' then
            (case setString v [] of (s, err) \<Rightarrow>
               if err then Inl (Errorf ''json: cannot unmarshal'')
               else if \<not> runeLengthWithin s workflowSnapshotMaxTypedStringRunes
               then Inl (Errorf ''string value exceeds limit'')
               else Inr (GoString s))
          else if PV_Kind p = ''int'' then decoded GoInt (setInt64 v 0)
          else if PV_Kind p = ''int64'' then decoded GoInt64 (setInt64 v 0)
          else if PV_Kind p = ''uint'' then decoded GoUint (setUint v 0)
          else if PV_Kind p = ''int64_slice'' then
            (case decodeSlice setInt64 0 v [] of (ns, err) \<Rightarrow>
               if err then Inl (Errorf ''json: cannot unmarshal'')
               else if workflowSnapshotMaxInt64SliceItems < length ns
               then Inl (Errorf ''int64 slice exceeds limit'')
               else Inr (GoInt64s ns))
          else if PV_Kind p = ''bool'' then decoded GoBool (setBool v False)
          else Inl (Errorf (''unsupported persisted value kind '' @ PV_Kind p)))"

definition typedValue_json :: "persistedTypedValueV1 \<Rightarrow> json" where
  "typedValue_json p =
     JObj [(''kind'', JStr (PV_Kind p)),
           (''value'', case PV_Value p of None \<Rightarrow> JNull | Some v \<Rightarrow> v)]"

definition zeroTypedValue :: persistedTypedValueV1 where
  "zeroTypedValue = \<lparr>PV_Kind = [], PV_Value = None\<rparr>"

definition setTypedValue :: "persistedTypedValueV1 setter" where
  "setTypedValue = decodeStruct
     [(''kind'', fieldSetter setString PV_Kind (\<lambda>x. PV_Kind_update (\<lambda>_. x))),
      (''value'', fieldSetter setRaw PV_Value (\<lambda>x. PV_Value_update (\<lambda>_. x)))]"

section \<open>Validation\<close>

definition supportedParam :: "goAny \<Rightarrow> bool" where
  "supportedParam v =
     (case v of GoString _ \<Rightarrow> True | GoInt _ \<Rightarrow> True | GoInt64 _ \<Rightarrow> True | GoUint _ \<Rightarrow> True
        | GoInt64s _ \<Rightarrow> True | GoBool _ \<Rightarrow> True | _ \<Rightarrow> False)"

fun validateExecutionParams :: "goAny goMap \<Rightarrow> agentError option" where
  "validateExecutionParams [] = None"
| "validateExecutionParams ((field, v) # m) =
     (if trimSpace field = [] then Some (Errorf ''execution trusted parameter name is required'')
      else if \<not> supportedParam v
      then Some (Errorf (''unsupported execution trusted parameter type for '' @ field))
      else validateExecutionParams m)"

definition validateReservedExecution :: "ReservedExecutionV1 \<Rightarrow> agentError option" where
  "validateReservedExecution r =
     (if trimSpace (RE_Operation r) = [] then Some (Errorf ''execution operation is required'')
      else if trimSpace (RE_BusinessKey r) = []
      then Some (Errorf ''execution business key is required'')
      else if trimSpace (RE_ExecutionToken r) = [] then Some (Errorf ''execution token is required'')
      else if trimSpace (RE_AttemptRequestID r) = []
      then Some (Errorf ''execution request id is required'')
      else if RE_StartedAt r = 0 then Some (Errorf ''execution start time is required'')
      else if RE_LeaseExpiresAt r = 0 then Some (Errorf ''execution lease expiry is required'')
      else if \<not> RE_StartedAt r < RE_LeaseExpiresAt r
      then Some (Errorf ''execution lease expiry must be after start time'')
      else if \<not> runeLengthWithin (trimSpace (RE_Operation r)) executionMaxProjectionRunes
              \<or> \<not> runeLengthWithin (trimSpace (RE_BusinessKey r)) executionMaxProjectionRunes
              \<or> \<not> runeLengthWithin (trimSpace (RE_ExecutionToken r)) executionMaxProjectionRunes
              \<or> \<not> runeLengthWithin (trimSpace (RE_AttemptRequestID r)) executionMaxProjectionRunes
      then Some (Errorf ''execution identifier exceeds persistence limit'')
      else validateExecutionParams (RE_TrustedParams r))"

definition validatePersistedExecutionResult :: "PersistedExecutionResultV1 \<Rightarrow> agentError option" where
  "validatePersistedExecutionResult result =
     (if trimSpace (PR_BusinessKey result) = []
      then Some (Errorf ''execution result business key is required'')
      else if \<not> runeLengthWithin (trimSpace (PR_BusinessKey result)) executionMaxProjectionRunes
      then Some (Errorf ''execution result business key exceeds persistence limit'')
      else (case PR_WriteEffect result of
              OtherEffect e \<Rightarrow> Some (Errorf (''unsupported write effect '' @ e))
            | _ \<Rightarrow>
                if PR_CompletedAt result = 0
                then Some (Errorf ''execution result completion time is required'')
                else None))"

text \<open>\<open>normalizeExecutionTrustedParam\<close>: the allowlist of persisted parameters.\<close>

definition normalizeExecutionTrustedParam :: "string \<Rightarrow> goAny \<Rightarrow> agentError + goAny" where
  "normalizeExecutionTrustedParam key v =
     (if key = ''conversation_id'' then
        (case v of
           GoString s \<Rightarrow>
             if s = [] \<or> s \<noteq> trimSpace s
                \<or> \<not> runeLengthWithin s workflowSnapshotMaxConversationRunes
             then Inl (Errorf ''reserved execution conversation_id is invalid'') else Inr v
         | _ \<Rightarrow> Inl (Errorf ''reserved execution conversation_id is invalid''))
      else if key = ''scope'' then
        (if v = GoString ''all'' \<or> v = GoString ''department'' then Inr v
         else Inl (Errorf ''reserved execution scope is invalid''))
      else if key = ''dept_ids'' then
        (case v of
           GoInt64s ids \<Rightarrow>
             if workflowSnapshotMaxInt64SliceItems < length ids
             then Inl (Errorf ''reserved execution dept_ids is invalid'')
             else if list_ex (\<lambda>d. d \<le> 0) ids
             then Inl (Errorf ''reserved execution dept_ids contains invalid id'')
             else Inr (GoInt64s (sortedUniqueInt64s ids))
         | _ \<Rightarrow> Inl (Errorf ''reserved execution dept_ids is invalid''))
      else if key = operationParamActorRole then
        (case v of
           GoInt n \<Rightarrow> if n < 0 then Inl (Errorf ''reserved execution actor_role is invalid'') else Inr v
         | _ \<Rightarrow> Inl (Errorf ''reserved execution actor_role is invalid''))
      else if key = operationParamConversationType then
        (if v = GoString ''2'' then Inr v
         else Inl (Errorf ''reserved execution conversation_type is invalid''))
      else if key = operationParamConversationTitle then
        (case v of
           GoString s \<Rightarrow>
             if runeLengthWithin s workflowSnapshotMaxLabelRunes then Inr v
             else Inl (Errorf ''reserved execution conversation_title is invalid'')
         | _ \<Rightarrow> Inl (Errorf ''reserved execution conversation_title is invalid''))
      else Inl (Errorf (''reserved execution trusted param '' @ key @ '' is not allowlisted'')))"

definition encodeExecutionParam :: "string \<times> goAny \<Rightarrow> agentError + string \<times> persistedTypedValueV1" where
  "encodeExecutionParam e =
     (case e of (key, v) \<Rightarrow>
        (case normalizeExecutionTrustedParam key v of
           Inl err \<Rightarrow> Inl err
         | Inr w \<Rightarrow>
             (case encodePersistedTypedValue w of
                Inl err \<Rightarrow> Inl (Wrapped (''reserved execution param '' @ key) err)
              | Inr p \<Rightarrow> Inr (key, p))))"

definition decodeExecutionParam :: "string \<times> persistedTypedValueV1 \<Rightarrow> agentError + string \<times> goAny" where
  "decodeExecutionParam e =
     (case e of (key, p) \<Rightarrow>
        (case decodePersistedTypedValue p of
           Inl err \<Rightarrow> Inl (Wrapped (''reserved execution param '' @ key) err)
         | Inr v \<Rightarrow>
             (case normalizeExecutionTrustedParam key v of
                Inl err \<Rightarrow> Inl err
              | Inr w \<Rightarrow> Inr (key, w))))"

section \<open>The V1 documents\<close>

definition reservedExecutionToV1 :: "ReservedExecutionV1 \<Rightarrow> agentError + persistedReservedExecutionV1" where
  "reservedExecutionToV1 r =
     (case validateReservedExecution r of
        Some err \<Rightarrow> Inl err
      | None \<Rightarrow>
          if RE_Operation r \<noteq> trimSpace (RE_Operation r)
             \<or> RE_BusinessKey r \<noteq> trimSpace (RE_BusinessKey r)
             \<or> RE_ExecutionToken r \<noteq> trimSpace (RE_ExecutionToken r)
             \<or> RE_AttemptRequestID r \<noteq> trimSpace (RE_AttemptRequestID r)
          then Inl (Errorf ''reserved execution identifiers must be normalized'')
          else if RE_Operation r \<notin> {''subscription.start'', ''subscription.cancel''}
          then Inl (Errorf (''unsupported reserved execution operation '' @ RE_Operation r))
          else if \<not> runeLengthWithin (RE_Operation r) executionMaxProjectionRunes
                  \<or> \<not> runeLengthWithin (RE_BusinessKey r) executionMaxProjectionRunes
                  \<or> \<not> runeLengthWithin (RE_ExecutionToken r) executionMaxProjectionRunes
                  \<or> \<not> runeLengthWithin (RE_AttemptRequestID r) executionMaxProjectionRunes
          then Inl (Errorf ''reserved execution identifier exceeds limit'')
          else if executionMaxTrustedParams < length (RE_TrustedParams r)
          then Inl (Errorf ''reserved execution trusted params exceed limit'')
          else (case map_result encodeExecutionParam (RE_TrustedParams r) of
                  Inl err \<Rightarrow> Inl err
                | Inr ps \<Rightarrow>
                    Inr \<lparr>PX_SchemaVersion = executionSchemaVersion, PX_Operation = RE_Operation r,
                         PX_BusinessKey = RE_BusinessKey r, PX_TrustedParams = ps,
                         PX_ExecutionToken = RE_ExecutionToken r,
                         PX_AttemptRequestID = RE_AttemptRequestID r,
                         PX_StartedAt =
                           formatWorkflowTime (normalizeWorkflowDatabaseTime (RE_StartedAt r)),
                         PX_LeaseExpiresAt =
                           formatWorkflowTime
                             (normalizeWorkflowDatabaseTime (RE_LeaseExpiresAt r))\<rparr>))"

definition reservedExecutionFromV1 ::
  "persistedReservedExecutionV1 \<Rightarrow> agentError + ReservedExecutionV1" where
  "reservedExecutionFromV1 dto =
     (case parseExecutionTime ''started_at'' (PX_StartedAt dto) of
        Inl err \<Rightarrow> Inl err
      | Inr startedAt \<Rightarrow>
          (case parseExecutionTime ''lease_expires_at'' (PX_LeaseExpiresAt dto) of
             Inl err \<Rightarrow> Inl err
           | Inr leaseExpiresAt \<Rightarrow>
               (case map_result decodeExecutionParam (PX_TrustedParams dto) of
                  Inl err \<Rightarrow> Inl err
                | Inr ps \<Rightarrow>
                    let r = \<lparr>RE_Operation = PX_Operation dto, RE_BusinessKey = PX_BusinessKey dto,
                             RE_TrustedParams = ps, RE_ExecutionToken = PX_ExecutionToken dto,
                             RE_AttemptRequestID = PX_AttemptRequestID dto,
                             RE_StartedAt = startedAt, RE_LeaseExpiresAt = leaseExpiresAt\<rparr>
                    in (case reservedExecutionToV1 r of Inl err \<Rightarrow> Inl err | Inr _ \<Rightarrow> Inr r))))"

definition reserved_json :: "persistedReservedExecutionV1 \<Rightarrow> json" where
  "reserved_json dto =
     JObj ([(''schema_version'', JNum (PX_SchemaVersion dto)),
            (''operation'', JStr (PX_Operation dto)),
            (''business_key'', JStr (PX_BusinessKey dto))]
           @ omitempty (PX_TrustedParams dto = []) ''trusted_params''
               (map_json typedValue_json (PX_TrustedParams dto))
           @ [(''execution_token'', JStr (PX_ExecutionToken dto)),
              (''attempt_request_id'', JStr (PX_AttemptRequestID dto)),
              (''started_at'', JStr (PX_StartedAt dto)),
              (''lease_expires_at'', JStr (PX_LeaseExpiresAt dto))])"

definition zeroReserved :: persistedReservedExecutionV1 where
  "zeroReserved =
     \<lparr>PX_SchemaVersion = 0, PX_Operation = [], PX_BusinessKey = [], PX_TrustedParams = [],
      PX_ExecutionToken = [], PX_AttemptRequestID = [], PX_StartedAt = [], PX_LeaseExpiresAt = []\<rparr>"

definition reservedFields :: "(string \<times> persistedReservedExecutionV1 setter) list" where
  "reservedFields =
     [(''schema_version'', fieldSetter setInt64 PX_SchemaVersion (\<lambda>x. PX_SchemaVersion_update (\<lambda>_. x))),
      (''operation'', fieldSetter setString PX_Operation (\<lambda>x. PX_Operation_update (\<lambda>_. x))),
      (''business_key'', fieldSetter setString PX_BusinessKey (\<lambda>x. PX_BusinessKey_update (\<lambda>_. x))),
      (''trusted_params'', fieldSetter (decodeMap setTypedValue zeroTypedValue) PX_TrustedParams
         (\<lambda>x. PX_TrustedParams_update (\<lambda>_. x))),
      (''execution_token'', fieldSetter setString PX_ExecutionToken (\<lambda>x. PX_ExecutionToken_update (\<lambda>_. x))),
      (''attempt_request_id'', fieldSetter setString PX_AttemptRequestID
         (\<lambda>x. PX_AttemptRequestID_update (\<lambda>_. x))),
      (''started_at'', fieldSetter setString PX_StartedAt (\<lambda>x. PX_StartedAt_update (\<lambda>_. x))),
      (''lease_expires_at'', fieldSetter setString PX_LeaseExpiresAt
         (\<lambda>x. PX_LeaseExpiresAt_update (\<lambda>_. x)))]"

definition MarshalReservedExecution :: "ReservedExecutionV1 \<Rightarrow> agentError + string" where
  "MarshalReservedExecution r =
     (case reservedExecutionToV1 r of
        Inl err \<Rightarrow> Inl err
      | Inr dto \<Rightarrow>
          let payload = print_json (reserved_json dto)
          in if workflowSnapshotMaxBytes < length payload
             then Inl (Errorf ''reserved execution exceeds 65536 bytes'') else Inr payload)"

definition UnmarshalReservedExecution :: "string \<Rightarrow> agentError + ReservedExecutionV1" where
  "UnmarshalReservedExecution payload =
     (if payload = [] then Inl (Errorf ''reserved execution payload is empty'')
      else if workflowSnapshotMaxBytes < length payload
      then Inl (Errorf ''reserved execution exceeds 65536 bytes'')
      else (case decodeStrictWorkflowJSON reservedFields zeroReserved payload of
              None \<Rightarrow> Inl (Errorf ''decode reserved execution v1'')
            | Some dto \<Rightarrow>
                if PX_SchemaVersion dto \<noteq> executionSchemaVersion
                then Inl (Errorf (''unsupported reserved execution schema version ''
                                  @ itoa (PX_SchemaVersion dto)))
                else reservedExecutionFromV1 dto))"

text \<open>\<open>canonicalReservedExecution\<close> (workflow\_store.go).\<close>

definition canonicalReservedExecution :: "ReservedExecutionV1 \<Rightarrow> agentError + ReservedExecutionV1" where
  "canonicalReservedExecution r =
     (case MarshalReservedExecution r of
        Inl err \<Rightarrow> Inl err | Inr payload \<Rightarrow> UnmarshalReservedExecution payload)"

definition persistedExecutionResultToV1 ::
  "PersistedExecutionResultV1 \<Rightarrow> agentError + persistedExecutionResultV1" where
  "persistedExecutionResultToV1 result =
     (case validatePersistedExecutionResult result of
        Some err \<Rightarrow> Inl err
      | None \<Rightarrow>
          if PR_BusinessKey result \<noteq> trimSpace (PR_BusinessKey result)
             \<or> \<not> runeLengthWithin (PR_BusinessKey result) executionMaxProjectionRunes
          then Inl (Errorf ''persisted execution result business_key is invalid'')
          else Inr \<lparr>PQ_SchemaVersion = executionSchemaVersion, PQ_BusinessKey = PR_BusinessKey result,
                    PQ_WriteEffect = PR_WriteEffect result,
                    PQ_CompletedAt = formatWorkflowTime (PR_CompletedAt result)\<rparr>)"

definition persistedExecutionResultFromV1 ::
  "persistedExecutionResultV1 \<Rightarrow> agentError + PersistedExecutionResultV1" where
  "persistedExecutionResultFromV1 dto =
     (case parseExecutionTime ''completed_at'' (PQ_CompletedAt dto) of
        Inl err \<Rightarrow> Inl err
      | Inr completedAt \<Rightarrow>
          let result = \<lparr>PR_BusinessKey = PQ_BusinessKey dto, PR_WriteEffect = PQ_WriteEffect dto,
                        PR_CompletedAt = completedAt\<rparr>
          in (case persistedExecutionResultToV1 result of Inl err \<Rightarrow> Inl err | Inr _ \<Rightarrow> Inr result))"

definition result_json :: "persistedExecutionResultV1 \<Rightarrow> json" where
  "result_json dto =
     JObj [(''schema_version'', JNum (PQ_SchemaVersion dto)),
           (''business_key'', JStr (PQ_BusinessKey dto)),
           (''write_effect'', JStr (effectText (PQ_WriteEffect dto))),
           (''completed_at'', JStr (PQ_CompletedAt dto))]"

definition zeroResult :: persistedExecutionResultV1 where
  "zeroResult = \<lparr>PQ_SchemaVersion = 0, PQ_BusinessKey = [], PQ_WriteEffect = OtherEffect [],
                 PQ_CompletedAt = []\<rparr>"

definition resultFields :: "(string \<times> persistedExecutionResultV1 setter) list" where
  "resultFields =
     [(''schema_version'', fieldSetter setInt64 PQ_SchemaVersion (\<lambda>x. PQ_SchemaVersion_update (\<lambda>_. x))),
      (''business_key'', fieldSetter setString PQ_BusinessKey (\<lambda>x. PQ_BusinessKey_update (\<lambda>_. x))),
      (''write_effect'', fieldSetter (setNamed effectOf) PQ_WriteEffect
         (\<lambda>x. PQ_WriteEffect_update (\<lambda>_. x))),
      (''completed_at'', fieldSetter setString PQ_CompletedAt (\<lambda>x. PQ_CompletedAt_update (\<lambda>_. x)))]"

definition MarshalPersistedExecutionResult :: "PersistedExecutionResultV1 \<Rightarrow> agentError + string" where
  "MarshalPersistedExecutionResult result =
     (case persistedExecutionResultToV1 result of
        Inl err \<Rightarrow> Inl err
      | Inr dto \<Rightarrow>
          let payload = print_json (result_json dto)
          in if workflowSnapshotMaxBytes < length payload
             then Inl (Errorf ''persisted execution result exceeds 65536 bytes'') else Inr payload)"

definition UnmarshalPersistedExecutionResult ::
  "string \<Rightarrow> agentError + PersistedExecutionResultV1" where
  "UnmarshalPersistedExecutionResult payload =
     (if payload = [] then Inl (Errorf ''persisted execution result payload is empty'')
      else if workflowSnapshotMaxBytes < length payload
      then Inl (Errorf ''persisted execution result exceeds 65536 bytes'')
      else (case decodeStrictWorkflowJSON resultFields zeroResult payload of
              None \<Rightarrow> Inl (Errorf ''decode persisted execution result v1'')
            | Some dto \<Rightarrow>
                if PQ_SchemaVersion dto \<noteq> executionSchemaVersion
                then Inl (Errorf (''unsupported persisted execution result schema version ''
                                  @ itoa (PQ_SchemaVersion dto)))
                else persistedExecutionResultFromV1 dto))"

section \<open>Values and times read back\<close>

text \<open>The machine integers of a dynamic value are in range.\<close>

definition goAny_ok :: "goAny \<Rightarrow> bool" where
  "goAny_ok v =
     (case v of
        GoInt n \<Rightarrow> minInt64 \<le> n \<and> n \<le> maxInt64
      | GoInt64 n \<Rightarrow> minInt64 \<le> n \<and> n \<le> maxInt64
      | GoUint n \<Rightarrow> int n \<le> maxUint64
      | GoInt64s ns \<Rightarrow> list_all (\<lambda>n. minInt64 \<le> n \<and> n \<le> maxInt64) ns
      | _ \<Rightarrow> True)"

lemma plain_names [simp]:
  "plainName ''kind''" "plainName ''value''" "plainName ''schema_version''" "plainName ''operation''"
  "plainName ''business_key''" "plainName ''trusted_params''" "plainName ''execution_token''"
  "plainName ''attempt_request_id''" "plainName ''started_at''" "plainName ''lease_expires_at''"
  "plainName ''write_effect''" "plainName ''completed_at''"
  by (simp_all add: plainName_def)

lemma setInt64_slice:
  "list_all (\<lambda>n. minInt64 \<le> n \<and> n \<le> maxInt64) ns \<Longrightarrow>
     decodeSlice setInt64 0 (JArr (map JNum ns)) [] = (ns, False)"
  by (rule decodeSlice_JArr) (simp add: list_all_iff)

lemma typed_value_round_trip:
  assumes "encodePersistedTypedValue v = Inr p" and "goAny_ok v"
  shows "decodePersistedTypedValue p = Inr v"
  using assms
  by (auto simp: encodePersistedTypedValue_def decodePersistedTypedValue_def goAny_ok_def decoded_def
      setBool_def setInt64_slice split: goAny.splits if_splits)

lemma encode_value_valid:
  assumes "encodePersistedTypedValue v = Inr p"
  shows "valid_json (typedValue_json p)" and "setTypedValue (typedValue_json p) zeroTypedValue = (p, False)"
proof -
  have kinds: "plainName ''string''" "plainName ''int''" "plainName ''bool''" "plainName ''uint''"
    by (simp_all add: plainName_def)
  have more: "validString ''int64''" "validString ''int64_slice''" by (simp_all add: ascii_def)
  show "valid_json (typedValue_json p)"
    using assms kinds more
    by (auto simp: encodePersistedTypedValue_def typedValue_json_def runeLengthWithin_def
        split: goAny.splits if_splits)
  have "PV_Value p \<noteq> None"
    using assms by (auto simp: encodePersistedTypedValue_def split: goAny.splits if_splits)
  then show "setTypedValue (typedValue_json p) zeroTypedValue = (p, False)"
    by (auto simp: setTypedValue_def typedValue_json_def zeroTypedValue_def decodeMember_def
        fieldSetter_def)
qed

lemma sortedUnique_idem [simp]: "sortedUniqueInt64s (sortedUniqueInt64s ids) = sortedUniqueInt64s ids"
proof -
  have "sorted (remdups_adj (sort ids))" by (simp add: sorted_remdups_adj)
  then have "sort (remdups_adj (sort ids)) = remdups_adj (sort ids)" by (rule sorted_sort_id)
  moreover have "remdups_adj (remdups_adj xs) = remdups_adj xs" for xs :: "int list"
    using distinct_adj_remdups_adj [of xs] by (simp add: distinct_adj_altdef)
  ultimately show ?thesis by (simp add: sortedUniqueInt64s_def)
qed

lemma set_sortedUnique [simp]: "set (sortedUniqueInt64s ids) = set ids"
  by (simp add: sortedUniqueInt64s_def)

lemma length_sortedUnique: "length (sortedUniqueInt64s ids) \<le> length ids"
  using remdups_adj_length [of "sort ids"] by (simp add: sortedUniqueInt64s_def)

lemma normalizeTime_le: "normalizeWorkflowDatabaseTime t \<le> t"
  by (simp add: normalizeWorkflowDatabaseTime_def millisecond_def)

lemma normalizeTime_ok:
  assumes "instant_ok t"
  shows "instant_ok (normalizeWorkflowDatabaseTime t)"
proof -
  have "t mod millisecond \<le> t"
    using assms by (simp add: instant_ok_def millisecond_def zmod_le_nonneg_dividend)
  with assms normalizeTime_le [of t] show ?thesis
    by (simp add: instant_ok_def normalizeWorkflowDatabaseTime_def)
qed

lemma normalizeTime_idem [simp]:
  "normalizeWorkflowDatabaseTime (normalizeWorkflowDatabaseTime t) = normalizeWorkflowDatabaseTime t"
proof -
  have "(t - t mod millisecond) mod millisecond = 0"
    by (metis cancel_comm_monoid_add_class.diff_cancel mod_diff_right_eq mod_0 mod_diff_eq mod_mod_trivial)
  then show ?thesis by (simp add: normalizeWorkflowDatabaseTime_def)
qed

lemma parse_formatWorkflowTime:
  "instant_ok t \<Longrightarrow> t \<noteq> 0 \<Longrightarrow> parseExecutionTime field (formatWorkflowTime t) = Inr t"
  by (simp add: parseExecutionTime_def formatWorkflowTime_def parse_format_RFC3339Nano format_nonempty)

lemma formatWorkflowTime_valid [simp]: "validString (formatWorkflowTime t)"
  by (simp add: formatWorkflowTime_def format_ascii ascii_def [of "[]"])

section \<open>Parameters read back\<close>

definition canonicalParam :: "string \<Rightarrow> goAny \<Rightarrow> goAny" where
  "canonicalParam key v =
     (if key = ''dept_ids''
      then (case v of GoInt64s ids \<Rightarrow> GoInt64s (sortedUniqueInt64s ids) | _ \<Rightarrow> v) else v)"

lemma normalize_canonical:
  "normalizeExecutionTrustedParam key v = Inr w \<Longrightarrow> w = canonicalParam key v"
  by (auto simp: normalizeExecutionTrustedParam_def canonicalParam_def split: if_splits goAny.splits)

lemma normalize_key:
  assumes "normalizeExecutionTrustedParam key v = Inr w"
  shows "plainName key" and "trimSpace key \<noteq> []"
proof -
  have keys: "key \<in> {''conversation_id'', ''scope'', ''dept_ids'', ''actor_role'',
      ''conversation_type'', ''conversation_title''}"
    using assms by (auto simp: normalizeExecutionTrustedParam_def split: if_splits)
  then show "plainName key" by (auto simp: plainName_def)
  have "trimSpace key = key" using keys by (auto intro!: trimSpace_ascii simp: ascii_def no_space_def isSpace_def)
  with keys show "trimSpace key \<noteq> []" by auto
qed

lemma normalize_idem:
  assumes "normalizeExecutionTrustedParam key v = Inr w"
  shows "normalizeExecutionTrustedParam key w = Inr w"
proof (cases "key = ''dept_ids''")
  case True
  with assms obtain ids where ids: "v = GoInt64s ids" "w = GoInt64s (sortedUniqueInt64s ids)"
    "length ids \<le> workflowSnapshotMaxInt64SliceItems" "\<not> list_ex (\<lambda>d. d \<le> 0) ids"
    by (auto simp: normalizeExecutionTrustedParam_def split: if_splits goAny.splits)
  have "length (sortedUniqueInt64s ids) \<le> workflowSnapshotMaxInt64SliceItems"
    using length_sortedUnique [of ids] ids(3) by linarith
  with True ids show ?thesis by (simp add: normalizeExecutionTrustedParam_def list_ex_iff)
next
  case False
  with normalize_canonical [OF assms] have "w = v" by (simp add: canonicalParam_def)
  with assms show ?thesis by simp
qed

lemma canonicalParam_ok: "goAny_ok v \<Longrightarrow> goAny_ok (canonicalParam key v)"
  by (auto simp: canonicalParam_def goAny_ok_def list_all_iff split: goAny.splits)

lemma supported_encode: "encodePersistedTypedValue v = Inr p \<Longrightarrow> supportedParam v"
  by (auto simp: encodePersistedTypedValue_def supportedParam_def split: goAny.splits)

lemma encodeParam_InrD:
  assumes "encodeExecutionParam (key, v) = Inr e"
  shows "\<exists>p. e = (key, p) \<and> normalizeExecutionTrustedParam key v = Inr (canonicalParam key v)
             \<and> encodePersistedTypedValue (canonicalParam key v) = Inr p"
  using assms
  by (auto simp: encodeExecutionParam_def split: sum.splits dest: normalize_canonical)

definition persistedParam :: "string \<Rightarrow> goAny \<Rightarrow> persistedTypedValueV1" where
  "persistedParam key v = projr (encodePersistedTypedValue (canonicalParam key v))"

text \<open>What a parameter map that passes is written as, and what it reads back as.\<close>

lemma encodeParams_InrD:
  assumes "map_result encodeExecutionParam ps = Inr qs"
  shows "qs = map (\<lambda>(k, v). (k, persistedParam k v)) ps"
    and "(k, v) \<in> set ps \<Longrightarrow> normalizeExecutionTrustedParam k v = Inr (canonicalParam k v)"
    and "(k, v) \<in> set ps \<Longrightarrow>
           encodePersistedTypedValue (canonicalParam k v) = Inr (persistedParam k v)"
proof -
  have all: "list_all2 (\<lambda>x y. encodeExecutionParam x = Inr y) ps qs"
    using assms by (simp add: map_result_Inr_iff)
  have each: "\<exists>p. encodeExecutionParam (k, v) = Inr p" if "(k, v) \<in> set ps" for k v
    using all that by (auto simp: list_all2_conv_all_nth in_set_conv_nth)
  show enc: "(k, v) \<in> set ps \<Longrightarrow>
      encodePersistedTypedValue (canonicalParam k v) = Inr (persistedParam k v)" for k v
    using each [of k v] encodeParam_InrD [of k v] by (auto simp: persistedParam_def)
  show norm: "(k, v) \<in> set ps \<Longrightarrow> normalizeExecutionTrustedParam k v = Inr (canonicalParam k v)"
    for k v
    using each [of k v] encodeParam_InrD [of k v] by auto
  have "map_result encodeExecutionParam ps = Inr (map (\<lambda>(k, v). (k, persistedParam k v)) ps)"
    using enc norm
    by (simp add: map_result_Inr_iff list_all2_conv_all_nth)
      (auto simp: encodeExecutionParam_def split: prod.split simp flip: set_conv_nth dest: nth_mem)
  with assms show "qs = map (\<lambda>(k, v). (k, persistedParam k v)) ps" by simp
qed

section \<open>Reservations read back\<close>

lemma sortedMap_map: "sortedMap (map (\<lambda>(k, x). (k, g k x)) m) = map (\<lambda>(k, x). (k, g k x)) (sortedMap m)"
proof (induction m)
  case (Cons e m)
  have insort: "insort_key fst (k, g k x) (map (\<lambda>(k, x). (k, g k x)) ys)
      = map (\<lambda>(k, x). (k, g k x)) (insort_key fst (k, x) ys)" for k x ys
    by (induction ys) auto
  obtain k x where "e = (k, x)" by (cases e)
  with Cons insort [of k x] show ?case by (simp add: sortedMap_def)
qed (simp add: sortedMap_def)

lemma goMap_ok_map: "goMap_ok m \<Longrightarrow> goMap_ok (map (\<lambda>(k, x). (k, g k x)) m)"
  by (simp add: goMap_ok_def case_prod_unfold comp_def)

lemma map_result_maps:
  assumes "\<And>x. x \<in> set xs \<Longrightarrow> f (g x) = Inr (h x)"
  shows "map_result f (map g xs) = Inr (map h xs)"
  using assms by (induction xs) auto

text \<open>The canonical form of a reservation.\<close>

definition canonicalForm :: "ReservedExecutionV1 \<Rightarrow> ReservedExecutionV1" where
  "canonicalForm r =
     r\<lparr>RE_TrustedParams := map (\<lambda>(k, v). (k, canonicalParam k v)) (sortedMap (RE_TrustedParams r)),
       RE_StartedAt := normalizeWorkflowDatabaseTime (RE_StartedAt r),
       RE_LeaseExpiresAt := normalizeWorkflowDatabaseTime (RE_LeaseExpiresAt r)\<rparr>"

lemma canonicalForm_record:
  "canonicalForm r =
     \<lparr>RE_Operation = RE_Operation r, RE_BusinessKey = RE_BusinessKey r,
      RE_TrustedParams = map (\<lambda>(k, v). (k, canonicalParam k v)) (sortedMap (RE_TrustedParams r)),
      RE_ExecutionToken = RE_ExecutionToken r, RE_AttemptRequestID = RE_AttemptRequestID r,
      RE_StartedAt = normalizeWorkflowDatabaseTime (RE_StartedAt r),
      RE_LeaseExpiresAt = normalizeWorkflowDatabaseTime (RE_LeaseExpiresAt r)\<rparr>"
  by (cases r) (simp add: canonicalForm_def)

text \<open>Machine integers in range, instants of the years 1 to 9999, and a lease that is still
  positive at the millisecond precision of the database.\<close>

definition reservation_ok :: "ReservedExecutionV1 \<Rightarrow> bool" where
  "reservation_ok r \<longleftrightarrow>
     goMap_ok (RE_TrustedParams r) \<and> list_all (\<lambda>(k, v). goAny_ok v) (RE_TrustedParams r)
     \<and> instant_ok (RE_StartedAt r) \<and> instant_ok (RE_LeaseExpiresAt r)
     \<and> normalizeWorkflowDatabaseTime (RE_StartedAt r) \<noteq> 0
     \<and> normalizeWorkflowDatabaseTime (RE_StartedAt r) < normalizeWorkflowDatabaseTime (RE_LeaseExpiresAt r)"

lemma validateExecutionParams_None:
  "validateExecutionParams m = None \<longleftrightarrow> (\<forall>(k, v) \<in> set m. trimSpace k \<noteq> [] \<and> supportedParam v)"
  by (induction m rule: validateExecutionParams.induct) auto

lemma reservedToV1_InrD:
  assumes "reservedExecutionToV1 r = Inr dto"
  shows "map_result encodeExecutionParam (RE_TrustedParams r) = Inr (PX_TrustedParams dto)"
    and "validString (RE_Operation r)" "validString (RE_BusinessKey r)"
    and "validString (RE_ExecutionToken r)" "validString (RE_AttemptRequestID r)"
    and "dto = \<lparr>PX_SchemaVersion = executionSchemaVersion, PX_Operation = RE_Operation r,
           PX_BusinessKey = RE_BusinessKey r, PX_TrustedParams = PX_TrustedParams dto,
           PX_ExecutionToken = RE_ExecutionToken r, PX_AttemptRequestID = RE_AttemptRequestID r,
           PX_StartedAt = formatWorkflowTime (normalizeWorkflowDatabaseTime (RE_StartedAt r)),
           PX_LeaseExpiresAt =
             formatWorkflowTime (normalizeWorkflowDatabaseTime (RE_LeaseExpiresAt r))\<rparr>"
  using assms
  by (auto simp: reservedExecutionToV1_def runeLengthWithin_def split: option.splits if_splits sum.splits)

lemma reservedToV1_fields:
  assumes "reservedExecutionToV1 r = Inr dto"
  shows "PX_SchemaVersion dto = executionSchemaVersion" and "PX_Operation dto = RE_Operation r"
    and "PX_BusinessKey dto = RE_BusinessKey r" and "PX_ExecutionToken dto = RE_ExecutionToken r"
    and "PX_AttemptRequestID dto = RE_AttemptRequestID r"
    and "PX_StartedAt dto = formatWorkflowTime (normalizeWorkflowDatabaseTime (RE_StartedAt r))"
    and "PX_LeaseExpiresAt dto
         = formatWorkflowTime (normalizeWorkflowDatabaseTime (RE_LeaseExpiresAt r))"
  by (subst reservedToV1_InrD(6) [OF assms], simp)+

lemma reservation_times:
  assumes "reservation_ok r"
  shows "instant_ok (normalizeWorkflowDatabaseTime (RE_StartedAt r))"
    and "instant_ok (normalizeWorkflowDatabaseTime (RE_LeaseExpiresAt r))"
    and "normalizeWorkflowDatabaseTime (RE_StartedAt r) \<noteq> 0"
    and "normalizeWorkflowDatabaseTime (RE_LeaseExpiresAt r) \<noteq> 0"
  using assms normalizeTime_ok [of "RE_StartedAt r"] normalizeTime_ok [of "RE_LeaseExpiresAt r"]
  by (auto simp: reservation_ok_def instant_ok_def)

lemma reservedToV1_canonical:
  assumes "reservedExecutionToV1 r = Inr dto" and "reservation_ok r"
  shows "reservedExecutionToV1 (canonicalForm r)
         = Inr (dto\<lparr>PX_TrustedParams := sortedMap (PX_TrustedParams dto)\<rparr>)"
proof -
  let ?ps = "RE_TrustedParams r" and ?canon = "map (\<lambda>(k, v). (k, canonicalParam k v))"
  have enc: "map_result encodeExecutionParam ?ps = Inr (PX_TrustedParams dto)"
    using reservedToV1_InrD(1) [OF assms(1)] .
  note params = encodeParams_InrD [OF enc]
  have again: "encodeExecutionParam (k, canonicalParam k v) = Inr (k, persistedParam k v)"
    if "(k, v) \<in> set ?ps" for k v
    using params(2,3) [OF that] normalize_idem [of k v] by (simp add: encodeExecutionParam_def)
  have canon: "map_result encodeExecutionParam (?canon (sortedMap ?ps))
      = Inr (sortedMap (PX_TrustedParams dto))"
    unfolding params(1) sortedMap_map by (rule map_result_maps) (auto dest: again)
  have "trimSpace k \<noteq> [] \<and> supportedParam (canonicalParam k v)" if "(k, v) \<in> set ?ps" for k v
    using params(2,3) [OF that] normalize_key supported_encode by blast
  then have valid: "validateExecutionParams (?canon (sortedMap ?ps)) = None"
    by (auto simp: validateExecutionParams_None)
  have "validateReservedExecution r = None"
    using assms(1) by (auto simp: reservedExecutionToV1_def split: option.splits)
  with valid reservation_times [OF assms(2)] assms(2)
  have "validateReservedExecution (canonicalForm r) = None"
    by (simp add: validateReservedExecution_def canonicalForm_def reservation_ok_def split: if_splits)
  with assms(1) canon show ?thesis
    by (subst (1 2) reservedToV1_InrD(6) [OF assms(1)])
      (auto simp: reservedExecutionToV1_def canonicalForm_def enc split: option.splits if_splits)
qed

lemma decode_reserved:
  assumes "decodeMap setTypedValue zeroTypedValue (map_json typedValue_json ps) [] = (qs, err)"
  shows "decodeStruct reservedFields
           (reserved_json \<lparr>PX_SchemaVersion = 1, PX_Operation = a, PX_BusinessKey = b, PX_TrustedParams = ps,
              PX_ExecutionToken = c, PX_AttemptRequestID = d, PX_StartedAt = e, PX_LeaseExpiresAt = f\<rparr>) zeroReserved
         = (\<lparr>PX_SchemaVersion = 1, PX_Operation = a, PX_BusinessKey = b,
              PX_TrustedParams = (if ps = [] then [] else qs),
              PX_ExecutionToken = c, PX_AttemptRequestID = d, PX_StartedAt = e, PX_LeaseExpiresAt = f\<rparr>,
            ps \<noteq> [] \<and> err)"
proof -
  have one: "setInt64 (JNum 1) old = (1, False)" for old by (simp add: minInt64_def maxInt64_def)
  show ?thesis
    using assms one
    by (simp add: reservedFields_def reserved_json_def omitempty_def zeroReserved_def
        decodeMember_def fieldSetter_def)
qed

lemma persisted_params_valid:
  assumes "reservedExecutionToV1 r = Inr dto" and "(k, p) \<in> set (PX_TrustedParams dto)"
  shows "plainName k" and "valid_json (typedValue_json p)"
    and "setTypedValue (typedValue_json p) zeroTypedValue = (p, False)"
proof -
  note params = encodeParams_InrD [OF reservedToV1_InrD(1) [OF assms(1)]]
  obtain v where v: "(k, v) \<in> set (RE_TrustedParams r)" "p = persistedParam k v"
    using assms(2) unfolding params(1) by auto
  show "plainName k" using params(2) [OF v(1)] by (rule normalize_key)
  show "valid_json (typedValue_json p)"
    "setTypedValue (typedValue_json p) zeroTypedValue = (p, False)"
    using encode_value_valid [OF params(3) [OF v(1)]] v(2) by simp_all
qed

lemma reserved_json_valid:
  assumes "reservedExecutionToV1 r = Inr dto"
  shows "valid_json (reserved_json dto)"
proof -
  note dto = reservedToV1_InrD [OF assms]
  have texts: "validString (PX_Operation dto)" "validString (PX_BusinessKey dto)"
    "validString (PX_ExecutionToken dto)" "validString (PX_AttemptRequestID dto)"
    "validString (PX_StartedAt dto)" "validString (PX_LeaseExpiresAt dto)"
    using dto(2-5) reservedToV1_fields [OF assms] by simp_all
  have "valid_json (map_json typedValue_json (PX_TrustedParams dto))"
    by (rule valid_map_json) (auto dest: persisted_params_valid(1,2) [OF assms])
  with texts show ?thesis by (simp add: reserved_json_def omitempty_def)
qed

lemma reserved_json_read:
  assumes "reservedExecutionToV1 r = Inr dto" and "reservation_ok r"
  shows "decodeStruct reservedFields (reserved_json dto) zeroReserved
         = (dto\<lparr>PX_TrustedParams := sortedMap (PX_TrustedParams dto)\<rparr>, False)"
proof -
  note dto = reservedToV1_InrD [OF assms(1)]
  note params = encodeParams_InrD [OF dto(1)]
  have keys: "goMap_ok (PX_TrustedParams dto)"
    unfolding params(1) using assms(2) by (intro goMap_ok_map) (simp add: reservation_ok_def)
  have map: "decodeMap setTypedValue zeroTypedValue (map_json typedValue_json (PX_TrustedParams dto)) []
      = (sortedMap (PX_TrustedParams dto), False)"
    using keys persisted_params_valid(3) [OF assms(1)] by (rule decodeMap_map_json)
  show ?thesis
    using decode_reserved [OF map] unfolding executionSchemaVersion_def [symmetric]
    by (subst (1 2) dto(6)) (simp add: sortedMap_def)
qed

text \<open>Without any condition on \<open>r\<close>: the identity of a reservation survives.\<close>

lemma unmarshal_identity:
  assumes "reservedExecutionToV1 r = Inr dto"
    and "UnmarshalReservedExecution (print_json (reserved_json dto)) = Inr r'"
  shows "RE_Operation r' = RE_Operation r" and "RE_BusinessKey r' = RE_BusinessKey r"
    and "RE_ExecutionToken r' = RE_ExecutionToken r"
    and "RE_AttemptRequestID r' = RE_AttemptRequestID r"
proof -
  note dto = reservedToV1_InrD [OF assms(1)]
  obtain qs err where map: "decodeMap setTypedValue zeroTypedValue
      (map_json typedValue_json (PX_TrustedParams dto)) [] = (qs, err)" by fastforce
  let ?ps = "PX_TrustedParams dto"
  have "decodeStruct reservedFields (reserved_json dto) zeroReserved
      = (dto\<lparr>PX_TrustedParams := if ?ps = [] then [] else qs\<rparr>, ?ps \<noteq> [] \<and> err)"
    using decode_reserved [OF map] unfolding executionSchemaVersion_def [symmetric]
    by (subst (1 2) dto(6)) simp
  with assms(2) have "reservedExecutionFromV1 (dto\<lparr>PX_TrustedParams := if ?ps = [] then [] else qs\<rparr>)
      = Inr r'"
    by (auto simp: UnmarshalReservedExecution_def decodeStrictWorkflowJSON_def
        parse_print [OF reserved_json_valid [OF assms(1)]] simp del: if_split split: if_splits)
  then have "RE_Operation r' = PX_Operation dto \<and> RE_BusinessKey r' = PX_BusinessKey dto
      \<and> RE_ExecutionToken r' = PX_ExecutionToken dto
      \<and> RE_AttemptRequestID r' = PX_AttemptRequestID dto"
    by (auto simp: reservedExecutionFromV1_def Let_def split: sum.splits)
  then show "RE_Operation r' = RE_Operation r" "RE_BusinessKey r' = RE_BusinessKey r"
    "RE_ExecutionToken r' = RE_ExecutionToken r" "RE_AttemptRequestID r' = RE_AttemptRequestID r"
    using reservedToV1_fields [OF assms(1)] by simp_all
qed

lemma reservedFromV1_canonical:
  assumes "reservedExecutionToV1 r = Inr dto" and "reservation_ok r"
  shows "reservedExecutionFromV1 (dto\<lparr>PX_TrustedParams := sortedMap (PX_TrustedParams dto)\<rparr>)
         = Inr (canonicalForm r)"
proof -
  note dto = reservedToV1_InrD [OF assms(1)]
  note params = encodeParams_InrD [OF dto(1)]
  have dec: "decodeExecutionParam (k, persistedParam k v) = Inr (k, canonicalParam k v)"
    if "(k, v) \<in> set (RE_TrustedParams r)" for k v
  proof -
    have "goAny_ok v" using assms(2) that by (auto simp: reservation_ok_def list_all_iff)
    then show ?thesis
      using typed_value_round_trip [OF params(3) [OF that] canonicalParam_ok]
        normalize_idem [OF params(2) [OF that]]
      by (simp add: decodeExecutionParam_def)
  qed
  have "map_result decodeExecutionParam (sortedMap (PX_TrustedParams dto))
      = Inr (map (\<lambda>(k, v). (k, canonicalParam k v)) (sortedMap (RE_TrustedParams r)))"
    unfolding params(1) sortedMap_map by (rule map_result_maps) (auto dest: dec)
  then show ?thesis
    using reservedToV1_fields [OF assms(1)] reservedToV1_canonical [OF assms] parse_formatWorkflowTime reservation_times [OF assms(2)]
    by (simp add: reservedExecutionFromV1_def Let_def flip: canonicalForm_record)
qed

lemma reserved_json_sorted:
  "reserved_json (dto\<lparr>PX_TrustedParams := sortedMap (PX_TrustedParams dto)\<rparr>) = reserved_json dto"
  by (simp add: reserved_json_def map_json_def)

lemma print_nonempty: "valid_json v \<Longrightarrow> print_json v \<noteq> []"
  using print_json_head [of v] by auto

lemma marshal_InrD:
  assumes "MarshalReservedExecution r = Inr payload"
  obtains dto where "reservedExecutionToV1 r = Inr dto" and "payload = print_json (reserved_json dto)"
    and "\<not> workflowSnapshotMaxBytes < length payload"
  using assms by (auto simp: MarshalReservedExecution_def Let_def split: sum.splits if_splits)

lemma canonicalReserved_InrD:
  assumes "canonicalReservedExecution r = Inr r'"
  shows "RE_Operation r' = RE_Operation r" and "RE_BusinessKey r' = RE_BusinessKey r"
    and "RE_ExecutionToken r' = RE_ExecutionToken r"
    and "RE_AttemptRequestID r' = RE_AttemptRequestID r"
proof -
  obtain payload where payload: "MarshalReservedExecution r = Inr payload"
    "UnmarshalReservedExecution payload = Inr r'"
    using assms by (auto simp: canonicalReservedExecution_def split: sum.splits)
  obtain dto where "reservedExecutionToV1 r = Inr dto" "payload = print_json (reserved_json dto)"
    using payload(1) by (rule marshal_InrD)
  with payload(2) have dto: "reservedExecutionToV1 r = Inr dto"
    "UnmarshalReservedExecution (print_json (reserved_json dto)) = Inr r'" by simp_all
  from unmarshal_identity [OF this] show "RE_Operation r' = RE_Operation r" "RE_BusinessKey r' = RE_BusinessKey r"
    "RE_ExecutionToken r' = RE_ExecutionToken r" "RE_AttemptRequestID r' = RE_AttemptRequestID r"
    by simp_all
qed

lemma marshal_canonical:
  assumes "MarshalReservedExecution r = Inr payload" and "reservation_ok r"
  shows "UnmarshalReservedExecution payload = Inr (canonicalForm r)"
    and "MarshalReservedExecution (canonicalForm r) = Inr payload"
proof -
  obtain dto where dto: "reservedExecutionToV1 r = Inr dto" and payload: "payload = print_json (reserved_json dto)"
    and size: "\<not> workflowSnapshotMaxBytes < length payload"
    using assms(1) by (rule marshal_InrD)
  note json = reserved_json_valid [OF dto] reserved_json_read [OF dto assms(2)]
  have "decodeStrictWorkflowJSON reservedFields zeroReserved payload
      = Some (dto\<lparr>PX_TrustedParams := sortedMap (PX_TrustedParams dto)\<rparr>)"
    unfolding payload using json by (rule decodeStrict_print)
  moreover note reservedToV1_fields(1) [OF dto]
  moreover have "payload \<noteq> []" unfolding payload using json(1) by (rule print_nonempty)
  ultimately show "UnmarshalReservedExecution payload = Inr (canonicalForm r)"
    using size reservedFromV1_canonical [OF dto assms(2)]
    by (simp add: UnmarshalReservedExecution_def)
  show "MarshalReservedExecution (canonicalForm r) = Inr payload"
    using reservedToV1_canonical [OF dto assms(2)] size
    by (simp add: MarshalReservedExecution_def reserved_json_sorted payload)
qed

text \<open>C34: A reservation that is marshalled is read back, by \<open>UnmarshalReservedExecution\<close>, as its
  canonical form (times cut to milliseconds, departments sorted without repetitions, parameters
  in key order), and the canonical form marshals to the very same bytes; this is what
  \<open>canonicalReservedExecution\<close> computes before the stores compare or keep a reservation.\<close>

theorem reserved_execution_round_trip:
  assumes "reservation_ok r" and "MarshalReservedExecution r = Inr payload"
  shows "UnmarshalReservedExecution payload = Inr (canonicalForm r)
         \<and> MarshalReservedExecution (canonicalForm r) = Inr payload
         \<and> canonicalReservedExecution r = Inr (canonicalForm r)"
  using marshal_canonical [OF assms(2,1)] assms(2)
  by (simp add: canonicalReservedExecution_def)

text \<open>The form is a fixed point.\<close>

lemma canonicalForm_idem: "canonicalForm (canonicalForm r) = canonicalForm r"
proof -
  have "canonicalParam k (canonicalParam k v) = canonicalParam k v" for k v
    by (auto simp: canonicalParam_def split: goAny.splits)
  then show ?thesis
    by (simp add: canonicalForm_def sortedMap_map) (simp add: case_prod_unfold comp_def)
qed

section \<open>Results read back\<close>

definition result_ok :: "PersistedExecutionResultV1 \<Rightarrow> bool" where
  "result_ok result \<longleftrightarrow> instant_ok (PR_CompletedAt result)"

lemma effectOf_text: "(\<forall>s. e \<noteq> OtherEffect s) \<Longrightarrow> effectOf (effectText e) = e"
  by (cases e) (auto simp: effectOf_def)

lemma effectText_valid: "(\<forall>s. e \<noteq> OtherEffect s) \<Longrightarrow> validString (effectText e)"
  by (cases e) (auto simp: ascii_def)

lemma decode_result:
  assumes "\<forall>s. e \<noteq> OtherEffect s"
  shows "decodeStruct resultFields (result_json
           \<lparr>PQ_SchemaVersion = 1, PQ_BusinessKey = b, PQ_WriteEffect = e, PQ_CompletedAt = t\<rparr>) zeroResult
         = (\<lparr>PQ_SchemaVersion = 1, PQ_BusinessKey = b, PQ_WriteEffect = e, PQ_CompletedAt = t\<rparr>, False)"
proof -
  have one: "setInt64 (JNum 1) old = (1, False)" for old by (simp add: minInt64_def maxInt64_def)
  show ?thesis
    using effectOf_text [OF assms] one
    by (simp add: resultFields_def result_json_def zeroResult_def decodeMember_def fieldSetter_def)
qed

lemma unmarshal_result:
  assumes "result_ok result" and "MarshalPersistedExecutionResult result = Inr payload"
  shows "UnmarshalPersistedExecutionResult payload = Inr result"
proof -
  obtain dto where dto: "persistedExecutionResultToV1 result = Inr dto"
    and payload: "payload = print_json (result_json dto)"
    and size: "\<not> workflowSnapshotMaxBytes < length payload"
    using assms(2) by (auto simp: MarshalPersistedExecutionResult_def Let_def split: sum.splits if_splits)
  have known: "\<forall>s. PR_WriteEffect result \<noteq> OtherEffect s" and time: "PR_CompletedAt result \<noteq> 0"
    and key: "validString (PR_BusinessKey result)"
    and form: "dto = \<lparr>PQ_SchemaVersion = 1, PQ_BusinessKey = PR_BusinessKey result,
      PQ_WriteEffect = PR_WriteEffect result,
      PQ_CompletedAt = formatWorkflowTime (PR_CompletedAt result)\<rparr>"
    using dto
    by (auto simp: persistedExecutionResultToV1_def validatePersistedExecutionResult_def
        runeLengthWithin_def executionSchemaVersion_def
        split: option.splits if_splits writeEffect.splits)
  have valid: "valid_json (result_json dto)"
    using known key effectText_valid by (simp add: form result_json_def)
  have "decodeStrictWorkflowJSON resultFields zeroResult payload = Some dto"
    unfolding payload using valid
    by (rule decodeStrict_print) (simp add: form decode_result [OF known])
  moreover have "payload \<noteq> []" unfolding payload using valid by (rule print_nonempty)
  moreover have "persistedExecutionResultFromV1 dto = Inr result"
    using dto time assms(1) parse_formatWorkflowTime
    by (cases result) (simp add: persistedExecutionResultFromV1_def Let_def form result_ok_def)
  ultimately show ?thesis
    using size by (simp add: UnmarshalPersistedExecutionResult_def form executionSchemaVersion_def)
qed

text \<open>The recorded result of a write survives the database: whatever
  \<open>MarshalPersistedExecutionResult\<close> accepts, \<open>UnmarshalPersistedExecutionResult\<close> returns
  unchanged, to the nanosecond.\<close>

theorem execution_result_round_trip:
  assumes "result_ok result" and "MarshalPersistedExecutionResult result = Inr payload"
  shows "UnmarshalPersistedExecutionResult payload = Inr result"
  by (rule unmarshal_result [OF assms])

text \<open>A reservation of a department-wide cancellation and its result.\<close>

definition exReservation :: ReservedExecutionV1 where
  "exReservation =
     \<lparr>RE_Operation = ''subscription.start'', RE_BusinessKey = ''bk-1'',
      RE_TrustedParams = [(''scope'', GoString ''department''), (''dept_ids'', GoInt64s [3, 1, 3])],
      RE_ExecutionToken = ''tok-1'', RE_AttemptRequestID = ''req-1'',
      RE_StartedAt = 63900000000000000123, RE_LeaseExpiresAt = 63900000120000000000\<rparr>"

lemma exReservation_ok: "reservation_ok exReservation"
  by (simp add: reservation_ok_def exReservation_def goMap_ok_def goAny_ok_def minInt64_def
      maxInt64_def instant_ok_def day_ns_def normalizeWorkflowDatabaseTime_def millisecond_def)

lemma exReservation_marshals: "\<exists>payload. MarshalReservedExecution exReservation = Inr payload"
proof -
  have "\<not> isl (MarshalReservedExecution exReservation)" by code_simp
  then show ?thesis by (cases "MarshalReservedExecution exReservation") simp_all
qed

theorem reserved_execution_round_trip_witness:
  "\<exists>payload. UnmarshalReservedExecution payload = Inr (canonicalForm exReservation)"
  using exReservation_marshals reserved_execution_round_trip [OF exReservation_ok] by blast

definition exResult :: PersistedExecutionResultV1 where
  "exResult = \<lparr>PR_BusinessKey = ''bk-1'', PR_WriteEffect = WriteEffectCreated,
               PR_CompletedAt = 63900000010000000007\<rparr>"

lemma exResult_marshals: "\<exists>payload. MarshalPersistedExecutionResult exResult = Inr payload"
proof -
  have "\<not> isl (MarshalPersistedExecutionResult exResult)" by code_simp
  then show ?thesis by (cases "MarshalPersistedExecutionResult exResult") simp_all
qed

theorem execution_result_round_trip_witness:
  "\<exists>payload. UnmarshalPersistedExecutionResult payload = Inr exResult"
  using exResult_marshals
    execution_result_round_trip [of exResult]
  by (auto simp: result_ok_def exResult_def instant_ok_def day_ns_def)

end
