(* ===== verification/WorkflowEngine.thy ===== *)
theory WorkflowEngine
  imports PolicyGate
begin

text \<open>
  The workflow state machine (src/internal/agent/workflow\_engine.go, workflow\_contract.go) and
  the arbiter of workflow\_store.go that decides what a message means for the active workflow.
  A turn is \<open>continueWorkflow\<close>; the theory proves what a workflow that is ready to execute has
  collected, that a manual sign dialogue ends once its three slots were given in any order, and
  that a subscription dialogue needs at most two productive turns.
\<close>

section \<open>Snapshots\<close>

definition workflowMissingFields :: "WorkflowSnapshot \<Rightarrow> string list" where
  "workflowMissingFields workflow =
     (if WF_MissingFields workflow \<noteq> [] then WF_MissingFields workflow
      else WF_MissingSlots workflow)"

definition setWorkflowMissingFields :: "string list \<Rightarrow> WorkflowSnapshot \<Rightarrow> WorkflowSnapshot" where
  "setWorkflowMissingFields missing workflow =
     workflow\<lparr>WF_MissingFields := missing, WF_MissingSlots := missing\<rparr>"

definition cloneWorkflowCandidates :: "Candidate list goMap \<Rightarrow> Candidate list goMap" where
  "cloneWorkflowCandidates values = filter (\<lambda>(key, candidates). candidates \<noteq> []) values"

definition cloneWorkflowSnapshot :: "WorkflowSnapshot \<Rightarrow> WorkflowSnapshot" where
  "cloneWorkflowSnapshot workflow =
     workflow\<lparr>WF_MissingFields := workflowMissingFields workflow,
       WF_MissingSlots := (if WF_MissingSlots workflow \<noteq> [] then WF_MissingSlots workflow
                           else workflowMissingFields workflow),
       WF_Candidates := cloneWorkflowCandidates (WF_Candidates workflow)\<rparr>"

definition syncWorkflowSnapshotFields :: "WorkflowSnapshot \<Rightarrow> WorkflowSnapshot" where
  "syncWorkflowSnapshotFields workflow =
     workflow\<lparr>WF_MissingFields := workflowMissingFields workflow,
       WF_MissingSlots := workflowMissingFields workflow,
       WF_Candidates := cloneWorkflowCandidates (WF_Candidates workflow)\<rparr>"

definition mergeTrustedParams :: "TrustedParam goMap \<Rightarrow> trustedEntities \<Rightarrow> trustedEntities" where
  "mergeTrustedParams ps dst =
     dst\<lparr>TE_TrustedParams := fold (\<lambda>(field, param). mapSet field param) ps (TE_TrustedParams dst)\<rparr>"

section \<open>The engine\<close>

definition startWorkflow :: "int \<Rightarrow> ProtocolDraft \<Rightarrow> WorkflowSnapshot option" where
  "startWorkflow unixNano draft =
     (if Operation draft = workflowPrimaryOperationName WorkflowSubscriptionStart then
        Some \<lparr>WF_ID = ''wf-'' @ itoa unixNano, WF_TenantID = 0, WF_ActorUserID = 0,
          WF_ConversationID = [], WF_Type = WorkflowSubscriptionStart,
          WF_State = WorkflowCollectScope, WF_MissingFields = [''scope''],
          WF_TrustedEntities = [], WF_Candidates = [], WF_LastUserMessage = [],
          WF_CreatedAt = 0, WF_UpdatedAt = 0, WF_ExpiresAt = 0, WF_Version = 0,
          WF_MissingSlots = [''scope''], WF_Trusted = noTrustedEntities\<rparr>
      else None)"

definition isExplicitNewRequest :: "userAct \<Rightarrow> bool" where
  "isExplicitNewRequest act \<longleftrightarrow>
     act \<in> {ActCapabilityQuestion, ActRuleQuestion, ActReadQuery, ActWriteRequest, ActHelp}"

definition answer :: "workflowDecision \<Rightarrow> WorkflowSnapshot \<Rightarrow> WorkflowResult" where
  "answer decision workflow = \<lparr>WR_Decision = decision, WR_Workflow = Some workflow\<rparr>"

definition readyToExecute :: "WorkflowSnapshot \<Rightarrow> WorkflowResult" where
  "readyToExecute workflow =
     answer WorkflowReadyToExecute
       (setWorkflowMissingFields [] (workflow\<lparr>WF_State := WorkflowReady\<rparr>))"

text \<open>The departments named by a turn: the list, or else the single department.\<close>

definition givenDeptIDs :: "trustedEntities \<Rightarrow> int list" where
  "givenDeptIDs trusted =
     (if TE_DeptIDs trusted = [] \<and> TE_DepartmentID trusted \<noteq> 0 then [TE_DepartmentID trusted]
      else TE_DeptIDs trusted)"

definition withDeptIDs :: "int list \<Rightarrow> trustedEntities \<Rightarrow> trustedEntities" where
  "withDeptIDs ids t = t\<lparr>TE_DepartmentID := hd ids, TE_DeptIDs := ids\<rparr>"

text \<open>Choosing the whole tenant while departments are being collected rewrites the scope
  parameter and forgets the departments.\<close>

definition chooseAll :: "trustedEntities \<Rightarrow> trustedEntities \<Rightarrow> trustedEntities" where
  "chooseAll trusted own =
     (let t1 = mergeTrustedParams (TE_TrustedParams trusted) (own\<lparr>TE_Scope := TE_Scope trusted\<rparr>);
          ps = (case map_of (TE_TrustedParams t1) ''scope'' of
                  None \<Rightarrow> TE_TrustedParams t1
                | Some p \<Rightarrow>
                    mapSet ''scope''
                      (p\<lparr>TP_Field := ''scope'', TP_Value := GoString (TE_Scope trusted),
                         TP_TenantID := (if TP_TenantID p \<noteq> 0 then TP_TenantID p
                                         else if TE_TenantID trusted \<noteq> 0 then TE_TenantID trusted
                                         else TE_TenantID t1)\<rparr>)
                      (TE_TrustedParams t1))
      in t1\<lparr>TE_DepartmentID := 0, TE_DeptIDs := [],
            TE_TrustedParams := mapDelete ''dept_ids'' ps\<rparr>)"

definition continueSubscriptionWorkflow ::
  "WorkflowSnapshot \<Rightarrow> ProtocolDraft \<Rightarrow> trustedEntities \<Rightarrow> WorkflowResult" where
  "continueSubscriptionWorkflow workflow draft trusted =
     (let own = WF_Trusted workflow; merge = mergeTrustedParams (TE_TrustedParams trusted);
          deptIDs = givenDeptIDs trusted;
          reject = answer WorkflowRejectInvalidShape workflow
      in if Operation draft = workflowAuxiliaryOperationName WorkflowSubscriptionStart
                                ''executor.subscription.list_departments''
            \<and> WF_State workflow = WorkflowCollectDepartments
         then answer WorkflowMetaResult workflow
         else if Operation draft \<noteq> workflowPrimaryOperationName WorkflowSubscriptionStart
         then reject
         else if WF_State workflow = WorkflowCollectScope then
           (if TE_Scope trusted = ''all'' then
              readyToExecute (workflow\<lparr>WF_Trusted := merge (own\<lparr>TE_Scope := TE_Scope trusted\<rparr>)\<rparr>)
            else if TE_Scope trusted = ''department'' then
              let t = merge (own\<lparr>TE_Scope := TE_Scope trusted\<rparr>) in
              if deptIDs \<noteq> [] then readyToExecute (workflow\<lparr>WF_Trusted := withDeptIDs deptIDs t\<rparr>)
              else answer WorkflowContinueDecision
                     (setWorkflowMissingFields [''dept_names'']
                        (workflow\<lparr>WF_Trusted := t, WF_State := WorkflowCollectDepartments\<rparr>))
            else reject)
         else if WF_State workflow = WorkflowCollectDepartments then
           (if TE_Scope trusted = ''all'' then
              readyToExecute (workflow\<lparr>WF_Trusted := chooseAll trusted own\<rparr>)
            else if deptIDs = [] then reject
            else readyToExecute (workflow\<lparr>WF_Trusted := merge (withDeptIDs deptIDs own)\<rparr>))
         else reject)"

definition workflowMissingSlots :: "trustedEntities \<Rightarrow> string list" where
  "workflowMissingSlots trusted =
     (if TE_UserID trusted = 0 then [''user_id''] else [])
     @ (if TE_Date trusted = [] then [''date''] else [])
     @ (if TE_Section trusted = 0 then [''section''] else [])"

definition nextManualSignState :: "string \<Rightarrow> workflowState" where
  "nextManualSignState slot =
     (if slot = ''user_id'' then WorkflowCollectUser
      else if slot = ''date'' then WorkflowCollectDate
      else if slot = ''section'' then WorkflowCollectSection
      else WorkflowCollectUser)"

definition mergeManualSign :: "trustedEntities \<Rightarrow> trustedEntities \<Rightarrow> trustedEntities" where
  "mergeManualSign trusted own =
     (let t1 = (if TE_UserID trusted \<noteq> 0 then own\<lparr>TE_UserID := TE_UserID trusted\<rparr> else own);
          t2 = (if TE_UserName trusted \<noteq> [] then t1\<lparr>TE_UserName := TE_UserName trusted\<rparr> else t1);
          t3 = mergeTrustedParams (TE_TrustedParams trusted) t2;
          t4 = (if TE_Date trusted \<noteq> [] then t3\<lparr>TE_Date := TE_Date trusted\<rparr> else t3)
      in if TE_Section trusted \<noteq> 0 then t4\<lparr>TE_Section := TE_Section trusted\<rparr> else t4)"

definition continueManualSignWorkflow ::
  "WorkflowSnapshot \<Rightarrow> trustedEntities \<Rightarrow> WorkflowResult" where
  "continueManualSignWorkflow workflow trusted =
     (let own = mergeManualSign trusted (WF_Trusted workflow);
          missing = workflowMissingSlots own;
          w = setWorkflowMissingFields missing (workflow\<lparr>WF_Trusted := own\<rparr>)
      in if missing = [] then answer WorkflowReadyToExecute (w\<lparr>WF_State := WorkflowReady\<rparr>)
         else answer WorkflowContinueDecision
                (w\<lparr>WF_State := nextManualSignState (hd missing)\<rparr>))"

definition continueWorkflow ::
  "WorkflowSnapshot \<Rightarrow> ProtocolDraft \<Rightarrow> trustedEntities \<Rightarrow> WorkflowResult" where
  "continueWorkflow workflow draft trusted =
     (if Act draft = ActWorkflowCancel then
        answer WorkflowCanceled
          (setWorkflowMissingFields [] (workflow\<lparr>WF_State := WorkflowCancelled\<rparr>))
      else if isExplicitNewRequest (Act draft) then
        answer WorkflowInterrupted
          (setWorkflowMissingFields [] (workflow\<lparr>WF_State := WorkflowInterruptedState\<rparr>))
      else if WF_Type workflow = WorkflowSubscriptionStart then
        continueSubscriptionWorkflow workflow draft trusted
      else if WF_Type workflow = WorkflowManualSignCreate then
        continueManualSignWorkflow workflow trusted
      else answer WorkflowRejectInvalidShape workflow)"

definition completeWorkflow :: "WorkflowSnapshot \<Rightarrow> WorkflowResult" where
  "completeWorkflow workflow =
     answer WorkflowCompletedDecision
       (setWorkflowMissingFields [] (workflow\<lparr>WF_State := WorkflowCompleted\<rparr>))"

text \<open>\<open>interruptActiveWorkflow\<close> without a session manager, as the live pipeline calls it.\<close>

definition interruptActiveWorkflow ::
  "WorkflowSnapshot option \<Rightarrow> ProtocolDraft \<Rightarrow> WorkflowResult" where
  "interruptActiveWorkflow workflow draft =
     (case workflow of
        None \<Rightarrow> \<lparr>WR_Decision = WorkflowInterrupted, WR_Workflow = None\<rparr>
      | Some w \<Rightarrow>
          let result = continueWorkflow w draft noTrustedEntities in
          if WR_Decision result \<noteq> WorkflowInterrupted then
            answer WorkflowInterrupted
              (setWorkflowMissingFields []
                 ((cloneWorkflowSnapshot w)\<lparr>WF_State := WorkflowInterruptedState\<rparr>))
          else result)"

section \<open>The arbiter\<close>

definition workflowExpired :: "WorkflowSnapshot option \<Rightarrow> instant \<Rightarrow> bool" where
  "workflowExpired workflow now =
     (case workflow of
        None \<Rightarrow> False
      | Some w \<Rightarrow> if WF_ExpiresAt w = 0 then False else \<not> WF_ExpiresAt w > now)"

definition workflowDecisionWithoutActiveWorkflow :: "ProtocolDraft \<Rightarrow> workflowDecision" where
  "workflowDecisionWithoutActiveWorkflow draft =
     (if Act draft = ActWriteRequest then
        (case lookupOperation (Operation draft) of
           None \<Rightarrow> WorkflowSingleTurn
         | Some manifest \<Rightarrow>
             (case OM_Workflow manifest of
                None \<Rightarrow> WorkflowSingleTurn
              | Some w \<Rightarrow> if WS_Mode w = WorkflowModeMultiTurn then WorkflowStartNew
                         else WorkflowSingleTurn))
      else WorkflowSingleTurn)"

record WorkflowArbiterResult =
  AR_Decision :: workflowDecision
  AR_ActiveWorkflow :: "WorkflowSnapshot option"
  AR_ClearWorkflow :: bool
  AR_Expired :: bool
  AR_Reason :: string

definition workflowArbiter_Decide ::
  "instant \<Rightarrow> ProtocolDraft \<Rightarrow> WorkflowSnapshot option \<Rightarrow> WorkflowArbiterResult" where
  "workflowArbiter_Decide now draft input =
     (let active = map_option cloneWorkflowSnapshot input in
      if workflowExpired active now then
        \<lparr>AR_Decision = workflowDecisionWithoutActiveWorkflow draft, AR_ActiveWorkflow = None,
         AR_ClearWorkflow = True, AR_Expired = True, AR_Reason = ''workflow_expired''\<rparr>
      else case active of
        Some w \<Rightarrow>
          if Act draft = ActWorkflowCancel then
            \<lparr>AR_Decision = WorkflowCanceled, AR_ActiveWorkflow = active, AR_ClearWorkflow = True,
             AR_Expired = False, AR_Reason = ''workflow_cancel''\<rparr>
          else if Act draft = ActWorkflowContinue then
            \<lparr>AR_Decision = WorkflowContinueDecision, AR_ActiveWorkflow = active,
             AR_ClearWorkflow = False, AR_Expired = False, AR_Reason = []\<rparr>
          else if policyExplicitNewRequest (Act draft) then
            \<lparr>AR_Decision = WorkflowInterrupted, AR_ActiveWorkflow = active,
             AR_ClearWorkflow = True, AR_Expired = False, AR_Reason = ''new_request''\<rparr>
          else
            \<lparr>AR_Decision = WorkflowContinueDecision, AR_ActiveWorkflow = active,
             AR_ClearWorkflow = False, AR_Expired = False, AR_Reason = []\<rparr>
      | None \<Rightarrow>
          \<lparr>AR_Decision = workflowDecisionWithoutActiveWorkflow draft, AR_ActiveWorkflow = None,
           AR_ClearWorkflow = False, AR_Expired = False, AR_Reason = []\<rparr>)"

section \<open>Turns\<close>

text \<open>One turn of a dialogue: some message is interpreted as a draft with trusted entities, and
  the workflow the engine answers with takes the place of the old one.\<close>

inductive turn :: "WorkflowSnapshot \<Rightarrow> WorkflowSnapshot \<Rightarrow> bool" where
  turn: "WR_Workflow (continueWorkflow w draft trusted) = Some w' \<Longrightarrow> turn w w'"

inductive productive :: "WorkflowSnapshot \<Rightarrow> WorkflowSnapshot \<Rightarrow> bool" where
  productive: "continueWorkflow w draft trusted = answer decision w' \<Longrightarrow>
     decision \<in> {WorkflowContinueDecision, WorkflowReadyToExecute} \<Longrightarrow> productive w w'"

inductive_cases turnE: "turn w w'"
inductive_cases productiveE: "productive w w'"

lemma primary_subscription [simp]:
  "workflowPrimaryOperationName ''subscription.start'' = ''subscription.start''"
  by (simp add: workflowPrimaryOperationName_def lookupWorkflowPrimaryOperation_def
      operationManifests_def operationCatalogEntries_def catalog_manifests
      singleTurnWorkflowSpec_def)

lemma answer_simps [simp]:
  "WR_Decision (answer d w) = d" "WR_Workflow (answer d w) = Some w"
  "answer d w = answer d' w' \<longleftrightarrow> d = d' \<and> w = w'"
  by (auto simp: answer_def)

lemma setWorkflowMissingFields_simps [simp]:
  "WF_MissingFields (setWorkflowMissingFields m w) = m"
  "WF_MissingSlots (setWorkflowMissingFields m w) = m"
  "WF_State (setWorkflowMissingFields m w) = WF_State w"
  "WF_Type (setWorkflowMissingFields m w) = WF_Type w"
  "WF_Trusted (setWorkflowMissingFields m w) = WF_Trusted w"
  by (simp_all add: setWorkflowMissingFields_def)

lemma readyToExecute_simps [simp]:
  "WR_Decision (readyToExecute w) = WorkflowReadyToExecute"
  "readyToExecute w = answer d w' \<longleftrightarrow>
     d = WorkflowReadyToExecute
     \<and> w' = setWorkflowMissingFields [] (w\<lparr>WF_State := WorkflowReady\<rparr>)"
  by (auto simp: readyToExecute_def)

lemma mergeTrustedParams_simps [simp]:
  "TE_Scope (mergeTrustedParams ps t) = TE_Scope t"
  "TE_DeptIDs (mergeTrustedParams ps t) = TE_DeptIDs t"
  "TE_DepartmentID (mergeTrustedParams ps t) = TE_DepartmentID t"
  "TE_UserID (mergeTrustedParams ps t) = TE_UserID t"
  "TE_Date (mergeTrustedParams ps t) = TE_Date t"
  "TE_Section (mergeTrustedParams ps t) = TE_Section t"
  by (simp_all add: mergeTrustedParams_def)

lemma chooseAll_simps [simp]:
  "TE_Scope (chooseAll trusted own) = TE_Scope trusted" "TE_DeptIDs (chooseAll trusted own) = []"
  by (simp_all add: chooseAll_def Let_def)

lemma withDeptIDs_simps [simp]:
  "TE_Scope (withDeptIDs ids t) = TE_Scope t" "TE_DeptIDs (withDeptIDs ids t) = ids"
  "TE_DepartmentID (withDeptIDs ids t) = hd ids"
  by (simp_all add: withDeptIDs_def)

section \<open>Subscription dialogues\<close>

definition scopeComplete :: "trustedEntities \<Rightarrow> bool" where
  "scopeComplete t \<longleftrightarrow>
     TE_Scope t = ''all''
     \<or> (TE_Scope t = ''department'' \<and> TE_DeptIDs t \<noteq> [] \<and> TE_DepartmentID t = hd (TE_DeptIDs t))"

text \<open>What is true of a subscription workflow in each of its states.\<close>

definition subscriptionOK :: "WorkflowSnapshot \<Rightarrow> bool" where
  "subscriptionOK w \<longleftrightarrow>
     WF_Type w = WorkflowSubscriptionStart \<and> WF_MissingSlots w = WF_MissingFields w
     \<and> (case WF_State w of
          WorkflowCollectScope \<Rightarrow> WF_MissingFields w = [''scope'']
        | WorkflowCollectDepartments \<Rightarrow>
            WF_MissingFields w = [''dept_names''] \<and> TE_Scope (WF_Trusted w) = ''department''
        | WorkflowReady \<Rightarrow> WF_MissingFields w = [] \<and> scopeComplete (WF_Trusted w)
        | WorkflowCancelled \<Rightarrow> WF_MissingFields w = []
        | WorkflowInterruptedState \<Rightarrow> WF_MissingFields w = []
        | _ \<Rightarrow> False)"

lemma start_subscriptionOK: "startWorkflow n draft = Some w \<Longrightarrow> subscriptionOK w"
  by (auto simp: startWorkflow_def subscriptionOK_def split: if_splits)

lemma subscription_turn_OK:
  assumes "subscriptionOK w" and "turn w w'"
  shows "subscriptionOK w'"
proof -
  from assms(2) obtain draft trusted where
    t: "WR_Workflow (continueWorkflow w draft trusted) = Some w'" by (blast elim: turnE)
  have ty: "WF_Type w = WorkflowSubscriptionStart" using assms(1) by (simp add: subscriptionOK_def)
  show ?thesis
  proof (cases "Act draft = ActWorkflowCancel \<or> isExplicitNewRequest (Act draft)")
    case True
    with t ty show ?thesis
      by (auto simp: continueWorkflow_def subscriptionOK_def split: if_splits)
  next
    case False
    then have "WR_Workflow (continueSubscriptionWorkflow w draft trusted) = Some w'"
      using t ty by (simp add: continueWorkflow_def)
    then show ?thesis using assms(1)
      by (auto simp: continueSubscriptionWorkflow_def Let_def subscriptionOK_def scopeComplete_def
          readyToExecute_def split: if_splits)
  qed
qed

text \<open>C30: However a subscription dialogue goes, the workflow names as missing exactly what its
  state waits for, it waits for departments only under the department scope, and when it is
  ready nothing is missing and it holds either the whole-tenant scope or the department scope
  with a non-empty list of departments.\<close>

theorem subscription_dialogue_invariant:
  assumes "startWorkflow n draft = Some w" and "turn\<^sup>*\<^sup>* w w'"
  shows "subscriptionOK w'"
  using assms(2) start_subscriptionOK [OF assms(1)]
  by (induction rule: rtranclp_induct) (auto intro: subscription_turn_OK)

definition dialogueRank :: "WorkflowSnapshot \<Rightarrow> nat" where
  "dialogueRank w =
     (case WF_State w of WorkflowCollectScope \<Rightarrow> 2 | WorkflowCollectDepartments \<Rightarrow> 1 | _ \<Rightarrow> 0)"

lemma productive_subscription:
  assumes "productive w w'" and "WF_Type w = WorkflowSubscriptionStart"
  shows "WF_Type w' = WorkflowSubscriptionStart \<and> dialogueRank w' < dialogueRank w"
proof -
  from assms(1) obtain draft trusted decision where
    "continueWorkflow w draft trusted = answer decision w'"
    and "decision \<in> {WorkflowContinueDecision, WorkflowReadyToExecute}"
    by (auto elim!: productiveE)
  with assms(2) have "continueSubscriptionWorkflow w draft trusted = answer decision w'"
    and "decision \<in> {WorkflowContinueDecision, WorkflowReadyToExecute}"
    by (auto simp: continueWorkflow_def split: if_splits)
  with assms(2) show ?thesis
    by (auto simp: continueSubscriptionWorkflow_def Let_def dialogueRank_def split: if_splits)
qed

text \<open>C32: A subscription dialogue makes at most two productive turns (choosing a scope, naming
  departments) before it is ready; every other turn leaves it where it is or ends it.\<close>

theorem subscription_dialogue_ends:
  assumes "(productive ^^ n) w w'" and "WF_Type w = WorkflowSubscriptionStart"
  shows "n \<le> 2"
proof -
  have "WF_Type w' = WorkflowSubscriptionStart \<and> n + dialogueRank w' \<le> dialogueRank w"
    using assms
  proof (induction n arbitrary: w')
    case (Suc n)
    from Suc.prems obtain v where v: "(productive ^^ n) w v" "productive v w'" by auto
    from Suc.IH [OF v(1) Suc.prems(2)] productive_subscription [OF v(2)] show ?case by linarith
  qed simp
  moreover have "dialogueRank w \<le> 2" by (simp add: dialogueRank_def split: workflowState.split)
  ultimately show ?thesis by linarith
qed

section \<open>Manual sign dialogues\<close>

text \<open>A run of turns that all continue the workflow, with the last answer.\<close>

fun runTurns :: "ProtocolDraft \<Rightarrow> WorkflowSnapshot \<Rightarrow> trustedEntities list \<Rightarrow> WorkflowResult" where
  "runTurns draft w [] = answer WorkflowContinueDecision w"
| "runTurns draft w (t # ts) =
     (let result = continueWorkflow w draft t in
      if ts = [] then result
      else (case WR_Workflow result of
              None \<Rightarrow> result | Some w' \<Rightarrow> runTurns draft w' ts))"

definition slotsGiven :: "trustedEntities list \<Rightarrow> bool" where
  "slotsGiven ts \<longleftrightarrow>
     (\<exists>t \<in> set ts. TE_UserID t \<noteq> 0) \<and> (\<exists>t \<in> set ts. TE_Date t \<noteq> [])
     \<and> (\<exists>t \<in> set ts. TE_Section t \<noteq> 0)"

lemma mergeManualSign_simps [simp]:
  "TE_UserID (mergeManualSign t own) = (if TE_UserID t \<noteq> 0 then TE_UserID t else TE_UserID own)"
  "TE_Date (mergeManualSign t own) = (if TE_Date t \<noteq> [] then TE_Date t else TE_Date own)"
  "TE_Section (mergeManualSign t own) =
     (if TE_Section t \<noteq> 0 then TE_Section t else TE_Section own)"
  by (simp_all add: mergeManualSign_def Let_def)

lemma workflowMissingSlots_Nil:
  "workflowMissingSlots t = [] \<longleftrightarrow> TE_UserID t \<noteq> 0 \<and> TE_Date t \<noteq> [] \<and> TE_Section t \<noteq> 0"
  by (simp add: workflowMissingSlots_def)

lemma slotsGiven_merge: "slotsGiven (mergeManualSign t own # ts) = slotsGiven (own # t # ts)"
  by (auto simp: slotsGiven_def)

lemma continue_manual_sign:
  assumes "WF_Type w = WorkflowManualSignCreate" and "Act draft = ActWorkflowContinue"
  shows "\<exists>w'. WR_Workflow (continueWorkflow w draft t) = Some w' \<and> WF_Type w' = WF_Type w
           \<and> WF_Trusted w' = mergeManualSign t (WF_Trusted w)
           \<and> WF_MissingFields w' = workflowMissingSlots (WF_Trusted w')
           \<and> WR_Decision (continueWorkflow w draft t) =
               (if workflowMissingSlots (WF_Trusted w') = [] then WorkflowReadyToExecute
                else WorkflowContinueDecision)"
  using assms
  by (auto simp: continueWorkflow_def isExplicitNewRequest_def continueManualSignWorkflow_def
      Let_def)

lemma runTurns_manual_sign:
  assumes "WF_Type w = WorkflowManualSignCreate" and "Act draft = ActWorkflowContinue"
    and "ts \<noteq> []"
  shows "WR_Decision (runTurns draft w ts) =
           (if slotsGiven (WF_Trusted w # ts) then WorkflowReadyToExecute
            else WorkflowContinueDecision)"
  using assms
proof (induction ts arbitrary: w)
  case (Cons t ts)
  obtain w' where w': "WR_Workflow (continueWorkflow w draft t) = Some w'"
    "WF_Type w' = WorkflowManualSignCreate" "WF_Trusted w' = mergeManualSign t (WF_Trusted w)"
    "WR_Decision (continueWorkflow w draft t) =
       (if workflowMissingSlots (WF_Trusted w') = [] then WorkflowReadyToExecute
        else WorkflowContinueDecision)"
    using continue_manual_sign [OF Cons.prems(1,2), of t] Cons.prems(1) by auto
  show ?case
  proof (cases "ts = []")
    case True
    with w' show ?thesis by (auto simp: workflowMissingSlots_Nil slotsGiven_def)
  next
    case False
    with Cons.IH [OF w'(2) Cons.prems(2) False] w' show ?thesis
      by (simp add: slotsGiven_merge)
  qed
qed simp

text \<open>C31: A manual sign dialogue becomes ready to execute exactly when user, date and section
  have each been given, at the start or by some turn, whatever the order of the turns and
  whatever they repeat or leave out; until then it keeps asking.\<close>

theorem manual_sign_dialogue_completes:
  assumes "WF_Type w = WorkflowManualSignCreate" and "Act draft = ActWorkflowContinue"
    and "ts \<noteq> []"
  shows "WR_Decision (runTurns draft w ts) = WorkflowReadyToExecute
         \<longleftrightarrow> slotsGiven (WF_Trusted w # ts)"
  by (simp add: runTurns_manual_sign [OF assms])

section \<open>Witnesses\<close>

definition exDraft :: "userAct \<Rightarrow> ProtocolDraft" where
  "exDraft act = \<lparr>Act = act, Domain = DomainSubscription, Operation = ''subscription.start'',
     Confidence = 1, Slots = [], Reason = [], DraftParams = [], DraftMissingFields = [],
     ClarifyReason = []\<rparr>"

definition exWorkflow :: WorkflowSnapshot where
  "exWorkflow = \<lparr>WF_ID = ''wf-1'', WF_TenantID = 0, WF_ActorUserID = 0, WF_ConversationID = [],
     WF_Type = WorkflowSubscriptionStart, WF_State = WorkflowCollectScope,
     WF_MissingFields = [''scope''], WF_TrustedEntities = [], WF_Candidates = [],
     WF_LastUserMessage = [], WF_CreatedAt = 0, WF_UpdatedAt = 0, WF_ExpiresAt = 0,
     WF_Version = 0, WF_MissingSlots = [''scope''], WF_Trusted = noTrustedEntities\<rparr>"

definition exCollect :: WorkflowSnapshot where
  "exCollect = exWorkflow\<lparr>WF_State := WorkflowCollectDepartments,
     WF_MissingFields := [''dept_names''], WF_MissingSlots := [''dept_names''],
     WF_Trusted := noTrustedEntities\<lparr>TE_Scope := ''department''\<rparr>\<rparr>"

lemma itoa_one: "itoa 1 = ''1''"
  by code_simp

lemma exWorkflow_started: "startWorkflow 1 (exDraft ActWriteRequest) = Some exWorkflow"
  by (simp add: startWorkflow_def exDraft_def exWorkflow_def itoa_one)

lemma exCollect_answer:
  "continueWorkflow exWorkflow (exDraft ActWorkflowContinue)
     (noTrustedEntities\<lparr>TE_Scope := ''department''\<rparr>) = answer WorkflowContinueDecision exCollect"
  by (simp add: continueWorkflow_def exDraft_def exWorkflow_def exCollect_def
      isExplicitNewRequest_def continueSubscriptionWorkflow_def givenDeptIDs_def
      noTrustedEntities_def mergeTrustedParams_def setWorkflowMissingFields_def)

theorem subscription_dialogue_invariant_witness: "subscriptionOK exCollect"
proof (rule subscription_dialogue_invariant [OF exWorkflow_started])
  have "turn exWorkflow exCollect"
    by (rule turn [where draft = "exDraft ActWorkflowContinue"
          and trusted = "noTrustedEntities\<lparr>TE_Scope := ''department''\<rparr>"])
       (simp add: exCollect_answer)
  then show "turn\<^sup>*\<^sup>* exWorkflow exCollect" by simp
qed

theorem subscription_dialogue_ends_witness:
  "\<exists>n. (productive ^^ n) exWorkflow exCollect \<and> n \<le> 2"
proof -
  have "(productive ^^ 1) exWorkflow exCollect"
    using exCollect_answer by (auto intro: productive)
  moreover have "WF_Type exWorkflow = WorkflowSubscriptionStart" by (simp add: exWorkflow_def)
  ultimately show ?thesis using subscription_dialogue_ends by blast
qed

theorem manual_sign_dialogue_completes_witness:
  "WR_Decision (runTurns (exDraft ActWorkflowContinue)
     (exWorkflow\<lparr>WF_Type := WorkflowManualSignCreate\<rparr>)
     [noTrustedEntities\<lparr>TE_Section := 2\<rparr>, noTrustedEntities\<lparr>TE_UserID := 9\<rparr>,
      noTrustedEntities\<lparr>TE_Date := ''2026-03-02''\<rparr>]) = WorkflowReadyToExecute"
  by (subst manual_sign_dialogue_completes)
     (simp_all add: exWorkflow_def exDraft_def slotsGiven_def noTrustedEntities_def)

end
