(* ===== verification/WorkflowContract.thy ===== *)
theory WorkflowContract
  imports ExecutionCodec WorkflowEngine
begin

text \<open>
  The \<open>WorkflowStore\<close> interface (src/internal/agent/workflow\_store.go): its operations, what a
  store promises of each of them as a step relation on the version and the write in progress of
  one workflow, and the guarantees that follow for every store that keeps the promise. The
  promise is the locale \<open>workflow_store\<close>; the in-memory store (\<open>WorkflowStore\<close>) and the
  database store (\<open>WorkflowDatabase\<close>) are shown to keep it.

  A call is made in an environment: the error of its context, if it is cancelled, and the reading
  of the clock. The clock is read once per call.
\<close>

section \<open>Operations\<close>

record VersionedWorkflow =
  VW_Snapshot :: WorkflowSnapshot
  VW_Version :: "64 word"
  VW_Execution :: "PersistedExecutionV1 option"

type_synonym storeResult = "agentError + VersionedWorkflow option"

datatype storeOp =
    OpLoad (opKey: WorkflowKey)
  | OpCreate (opKey: WorkflowKey) "WorkflowSnapshot option"
  | OpCompareAndSwap (opKey: WorkflowKey) "64 word" "WorkflowSnapshot option"
  | OpDeleteIfVersion (opKey: WorkflowKey) "64 word"
  | OpCreateReserved (opKey: WorkflowKey) "WorkflowSnapshot option" ReservedExecutionV1
  | OpReserve (opKey: WorkflowKey) "64 word" "WorkflowSnapshot option" ReservedExecutionV1
  | OpRecordResult (opKey: WorkflowKey) "64 word" string PersistedExecutionResultV1
  | OpFinalize (opKey: WorkflowKey) "64 word" string "WorkflowSnapshot option"
  | OpDeleteReserved (opKey: WorkflowKey) "64 word" string
  | OpTakeover (opKey: WorkflowKey) "64 word" string ReservedExecutionV1

record callEnv =
  CE_Err :: "agentError option"
  CE_Now :: instant

section \<open>What a store promises\<close>

text \<open>The write in progress, and the state of one workflow: its version and that write.\<close>

record execView =
  EV_Operation :: string
  EV_BusinessKey :: string
  EV_Token :: string
  EV_Lease :: instant
  EV_Recorded :: bool

type_synonym flow = "(64 word \<times> execView option) option"

definition reservedView :: "ReservedExecutionV1 \<Rightarrow> execView" where
  "reservedView r =
     \<lparr>EV_Operation = RE_Operation r, EV_BusinessKey = RE_BusinessKey r,
      EV_Token = RE_ExecutionToken r, EV_Lease = RE_LeaseExpiresAt r, EV_Recorded = False\<rparr>"

text \<open>An idle workflow whose time is over may disappear before a call is served.\<close>

definition lapses :: "flow \<Rightarrow> flow \<Rightarrow> bool" where
  "lapses f f' \<longleftrightarrow> f' = f \<or> (\<exists>v. f = Some (v, None) \<and> f' = None)"

inductive flow_step :: "instant \<Rightarrow> storeOp \<Rightarrow> flow \<Rightarrow> flow \<Rightarrow> bool" where
  create: "flow_step now (OpCreate k snap) None (Some (1, None))"
| swap: "flow_step now (OpCompareAndSwap k v snap) (Some (v, None)) (Some (v + 1, None))"
| delete: "flow_step now (OpDeleteIfVersion k v) (Some (v, None)) None"
| create_reserved:
    "canonicalReservedExecution r = Inr r' \<Longrightarrow>
     flow_step now (OpCreateReserved k snap r) None (Some (1, Some (reservedView r')))"
| reserve:
    "canonicalReservedExecution r = Inr r' \<Longrightarrow>
     flow_step now (OpReserve k v snap r) (Some (v, None)) (Some (v + 1, Some (reservedView r')))"
| record_result:
    "EV_Token e = trimSpace token \<Longrightarrow> EV_BusinessKey e = trimSpace (PR_BusinessKey result) \<Longrightarrow>
     flow_step now (OpRecordResult k v token result) (Some (v, Some e))
       (Some (v + 1, Some (e\<lparr>EV_Recorded := True\<rparr>)))"
| finalize:
    "EV_Token e = trimSpace token \<Longrightarrow> EV_Recorded e \<Longrightarrow>
     flow_step now (OpFinalize k v token snap) (Some (v, Some e)) (Some (v + 1, None))"
| delete_reserved:
    "EV_Token e = trimSpace token \<Longrightarrow> EV_Recorded e \<Longrightarrow>
     flow_step now (OpDeleteReserved k v token) (Some (v, Some e)) None"
| takeover:
    "canonicalReservedExecution r = Inr r' \<Longrightarrow> EV_Token e = trimSpace token \<Longrightarrow>
     EV_Lease e \<le> now \<Longrightarrow>
     EV_Operation e = RE_Operation r' \<Longrightarrow> EV_BusinessKey e = RE_BusinessKey r' \<Longrightarrow>
     flow_step now (OpTakeover k v token r) (Some (v, Some e))
       (Some (v + 1, Some ((reservedView r')\<lparr>EV_Recorded := EV_Recorded e\<rparr>)))"

inductive_cases flow_stepE: "flow_step now op f f'"

inductive_simps flow_step_simps:
  "flow_step now (OpLoad k) f f'"
  "flow_step now (OpCreate k snap) f f'"
  "flow_step now (OpCompareAndSwap k v snap) f f'"
  "flow_step now (OpDeleteIfVersion k v) f f'"
  "flow_step now (OpCreateReserved k snap r) f f'"
  "flow_step now (OpReserve k v snap r) f f'"
  "flow_step now (OpRecordResult k v token result) f f'"
  "flow_step now (OpFinalize k v token snap) f f'"
  "flow_step now (OpDeleteReserved k v token) f f'"
  "flow_step now (OpTakeover k v token r) f f'"

text \<open>The version and the token an operation must present, and the token it brings.\<close>

fun expectedVersion :: "storeOp \<Rightarrow> 64 word option" where
  "expectedVersion (OpCompareAndSwap k v snap) = Some v"
| "expectedVersion (OpDeleteIfVersion k v) = Some v"
| "expectedVersion (OpReserve k v snap r) = Some v"
| "expectedVersion (OpRecordResult k v token result) = Some v"
| "expectedVersion (OpFinalize k v token snap) = Some v"
| "expectedVersion (OpDeleteReserved k v token) = Some v"
| "expectedVersion (OpTakeover k v token r) = Some v"
| "expectedVersion _ = None"

fun presentedToken :: "storeOp \<Rightarrow> string option" where
  "presentedToken (OpRecordResult k v token result) = Some (trimSpace token)"
| "presentedToken (OpFinalize k v token snap) = Some (trimSpace token)"
| "presentedToken (OpDeleteReserved k v token) = Some (trimSpace token)"
| "presentedToken (OpTakeover k v token r) = Some (trimSpace token)"
| "presentedToken _ = None"

fun broughtToken :: "storeOp \<Rightarrow> string option" where
  "broughtToken (OpCreateReserved k snap r) = Some (RE_ExecutionToken r)"
| "broughtToken (OpReserve k v snap r) = Some (RE_ExecutionToken r)"
| "broughtToken (OpTakeover k v token r) = Some (RE_ExecutionToken r)"
| "broughtToken _ = None"

fun isLoad :: "storeOp \<Rightarrow> bool" where
  "isLoad (OpLoad k) = True"
| "isLoad _ = False"

lemma flow_step_version:
  "flow_step now op (Some (v, e)) f' \<Longrightarrow> expectedVersion op = Some w \<Longrightarrow> v = w"
  by (erule flow_stepE) auto

lemma flow_step_next_version:
  "flow_step now op (Some (v, e)) (Some (w, e')) \<Longrightarrow> w = v + 1"
  by (erule flow_stepE) auto

lemma flow_step_token:
  "flow_step now op (Some (v, Some e)) f' \<Longrightarrow> presentedToken op = Some (EV_Token e)"
  by (erule flow_stepE) auto

text \<open>A token is free in a workflow when no write in progress carries it.\<close>

definition tokenFree :: "string \<Rightarrow> flow \<Rightarrow> bool" where
  "tokenFree token f \<longleftrightarrow> (\<forall>v e. f = Some (v, Some e) \<longrightarrow> EV_Token e \<noteq> token)"

lemma tokenFree_lapses: "lapses f f' \<Longrightarrow> tokenFree token f \<Longrightarrow> tokenFree token f'"
  by (auto simp: lapses_def tokenFree_def)

lemma tokenFree_step:
  "flow_step now op f f' \<Longrightarrow> broughtToken op \<noteq> Some token \<Longrightarrow> tokenFree token f \<Longrightarrow> tokenFree token f'"
  by (erule flow_stepE) (auto simp: tokenFree_def reservedView_def dest: canonicalReserved_InrD(3))

section \<open>Guarantees\<close>

primrec runCalls ::
  "('c \<Rightarrow> storeOp \<Rightarrow> 's \<Rightarrow> storeResult \<times> 's) \<Rightarrow> ('c \<times> storeOp) list \<Rightarrow> 's \<Rightarrow> 's" where
  "runCalls serve [] s = s"
| "runCalls serve (c # calls) s = runCalls serve calls (snd (serve (fst c) (snd c) s))"

fun isCreate :: "storeOp \<Rightarrow> bool" where
  "isCreate (OpCreate k snap) = True"
| "isCreate (OpCreateReserved k snap r) = True"
| "isCreate _ = False"

text \<open>The promise: a call changes only the workflow of its key; on that workflow it makes the
  step of its operation or, when it fails or only loads, no step but the lapse of an idle
  workflow. (A failing call may have made its step: a database store can fail after the row
  was written.) A store may owe the promise to legal calls only, whose values are ones the
  program's types can hold.\<close>

locale workflow_store =
  fixes serve :: "'e callEnv_scheme \<Rightarrow> storeOp \<Rightarrow> 's \<Rightarrow> storeResult \<times> 's"
    and view :: "'s \<Rightarrow> WorkflowKey \<Rightarrow> flow"
    and good :: "'s \<Rightarrow> bool"
    and legal :: "'e callEnv_scheme \<times> storeOp \<Rightarrow> bool"
  assumes good_serve: "good s \<Longrightarrow> legal (env, op) \<Longrightarrow> serve env op s = (res, s') \<Longrightarrow> good s'"
    and frame: "good s \<Longrightarrow> legal (env, op) \<Longrightarrow> serve env op s = (res, s') \<Longrightarrow> k \<noteq> opKey op \<Longrightarrow>
      view s' k = view s k"
    and step: "good s \<Longrightarrow> legal (env, op) \<Longrightarrow> serve env op s = (res, s') \<Longrightarrow>
      \<exists>f. lapses (view s (opKey op)) f
          \<and> (view s' (opKey op) = f \<and> (isl res \<or> isLoad op)
             \<or> flow_step (CE_Now env) op f (view s' (opKey op)))"
begin

lemma good_run: "good s \<Longrightarrow> list_all legal calls \<Longrightarrow> good (runCalls serve calls s)"
proof (induction calls arbitrary: s)
  case (Cons c calls)
  obtain env op res s' where c: "c = (env, op)" and s': "serve env op s = (res, s')"
    by (metis surj_pair)
  have "legal (env, op)" using Cons.prems(2) c by simp
  with Cons.IH [OF good_serve [OF Cons.prems(1) _ s']] Cons.prems(2) c s' show ?case by simp
qed simp

text \<open>One call, seen from any key.\<close>

lemma call_cases:
  assumes "good s" and "legal (env, op)" and "serve env op s = (res, s')"
  obtains (kept) "view s' k = view s k"
  | (lapsed) v where "view s k = Some (v, None)" "view s' k = None"
  | (stepped) f where "lapses (view s k) f" "opKey op = k" "flow_step (CE_Now env) op f (view s' k)"
proof (cases "k = opKey op")
  case True
  with step [OF assms] show thesis
    using kept lapsed stepped unfolding lapses_def by blast
next
  case False
  with frame [OF assms] show thesis by (intro kept) simp
qed

text \<open>While a write is in progress only the holder of its token, who knows the version, gets
  through.\<close>

lemma busy_step:
  assumes "good s" and "legal (env, op)" and "serve env op s = (res, s')"
    and "view s k = Some (v, Some e)" and "view s' k \<noteq> view s k"
  shows "opKey op = k \<and> presentedToken op = Some (EV_Token e) \<and> expectedVersion op = Some v
         \<and> flow_step (CE_Now env) op (Some (v, Some e)) (view s' k)"
  using assms(1-3)
proof (cases rule: call_cases [where k = k])
  case (stepped f)
  then have "f = Some (v, Some e)" using assms(4) by (simp add: lapses_def)
  with stepped show ?thesis by (auto elim: flow_stepE)
qed (use assms in auto)

lemma success_step:
  assumes "good s" and "legal (env, op)" and "serve env op s = (Inr w, s')" and "\<not> isLoad op"
  shows "\<exists>f. lapses (view s (opKey op)) f \<and> flow_step (CE_Now env) op f (view s' (opKey op))"
  using step [OF assms(1-3)] assms(4) by auto

lemma busy_refuses:
  assumes "good s" and "legal (env, op)" and "serve env op s = (res, s')"
    and "view s k = Some (v, Some e)" and "opKey op = k" and "\<not> isLoad op"
    and "presentedToken op \<noteq> Some (EV_Token e) \<or> expectedVersion op \<noteq> Some v"
  shows "isl res \<and> view s' k = view s k"
proof
  show kept: "view s' k = view s k"
    using busy_step [OF assms(1-4)] assms(7) by blast
  show "isl res"
  proof (rule ccontr)
    assume "\<not> isl res"
    then obtain w where "serve env op s = (Inr w, s')" using assms(3) by (cases res) auto
    from success_step [OF assms(1,2) this assms(6)] obtain f
      where "lapses (view s k) f" "flow_step (CE_Now env) op f (view s' k)" using assms(5) by auto
    then have "flow_step (CE_Now env) op (Some (v, Some e)) (view s' k)"
      using assms(4) by (simp add: lapses_def)
    then show False using assms(7) by (auto elim: flow_stepE)
  qed
qed

text \<open>A token that was taken over stays locked out.\<close>

lemma tokenFree_run:
  assumes "good s" and "list_all legal calls" and "tokenFree token (view s k)"
    and "\<forall>(env, op) \<in> set calls. opKey op = k \<longrightarrow> broughtToken op \<noteq> Some token"
  shows "tokenFree token (view (runCalls serve calls s) k)"
  using assms
proof (induction calls arbitrary: s)
  case (Cons c calls)
  obtain env op res s' where c: "c = (env, op)" and s': "serve env op s = (res, s')"
    by (metis surj_pair)
  have legal: "legal (env, op)" using Cons.prems(2) c by simp
  have "tokenFree token (view s' k)"
    using Cons.prems(1) legal s'
  proof (cases rule: call_cases [where k = k])
    case (stepped f)
    have "broughtToken op \<noteq> Some token" using Cons.prems(4) c stepped(2) by auto
    then show ?thesis
      by (rule tokenFree_step [OF stepped(3)]) (rule tokenFree_lapses [OF stepped(1) Cons.prems(3)])
  qed (use Cons.prems in \<open>auto simp: tokenFree_def\<close>)
  with Cons c s' good_serve [OF Cons.prems(1) legal s'] show ?case by simp
qed simp

lemma stale_token:
  assumes "good s" and "list_all legal calls" and "tokenFree token (view s k)"
    and "\<forall>(env, op) \<in> set calls. opKey op = k \<longrightarrow> broughtToken op \<noteq> Some token"
    and "legal (env, op)" and "serve env op (runCalls serve calls s) = (res, s')"
    and "opKey op = k" and "presentedToken op = Some token"
  shows "isl res \<and> lapses (view (runCalls serve calls s) k) (view s' k)"
proof -
  let ?s = "runCalls serve calls s"
  have good: "good ?s" by (rule good_run [OF assms(1,2)])
  have free: "tokenFree token (view ?s k)" by (rule tokenFree_run [OF assms(1-4)])
  have no: "\<not> flow_step (CE_Now env) op f (view s' k)" if "lapses (view ?s k) f" for f
    using tokenFree_lapses [OF that free] assms(8) by (auto simp: tokenFree_def elim!: flow_stepE)
  have "\<not> isLoad op" using assms(8) by (cases op) auto
  with step [OF good assms(5,6)] no assms(7) show ?thesis by auto
qed

text \<open>Every step counts the version up by one, until the workflow is gone.\<close>

lemma version_run:
  assumes "good s" and "list_all legal calls" and "view s k = None \<or> (\<exists>e. view s k = Some (v, e))"
    and "\<forall>(env, op) \<in> set calls. opKey op = k \<longrightarrow> \<not> isCreate op"
  shows "view (runCalls serve calls s) k = None
         \<or> (\<exists>j e. j \<le> length calls \<and> view (runCalls serve calls s) k = Some (v + of_nat j, e))"
  using assms
proof (induction calls arbitrary: s v)
  case Nil
  then show ?case by (auto intro: exI [of _ 0])
next
  case (Cons c calls)
  obtain env op res s' where c: "c = (env, op)" and s': "serve env op s = (res, s')"
    by (metis surj_pair)
  have legal: "legal (env, op)" "list_all legal calls" using Cons.prems(2) c by simp_all
  have next_view: "view s' k = None \<or> (\<exists>e. view s' k = Some (v, e)) \<or> (\<exists>e. view s' k = Some (v + 1, e))"
    using Cons.prems(1) legal(1) s'
  proof (cases rule: call_cases [where k = k])
    case (stepped f)
    have "\<not> isCreate op" using Cons.prems(4) c stepped(2) by auto
    with stepped(3) obtain w e where f: "f = Some (w, e)" by (auto elim!: flow_stepE)
    then have "w = v" using stepped(1) Cons.prems(3) by (auto simp: lapses_def)
    with stepped(3) f show ?thesis
      by (cases "view s' k") (auto dest: flow_step_next_version)
  qed (use Cons.prems in auto)
  note good = good_serve [OF Cons.prems(1) legal(1) s'] legal(2)
  have calls: "\<forall>(env, op) \<in> set calls. opKey op = k \<longrightarrow> \<not> isCreate op" using Cons.prems(4) by simp
  from next_view consider "view s' k = None \<or> (\<exists>e. view s' k = Some (v, e))"
    | "view s' k = None \<or> (\<exists>e. view s' k = Some (v + 1, e))" by blast
  then show ?case
  proof cases
    case 1
    from Cons.IH [OF good 1 calls] c s' show ?thesis by (auto intro: le_SucI)
  next
    case 2
    from Cons.IH [OF good 2 calls] show ?thesis
    proof (elim disjE exE conjE)
      fix j e
      assume "j \<le> length calls" "view (runCalls serve calls s') k = Some (v + 1 + of_nat j, e)"
      with c s' show ?thesis by (auto intro!: exI [of _ "Suc j"] simp: algebra_simps)
    qed (use c s' in simp)
  qed
qed

text \<open>Of the calls that expect the same version of a workflow at most one gets through.\<close>

lemma stale_version:
  assumes "good s" and "legal (env, op)" and "list_all legal calls" and "legal (env', op')"
    and "serve env op s = (res, s1)" and "view s1 k \<noteq> view s k"
    and "opKey op = k" and "expectedVersion op = Some v" and "view s k \<noteq> None"
    and "\<forall>(env, op) \<in> set calls. opKey op = k \<longrightarrow> \<not> isCreate op"
    and "int (length calls) + 1 < 2 ^ 64"
    and "serve env' op' (runCalls serve calls s1) = (res', s')"
    and "opKey op' = k" and "expectedVersion op' = Some v"
  shows "isl res' \<and> lapses (view (runCalls serve calls s1) k) (view s' k)"
proof -
  let ?s = "runCalls serve calls s1"
  have good: "good s1" "good ?s" using good_serve [OF assms(1,2,5)] good_run [OF _ assms(3)] by blast+
  have "view s1 k = None \<or> (\<exists>e. view s1 k = Some (v + 1, e))"
    using assms(1,2,5)
  proof (cases rule: call_cases [where k = k])
    case (stepped f)
    then obtain e where "f = Some (v, e)" using assms(8) by (cases op) (auto elim!: flow_stepE)
    with stepped(3) show ?thesis by (cases "view s1 k") (auto dest: flow_step_next_version)
  qed (use assms(6) in auto)
  from version_run [OF good(1) assms(3) this assms(10)]
  have now_view: "view ?s k = None
      \<or> (\<exists>j e. j \<le> length calls \<and> view ?s k = Some (v + 1 + of_nat j, e))" .
  have fresh: "v + 1 + of_nat j \<noteq> v" if "j \<le> length calls" for j
  proof
    assume "v + 1 + of_nat j = v"
    then have "(of_nat (Suc j) :: 64 word) = 0" by (simp add: algebra_simps)
    then have "2 ^ LENGTH(64) dvd Suc j" by (simp only: word_of_nat_eq_0_iff)
    then have "2 ^ LENGTH(64) \<le> Suc j" by (rule dvd_imp_le) simp
    with that assms(11) show False by simp
  qed
  have no: "\<not> flow_step (CE_Now env') op' f (view s' k)" if "lapses (view ?s k) f" for f
    using now_view fresh that assms(14) by (cases op') (auto simp: lapses_def elim!: flow_stepE)
  have "\<not> isLoad op'" using assms(14) by (cases op') auto
  with step [OF good(2) assms(4,12)] no assms(13) show ?thesis by auto
qed

text \<open>A reserved write ends only after its result was recorded.\<close>

lemma release_needs_result:
  assumes "good s" and "list_all legal calls" and "view s k = Some (v, Some e)" and "\<not> EV_Recorded e"
    and "\<nexists>w e'. view (runCalls serve calls s) k = Some (w, Some e')"
  shows "\<exists>before env w token result after e1.
           calls = before @ (env, OpRecordResult k w token result) # after
           \<and> trimSpace (PR_BusinessKey result) = EV_BusinessKey e
           \<and> view (runCalls serve before s) k = Some (w, Some e1) \<and> EV_Token e1 = trimSpace token"
  using assms
proof (induction calls arbitrary: s v e)
  case (Cons c calls)
  obtain env op res s' where c: "c = (env, op)" and s': "serve env op s = (res, s')"
    by (metis surj_pair)
  have legal: "legal (env, op)" "list_all legal calls" using Cons.prems(2) c by simp_all
  note good = good_serve [OF Cons.prems(1) legal(1) s']
  have rest: "\<nexists>w e'. view (runCalls serve calls s') k = Some (w, Some e')"
    using Cons.prems(5) c s' by simp
  have later: ?case if "view s' k = Some (v', Some e')" "\<not> EV_Recorded e'"
      "EV_BusinessKey e' = EV_BusinessKey e" for v' e'
  proof -
    from Cons.IH [OF good legal(2) that(1,2) rest] that(3) obtain before env' w token result after e1
      where "calls = before @ (env', OpRecordResult k w token result) # after"
        "trimSpace (PR_BusinessKey result) = EV_BusinessKey e"
        "view (runCalls serve before s') k = Some (w, Some e1)" "EV_Token e1 = trimSpace token"
      by auto
    with c s' show ?thesis
      by (intro exI [of _ "c # before"] exI [of _ env'] exI [of _ w] exI [of _ token]
          exI [of _ result] exI [of _ after] exI [of _ e1]) simp
  qed
  show ?case
  proof (cases "view s' k = view s k")
    case True
    with Cons.prems later show ?thesis by simp
  next
    case False
    from busy_step [OF Cons.prems(1) legal(1) s' Cons.prems(3) False] have op: "opKey op = k"
      and move: "flow_step (CE_Now env) op (Some (v, Some e)) (view s' k)" by simp_all
    show ?thesis
    proof (cases op)
      case (OpRecordResult k' w token result)
      with op move have "k' = k" "w = v" "EV_Token e = trimSpace token"
        "EV_BusinessKey e = trimSpace (PR_BusinessKey result)"
        by (auto simp: flow_step_simps)
      with OpRecordResult c Cons.prems(3) show ?thesis
        by (intro exI [of _ "[]"] exI [of _ env] exI [of _ w] exI [of _ token]
            exI [of _ result] exI [of _ calls] exI [of _ e]) simp
    next
      case (OpTakeover k' w token r)
      with move obtain r' where "view s' k = Some (v + 1, Some ((reservedView r')\<lparr>EV_Recorded := EV_Recorded e\<rparr>))"
        "EV_BusinessKey e = RE_BusinessKey r'"
        by (auto simp: flow_step_simps)
      with later Cons.prems(4) show ?thesis by (simp add: reservedView_def)
    qed (use move Cons.prems(4) in \<open>auto simp: flow_step_simps\<close>)
  qed
qed auto

end

end
