(* ===== verification/SnapshotCodec.thy ===== *)
theory SnapshotCodec
  imports ExecutionCodec WorkflowEngine GoCrypto
begin

text \<open>
  The persisted form of a workflow (src/internal/agent/workflow\_snapshot\_codec.go): the explicit
  V1 schema, its size limits, and the checks of identity and authority (everything a snapshot
  trusts belongs to its own tenant and conversation). The chat text of the user and the raw text
  behind a trusted parameter are never written; \<open>SnapshotRoundTrip\<close> shows what is read back.
\<close>

section \<open>The schema\<close>

record persistedParamSourceV1 =
  PS_Kind :: sourceKind
  PS_Resolver :: string

record persistedTrustedParamV1 =
  PT_Field :: string
  PT_Value :: persistedTypedValueV1
  PT_Source :: persistedParamSourceV1
  PT_TenantID :: nat

record persistedCandidateV1 =
  PC_ID :: string
  PC_Label :: string
  PC_Value :: persistedTypedValueV1
  PC_TenantID :: nat

record persistedTrustedEntityV1 =
  PN_ID :: string
  PN_Type :: string
  PN_Label :: string
  PN_Value :: persistedTypedValueV1
  PN_TenantID :: nat

record persistedTrustedStateV1 =
  PU_TenantID :: nat
  PU_DepartmentID :: int
  PU_DeptIDs :: "int list"
  PU_UserID :: nat
  PU_UserName :: string
  PU_Date :: string
  PU_Section :: int
  PU_Week :: int
  PU_ConversationID :: string
  PU_Scope :: string
  PU_QueryShape :: string
  PU_UserRole :: int
  PU_TrustedParams :: "persistedTrustedParamV1 goMap"

record persistedWorkflowSnapshotV1 =
  PY_SchemaVersion :: int
  PY_ID :: string
  PY_TenantID :: nat
  PY_ActorUserID :: nat
  PY_ConversationID :: string
  PY_WorkflowType :: string
  PY_WorkflowState :: workflowState
  PY_Missing :: "string list"
  PY_Trusted :: persistedTrustedStateV1
  PY_TrustedEntities :: "persistedTrustedEntityV1 goMap"
  PY_CandidateLists :: "persistedCandidateV1 list goMap"
  PY_CreatedAt :: string
  PY_UpdatedAt :: string
  PY_ExpiresAt :: string
  PY_Version :: "64 word"

fun stateText :: "workflowState \<Rightarrow> string" where
  "stateText WorkflowCollectScope = ''collect_scope''"
| "stateText WorkflowCollectDepartments = ''collect_departments''"
| "stateText WorkflowCollectUser = ''collect_user''"
| "stateText WorkflowCollectDate = ''collect_date''"
| "stateText WorkflowCollectSection = ''collect_section''"
| "stateText WorkflowReady = ''ready''"
| "stateText WorkflowCompleted = ''completed''"
| "stateText WorkflowCancelled = ''cancelled''"
| "stateText WorkflowInterruptedState = ''interrupted''"
| "stateText (OtherState s) = s"

definition stateOf :: "string \<Rightarrow> workflowState" where
  "stateOf s =
     (case find (\<lambda>st. stateText st = s)
             [WorkflowCollectScope, WorkflowCollectDepartments, WorkflowCollectUser,
              WorkflowCollectDate, WorkflowCollectSection, WorkflowReady, WorkflowCompleted,
              WorkflowCancelled, WorkflowInterruptedState] of
        Some st \<Rightarrow> st | None \<Rightarrow> OtherState s)"

fun sourceText :: "sourceKind \<Rightarrow> string" where
  "sourceText TrustedParamSourceRawSlot = ''raw_slot''"
| "sourceText TrustedParamSourceDefault = ''default''"
| "sourceText TrustedParamSourceRuntime = ''runtime''"
| "sourceText TrustedParamSourceWorkflow = ''workflow''"
| "sourceText TrustedParamSourceCandidate = ''candidate''"
| "sourceText TrustedParamSourceDerived = ''derived''"
| "sourceText SourceUnset = []"
| "sourceText (OtherSource s) = s"

definition sourceOf :: "string \<Rightarrow> sourceKind" where
  "sourceOf s =
     (case find (\<lambda>k. sourceText k = s)
             [TrustedParamSourceRawSlot, TrustedParamSourceDefault, TrustedParamSourceRuntime,
              TrustedParamSourceWorkflow, TrustedParamSourceCandidate, TrustedParamSourceDerived,
              SourceUnset] of
        Some k \<Rightarrow> k | None \<Rightarrow> OtherSource s)"

definition workflowSnapshotSchemaVersion :: int where "workflowSnapshotSchemaVersion = 1"
definition workflowSnapshotMaxCandidateFields :: nat where "workflowSnapshotMaxCandidateFields = 16"
definition workflowSnapshotMaxCandidatesPerField :: nat where
  "workflowSnapshotMaxCandidatesPerField = 50"
definition workflowSnapshotMaxCandidatesTotal :: nat where "workflowSnapshotMaxCandidatesTotal = 200"
definition workflowSnapshotMaxTrustedEntities :: nat where "workflowSnapshotMaxTrustedEntities = 32"
definition workflowSnapshotMaxTrustedParams :: nat where "workflowSnapshotMaxTrustedParams = 32"
definition workflowSnapshotMaxKeyRunes :: nat where "workflowSnapshotMaxKeyRunes = 64"
definition workflowSnapshotMaxIDRunes :: nat where "workflowSnapshotMaxIDRunes = 128"
definition workflowSnapshotMaxWorkflowIDRunes :: nat where "workflowSnapshotMaxWorkflowIDRunes = 64"

section \<open>Validation\<close>

definition validateWorkflowMapKey :: "string \<Rightarrow> agentError option" where
  "validateWorkflowMapKey key =
     (if trimSpace key = [] \<or> \<not> runeLengthWithin key workflowSnapshotMaxKeyRunes
      then Some (Errorf ''map key is empty or too long'') else None)"

definition knownTrustedParamSourceKind :: "sourceKind \<Rightarrow> bool" where
  "knownTrustedParamSourceKind kind =
     (case kind of SourceUnset \<Rightarrow> False | OtherSource _ \<Rightarrow> False | _ \<Rightarrow> True)"

fun paramAuthority :: "nat \<Rightarrow> TrustedParam goMap \<Rightarrow> agentError option" where
  "paramAuthority tenant [] = None"
| "paramAuthority tenant ((field, param) # m) =
     (if TP_TenantID param \<noteq> tenant
      then Some (Errorf (''trusted param '' @ field @ '' tenant_id does not match snapshot''))
      else if \<not> knownTrustedParamSourceKind (SourceKind (TP_Source param))
      then Some (Errorf (''trusted param '' @ field @ '' has unsupported source kind''))
      else paramAuthority tenant m)"

definition validateWorkflowSnapshotAuthority :: "WorkflowSnapshot \<Rightarrow> agentError option" where
  "validateWorkflowSnapshotAuthority w =
     (let trusted = WF_Trusted w; tenant = WF_TenantID w in
      if TE_TenantID trusted \<noteq> 0 \<and> TE_TenantID trusted \<noteq> tenant
      then Some (Errorf ''workflow trusted tenant_id does not match snapshot'')
      else if TE_ConversationID trusted \<noteq> [] \<and> TE_ConversationID trusted \<noteq> WF_ConversationID w
      then Some (Errorf ''workflow trusted conversation_id does not match snapshot'')
      else (case paramAuthority tenant (TE_TrustedParams trusted) of
              Some err \<Rightarrow> Some err
            | None \<Rightarrow>
                if list_ex (\<lambda>(field, entity). Ent_TenantID entity \<noteq> tenant) (WF_TrustedEntities w)
                then Some (Errorf ''trusted entity tenant_id does not match snapshot'')
                else if list_ex (\<lambda>(field, cs). list_ex (\<lambda>c. Cand_TenantID c \<noteq> 0
                          \<and> Cand_TenantID c \<noteq> tenant) cs) (WF_Candidates w)
                then Some (Errorf ''candidate tenant_id does not match snapshot'')
                else None))"

definition validateWorkflowSnapshotIdentity :: "WorkflowSnapshot \<Rightarrow> agentError option" where
  "validateWorkflowSnapshotIdentity w =
     (if trimSpace (WF_ID w) = [] \<or> \<not> runeLengthWithin (WF_ID w) workflowSnapshotMaxWorkflowIDRunes
      then Some (Errorf ''workflow snapshot id is missing or too long'')
      else if WF_TenantID w = 0 \<or> WF_ActorUserID w = 0
      then Some (Errorf ''workflow snapshot tenant_id and actor_user_id are required'')
      else if trimSpace (WF_ConversationID w) = []
              \<or> \<not> runeLengthWithin (WF_ConversationID w) workflowSnapshotMaxConversationRunes
      then Some (Errorf ''workflow snapshot conversation_id is missing or too long'')
      else if WF_Type w \<notin> {WorkflowSubscriptionStart, WorkflowSubscriptionCancel, WorkflowManualSignCreate}
      then Some (Errorf (''unsupported workflow type '' @ WF_Type w))
      else if (case WF_State w of OtherState _ \<Rightarrow> True | _ \<Rightarrow> False)
      then Some (Errorf (''unsupported workflow state '' @ stateText (WF_State w)))
      else if WF_ExpiresAt w = 0 then Some (Errorf ''workflow snapshot expires_at is required'')
      else if list_ex (\<lambda>f. trimSpace f = [] \<or> \<not> runeLengthWithin f workflowSnapshotMaxKeyRunes)
                (workflowMissingFields w)
      then Some (Errorf ''workflow snapshot has invalid missing field'')
      else validateWorkflowSnapshotAuthority w)"

section \<open>To the schema\<close>

definition trustedParamToV1 :: "string \<times> TrustedParam \<Rightarrow> agentError + string \<times> persistedTrustedParamV1" where
  "trustedParamToV1 e =
     (case e of (key, param) \<Rightarrow>
        (case validateWorkflowMapKey key of
           Some err \<Rightarrow> Inl (Wrapped ''trusted param key'' err)
         | None \<Rightarrow>
             (case encodePersistedTypedValue (TP_Value param) of
                Inl err \<Rightarrow> Inl (Wrapped (''trusted param '' @ key) err)
              | Inr v \<Rightarrow>
                  let trimmed = trimSpace (TP_Field param);
                      field = (if trimmed = [] then key else trimmed)
                  in if field \<noteq> key
                     then Inl (Errorf (''trusted param '' @ key @ '' field mismatch '' @ field))
                     else if \<not> runeLengthWithin (Resolver (TP_Source param)) workflowSnapshotMaxIDRunes
                     then Inl (Errorf (''trusted param '' @ key @ '' resolver too long''))
                     else Inr (key, \<lparr>PT_Field = field, PT_Value = v,
                                    PT_Source = \<lparr>PS_Kind = SourceKind (TP_Source param),
                                                 PS_Resolver = Resolver (TP_Source param)\<rparr>,
                                    PT_TenantID = TP_TenantID param\<rparr>))))"

definition trustedStateToV1 :: "trustedEntities \<Rightarrow> agentError + persistedTrustedStateV1" where
  "trustedStateToV1 trusted =
     (if workflowSnapshotMaxInt64SliceItems < length (TE_DeptIDs trusted)
      then Inl (Errorf ''workflow trusted dept_ids exceed limit'')
      else if workflowSnapshotMaxTrustedParams < length (TE_TrustedParams trusted)
      then Inl (Errorf ''workflow trusted params exceed limit'')
      else (case map_result trustedParamToV1 (TE_TrustedParams trusted) of
              Inl err \<Rightarrow> Inl err
            | Inr ps \<Rightarrow>
                if \<not> runeLengthWithin (TE_UserName trusted) workflowSnapshotMaxLabelRunes
                   \<or> \<not> runeLengthWithin (TE_ConversationID trusted) workflowSnapshotMaxConversationRunes
                   \<or> \<not> runeLengthWithin (TE_Date trusted) workflowSnapshotMaxIDRunes
                   \<or> \<not> runeLengthWithin (TE_Scope trusted) workflowSnapshotMaxKeyRunes
                   \<or> \<not> runeLengthWithin (TE_QueryShape trusted) workflowSnapshotMaxKeyRunes
                then Inl (Errorf ''workflow trusted string exceeds limit'')
                else Inr \<lparr>PU_TenantID = TE_TenantID trusted, PU_DepartmentID = TE_DepartmentID trusted,
                          PU_DeptIDs = TE_DeptIDs trusted, PU_UserID = TE_UserID trusted,
                          PU_UserName = TE_UserName trusted, PU_Date = TE_Date trusted,
                          PU_Section = TE_Section trusted, PU_Week = TE_Week trusted,
                          PU_ConversationID = TE_ConversationID trusted, PU_Scope = TE_Scope trusted,
                          PU_QueryShape = TE_QueryShape trusted, PU_UserRole = TE_UserRole trusted,
                          PU_TrustedParams = ps\<rparr>))"

definition trustedEntityToV1 :: "string \<times> TrustedEntity \<Rightarrow> agentError + string \<times> persistedTrustedEntityV1" where
  "trustedEntityToV1 e =
     (case e of (key, entity) \<Rightarrow>
        (case validateWorkflowMapKey key of
           Some err \<Rightarrow> Inl (Wrapped ''trusted entity key'' err)
         | None \<Rightarrow>
             if \<not> runeLengthWithin (Ent_ID entity) workflowSnapshotMaxIDRunes
                \<or> \<not> runeLengthWithin (Ent_Type entity) workflowSnapshotMaxKeyRunes
                \<or> \<not> runeLengthWithin (Ent_Label entity) workflowSnapshotMaxLabelRunes
             then Inl (Errorf (''trusted entity '' @ key @ '' text exceeds limit''))
             else (case encodePersistedTypedValue (Ent_Value entity) of
                     Inl err \<Rightarrow> Inl (Wrapped (''trusted entity '' @ key) err)
                   | Inr v \<Rightarrow> Inr (key, \<lparr>PN_ID = Ent_ID entity, PN_Type = Ent_Type entity,
                                       PN_Label = Ent_Label entity, PN_Value = v,
                                       PN_TenantID = Ent_TenantID entity\<rparr>))))"

definition trustedEntitiesToV1 :: "TrustedEntity goMap \<Rightarrow> agentError + persistedTrustedEntityV1 goMap" where
  "trustedEntitiesToV1 entities =
     (if workflowSnapshotMaxTrustedEntities < length entities
      then Inl (Errorf ''workflow trusted entities exceed limit'')
      else map_result trustedEntityToV1 entities)"

definition candidateToV1 :: "string \<Rightarrow> Candidate \<Rightarrow> agentError + persistedCandidateV1" where
  "candidateToV1 field c =
     (if trimSpace (Cand_Label c) = [] \<or> \<not> runeLengthWithin (Cand_Label c) workflowSnapshotMaxLabelRunes
         \<or> \<not> runeLengthWithin (Cand_ID c) workflowSnapshotMaxIDRunes
      then Inl (Errorf (''candidate '' @ field @ '' has invalid id or label''))
      else (case encodePersistedTypedValue (Cand_Value c) of
              Inl err \<Rightarrow> Inl (Wrapped (''candidate '' @ field) err)
            | Inr v \<Rightarrow> Inr \<lparr>PC_ID = Cand_ID c, PC_Label = Cand_Label c, PC_Value = v,
                            PC_TenantID = Cand_TenantID c\<rparr>))"

text \<open>The loop over the fields, with the running total; a field without candidates is left out.\<close>

fun candidateFieldsToV1 ::
  "nat \<Rightarrow> Candidate list goMap \<Rightarrow> agentError + persistedCandidateV1 list goMap" where
  "candidateFieldsToV1 running [] = Inr []"
| "candidateFieldsToV1 running ((field, cs) # m) =
     (case validateWorkflowMapKey field of
        Some err \<Rightarrow> Inl (Wrapped ''candidate field'' err)
      | None \<Rightarrow>
          if workflowSnapshotMaxCandidatesPerField < length cs
          then Inl (Errorf (''candidate field '' @ field @ '' exceeds limit''))
          else if workflowSnapshotMaxCandidatesTotal < running + length cs
          then Inl (Errorf ''workflow candidates exceed total limit'')
          else (case map_result (candidateToV1 field) cs of
                  Inl err \<Rightarrow> Inl err
                | Inr persisted \<Rightarrow>
                    (case candidateFieldsToV1 (running + length cs) m of
                       Inl err \<Rightarrow> Inl err
                     | Inr rest \<Rightarrow>
                         Inr (if persisted = [] then rest else (field, persisted) # rest))))"

definition candidatesToV1 :: "Candidate list goMap \<Rightarrow> agentError + persistedCandidateV1 list goMap" where
  "candidatesToV1 candidates =
     (if workflowSnapshotMaxCandidateFields < length candidates
      then Inl (Errorf ''workflow candidate fields exceed limit'')
      else candidateFieldsToV1 0 candidates)"

definition workflowSnapshotToV1 :: "WorkflowSnapshot \<Rightarrow> agentError + persistedWorkflowSnapshotV1" where
  "workflowSnapshotToV1 w =
     (case validateWorkflowSnapshotIdentity w of
        Some err \<Rightarrow> Inl err
      | None \<Rightarrow>
          (case trustedStateToV1 (WF_Trusted w) of
             Inl err \<Rightarrow> Inl err
           | Inr trusted \<Rightarrow>
               (case trustedEntitiesToV1 (WF_TrustedEntities w) of
                  Inl err \<Rightarrow> Inl err
                | Inr entities \<Rightarrow>
                    (case candidatesToV1 (WF_Candidates w) of
                       Inl err \<Rightarrow> Inl err
                     | Inr candidates \<Rightarrow>
                         Inr \<lparr>PY_SchemaVersion = workflowSnapshotSchemaVersion, PY_ID = WF_ID w,
                              PY_TenantID = WF_TenantID w, PY_ActorUserID = WF_ActorUserID w,
                              PY_ConversationID = WF_ConversationID w, PY_WorkflowType = WF_Type w,
                              PY_WorkflowState = WF_State w, PY_Missing = workflowMissingFields w,
                              PY_Trusted = trusted, PY_TrustedEntities = entities,
                              PY_CandidateLists = candidates,
                              PY_CreatedAt = formatWorkflowTime (WF_CreatedAt w),
                              PY_UpdatedAt = formatWorkflowTime (WF_UpdatedAt w),
                              PY_ExpiresAt = formatWorkflowTime (WF_ExpiresAt w),
                              PY_Version = WF_Version w\<rparr>))))"

section \<open>From the schema\<close>

definition parseWorkflowTime :: "string \<Rightarrow> string \<Rightarrow> bool \<Rightarrow> agentError + instant" where
  "parseWorkflowTime field s allowEmpty =
     (if trimSpace s = []
      then (if allowEmpty then Inr 0
            else Inl (Errorf (''workflow snapshot '' @ field @ '' is required'')))
      else (case parseRFC3339Nano s of
              None \<Rightarrow> Inl (Errorf (''invalid workflow snapshot '' @ field))
            | Some t \<Rightarrow> Inr t))"

definition trustedParamFromV1 :: "string \<times> persistedTrustedParamV1 \<Rightarrow> agentError + string \<times> TrustedParam" where
  "trustedParamFromV1 e =
     (case e of (key, p) \<Rightarrow>
        (case validateWorkflowMapKey key of
           Some err \<Rightarrow> Inl (Wrapped ''trusted param key'' err)
         | None \<Rightarrow>
             if PT_Field p \<noteq> key
             then Inl (Errorf (''trusted param '' @ key @ '' field mismatch '' @ PT_Field p))
             else (case decodePersistedTypedValue (PT_Value p) of
                     Inl err \<Rightarrow> Inl (Wrapped (''trusted param '' @ key) err)
                   | Inr v \<Rightarrow>
                       Inr (key, \<lparr>TP_Field = key, TP_Value = v,
                                  TP_Source = \<lparr>SourceKind = PS_Kind (PT_Source p), SourceRaw = [],
                                               Resolver = PS_Resolver (PT_Source p)\<rparr>,
                                  TP_TenantID = PT_TenantID p\<rparr>))))"

definition trustedStateFromV1 :: "persistedTrustedStateV1 \<Rightarrow> agentError + trustedEntities" where
  "trustedStateFromV1 dto =
     (if workflowSnapshotMaxInt64SliceItems < length (PU_DeptIDs dto)
         \<or> workflowSnapshotMaxTrustedParams < length (PU_TrustedParams dto)
      then Inl (Errorf ''workflow trusted state exceeds limit'')
      else (case map_result trustedParamFromV1 (PU_TrustedParams dto) of
              Inl err \<Rightarrow> Inl err
            | Inr ps \<Rightarrow>
                let trusted = \<lparr>TE_TenantID = PU_TenantID dto, TE_DepartmentID = PU_DepartmentID dto,
                               TE_DeptIDs = PU_DeptIDs dto, TE_UserID = PU_UserID dto,
                               TE_UserName = PU_UserName dto, TE_Date = PU_Date dto,
                               TE_Section = PU_Section dto, TE_Week = PU_Week dto,
                               TE_ConversationID = PU_ConversationID dto, TE_Scope = PU_Scope dto,
                               TE_QueryShape = PU_QueryShape dto, TE_UserRole = PU_UserRole dto,
                               TE_TrustedParams = ps\<rparr>
                in (case trustedStateToV1 trusted of Inl err \<Rightarrow> Inl err | Inr _ \<Rightarrow> Inr trusted)))"

definition trustedEntityFromV1 :: "string \<times> persistedTrustedEntityV1 \<Rightarrow> agentError + string \<times> TrustedEntity" where
  "trustedEntityFromV1 e =
     (case e of (key, p) \<Rightarrow>
        (case validateWorkflowMapKey key of
           Some err \<Rightarrow> Inl (Wrapped ''trusted entity key'' err)
         | None \<Rightarrow>
             (case decodePersistedTypedValue (PN_Value p) of
                Inl err \<Rightarrow> Inl (Wrapped (''trusted entity '' @ key) err)
              | Inr v \<Rightarrow> Inr (key, \<lparr>Ent_ID = PN_ID p, Ent_Type = PN_Type p, Ent_Label = PN_Label p,
                                   Ent_Value = v, Ent_TenantID = PN_TenantID p\<rparr>))))"

definition trustedEntitiesFromV1 ::
  "persistedTrustedEntityV1 goMap \<Rightarrow> agentError + TrustedEntity goMap" where
  "trustedEntitiesFromV1 entities =
     (if workflowSnapshotMaxTrustedEntities < length entities
      then Inl (Errorf ''workflow trusted entities exceed limit'')
      else (case map_result trustedEntityFromV1 entities of
              Inl err \<Rightarrow> Inl err
            | Inr decoded_entities \<Rightarrow>
                (case trustedEntitiesToV1 decoded_entities of
                   Inl err \<Rightarrow> Inl err | Inr _ \<Rightarrow> Inr decoded_entities)))"

definition candidateFromV1 :: "string \<Rightarrow> persistedCandidateV1 \<Rightarrow> agentError + Candidate" where
  "candidateFromV1 field p =
     (case decodePersistedTypedValue (PC_Value p) of
        Inl err \<Rightarrow> Inl (Wrapped (''candidate '' @ field) err)
      | Inr v \<Rightarrow> Inr \<lparr>Cand_ID = PC_ID p, Cand_Label = PC_Label p, Cand_Value = v,
                      Cand_TenantID = PC_TenantID p\<rparr>)"

fun candidateFieldsFromV1 ::
  "nat \<Rightarrow> persistedCandidateV1 list goMap \<Rightarrow> agentError + Candidate list goMap" where
  "candidateFieldsFromV1 running [] = Inr []"
| "candidateFieldsFromV1 running ((field, ps) # m) =
     (if workflowSnapshotMaxCandidatesPerField < length ps
      then Inl (Errorf (''candidate field '' @ field @ '' exceeds limit''))
      else if workflowSnapshotMaxCandidatesTotal < running + length ps
      then Inl (Errorf ''workflow candidates exceed total limit'')
      else (case map_result (candidateFromV1 field) ps of
              Inl err \<Rightarrow> Inl err
            | Inr cs \<Rightarrow>
                (case candidateFieldsFromV1 (running + length ps) m of
                   Inl err \<Rightarrow> Inl err
                 | Inr rest \<Rightarrow> Inr (if cs = [] then rest else (field, cs) # rest))))"

definition candidatesFromV1 ::
  "persistedCandidateV1 list goMap \<Rightarrow> agentError + Candidate list goMap" where
  "candidatesFromV1 candidates =
     (if workflowSnapshotMaxCandidateFields < length candidates
      then Inl (Errorf ''workflow candidate fields exceed limit'')
      else (case candidateFieldsFromV1 0 candidates of
              Inl err \<Rightarrow> Inl err
            | Inr cs \<Rightarrow> (case candidatesToV1 cs of Inl err \<Rightarrow> Inl err | Inr _ \<Rightarrow> Inr cs)))"

definition workflowSnapshotFromV1 :: "persistedWorkflowSnapshotV1 \<Rightarrow> agentError + WorkflowSnapshot" where
  "workflowSnapshotFromV1 dto =
     (case parseWorkflowTime ''created_at'' (PY_CreatedAt dto) True of
        Inl err \<Rightarrow> Inl err
      | Inr createdAt \<Rightarrow>
     (case parseWorkflowTime ''updated_at'' (PY_UpdatedAt dto) True of
        Inl err \<Rightarrow> Inl err
      | Inr updatedAt \<Rightarrow>
     (case parseWorkflowTime ''expires_at'' (PY_ExpiresAt dto) False of
        Inl err \<Rightarrow> Inl err
      | Inr expiresAt \<Rightarrow>
     (case trustedStateFromV1 (PY_Trusted dto) of
        Inl err \<Rightarrow> Inl err
      | Inr trusted \<Rightarrow>
     (case trustedEntitiesFromV1 (PY_TrustedEntities dto) of
        Inl err \<Rightarrow> Inl err
      | Inr entities \<Rightarrow>
     (case candidatesFromV1 (PY_CandidateLists dto) of
        Inl err \<Rightarrow> Inl err
      | Inr candidates \<Rightarrow>
          let w = \<lparr>WF_ID = PY_ID dto, WF_TenantID = PY_TenantID dto,
                   WF_ActorUserID = PY_ActorUserID dto, WF_ConversationID = PY_ConversationID dto,
                   WF_Type = PY_WorkflowType dto, WF_State = PY_WorkflowState dto,
                   WF_MissingFields = PY_Missing dto, WF_TrustedEntities = entities,
                   WF_Candidates = candidates, WF_LastUserMessage = [], WF_CreatedAt = createdAt,
                   WF_UpdatedAt = updatedAt, WF_ExpiresAt = expiresAt, WF_Version = PY_Version dto,
                   WF_MissingSlots = PY_Missing dto, WF_Trusted = trusted\<rparr>
          in (case validateWorkflowSnapshotIdentity w of
                Some err \<Rightarrow> Inl err | None \<Rightarrow> Inr w)))))))"

section \<open>JSON\<close>

text \<open>One table per struct, in the order of its fields, and the object \<open>json.Marshal\<close> writes.\<close>

definition source_json :: "persistedParamSourceV1 \<Rightarrow> json" where
  "source_json p =
     JObj (omitempty (PS_Kind p = SourceUnset) ''kind'' (JStr (sourceText (PS_Kind p)))
       @ omitempty (PS_Resolver p = []) ''resolver'' (JStr (PS_Resolver p)))"

definition zeroSource :: persistedParamSourceV1 where
  "zeroSource =
     \<lparr>PS_Kind = SourceUnset, PS_Resolver = []\<rparr>"

definition sourceFields :: "(string \<times> persistedParamSourceV1 setter) list" where
  "sourceFields =
     [(''kind'', fieldSetter (setNamed sourceOf) PS_Kind (\<lambda>x. PS_Kind_update (\<lambda>_. x))),
      (''resolver'', fieldSetter setString PS_Resolver (\<lambda>x. PS_Resolver_update (\<lambda>_. x)))]"

definition setSource :: "persistedParamSourceV1 setter" where
  "setSource = decodeStruct sourceFields"

definition param_json :: "persistedTrustedParamV1 \<Rightarrow> json" where
  "param_json p =
     JObj ([(''field'', JStr (PT_Field p))]
       @ [(''value'', typedValue_json (PT_Value p))]
       @ [(''source'', source_json (PT_Source p))]
       @ omitempty (PT_TenantID p = 0) ''tenant_id'' (JNum (int (PT_TenantID p))))"

definition zeroParam :: persistedTrustedParamV1 where
  "zeroParam =
     \<lparr>PT_Field = [], PT_Value = zeroTypedValue, PT_Source = zeroSource, PT_TenantID = 0\<rparr>"

definition paramFields :: "(string \<times> persistedTrustedParamV1 setter) list" where
  "paramFields =
     [(''field'', fieldSetter setString PT_Field (\<lambda>x. PT_Field_update (\<lambda>_. x))),
      (''value'', fieldSetter setTypedValue PT_Value (\<lambda>x. PT_Value_update (\<lambda>_. x))),
      (''source'', fieldSetter setSource PT_Source (\<lambda>x. PT_Source_update (\<lambda>_. x))),
      (''tenant_id'', fieldSetter setUint PT_TenantID (\<lambda>x. PT_TenantID_update (\<lambda>_. x)))]"

definition setParam :: "persistedTrustedParamV1 setter" where
  "setParam = decodeStruct paramFields"

definition candidate_json :: "persistedCandidateV1 \<Rightarrow> json" where
  "candidate_json p =
     JObj (omitempty (PC_ID p = []) ''id'' (JStr (PC_ID p))
       @ [(''label'', JStr (PC_Label p))]
       @ [(''value'', typedValue_json (PC_Value p))]
       @ omitempty (PC_TenantID p = 0) ''tenant_id'' (JNum (int (PC_TenantID p))))"

definition zeroCandidate :: persistedCandidateV1 where
  "zeroCandidate =
     \<lparr>PC_ID = [], PC_Label = [], PC_Value = zeroTypedValue, PC_TenantID = 0\<rparr>"

definition candidateFields :: "(string \<times> persistedCandidateV1 setter) list" where
  "candidateFields =
     [(''id'', fieldSetter setString PC_ID (\<lambda>x. PC_ID_update (\<lambda>_. x))),
      (''label'', fieldSetter setString PC_Label (\<lambda>x. PC_Label_update (\<lambda>_. x))),
      (''value'', fieldSetter setTypedValue PC_Value (\<lambda>x. PC_Value_update (\<lambda>_. x))),
      (''tenant_id'', fieldSetter setUint PC_TenantID (\<lambda>x. PC_TenantID_update (\<lambda>_. x)))]"

definition setCandidate :: "persistedCandidateV1 setter" where
  "setCandidate = decodeStruct candidateFields"

definition entity_json :: "persistedTrustedEntityV1 \<Rightarrow> json" where
  "entity_json p =
     JObj (omitempty (PN_ID p = []) ''id'' (JStr (PN_ID p))
       @ omitempty (PN_Type p = []) ''type'' (JStr (PN_Type p))
       @ omitempty (PN_Label p = []) ''label'' (JStr (PN_Label p))
       @ [(''value'', typedValue_json (PN_Value p))]
       @ omitempty (PN_TenantID p = 0) ''tenant_id'' (JNum (int (PN_TenantID p))))"

definition zeroEntity :: persistedTrustedEntityV1 where
  "zeroEntity =
     \<lparr>PN_ID = [], PN_Type = [], PN_Label = [], PN_Value = zeroTypedValue, PN_TenantID = 0\<rparr>"

definition entityFields :: "(string \<times> persistedTrustedEntityV1 setter) list" where
  "entityFields =
     [(''id'', fieldSetter setString PN_ID (\<lambda>x. PN_ID_update (\<lambda>_. x))),
      (''type'', fieldSetter setString PN_Type (\<lambda>x. PN_Type_update (\<lambda>_. x))),
      (''label'', fieldSetter setString PN_Label (\<lambda>x. PN_Label_update (\<lambda>_. x))),
      (''value'', fieldSetter setTypedValue PN_Value (\<lambda>x. PN_Value_update (\<lambda>_. x))),
      (''tenant_id'', fieldSetter setUint PN_TenantID (\<lambda>x. PN_TenantID_update (\<lambda>_. x)))]"

definition setEntity :: "persistedTrustedEntityV1 setter" where
  "setEntity = decodeStruct entityFields"

definition state_json :: "persistedTrustedStateV1 \<Rightarrow> json" where
  "state_json p =
     JObj (omitempty (PU_TenantID p = 0) ''tenant_id'' (JNum (int (PU_TenantID p)))
       @ omitempty (PU_DepartmentID p = 0) ''department_id'' (JNum (PU_DepartmentID p))
       @ omitempty (PU_DeptIDs p = []) ''dept_ids'' (JArr (map JNum (PU_DeptIDs p)))
       @ omitempty (PU_UserID p = 0) ''user_id'' (JNum (int (PU_UserID p)))
       @ omitempty (PU_UserName p = []) ''user_name'' (JStr (PU_UserName p))
       @ omitempty (PU_Date p = []) ''date'' (JStr (PU_Date p))
       @ omitempty (PU_Section p = 0) ''section'' (JNum (PU_Section p))
       @ omitempty (PU_Week p = 0) ''week'' (JNum (PU_Week p))
       @ omitempty (PU_ConversationID p = []) ''conversation_id'' (JStr (PU_ConversationID p))
       @ omitempty (PU_Scope p = []) ''scope'' (JStr (PU_Scope p))
       @ omitempty (PU_QueryShape p = []) ''query_shape'' (JStr (PU_QueryShape p))
       @ omitempty (PU_UserRole p = 0) ''user_role'' (JNum (PU_UserRole p))
       @ omitempty (PU_TrustedParams p = []) ''trusted_params'' (map_json param_json (PU_TrustedParams p)))"

definition zeroState :: persistedTrustedStateV1 where
  "zeroState =
     \<lparr>PU_TenantID = 0, PU_DepartmentID = 0, PU_DeptIDs = [], PU_UserID = 0, PU_UserName = [], PU_Date = [], PU_Section = 0, PU_Week = 0, PU_ConversationID = [], PU_Scope = [], PU_QueryShape = [], PU_UserRole = 0, PU_TrustedParams = []\<rparr>"

definition stateFields :: "(string \<times> persistedTrustedStateV1 setter) list" where
  "stateFields =
     [(''tenant_id'', fieldSetter setUint PU_TenantID (\<lambda>x. PU_TenantID_update (\<lambda>_. x))),
      (''department_id'', fieldSetter setInt64 PU_DepartmentID (\<lambda>x. PU_DepartmentID_update (\<lambda>_. x))),
      (''dept_ids'', fieldSetter (decodeSlice setInt64 0) PU_DeptIDs (\<lambda>x. PU_DeptIDs_update (\<lambda>_. x))),
      (''user_id'', fieldSetter setUint PU_UserID (\<lambda>x. PU_UserID_update (\<lambda>_. x))),
      (''user_name'', fieldSetter setString PU_UserName (\<lambda>x. PU_UserName_update (\<lambda>_. x))),
      (''date'', fieldSetter setString PU_Date (\<lambda>x. PU_Date_update (\<lambda>_. x))),
      (''section'', fieldSetter setInt64 PU_Section (\<lambda>x. PU_Section_update (\<lambda>_. x))),
      (''week'', fieldSetter setInt64 PU_Week (\<lambda>x. PU_Week_update (\<lambda>_. x))),
      (''conversation_id'', fieldSetter setString PU_ConversationID (\<lambda>x. PU_ConversationID_update (\<lambda>_. x))),
      (''scope'', fieldSetter setString PU_Scope (\<lambda>x. PU_Scope_update (\<lambda>_. x))),
      (''query_shape'', fieldSetter setString PU_QueryShape (\<lambda>x. PU_QueryShape_update (\<lambda>_. x))),
      (''user_role'', fieldSetter setInt64 PU_UserRole (\<lambda>x. PU_UserRole_update (\<lambda>_. x))),
      (''trusted_params'', fieldSetter (decodeMap setParam zeroParam) PU_TrustedParams (\<lambda>x. PU_TrustedParams_update (\<lambda>_. x)))]"

definition setState :: "persistedTrustedStateV1 setter" where
  "setState = decodeStruct stateFields"

definition snapshot_json :: "persistedWorkflowSnapshotV1 \<Rightarrow> json" where
  "snapshot_json p =
     JObj ([(''schema_version'', JNum (PY_SchemaVersion p))]
       @ [(''id'', JStr (PY_ID p))]
       @ [(''tenant_id'', JNum (int (PY_TenantID p)))]
       @ [(''actor_user_id'', JNum (int (PY_ActorUserID p)))]
       @ [(''conversation_id'', JStr (PY_ConversationID p))]
       @ [(''type'', JStr (PY_WorkflowType p))]
       @ [(''state'', JStr (stateText (PY_WorkflowState p)))]
       @ omitempty (PY_Missing p = []) ''missing_fields'' (JArr (map JStr (PY_Missing p)))
       @ [(''trusted'', state_json (PY_Trusted p))]
       @ omitempty (PY_TrustedEntities p = []) ''trusted_entities'' (map_json entity_json (PY_TrustedEntities p))
       @ omitempty (PY_CandidateLists p = []) ''candidates'' (map_json (\<lambda>cs. JArr (map candidate_json cs)) (PY_CandidateLists p))
       @ omitempty (PY_CreatedAt p = []) ''created_at'' (JStr (PY_CreatedAt p))
       @ omitempty (PY_UpdatedAt p = []) ''updated_at'' (JStr (PY_UpdatedAt p))
       @ [(''expires_at'', JStr (PY_ExpiresAt p))]
       @ [(''version'', JNum (uint (PY_Version p)))])"

definition zeroSnapshot :: persistedWorkflowSnapshotV1 where
  "zeroSnapshot =
     \<lparr>PY_SchemaVersion = 0, PY_ID = [], PY_TenantID = 0, PY_ActorUserID = 0, PY_ConversationID = [], PY_WorkflowType = [], PY_WorkflowState = OtherState [], PY_Missing = [], PY_Trusted = zeroState, PY_TrustedEntities = [], PY_CandidateLists = [], PY_CreatedAt = [], PY_UpdatedAt = [], PY_ExpiresAt = [], PY_Version = 0\<rparr>"

definition snapshotFields :: "(string \<times> persistedWorkflowSnapshotV1 setter) list" where
  "snapshotFields =
     [(''schema_version'', fieldSetter setInt64 PY_SchemaVersion (\<lambda>x. PY_SchemaVersion_update (\<lambda>_. x))),
      (''id'', fieldSetter setString PY_ID (\<lambda>x. PY_ID_update (\<lambda>_. x))),
      (''tenant_id'', fieldSetter setUint PY_TenantID (\<lambda>x. PY_TenantID_update (\<lambda>_. x))),
      (''actor_user_id'', fieldSetter setUint PY_ActorUserID (\<lambda>x. PY_ActorUserID_update (\<lambda>_. x))),
      (''conversation_id'', fieldSetter setString PY_ConversationID (\<lambda>x. PY_ConversationID_update (\<lambda>_. x))),
      (''type'', fieldSetter setString PY_WorkflowType (\<lambda>x. PY_WorkflowType_update (\<lambda>_. x))),
      (''state'', fieldSetter (setNamed stateOf) PY_WorkflowState (\<lambda>x. PY_WorkflowState_update (\<lambda>_. x))),
      (''missing_fields'', fieldSetter (decodeSlice setString []) PY_Missing (\<lambda>x. PY_Missing_update (\<lambda>_. x))),
      (''trusted'', fieldSetter setState PY_Trusted (\<lambda>x. PY_Trusted_update (\<lambda>_. x))),
      (''trusted_entities'', fieldSetter (decodeMap setEntity zeroEntity) PY_TrustedEntities (\<lambda>x. PY_TrustedEntities_update (\<lambda>_. x))),
      (''candidates'', fieldSetter (decodeMap (decodeSlice setCandidate zeroCandidate) []) PY_CandidateLists (\<lambda>x. PY_CandidateLists_update (\<lambda>_. x))),
      (''created_at'', fieldSetter setString PY_CreatedAt (\<lambda>x. PY_CreatedAt_update (\<lambda>_. x))),
      (''updated_at'', fieldSetter setString PY_UpdatedAt (\<lambda>x. PY_UpdatedAt_update (\<lambda>_. x))),
      (''expires_at'', fieldSetter setString PY_ExpiresAt (\<lambda>x. PY_ExpiresAt_update (\<lambda>_. x))),
      (''version'', fieldSetter setWord64 PY_Version (\<lambda>x. PY_Version_update (\<lambda>_. x)))]"

section \<open>Marshalling\<close>

definition MarshalWorkflowSnapshot :: "WorkflowSnapshot option \<Rightarrow> agentError + string" where
  "MarshalWorkflowSnapshot snapshot =
     (case snapshot of
        None \<Rightarrow> Inl (Errorf ''workflow snapshot is nil'')
      | Some w \<Rightarrow>
          (case workflowSnapshotToV1 w of
             Inl err \<Rightarrow> Inl err
           | Inr dto \<Rightarrow>
               let payload = print_json (snapshot_json dto)
               in if workflowSnapshotMaxBytes < length payload
                  then Inl (Errorf ''workflow snapshot exceeds 65536 bytes'') else Inr payload))"

definition UnmarshalWorkflowSnapshot :: "string \<Rightarrow> agentError + WorkflowSnapshot" where
  "UnmarshalWorkflowSnapshot payload =
     (if payload = [] then Inl (Errorf ''workflow snapshot payload is empty'')
      else if workflowSnapshotMaxBytes < length payload
      then Inl (Errorf ''workflow snapshot exceeds 65536 bytes'')
      else (case decodeStrictWorkflowJSON snapshotFields zeroSnapshot payload of
              None \<Rightarrow> Inl (Errorf ''decode workflow snapshot v1'')
            | Some dto \<Rightarrow>
                if PY_SchemaVersion dto \<noteq> workflowSnapshotSchemaVersion
                then Inl (Errorf (''unsupported workflow snapshot schema version ''
                                  @ itoa (PY_SchemaVersion dto)))
                else workflowSnapshotFromV1 dto))"

text \<open>\<open>WorkflowSnapshotHash\<close>: the version and the times are left out of the hash.\<close>

definition WorkflowSnapshotHash :: "WorkflowSnapshot option \<Rightarrow> agentError + string" where
  "WorkflowSnapshotHash snapshot =
     (case snapshot of
        None \<Rightarrow> Inl (Errorf ''workflow snapshot is nil'')
      | Some w \<Rightarrow>
          (case workflowSnapshotToV1 w of
             Inl err \<Rightarrow> Inl err
           | Inr dto \<Rightarrow>
               let payload = print_json (snapshot_json (dto\<lparr>PY_Version := 0, PY_CreatedAt := [],
                               PY_UpdatedAt := [], PY_ExpiresAt := []\<rparr>))
               in if workflowSnapshotMaxBytes < length payload
                  then Inl (Errorf ''workflow snapshot exceeds 65536 bytes'')
                  else Inr (hexEncode (sha256 payload))))"

end
