(* ===== verification/SnapshotRoundTrip.thy ===== *)
theory SnapshotRoundTrip
  imports SnapshotCodec
begin

text \<open>
  What \<open>UnmarshalWorkflowSnapshot\<close> makes of the bytes \<open>MarshalWorkflowSnapshot\<close> wrote
  (src/internal/agent/workflow\_snapshot\_codec.go). Each struct of the schema has a lemma that
  reads its object back; maps and slices of them follow from the generic lemmas of
  \<open>StrictJson\<close>. \<open>snapshot_ok\<close> holds the machine bounds of the integers, and \<open>storedSnapshot\<close> is
  the form the property speaks of.
\<close>

section \<open>Reading back\<close>

lemma omit_step:
  assumes "decodeMember t (n, v) acc = acc'" and "isZero \<Longrightarrow> acc' = acc"
  shows "fold (decodeMember t) (omitempty isZero n v @ rest) acc = fold (decodeMember t) rest acc'"
    and "fold (decodeMember t) (omitempty isZero n v) acc = acc'"
  using assms by (auto simp: omitempty_def)

lemma schema_names [simp]:
  "plainName ''tenant_id''" "plainName ''department_id''" "plainName ''dept_ids''" "plainName ''user_id''"
  "plainName ''user_name''" "plainName ''date''" "plainName ''section''" "plainName ''week''"
  "plainName ''conversation_id''" "plainName ''scope''" "plainName ''query_shape''"
  "plainName ''user_role''" "plainName ''resolver''" "plainName ''field''" "plainName ''source''"
  "plainName ''id''" "plainName ''label''" "plainName ''type''" "plainName ''actor_user_id''"
  "plainName ''state''" "plainName ''missing_fields''" "plainName ''trusted''"
  "plainName ''trusted_entities''" "plainName ''candidates''" "plainName ''created_at''"
  "plainName ''updated_at''" "plainName ''expires_at''" "plainName ''version''"
  by (simp_all add: plainName_def)

lemma state_member:
  "decodeMember stateFields (''tenant_id'', v) (s, err) =
     (case setUint v (PU_TenantID s) of (x, e) \<Rightarrow> (s\<lparr>PU_TenantID := x\<rparr>, err \<or> e))"
  "decodeMember stateFields (''department_id'', v) (s, err) =
     (case setInt64 v (PU_DepartmentID s) of (x, e) \<Rightarrow> (s\<lparr>PU_DepartmentID := x\<rparr>, err \<or> e))"
  "decodeMember stateFields (''dept_ids'', v) (s, err) =
     (case decodeSlice setInt64 0 v (PU_DeptIDs s) of (x, e) \<Rightarrow> (s\<lparr>PU_DeptIDs := x\<rparr>, err \<or> e))"
  "decodeMember stateFields (''user_id'', v) (s, err) =
     (case setUint v (PU_UserID s) of (x, e) \<Rightarrow> (s\<lparr>PU_UserID := x\<rparr>, err \<or> e))"
  "decodeMember stateFields (''user_name'', v) (s, err) =
     (case setString v (PU_UserName s) of (x, e) \<Rightarrow> (s\<lparr>PU_UserName := x\<rparr>, err \<or> e))"
  "decodeMember stateFields (''date'', v) (s, err) =
     (case setString v (PU_Date s) of (x, e) \<Rightarrow> (s\<lparr>PU_Date := x\<rparr>, err \<or> e))"
  "decodeMember stateFields (''section'', v) (s, err) =
     (case setInt64 v (PU_Section s) of (x, e) \<Rightarrow> (s\<lparr>PU_Section := x\<rparr>, err \<or> e))"
  "decodeMember stateFields (''week'', v) (s, err) =
     (case setInt64 v (PU_Week s) of (x, e) \<Rightarrow> (s\<lparr>PU_Week := x\<rparr>, err \<or> e))"
  "decodeMember stateFields (''conversation_id'', v) (s, err) =
     (case setString v (PU_ConversationID s) of (x, e) \<Rightarrow> (s\<lparr>PU_ConversationID := x\<rparr>, err \<or> e))"
  "decodeMember stateFields (''scope'', v) (s, err) =
     (case setString v (PU_Scope s) of (x, e) \<Rightarrow> (s\<lparr>PU_Scope := x\<rparr>, err \<or> e))"
  "decodeMember stateFields (''query_shape'', v) (s, err) =
     (case setString v (PU_QueryShape s) of (x, e) \<Rightarrow> (s\<lparr>PU_QueryShape := x\<rparr>, err \<or> e))"
  "decodeMember stateFields (''user_role'', v) (s, err) =
     (case setInt64 v (PU_UserRole s) of (x, e) \<Rightarrow> (s\<lparr>PU_UserRole := x\<rparr>, err \<or> e))"
  "decodeMember stateFields (''trusted_params'', v) (s, err) =
     (case decodeMap setParam zeroParam v (PU_TrustedParams s) of (x, e) \<Rightarrow> (s\<lparr>PU_TrustedParams := x\<rparr>, err \<or> e))"
  by (simp_all add: stateFields_def decodeMember_def fieldSetter_def split: prod.split)

definition int64 :: "int \<Rightarrow> bool" where "int64 n \<longleftrightarrow> minInt64 \<le> n \<and> n \<le> maxInt64"

lemma set_int64: "int64 n \<Longrightarrow> setInt64 (JNum n) old = (n, False)"
  by (simp add: int64_def)

lemma read_state:
  assumes "int a \<le> maxUint64" "int64 b" "list_all int64 c" "int d \<le> maxUint64" "int64 g" "int64 h" "int64 l"
    and "decodeMap setParam zeroParam (map_json param_json m) [] = (m', False)" and "m = [] \<Longrightarrow> m' = []"
  shows "setState (state_json \<lparr>PU_TenantID = a, PU_DepartmentID = b, PU_DeptIDs = c, PU_UserID = d,
           PU_UserName = e, PU_Date = f, PU_Section = g, PU_Week = h, PU_ConversationID = i, PU_Scope = j,
           PU_QueryShape = k, PU_UserRole = l, PU_TrustedParams = m\<rparr>) zeroState
         = (\<lparr>PU_TenantID = a, PU_DepartmentID = b, PU_DeptIDs = c, PU_UserID = d,
           PU_UserName = e, PU_Date = f, PU_Section = g, PU_Week = h, PU_ConversationID = i, PU_Scope = j,
           PU_QueryShape = k, PU_UserRole = l, PU_TrustedParams = m'\<rparr>, False)"
proof -
  have slice: "decodeSlice setInt64 0 (JArr (map JNum c)) [] = (c, False)"
    using assms(3) by (intro setInt64_slice) (auto simp: list_all_iff int64_def)
  have "decodeMap setParam zeroParam (map_json param_json m) [] = ([], False)" if "m = []"
    using assms(8,9) that by simp
  note reads = assms(1,2,4-7) slice set_int64
  show ?thesis
    unfolding setState_def state_json_def decodeStruct_JObj zeroState_def
      persistedTrustedStateV1.simps
    by ((rule trans [OF omit_step(1)], (simp add: state_member reads; fail), (simp; fail))+,
        rule omit_step(2), (simp add: state_member assms(8); fail), simp add: assms(9))
qed

lemma sourceOf_text: "knownTrustedParamSourceKind k \<Longrightarrow> sourceOf (sourceText k) = k"
  by (cases k) (auto simp: knownTrustedParamSourceKind_def sourceOf_def)

lemma sourceText_valid: "knownTrustedParamSourceKind k \<Longrightarrow> validString (sourceText k)"
  by (cases k) (auto simp: knownTrustedParamSourceKind_def ascii_def)

lemma stateOf_text: "(\<forall>s. st \<noteq> OtherState s) \<Longrightarrow> stateOf (stateText st) = st"
  by (cases st) (auto simp: stateOf_def)

lemma stateText_valid: "(\<forall>s. st \<noteq> OtherState s) \<Longrightarrow> validString (stateText st)"
  by (cases st) (auto simp: ascii_def)

lemma read_source:
  assumes "knownTrustedParamSourceKind k"
  shows "setSource (source_json \<lparr>PS_Kind = k, PS_Resolver = r\<rparr>) zeroSource
         = (\<lparr>PS_Kind = k, PS_Resolver = r\<rparr>, False)"
proof -
  have "k \<noteq> SourceUnset" using assms by (auto simp: knownTrustedParamSourceKind_def)
  with sourceOf_text [OF assms] show ?thesis
    by (simp add: setSource_def source_json_def zeroSource_def sourceFields_def omitempty_def
        decodeMember_def fieldSetter_def)
qed

lemma read_param:
  assumes "setTypedValue (typedValue_json v) zeroTypedValue = (v, False)"
    and "knownTrustedParamSourceKind k" and "int t \<le> maxUint64"
  shows "setParam (param_json \<lparr>PT_Field = f, PT_Value = v, PT_Source = \<lparr>PS_Kind = k, PS_Resolver = r\<rparr>,
           PT_TenantID = t\<rparr>) zeroParam
         = (\<lparr>PT_Field = f, PT_Value = v, PT_Source = \<lparr>PS_Kind = k, PS_Resolver = r\<rparr>,
           PT_TenantID = t\<rparr>, False)"
  using assms read_source [OF assms(2)]
  by (cases "t = 0") (simp_all add: setParam_def param_json_def zeroParam_def paramFields_def
      omitempty_def decodeMember_def fieldSetter_def)

lemma read_candidate:
  assumes "setTypedValue (typedValue_json v) zeroTypedValue = (v, False)" and "int t \<le> maxUint64"
  shows "setCandidate (candidate_json \<lparr>PC_ID = i, PC_Label = l, PC_Value = v, PC_TenantID = t\<rparr>) zeroCandidate
         = (\<lparr>PC_ID = i, PC_Label = l, PC_Value = v, PC_TenantID = t\<rparr>, False)"
  using assms
  by (cases "t = 0"; cases "i = []") (simp_all add: setCandidate_def candidate_json_def
      zeroCandidate_def candidateFields_def omitempty_def decodeMember_def fieldSetter_def)

lemma read_entity:
  assumes "setTypedValue (typedValue_json v) zeroTypedValue = (v, False)" and "int t \<le> maxUint64"
  shows "setEntity (entity_json \<lparr>PN_ID = i, PN_Type = y, PN_Label = l, PN_Value = v, PN_TenantID = t\<rparr>)
           zeroEntity
         = (\<lparr>PN_ID = i, PN_Type = y, PN_Label = l, PN_Value = v, PN_TenantID = t\<rparr>, False)"
  using assms
  by (cases "t = 0"; cases "i = []"; cases "y = []"; cases "l = []")
    (simp_all add: setEntity_def entity_json_def zeroEntity_def entityFields_def omitempty_def
      decodeMember_def fieldSetter_def)

section \<open>Maps of encoded elements\<close>

lemma map_result_each: "map_result f xs = Inr ys \<Longrightarrow> x \<in> set xs \<Longrightarrow> \<exists>y. f x = Inr y"
  by (induction xs arbitrary: ys) (auto split: sum.splits)

text \<open>What holds of each element of a map that is encoded element by element.\<close>

lemma map_codec:
  assumes "map_result toV1 m = Inr m'"
    and "\<And>k x e. (k, x) \<in> set m \<Longrightarrow> toV1 (k, x) = Inr e \<Longrightarrow> \<exists>q. e = (k, q) \<and> P k x q"
  shows "\<exists>enc. m' = map (\<lambda>(k, x). (k, enc k x)) m \<and> (\<forall>(k, x) \<in> set m. P k x (enc k x))"
proof -
  let ?enc = "\<lambda>k x. snd (projr (toV1 (k, x)))"
  have each: "\<exists>q. toV1 (k, x) = Inr (k, q) \<and> P k x q" if mem: "(k, x) \<in> set m" for k x
  proof -
    obtain e where e: "toV1 (k, x) = Inr e" using map_result_each [OF assms(1) mem] by blast
    with assms(2) [OF mem e] show ?thesis by auto
  qed
  have "map_result toV1 m = Inr (map (\<lambda>(k, x). (k, ?enc k x)) m)"
    using map_result_maps [of m toV1 "\<lambda>e. e" "\<lambda>(k, x). (k, ?enc k x)"] each by fastforce
  then have "m' = map (\<lambda>(k, x). (k, ?enc k x)) m" using assms(1) by simp
  moreover have "\<forall>(k, x) \<in> set m. P k x (?enc k x)" using each by fastforce
  ultimately show ?thesis by (intro exI [of _ ?enc] conjI)
qed

text \<open>A map whose elements survive, survives, in key order.\<close>

lemma map_codec_round:
  assumes "map_result toV1 m = Inr m'" and "goMap_ok m"
    and "\<And>k x e. (k, x) \<in> set m \<Longrightarrow> toV1 (k, x) = Inr e \<Longrightarrow>
      \<exists>q. e = (k, q) \<and> validString k \<and> valid_json (enc_json q) \<and> dec (enc_json q) zero = (q, False)
         \<and> fromV1 (k, q) = Inr (k, stored k x) \<and> toV1 (k, stored k x) = Inr (k, q)"
  shows "valid_json (map_json enc_json m')" and "decodeMap dec zero (map_json enc_json m') [] = (sortedMap m', False)"
    and "map_result fromV1 (sortedMap m') = Inr (map (\<lambda>(k, x). (k, stored k x)) (sortedMap m))"
    and "map_result toV1 (map (\<lambda>(k, x). (k, stored k x)) (sortedMap m)) = Inr (sortedMap m')"
    and "length m' = length m"
proof -
  obtain enc where m': "m' = map (\<lambda>(k, x). (k, enc k x)) m"
    and each: "\<forall>(k, x) \<in> set m. validString k \<and> valid_json (enc_json (enc k x))
      \<and> dec (enc_json (enc k x)) zero = (enc k x, False)
      \<and> fromV1 (k, enc k x) = Inr (k, stored k x) \<and> toV1 (k, stored k x) = Inr (k, enc k x)"
    using map_codec [OF assms(1), where P = "\<lambda>k x q. validString k \<and> valid_json (enc_json q)
      \<and> dec (enc_json q) zero = (q, False) \<and> fromV1 (k, q) = Inr (k, stored k x)
      \<and> toV1 (k, stored k x) = Inr (k, q)"] assms(3) by blast
  show "valid_json (map_json enc_json m')"
    by (rule valid_map_json) (use each m' in auto)
  show "decodeMap dec zero (map_json enc_json m') [] = (sortedMap m', False)"
    by (rule decodeMap_map_json) (use each m' goMap_ok_map [OF assms(2)] in auto)
  show "map_result fromV1 (sortedMap m') = Inr (map (\<lambda>(k, x). (k, stored k x)) (sortedMap m))"
    unfolding m' sortedMap_map by (rule map_result_maps) (use each in auto)
  show "map_result toV1 (map (\<lambda>(k, x). (k, stored k x)) (sortedMap m)) = Inr (sortedMap m')"
    unfolding m' sortedMap_map by (rule map_result_maps) (use each in auto)
  show "length m' = length m" by (simp add: m')
qed

definition storedParam :: "string \<Rightarrow> TrustedParam \<Rightarrow> TrustedParam" where
  "storedParam k p = p\<lparr>TP_Field := k, TP_Source := (TP_Source p)\<lparr>SourceRaw := []\<rparr>\<rparr>"

lemma param_codec:
  assumes "trustedParamToV1 (k, p) = Inr e" and "goAny_ok (TP_Value p)" and "int (TP_TenantID p) \<le> maxUint64"
    and "knownTrustedParamSourceKind (SourceKind (TP_Source p))" and "trimSpace k = k"
  shows "\<exists>q. e = (k, q) \<and> validString k \<and> valid_json (param_json q) \<and> setParam (param_json q) zeroParam = (q, False)
    \<and> trustedParamFromV1 (k, q) = Inr (k, storedParam k p)
    \<and> trustedParamToV1 (k, storedParam k p) = Inr (k, q)"
proof -
  obtain v where v: "encodePersistedTypedValue (TP_Value p) = Inr v"
    and key: "validateWorkflowMapKey k = None"
    and resolver: "runeLengthWithin (Resolver (TP_Source p)) workflowSnapshotMaxIDRunes"
    and e: "e = (k, \<lparr>PT_Field = k, PT_Value = v, PT_Source = \<lparr>PS_Kind = SourceKind (TP_Source p),
        PS_Resolver = Resolver (TP_Source p)\<rparr>, PT_TenantID = TP_TenantID p\<rparr>)"
    using assms(1)
    by (auto simp: trustedParamToV1_def Let_def split: option.splits sum.splits if_splits)
  have names: "validString k" "validString (Resolver (TP_Source p))"
    using key resolver by (auto simp: validateWorkflowMapKey_def runeLengthWithin_def split: if_splits)
  note typed = encode_value_valid [OF v] typed_value_round_trip [OF v assms(2)]
  show ?thesis
  proof (intro exI conjI)
    show "e = (k, snd e)" by (simp add: e)
    show "valid_json (param_json (snd e))"
      using typed names sourceText_valid [OF assms(4)]
      by (simp add: e param_json_def source_json_def omitempty_def)
    show "setParam (param_json (snd e)) zeroParam = (snd e, False)"
      unfolding e snd_conv by (rule read_param [OF typed(2) assms(4,3)])
    show "trustedParamFromV1 (k, snd e) = Inr (k, storedParam k p)"
      using typed(3) key by (cases p; cases "TP_Source p") (simp add: e trustedParamFromV1_def storedParam_def)
    show "trustedParamToV1 (k, storedParam k p) = Inr (k, snd e)"
      using v key resolver assms(5) by (simp add: e trustedParamToV1_def storedParam_def)
  qed (rule names)
qed

lemma entity_codec:
  assumes "trustedEntityToV1 (k, x) = Inr e" and "goAny_ok (Ent_Value x)" and "int (Ent_TenantID x) \<le> maxUint64"
  shows "\<exists>q. e = (k, q) \<and> validString k \<and> valid_json (entity_json q) \<and> setEntity (entity_json q) zeroEntity = (q, False)
    \<and> trustedEntityFromV1 (k, q) = Inr (k, x) \<and> trustedEntityToV1 (k, x) = Inr (k, q)"
proof -
  obtain v where v: "encodePersistedTypedValue (Ent_Value x) = Inr v"
    and key: "validateWorkflowMapKey k = None"
    and texts: "validString (Ent_ID x)" "validString (Ent_Type x)" "validString (Ent_Label x)"
    and e: "e = (k, \<lparr>PN_ID = Ent_ID x, PN_Type = Ent_Type x, PN_Label = Ent_Label x, PN_Value = v,
        PN_TenantID = Ent_TenantID x\<rparr>)"
    using assms(1)
    by (auto simp: trustedEntityToV1_def runeLengthWithin_def split: option.splits sum.splits if_splits)
  have name: "validString k"
    using key by (auto simp: validateWorkflowMapKey_def runeLengthWithin_def split: if_splits)
  note typed = encode_value_valid [OF v] typed_value_round_trip [OF v assms(2)]
  show ?thesis
  proof (intro exI conjI)
    show "e = (k, snd e)" by (simp add: e)
    show "valid_json (entity_json (snd e))"
      using typed texts by (simp add: e entity_json_def omitempty_def)
    show "setEntity (entity_json (snd e)) zeroEntity = (snd e, False)"
      unfolding e snd_conv by (rule read_entity [OF typed(2) assms(3)])
    show "trustedEntityFromV1 (k, snd e) = Inr (k, x)"
      using typed(3) key by (cases x) (simp add: e trustedEntityFromV1_def)
    show "trustedEntityToV1 (k, x) = Inr (k, snd e)" using assms(1) by (simp add: e)
  qed (rule name)
qed

section \<open>Candidates\<close>

definition candidateOk :: "Candidate \<Rightarrow> bool" where
  "candidateOk c \<longleftrightarrow>
     trimSpace (Cand_Label c) \<noteq> [] \<and> runeLengthWithin (Cand_Label c) workflowSnapshotMaxLabelRunes
     \<and> runeLengthWithin (Cand_ID c) workflowSnapshotMaxIDRunes
     \<and> \<not> isl (encodePersistedTypedValue (Cand_Value c))"

definition persistedCandidate :: "Candidate \<Rightarrow> persistedCandidateV1" where
  "persistedCandidate c =
     \<lparr>PC_ID = Cand_ID c, PC_Label = Cand_Label c,
      PC_Value = projr (encodePersistedTypedValue (Cand_Value c)), PC_TenantID = Cand_TenantID c\<rparr>"

lemma candidateToV1_iff:
  "candidateToV1 field c = Inr q \<longleftrightarrow> candidateOk c \<and> q = persistedCandidate c"
  by (auto simp: candidateToV1_def candidateOk_def persistedCandidate_def split: sum.splits)

lemma candidatesToV1_map_iff:
  "map_result (candidateToV1 field) cs = Inr qs \<longleftrightarrow>
     list_all candidateOk cs \<and> qs = map persistedCandidate cs"
proof -
  have "list_all2 (\<lambda>c q. candidateOk c \<and> q = persistedCandidate c) cs qs \<longleftrightarrow>
      list_all candidateOk cs \<and> qs = map persistedCandidate cs"
    by (induction cs arbitrary: qs) (auto simp: list_all2_Cons1)
  then show ?thesis by (simp add: map_result_Inr_iff candidateToV1_iff)
qed

definition candidateFieldOk :: "string \<times> Candidate list \<Rightarrow> bool" where
  "candidateFieldOk e \<longleftrightarrow>
     validateWorkflowMapKey (fst e) = None \<and> length (snd e) \<le> workflowSnapshotMaxCandidatesPerField
     \<and> list_all candidateOk (snd e)"

definition candidateCount :: "Candidate list goMap \<Rightarrow> nat" where
  "candidateCount m = sum_list (map (\<lambda>e. length (snd e)) m)"

abbreviation nonEmptyFields :: "Candidate list goMap \<Rightarrow> Candidate list goMap" where
  "nonEmptyFields m \<equiv> filter (\<lambda>e. snd e \<noteq> []) m"

abbreviation persistedFields :: "Candidate list goMap \<Rightarrow> persistedCandidateV1 list goMap" where
  "persistedFields m \<equiv> map (\<lambda>(k, cs). (k, map persistedCandidate cs)) m"

lemma candidateFieldsToV1_Cons:
  "candidateFieldsToV1 running ((field, cs) # m) = Inr m' \<longleftrightarrow>
     candidateFieldOk (field, cs) \<and> running + length cs \<le> workflowSnapshotMaxCandidatesTotal
     \<and> (\<exists>rest. candidateFieldsToV1 (running + length cs) m = Inr rest
           \<and> m' = (if cs = [] then rest else (field, map persistedCandidate cs) # rest))"
proof (cases "map_result (candidateToV1 field) cs")
  case (Inl err)
  then have "\<not> list_all candidateOk cs"
    using candidatesToV1_map_iff [of field cs "map persistedCandidate cs"] by auto
  with Inl show ?thesis by (auto simp: candidateFieldOk_def split: option.splits if_splits)
next
  case (Inr qs)
  then have "list_all candidateOk cs" "qs = map persistedCandidate cs"
    using candidatesToV1_map_iff [of field cs qs] by auto
  with Inr show ?thesis
    by (cases "candidateFieldsToV1 (running + length cs) m")
      (auto simp: candidateFieldOk_def split: option.splits if_splits)
qed

lemma candidateFieldsToV1_iff:
  assumes "running \<le> workflowSnapshotMaxCandidatesTotal"
  shows "candidateFieldsToV1 running m = Inr m' \<longleftrightarrow>
     list_all candidateFieldOk m \<and> running + candidateCount m \<le> workflowSnapshotMaxCandidatesTotal
     \<and> m' = persistedFields (nonEmptyFields m)"
  using assms
proof (induction m arbitrary: running m')
  case Nil
  then show ?case by (auto simp: candidateCount_def)
next
  case (Cons e m)
  obtain field cs where e: "e = (field, cs)" by (cases e)
  show ?case
  proof (cases "running + length cs \<le> workflowSnapshotMaxCandidatesTotal")
    case True
    show ?thesis
      unfolding e candidateFieldsToV1_Cons Cons.IH [OF True]
      by (auto simp: candidateCount_def add.assoc)
  next
    case False
    then show ?thesis unfolding e candidateFieldsToV1_Cons by (simp add: candidateCount_def)
  qed
qed

lemma candidateFromV1_persisted:
  assumes "candidateOk c" and "goAny_ok (Cand_Value c)"
  shows "candidateFromV1 field (persistedCandidate c) = Inr c"
proof -
  obtain v where v: "encodePersistedTypedValue (Cand_Value c) = Inr v"
    using assms(1) by (cases "encodePersistedTypedValue (Cand_Value c)") (auto simp: candidateOk_def)
  from typed_value_round_trip [OF this assms(2)] v show ?thesis
    by (cases c) (simp add: candidateFromV1_def persistedCandidate_def)
qed

lemma candidateFieldsFromV1_persisted:
  assumes "list_all candidateFieldOk m" and "running + candidateCount m \<le> workflowSnapshotMaxCandidatesTotal"
    and "\<forall>(k, cs) \<in> set m. \<forall>c \<in> set cs. goAny_ok (Cand_Value c)"
  shows "candidateFieldsFromV1 running (persistedFields m) = Inr (nonEmptyFields m)"
  using assms
proof (induction m arbitrary: running)
  case (Cons e m)
  obtain k cs where e: "e = (k, cs)" by (cases e)
  have "map_result (candidateFromV1 k) (map persistedCandidate cs) = Inr (map id cs)"
    by (rule map_result_maps)
      (use Cons.prems(1,3) e candidateFromV1_persisted in \<open>auto simp: candidateFieldOk_def list_all_iff\<close>)
  then have here: "map_result (candidateFromV1 k) (map persistedCandidate cs) = Inr cs" by simp
  have "candidateFieldsFromV1 (running + length cs) (persistedFields m) = Inr (nonEmptyFields m)"
    by (rule Cons.IH) (use Cons.prems e in \<open>auto simp: candidateCount_def\<close>)
  moreover have "length cs \<le> workflowSnapshotMaxCandidatesPerField"
    "running + length cs \<le> workflowSnapshotMaxCandidatesTotal"
    using Cons.prems(1,2) e by (auto simp: candidateFieldOk_def candidateCount_def)
  ultimately show ?case by (simp add: e here)
qed simp

lemma candidateCount_sorted [simp]: "candidateCount (sortedMap m) = candidateCount m"
  unfolding candidateCount_def sortedMap_def sum_mset_sum_list [symmetric] mset_map mset_sort ..

lemma candidateCount_nonEmpty [simp]: "candidateCount (nonEmptyFields m) = candidateCount m"
  by (induction m) (auto simp: candidateCount_def)

lemma candidate_json_read:
  assumes "candidateOk c" and "int (Cand_TenantID c) \<le> maxUint64"
  shows "valid_json (candidate_json (persistedCandidate c))"
    and "setCandidate (candidate_json (persistedCandidate c)) zeroCandidate = (persistedCandidate c, False)"
proof -
  obtain v where v: "encodePersistedTypedValue (Cand_Value c) = Inr v"
    using assms(1) by (cases "encodePersistedTypedValue (Cand_Value c)") (auto simp: candidateOk_def)
  note typed = encode_value_valid [OF v]
  show "valid_json (candidate_json (persistedCandidate c))"
    using typed assms(1) v
    by (simp add: candidate_json_def persistedCandidate_def omitempty_def candidateOk_def runeLengthWithin_def)
  show "setCandidate (candidate_json (persistedCandidate c)) zeroCandidate = (persistedCandidate c, False)"
    unfolding persistedCandidate_def v sum.sel by (rule read_candidate [OF typed(2) assms(2)])
qed

section \<open>The parts of a snapshot read again\<close>

text \<open>The machine integers are in range, the keys of a map differ, and the keys of the trusted
  parameters carry no surrounding space.\<close>

definition params_ok :: "TrustedParam goMap \<Rightarrow> bool" where
  "params_ok m \<longleftrightarrow> goMap_ok m
     \<and> list_all (\<lambda>(k, p). trimSpace k = k \<and> goAny_ok (TP_Value p) \<and> int (TP_TenantID p) \<le> maxUint64) m"

definition state_ok :: "trustedEntities \<Rightarrow> bool" where
  "state_ok s \<longleftrightarrow> int (TE_TenantID s) \<le> maxUint64 \<and> int64 (TE_DepartmentID s)
     \<and> list_all int64 (TE_DeptIDs s) \<and> int (TE_UserID s) \<le> maxUint64 \<and> int64 (TE_Section s)
     \<and> int64 (TE_Week s) \<and> int64 (TE_UserRole s) \<and> params_ok (TE_TrustedParams s)"

definition storedParams :: "TrustedParam goMap \<Rightarrow> TrustedParam goMap" where
  "storedParams m = map (\<lambda>(k, p). (k, storedParam k p)) (sortedMap m)"

definition storedState :: "trustedEntities \<Rightarrow> trustedEntities" where
  "storedState s = s\<lparr>TE_TrustedParams := storedParams (TE_TrustedParams s)\<rparr>"

lemma paramAuthority_None_iff:
  "paramAuthority tenant m = None \<longleftrightarrow>
     list_all (\<lambda>(k, p). TP_TenantID p = tenant \<and> knownTrustedParamSourceKind (SourceKind (TP_Source p))) m"
  by (induction tenant m rule: paramAuthority.induct) auto

lemma params_codec:
  assumes "map_result trustedParamToV1 m = Inr m'" and "params_ok m" and "paramAuthority tenant m = None"
  shows "valid_json (map_json param_json m')"
    and "decodeMap setParam zeroParam (map_json param_json m') [] = (sortedMap m', False)"
    and "map_result trustedParamFromV1 (sortedMap m') = Inr (storedParams m)"
    and "map_result trustedParamToV1 (storedParams m) = Inr (sortedMap m')"
    and "length m' = length m"
proof -
  have keys: "goMap_ok m" using assms(2) by (simp add: params_ok_def)
  have each: "\<exists>q. e = (k, q) \<and> validString k \<and> valid_json (param_json q) \<and> setParam (param_json q) zeroParam = (q, False)
      \<and> trustedParamFromV1 (k, q) = Inr (k, storedParam k p)
      \<and> trustedParamToV1 (k, storedParam k p) = Inr (k, q)"
    if "(k, p) \<in> set m" "trustedParamToV1 (k, p) = Inr e" for k p e
  proof -
    have "trimSpace k = k \<and> goAny_ok (TP_Value p) \<and> int (TP_TenantID p) \<le> maxUint64"
      using assms(2) that(1) by (auto simp: params_ok_def list_all_iff)
    moreover have "knownTrustedParamSourceKind (SourceKind (TP_Source p))"
      using assms(3) that(1) by (auto simp: paramAuthority_None_iff list_all_iff)
    ultimately show ?thesis using param_codec [OF that(2)] by blast
  qed
  note codec = map_codec_round [where stored = storedParam and enc_json = param_json
      and dec = setParam and zero = zeroParam and ?fromV1.0 = trustedParamFromV1,
      OF assms(1) keys each]
  from codec show "valid_json (map_json param_json m')"
    and "decodeMap setParam zeroParam (map_json param_json m') [] = (sortedMap m', False)"
    and "map_result trustedParamFromV1 (sortedMap m') = Inr (storedParams m)"
    and "map_result trustedParamToV1 (storedParams m) = Inr (sortedMap m')"
    and "length m' = length m"
    unfolding storedParams_def by blast+
qed

lemma trustedStateToV1_InrD:
  assumes "trustedStateToV1 s = Inr p"
  shows "length (TE_DeptIDs s) \<le> workflowSnapshotMaxInt64SliceItems"
    and "length (TE_TrustedParams s) \<le> workflowSnapshotMaxTrustedParams"
    and "map_result trustedParamToV1 (TE_TrustedParams s) = Inr (PU_TrustedParams p)"
    and "runeLengthWithin (TE_UserName s) workflowSnapshotMaxLabelRunes"
    and "runeLengthWithin (TE_ConversationID s) workflowSnapshotMaxConversationRunes"
    and "runeLengthWithin (TE_Date s) workflowSnapshotMaxIDRunes"
    and "runeLengthWithin (TE_Scope s) workflowSnapshotMaxKeyRunes"
    and "runeLengthWithin (TE_QueryShape s) workflowSnapshotMaxKeyRunes"
    and "p = \<lparr>PU_TenantID = TE_TenantID s, PU_DepartmentID = TE_DepartmentID s,
              PU_DeptIDs = TE_DeptIDs s, PU_UserID = TE_UserID s,
              PU_UserName = TE_UserName s, PU_Date = TE_Date s,
              PU_Section = TE_Section s, PU_Week = TE_Week s,
              PU_ConversationID = TE_ConversationID s, PU_Scope = TE_Scope s,
              PU_QueryShape = TE_QueryShape s, PU_UserRole = TE_UserRole s,
              PU_TrustedParams = PU_TrustedParams p\<rparr>"
  using assms by (auto simp: trustedStateToV1_def split: sum.splits if_splits)

lemma runeLengthWithin_valid: "runeLengthWithin s n \<Longrightarrow> validString s"
  by (simp add: runeLengthWithin_def)

lemma state_codec:
  assumes "trustedStateToV1 s = Inr p" and "state_ok s"
    and "paramAuthority tenant (TE_TrustedParams s) = None"
  shows "valid_json (state_json p)"
    and "setState (state_json p) zeroState = (p\<lparr>PU_TrustedParams := sortedMap (PU_TrustedParams p)\<rparr>, False)"
    and "trustedStateFromV1 (p\<lparr>PU_TrustedParams := sortedMap (PU_TrustedParams p)\<rparr>) = Inr (storedState s)"
    and "trustedStateToV1 (storedState s) = Inr (p\<lparr>PU_TrustedParams := sortedMap (PU_TrustedParams p)\<rparr>)"
proof -
  note p = trustedStateToV1_InrD [OF assms(1)]
  have "params_ok (TE_TrustedParams s)" using assms(2) by (simp add: state_ok_def)
  note ps = params_codec [OF p(3) this assms(3)]
  note texts = p(4-8) [THEN runeLengthWithin_valid]
  let ?p = "p\<lparr>PU_TrustedParams := sortedMap (PU_TrustedParams p)\<rparr>"
  show "valid_json (state_json p)"
    using texts ps(1) by (subst p(9)) (simp add: state_json_def omitempty_def list_all_iff)
  have "setState (state_json p) zeroState = (let m = PU_TrustedParams p in
      (\<lparr>PU_TenantID = TE_TenantID s, PU_DepartmentID = TE_DepartmentID s,
              PU_DeptIDs = TE_DeptIDs s, PU_UserID = TE_UserID s,
              PU_UserName = TE_UserName s, PU_Date = TE_Date s,
              PU_Section = TE_Section s, PU_Week = TE_Week s,
              PU_ConversationID = TE_ConversationID s, PU_Scope = TE_Scope s,
              PU_QueryShape = TE_QueryShape s, PU_UserRole = TE_UserRole s,
              PU_TrustedParams = sortedMap m\<rparr>, False))"
    unfolding Let_def
    by (subst p(9), rule read_state) (use assms(2) ps(2) in \<open>simp_all add: state_ok_def sortedMap_def\<close>)
  then show "setState (state_json p) zeroState = (?p, False)"
    by (subst (2) p(9)) simp
  have sizes: "length (storedParams (TE_TrustedParams s)) = length (TE_TrustedParams s)"
    by (simp add: storedParams_def)
  show again: "trustedStateToV1 (storedState s) = Inr ?p"
    using p(1,2,4-8) ps(4) sizes
    by (subst p(9)) (simp add: trustedStateToV1_def storedState_def)
  have state: "\<lparr>TE_TenantID = TE_TenantID s, TE_DepartmentID = TE_DepartmentID s,
      TE_DeptIDs = TE_DeptIDs s, TE_UserID = TE_UserID s, TE_UserName = TE_UserName s, TE_Date = TE_Date s,
      TE_Section = TE_Section s, TE_Week = TE_Week s, TE_ConversationID = TE_ConversationID s,
      TE_Scope = TE_Scope s, TE_QueryShape = TE_QueryShape s, TE_UserRole = TE_UserRole s,
      TE_TrustedParams = storedParams (TE_TrustedParams s)\<rparr> = storedState s"
    by (cases s) (simp add: storedState_def)
  show "trustedStateFromV1 ?p = Inr (storedState s)"
    using p(1,2) ps(3,5) again state by (subst p(9)) (simp add: trustedStateFromV1_def)
qed

lemma entities_codec:
  assumes "trustedEntitiesToV1 m = Inr m'" and "goMap_ok m"
    and "list_all (\<lambda>(k, e). goAny_ok (Ent_Value e) \<and> int (Ent_TenantID e) \<le> maxUint64) m"
  shows "valid_json (map_json entity_json m')"
    and "decodeMap setEntity zeroEntity (map_json entity_json m') [] = (sortedMap m', False)"
    and "trustedEntitiesFromV1 (sortedMap m') = Inr (sortedMap m)"
    and "trustedEntitiesToV1 (sortedMap m) = Inr (sortedMap m')"
proof -
  have all: "map_result trustedEntityToV1 m = Inr m'" and size: "length m \<le> workflowSnapshotMaxTrustedEntities"
    using assms(1) by (auto simp: trustedEntitiesToV1_def split: if_splits)
  have each: "\<exists>q. e = (k, q) \<and> validString k \<and> valid_json (entity_json q) \<and> setEntity (entity_json q) zeroEntity = (q, False)
      \<and> trustedEntityFromV1 (k, q) = Inr (k, (\<lambda>_ x. x) k x)
      \<and> trustedEntityToV1 (k, (\<lambda>_ x. x) k x) = Inr (k, q)"
    if "(k, x) \<in> set m" "trustedEntityToV1 (k, x) = Inr e" for k x e
    using entity_codec [OF that(2)] assms(3) that(1) by (auto simp: list_all_iff)
  note codec = map_codec_round [where stored = "\<lambda>_ x. x" and enc_json = entity_json
      and dec = setEntity and zero = zeroEntity and ?fromV1.0 = trustedEntityFromV1,
      OF all assms(2) each]
  show "valid_json (map_json entity_json m')"
    and "decodeMap setEntity zeroEntity (map_json entity_json m') [] = (sortedMap m', False)"
    using codec(1,2) by blast+
  show "trustedEntitiesFromV1 (sortedMap m') = Inr (sortedMap m)"
    and "trustedEntitiesToV1 (sortedMap m) = Inr (sortedMap m')"
    using codec(3-5) size
    by (simp_all add: trustedEntitiesFromV1_def trustedEntitiesToV1_def case_prod_unfold)
qed

lemma sortedMap_filter: "sortedMap (filter P m) = filter P (sortedMap m)"
  by (simp add: sortedMap_def filter_sort)

lemma candidates_codec:
  assumes "candidatesToV1 m = Inr m'" and "goMap_ok m"
    and "list_all (\<lambda>(k, cs). list_all (\<lambda>c. goAny_ok (Cand_Value c) \<and> int (Cand_TenantID c) \<le> maxUint64) cs) m"
  shows "valid_json (map_json (\<lambda>cs. JArr (map candidate_json cs)) m')"
    and "decodeMap (decodeSlice setCandidate zeroCandidate) []
           (map_json (\<lambda>cs. JArr (map candidate_json cs)) m') [] = (sortedMap m', False)"
    and "candidatesFromV1 (sortedMap m') = Inr (sortedMap (nonEmptyFields m))"
    and "candidatesToV1 (sortedMap (nonEmptyFields m)) = Inr (sortedMap m')"
proof -
  let ?n = "sortedMap (nonEmptyFields m)"
  have size: "length m \<le> workflowSnapshotMaxCandidateFields" and all: "candidateFieldsToV1 0 m = Inr m'"
    using assms(1) by (auto simp: candidatesToV1_def split: if_splits)
  from all have ok: "list_all candidateFieldOk m" and running: "candidateCount m \<le> workflowSnapshotMaxCandidatesTotal"
    and m': "m' = persistedFields (nonEmptyFields m)"
    by (auto simp: candidateFieldsToV1_iff)
  have json: "validString k \<and> (\<forall>c \<in> set cs. valid_json (candidate_json (persistedCandidate c))
      \<and> setCandidate (candidate_json (persistedCandidate c)) zeroCandidate = (persistedCandidate c, False))"
    if mem: "(k, cs) \<in> set m" for k cs
  proof -
    have here: "candidateFieldOk (k, cs)" using ok mem by (auto simp: list_all_iff)
    then have "validString k"
      by (auto simp: candidateFieldOk_def validateWorkflowMapKey_def runeLengthWithin_def split: if_splits)
    moreover have "candidateOk c \<and> int (Cand_TenantID c) \<le> maxUint64" if "c \<in> set cs" for c
      using here assms(3) mem that by (fastforce simp: candidateFieldOk_def list_all_iff)
    ultimately show ?thesis using candidate_json_read by blast
  qed
  show "valid_json (map_json (\<lambda>cs. JArr (map candidate_json cs)) m')"
    by (rule valid_map_json) (use json m' in auto)
  show "decodeMap (decodeSlice setCandidate zeroCandidate) []
      (map_json (\<lambda>cs. JArr (map candidate_json cs)) m') [] = (sortedMap m', False)"
  proof (rule decodeMap_map_json)
    have "goMap_ok (nonEmptyFields m)"
      using assms(2) by (simp add: goMap_ok_def distinct_map_filter)
    then show "goMap_ok m'" unfolding m' by (rule goMap_ok_map)
    fix k qs assume "(k, qs) \<in> set m'"
    then obtain cs where "(k, cs) \<in> set m" "qs = map persistedCandidate cs" by (auto simp: m')
    with json show "decodeSlice setCandidate zeroCandidate (JArr (map candidate_json qs)) [] = (qs, False)"
      by (intro decodeSlice_JArr) auto
  qed
  have ok': "list_all candidateFieldOk ?n" using ok by (auto simp: list_all_iff)
  have fields: "sortedMap m' = persistedFields ?n" by (simp add: m' sortedMap_map)
  have self: "nonEmptyFields ?n = ?n" by (simp add: sortedMap_filter)
  have count: "candidateCount ?n \<le> workflowSnapshotMaxCandidatesTotal" using running by simp
  have "\<forall>(k, cs) \<in> set ?n. \<forall>c \<in> set cs. goAny_ok (Cand_Value c)"
    using assms(3) by (auto simp: list_all_iff)
  then have again: "candidateFieldsFromV1 0 (sortedMap m') = Inr ?n"
    using candidateFieldsFromV1_persisted [OF ok', of 0] count unfolding fields self by simp
  have "candidateFieldsToV1 0 ?n = Inr (persistedFields ?n)"
    using candidateFieldsToV1_iff [of 0 ?n "persistedFields ?n"] ok' count self by simp
  moreover have "length ?n \<le> length m" by simp
  then have "length ?n \<le> workflowSnapshotMaxCandidateFields" using size by linarith
  ultimately show "candidatesFromV1 (sortedMap m') = Inr ?n" and "candidatesToV1 ?n = Inr (sortedMap m')"
    using again by (simp_all add: candidatesFromV1_def candidatesToV1_def fields)
qed

section \<open>Snapshots read back\<close>

definition snapshot_ok :: "WorkflowSnapshot \<Rightarrow> bool" where
  "snapshot_ok w \<longleftrightarrow>
     int (WF_TenantID w) \<le> maxUint64 \<and> int (WF_ActorUserID w) \<le> maxUint64 \<and> state_ok (WF_Trusted w)
     \<and> goMap_ok (WF_TrustedEntities w)
     \<and> list_all (\<lambda>(k, e). goAny_ok (Ent_Value e) \<and> int (Ent_TenantID e) \<le> maxUint64) (WF_TrustedEntities w)
     \<and> goMap_ok (WF_Candidates w)
     \<and> list_all (\<lambda>(k, cs). list_all (\<lambda>c. goAny_ok (Cand_Value c) \<and> int (Cand_TenantID c) \<le> maxUint64) cs)
         (WF_Candidates w)
     \<and> instant_ok (WF_CreatedAt w) \<and> instant_ok (WF_UpdatedAt w) \<and> instant_ok (WF_ExpiresAt w)"

text \<open>What the stored form of a snapshot decodes to.\<close>

definition storedSnapshot :: "WorkflowSnapshot \<Rightarrow> WorkflowSnapshot" where
  "storedSnapshot w =
     w\<lparr>WF_MissingFields := workflowMissingFields w, WF_MissingSlots := workflowMissingFields w,
       WF_LastUserMessage := [], WF_Trusted := storedState (WF_Trusted w),
       WF_TrustedEntities := sortedMap (WF_TrustedEntities w),
       WF_Candidates := sortedMap (nonEmptyFields (WF_Candidates w))\<rparr>"

lemma plain_step:
  assumes "decodeMember t (n, v) acc = acc'"
  shows "fold (decodeMember t) ([(n, v)] @ rest) acc = fold (decodeMember t) rest acc'"
    and "fold (decodeMember t) [(n, v)] acc = acc'"
  using assms by auto

lemma snapshot_member:
  "decodeMember snapshotFields (''schema_version'', v) (s, err) =
     (case setInt64 v (PY_SchemaVersion s) of (x, e) \<Rightarrow> (s\<lparr>PY_SchemaVersion := x\<rparr>, err \<or> e))"
  "decodeMember snapshotFields (''id'', v) (s, err) =
     (case setString v (PY_ID s) of (x, e) \<Rightarrow> (s\<lparr>PY_ID := x\<rparr>, err \<or> e))"
  "decodeMember snapshotFields (''tenant_id'', v) (s, err) =
     (case setUint v (PY_TenantID s) of (x, e) \<Rightarrow> (s\<lparr>PY_TenantID := x\<rparr>, err \<or> e))"
  "decodeMember snapshotFields (''actor_user_id'', v) (s, err) =
     (case setUint v (PY_ActorUserID s) of (x, e) \<Rightarrow> (s\<lparr>PY_ActorUserID := x\<rparr>, err \<or> e))"
  "decodeMember snapshotFields (''conversation_id'', v) (s, err) =
     (case setString v (PY_ConversationID s) of (x, e) \<Rightarrow> (s\<lparr>PY_ConversationID := x\<rparr>, err \<or> e))"
  "decodeMember snapshotFields (''type'', v) (s, err) =
     (case setString v (PY_WorkflowType s) of (x, e) \<Rightarrow> (s\<lparr>PY_WorkflowType := x\<rparr>, err \<or> e))"
  "decodeMember snapshotFields (''state'', v) (s, err) =
     (case setNamed stateOf v (PY_WorkflowState s) of (x, e) \<Rightarrow> (s\<lparr>PY_WorkflowState := x\<rparr>, err \<or> e))"
  "decodeMember snapshotFields (''missing_fields'', v) (s, err) =
     (case decodeSlice setString [] v (PY_Missing s) of (x, e) \<Rightarrow> (s\<lparr>PY_Missing := x\<rparr>, err \<or> e))"
  "decodeMember snapshotFields (''trusted'', v) (s, err) =
     (case setState v (PY_Trusted s) of (x, e) \<Rightarrow> (s\<lparr>PY_Trusted := x\<rparr>, err \<or> e))"
  "decodeMember snapshotFields (''trusted_entities'', v) (s, err) =
     (case decodeMap setEntity zeroEntity v (PY_TrustedEntities s) of (x, e) \<Rightarrow>
        (s\<lparr>PY_TrustedEntities := x\<rparr>, err \<or> e))"
  "decodeMember snapshotFields (''candidates'', v) (s, err) =
     (case decodeMap (decodeSlice setCandidate zeroCandidate) [] v (PY_CandidateLists s) of (x, e) \<Rightarrow>
        (s\<lparr>PY_CandidateLists := x\<rparr>, err \<or> e))"
  "decodeMember snapshotFields (''created_at'', v) (s, err) =
     (case setString v (PY_CreatedAt s) of (x, e) \<Rightarrow> (s\<lparr>PY_CreatedAt := x\<rparr>, err \<or> e))"
  "decodeMember snapshotFields (''updated_at'', v) (s, err) =
     (case setString v (PY_UpdatedAt s) of (x, e) \<Rightarrow> (s\<lparr>PY_UpdatedAt := x\<rparr>, err \<or> e))"
  "decodeMember snapshotFields (''expires_at'', v) (s, err) =
     (case setString v (PY_ExpiresAt s) of (x, e) \<Rightarrow> (s\<lparr>PY_ExpiresAt := x\<rparr>, err \<or> e))"
  "decodeMember snapshotFields (''version'', v) (s, err) =
     (case setWord64 v (PY_Version s) of (x, e) \<Rightarrow> (s\<lparr>PY_Version := x\<rparr>, err \<or> e))"
  by (simp_all add: snapshotFields_def decodeMember_def fieldSetter_def split: prod.split)

lemma read_snapshot:
  assumes "int64 a" "int c \<le> maxUint64" "int d \<le> maxUint64" "\<forall>x. st \<noteq> OtherState x"
    and "setState (state_json t) zeroState = (t', False)"
    and "decodeMap setEntity zeroEntity (map_json entity_json es) [] = (es', False)" and "es = [] \<Longrightarrow> es' = []"
    and "decodeMap (decodeSlice setCandidate zeroCandidate) []
           (map_json (\<lambda>cs. JArr (map candidate_json cs)) cs) [] = (cs', False)" and "cs = [] \<Longrightarrow> cs' = []"
  shows "decodeStruct snapshotFields
           (snapshot_json \<lparr>PY_SchemaVersion = a, PY_ID = b, PY_TenantID = c, PY_ActorUserID = d,
              PY_ConversationID = f, PY_WorkflowType = g, PY_WorkflowState = st, PY_Missing = ms,
              PY_Trusted = t, PY_TrustedEntities = es, PY_CandidateLists = cs, PY_CreatedAt = ca,
              PY_UpdatedAt = ua, PY_ExpiresAt = xa, PY_Version = ve\<rparr>) zeroSnapshot
         = (\<lparr>PY_SchemaVersion = a, PY_ID = b, PY_TenantID = c, PY_ActorUserID = d,
              PY_ConversationID = f, PY_WorkflowType = g, PY_WorkflowState = st, PY_Missing = ms,
              PY_Trusted = t', PY_TrustedEntities = es', PY_CandidateLists = cs', PY_CreatedAt = ca,
              PY_UpdatedAt = ua, PY_ExpiresAt = xa, PY_Version = ve\<rparr>, False)"
proof -
  have slice: "decodeSlice setString [] (JArr (map JStr ms)) [] = (ms, False)"
    by (rule decodeSlice_JArr) simp
  note reads = assms(1-3,5,6,8) slice set_int64 stateOf_text [OF assms(4)]
  show ?thesis
    unfolding decodeStruct_JObj snapshot_json_def zeroSnapshot_def persistedWorkflowSnapshotV1.simps
    by ((rule trans [OF omit_step(1)], (simp add: snapshot_member reads; fail), (simp add: assms(7,9); fail)
          | rule trans [OF plain_step(1)], (simp add: snapshot_member reads; fail))+,
        rule plain_step(2), simp add: snapshot_member reads)
qed

lemma authority_None_iff:
  "validateWorkflowSnapshotAuthority w = None \<longleftrightarrow>
     (TE_TenantID (WF_Trusted w) = 0 \<or> TE_TenantID (WF_Trusted w) = WF_TenantID w)
     \<and> (TE_ConversationID (WF_Trusted w) = [] \<or> TE_ConversationID (WF_Trusted w) = WF_ConversationID w)
     \<and> paramAuthority (WF_TenantID w) (TE_TrustedParams (WF_Trusted w)) = None
     \<and> (\<forall>e \<in> set (WF_TrustedEntities w). Ent_TenantID (snd e) = WF_TenantID w)
     \<and> (\<forall>e \<in> set (WF_Candidates w). \<forall>c \<in> set (snd e).
          Cand_TenantID c = 0 \<or> Cand_TenantID c = WF_TenantID w)"
  unfolding validateWorkflowSnapshotAuthority_def Let_def list_ex_iff case_prod_unfold
  by (cases "paramAuthority (WF_TenantID w) (TE_TrustedParams (WF_Trusted w))") simp_all

lemma validateIdentity_NoneD:
  assumes "validateWorkflowSnapshotIdentity w = None"
  shows "validString (WF_ID w)" and "validString (WF_ConversationID w)" and "validString (WF_Type w)"
    and "\<forall>x. WF_State w \<noteq> OtherState x" and "WF_ExpiresAt w \<noteq> 0"
    and "\<forall>f \<in> set (workflowMissingFields w). validString f"
    and "paramAuthority (WF_TenantID w) (TE_TrustedParams (WF_Trusted w)) = None"
proof -
  have checks: "runeLengthWithin (WF_ID w) workflowSnapshotMaxWorkflowIDRunes"
    "runeLengthWithin (WF_ConversationID w) workflowSnapshotMaxConversationRunes"
    "WF_Type w \<in> {WorkflowSubscriptionStart, WorkflowSubscriptionCancel, WorkflowManualSignCreate}"
    "\<not> (case WF_State w of OtherState _ \<Rightarrow> True | _ \<Rightarrow> False)" "WF_ExpiresAt w \<noteq> 0"
    "\<forall>f \<in> set (workflowMissingFields w). runeLengthWithin f workflowSnapshotMaxKeyRunes"
    "validateWorkflowSnapshotAuthority w = None"
    using assms unfolding validateWorkflowSnapshotIdentity_def list_ex_iff
    by (simp_all split: if_splits)
  show "validString (WF_ID w)" "validString (WF_ConversationID w)"
    using checks(1,2) by (simp_all add: runeLengthWithin_def)
  show "validString (WF_Type w)" using checks(3) by (auto simp: ascii_def)
  show "\<forall>x. WF_State w \<noteq> OtherState x" using checks(4) by (cases "WF_State w") simp_all
  show "WF_ExpiresAt w \<noteq> 0" by (rule checks(5))
  show "\<forall>f \<in> set (workflowMissingFields w). validString f"
    using checks(6) runeLengthWithin_valid by blast
  show "paramAuthority (WF_TenantID w) (TE_TrustedParams (WF_Trusted w)) = None"
    using checks(7) unfolding authority_None_iff by blast
qed

lemma missing_stored [simp]: "workflowMissingFields (storedSnapshot w) = workflowMissingFields w"
  by (simp add: storedSnapshot_def workflowMissingFields_def)

lemma validateIdentity_stored:
  assumes "validateWorkflowSnapshotIdentity w = None"
  shows "validateWorkflowSnapshotIdentity (storedSnapshot w) = None"
proof -
  have "paramAuthority (WF_TenantID w) (storedParams (TE_TrustedParams (WF_Trusted w))) = None"
    using validateIdentity_NoneD(7) [OF assms]
    by (auto simp: paramAuthority_None_iff storedParams_def storedParam_def list_all_iff)
  moreover have "validateWorkflowSnapshotAuthority w = None"
    using assms unfolding validateWorkflowSnapshotIdentity_def by (simp split: if_splits)
  ultimately have "validateWorkflowSnapshotAuthority (storedSnapshot w) = None"
    unfolding authority_None_iff by (simp add: storedSnapshot_def storedState_def) fastforce
  with assms show ?thesis
    unfolding validateWorkflowSnapshotIdentity_def missing_stored
    by (simp add: storedSnapshot_def split: if_splits)
qed

lemma parseWorkflowTime_format:
  assumes "instant_ok t" and "t \<noteq> 0 \<or> allowEmpty"
  shows "parseWorkflowTime field (formatWorkflowTime t) allowEmpty = Inr t"
proof (cases "t = 0")
  case True
  with assms(2) show ?thesis by (simp add: parseWorkflowTime_def formatWorkflowTime_def)
next
  case False
  with assms(1) show ?thesis
    by (simp add: parseWorkflowTime_def formatWorkflowTime_def parse_format_RFC3339Nano format_nonempty)
qed

text \<open>The schema object of a snapshot, and of its stored form.\<close>

definition schemaOf ::
  "WorkflowSnapshot \<Rightarrow> persistedTrustedStateV1 \<Rightarrow> persistedTrustedEntityV1 goMap
     \<Rightarrow> persistedCandidateV1 list goMap \<Rightarrow> persistedWorkflowSnapshotV1" where
  "schemaOf w t es cs =
     \<lparr>PY_SchemaVersion = workflowSnapshotSchemaVersion, PY_ID = WF_ID w, PY_TenantID = WF_TenantID w,
      PY_ActorUserID = WF_ActorUserID w, PY_ConversationID = WF_ConversationID w,
      PY_WorkflowType = WF_Type w, PY_WorkflowState = WF_State w, PY_Missing = workflowMissingFields w,
      PY_Trusted = t, PY_TrustedEntities = es, PY_CandidateLists = cs,
      PY_CreatedAt = formatWorkflowTime (WF_CreatedAt w), PY_UpdatedAt = formatWorkflowTime (WF_UpdatedAt w),
      PY_ExpiresAt = formatWorkflowTime (WF_ExpiresAt w), PY_Version = WF_Version w\<rparr>"

lemma schemaOf_stored [simp]: "schemaOf (storedSnapshot w) = schemaOf w"
  unfolding schemaOf_def missing_stored by (simp add: storedSnapshot_def fun_eq_iff)

lemma snapshotToV1_Inr_iff:
  "workflowSnapshotToV1 w = Inr dto \<longleftrightarrow>
     validateWorkflowSnapshotIdentity w = None
     \<and> (\<exists>t es cs. trustedStateToV1 (WF_Trusted w) = Inr t \<and> trustedEntitiesToV1 (WF_TrustedEntities w) = Inr es
         \<and> candidatesToV1 (WF_Candidates w) = Inr cs \<and> dto = schemaOf w t es cs)"
  by (auto simp: workflowSnapshotToV1_def schemaOf_def split: option.splits sum.splits)

definition sortedState :: "persistedTrustedStateV1 \<Rightarrow> persistedTrustedStateV1" where
  "sortedState t = t\<lparr>PU_TrustedParams := sortedMap (PU_TrustedParams t)\<rparr>"

lemma schema_json_sorted:
  "snapshot_json ((schemaOf w (sortedState t) (sortedMap es) (sortedMap cs))\<lparr>PY_Version := v,
       PY_CreatedAt := a, PY_UpdatedAt := b, PY_ExpiresAt := c\<rparr>)
   = snapshot_json ((schemaOf w t es cs)\<lparr>PY_Version := v, PY_CreatedAt := a, PY_UpdatedAt := b,
       PY_ExpiresAt := c\<rparr>)"
  "snapshot_json (schemaOf w (sortedState t) (sortedMap es) (sortedMap cs)) = snapshot_json (schemaOf w t es cs)"
  by (simp_all add: snapshot_json_def schemaOf_def sortedState_def state_json_def map_json_def)

lemma snapshot_codec:
  assumes "workflowSnapshotToV1 w = Inr dto" and "snapshot_ok w"
  obtains t es cs where "dto = schemaOf w t es cs"
    and "workflowSnapshotToV1 (storedSnapshot w) = Inr (schemaOf w (sortedState t) (sortedMap es) (sortedMap cs))"
    and "valid_json (snapshot_json dto)"
    and "decodeStruct snapshotFields (snapshot_json dto) zeroSnapshot
         = (schemaOf w (sortedState t) (sortedMap es) (sortedMap cs), False)"
    and "workflowSnapshotFromV1 (schemaOf w (sortedState t) (sortedMap es) (sortedMap cs))
         = Inr (storedSnapshot w)"
proof -
  obtain t es cs where valid: "validateWorkflowSnapshotIdentity w = None"
    and parts: "trustedStateToV1 (WF_Trusted w) = Inr t" "trustedEntitiesToV1 (WF_TrustedEntities w) = Inr es"
      "candidatesToV1 (WF_Candidates w) = Inr cs"
    and dto: "dto = schemaOf w t es cs"
    using assms(1) unfolding snapshotToV1_Inr_iff by blast
  note ok = assms(2) [unfolded snapshot_ok_def]
  note identity = validateIdentity_NoneD [OF valid]
  have oks: "state_ok (WF_Trusted w)" "goMap_ok (WF_TrustedEntities w)" "goMap_ok (WF_Candidates w)"
    using ok by blast+
  note state = state_codec [OF parts(1) oks(1) identity(7), folded sortedState_def]
  note entities = entities_codec [OF parts(2) oks(2)]
  note candidates = candidates_codec [OF parts(3) oks(3)]
  let ?dto = "schemaOf w (sortedState t) (sortedMap es) (sortedMap cs)"
  have entities_ok: "list_all (\<lambda>(k, e). goAny_ok (Ent_Value e) \<and> int (Ent_TenantID e) \<le> maxUint64) (WF_TrustedEntities w)"
    and candidates_ok: "list_all (\<lambda>(k, cs). list_all (\<lambda>c. goAny_ok (Cand_Value c) \<and> int (Cand_TenantID c) \<le> maxUint64) cs)
         (WF_Candidates w)"
    using ok by blast+
  note entities = entities [OF entities_ok] and candidates = candidates [OF candidates_ok]
  show thesis
  proof (rule that [OF dto])
    show "workflowSnapshotToV1 (storedSnapshot w) = Inr ?dto"
      unfolding snapshotToV1_Inr_iff schemaOf_stored
      using validateIdentity_stored [OF valid] state(4) entities(4) candidates(4)
      by (auto simp: storedSnapshot_def)
    show "valid_json (snapshot_json dto)"
      using identity state(1) entities(1) candidates(1) stateText_valid [OF identity(4)]
      by (simp add: dto schemaOf_def snapshot_json_def omitempty_def list_all_iff)
    show "decodeStruct snapshotFields (snapshot_json dto) zeroSnapshot = (?dto, False)"
      unfolding dto schemaOf_def
      by (rule read_snapshot)
        (use ok identity(4) state(2) entities(2) candidates(2) in
          \<open>simp_all add: int64_def workflowSnapshotSchemaVersion_def minInt64_def maxInt64_def\<close>)
    have times: "parseWorkflowTime ''created_at'' (formatWorkflowTime (WF_CreatedAt w)) True = Inr (WF_CreatedAt w)"
      "parseWorkflowTime ''updated_at'' (formatWorkflowTime (WF_UpdatedAt w)) True = Inr (WF_UpdatedAt w)"
      "parseWorkflowTime ''expires_at'' (formatWorkflowTime (WF_ExpiresAt w)) False = Inr (WF_ExpiresAt w)"
      using ok identity(5) by (simp_all add: parseWorkflowTime_format)
    have stored: "\<lparr>WF_ID = WF_ID w, WF_TenantID = WF_TenantID w, WF_ActorUserID = WF_ActorUserID w,
        WF_ConversationID = WF_ConversationID w, WF_Type = WF_Type w, WF_State = WF_State w,
        WF_MissingFields = workflowMissingFields w, WF_TrustedEntities = sortedMap (WF_TrustedEntities w),
        WF_Candidates = sortedMap (nonEmptyFields (WF_Candidates w)), WF_LastUserMessage = [],
        WF_CreatedAt = WF_CreatedAt w, WF_UpdatedAt = WF_UpdatedAt w, WF_ExpiresAt = WF_ExpiresAt w,
        WF_Version = WF_Version w, WF_MissingSlots = workflowMissingFields w,
        WF_Trusted = storedState (WF_Trusted w)\<rparr> = storedSnapshot w"
      by (cases w) (simp add: storedSnapshot_def workflowMissingFields_def)
    show "workflowSnapshotFromV1 ?dto = Inr (storedSnapshot w)"
      using times state(3) entities(3) candidates(3) stored validateIdentity_stored [OF valid]
      by (simp add: workflowSnapshotFromV1_def schemaOf_def)
  qed
qed

lemma marshal_stored:
  assumes "snapshot_ok w" and "MarshalWorkflowSnapshot (Some w) = Inr payload"
  shows "UnmarshalWorkflowSnapshot payload = Inr (storedSnapshot w)"
    and "MarshalWorkflowSnapshot (Some (storedSnapshot w)) = Inr payload"
    and "WorkflowSnapshotHash (Some (storedSnapshot w)) = WorkflowSnapshotHash (Some w)"
proof -
  obtain dto where toV1: "workflowSnapshotToV1 w = Inr dto" and payload: "payload = print_json (snapshot_json dto)"
    and size: "\<not> workflowSnapshotMaxBytes < length payload"
    using assms(2) by (auto simp: MarshalWorkflowSnapshot_def Let_def split: sum.splits if_splits)
  from toV1 assms(1) obtain t es cs where dto: "dto = schemaOf w t es cs"
    and stored: "workflowSnapshotToV1 (storedSnapshot w) = Inr (schemaOf w (sortedState t) (sortedMap es) (sortedMap cs))"
    and valid: "valid_json (snapshot_json dto)"
    and reads: "decodeStruct snapshotFields (snapshot_json dto) zeroSnapshot
         = (schemaOf w (sortedState t) (sortedMap es) (sortedMap cs), False)"
    and fromV1: "workflowSnapshotFromV1 (schemaOf w (sortedState t) (sortedMap es) (sortedMap cs)) = Inr (storedSnapshot w)"
    by (rule snapshot_codec)
  have "decodeStrictWorkflowJSON snapshotFields zeroSnapshot payload
      = Some (schemaOf w (sortedState t) (sortedMap es) (sortedMap cs))"
    unfolding payload using valid reads by (rule decodeStrict_print)
  moreover have "payload \<noteq> []" unfolding payload using valid by (rule print_nonempty)
  ultimately show "UnmarshalWorkflowSnapshot payload = Inr (storedSnapshot w)"
    using size fromV1 by (simp add: UnmarshalWorkflowSnapshot_def schemaOf_def)
  show "MarshalWorkflowSnapshot (Some (storedSnapshot w)) = Inr payload"
    using size by (simp add: MarshalWorkflowSnapshot_def stored schema_json_sorted payload dto)
  show "WorkflowSnapshotHash (Some (storedSnapshot w)) = WorkflowSnapshotHash (Some w)"
    by (simp add: WorkflowSnapshotHash_def stored toV1 dto schema_json_sorted)
qed

text \<open>C36: A snapshot that is marshalled is read back, by \<open>UnmarshalWorkflowSnapshot\<close>, as its
  stored form: identity, state, version, times, trusted state, entities and candidates are all
  there (maps in key order, fields without candidates left out), the missing fields stand in both
  of their places, and neither the user's last message nor the raw text behind a trusted
  parameter is. The stored form marshals to the very same bytes and has the same
  \<open>WorkflowSnapshotHash\<close>, so a stored workflow compares equal to the one that was written.\<close>

theorem workflow_snapshot_round_trip:
  assumes "snapshot_ok w" and "MarshalWorkflowSnapshot (Some w) = Inr payload"
  shows "UnmarshalWorkflowSnapshot payload = Inr (storedSnapshot w)
         \<and> MarshalWorkflowSnapshot (Some (storedSnapshot w)) = Inr payload
         \<and> WorkflowSnapshotHash (Some (storedSnapshot w)) = WorkflowSnapshotHash (Some w)"
  using marshal_stored [OF assms] by blast

definition exMarshalled :: WorkflowSnapshot where
  "exMarshalled =
     \<lparr>WF_ID = ''wf-1'', WF_TenantID = 7, WF_ActorUserID = 3, WF_ConversationID = ''c-1'',
      WF_Type = WorkflowManualSignCreate, WF_State = WorkflowCollectUser, WF_MissingFields = [''user_id''],
      WF_TrustedEntities = [], WF_Candidates =
        [(''user_id'', [\<lparr>Cand_ID = ''1'', Cand_Label = ''Li'', Cand_Value = GoUint 12, Cand_TenantID = 7\<rparr>]),
         (''date'', [])],
      WF_LastUserMessage = ''sign him in'', WF_CreatedAt = 0, WF_UpdatedAt = 63000000000000000000,
      WF_ExpiresAt = 63000001800000000000, WF_Version = 2, WF_MissingSlots = [],
      WF_Trusted = \<lparr>TE_TenantID = 7, TE_DepartmentID = 0, TE_DeptIDs = [4, 5], TE_UserID = 0,
        TE_UserName = [], TE_Date = ''2024-05-01'', TE_Section = 0, TE_Week = 0,
        TE_ConversationID = ''c-1'', TE_Scope = [], TE_QueryShape = [], TE_UserRole = 0,
        TE_TrustedParams = [(''section'', \<lparr>TP_Field = [], TP_Value = GoInt 2,
          TP_Source = \<lparr>SourceKind = TrustedParamSourceRawSlot, SourceRaw = ''slot two'', Resolver = []\<rparr>,
          TP_TenantID = 7\<rparr>)]\<rparr>\<rparr>"

lemma exMarshalled_ok: "snapshot_ok exMarshalled"
  by (simp add: snapshot_ok_def state_ok_def params_ok_def exMarshalled_def goMap_ok_def goAny_ok_def
      int64_def maxUint64_def minInt64_def maxInt64_def instant_ok_def day_ns_def) code_simp

lemma exMarshalled_marshals: "\<not> isl (MarshalWorkflowSnapshot (Some exMarshalled))"
  by code_simp

theorem workflow_snapshot_round_trip_witness:
  "UnmarshalWorkflowSnapshot (projr (MarshalWorkflowSnapshot (Some exMarshalled))) = Inr (storedSnapshot exMarshalled)
   \<and> WF_LastUserMessage (storedSnapshot exMarshalled) = [] \<and> length (WF_Candidates (storedSnapshot exMarshalled)) = 1"
proof -
  obtain payload where "MarshalWorkflowSnapshot (Some exMarshalled) = Inr payload"
    using exMarshalled_marshals by (cases "MarshalWorkflowSnapshot (Some exMarshalled)") auto
  with workflow_snapshot_round_trip [OF exMarshalled_ok this] show ?thesis
    by (simp add: storedSnapshot_def exMarshalled_def)
qed

end
