(* ===== verification/WorkflowDatabase.thy ===== *)
theory WorkflowDatabase
  imports WorkflowContract SnapshotRoundTrip
begin

text \<open>
  The workflow store of the server (src/internal/app/agent\_workflow\_store.go) over the repository
  that writes the table \<open>agent_workflows\<close> (src/internal/repository/agent\_workflow\_repository.go,
  src/internal/model/agent\_workflow.go). A table is the list of its rows; a statement is a
  function on it, which the repository runs once and whose number of affected rows decides
  between success and conflict. A statement may fail, before or after it took effect.

  What the code takes from the ORM and the database is in the environment of a call
  (\<open>dbEnv\<close>): the failure of each statement of the call (counted from 0), the primary key of a
  created row, the time the ORM stamps on it, and how a \<open>DATETIME(3)\<close> column rounds a time.
  Texts in a condition are compared byte by byte (the collation of the table also ignores case
  and trailing spaces, so the model speaks of keys and tokens that differ in more than that).
\<close>

section \<open>Rows\<close>

record AgentWorkflow =
  AW_ID :: nat
  AW_TenantID :: nat
  AW_ConversationID :: string
  AW_ActorUserID :: nat
  AW_WorkflowID :: string
  AW_WorkflowType :: string
  AW_WorkflowState :: string
  AW_Version :: "64 word"
  AW_SnapshotSchemaVersion :: nat
  AW_SnapshotJSON :: string
  AW_ExecutionStatus :: string
  AW_ExecutionToken :: "string option"
  AW_ExecutionOperation :: "string option"
  AW_BusinessKey :: "string option"
  AW_RequestID :: "string option"
  AW_ExecutionRequestSchemaVersion :: "nat option"
  AW_ExecutionRequestJSON :: "string option"
  AW_ExecutionResultSchemaVersion :: "nat option"
  AW_ExecutionResultJSON :: "string option"
  AW_WriteEffect :: "string option"
  AW_LeaseExpiresAt :: "instant option"
  AW_ExpiresAt :: instant
  AW_CreatedAt :: instant
  AW_UpdatedAt :: instant

type_synonym workflowTable = "AgentWorkflow list"

record AgentWorkflowSnapshotUpdate =
  SU_WorkflowID :: string
  SU_WorkflowType :: string
  SU_WorkflowState :: string
  SU_SnapshotSchemaVersion :: nat
  SU_SnapshotJSON :: string
  SU_ExpiresAt :: instant

record AgentWorkflowReservation =
  AR_ExecutionToken :: string
  AR_ExecutionOperation :: string
  AR_BusinessKey :: string
  AR_RequestID :: string
  AR_RequestSchemaVersion :: nat
  AR_RequestJSON :: string
  AR_LeaseExpiresAt :: instant

record AgentWorkflowExecutionResult =
  AX_ResultSchemaVersion :: nat
  AX_ResultJSON :: string
  AX_BusinessKey :: string
  AX_WriteEffect :: string
  AX_CompletedAt :: instant

abbreviation AgentWorkflowExecutionIdle :: string where
  "AgentWorkflowExecutionIdle \<equiv> ''idle''"
abbreviation AgentWorkflowExecutionExecuting :: string where
  "AgentWorkflowExecutionExecuting \<equiv> ''executing''"
abbreviation AgentWorkflowExecutionResultRecorded :: string where
  "AgentWorkflowExecutionResultRecorded \<equiv> ''result_recorded''"
abbreviation AgentWorkflowExecutionRecoveryRequired :: string where
  "AgentWorkflowExecutionRecoveryRequired \<equiv> ''recovery_required''"

section \<open>Statements\<close>

record dbEnv = callEnv +
  DE_Ctx :: goctx
  DE_Fault :: "nat \<Rightarrow> (bool \<times> agentError) option"
  DE_NextID :: nat
  DE_Stamp :: instant
  DE_Column :: "instant \<Rightarrow> instant"

definition statementError :: "dbEnv \<Rightarrow> nat \<Rightarrow> (bool \<times> agentError) option" where
  "statementError env n = (case CE_Err env of Some e \<Rightarrow> Some (False, e) | None \<Rightarrow> DE_Fault env n)"

definition runStatement ::
  "dbEnv \<Rightarrow> nat \<Rightarrow> (workflowTable \<Rightarrow> 'r \<times> workflowTable) \<Rightarrow> workflowTable
     \<Rightarrow> (agentError + 'r) \<times> workflowTable" where
  "runStatement env n stmt rows =
     (case statementError env n of
        None \<Rightarrow> (case stmt rows of (r, rows') \<Rightarrow> (Inr r, rows'))
      | Some (applied, e) \<Rightarrow> (Inl e, if applied then snd (stmt rows) else rows))"

text \<open>\<open>Updates\<close> and \<open>Delete\<close> with the number of affected rows, and \<open>First\<close>.\<close>

definition updateRows ::
  "(AgentWorkflow \<Rightarrow> bool) \<Rightarrow> (AgentWorkflow \<Rightarrow> AgentWorkflow) \<Rightarrow> workflowTable \<Rightarrow> nat \<times> workflowTable" where
  "updateRows p g rows = (length (filter p rows), map (\<lambda>r. if p r then g r else r) rows)"

definition deleteRows :: "(AgentWorkflow \<Rightarrow> bool) \<Rightarrow> workflowTable \<Rightarrow> nat \<times> workflowTable" where
  "deleteRows p rows = (length (filter p rows), filter (\<lambda>r. \<not> p r) rows)"

definition firstRow :: "(AgentWorkflow \<Rightarrow> bool) \<Rightarrow> workflowTable \<Rightarrow> AgentWorkflow option \<times> workflowTable" where
  "firstRow p rows = (find p rows, rows)"

definition workflowKeyWhere :: "WorkflowKey \<Rightarrow> AgentWorkflow \<Rightarrow> bool" where
  "workflowKeyWhere key r \<longleftrightarrow>
     AW_TenantID r = WK_TenantID key \<and> AW_ConversationID r = WK_ConversationID key
     \<and> AW_ActorUserID r = WK_ActorUserID key"

definition idleExecutionPredicate :: "AgentWorkflow \<Rightarrow> bool" where
  "idleExecutionPredicate r \<longleftrightarrow>
     AW_ExecutionStatus r = AgentWorkflowExecutionIdle \<and> AW_ExecutionToken r = None
     \<and> AW_ExecutionOperation r = None \<and> AW_BusinessKey r = None \<and> AW_RequestID r = None
     \<and> AW_ExecutionRequestSchemaVersion r = None \<and> AW_ExecutionRequestJSON r = None
     \<and> AW_ExecutionResultSchemaVersion r = None \<and> AW_ExecutionResultJSON r = None
     \<and> AW_WriteEffect r = None \<and> AW_LeaseExpiresAt r = None"

text \<open>The unique index \<open>uk_agent_workflow_key\<close> refuses a second row with the key; a row is kept
  with its times as the columns round them.\<close>

definition columnRow :: "dbEnv \<Rightarrow> AgentWorkflow \<Rightarrow> AgentWorkflow" where
  "columnRow env r =
     r\<lparr>AW_LeaseExpiresAt := map_option (DE_Column env) (AW_LeaseExpiresAt r),
       AW_ExpiresAt := DE_Column env (AW_ExpiresAt r), AW_CreatedAt := DE_Column env (AW_CreatedAt r),
       AW_UpdatedAt := DE_Column env (AW_UpdatedAt r)\<rparr>"

definition keyFromWorkflow :: "AgentWorkflow \<Rightarrow> WorkflowKey" where
  "keyFromWorkflow r =
     \<lparr>WK_TenantID = AW_TenantID r, WK_ConversationID = AW_ConversationID r, WK_ActorUserID = AW_ActorUserID r\<rparr>"

definition insertRow :: "dbEnv \<Rightarrow> AgentWorkflow \<Rightarrow> workflowTable \<Rightarrow> bool \<times> workflowTable" where
  "insertRow env r rows =
     (if list_ex (workflowKeyWhere (keyFromWorkflow r)) rows then (False, rows)
      else (True, rows @ [columnRow env r]))"

section \<open>The repository\<close>

definition requireOneRow :: "(agentError + nat) \<times> workflowTable \<Rightarrow> (agentError + unit) \<times> workflowTable" where
  "requireOneRow res =
     (case res of
        (Inl e, rows) \<Rightarrow> (Inl e, rows)
      | (Inr n, rows) \<Rightarrow> (if n \<noteq> 1 then Inl ErrAgentWorkflowConflict else Inr (), rows))"

text \<open>\<open>requireOneCreatedRow\<close> with \<open>mapAgentWorkflowCreateError\<close>: a duplicate key is a conflict.
  On success the created row is what the caller's pointer now shows.\<close>

definition requireOneCreatedRow ::
  "AgentWorkflow \<Rightarrow> (agentError + bool) \<times> workflowTable \<Rightarrow> (agentError + AgentWorkflow) \<times> workflowTable" where
  "requireOneCreatedRow created res =
     (case res of
        (Inl e, rows) \<Rightarrow> (Inl e, rows)
      | (Inr done_, rows) \<Rightarrow> (if done_ then Inr created else Inl ErrAgentWorkflowConflict, rows))"

definition repo_validate :: "dbEnv \<Rightarrow> WorkflowKey \<Rightarrow> agentError option" where
  "repo_validate env key =
     (case tenantIDFrom (DE_Ctx env) of
        None \<Rightarrow> Some agentError.ErrTenantMissing
      | Some tenant \<Rightarrow>
          if tenant \<noteq> WK_TenantID key then Some ErrAgentWorkflowTenantMismatch
          else if WK_TenantID key = 0 \<or> trimSpace (WK_ConversationID key) = []
          then Some (Errorf ''repository: agent workflow key is incomplete'') else None)"

definition validateMutation :: "dbEnv \<Rightarrow> WorkflowKey \<Rightarrow> 64 word \<Rightarrow> agentError option" where
  "validateMutation env key expected =
     (case repo_validate env key of
        Some e \<Rightarrow> Some e
      | None \<Rightarrow>
          if expected = 0 then Some (Errorf ''repository: expected workflow version is zero'') else None)"

definition validateReservation :: "AgentWorkflowReservation \<Rightarrow> agentError option" where
  "validateReservation r =
     (if trimSpace (AR_ExecutionToken r) = [] \<or> trimSpace (AR_ExecutionOperation r) = []
         \<or> trimSpace (AR_BusinessKey r) = [] \<or> trimSpace (AR_RequestID r) = []
         \<or> AR_RequestSchemaVersion r = 0 \<or> trimSpace (AR_RequestJSON r) = [] \<or> AR_LeaseExpiresAt r = 0
      then Some (Errorf ''repository: execution reservation is incomplete'') else None)"

definition validateSnapshotUpdate :: "AgentWorkflowSnapshotUpdate \<Rightarrow> agentError option" where
  "validateSnapshotUpdate u =
     (if trimSpace (SU_WorkflowID u) = [] \<or> trimSpace (SU_WorkflowType u) = []
         \<or> trimSpace (SU_WorkflowState u) = [] \<or> SU_SnapshotSchemaVersion u = 0
         \<or> trimSpace (SU_SnapshotJSON u) = [] \<or> SU_ExpiresAt u = 0
      then Some (Errorf ''repository: workflow snapshot update is incomplete'') else None)"

definition validateWorkflowForCreate :: "AgentWorkflow \<Rightarrow> agentError option" where
  "validateWorkflowForCreate r =
     validateSnapshotUpdate
       \<lparr>SU_WorkflowID = AW_WorkflowID r, SU_WorkflowType = AW_WorkflowType r,
        SU_WorkflowState = AW_WorkflowState r, SU_SnapshotSchemaVersion = AW_SnapshotSchemaVersion r,
        SU_SnapshotJSON = AW_SnapshotJSON r, SU_ExpiresAt = AW_ExpiresAt r\<rparr>"

definition clearExecutionUpdates :: "AgentWorkflow \<Rightarrow> AgentWorkflow" where
  "clearExecutionUpdates r =
     r\<lparr>AW_ExecutionToken := None, AW_ExecutionOperation := None, AW_BusinessKey := None,
       AW_RequestID := None, AW_ExecutionRequestSchemaVersion := None, AW_ExecutionRequestJSON := None,
       AW_ExecutionResultSchemaVersion := None, AW_ExecutionResultJSON := None,
       AW_WriteEffect := None, AW_LeaseExpiresAt := None\<rparr>"

definition prepareNewWorkflow :: "string \<Rightarrow> AgentWorkflow \<Rightarrow> AgentWorkflow" where
  "prepareNewWorkflow status r =
     (let r' = r\<lparr>AW_Version := 1,
                 AW_SnapshotSchemaVersion := (if AW_SnapshotSchemaVersion r = 0 then 1
                                              else AW_SnapshotSchemaVersion r),
                 AW_ExecutionStatus := status\<rparr>
      in if status = AgentWorkflowExecutionIdle then clearExecutionUpdates r' else r')"

text \<open>A reservation and a snapshot as columns; \<open>column\<close> is the rounding of a statement, the
  identity on a row still in memory.\<close>

definition addReservationUpdates ::
  "(instant \<Rightarrow> instant) \<Rightarrow> AgentWorkflowReservation \<Rightarrow> AgentWorkflow \<Rightarrow> AgentWorkflow" where
  "addReservationUpdates column v r =
     r\<lparr>AW_ExecutionToken := Some (AR_ExecutionToken v),
       AW_ExecutionOperation := Some (AR_ExecutionOperation v),
       AW_BusinessKey := Some (AR_BusinessKey v), AW_RequestID := Some (AR_RequestID v),
       AW_ExecutionRequestSchemaVersion := Some (AR_RequestSchemaVersion v),
       AW_ExecutionRequestJSON := Some (AR_RequestJSON v), AW_LeaseExpiresAt := Some (column (AR_LeaseExpiresAt v))\<rparr>"

definition clearResult :: "AgentWorkflow \<Rightarrow> AgentWorkflow" where
  "clearResult r =
     r\<lparr>AW_ExecutionResultSchemaVersion := None, AW_ExecutionResultJSON := None, AW_WriteEffect := None\<rparr>"

definition applyReservationToWorkflow :: "AgentWorkflowReservation \<Rightarrow> AgentWorkflow \<Rightarrow> AgentWorkflow" where
  "applyReservationToWorkflow v r = clearResult (addReservationUpdates (\<lambda>t. t) v r)"

definition snapshotUpdates ::
  "(instant \<Rightarrow> instant) \<Rightarrow> AgentWorkflowSnapshotUpdate \<Rightarrow> AgentWorkflow \<Rightarrow> AgentWorkflow" where
  "snapshotUpdates column u r =
     r\<lparr>AW_WorkflowID := SU_WorkflowID u, AW_WorkflowType := SU_WorkflowType u,
       AW_WorkflowState := SU_WorkflowState u, AW_SnapshotSchemaVersion := SU_SnapshotSchemaVersion u,
       AW_SnapshotJSON := SU_SnapshotJSON u, AW_ExpiresAt := column (SU_ExpiresAt u)\<rparr>"

text \<open>Every update counts the version up, and the ORM stamps \<open>updated_at\<close>.\<close>

definition written :: "dbEnv \<Rightarrow> AgentWorkflow \<Rightarrow> AgentWorkflow" where
  "written env r = r\<lparr>AW_Version := AW_Version r + 1, AW_UpdatedAt := DE_Column env (DE_Stamp env)\<rparr>"

text \<open>The ORM gives a created row its key and fills a zero \<open>created_at\<close> or \<open>updated_at\<close>.\<close>

definition stampCreated :: "dbEnv \<Rightarrow> AgentWorkflow \<Rightarrow> AgentWorkflow" where
  "stampCreated env r =
     r\<lparr>AW_ID := DE_NextID env,
       AW_CreatedAt := (if AW_CreatedAt r = 0 then DE_Stamp env else AW_CreatedAt r),
       AW_UpdatedAt := (if AW_UpdatedAt r = 0 then DE_Stamp env else AW_UpdatedAt r)\<rparr>"

definition setStatus :: "string \<Rightarrow> AgentWorkflow \<Rightarrow> AgentWorkflow" where
  "setStatus status r = r\<lparr>AW_ExecutionStatus := status\<rparr>"

definition resultUpdates :: "AgentWorkflowExecutionResult \<Rightarrow> AgentWorkflow \<Rightarrow> AgentWorkflow" where
  "resultUpdates x r =
     r\<lparr>AW_ExecutionStatus := AgentWorkflowExecutionResultRecorded,
       AW_ExecutionResultSchemaVersion := Some (AX_ResultSchemaVersion x),
       AW_ExecutionResultJSON := Some (AX_ResultJSON x),
       AW_WriteEffect := (if trimSpace (AX_WriteEffect x) = [] then None else Some (AX_WriteEffect x))\<rparr>"

definition deferralUpdates :: "dbEnv \<Rightarrow> instant \<Rightarrow> AgentWorkflow \<Rightarrow> AgentWorkflow" where
  "deferralUpdates env retryAt r =
     r\<lparr>AW_ExecutionStatus := AgentWorkflowExecutionRecoveryRequired,
       AW_LeaseExpiresAt := Some (DE_Column env retryAt)\<rparr>"

text \<open>\<open>lease_expires_at IS NOT NULL AND lease_expires_at <= ?\<close>\<close>

definition leaseExpired :: "instant \<Rightarrow> AgentWorkflow \<Rightarrow> bool" where
  "leaseExpired now r \<longleftrightarrow> (case AW_LeaseExpiresAt r of None \<Rightarrow> False | Some t \<Rightarrow> t \<le> now)"

text \<open>The methods; \<open>n\<close> is the number of the statement within the call.\<close>

definition repo_Load ::
  "dbEnv \<Rightarrow> nat \<Rightarrow> WorkflowKey \<Rightarrow> workflowTable \<Rightarrow> agentError + AgentWorkflow option" where
  "repo_Load env n key rows =
     (case repo_validate env key of
        Some e \<Rightarrow> Inl e
      | None \<Rightarrow> fst (runStatement env n (firstRow (workflowKeyWhere key)) rows))"

definition repo_Create ::
  "dbEnv \<Rightarrow> nat \<Rightarrow> AgentWorkflow option \<Rightarrow> workflowTable \<Rightarrow> (agentError + AgentWorkflow) \<times> workflowTable" where
  "repo_Create env n workflow rows =
     (case workflow of
        None \<Rightarrow> (Inl (Errorf ''repository: agent workflow is nil''), rows)
      | Some w \<Rightarrow>
          (case (repo_validate env (keyFromWorkflow w), validateWorkflowForCreate w) of
             (Some e, _) \<Rightarrow> (Inl e, rows)
           | (None, Some e) \<Rightarrow> (Inl e, rows)
           | (None, None) \<Rightarrow>
               let created = stampCreated env (prepareNewWorkflow AgentWorkflowExecutionIdle w)
               in requireOneCreatedRow created (runStatement env n (insertRow env created) rows)))"

definition repo_CompareAndSwap ::
  "dbEnv \<Rightarrow> nat \<Rightarrow> WorkflowKey \<Rightarrow> 64 word \<Rightarrow> AgentWorkflowSnapshotUpdate \<Rightarrow> workflowTable
     \<Rightarrow> (agentError + unit) \<times> workflowTable" where
  "repo_CompareAndSwap env n key expected u rows =
     (case (validateMutation env key expected, validateSnapshotUpdate u) of
        (Some e, _) \<Rightarrow> (Inl e, rows)
      | (None, Some e) \<Rightarrow> (Inl e, rows)
      | (None, None) \<Rightarrow>
          requireOneRow (runStatement env n
            (updateRows (\<lambda>r. workflowKeyWhere key r \<and> AW_Version r = expected \<and> idleExecutionPredicate r)
               (written env \<circ> snapshotUpdates (DE_Column env) u)) rows))"

definition repo_DeleteIfVersion ::
  "dbEnv \<Rightarrow> nat \<Rightarrow> WorkflowKey \<Rightarrow> 64 word \<Rightarrow> workflowTable \<Rightarrow> (agentError + unit) \<times> workflowTable" where
  "repo_DeleteIfVersion env n key expected rows =
     (case validateMutation env key expected of
        Some e \<Rightarrow> (Inl e, rows)
      | None \<Rightarrow>
          requireOneRow (runStatement env n
            (deleteRows (\<lambda>r. workflowKeyWhere key r \<and> AW_Version r = expected \<and> idleExecutionPredicate r))
            rows))"

definition repo_CreateReservedExecution ::
  "dbEnv \<Rightarrow> nat \<Rightarrow> AgentWorkflow option \<Rightarrow> AgentWorkflowReservation \<Rightarrow> workflowTable
     \<Rightarrow> (agentError + AgentWorkflow) \<times> workflowTable" where
  "repo_CreateReservedExecution env n workflow v rows =
     (case workflow of
        None \<Rightarrow> (Inl (Errorf ''repository: agent workflow is nil''), rows)
      | Some w \<Rightarrow>
          (case (repo_validate env (keyFromWorkflow w), validateWorkflowForCreate w, validateReservation v) of
             (Some e, _) \<Rightarrow> (Inl e, rows)
           | (None, Some e, _) \<Rightarrow> (Inl e, rows)
           | (None, None, Some e) \<Rightarrow> (Inl e, rows)
           | (None, None, None) \<Rightarrow>
               let created = stampCreated env (applyReservationToWorkflow v
                               (prepareNewWorkflow AgentWorkflowExecutionExecuting w))
               in requireOneCreatedRow created (runStatement env n (insertRow env created) rows)))"

definition repo_ReserveExecution ::
  "dbEnv \<Rightarrow> nat \<Rightarrow> WorkflowKey \<Rightarrow> 64 word \<Rightarrow> AgentWorkflowSnapshotUpdate \<Rightarrow> AgentWorkflowReservation
     \<Rightarrow> workflowTable \<Rightarrow> (agentError + unit) \<times> workflowTable" where
  "repo_ReserveExecution env n key expected u v rows =
     (case (validateMutation env key expected, validateSnapshotUpdate u, validateReservation v) of
        (Some e, _) \<Rightarrow> (Inl e, rows)
      | (None, Some e, _) \<Rightarrow> (Inl e, rows)
      | (None, None, Some e) \<Rightarrow> (Inl e, rows)
      | (None, None, None) \<Rightarrow>
          requireOneRow (runStatement env n
            (updateRows (\<lambda>r. workflowKeyWhere key r \<and> AW_Version r = expected \<and> idleExecutionPredicate r)
               (written env \<circ> clearResult \<circ> setStatus AgentWorkflowExecutionExecuting
                  \<circ> addReservationUpdates (DE_Column env) v \<circ> snapshotUpdates (DE_Column env) u)) rows))"

definition repo_RecordExecutionResult ::
  "dbEnv \<Rightarrow> nat \<Rightarrow> WorkflowKey \<Rightarrow> 64 word \<Rightarrow> string \<Rightarrow> AgentWorkflowExecutionResult \<Rightarrow> workflowTable
     \<Rightarrow> (agentError + unit) \<times> workflowTable" where
  "repo_RecordExecutionResult env n key expected token x rows =
     (case validateMutation env key expected of
        Some e \<Rightarrow> (Inl e, rows)
      | None \<Rightarrow>
          if trimSpace token = [] then (Inl (Errorf ''repository: execution token is empty''), rows)
          else if AX_ResultSchemaVersion x = 0 \<or> trimSpace (AX_ResultJSON x) = []
                  \<or> trimSpace (AX_BusinessKey x) = [] \<or> trimSpace (AX_WriteEffect x) = []
                  \<or> AX_CompletedAt x = 0
          then (Inl (Errorf ''repository: execution result is incomplete''), rows)
          else
            requireOneRow (runStatement env n
              (updateRows (\<lambda>r. workflowKeyWhere key r \<and> AW_Version r = expected
                   \<and> AW_ExecutionStatus r = AgentWorkflowExecutionExecuting
                   \<and> AW_ExecutionToken r = Some token \<and> AW_BusinessKey r = Some (AX_BusinessKey x)
                   \<and> AW_LeaseExpiresAt r \<noteq> None \<and> AW_ExecutionRequestSchemaVersion r \<noteq> None
                   \<and> AW_ExecutionRequestJSON r \<noteq> None)
                 (written env \<circ> resultUpdates x)) rows))"

definition repo_FinalizeExecution ::
  "dbEnv \<Rightarrow> nat \<Rightarrow> WorkflowKey \<Rightarrow> 64 word \<Rightarrow> string \<Rightarrow> AgentWorkflowSnapshotUpdate \<Rightarrow> workflowTable
     \<Rightarrow> (agentError + unit) \<times> workflowTable" where
  "repo_FinalizeExecution env n key expected token u rows =
     (case (validateMutation env key expected, validateSnapshotUpdate u) of
        (Some e, _) \<Rightarrow> (Inl e, rows)
      | (None, Some e) \<Rightarrow> (Inl e, rows)
      | (None, None) \<Rightarrow>
          if trimSpace token = [] then (Inl (Errorf ''repository: execution token is empty''), rows)
          else
            requireOneRow (runStatement env n
              (updateRows (\<lambda>r. workflowKeyWhere key r \<and> AW_Version r = expected
                   \<and> AW_ExecutionStatus r = AgentWorkflowExecutionResultRecorded
                   \<and> AW_ExecutionToken r = Some token \<and> AW_ExecutionResultSchemaVersion r \<noteq> None
                   \<and> AW_ExecutionResultJSON r \<noteq> None)
                 (written env \<circ> setStatus AgentWorkflowExecutionIdle \<circ> clearExecutionUpdates
                    \<circ> snapshotUpdates (DE_Column env) u)) rows))"

definition repo_DeleteReservedExecution ::
  "dbEnv \<Rightarrow> nat \<Rightarrow> WorkflowKey \<Rightarrow> 64 word \<Rightarrow> string \<Rightarrow> workflowTable
     \<Rightarrow> (agentError + unit) \<times> workflowTable" where
  "repo_DeleteReservedExecution env n key expected token rows =
     (case validateMutation env key expected of
        Some e \<Rightarrow> (Inl e, rows)
      | None \<Rightarrow>
          if trimSpace token = [] then (Inl (Errorf ''repository: execution token is empty''), rows)
          else
            requireOneRow (runStatement env n
              (deleteRows (\<lambda>r. workflowKeyWhere key r \<and> AW_Version r = expected
                   \<and> AW_ExecutionToken r = Some token
                   \<and> AW_ExecutionStatus r = AgentWorkflowExecutionResultRecorded
                   \<and> AW_ExecutionResultSchemaVersion r \<noteq> None \<and> AW_ExecutionResultJSON r \<noteq> None)) rows))"

definition repo_TakeoverExpiredExecution ::
  "dbEnv \<Rightarrow> nat \<Rightarrow> WorkflowKey \<Rightarrow> 64 word \<Rightarrow> string \<Rightarrow> instant \<Rightarrow> AgentWorkflowReservation
     \<Rightarrow> workflowTable \<Rightarrow> (agentError + unit) \<times> workflowTable" where
  "repo_TakeoverExpiredExecution env n key expected previous expiredBefore v rows =
     (case validateMutation env key expected of
        Some e \<Rightarrow> (Inl e, rows)
      | None \<Rightarrow>
          if trimSpace previous = [] \<or> expiredBefore = 0
          then (Inl (Errorf ''repository: takeover predicate is incomplete''), rows)
          else (case validateReservation v of
            Some e \<Rightarrow> (Inl e, rows)
          | None \<Rightarrow>
              requireOneRow (runStatement env n
                (updateRows (\<lambda>r. workflowKeyWhere key r \<and> AW_Version r = expected
                     \<and> AW_ExecutionToken r = Some previous
                     \<and> AW_ExecutionStatus r \<in> {AgentWorkflowExecutionExecuting,
                                                 AgentWorkflowExecutionRecoveryRequired}
                     \<and> AW_ExecutionOperation r = Some (AR_ExecutionOperation v)
                     \<and> AW_BusinessKey r = Some (AR_BusinessKey v)
                     \<and> AW_ExecutionRequestSchemaVersion r \<noteq> None \<and> AW_ExecutionRequestJSON r \<noteq> None
                     \<and> leaseExpired expiredBefore r)
                   (written env \<circ> clearResult \<circ> setStatus AgentWorkflowExecutionExecuting
                      \<circ> addReservationUpdates (DE_Column env) v)) rows)))"

definition repo_ListRecoverableExecutions ::
  "dbEnv \<Rightarrow> nat \<Rightarrow> instant \<Rightarrow> int \<Rightarrow> workflowTable \<Rightarrow> agentError + AgentWorkflow list" where
  "repo_ListRecoverableExecutions env n now limit rows =
     (case CE_Err env of
        Some e \<Rightarrow> Inl e
      | None \<Rightarrow>
          if now = 0 \<or> limit \<le> 0 \<or> 100 < limit
          then Inl (Errorf ''repository: invalid workflow recovery scan'')
          else fst (runStatement env n (\<lambda>rows.
            (take (nat limit) (sort_key AW_UpdatedAt (filter (\<lambda>r.
               AW_ExecutionStatus r = AgentWorkflowExecutionResultRecorded
               \<or> AW_ExecutionStatus r \<in> {AgentWorkflowExecutionExecuting,
                                            AgentWorkflowExecutionRecoveryRequired}
                 \<and> leaseExpired now r) rows)), rows)) rows))"

definition repo_MarkExecutionRecoveryRequired ::
  "dbEnv \<Rightarrow> nat \<Rightarrow> WorkflowKey \<Rightarrow> 64 word \<Rightarrow> string \<Rightarrow> instant \<Rightarrow> workflowTable
     \<Rightarrow> (agentError + unit) \<times> workflowTable" where
  "repo_MarkExecutionRecoveryRequired env n key expected token retryAt rows =
     (case validateMutation env key expected of
        Some e \<Rightarrow> (Inl e, rows)
      | None \<Rightarrow>
          if trimSpace token = [] \<or> retryAt = 0
          then (Inl (Errorf ''repository: recovery deferral predicate is incomplete''), rows)
          else
            requireOneRow (runStatement env n
              (updateRows (\<lambda>r. workflowKeyWhere key r \<and> AW_Version r = expected
                   \<and> AW_ExecutionToken r = Some token
                   \<and> AW_ExecutionStatus r = AgentWorkflowExecutionExecuting)
                 (written env \<circ> deferralUpdates env retryAt)) rows))"

section \<open>Encoding and decoding of rows\<close>

definition workflowCodecVersion :: nat where "workflowCodecVersion = 1"

definition statusOf :: "string \<Rightarrow> executionStatus" where
  "statusOf s =
     (if s = AgentWorkflowExecutionExecuting then WorkflowExecutionExecuting
      else if s = AgentWorkflowExecutionResultRecorded then WorkflowExecutionResultRecorded
      else if s = AgentWorkflowExecutionRecoveryRequired then WorkflowExecutionRecoveryRequired
      else OtherStatus s)"

definition hasAnyExecutionAuthority :: "AgentWorkflow \<Rightarrow> bool" where
  "hasAnyExecutionAuthority r \<longleftrightarrow>
     AW_ExecutionToken r \<noteq> None \<or> AW_ExecutionOperation r \<noteq> None \<or> AW_BusinessKey r \<noteq> None
     \<or> AW_RequestID r \<noteq> None \<or> AW_ExecutionRequestSchemaVersion r \<noteq> None
     \<or> AW_ExecutionRequestJSON r \<noteq> None \<or> AW_ExecutionResultSchemaVersion r \<noteq> None
     \<or> AW_ExecutionResultJSON r \<noteq> None \<or> AW_WriteEffect r \<noteq> None \<or> AW_LeaseExpiresAt r \<noteq> None"

text \<open>The reservation of an active row, and its result, as the columns must show them.\<close>

definition decodeReservation :: "AgentWorkflow \<Rightarrow> agentError + ReservedExecutionV1" where
  "decodeReservation r =
     (case (AW_ExecutionToken r, AW_ExecutionOperation r, AW_BusinessKey r, AW_RequestID r,
            AW_ExecutionRequestSchemaVersion r, AW_ExecutionRequestJSON r, AW_LeaseExpiresAt r) of
        (Some token, Some operation, Some key, Some request, Some schema, Some payload, Some lease) \<Rightarrow>
          if schema \<noteq> workflowCodecVersion
          then Inl (Errorf ''unsupported execution request schema version'')
          else (case UnmarshalReservedExecution payload of
                  Inl e \<Rightarrow> Inl e
                | Inr v \<Rightarrow>
                    if RE_ExecutionToken v \<noteq> token \<or> RE_Operation v \<noteq> operation
                       \<or> RE_BusinessKey v \<noteq> key \<or> RE_AttemptRequestID v \<noteq> request
                       \<or> RE_LeaseExpiresAt v \<noteq> normalizeWorkflowDatabaseTime lease
                    then Inl (Errorf ''execution request projection mismatch'') else Inr v)
      | _ \<Rightarrow> Inl (Errorf ''active workflow is missing execution authority''))"

definition decodeResult :: "AgentWorkflow \<Rightarrow> agentError + PersistedExecutionResultV1 option" where
  "decodeResult r =
     (let hasResult = AW_ExecutionResultSchemaVersion r \<noteq> None \<or> AW_ExecutionResultJSON r \<noteq> None
                      \<or> AW_WriteEffect r \<noteq> None in
      if AW_ExecutionStatus r = AgentWorkflowExecutionExecuting \<and> hasResult
      then Inl (Errorf ''executing workflow contains result authority'')
      else if AW_ExecutionStatus r = AgentWorkflowExecutionResultRecorded \<and> \<not> hasResult
      then Inl (Errorf ''recorded execution is missing result authority'')
      else if \<not> hasResult then Inr None
      else (case (AW_ExecutionResultSchemaVersion r, AW_ExecutionResultJSON r, AW_WriteEffect r) of
              (Some schema, Some payload, Some effect) \<Rightarrow>
                if schema \<noteq> workflowCodecVersion
                then Inl (Errorf ''unsupported execution result schema version'')
                else (case UnmarshalPersistedExecutionResult payload of
                        Inl e \<Rightarrow> Inl e
                      | Inr x \<Rightarrow>
                          if Some (PR_BusinessKey x) \<noteq> AW_BusinessKey r \<or> effectText (PR_WriteEffect x) \<noteq> effect
                          then Inl (Errorf ''execution result projection mismatch'') else Inr (Some x))
            | _ \<Rightarrow> Inl (Errorf ''execution contains partial result authority'')))"

definition decodeExecution :: "AgentWorkflow \<Rightarrow> agentError + PersistedExecutionV1 option" where
  "decodeExecution r =
     (if AW_ExecutionStatus r = AgentWorkflowExecutionIdle
      then (if hasAnyExecutionAuthority r then Inl (Errorf ''idle workflow contains execution authority'')
            else Inr None)
      else if AW_ExecutionStatus r \<notin> {AgentWorkflowExecutionExecuting,
                AgentWorkflowExecutionResultRecorded, AgentWorkflowExecutionRecoveryRequired}
      then Inl (Errorf (''unsupported execution status '' @ AW_ExecutionStatus r))
      else (case decodeReservation r of
              Inl e \<Rightarrow> Inl e
            | Inr v \<Rightarrow>
                (case decodeResult r of
                   Inl e \<Rightarrow> Inl e
                 | Inr x \<Rightarrow> Inr (Some \<lparr>PE_Status = statusOf (AW_ExecutionStatus r),
                                     PE_Reservation = v, PE_Result = x\<rparr>))))"

text \<open>The checked snapshot of a row, before the columns are put into it.\<close>

definition decodeRowSnapshot :: "AgentWorkflow \<Rightarrow> agentError + WorkflowSnapshot" where
  "decodeRowSnapshot r =
     (if AW_SnapshotSchemaVersion r \<noteq> workflowCodecVersion
      then Inl (Errorf (''unsupported workflow snapshot schema version ''
                        @ itoa (int (AW_SnapshotSchemaVersion r))))
      else (case UnmarshalWorkflowSnapshot (AW_SnapshotJSON r) of
              Inl e \<Rightarrow> Inl e
            | Inr w \<Rightarrow>
                if WF_ID w \<noteq> AW_WorkflowID r \<or> WF_Type w \<noteq> AW_WorkflowType r
                   \<or> stateText (WF_State w) \<noteq> AW_WorkflowState r
                then Inl (Errorf ''workflow snapshot projection mismatch'')
                else if WF_TenantID w \<noteq> AW_TenantID r \<or> WF_ConversationID w \<noteq> AW_ConversationID r
                        \<or> WF_ActorUserID w \<noteq> AW_ActorUserID r
                then Inl (Errorf ''workflow snapshot identity does not match database key'')
                else Inr w))"

definition decodeAgentWorkflowRow :: "AgentWorkflow option \<Rightarrow> storeResult" where
  "decodeAgentWorkflowRow row =
     (case row of
        None \<Rightarrow> Inr None
      | Some r \<Rightarrow>
          (case decodeRowSnapshot r of
             Inl e \<Rightarrow> Inl e
           | Inr w \<Rightarrow>
               let snapshot = w\<lparr>WF_TenantID := AW_TenantID r, WF_ConversationID := AW_ConversationID r,
                                WF_ActorUserID := AW_ActorUserID r, WF_Version := AW_Version r,
                                WF_CreatedAt := AW_CreatedAt r, WF_UpdatedAt := AW_UpdatedAt r,
                                WF_ExpiresAt := AW_ExpiresAt r\<rparr>
               in (case decodeExecution r of
                     Inl e \<Rightarrow> Inl e
                   | Inr execution \<Rightarrow>
                       Inr (Some \<lparr>VW_Snapshot = snapshot, VW_Version = AW_Version r,
                                  VW_Execution = execution\<rparr>))))"

text \<open>The snapshot as \<open>encodeSnapshotUpdate\<close> completes it before it is marshalled.\<close>

definition completedSnapshot :: "instant \<Rightarrow> WorkflowKey \<Rightarrow> WorkflowSnapshot \<Rightarrow> WorkflowSnapshot" where
  "completedSnapshot clock key w =
     (let now = normalizeWorkflowDatabaseTime clock in
      w\<lparr>WF_TenantID := WK_TenantID key, WF_ConversationID := WK_ConversationID key,
        WF_ActorUserID := WK_ActorUserID key,
        WF_CreatedAt := (if WF_CreatedAt w = 0 then now else WF_CreatedAt w),
        WF_UpdatedAt := now,
        WF_ExpiresAt := (if WF_ExpiresAt w = 0 then now + 30 * minute else WF_ExpiresAt w)\<rparr>)"

definition encodeSnapshotUpdate ::
  "instant \<Rightarrow> WorkflowKey \<Rightarrow> WorkflowSnapshot option
     \<Rightarrow> agentError + AgentWorkflowSnapshotUpdate \<times> WorkflowSnapshot" where
  "encodeSnapshotUpdate clock key snapshot =
     (case snapshot of
        None \<Rightarrow> Inl (Errorf ''workflow snapshot is required'')
      | Some w \<Rightarrow>
          (case MarshalWorkflowSnapshot (Some (completedSnapshot clock key w)) of
             Inl e \<Rightarrow> Inl e
           | Inr payload \<Rightarrow>
               (case UnmarshalWorkflowSnapshot payload of
                  Inl e \<Rightarrow> Inl e
                | Inr canonical \<Rightarrow>
                    Inr (\<lparr>SU_WorkflowID = WF_ID canonical, SU_WorkflowType = WF_Type canonical,
                          SU_WorkflowState = stateText (WF_State canonical),
                          SU_SnapshotSchemaVersion = workflowCodecVersion, SU_SnapshotJSON = payload,
                          SU_ExpiresAt = WF_ExpiresAt canonical\<rparr>, canonical))))"

definition encodeAgentWorkflowRow ::
  "instant \<Rightarrow> WorkflowKey \<Rightarrow> WorkflowSnapshot option \<Rightarrow> agentError + AgentWorkflow" where
  "encodeAgentWorkflowRow clock key snapshot =
     (case encodeSnapshotUpdate clock key snapshot of
        Inl e \<Rightarrow> Inl e
      | Inr (u, w) \<Rightarrow>
          Inr \<lparr>AW_ID = 0, AW_TenantID = WK_TenantID key, AW_ConversationID = WK_ConversationID key,
               AW_ActorUserID = WK_ActorUserID key, AW_WorkflowID = SU_WorkflowID u,
               AW_WorkflowType = SU_WorkflowType u, AW_WorkflowState = SU_WorkflowState u,
               AW_Version = 1, AW_SnapshotSchemaVersion = SU_SnapshotSchemaVersion u,
               AW_SnapshotJSON = SU_SnapshotJSON u, AW_ExecutionStatus = AgentWorkflowExecutionIdle,
               AW_ExecutionToken = None, AW_ExecutionOperation = None, AW_BusinessKey = None,
               AW_RequestID = None, AW_ExecutionRequestSchemaVersion = None,
               AW_ExecutionRequestJSON = None, AW_ExecutionResultSchemaVersion = None,
               AW_ExecutionResultJSON = None, AW_WriteEffect = None, AW_LeaseExpiresAt = None,
               AW_ExpiresAt = WF_ExpiresAt w, AW_CreatedAt = WF_CreatedAt w,
               AW_UpdatedAt = WF_UpdatedAt w\<rparr>)"

definition encodeRepositoryReservation ::
  "ReservedExecutionV1 \<Rightarrow> agentError + AgentWorkflowReservation \<times> ReservedExecutionV1" where
  "encodeRepositoryReservation reservation =
     (case MarshalReservedExecution reservation of
        Inl e \<Rightarrow> Inl e
      | Inr payload \<Rightarrow>
          (case UnmarshalReservedExecution payload of
             Inl e \<Rightarrow> Inl e
           | Inr v \<Rightarrow>
               Inr (\<lparr>AR_ExecutionToken = RE_ExecutionToken v, AR_ExecutionOperation = RE_Operation v,
                     AR_BusinessKey = RE_BusinessKey v, AR_RequestID = RE_AttemptRequestID v,
                     AR_RequestSchemaVersion = workflowCodecVersion, AR_RequestJSON = payload,
                     AR_LeaseExpiresAt = RE_LeaseExpiresAt v\<rparr>, v)))"

definition versionedSnapshot ::
  "WorkflowSnapshot \<Rightarrow> 64 word \<Rightarrow> PersistedExecutionV1 option \<Rightarrow> VersionedWorkflow" where
  "versionedSnapshot w version execution =
     \<lparr>VW_Snapshot = w\<lparr>WF_Version := version\<rparr>, VW_Version = version, VW_Execution = execution\<rparr>"

section \<open>The store\<close>

definition mapWorkflowRepositoryError :: "agentError \<Rightarrow> agentError" where
  "mapWorkflowRepositoryError err =
     (if errorIs err ErrAgentWorkflowConflict then ErrWorkflowConflict else err)"

text \<open>A conflict is looked at again, with one more statement, to tell a write in progress from a
  lost race.\<close>

definition mapConflict ::
  "dbEnv \<Rightarrow> nat \<Rightarrow> WorkflowKey \<Rightarrow> (AgentWorkflow \<Rightarrow> bool) \<Rightarrow> workflowTable \<Rightarrow> agentError \<Rightarrow> agentError" where
  "mapConflict env n key inProgress rows err =
     (if \<not> errorIs err ErrAgentWorkflowConflict then err
      else (case repo_Load env n key rows of
              Inr (Some r) \<Rightarrow> if inProgress r then ErrExecutionInProgress else ErrWorkflowConflict
            | _ \<Rightarrow> ErrWorkflowConflict))"

definition mapIdleMutationError ::
  "dbEnv \<Rightarrow> nat \<Rightarrow> WorkflowKey \<Rightarrow> 64 word \<Rightarrow> workflowTable \<Rightarrow> agentError \<Rightarrow> agentError" where
  "mapIdleMutationError env n key expected =
     mapConflict env n key (\<lambda>r. AW_Version r = expected \<and> AW_ExecutionStatus r \<noteq> AgentWorkflowExecutionIdle)"

definition mapFinalizeError ::
  "dbEnv \<Rightarrow> nat \<Rightarrow> WorkflowKey \<Rightarrow> 64 word \<Rightarrow> string \<Rightarrow> workflowTable \<Rightarrow> agentError \<Rightarrow> agentError" where
  "mapFinalizeError env n key expected token =
     mapConflict env n key (\<lambda>r. AW_Version r = expected \<and> AW_ExecutionToken r = Some token
       \<and> AW_ExecutionStatus r = AgentWorkflowExecutionExecuting)"

definition mapTakeoverError ::
  "dbEnv \<Rightarrow> nat \<Rightarrow> WorkflowKey \<Rightarrow> 64 word \<Rightarrow> string \<Rightarrow> instant \<Rightarrow> workflowTable \<Rightarrow> agentError \<Rightarrow> agentError" where
  "mapTakeoverError env n key expected previous now =
     mapConflict env n key (\<lambda>r. AW_Version r = expected \<and> AW_ExecutionToken r = Some previous
       \<and> (case AW_LeaseExpiresAt r of None \<Rightarrow> False | Some t \<Rightarrow> now < t))"

text \<open>\<open>Load\<close> starts with statement \<open>n\<close>: it is also the second half of two other operations.\<close>

definition db_Load ::
  "dbEnv \<Rightarrow> nat \<Rightarrow> WorkflowKey \<Rightarrow> workflowTable \<Rightarrow> storeResult \<times> workflowTable" where
  "db_Load env n key rows =
     (case repo_Load env n key rows of
        Inl e \<Rightarrow> (Inl e, rows)
      | Inr None \<Rightarrow> (Inr None, rows)
      | Inr (Some r) \<Rightarrow>
          if AW_ExecutionStatus r = AgentWorkflowExecutionIdle \<and> \<not> CE_Now env < AW_ExpiresAt r
          then (case repo_DeleteIfVersion env (n + 1) key (AW_Version r) rows of
                  (Inl e, rows') \<Rightarrow> (Inl (mapWorkflowRepositoryError e), rows')
                | (Inr _, rows') \<Rightarrow> (Inr None, rows'))
          else (decodeAgentWorkflowRow (Some r), rows))"

definition loadExpectedVersion ::
  "dbEnv \<Rightarrow> nat \<Rightarrow> WorkflowKey \<Rightarrow> 64 word \<Rightarrow> workflowTable \<Rightarrow> storeResult \<times> workflowTable" where
  "loadExpectedVersion env n key expected rows =
     (case db_Load env n key rows of
        (Inl e, rows') \<Rightarrow> (Inl e, rows')
      | (Inr None, rows') \<Rightarrow> (Inl ErrWorkflowConflict, rows')
      | (Inr (Some w), rows') \<Rightarrow>
          (if VW_Version w \<noteq> expected then Inl ErrWorkflowConflict else Inr (Some w), rows'))"

definition db_Create ::
  "dbEnv \<Rightarrow> WorkflowKey \<Rightarrow> WorkflowSnapshot option \<Rightarrow> workflowTable \<Rightarrow> storeResult \<times> workflowTable" where
  "db_Create env key snapshot rows =
     (case encodeAgentWorkflowRow (CE_Now env) key snapshot of
        Inl e \<Rightarrow> (Inl e, rows)
      | Inr row \<Rightarrow>
          (case repo_Create env 0 (Some row) rows of
             (Inl e, rows') \<Rightarrow> (Inl (mapWorkflowRepositoryError e), rows')
           | (Inr created, rows') \<Rightarrow> (decodeAgentWorkflowRow (Some created), rows')))"

definition db_CompareAndSwap ::
  "dbEnv \<Rightarrow> WorkflowKey \<Rightarrow> 64 word \<Rightarrow> WorkflowSnapshot option \<Rightarrow> workflowTable
     \<Rightarrow> storeResult \<times> workflowTable" where
  "db_CompareAndSwap env key expected snapshot rows =
     (case encodeSnapshotUpdate (CE_Now env) key snapshot of
        Inl e \<Rightarrow> (Inl e, rows)
      | Inr (u, w) \<Rightarrow>
          (case repo_CompareAndSwap env 0 key expected u rows of
             (Inl e, rows') \<Rightarrow> (Inl (mapIdleMutationError env 1 key expected rows' e), rows')
           | (Inr _, rows') \<Rightarrow> (Inr (Some (versionedSnapshot w (expected + 1) None)), rows')))"

definition db_DeleteIfVersion ::
  "dbEnv \<Rightarrow> WorkflowKey \<Rightarrow> 64 word \<Rightarrow> workflowTable \<Rightarrow> storeResult \<times> workflowTable" where
  "db_DeleteIfVersion env key expected rows =
     (case repo_DeleteIfVersion env 0 key expected rows of
        (Inl e, rows') \<Rightarrow> (Inl (mapIdleMutationError env 1 key expected rows' e), rows')
      | (Inr _, rows') \<Rightarrow> (Inr None, rows'))"

definition db_CreateReservedExecution ::
  "dbEnv \<Rightarrow> WorkflowKey \<Rightarrow> WorkflowSnapshot option \<Rightarrow> ReservedExecutionV1 \<Rightarrow> workflowTable
     \<Rightarrow> storeResult \<times> workflowTable" where
  "db_CreateReservedExecution env key snapshot reservation rows =
     (case encodeAgentWorkflowRow (CE_Now env) key snapshot of
        Inl e \<Rightarrow> (Inl e, rows)
      | Inr row \<Rightarrow>
          (case encodeRepositoryReservation reservation of
             Inl e \<Rightarrow> (Inl e, rows)
           | Inr (v, _) \<Rightarrow>
               (case repo_CreateReservedExecution env 0 (Some row) v rows of
                  (Inl e, rows') \<Rightarrow> (Inl (mapWorkflowRepositoryError e), rows')
                | (Inr created, rows') \<Rightarrow> (decodeAgentWorkflowRow (Some created), rows'))))"

definition db_ReserveExecution ::
  "dbEnv \<Rightarrow> WorkflowKey \<Rightarrow> 64 word \<Rightarrow> WorkflowSnapshot option \<Rightarrow> ReservedExecutionV1 \<Rightarrow> workflowTable
     \<Rightarrow> storeResult \<times> workflowTable" where
  "db_ReserveExecution env key expected snapshot reservation rows =
     (case encodeSnapshotUpdate (CE_Now env) key snapshot of
        Inl e \<Rightarrow> (Inl e, rows)
      | Inr (u, w) \<Rightarrow>
          (case encodeRepositoryReservation reservation of
             Inl e \<Rightarrow> (Inl e, rows)
           | Inr (v, normalized) \<Rightarrow>
               (case repo_ReserveExecution env 0 key expected u v rows of
                  (Inl e, rows') \<Rightarrow> (Inl (mapIdleMutationError env 1 key expected rows' e), rows')
                | (Inr _, rows') \<Rightarrow>
                    (Inr (Some (versionedSnapshot w (expected + 1)
                       (Some \<lparr>PE_Status = WorkflowExecutionExecuting, PE_Reservation = normalized,
                              PE_Result = None\<rparr>))), rows'))))"

definition db_RecordExecutionResult ::
  "dbEnv \<Rightarrow> WorkflowKey \<Rightarrow> 64 word \<Rightarrow> string \<Rightarrow> PersistedExecutionResultV1 \<Rightarrow> workflowTable
     \<Rightarrow> storeResult \<times> workflowTable" where
  "db_RecordExecutionResult env key expected token result rows =
     (case MarshalPersistedExecutionResult result of
        Inl e \<Rightarrow> (Inl e, rows)
      | Inr payload \<Rightarrow>
          (case repo_RecordExecutionResult env 0 key expected token
                  \<lparr>AX_ResultSchemaVersion = workflowCodecVersion, AX_ResultJSON = payload,
                   AX_BusinessKey = PR_BusinessKey result,
                   AX_WriteEffect = effectText (PR_WriteEffect result),
                   AX_CompletedAt = PR_CompletedAt result\<rparr> rows of
             (Inl e, rows') \<Rightarrow> (Inl (mapWorkflowRepositoryError e), rows')
           | (Inr _, rows') \<Rightarrow> loadExpectedVersion env 1 key (expected + 1) rows'))"

definition db_FinalizeExecution ::
  "dbEnv \<Rightarrow> WorkflowKey \<Rightarrow> 64 word \<Rightarrow> string \<Rightarrow> WorkflowSnapshot option \<Rightarrow> workflowTable
     \<Rightarrow> storeResult \<times> workflowTable" where
  "db_FinalizeExecution env key expected token snapshot rows =
     (case encodeSnapshotUpdate (CE_Now env) key snapshot of
        Inl e \<Rightarrow> (Inl e, rows)
      | Inr (u, w) \<Rightarrow>
          (case repo_FinalizeExecution env 0 key expected token u rows of
             (Inl e, rows') \<Rightarrow> (Inl (mapFinalizeError env 1 key expected token rows' e), rows')
           | (Inr _, rows') \<Rightarrow> (Inr (Some (versionedSnapshot w (expected + 1) None)), rows')))"

definition db_DeleteReservedExecution ::
  "dbEnv \<Rightarrow> WorkflowKey \<Rightarrow> 64 word \<Rightarrow> string \<Rightarrow> workflowTable \<Rightarrow> storeResult \<times> workflowTable" where
  "db_DeleteReservedExecution env key expected token rows =
     (case repo_DeleteReservedExecution env 0 key expected token rows of
        (Inl e, rows') \<Rightarrow> (Inl (mapWorkflowRepositoryError e), rows')
      | (Inr _, rows') \<Rightarrow> (Inr None, rows'))"

definition db_TakeoverExpiredExecution ::
  "dbEnv \<Rightarrow> WorkflowKey \<Rightarrow> 64 word \<Rightarrow> string \<Rightarrow> ReservedExecutionV1 \<Rightarrow> workflowTable
     \<Rightarrow> storeResult \<times> workflowTable" where
  "db_TakeoverExpiredExecution env key expected previous nextRes rows =
     (case encodeRepositoryReservation nextRes of
        Inl e \<Rightarrow> (Inl e, rows)
      | Inr (v, _) \<Rightarrow>
          (case repo_TakeoverExpiredExecution env 0 key expected previous (CE_Now env) v rows of
             (Inl e, rows') \<Rightarrow>
               (Inl (mapTakeoverError env 1 key expected previous (CE_Now env) rows' e), rows')
           | (Inr _, rows') \<Rightarrow> loadExpectedVersion env 1 key (expected + 1) rows'))"

definition db_MarkExecutionRecoveryRequired ::
  "dbEnv \<Rightarrow> WorkflowKey \<Rightarrow> 64 word \<Rightarrow> string \<Rightarrow> instant \<Rightarrow> workflowTable
     \<Rightarrow> storeResult \<times> workflowTable" where
  "db_MarkExecutionRecoveryRequired env key expected token retryAt rows =
     (case repo_MarkExecutionRecoveryRequired env 0 key expected token retryAt rows of
        (Inl e, rows') \<Rightarrow> (Inl (mapWorkflowRepositoryError e), rows')
      | (Inr _, rows') \<Rightarrow>
          (case repo_Load env 1 key rows' of
             Inl e \<Rightarrow> (Inl (mapWorkflowRepositoryError e), rows')
           | Inr row \<Rightarrow> (decodeAgentWorkflowRow row, rows')))"

text \<open>A row that does not decode is reported to the observer and skipped.\<close>

definition db_ListRecoverableExecutions ::
  "dbEnv \<Rightarrow> instant \<Rightarrow> int \<Rightarrow> workflowTable \<Rightarrow> agentError + (WorkflowKey \<times> VersionedWorkflow) list" where
  "db_ListRecoverableExecutions env now limit rows =
     (case repo_ListRecoverableExecutions env 0 now limit rows of
        Inl e \<Rightarrow> Inl (mapWorkflowRepositoryError e)
      | Inr found \<Rightarrow>
          Inr (List.map_filter (\<lambda>r. case decodeAgentWorkflowRow (Some r) of
                                   Inr (Some w) \<Rightarrow> Some (keyFromWorkflow r, w) | _ \<Rightarrow> None) found))"

fun db_serve :: "dbEnv \<Rightarrow> storeOp \<Rightarrow> workflowTable \<Rightarrow> storeResult \<times> workflowTable" where
  "db_serve env (OpLoad k) s = db_Load env 0 k s"
| "db_serve env (OpCreate k snap) s = db_Create env k snap s"
| "db_serve env (OpCompareAndSwap k v snap) s = db_CompareAndSwap env k v snap s"
| "db_serve env (OpDeleteIfVersion k v) s = db_DeleteIfVersion env k v s"
| "db_serve env (OpCreateReserved k snap r) s = db_CreateReservedExecution env k snap r s"
| "db_serve env (OpReserve k v snap r) s = db_ReserveExecution env k v snap r s"
| "db_serve env (OpRecordResult k v token result) s = db_RecordExecutionResult env k v token result s"
| "db_serve env (OpFinalize k v token snap) s = db_FinalizeExecution env k v token snap s"
| "db_serve env (OpDeleteReserved k v token) s = db_DeleteReservedExecution env k v token s"
| "db_serve env (OpTakeover k v token r) s = db_TakeoverExpiredExecution env k v token r s"

end
