(* ===== verification/WorkflowTables.thy ===== *)
theory WorkflowTables
  imports WorkflowDatabase
begin

text \<open>
  The table of the database store as the contract sees it: one readable row per key (\<open>db_ok\<close>), the
  state of a workflow as its columns show it (\<open>db_view\<close>), and what each statement and each
  repository method can do to one row (\<open>rowChange\<close>). \<open>columns_ok\<close> is what the store relies on of the
  database: a time of whole milliseconds is kept as it is by a \<open>DATETIME(3)\<close> column.
\<close>

section \<open>Tables\<close>

definition db_lookup :: "WorkflowKey \<Rightarrow> workflowTable \<Rightarrow> AgentWorkflow option" where
  "db_lookup k rows = find (workflowKeyWhere k) rows"

definition readable :: "AgentWorkflow \<Rightarrow> bool" where
  "readable r \<longleftrightarrow> \<not> isl (decodeRowSnapshot r) \<and> \<not> isl (decodeExecution r)"

lemma readable_decodes: "readable r \<longleftrightarrow> \<not> isl (decodeAgentWorkflowRow (Some r))"
  by (auto simp: readable_def decodeAgentWorkflowRow_def Let_def split: sum.splits)

definition db_ok :: "workflowTable \<Rightarrow> bool" where
  "db_ok rows \<longleftrightarrow> distinct (map keyFromWorkflow rows) \<and> list_all readable rows"

lemma keyWhere_iff [simp]: "workflowKeyWhere k r \<longleftrightarrow> keyFromWorkflow r = k"
  by (cases k) (auto simp: workflowKeyWhere_def keyFromWorkflow_def)

lemma db_lookup_SomeD: "db_lookup k rows = Some r \<Longrightarrow> r \<in> set rows \<and> keyFromWorkflow r = k"
  by (auto simp: db_lookup_def find_Some_iff)

lemma db_lookup_None: "db_lookup k rows = None \<longleftrightarrow> (\<forall>r \<in> set rows. keyFromWorkflow r \<noteq> k)"
  by (auto simp: db_lookup_def find_None_iff)

lemma db_lookup_unique:
  "distinct (map keyFromWorkflow rows) \<Longrightarrow> r \<in> set rows \<Longrightarrow> db_lookup (keyFromWorkflow r) rows = Some r"
  by (induction rows) (auto simp: db_lookup_def)

lemma db_ok_readable: "db_ok rows \<Longrightarrow> db_lookup k rows = Some r \<Longrightarrow> readable r"
  by (auto simp: db_ok_def list_all_iff dest: db_lookup_SomeD)

text \<open>The state of a workflow as the row shows it.\<close>

definition columnText :: "string option \<Rightarrow> string" where
  "columnText c = (case c of None \<Rightarrow> [] | Some s \<Rightarrow> s)"

definition rowExecution :: "AgentWorkflow \<Rightarrow> execView" where
  "rowExecution r =
     \<lparr>EV_Operation = columnText (AW_ExecutionOperation r), EV_BusinessKey = columnText (AW_BusinessKey r),
      EV_Token = columnText (AW_ExecutionToken r),
      EV_Lease = (case AW_LeaseExpiresAt r of None \<Rightarrow> 0 | Some t \<Rightarrow> t),
      EV_Recorded = (AW_ExecutionStatus r = AgentWorkflowExecutionResultRecorded)\<rparr>"

definition rowFlow :: "AgentWorkflow \<Rightarrow> 64 word \<times> execView option" where
  "rowFlow r =
     (AW_Version r,
      if AW_ExecutionStatus r = AgentWorkflowExecutionIdle then None else Some (rowExecution r))"

definition db_view :: "workflowTable \<Rightarrow> WorkflowKey \<Rightarrow> flow" where
  "db_view rows k = map_option rowFlow (db_lookup k rows)"

section \<open>What a readable row shows\<close>

lemma unmarshal_trimmed:
  assumes "UnmarshalReservedExecution payload = Inr v"
  shows "trimSpace (RE_ExecutionToken v) = RE_ExecutionToken v"
    and "trimSpace (RE_BusinessKey v) = RE_BusinessKey v"
proof -
  obtain dto where "reservedExecutionFromV1 dto = Inr v"
    using assms by (auto simp: UnmarshalReservedExecution_def split: if_splits option.splits)
  then obtain q where "reservedExecutionToV1 v = Inr q"
    by (auto simp: reservedExecutionFromV1_def Let_def split: sum.splits)
  then show "trimSpace (RE_ExecutionToken v) = RE_ExecutionToken v"
    "trimSpace (RE_BusinessKey v) = RE_BusinessKey v"
    by (auto simp: reservedExecutionToV1_def split: option.splits if_splits)
qed

lemma decodeReservation_InrD:
  assumes "decodeReservation r = Inr v"
  shows "AW_ExecutionToken r = Some (RE_ExecutionToken v)" and "AW_ExecutionOperation r = Some (RE_Operation v)"
    and "AW_BusinessKey r = Some (RE_BusinessKey v)" and "AW_LeaseExpiresAt r \<noteq> None"
    and "trimSpace (RE_ExecutionToken v) = RE_ExecutionToken v"
    and "trimSpace (RE_BusinessKey v) = RE_BusinessKey v"
  using assms
  by (auto simp: decodeReservation_def split: option.splits if_splits sum.splits dest: unmarshal_trimmed)

lemma readable_active:
  assumes "readable r" and "AW_ExecutionStatus r \<noteq> AgentWorkflowExecutionIdle"
  obtains v where "decodeReservation r = Inr v"
  using assms by (auto simp: readable_def decodeExecution_def split: sum.splits if_splits)

lemma readable_idle:
  "readable r \<Longrightarrow> AW_ExecutionStatus r = AgentWorkflowExecutionIdle \<Longrightarrow> idleExecutionPredicate r"
  by (auto simp: readable_def decodeExecution_def hasAnyExecutionAuthority_def idleExecutionPredicate_def
      split: if_splits)

lemma active_view:
  assumes "readable r" and "AW_ExecutionToken r = Some token"
    and "AW_ExecutionStatus r \<noteq> AgentWorkflowExecutionIdle"
  shows "EV_Token (rowExecution r) = trimSpace token"
proof -
  obtain v where "decodeReservation r = Inr v" using assms(1,3) by (rule readable_active)
  from decodeReservation_InrD [OF this] assms(2) show ?thesis
    by (simp add: rowExecution_def columnText_def)
qed

section \<open>Statements on tables\<close>

lemma db_lookup_update:
  assumes "\<And>r. keyFromWorkflow (g r) = keyFromWorkflow r"
  shows "db_lookup k' (map (\<lambda>r. if keyFromWorkflow r = k \<and> p r then g r else r) rows)
         = (if k' = k then map_option (\<lambda>r. if p r then g r else r) (db_lookup k rows) else db_lookup k' rows)"
  using assms by (induction rows) (auto simp: db_lookup_def)

lemma db_lookup_delete:
  assumes "distinct (map keyFromWorkflow rows)"
  shows "db_lookup k' (filter (\<lambda>r. \<not> (keyFromWorkflow r = k \<and> p r)) rows)
         = (if k' = k then (case db_lookup k rows of Some r \<Rightarrow> if p r then None else Some r | None \<Rightarrow> None)
            else db_lookup k' rows)"
  using assms
proof (induction rows)
  case (Cons r rows)
  have "db_lookup k (filter (\<lambda>r. \<not> (keyFromWorkflow r = k \<and> p r)) rows) = None" if "keyFromWorkflow r = k"
    using Cons.prems that by (auto simp: db_lookup_None) (metis imageI)
  with Cons show ?case by (auto simp: db_lookup_def)
qed (simp add: db_lookup_def)

lemma one_affected:
  assumes "distinct (map keyFromWorkflow rows)"
  shows "length (filter (\<lambda>r. keyFromWorkflow r = k \<and> p r) rows)
         = (case db_lookup k rows of Some r \<Rightarrow> if p r then 1 else 0 | None \<Rightarrow> 0)"
  using assms
proof (induction rows)
  case (Cons r rows)
  have "filter (\<lambda>r. keyFromWorkflow r = k \<and> p r) rows = []" if "keyFromWorkflow r = k"
    using Cons.prems that by (auto simp: filter_empty_conv) (metis imageI)
  with Cons show ?case by (auto simp: db_lookup_def)
qed (simp add: db_lookup_def)

lemma no_effect:
  assumes "case db_lookup k rows of Some r \<Rightarrow> \<not> p r | None \<Rightarrow> True" and "distinct (map keyFromWorkflow rows)"
  shows "map (\<lambda>r. if keyFromWorkflow r = k \<and> p r then g r else r) rows = rows"
    and "filter (\<lambda>r. \<not> (keyFromWorkflow r = k \<and> p r)) rows = rows"
proof -
  have "filter (\<lambda>r. keyFromWorkflow r = k \<and> p r) rows = []"
    using one_affected [OF assms(2), of k p] assms(1) by (auto split: option.splits)
  then have none: "\<not> (keyFromWorkflow r = k \<and> p r)" if "r \<in> set rows" for r
    using that by (auto simp: filter_empty_conv)
  then show "map (\<lambda>r. if keyFromWorkflow r = k \<and> p r then g r else r) rows = rows"
    by (intro map_idI) auto
  show "filter (\<lambda>r. \<not> (keyFromWorkflow r = k \<and> p r)) rows = rows"
    using none by (simp add: filter_id_conv)
qed

text \<open>A call that ran one statement: it changed the row of its key by \<open>change\<close>, which a row must
  satisfy \<open>p\<close> for, or nothing at all.\<close>

definition rowChange ::
  "WorkflowKey \<Rightarrow> (AgentWorkflow \<Rightarrow> bool) \<Rightarrow> (AgentWorkflow \<Rightarrow> AgentWorkflow option)
     \<Rightarrow> workflowTable \<Rightarrow> bool \<Rightarrow> workflowTable \<Rightarrow> bool" where
  "rowChange k p change rows failed rows' \<longleftrightarrow>
     rows' = rows \<and> failed
     \<or> (\<exists>r. db_lookup k rows = Some r \<and> p r \<and> db_lookup k rows' = change r
          \<and> (\<forall>k'. k' \<noteq> k \<longrightarrow> db_lookup k' rows' = db_lookup k' rows)
          \<and> distinct (map keyFromWorkflow rows')
          \<and> set rows' \<subseteq> set rows \<union> set_option (change r))"

lemma rowChange_statement:
  assumes "requireOneRow (runStatement env n stmt rows) = (res, rows')"
    and "stmt rows = (length (filter (\<lambda>r. keyFromWorkflow r = k \<and> p r) rows), new)"
    and "distinct (map keyFromWorkflow rows)"
    and "case db_lookup k rows of Some r \<Rightarrow> \<not> p r | None \<Rightarrow> True \<Longrightarrow> new = rows"
    and "\<And>r. db_lookup k rows = Some r \<Longrightarrow> p r \<Longrightarrow> db_lookup k new = change r
          \<and> (\<forall>k'. k' \<noteq> k \<longrightarrow> db_lookup k' new = db_lookup k' rows)
          \<and> distinct (map keyFromWorkflow new) \<and> set new \<subseteq> set rows \<union> set_option (change r)"
  shows "rowChange k p change rows (isl res) rows'"
proof -
  have cases: "rows' = rows \<and> isl res \<or> rows' = new
      \<and> (\<not> isl res \<longrightarrow> length (filter (\<lambda>r. keyFromWorkflow r = k \<and> p r) rows) = 1)"
    using assms(1,2)
    by (auto simp: requireOneRow_def runStatement_def split: option.splits prod.splits if_splits)
  show ?thesis
  proof (cases "case db_lookup k rows of Some r \<Rightarrow> \<not> p r | None \<Rightarrow> True")
    case True
    then have "new = rows" "length (filter (\<lambda>r. keyFromWorkflow r = k \<and> p r) rows) = 0"
      using assms(4) one_affected [OF assms(3), of k p] by (auto split: option.splits)
    with cases show ?thesis by (auto simp: rowChange_def)
  next
    case False
    then obtain r where r: "db_lookup k rows = Some r" "p r" by (auto split: option.splits)
    from cases assms(5) [OF r] r show ?thesis unfolding rowChange_def by blast
  qed
qed

lemma update_change:
  assumes "distinct (map keyFromWorkflow rows)" and "\<And>r. keyFromWorkflow (g r) = keyFromWorkflow r"
    and "requireOneRow (runStatement env n (updateRows (\<lambda>r. workflowKeyWhere k r \<and> p r) g) rows) = (res, rows')"
  shows "rowChange k p (Some \<circ> g) rows (isl res) rows'"
proof (rule rowChange_statement [OF assms(3) _ assms(1)])
  let ?new = "map (\<lambda>r. if keyFromWorkflow r = k \<and> p r then g r else r) rows"
  show "updateRows (\<lambda>r. workflowKeyWhere k r \<and> p r) g rows
      = (length (filter (\<lambda>r. keyFromWorkflow r = k \<and> p r) rows), ?new)"
    by (simp add: updateRows_def)
  show "?new = rows" if "case db_lookup k rows of Some r \<Rightarrow> \<not> p r | None \<Rightarrow> True"
    using that assms(1) by (rule no_effect(1))
  fix r assume r: "db_lookup k rows = Some r" "p r"
  have "x = r" if "x \<in> set rows" "keyFromWorkflow x = k" for x
    using db_lookup_unique [OF assms(1) that(1)] that(2) r(1) by simp
  then have "set ?new \<subseteq> set rows \<union> set_option ((Some \<circ> g) r)" by auto
  moreover have "map keyFromWorkflow ?new = map keyFromWorkflow rows" using assms(2) by simp
  then have "distinct (map keyFromWorkflow ?new)" using assms(1) by (simp only:)
  moreover have "db_lookup k ?new = (Some \<circ> g) r" "\<forall>k'. k' \<noteq> k \<longrightarrow> db_lookup k' ?new = db_lookup k' rows"
    using db_lookup_update [OF assms(2), of _ k p rows] r by simp_all
  ultimately show "db_lookup k ?new = (Some \<circ> g) r \<and> (\<forall>k'. k' \<noteq> k \<longrightarrow> db_lookup k' ?new = db_lookup k' rows)
      \<and> distinct (map keyFromWorkflow ?new) \<and> set ?new \<subseteq> set rows \<union> set_option ((Some \<circ> g) r)"
    by blast
qed

lemma delete_change:
  assumes "distinct (map keyFromWorkflow rows)"
    and "requireOneRow (runStatement env n (deleteRows (\<lambda>r. workflowKeyWhere k r \<and> p r)) rows) = (res, rows')"
  shows "rowChange k p (\<lambda>_. None) rows (isl res) rows'"
proof (rule rowChange_statement [OF assms(2) _ assms(1)])
  let ?new = "filter (\<lambda>r. \<not> (keyFromWorkflow r = k \<and> p r)) rows"
  show "deleteRows (\<lambda>r. workflowKeyWhere k r \<and> p r) rows
      = (length (filter (\<lambda>r. keyFromWorkflow r = k \<and> p r) rows), ?new)"
    by (simp add: deleteRows_def)
  show "?new = rows" if "case db_lookup k rows of Some r \<Rightarrow> \<not> p r | None \<Rightarrow> True"
    using that assms(1) by (rule no_effect(2))
  fix r assume r: "db_lookup k rows = Some r" "p r"
  have "distinct (map keyFromWorkflow ?new)" using assms(1) by (rule distinct_map_filter)
  moreover have "set ?new \<subseteq> set rows" by auto
  moreover have "db_lookup k ?new = None" "\<forall>k'. k' \<noteq> k \<longrightarrow> db_lookup k' ?new = db_lookup k' rows"
    using db_lookup_delete [OF assms(1), of _ k p] r by simp_all
  ultimately show "db_lookup k ?new = None \<and> (\<forall>k'. k' \<noteq> k \<longrightarrow> db_lookup k' ?new = db_lookup k' rows)
      \<and> distinct (map keyFromWorkflow ?new) \<and> set ?new \<subseteq> set rows \<union> set_option None"
    by simp
qed

lemma insert_change:
  assumes "distinct (map keyFromWorkflow rows)"
    and "requireOneCreatedRow x (runStatement env n (insertRow env r) rows) = (res, rows')"
    and "keyFromWorkflow r = k"
  shows "rows' = rows \<and> isl res
         \<or> db_lookup k rows = None \<and> rows' = rows @ [columnRow env r] \<and> (\<forall>y. res = Inr y \<longrightarrow> y = x)"
  using assms(2,3)
  by (auto simp: requireOneCreatedRow_def runStatement_def insertRow_def db_lookup_None list_ex_iff
      split: option.splits prod.splits if_splits)

section \<open>Repository methods on tables\<close>

lemma key_updates [simp]:
  "keyFromWorkflow (written env r) = keyFromWorkflow r"
  "keyFromWorkflow (snapshotUpdates col u r) = keyFromWorkflow r"
  "keyFromWorkflow (addReservationUpdates col v r) = keyFromWorkflow r"
  "keyFromWorkflow (clearResult r) = keyFromWorkflow r"
  "keyFromWorkflow (clearExecutionUpdates r) = keyFromWorkflow r"
  "keyFromWorkflow (setStatus st r) = keyFromWorkflow r"
  "keyFromWorkflow (columnRow env r) = keyFromWorkflow r"
  "keyFromWorkflow (stampCreated env r) = keyFromWorkflow r"
  "keyFromWorkflow (prepareNewWorkflow st r) = keyFromWorkflow r"
  "keyFromWorkflow (applyReservationToWorkflow v r) = keyFromWorkflow r"
  "keyFromWorkflow (resultUpdates x r) = keyFromWorkflow r"
  by (simp_all add: keyFromWorkflow_def written_def snapshotUpdates_def addReservationUpdates_def
      clearResult_def clearExecutionUpdates_def setStatus_def columnRow_def stampCreated_def
      prepareNewWorkflow_def applyReservationToWorkflow_def resultUpdates_def Let_def)

lemma rowChange_refused [simp]: "rowChange k p change rows True rows"
  by (simp add: rowChange_def)

lemma swap_change:
  assumes "distinct (map keyFromWorkflow rows)" and "repo_CompareAndSwap env n k v u rows = (res, rows')"
  shows "rowChange k (\<lambda>r. AW_Version r = v \<and> idleExecutionPredicate r)
           (Some \<circ> (written env \<circ> snapshotUpdates (DE_Column env) u)) rows (isl res) rows'"
  using assms(2)
  by (auto simp: repo_CompareAndSwap_def split: option.splits
      intro!: update_change [OF assms(1)])

lemma delete_idle_change:
  assumes "distinct (map keyFromWorkflow rows)" and "repo_DeleteIfVersion env n k v rows = (res, rows')"
  shows "rowChange k (\<lambda>r. AW_Version r = v \<and> idleExecutionPredicate r) (\<lambda>_. None) rows (isl res) rows'"
  using assms(2)
  by (auto simp: repo_DeleteIfVersion_def split: option.splits intro!: delete_change [OF assms(1)])

lemma reserve_change:
  assumes "distinct (map keyFromWorkflow rows)" and "repo_ReserveExecution env n k v u w rows = (res, rows')"
  shows "rowChange k (\<lambda>r. AW_Version r = v \<and> idleExecutionPredicate r)
           (Some \<circ> (written env \<circ> clearResult \<circ> setStatus AgentWorkflowExecutionExecuting
              \<circ> addReservationUpdates (DE_Column env) w \<circ> snapshotUpdates (DE_Column env) u))
           rows (isl res) rows'"
  using assms(2)
  by (auto simp: repo_ReserveExecution_def split: option.splits intro!: update_change [OF assms(1)])

lemma record_change:
  assumes "distinct (map keyFromWorkflow rows)" and "repo_RecordExecutionResult env n k v token x rows = (res, rows')"
  shows "rowChange k (\<lambda>r. AW_Version r = v \<and> AW_ExecutionStatus r = AgentWorkflowExecutionExecuting
             \<and> AW_ExecutionToken r = Some token \<and> AW_BusinessKey r = Some (AX_BusinessKey x)
             \<and> trimSpace (AX_WriteEffect x) \<noteq> [] \<and> AX_ResultSchemaVersion x \<noteq> 0)
           (Some \<circ> (written env \<circ> resultUpdates x)) rows (isl res) rows'"
proof (cases "validateMutation env k v = None \<and> trimSpace token \<noteq> [] \<and> AX_ResultSchemaVersion x \<noteq> 0
    \<and> trimSpace (AX_ResultJSON x) \<noteq> [] \<and> trimSpace (AX_BusinessKey x) \<noteq> []
    \<and> trimSpace (AX_WriteEffect x) \<noteq> [] \<and> AX_CompletedAt x \<noteq> 0")
  case True
  then have "rowChange k (\<lambda>r. AW_Version r = v \<and> AW_ExecutionStatus r = AgentWorkflowExecutionExecuting
                   \<and> AW_ExecutionToken r = Some token \<and> AW_BusinessKey r = Some (AX_BusinessKey x)
                   \<and> AW_LeaseExpiresAt r \<noteq> None \<and> AW_ExecutionRequestSchemaVersion r \<noteq> None
                   \<and> AW_ExecutionRequestJSON r \<noteq> None) (Some \<circ> (written env \<circ> resultUpdates x)) rows (isl res) rows'"
    using assms(2)
    by (intro update_change [OF assms(1)]) (simp_all add: repo_RecordExecutionResult_def)
  with True show ?thesis unfolding rowChange_def by blast
next
  case False
  with assms(2) have "rows' = rows \<and> isl res"
    by (auto simp: repo_RecordExecutionResult_def split: option.splits if_splits)
  then show ?thesis by (auto simp: rowChange_def)
qed

lemma finalize_change:
  assumes "distinct (map keyFromWorkflow rows)" and "repo_FinalizeExecution env n k v token u rows = (res, rows')"
  shows "rowChange k (\<lambda>r. AW_Version r = v \<and> AW_ExecutionStatus r = AgentWorkflowExecutionResultRecorded
             \<and> AW_ExecutionToken r = Some token \<and> AW_ExecutionResultSchemaVersion r \<noteq> None
             \<and> AW_ExecutionResultJSON r \<noteq> None)
           (Some \<circ> (written env \<circ> setStatus AgentWorkflowExecutionIdle \<circ> clearExecutionUpdates
              \<circ> snapshotUpdates (DE_Column env) u)) rows (isl res) rows'"
  using assms(2)
  by (auto simp: repo_FinalizeExecution_def split: option.splits if_splits
      intro!: update_change [OF assms(1)])

lemma delete_reserved_change:
  assumes "distinct (map keyFromWorkflow rows)" and "repo_DeleteReservedExecution env n k v token rows = (res, rows')"
  shows "rowChange k (\<lambda>r. AW_Version r = v \<and> AW_ExecutionToken r = Some token
             \<and> AW_ExecutionStatus r = AgentWorkflowExecutionResultRecorded
             \<and> AW_ExecutionResultSchemaVersion r \<noteq> None \<and> AW_ExecutionResultJSON r \<noteq> None)
           (\<lambda>_. None) rows (isl res) rows'"
  using assms(2)
  by (auto simp: repo_DeleteReservedExecution_def split: option.splits if_splits
      intro!: delete_change [OF assms(1)])

lemma takeover_change:
  assumes "distinct (map keyFromWorkflow rows)"
    and "repo_TakeoverExpiredExecution env n k v previous now w rows = (res, rows')"
  shows "rowChange k (\<lambda>r. AW_Version r = v \<and> AW_ExecutionToken r = Some previous
             \<and> AW_ExecutionStatus r \<in> {AgentWorkflowExecutionExecuting, AgentWorkflowExecutionRecoveryRequired}
             \<and> AW_ExecutionOperation r = Some (AR_ExecutionOperation w)
             \<and> AW_BusinessKey r = Some (AR_BusinessKey w)
             \<and> AW_ExecutionRequestSchemaVersion r \<noteq> None \<and> AW_ExecutionRequestJSON r \<noteq> None
             \<and> leaseExpired now r)
           (Some \<circ> (written env \<circ> clearResult \<circ> setStatus AgentWorkflowExecutionExecuting
              \<circ> addReservationUpdates (DE_Column env) w)) rows (isl res) rows'"
  using assms(2)
  by (auto simp: repo_TakeoverExpiredExecution_def split: option.splits if_splits
      intro!: update_change [OF assms(1)])

section \<open>Legal calls and readable rows\<close>

text \<open>A time of whole milliseconds fits a \<open>DATETIME(3)\<close> column, and the values of a call are ones
  the types of the program hold.\<close>

definition columns_ok :: "dbEnv \<Rightarrow> bool" where
  "columns_ok env \<longleftrightarrow> (\<forall>t. t mod millisecond = 0 \<longrightarrow> DE_Column env t = t)"

fun op_ok :: "instant \<Rightarrow> storeOp \<Rightarrow> bool" where
  "op_ok now (OpCreate k snap) \<longleftrightarrow> (\<forall>w. snap = Some w \<longrightarrow> snapshot_ok (completedSnapshot now k w))"
| "op_ok now (OpCompareAndSwap k v snap) \<longleftrightarrow> (\<forall>w. snap = Some w \<longrightarrow> snapshot_ok (completedSnapshot now k w))"
| "op_ok now (OpCreateReserved k snap r) \<longleftrightarrow>
     (\<forall>w. snap = Some w \<longrightarrow> snapshot_ok (completedSnapshot now k w)) \<and> reservation_ok r"
| "op_ok now (OpReserve k v snap r) \<longleftrightarrow>
     (\<forall>w. snap = Some w \<longrightarrow> snapshot_ok (completedSnapshot now k w)) \<and> reservation_ok r"
| "op_ok now (OpRecordResult k v token result) \<longleftrightarrow> result_ok result"
| "op_ok now (OpFinalize k v token snap) \<longleftrightarrow> (\<forall>w. snap = Some w \<longrightarrow> snapshot_ok (completedSnapshot now k w))"
| "op_ok now (OpTakeover k v token r) \<longleftrightarrow> reservation_ok r"
| "op_ok now _ \<longleftrightarrow> True"

fun legalCall :: "dbEnv \<times> storeOp \<Rightarrow> bool" where
  "legalCall (env, op) \<longleftrightarrow> columns_ok env \<and> op_ok (CE_Now env) op"

lemma snapshot_row:
  assumes "encodeSnapshotUpdate now k snap = Inr (u, w)"
    and "\<forall>s. snap = Some s \<longrightarrow> snapshot_ok (completedSnapshot now k s)"
    and "keyFromWorkflow r = k" and "AW_WorkflowID r = SU_WorkflowID u" "AW_WorkflowType r = SU_WorkflowType u"
      "AW_WorkflowState r = SU_WorkflowState u" "AW_SnapshotSchemaVersion r = SU_SnapshotSchemaVersion u"
      "AW_SnapshotJSON r = SU_SnapshotJSON u"
  shows "decodeRowSnapshot r = Inr w"
proof -
  obtain s payload where s: "snap = Some s"
    and payload: "MarshalWorkflowSnapshot (Some (completedSnapshot now k s)) = Inr payload"
      "UnmarshalWorkflowSnapshot payload = Inr w"
    and u: "u = \<lparr>SU_WorkflowID = WF_ID w, SU_WorkflowType = WF_Type w, SU_WorkflowState = stateText (WF_State w),
      SU_SnapshotSchemaVersion = workflowCodecVersion, SU_SnapshotJSON = payload, SU_ExpiresAt = WF_ExpiresAt w\<rparr>"
    using assms(1) by (auto simp: encodeSnapshotUpdate_def split: option.splits sum.splits)
  have "w = storedSnapshot (completedSnapshot now k s)"
    using marshal_stored(1) [OF _ payload(1)] assms(2) s payload(2) by simp
  then have "WF_TenantID w = WK_TenantID k" "WF_ConversationID w = WK_ConversationID k"
    "WF_ActorUserID w = WK_ActorUserID k"
    by (simp_all add: storedSnapshot_def completedSnapshot_def Let_def)
  with assms(3-) payload(2) show ?thesis
    by (auto simp: decodeRowSnapshot_def u workflowCodecVersion_def keyFromWorkflow_def)
qed

lemma reservation_columns:
  assumes "encodeRepositoryReservation rv = Inr (v, n)" and "reservation_ok rv"
  shows "canonicalReservedExecution rv = Inr n" and "UnmarshalReservedExecution (AR_RequestJSON v) = Inr n"
    and "AR_ExecutionToken v = RE_ExecutionToken n" "AR_ExecutionOperation v = RE_Operation n"
      "AR_BusinessKey v = RE_BusinessKey n" "AR_RequestID v = RE_AttemptRequestID n"
      "AR_RequestSchemaVersion v = workflowCodecVersion" "AR_LeaseExpiresAt v = RE_LeaseExpiresAt n"
    and "RE_LeaseExpiresAt n mod millisecond = 0"
proof -
  obtain payload where payload: "MarshalReservedExecution rv = Inr payload" "UnmarshalReservedExecution payload = Inr n"
    and v: "v = \<lparr>AR_ExecutionToken = RE_ExecutionToken n, AR_ExecutionOperation = RE_Operation n,
      AR_BusinessKey = RE_BusinessKey n, AR_RequestID = RE_AttemptRequestID n,
      AR_RequestSchemaVersion = workflowCodecVersion, AR_RequestJSON = payload,
      AR_LeaseExpiresAt = RE_LeaseExpiresAt n\<rparr>"
    using assms(1) by (auto simp: encodeRepositoryReservation_def split: sum.splits)
  show "canonicalReservedExecution rv = Inr n" using payload by (simp add: canonicalReservedExecution_def)
  show "UnmarshalReservedExecution (AR_RequestJSON v) = Inr n" using payload by (simp add: v)
  show "AR_ExecutionToken v = RE_ExecutionToken n" "AR_ExecutionOperation v = RE_Operation n"
      "AR_BusinessKey v = RE_BusinessKey n" "AR_RequestID v = RE_AttemptRequestID n"
      "AR_RequestSchemaVersion v = workflowCodecVersion" "AR_LeaseExpiresAt v = RE_LeaseExpiresAt n"
    by (simp_all add: v)
  have "n = canonicalForm rv" using marshal_canonical(1) [OF payload(1) assms(2)] payload(2) by simp
  then have "RE_LeaseExpiresAt n = normalizeWorkflowDatabaseTime (RE_LeaseExpiresAt rv)"
    by (simp add: canonicalForm_def)
  then show "RE_LeaseExpiresAt n mod millisecond = 0"
    by (simp add: normalizeWorkflowDatabaseTime_def mod_diff_left_eq [symmetric])
qed

lemma normalized_column: "t mod millisecond = 0 \<Longrightarrow> normalizeWorkflowDatabaseTime t = t"
  by (simp add: normalizeWorkflowDatabaseTime_def)

lemma reserved_row:
  assumes "encodeRepositoryReservation rv = Inr (v, n)" and "reservation_ok rv" and "columns_ok env"
    and "AW_ExecutionStatus r = AgentWorkflowExecutionExecuting"
    and "AW_ExecutionToken r = Some (AR_ExecutionToken v)" "AW_ExecutionOperation r = Some (AR_ExecutionOperation v)"
      "AW_BusinessKey r = Some (AR_BusinessKey v)" "AW_RequestID r = Some (AR_RequestID v)"
      "AW_ExecutionRequestSchemaVersion r = Some (AR_RequestSchemaVersion v)"
      "AW_ExecutionRequestJSON r = Some (AR_RequestJSON v)"
      "AW_LeaseExpiresAt r = Some (DE_Column env (AR_LeaseExpiresAt v))"
    and "AW_ExecutionResultSchemaVersion r = None" "AW_ExecutionResultJSON r = None" "AW_WriteEffect r = None"
  shows "decodeExecution r = Inr (Some (\<lparr>PE_Status = WorkflowExecutionExecuting, PE_Reservation = n, PE_Result = None\<rparr>))"
    and "rowExecution r = reservedView n"
proof -
  note cols = reservation_columns [OF assms(1,2)]
  have lease: "DE_Column env (RE_LeaseExpiresAt n) = RE_LeaseExpiresAt n"
    using cols(9) assms(3) by (simp add: columns_ok_def)
  have "decodeReservation r = Inr n"
    using assms(5-11) cols lease normalized_column [OF cols(9)] by (simp add: decodeReservation_def)
  moreover have "decodeResult r = Inr None"
    using assms(4,12-14) by (simp add: decodeResult_def)
  ultimately show "decodeExecution r = Inr (Some (\<lparr>PE_Status = WorkflowExecutionExecuting, PE_Reservation = n, PE_Result = None\<rparr>))"
    using assms(4) by (simp add: decodeExecution_def statusOf_def)
  show "rowExecution r = reservedView n"
    using assms(4-11) cols lease by (simp add: rowExecution_def reservedView_def columnText_def)
qed

lemma idle_row:
  assumes "AW_ExecutionStatus r = AgentWorkflowExecutionIdle" and "\<not> hasAnyExecutionAuthority r"
  shows "decodeExecution r = Inr None"
  using assms by (simp add: decodeExecution_def)

end
