(* ===== verification/DatabaseContract.thy ===== *)
theory DatabaseContract
  imports WorkflowTables
begin

text \<open>
  Every operation of the database store makes the step of the \<open>workflow_store\<close> contract on the view of
  its table, whatever statements fail before or after they took effect: one lemma per operation
  (\<open>dbPromise\<close>), put together in the interpretation \<open>database\<close>.
\<close>

section \<open>Every operation keeps the promise\<close>

definition dbPromise ::
  "dbEnv \<Rightarrow> storeOp \<Rightarrow> workflowTable \<Rightarrow> storeResult \<Rightarrow> workflowTable \<Rightarrow> bool" where
  "dbPromise env op rows res rows' \<longleftrightarrow>
     db_ok rows' \<and> (\<forall>k. k \<noteq> opKey op \<longrightarrow> db_view rows' k = db_view rows k)
     \<and> (\<exists>f. lapses (db_view rows (opKey op)) f
          \<and> (db_view rows' (opKey op) = f \<and> (isl res \<or> isLoad op)
             \<or> flow_step (CE_Now env) op f (db_view rows' (opKey op))))"

lemma promise_refused: "db_ok rows \<Longrightarrow> dbPromise env op rows (Inl e) rows"
  by (auto simp: dbPromise_def lapses_def)

lemma promise_change:
  assumes "db_ok rows" and "rowChange k p change rows failed rows'" and "k = opKey op" and "failed \<Longrightarrow> isl res"
    and "\<And>r. readable r \<Longrightarrow> keyFromWorkflow r = k \<Longrightarrow> p r \<Longrightarrow>
      flow_step (CE_Now env) op (Some (rowFlow r)) (map_option rowFlow (change r))
      \<and> (\<forall>x. change r = Some x \<longrightarrow> readable x)"
  shows "dbPromise env op rows res rows'"
proof (cases "rows' = rows \<and> failed")
  case True
  then show ?thesis using assms(1,4) by (auto simp: dbPromise_def lapses_def)
next
  case False
  then obtain r where r: "db_lookup k rows = Some r" "p r" "db_lookup k rows' = change r"
    and others: "\<forall>k'. k' \<noteq> k \<longrightarrow> db_lookup k' rows' = db_lookup k' rows"
    and rows': "distinct (map keyFromWorkflow rows')" "set rows' \<subseteq> set rows \<union> set_option (change r)"
    using assms(2) by (auto simp: rowChange_def)
  have "readable r" "keyFromWorkflow r = k"
    using r(1) assms(1) by (auto dest: db_ok_readable db_lookup_SomeD)
  from assms(5) [OF this r(2)] have step: "flow_step (CE_Now env) op (Some (rowFlow r)) (map_option rowFlow (change r))"
    and new: "\<forall>x. change r = Some x \<longrightarrow> readable x" by blast+
  have "list_all readable rows'"
    using rows'(2) assms(1) new by (auto simp: db_ok_def list_all_iff)
  with rows'(1) have "db_ok rows'" by (simp add: db_ok_def)
  moreover have "\<forall>k'. k' \<noteq> opKey op \<longrightarrow> db_view rows' k' = db_view rows k'"
    using others assms(3) by (simp add: db_view_def)
  moreover have "flow_step (CE_Now env) op (db_view rows k) (db_view rows' k)"
    using step r by (simp add: db_view_def)
  ultimately show ?thesis
    unfolding dbPromise_def lapses_def using assms(3) by blast
qed

lemmas row_simps = written_def snapshotUpdates_def addReservationUpdates_def clearResult_def
  clearExecutionUpdates_def setStatus_def resultUpdates_def

lemma decodeRowSnapshot_execution [simp]:
  "decodeRowSnapshot (written env r) = decodeRowSnapshot r"
  "decodeRowSnapshot (addReservationUpdates col v r) = decodeRowSnapshot r"
  "decodeRowSnapshot (clearResult r) = decodeRowSnapshot r"
  "decodeRowSnapshot (setStatus st r) = decodeRowSnapshot r"
  "decodeRowSnapshot (resultUpdates x r) = decodeRowSnapshot r"
  "decodeRowSnapshot (clearExecutionUpdates r) = decodeRowSnapshot r"
  by (simp_all add: decodeRowSnapshot_def row_simps split: sum.split)

lemma updated_snapshot:
  assumes "encodeSnapshotUpdate now k snap = Inr (u, w)"
    and "\<forall>s. snap = Some s \<longrightarrow> snapshot_ok (completedSnapshot now k s)" and "keyFromWorkflow r = k"
  shows "decodeRowSnapshot (snapshotUpdates col u r) = Inr w"
  by (rule snapshot_row [OF assms(1,2)]) (use assms(3) in simp, simp_all add: snapshotUpdates_def)

lemma swap_db_promise:
  assumes "db_ok rows" and "legalCall (env, OpCompareAndSwap k v snap)"
    and "db_CompareAndSwap env k v snap rows = (res, rows')"
  shows "dbPromise env (OpCompareAndSwap k v snap) rows res rows'"
proof (cases "encodeSnapshotUpdate (CE_Now env) k snap")
  case (Inl e)
  with assms show ?thesis by (auto simp: db_CompareAndSwap_def intro: promise_refused)
next
  case (Inr uw)
  obtain u w where uw: "uw = (u, w)" by (cases uw)
  obtain r1 where repo: "repo_CompareAndSwap env 0 k v u rows = (r1, rows')" and failed: "isl r1 \<Longrightarrow> isl res"
    using assms(3) Inr uw by (auto simp: db_CompareAndSwap_def split: prod.splits sum.splits)
  have keys: "distinct (map keyFromWorkflow rows)" using assms(1) by (simp add: db_ok_def)
  show ?thesis
  proof (rule promise_change [OF assms(1) swap_change [OF keys repo] _ failed])
    fix r assume r: "readable r" "keyFromWorkflow r = k" "AW_Version r = v \<and> idleExecutionPredicate r"
    let ?x = "written env (snapshotUpdates (DE_Column env) u r)"
    have "decodeRowSnapshot ?x = Inr w"
      using updated_snapshot [OF Inr [unfolded uw] _ r(2)] assms(2) by simp
    moreover have "decodeExecution ?x = Inr None"
      using r(3) by (intro idle_row) (auto simp: row_simps idleExecutionPredicate_def hasAnyExecutionAuthority_def)
    moreover have "flow_step (CE_Now env) (OpCompareAndSwap k v snap) (Some (rowFlow r)) (Some (rowFlow ?x))"
      using r(3) by (simp add: flow_step_simps rowFlow_def row_simps idleExecutionPredicate_def)
    ultimately show "flow_step (CE_Now env) (OpCompareAndSwap k v snap) (Some (rowFlow r))
        (map_option rowFlow ((Some \<circ> (written env \<circ> snapshotUpdates (DE_Column env) u)) r))
      \<and> (\<forall>x. (Some \<circ> (written env \<circ> snapshotUpdates (DE_Column env) u)) r = Some x \<longrightarrow> readable x)"
      by (simp add: readable_def)
  qed simp_all
qed

lemma delete_db_promise:
  assumes "db_ok rows" and "db_DeleteIfVersion env k v rows = (res, rows')"
  shows "dbPromise env (OpDeleteIfVersion k v) rows res rows'"
proof -
  obtain r1 where repo: "repo_DeleteIfVersion env 0 k v rows = (r1, rows')" and failed: "isl r1 \<Longrightarrow> isl res"
    using assms(2) by (auto simp: db_DeleteIfVersion_def split: prod.splits sum.splits)
  have keys: "distinct (map keyFromWorkflow rows)" using assms(1) by (simp add: db_ok_def)
  show ?thesis
    by (rule promise_change [OF assms(1) delete_idle_change [OF keys repo] _ failed])
      (auto simp: flow_step_simps rowFlow_def idleExecutionPredicate_def)
qed

lemma reserve_db_promise:
  assumes "db_ok rows" and "legalCall (env, OpReserve k v snap rv)"
    and "db_ReserveExecution env k v snap rv rows = (res, rows')"
  shows "dbPromise env (OpReserve k v snap rv) rows res rows'"
proof (cases "\<exists>u w v' n. encodeSnapshotUpdate (CE_Now env) k snap = Inr (u, w)
    \<and> encodeRepositoryReservation rv = Inr (v', n)")
  case False
  with assms(1,3) show ?thesis
    by (auto simp: db_ReserveExecution_def split: sum.splits prod.splits intro: promise_refused)
next
  case True
  then obtain u w v' n where u: "encodeSnapshotUpdate (CE_Now env) k snap = Inr (u, w)"
    and v': "encodeRepositoryReservation rv = Inr (v', n)" by blast
  obtain r1 where repo: "repo_ReserveExecution env 0 k v u v' rows = (r1, rows')" and failed: "isl r1 \<Longrightarrow> isl res"
    using assms(3) u v' by (auto simp: db_ReserveExecution_def split: prod.splits sum.splits)
  have keys: "distinct (map keyFromWorkflow rows)" using assms(1) by (simp add: db_ok_def)
  have legal: "columns_ok env" "reservation_ok rv" using assms(2) by simp_all
  let ?g = "written env \<circ> clearResult \<circ> setStatus AgentWorkflowExecutionExecuting
    \<circ> addReservationUpdates (DE_Column env) v' \<circ> snapshotUpdates (DE_Column env) u"
  show ?thesis
  proof (rule promise_change [OF assms(1) reserve_change [OF keys repo] _ failed])
    fix r assume r: "readable r" "keyFromWorkflow r = k" "AW_Version r = v \<and> idleExecutionPredicate r"
    have "decodeRowSnapshot (?g r) = Inr w"
      using updated_snapshot [OF u _ r(2)] assms(2) by simp
    moreover have exec: "decodeExecution (?g r) = Inr (Some \<lparr>PE_Status = WorkflowExecutionExecuting,
        PE_Reservation = n, PE_Result = None\<rparr>)" and view: "rowExecution (?g r) = reservedView n"
      by (rule reserved_row [OF v' legal(2,1)]; simp add: row_simps)+
    moreover have "flow_step (CE_Now env) (OpReserve k v snap rv) (Some (rowFlow r)) (Some (rowFlow (?g r)))"
      using r(3) reservation_columns(1) [OF v' legal(2)] view
      by (simp add: flow_step_simps rowFlow_def idleExecutionPredicate_def) (simp add: row_simps)
    ultimately show "flow_step (CE_Now env) (OpReserve k v snap rv) (Some (rowFlow r))
        (map_option rowFlow ((Some \<circ> ?g) r)) \<and> (\<forall>x. (Some \<circ> ?g) r = Some x \<longrightarrow> readable x)"
      by (simp add: readable_def)
  qed simp_all
qed

lemma finalize_db_promise:
  assumes "db_ok rows" and "legalCall (env, OpFinalize k v token snap)"
    and "db_FinalizeExecution env k v token snap rows = (res, rows')"
  shows "dbPromise env (OpFinalize k v token snap) rows res rows'"
proof (cases "encodeSnapshotUpdate (CE_Now env) k snap")
  case (Inl e)
  with assms show ?thesis by (auto simp: db_FinalizeExecution_def intro: promise_refused)
next
  case (Inr uw)
  obtain u w where uw: "uw = (u, w)" by (cases uw)
  obtain r1 where repo: "repo_FinalizeExecution env 0 k v token u rows = (r1, rows')" and failed: "isl r1 \<Longrightarrow> isl res"
    using assms(3) Inr uw by (auto simp: db_FinalizeExecution_def split: prod.splits sum.splits)
  have keys: "distinct (map keyFromWorkflow rows)" using assms(1) by (simp add: db_ok_def)
  let ?g = "written env \<circ> setStatus AgentWorkflowExecutionIdle \<circ> clearExecutionUpdates
    \<circ> snapshotUpdates (DE_Column env) u"
  show ?thesis
  proof (rule promise_change [OF assms(1) finalize_change [OF keys repo] _ failed])
    fix r assume r: "readable r" "keyFromWorkflow r = k"
      and p: "AW_Version r = v \<and> AW_ExecutionStatus r = AgentWorkflowExecutionResultRecorded
             \<and> AW_ExecutionToken r = Some token \<and> AW_ExecutionResultSchemaVersion r \<noteq> None
             \<and> AW_ExecutionResultJSON r \<noteq> None"
    have "decodeRowSnapshot (?g r) = Inr w"
      using updated_snapshot [OF Inr [unfolded uw] _ r(2)] assms(2) by simp
    moreover have "decodeExecution (?g r) = Inr None"
      by (rule idle_row) (simp_all add: row_simps hasAnyExecutionAuthority_def)
    moreover have "EV_Token (rowExecution r) = trimSpace token" using p by (intro active_view [OF r(1)]) auto
    then have "flow_step (CE_Now env) (OpFinalize k v token snap) (Some (rowFlow r)) (Some (rowFlow (?g r)))"
      using p by (simp add: flow_step_simps rowFlow_def row_simps) (simp add: rowExecution_def)
    ultimately show "flow_step (CE_Now env) (OpFinalize k v token snap) (Some (rowFlow r))
        (map_option rowFlow ((Some \<circ> ?g) r)) \<and> (\<forall>x. (Some \<circ> ?g) r = Some x \<longrightarrow> readable x)"
      by (simp add: readable_def)
  qed simp_all
qed

lemma delete_reserved_db_promise:
  assumes "db_ok rows" and "db_DeleteReservedExecution env k v token rows = (res, rows')"
  shows "dbPromise env (OpDeleteReserved k v token) rows res rows'"
proof -
  obtain r1 where repo: "repo_DeleteReservedExecution env 0 k v token rows = (r1, rows')"
    and failed: "isl r1 \<Longrightarrow> isl res"
    using assms(2) by (auto simp: db_DeleteReservedExecution_def split: prod.splits sum.splits)
  have keys: "distinct (map keyFromWorkflow rows)" using assms(1) by (simp add: db_ok_def)
  show ?thesis
  proof (rule promise_change [OF assms(1) delete_reserved_change [OF keys repo] _ failed])
    fix r assume r: "readable r"
      and p: "AW_Version r = v \<and> AW_ExecutionToken r = Some token
             \<and> AW_ExecutionStatus r = AgentWorkflowExecutionResultRecorded
             \<and> AW_ExecutionResultSchemaVersion r \<noteq> None \<and> AW_ExecutionResultJSON r \<noteq> None"
    have "EV_Token (rowExecution r) = trimSpace token" using p by (intro active_view [OF r(1)]) auto
    then show "flow_step (CE_Now env) (OpDeleteReserved k v token) (Some (rowFlow r)) (map_option rowFlow None)
        \<and> (\<forall>x. None = Some x \<longrightarrow> readable x)"
      using p by (simp add: flow_step_simps rowFlow_def) (simp add: rowExecution_def)
  qed simp_all
qed

lemma repo_Load_Inr: "repo_Load env n k rows = Inr x \<Longrightarrow> x = db_lookup k rows"
  by (auto simp: repo_Load_def runStatement_def firstRow_def db_lookup_def
      split: option.splits prod.splits)

lemma load_active:
  assumes "db_lookup k rows = Some x" and "AW_ExecutionStatus x \<noteq> AgentWorkflowExecutionIdle"
  shows "snd (db_Load env n k rows) = rows" and "snd (loadExpectedVersion env n k v rows) = rows"
proof -
  show load: "snd (db_Load env n k rows) = rows"
    using assms
    by (auto simp: db_Load_def split: sum.splits option.splits dest!: repo_Load_Inr)
  then show "snd (loadExpectedVersion env n k v rows) = rows"
    by (cases "db_Load env n k rows") (auto simp: loadExpectedVersion_def split: sum.splits option.splits)
qed

lemma load_db_promise:
  assumes "db_ok rows" and "db_Load env n k rows = (res, rows')"
  shows "dbPromise env (OpLoad k) rows res rows'"
proof (cases "rows' = rows")
  case True
  then show ?thesis using assms(1) by (auto simp: dbPromise_def lapses_def)
next
  case False
  then obtain r r1 where r: "repo_Load env n k rows = Inr (Some r)"
    and idle: "AW_ExecutionStatus r = AgentWorkflowExecutionIdle"
    and repo: "repo_DeleteIfVersion env (n + 1) k (AW_Version r) rows = (r1, rows')"
    using assms(2) by (auto simp: db_Load_def split: sum.splits option.splits if_splits prod.splits)
  have keys: "distinct (map keyFromWorkflow rows)" using assms(1) by (simp add: db_ok_def)
  have lookup: "db_lookup k rows = Some r" using repo_Load_Inr [OF r] by simp
  from delete_idle_change [OF keys repo] False lookup
  have rows': "db_lookup k rows' = None" "\<forall>k'. k' \<noteq> k \<longrightarrow> db_lookup k' rows' = db_lookup k' rows"
    "distinct (map keyFromWorkflow rows')" "set rows' \<subseteq> set rows"
    by (auto simp: rowChange_def)
  then have "db_ok rows'" using assms(1) by (auto simp: db_ok_def list_all_iff)
  moreover have "lapses (db_view rows k) (db_view rows' k)"
    using lookup idle rows'(1) by (simp add: lapses_def db_view_def rowFlow_def)
  ultimately show ?thesis using rows'(2) by (auto simp: dbPromise_def db_view_def)
qed

lemma record_db_promise:
  assumes "db_ok rows" and "legalCall (env, OpRecordResult k v token result)"
    and "db_RecordExecutionResult env k v token result rows = (res, rows')"
  shows "dbPromise env (OpRecordResult k v token result) rows res rows'"
proof (cases "MarshalPersistedExecutionResult result")
  case (Inl e)
  with assms show ?thesis by (auto simp: db_RecordExecutionResult_def intro: promise_refused)
next
  case (Inr payload)
  let ?x = "\<lparr>AX_ResultSchemaVersion = workflowCodecVersion, AX_ResultJSON = payload,
    AX_BusinessKey = PR_BusinessKey result, AX_WriteEffect = effectText (PR_WriteEffect result),
    AX_CompletedAt = PR_CompletedAt result\<rparr>"
  have keys: "distinct (map keyFromWorkflow rows)" using assms(1) by (simp add: db_ok_def)
  obtain r1 rows1 where repo: "repo_RecordExecutionResult env 0 k v token ?x rows = (r1, rows1)"
    by (metis surj_pair)
  note change = record_change [OF keys repo]
  have res: "rows' = rows1 \<and> (isl r1 \<longrightarrow> isl res)"
  proof (cases r1)
    case (Inl e)
    with assms(3) Inr repo show ?thesis by (auto simp: db_RecordExecutionResult_def)
  next
    case (Inr u)
    with change obtain r where "db_lookup k rows1 = Some (written env (resultUpdates ?x r))"
      by (auto simp: rowChange_def)
    from load_active(2) [OF this, of env 1 "v + 1"]
    have "snd (loadExpectedVersion env 1 k (v + 1) rows1) = rows1" by (simp add: row_simps)
    with assms(3) \<open>MarshalPersistedExecutionResult result = Inr payload\<close> repo Inr show ?thesis
      by (simp add: db_RecordExecutionResult_def)
  qed
  have trimmed: "trimSpace (PR_BusinessKey result) = PR_BusinessKey result"
    using Inr by (auto simp: MarshalPersistedExecutionResult_def persistedExecutionResultToV1_def
        split: sum.splits option.splits if_splits)
  have unmarshal: "UnmarshalPersistedExecutionResult payload = Inr result"
    using assms(2) by (intro unmarshal_result [OF _ Inr]) simp
  show ?thesis
  proof (rule promise_change [OF assms(1), of k _ _ "isl r1"])
    show "rowChange k (\<lambda>r. AW_Version r = v \<and> AW_ExecutionStatus r = AgentWorkflowExecutionExecuting
             \<and> AW_ExecutionToken r = Some token \<and> AW_BusinessKey r = Some (AX_BusinessKey ?x)
             \<and> trimSpace (AX_WriteEffect ?x) \<noteq> [] \<and> AX_ResultSchemaVersion ?x \<noteq> 0)
           (Some \<circ> (written env \<circ> resultUpdates ?x)) rows (isl r1) rows'"
      using change res by simp
    fix r assume r: "readable r" and p: "AW_Version r = v \<and> AW_ExecutionStatus r = AgentWorkflowExecutionExecuting
             \<and> AW_ExecutionToken r = Some token \<and> AW_BusinessKey r = Some (AX_BusinessKey ?x)
             \<and> trimSpace (AX_WriteEffect ?x) \<noteq> [] \<and> AX_ResultSchemaVersion ?x \<noteq> 0"
    let ?y = "written env (resultUpdates ?x r)"
    obtain d where d: "decodeReservation r = Inr d" using p by (auto intro: readable_active [OF r])
    have "decodeReservation ?y = Inr d"
      using d by (simp add: decodeReservation_def row_simps cong: option.case_cong)
    moreover have "decodeResult ?y = Inr (Some result)"
      using p unmarshal by (simp add: decodeResult_def row_simps)
    ultimately have exec: "\<not> isl (decodeExecution ?y)"
      by (simp add: decodeExecution_def) (simp add: row_simps)
    have "EV_Token (rowExecution r) = trimSpace token" using p by (intro active_view [OF r]) auto
    moreover have "EV_BusinessKey (rowExecution r) = PR_BusinessKey result"
      using p by (simp add: rowExecution_def columnText_def)
    ultimately have "flow_step (CE_Now env) (OpRecordResult k v token result) (Some (rowFlow r)) (Some (rowFlow ?y))"
      using p trimmed by (simp add: flow_step_simps rowFlow_def row_simps) (simp add: rowExecution_def)
    with exec r show "flow_step (CE_Now env) (OpRecordResult k v token result) (Some (rowFlow r))
          (map_option rowFlow ((Some \<circ> (written env \<circ> resultUpdates ?x)) r))
        \<and> (\<forall>z. (Some \<circ> (written env \<circ> resultUpdates ?x)) r = Some z \<longrightarrow> readable z)"
      by (simp add: readable_def)
  qed (use res in simp_all)
qed

lemma takeover_db_promise:
  assumes "db_ok rows" and "legalCall (env, OpTakeover k v previous rv)"
    and "db_TakeoverExpiredExecution env k v previous rv rows = (res, rows')"
  shows "dbPromise env (OpTakeover k v previous rv) rows res rows'"
proof (cases "encodeRepositoryReservation rv")
  case (Inl e)
  with assms show ?thesis by (auto simp: db_TakeoverExpiredExecution_def intro: promise_refused)
next
  case (Inr vn)
  obtain v' n where vn: "vn = (v', n)" by (cases vn)
  note v' = Inr [unfolded vn]
  have legal: "columns_ok env" "reservation_ok rv" using assms(2) by simp_all
  let ?g = "written env \<circ> clearResult \<circ> setStatus AgentWorkflowExecutionExecuting
    \<circ> addReservationUpdates (DE_Column env) v'"
  have keys: "distinct (map keyFromWorkflow rows)" using assms(1) by (simp add: db_ok_def)
  obtain r1 rows1 where repo: "repo_TakeoverExpiredExecution env 0 k v previous (CE_Now env) v' rows = (r1, rows1)"
    by (metis surj_pair)
  note change = takeover_change [OF keys repo]
  have res: "rows' = rows1 \<and> (isl r1 \<longrightarrow> isl res)"
  proof (cases r1)
    case (Inl e)
    with assms(3) v' repo show ?thesis by (auto simp: db_TakeoverExpiredExecution_def)
  next
    case (Inr u)
    with change obtain r where "db_lookup k rows1 = Some (?g r)"
      by (auto simp: rowChange_def)
    from load_active(2) [OF this, of env 1 "v + 1"]
    have "snd (loadExpectedVersion env 1 k (v + 1) rows1) = rows1" by (simp add: row_simps)
    with assms(3) v' repo Inr show ?thesis
      by (simp add: db_TakeoverExpiredExecution_def)
  qed
  show ?thesis
  proof (rule promise_change [OF assms(1) change [folded conjunct1 [OF res]]])
    fix r assume r: "readable r" and p: "AW_Version r = v \<and> AW_ExecutionToken r = Some previous
             \<and> AW_ExecutionStatus r \<in> {AgentWorkflowExecutionExecuting, AgentWorkflowExecutionRecoveryRequired}
             \<and> AW_ExecutionOperation r = Some (AR_ExecutionOperation v')
             \<and> AW_BusinessKey r = Some (AR_BusinessKey v')
             \<and> AW_ExecutionRequestSchemaVersion r \<noteq> None \<and> AW_ExecutionRequestJSON r \<noteq> None
             \<and> leaseExpired (CE_Now env) r"
    note cols = reservation_columns [OF v' legal(2)]
    have exec: "decodeExecution (?g r) = Inr (Some \<lparr>PE_Status = WorkflowExecutionExecuting,
        PE_Reservation = n, PE_Result = None\<rparr>)" and view: "rowExecution (?g r) = reservedView n"
      by (rule reserved_row [OF v' legal(2,1)]; simp add: row_simps)+
    have active: "AW_ExecutionStatus r \<noteq> AgentWorkflowExecutionIdle" using p by auto
    have "EV_Token (rowExecution r) = trimSpace previous" using p by (intro active_view [OF r _ active]) auto
    moreover have "EV_Lease (rowExecution r) \<le> CE_Now env" "EV_Operation (rowExecution r) = RE_Operation n"
      "EV_BusinessKey (rowExecution r) = RE_BusinessKey n" "\<not> EV_Recorded (rowExecution r)"
      using p cols(4,5) by (auto simp: rowExecution_def columnText_def leaseExpired_def split: option.splits)
    moreover have "rowFlow (?g r) = (v + 1, Some (reservedView n))" "rowFlow r = (v, Some (rowExecution r))"
      using view p active by (simp_all add: rowFlow_def) (simp_all add: row_simps)
    moreover have "(reservedView n)\<lparr>EV_Recorded := False\<rparr> = reservedView n" by (simp add: reservedView_def)
    ultimately have "flow_step (CE_Now env) (OpTakeover k v previous rv) (Some (rowFlow r)) (Some (rowFlow (?g r)))"
      using cols(1) by (simp add: flow_step_simps)
    with exec r show "flow_step (CE_Now env) (OpTakeover k v previous rv) (Some (rowFlow r))
        (map_option rowFlow ((Some \<circ> ?g) r)) \<and> (\<forall>z. (Some \<circ> ?g) r = Some z \<longrightarrow> readable z)"
      by (simp add: readable_def)
  qed (use res in simp_all)
qed

lemma promise_insert:
  assumes "db_ok rows" and "db_lookup k rows = None" and "keyFromWorkflow x = k" and "readable x"
    and "k = opKey op" and "flow_step (CE_Now env) op None (Some (rowFlow x))"
  shows "dbPromise env op rows res (rows @ [x])"
proof -
  have "db_lookup k' (rows @ [x]) = (if k' = k then Some x else db_lookup k' rows)" for k'
    using assms(2,3) by (induction rows) (auto simp: db_lookup_def split: if_splits)
  moreover have "db_ok (rows @ [x])"
    using assms(1-4) by (auto simp: db_ok_def db_lookup_None)
  ultimately show ?thesis
    using assms(2,5,6) by (auto simp: dbPromise_def db_view_def lapses_def)
qed

lemma encoded_row:
  assumes "encodeAgentWorkflowRow now k snap = Inr row"
  obtains u w where "encodeSnapshotUpdate now k snap = Inr (u, w)" and "keyFromWorkflow row = k"
    and "AW_WorkflowID row = SU_WorkflowID u" "AW_WorkflowType row = SU_WorkflowType u"
      "AW_WorkflowState row = SU_WorkflowState u" "AW_SnapshotSchemaVersion row = 1"
      "SU_SnapshotSchemaVersion u = 1" "AW_SnapshotJSON row = SU_SnapshotJSON u"
    and "\<not> hasAnyExecutionAuthority row"
proof (cases "encodeSnapshotUpdate now k snap")
  case (Inl e)
  with assms show thesis by (simp add: encodeAgentWorkflowRow_def)
next
  case (Inr uw)
  obtain u w where uw: "uw = (u, w)" by (cases uw)
  have "SU_SnapshotSchemaVersion u = 1"
    using Inr uw by (auto simp: encodeSnapshotUpdate_def workflowCodecVersion_def split: sum.splits option.splits)
  with assms Inr uw show thesis
    by (intro that [of u w]; cases k)
      (auto simp: encodeAgentWorkflowRow_def keyFromWorkflow_def hasAnyExecutionAuthority_def)
qed

lemmas created_simps = columnRow_def stampCreated_def prepareNewWorkflow_def applyReservationToWorkflow_def
  row_simps Let_def

lemma create_db_promise:
  assumes "db_ok rows" and "legalCall (env, OpCreate k snap)" and "db_Create env k snap rows = (res, rows')"
  shows "dbPromise env (OpCreate k snap) rows res rows'"
proof (cases "encodeAgentWorkflowRow (CE_Now env) k snap")
  case (Inl e)
  with assms show ?thesis by (auto simp: db_Create_def intro: promise_refused)
next
  case (Inr row)
  then obtain u w where u: "encodeSnapshotUpdate (CE_Now env) k snap = Inr (u, w)" and key: "keyFromWorkflow row = k"
    and cols: "AW_WorkflowID row = SU_WorkflowID u" "AW_WorkflowType row = SU_WorkflowType u"
      "AW_WorkflowState row = SU_WorkflowState u" "AW_SnapshotSchemaVersion row = 1"
      "SU_SnapshotSchemaVersion u = 1" "AW_SnapshotJSON row = SU_SnapshotJSON u"
    and none: "\<not> hasAnyExecutionAuthority row"
    by (rule encoded_row)
  let ?c = "stampCreated env (prepareNewWorkflow AgentWorkflowExecutionIdle row)"
  obtain r1 where repo: "repo_Create env 0 (Some row) rows = (r1, rows')" and failed: "isl r1 \<Longrightarrow> isl res"
    using assms(3) Inr by (auto simp: db_Create_def split: prod.splits sum.splits)
  have keys: "distinct (map keyFromWorkflow rows)" using assms(1) by (simp add: db_ok_def)
  have "rows' = rows \<and> isl r1 \<or> db_lookup k rows = None \<and> rows' = rows @ [columnRow env ?c]"
    using repo insert_change [OF keys, of ?c env 0 ?c r1 rows' k] key
    by (auto simp: repo_Create_def Let_def split: option.splits)
  then show ?thesis
  proof
    assume "rows' = rows \<and> isl r1"
    then show ?thesis using assms(1) failed by (cases res) (auto intro: promise_refused)
  next
    assume new: "db_lookup k rows = None \<and> rows' = rows @ [columnRow env ?c]"
    have "decodeRowSnapshot (columnRow env ?c) = Inr w"
      by (rule snapshot_row [OF u]) (use assms(2) in simp, use key in simp, use cols in \<open>simp_all add: created_simps\<close>)
    moreover have "decodeExecution (columnRow env ?c) = Inr None"
      by (rule idle_row) (simp_all add: created_simps hasAnyExecutionAuthority_def)
    moreover have "flow_step (CE_Now env) (OpCreate k snap) None (Some (rowFlow (columnRow env ?c)))"
      by (simp add: flow_step_simps rowFlow_def created_simps)
    ultimately show ?thesis
      using new key assms(1) by (auto simp: readable_def intro!: promise_insert [where k = k])
  qed
qed

lemma create_reserved_db_promise:
  assumes "db_ok rows" and "legalCall (env, OpCreateReserved k snap rv)"
    and "db_CreateReservedExecution env k snap rv rows = (res, rows')"
  shows "dbPromise env (OpCreateReserved k snap rv) rows res rows'"
proof (cases "\<exists>row v n. encodeAgentWorkflowRow (CE_Now env) k snap = Inr row
    \<and> encodeRepositoryReservation rv = Inr (v, n)")
  case False
  with assms(1,3) show ?thesis
    by (auto simp: db_CreateReservedExecution_def split: sum.splits prod.splits intro: promise_refused)
next
  case True
  then obtain row v n where row: "encodeAgentWorkflowRow (CE_Now env) k snap = Inr row"
    and v: "encodeRepositoryReservation rv = Inr (v, n)" by blast
  obtain u w where u: "encodeSnapshotUpdate (CE_Now env) k snap = Inr (u, w)" and key: "keyFromWorkflow row = k"
    and cols: "AW_WorkflowID row = SU_WorkflowID u" "AW_WorkflowType row = SU_WorkflowType u"
      "AW_WorkflowState row = SU_WorkflowState u" "AW_SnapshotSchemaVersion row = 1"
      "SU_SnapshotSchemaVersion u = 1" "AW_SnapshotJSON row = SU_SnapshotJSON u"
    using row by (rule encoded_row)
  have legal: "columns_ok env" "reservation_ok rv" using assms(2) by simp_all
  let ?c = "stampCreated env (applyReservationToWorkflow v (prepareNewWorkflow AgentWorkflowExecutionExecuting row))"
  obtain r1 where repo: "repo_CreateReservedExecution env 0 (Some row) v rows = (r1, rows')"
    and failed: "isl r1 \<Longrightarrow> isl res"
    using assms(3) row v by (auto simp: db_CreateReservedExecution_def split: prod.splits sum.splits)
  have keys: "distinct (map keyFromWorkflow rows)" using assms(1) by (simp add: db_ok_def)
  have "rows' = rows \<and> isl r1 \<or> db_lookup k rows = None \<and> rows' = rows @ [columnRow env ?c]"
    using repo insert_change [OF keys, of ?c env 0 ?c r1 rows' k] key
    by (auto simp: repo_CreateReservedExecution_def Let_def split: option.splits)
  then show ?thesis
  proof
    assume "rows' = rows \<and> isl r1"
    then show ?thesis using assms(1) failed by (cases res) (auto intro: promise_refused)
  next
    assume new: "db_lookup k rows = None \<and> rows' = rows @ [columnRow env ?c]"
    have "decodeRowSnapshot (columnRow env ?c) = Inr w"
      by (rule snapshot_row [OF u]) (use assms(2) in simp, use key in simp, use cols in \<open>simp_all add: created_simps\<close>)
    moreover have exec: "decodeExecution (columnRow env ?c) = Inr (Some \<lparr>PE_Status = WorkflowExecutionExecuting,
        PE_Reservation = n, PE_Result = None\<rparr>)" and view: "rowExecution (columnRow env ?c) = reservedView n"
      by (rule reserved_row [OF v legal(2,1)]; simp add: created_simps)+
    moreover have "flow_step (CE_Now env) (OpCreateReserved k snap rv) None (Some (rowFlow (columnRow env ?c)))"
      using reservation_columns(1) [OF v legal(2)] view
      by (simp add: flow_step_simps rowFlow_def) (simp add: created_simps)
    ultimately show ?thesis
      using new key assms(1) by (auto simp: readable_def intro!: promise_insert [where k = k])
  qed
qed

lemma db_promise:
  assumes "db_ok rows" and "legalCall (env, op)" and "db_serve env op rows = (res, rows')"
  shows "dbPromise env op rows res rows'"
  using assms
  by (cases op) (simp_all add: load_db_promise create_db_promise swap_db_promise delete_db_promise
      create_reserved_db_promise reserve_db_promise record_db_promise finalize_db_promise
      delete_reserved_db_promise takeover_db_promise del: legalCall.simps)

interpretation database: workflow_store db_serve db_view db_ok legalCall
proof
  fix s env op res s'
  assume "db_ok s" "legalCall (env, op)" "db_serve env op s = (res, s')"
  then show "db_ok s'" by (simp add: db_promise [unfolded dbPromise_def])
next
  fix s env op res s' k
  assume "db_ok s" "legalCall (env, op)" "db_serve env op s = (res, s')" "k \<noteq> opKey op"
  then show "db_view s' k = db_view s k" using db_promise [unfolded dbPromise_def] by blast
next
  fix s env op res s'
  assume "db_ok s" "legalCall (env, op)" "db_serve env op s = (res, s')"
  then show "\<exists>f. lapses (db_view s (opKey op)) f
      \<and> (db_view s' (opKey op) = f \<and> (isl res \<or> isLoad op)
         \<or> flow_step (CE_Now env) op f (db_view s' (opKey op)))"
    using db_promise [unfolded dbPromise_def] by blast
qed

end
