(* ===== verification/WorkflowStore.thy ===== *)
theory WorkflowStore
  imports WorkflowContract
begin

text \<open>
  The in-memory workflow store (\<open>memoryWorkflowStore\<close>, src/internal/agent/workflow\_store.go):
  a map from workflow keys to records, each operation under one lock. Values that cross the
  boundary are cloned, which a model without aliasing expresses by the normalisation the clones
  perform. The store keeps the promise of the locale \<open>workflow_store\<close>.
\<close>

section \<open>State\<close>

record memoryWorkflowRecord =
  MR_Snapshot :: WorkflowSnapshot
  MR_Version :: "64 word"
  MR_Execution :: "PersistedExecutionV1 option"

type_synonym memoryWorkflowStore = "WorkflowKey \<Rightarrow> memoryWorkflowRecord option"

definition newMemoryWorkflowStore :: memoryWorkflowStore where
  "newMemoryWorkflowStore = (\<lambda>_. None)"

definition defaultWorkflowTTL :: duration where
  "defaultWorkflowTTL = 30 * minute"

section \<open>Cloning\<close>

definition cloneReservedExecution :: "ReservedExecutionV1 \<Rightarrow> ReservedExecutionV1" where
  "cloneReservedExecution r =
     r\<lparr>RE_Operation := trimSpace (RE_Operation r), RE_BusinessKey := trimSpace (RE_BusinessKey r),
       RE_ExecutionToken := trimSpace (RE_ExecutionToken r),
       RE_AttemptRequestID := trimSpace (RE_AttemptRequestID r),
       RE_StartedAt := normalizeWorkflowDatabaseTime (RE_StartedAt r),
       RE_LeaseExpiresAt := normalizeWorkflowDatabaseTime (RE_LeaseExpiresAt r)\<rparr>"

definition clonePersistedExecution :: "PersistedExecutionV1 \<Rightarrow> PersistedExecutionV1" where
  "clonePersistedExecution e = e\<lparr>PE_Reservation := cloneReservedExecution (PE_Reservation e)\<rparr>"

definition cloneVersionedWorkflow :: "memoryWorkflowRecord \<Rightarrow> VersionedWorkflow" where
  "cloneVersionedWorkflow r =
     \<lparr>VW_Snapshot = cloneWorkflowSnapshot (MR_Snapshot r), VW_Version = MR_Version r,
      VW_Execution = map_option clonePersistedExecution (MR_Execution r)\<rparr>"

definition setWorkflowSnapshotVersion :: "64 word \<Rightarrow> WorkflowSnapshot \<Rightarrow> WorkflowSnapshot" where
  "setWorkflowSnapshotVersion version snapshot = snapshot\<lparr>WF_Version := version\<rparr>"

definition prepareSnapshotLocked ::
  "instant \<Rightarrow> WorkflowKey \<Rightarrow> WorkflowSnapshot \<Rightarrow> 64 word \<Rightarrow> WorkflowSnapshot option \<Rightarrow> WorkflowSnapshot" where
  "prepareSnapshotLocked now key flow version existing =
     (let cloned = cloneWorkflowSnapshot flow;
          next1 = cloned\<lparr>WF_TenantID := WK_TenantID key, WF_ConversationID := WK_ConversationID key,
                         WF_ActorUserID := WK_ActorUserID key\<rparr>;
          createdAt = (if WF_CreatedAt next1 = 0
                       then (case existing of
                               Some old \<Rightarrow> if WF_CreatedAt old \<noteq> 0 then WF_CreatedAt old else now
                             | None \<Rightarrow> now)
                       else WF_CreatedAt next1);
          expiresAt = (if WF_ExpiresAt next1 = 0 then now + defaultWorkflowTTL
                       else WF_ExpiresAt next1);
          next2 = next1\<lparr>WF_CreatedAt := createdAt, WF_UpdatedAt := now, WF_ExpiresAt := expiresAt\<rparr>
      in syncWorkflowSnapshotFields (setWorkflowSnapshotVersion version next2))"

section \<open>Guards\<close>

definition validateWorkflowKey :: "WorkflowKey \<Rightarrow> agentError option" where
  "validateWorkflowKey key =
     (if WK_TenantID key = 0 \<or> trimSpace (WK_ConversationID key) = [] \<or> WK_ActorUserID key = 0
      then Some (Wrapped ''tenant_id, conversation_id, actor_user_id'' ErrWorkflowKeyIncomplete)
      else None)"

text \<open>\<open>ctx.Err()\<close> and the key are checked first, by every operation.\<close>

definition callError :: "callEnv \<Rightarrow> WorkflowKey \<Rightarrow> agentError option" where
  "callError env key = (case CE_Err env of Some e \<Rightarrow> Some e | None \<Rightarrow> validateWorkflowKey key)"

definition activeRecordLocked ::
  "instant \<Rightarrow> WorkflowKey \<Rightarrow> memoryWorkflowStore \<Rightarrow> memoryWorkflowRecord option \<times> memoryWorkflowStore" where
  "activeRecordLocked now key s =
     (case s key of
        None \<Rightarrow> (None, s)
      | Some r \<Rightarrow>
          if MR_Execution r = None \<and> workflowExpired (Some (MR_Snapshot r)) now
          then (None, s(key := None)) else (Some r, s))"

definition recordForVersionedMutationLocked ::
  "instant \<Rightarrow> WorkflowKey \<Rightarrow> 64 word \<Rightarrow> memoryWorkflowStore
     \<Rightarrow> (agentError + memoryWorkflowRecord) \<times> memoryWorkflowStore" where
  "recordForVersionedMutationLocked now key expected s =
     (case activeRecordLocked now key s of
        (None, s') \<Rightarrow> (Inl ErrWorkflowConflict, s')
      | (Some r, s') \<Rightarrow>
          (if MR_Version r \<noteq> expected then Inl ErrWorkflowConflict else Inr r, s'))"

text \<open>The record with its execution, or an error.\<close>

definition recordForExecutionMutationLocked ::
  "instant \<Rightarrow> WorkflowKey \<Rightarrow> 64 word \<Rightarrow> string \<Rightarrow> memoryWorkflowStore
     \<Rightarrow> (agentError + memoryWorkflowRecord \<times> PersistedExecutionV1) \<times> memoryWorkflowStore" where
  "recordForExecutionMutationLocked now key expected token s =
     (case recordForVersionedMutationLocked now key expected s of
        (Inl e, s') \<Rightarrow> (Inl e, s')
      | (Inr r, s') \<Rightarrow>
          (case MR_Execution r of
             None \<Rightarrow> (Inl ErrWorkflowConflict, s')
           | Some x \<Rightarrow>
               (if trimSpace token = [] \<or> RE_ExecutionToken (PE_Reservation x) \<noteq> trimSpace token
                then Inl ErrWorkflowConflict else Inr (r, x), s')))"

section \<open>Operations\<close>

definition store_Load :: "callEnv \<Rightarrow> WorkflowKey \<Rightarrow> memoryWorkflowStore \<Rightarrow> storeResult \<times> memoryWorkflowStore" where
  "store_Load env key s =
     (case callError env key of
        Some e \<Rightarrow> (Inl e, s)
      | None \<Rightarrow>
          (case activeRecordLocked (CE_Now env) key s of
             (r, s') \<Rightarrow> (Inr (map_option cloneVersionedWorkflow r), s')))"

definition store_Create ::
  "callEnv \<Rightarrow> WorkflowKey \<Rightarrow> WorkflowSnapshot option \<Rightarrow> memoryWorkflowStore \<Rightarrow> storeResult \<times> memoryWorkflowStore" where
  "store_Create env key nextSnap s =
     (case (callError env key, nextSnap) of
        (Some e, _) \<Rightarrow> (Inl e, s)
      | (None, None) \<Rightarrow> (Inl (Errorf ''workflow snapshot is required''), s)
      | (None, Some snap) \<Rightarrow>
          (case activeRecordLocked (CE_Now env) key s of
             (Some _, s') \<Rightarrow> (Inl ErrWorkflowConflict, s')
           | (None, s') \<Rightarrow>
               let r = \<lparr>MR_Snapshot = prepareSnapshotLocked (CE_Now env) key snap 1 None,
                        MR_Version = 1, MR_Execution = None\<rparr>
               in (Inr (Some (cloneVersionedWorkflow r)), s'(key \<mapsto> r))))"

definition store_CompareAndSwap ::
  "callEnv \<Rightarrow> WorkflowKey \<Rightarrow> 64 word \<Rightarrow> WorkflowSnapshot option \<Rightarrow> memoryWorkflowStore
     \<Rightarrow> storeResult \<times> memoryWorkflowStore" where
  "store_CompareAndSwap env key expected nextSnap s =
     (case (callError env key, nextSnap) of
        (Some e, _) \<Rightarrow> (Inl e, s)
      | (None, None) \<Rightarrow> (Inl (Errorf ''workflow snapshot is required''), s)
      | (None, Some snap) \<Rightarrow>
          (case recordForVersionedMutationLocked (CE_Now env) key expected s of
             (Inl e, s') \<Rightarrow> (Inl e, s')
           | (Inr r, s') \<Rightarrow>
               if MR_Execution r \<noteq> None then (Inl ErrExecutionInProgress, s')
               else
                 let version = MR_Version r + 1;
                     r' = r\<lparr>MR_Version := version,
                            MR_Snapshot := prepareSnapshotLocked (CE_Now env) key snap version
                                             (Some (MR_Snapshot r))\<rparr>
                 in (Inr (Some (cloneVersionedWorkflow r')), s'(key \<mapsto> r'))))"

definition store_DeleteIfVersion ::
  "callEnv \<Rightarrow> WorkflowKey \<Rightarrow> 64 word \<Rightarrow> memoryWorkflowStore \<Rightarrow> storeResult \<times> memoryWorkflowStore" where
  "store_DeleteIfVersion env key expected s =
     (case callError env key of
        Some e \<Rightarrow> (Inl e, s)
      | None \<Rightarrow>
          (case recordForVersionedMutationLocked (CE_Now env) key expected s of
             (Inl e, s') \<Rightarrow> (Inl e, s')
           | (Inr r, s') \<Rightarrow>
               if MR_Execution r \<noteq> None then (Inl ErrExecutionInProgress, s')
               else (Inr None, s'(key := None))))"

definition executing :: "ReservedExecutionV1 \<Rightarrow> PersistedExecutionV1" where
  "executing r = \<lparr>PE_Status = WorkflowExecutionExecuting, PE_Reservation = r, PE_Result = None\<rparr>"

definition store_CreateReservedExecution ::
  "callEnv \<Rightarrow> WorkflowKey \<Rightarrow> WorkflowSnapshot option \<Rightarrow> ReservedExecutionV1 \<Rightarrow> memoryWorkflowStore
     \<Rightarrow> storeResult \<times> memoryWorkflowStore" where
  "store_CreateReservedExecution env key nextSnap reservation s =
     (case (callError env key, nextSnap) of
        (Some e, _) \<Rightarrow> (Inl e, s)
      | (None, None) \<Rightarrow> (Inl (Errorf ''workflow snapshot is required''), s)
      | (None, Some snap) \<Rightarrow>
          (case canonicalReservedExecution reservation of
             Inl e \<Rightarrow> (Inl e, s)
           | Inr normalized \<Rightarrow>
               (case activeRecordLocked (CE_Now env) key s of
                  (Some _, s') \<Rightarrow> (Inl ErrWorkflowConflict, s')
                | (None, s') \<Rightarrow>
                    let r = \<lparr>MR_Snapshot = prepareSnapshotLocked (CE_Now env) key snap 1 None,
                             MR_Version = 1, MR_Execution = Some (executing normalized)\<rparr>
                    in (Inr (Some (cloneVersionedWorkflow r)), s'(key \<mapsto> r)))))"

definition store_ReserveExecution ::
  "callEnv \<Rightarrow> WorkflowKey \<Rightarrow> 64 word \<Rightarrow> WorkflowSnapshot option \<Rightarrow> ReservedExecutionV1
     \<Rightarrow> memoryWorkflowStore \<Rightarrow> storeResult \<times> memoryWorkflowStore" where
  "store_ReserveExecution env key expected nextSnap reservation s =
     (case (callError env key, nextSnap) of
        (Some e, _) \<Rightarrow> (Inl e, s)
      | (None, None) \<Rightarrow> (Inl (Errorf ''workflow snapshot is required''), s)
      | (None, Some snap) \<Rightarrow>
          (case canonicalReservedExecution reservation of
             Inl e \<Rightarrow> (Inl e, s)
           | Inr normalized \<Rightarrow>
               (case recordForVersionedMutationLocked (CE_Now env) key expected s of
                  (Inl e, s') \<Rightarrow> (Inl e, s')
                | (Inr r, s') \<Rightarrow>
                    if MR_Execution r \<noteq> None then (Inl ErrExecutionInProgress, s')
                    else
                      let version = MR_Version r + 1;
                          r' = r\<lparr>MR_Version := version,
                                 MR_Snapshot := prepareSnapshotLocked (CE_Now env) key snap version
                                                  (Some (MR_Snapshot r)),
                                 MR_Execution := Some (executing normalized)\<rparr>
                      in (Inr (Some (cloneVersionedWorkflow r')), s'(key \<mapsto> r')))))"

definition store_RecordExecutionResult ::
  "callEnv \<Rightarrow> WorkflowKey \<Rightarrow> 64 word \<Rightarrow> string \<Rightarrow> PersistedExecutionResultV1
     \<Rightarrow> memoryWorkflowStore \<Rightarrow> storeResult \<times> memoryWorkflowStore" where
  "store_RecordExecutionResult env key expected token result s =
     (case (callError env key, validatePersistedExecutionResult result) of
        (Some e, _) \<Rightarrow> (Inl e, s)
      | (None, Some e) \<Rightarrow> (Inl e, s)
      | (None, None) \<Rightarrow>
          (case recordForExecutionMutationLocked (CE_Now env) key expected token s of
             (Inl e, s') \<Rightarrow> (Inl e, s')
           | (Inr (r, x), s') \<Rightarrow>
               let result' = result\<lparr>PR_BusinessKey := trimSpace (PR_BusinessKey result)\<rparr> in
               if RE_BusinessKey (PE_Reservation x) \<noteq> PR_BusinessKey result'
               then (Inl (Wrapped ''execution business key mismatch'' ErrWorkflowConflict), s')
               else
                 let version = MR_Version r + 1;
                     r' = r\<lparr>MR_Version := version,
                            MR_Execution := Some (x\<lparr>PE_Status := WorkflowExecutionResultRecorded,
                                                    PE_Result := Some result'\<rparr>),
                            MR_Snapshot := setWorkflowSnapshotVersion version (MR_Snapshot r)\<rparr>
                 in (Inr (Some (cloneVersionedWorkflow r')), s'(key \<mapsto> r'))))"

definition resultRecorded :: "PersistedExecutionV1 \<Rightarrow> bool" where
  "resultRecorded x \<longleftrightarrow> PE_Status x = WorkflowExecutionResultRecorded \<and> PE_Result x \<noteq> None"

definition store_FinalizeExecution ::
  "callEnv \<Rightarrow> WorkflowKey \<Rightarrow> 64 word \<Rightarrow> string \<Rightarrow> WorkflowSnapshot option
     \<Rightarrow> memoryWorkflowStore \<Rightarrow> storeResult \<times> memoryWorkflowStore" where
  "store_FinalizeExecution env key expected token nextSnap s =
     (case (callError env key, nextSnap) of
        (Some e, _) \<Rightarrow> (Inl e, s)
      | (None, None) \<Rightarrow> (Inl (Errorf ''workflow snapshot is required''), s)
      | (None, Some snap) \<Rightarrow>
          (case recordForExecutionMutationLocked (CE_Now env) key expected token s of
             (Inl e, s') \<Rightarrow> (Inl e, s')
           | (Inr (r, x), s') \<Rightarrow>
               if \<not> resultRecorded x then (Inl ErrExecutionInProgress, s')
               else
                 let version = MR_Version r + 1;
                     r' = r\<lparr>MR_Version := version,
                            MR_Snapshot := prepareSnapshotLocked (CE_Now env) key snap version
                                             (Some (MR_Snapshot r)),
                            MR_Execution := None\<rparr>
                 in (Inr (Some (cloneVersionedWorkflow r')), s'(key \<mapsto> r'))))"

definition store_DeleteReservedExecution ::
  "callEnv \<Rightarrow> WorkflowKey \<Rightarrow> 64 word \<Rightarrow> string \<Rightarrow> memoryWorkflowStore
     \<Rightarrow> storeResult \<times> memoryWorkflowStore" where
  "store_DeleteReservedExecution env key expected token s =
     (case callError env key of
        Some e \<Rightarrow> (Inl e, s)
      | None \<Rightarrow>
          (case recordForExecutionMutationLocked (CE_Now env) key expected token s of
             (Inl e, s') \<Rightarrow> (Inl e, s')
           | (Inr (r, x), s') \<Rightarrow>
               if \<not> resultRecorded x then (Inl ErrExecutionInProgress, s')
               else (Inr None, s'(key := None))))"

definition store_TakeoverExpiredExecution ::
  "callEnv \<Rightarrow> WorkflowKey \<Rightarrow> 64 word \<Rightarrow> string \<Rightarrow> ReservedExecutionV1 \<Rightarrow> memoryWorkflowStore
     \<Rightarrow> storeResult \<times> memoryWorkflowStore" where
  "store_TakeoverExpiredExecution env key expected previous nextRes s =
     (case callError env key of
        Some e \<Rightarrow> (Inl e, s)
      | None \<Rightarrow>
          (case canonicalReservedExecution nextRes of
             Inl e \<Rightarrow> (Inl e, s)
           | Inr normalized \<Rightarrow>
               if trimSpace previous = RE_ExecutionToken normalized
               then (Inl (Errorf ''takeover requires a new execution token''), s)
               else
                 (case recordForExecutionMutationLocked (CE_Now env) key expected previous s of
                    (Inl e, s') \<Rightarrow> (Inl e, s')
                  | (Inr (r, x), s') \<Rightarrow>
                      if RE_LeaseExpiresAt (PE_Reservation x) > CE_Now env
                      then (Inl ErrExecutionInProgress, s')
                      else if RE_Operation (PE_Reservation x) \<noteq> RE_Operation normalized
                              \<or> RE_BusinessKey (PE_Reservation x) \<noteq> RE_BusinessKey normalized
                      then (Inl (Wrapped ''takeover cannot change operation or business key''
                                   ErrWorkflowConflict), s')
                      else
                        let version = MR_Version r + 1;
                            x' = \<lparr>PE_Status = (if PE_Result x = None then WorkflowExecutionExecuting
                                               else WorkflowExecutionResultRecorded),
                                  PE_Reservation = normalized, PE_Result = PE_Result x\<rparr>;
                            r' = r\<lparr>MR_Version := version, MR_Execution := Some x',
                                   MR_Snapshot := setWorkflowSnapshotVersion version (MR_Snapshot r)\<rparr>
                        in (Inr (Some (cloneVersionedWorkflow r')), s'(key \<mapsto> r')))))"

section \<open>The interface\<close>

fun memory_serve ::
  "callEnv \<Rightarrow> storeOp \<Rightarrow> memoryWorkflowStore \<Rightarrow> storeResult \<times> memoryWorkflowStore" where
  "memory_serve env (OpLoad k) s = store_Load env k s"
| "memory_serve env (OpCreate k snap) s = store_Create env k snap s"
| "memory_serve env (OpCompareAndSwap k v snap) s = store_CompareAndSwap env k v snap s"
| "memory_serve env (OpDeleteIfVersion k v) s = store_DeleteIfVersion env k v s"
| "memory_serve env (OpCreateReserved k snap r) s = store_CreateReservedExecution env k snap r s"
| "memory_serve env (OpReserve k v snap r) s = store_ReserveExecution env k v snap r s"
| "memory_serve env (OpRecordResult k v token result) s =
     store_RecordExecutionResult env k v token result s"
| "memory_serve env (OpFinalize k v token snap) s = store_FinalizeExecution env k v token snap s"
| "memory_serve env (OpDeleteReserved k v token) s = store_DeleteReservedExecution env k v token s"
| "memory_serve env (OpTakeover k v token r) s = store_TakeoverExpiredExecution env k v token r s"

definition viewExecution :: "PersistedExecutionV1 \<Rightarrow> execView" where
  "viewExecution x = (reservedView (PE_Reservation x))\<lparr>EV_Recorded := resultRecorded x\<rparr>"

definition viewRecord :: "memoryWorkflowRecord \<Rightarrow> 64 word \<times> execView option" where
  "viewRecord r = (MR_Version r, map_option viewExecution (MR_Execution r))"

definition memory_view :: "memoryWorkflowStore \<Rightarrow> WorkflowKey \<Rightarrow> flow" where
  "memory_view s k = map_option viewRecord (s k)"

section \<open>The invariant of the store\<close>

text \<open>A stored snapshot carries the identity of its key and the version of its record, and a
  result is there exactly when the status says so.\<close>

definition record_ok :: "WorkflowKey \<Rightarrow> memoryWorkflowRecord \<Rightarrow> bool" where
  "record_ok k r \<longleftrightarrow>
     WF_TenantID (MR_Snapshot r) = WK_TenantID k
     \<and> WF_ConversationID (MR_Snapshot r) = WK_ConversationID k
     \<and> WF_ActorUserID (MR_Snapshot r) = WK_ActorUserID k
     \<and> WF_Version (MR_Snapshot r) = MR_Version r
     \<and> (\<forall>x. MR_Execution r = Some x \<longrightarrow>
            PE_Status x = (if PE_Result x = None then WorkflowExecutionExecuting
                           else WorkflowExecutionResultRecorded))"

definition memory_ok :: "memoryWorkflowStore \<Rightarrow> bool" where
  "memory_ok s \<longleftrightarrow> (\<forall>k r. s k = Some r \<longrightarrow> record_ok k r)"

lemma memory_ok_empty: "memory_ok newMemoryWorkflowStore"
  by (simp add: memory_ok_def newMemoryWorkflowStore_def)

lemma memory_okD: "memory_ok s \<Longrightarrow> s k = Some r \<Longrightarrow> record_ok k r"
  by (simp add: memory_ok_def)

lemma memory_ok_put: "memory_ok s \<Longrightarrow> record_ok k r \<Longrightarrow> memory_ok (s(k \<mapsto> r))"
  by (simp add: memory_ok_def)

lemma memory_ok_delete: "memory_ok s \<Longrightarrow> memory_ok (s(k := None))"
  by (simp add: memory_ok_def)

lemma prepared [simp]:
  "WF_TenantID (prepareSnapshotLocked now k snap v old) = WK_TenantID k"
  "WF_ConversationID (prepareSnapshotLocked now k snap v old) = WK_ConversationID k"
  "WF_ActorUserID (prepareSnapshotLocked now k snap v old) = WK_ActorUserID k"
  "WF_Version (prepareSnapshotLocked now k snap v old) = v"
  by (simp_all add: prepareSnapshotLocked_def Let_def setWorkflowSnapshotVersion_def
      syncWorkflowSnapshotFields_def)

text \<open>What a call does before it acts: it may drop an idle record whose time is over.\<close>

definition dropsExpired :: "WorkflowKey \<Rightarrow> memoryWorkflowStore \<Rightarrow> memoryWorkflowStore \<Rightarrow> bool" where
  "dropsExpired k s s' \<longleftrightarrow>
     s' = s \<or> (s' = s(k := None) \<and> (\<exists>r. s k = Some r \<and> MR_Execution r = None))"

lemma dropsExpired_refl [simp]: "dropsExpired k s s"
  by (simp add: dropsExpired_def)

lemma dropsExpired_ok: "dropsExpired k s s' \<Longrightarrow> memory_ok s \<Longrightarrow> memory_ok s'"
  by (auto simp: dropsExpired_def memory_ok_delete)

lemma dropsExpired_frame: "dropsExpired k s s' \<Longrightarrow> k' \<noteq> k \<Longrightarrow> s' k' = s k'"
  by (auto simp: dropsExpired_def)

lemma dropsExpired_lapses: "dropsExpired k s s' \<Longrightarrow> lapses (memory_view s k) (memory_view s' k)"
  by (auto simp: dropsExpired_def lapses_def memory_view_def viewRecord_def)

lemma activeRecord_cases:
  "activeRecordLocked now k s = (r, s') \<Longrightarrow> dropsExpired k s s' \<and> s' k = r"
  by (auto simp: activeRecordLocked_def dropsExpired_def split: option.splits if_splits)

lemma versioned_cases:
  "recordForVersionedMutationLocked now k v s = (res, s') \<Longrightarrow>
     dropsExpired k s s' \<and> (\<forall>r. res = Inr r \<longrightarrow> s' k = Some r \<and> MR_Version r = v)"
  by (auto simp: recordForVersionedMutationLocked_def split: prod.splits option.splits if_splits
      dest: activeRecord_cases)

lemma execution_cases:
  "recordForExecutionMutationLocked now k v token s = (res, s') \<Longrightarrow>
     dropsExpired k s s' \<and> (\<forall>r x. res = Inr (r, x) \<longrightarrow> s' k = Some r \<and> MR_Version r = v
       \<and> MR_Execution r = Some x \<and> RE_ExecutionToken (PE_Reservation x) = trimSpace token)"
  by (auto simp: recordForExecutionMutationLocked_def
      split: prod.splits option.splits sum.splits if_splits dest: versioned_cases)

section \<open>Every operation keeps the promise\<close>

definition keepsPromise ::
  "callEnv \<Rightarrow> storeOp \<Rightarrow> memoryWorkflowStore \<Rightarrow> storeResult \<Rightarrow> memoryWorkflowStore \<Rightarrow> bool" where
  "keepsPromise env op s res s' \<longleftrightarrow>
     (\<exists>s0. dropsExpired (opKey op) s s0
        \<and> (s' = s0 \<and> (isl res \<or> isLoad op)
           \<or> (\<exists>new. s' = s0(opKey op := new)
                \<and> (memory_ok s0 \<longrightarrow>
                     flow_step (CE_Now env) op (memory_view s0 (opKey op)) (map_option viewRecord new)
                     \<and> (\<forall>r. new = Some r \<longrightarrow> record_ok (opKey op) r)))))"

lemma keepsPromise_failed: "dropsExpired (opKey op) s s' \<Longrightarrow> keepsPromise env op s (Inl e) s'"
  by (auto simp: keepsPromise_def)

lemma keepsPromise_put:
  assumes "dropsExpired (opKey op) s s0" and "k = opKey op"
    and "memory_ok s0 \<Longrightarrow> flow_step (CE_Now env) op (memory_view s0 k) (Some (viewRecord r))"
    and "memory_ok s0 \<Longrightarrow> record_ok k r"
  shows "keepsPromise env op s res (s0(k \<mapsto> r))"
  unfolding keepsPromise_def using assms by (intro exI [of _ s0]) auto

lemma keepsPromise_remove:
  assumes "dropsExpired (opKey op) s s0" and "k = opKey op"
    and "memory_ok s0 \<Longrightarrow> flow_step (CE_Now env) op (memory_view s0 k) None"
  shows "keepsPromise env op s res (s0(k := None))"
  unfolding keepsPromise_def using assms by (intro exI [of _ s0]) auto

lemma keepsPromise_loaded: "dropsExpired k s s' \<Longrightarrow> keepsPromise env (OpLoad k) s res s'"
  by (auto simp: keepsPromise_def)

lemmas promise_simps = Let_def flow_step_simps memory_view_def viewRecord_def viewExecution_def
  record_ok_def executing_def reservedView_def resultRecorded_def setWorkflowSnapshotVersion_def

lemma load_promise: "store_Load env k s = (res, s') \<Longrightarrow> keepsPromise env (OpLoad k) s res s'"
  by (auto simp: store_Load_def split: option.splits prod.splits
      dest: activeRecord_cases intro!: keepsPromise_loaded)

lemma create_promise:
  "store_Create env k snap s = (res, s') \<Longrightarrow> keepsPromise env (OpCreate k snap) s res s'"
  by (auto simp: store_Create_def promise_simps
      split: option.splits sum.splits prod.splits if_splits dest!: activeRecord_cases
      intro!: keepsPromise_failed keepsPromise_put keepsPromise_remove dest: memory_okD)

lemma swap_promise:
  "store_CompareAndSwap env k v snap s = (res, s') \<Longrightarrow> keepsPromise env (OpCompareAndSwap k v snap) s res s'"
  by (auto simp: store_CompareAndSwap_def promise_simps
      split: option.splits sum.splits prod.splits if_splits dest!: versioned_cases
      intro!: keepsPromise_failed keepsPromise_put keepsPromise_remove dest: memory_okD)

lemma delete_promise:
  "store_DeleteIfVersion env k v s = (res, s') \<Longrightarrow> keepsPromise env (OpDeleteIfVersion k v) s res s'"
  by (auto simp: store_DeleteIfVersion_def promise_simps
      split: option.splits sum.splits prod.splits if_splits dest!: versioned_cases
      intro!: keepsPromise_failed keepsPromise_put keepsPromise_remove dest: memory_okD)

lemma create_reserved_promise:
  "store_CreateReservedExecution env k snap r s = (res, s') \<Longrightarrow> keepsPromise env (OpCreateReserved k snap r) s res s'"
  by (auto simp: store_CreateReservedExecution_def promise_simps
      split: option.splits sum.splits prod.splits if_splits dest!: activeRecord_cases
      intro!: keepsPromise_failed keepsPromise_put keepsPromise_remove dest: memory_okD)

lemma reserve_promise:
  "store_ReserveExecution env k v snap r s = (res, s') \<Longrightarrow> keepsPromise env (OpReserve k v snap r) s res s'"
  by (auto simp: store_ReserveExecution_def promise_simps
      split: option.splits sum.splits prod.splits if_splits dest!: versioned_cases
      intro!: keepsPromise_failed keepsPromise_put keepsPromise_remove dest: memory_okD)

lemma record_promise:
  "store_RecordExecutionResult env k v token result s = (res, s') \<Longrightarrow> keepsPromise env (OpRecordResult k v token result) s res s'"
  by (auto simp: store_RecordExecutionResult_def promise_simps
      split: option.splits sum.splits prod.splits if_splits dest!: execution_cases
      intro!: keepsPromise_failed keepsPromise_put keepsPromise_remove dest: memory_okD)

lemma finalize_promise:
  "store_FinalizeExecution env k v token snap s = (res, s') \<Longrightarrow> keepsPromise env (OpFinalize k v token snap) s res s'"
  by (auto simp: store_FinalizeExecution_def promise_simps
      split: option.splits sum.splits prod.splits if_splits dest!: execution_cases
      intro!: keepsPromise_failed keepsPromise_put keepsPromise_remove dest: memory_okD)

lemma delete_reserved_promise:
  "store_DeleteReservedExecution env k v token s = (res, s') \<Longrightarrow> keepsPromise env (OpDeleteReserved k v token) s res s'"
  by (auto simp: store_DeleteReservedExecution_def promise_simps
      split: option.splits sum.splits prod.splits if_splits dest!: execution_cases
      intro!: keepsPromise_failed keepsPromise_put keepsPromise_remove dest: memory_okD)

lemma takeover_promise:
  "store_TakeoverExpiredExecution env k v token r s = (res, s') \<Longrightarrow> keepsPromise env (OpTakeover k v token r) s res s'"
  by (auto simp: store_TakeoverExpiredExecution_def promise_simps
      split: option.splits sum.splits prod.splits if_splits dest!: execution_cases
      intro!: keepsPromise_failed keepsPromise_put keepsPromise_remove dest: memory_okD)

lemma memory_promise: "memory_serve env op s = (res, s') \<Longrightarrow> keepsPromise env op s res s'"
  by (cases op) (simp_all add: load_promise create_promise swap_promise delete_promise
      create_reserved_promise reserve_promise record_promise finalize_promise
      delete_reserved_promise takeover_promise)

interpretation memory: workflow_store memory_serve memory_view memory_ok "\<lambda>_. True"
proof
  fix s env op res s'
  assume "memory_ok s" and "memory_serve env op s = (res, s')"
  with memory_promise [of env op s res s'] show "memory_ok s'"
    by (auto simp: keepsPromise_def memory_ok_def split: if_splits dest: dropsExpired_ok
        intro: dropsExpired_ok [unfolded memory_ok_def, rule_format])
next
  fix s env op res s' k
  assume "memory_serve env op s = (res, s')" and "k \<noteq> opKey op"
  with memory_promise [of env op s res s'] show "memory_view s' k = memory_view s k"
    by (auto simp: keepsPromise_def memory_view_def dest: dropsExpired_frame)
next
  fix s env op res s'
  assume ok: "memory_ok s" and "memory_serve env op s = (res, s')"
  from memory_promise [OF this(2)] obtain s0 where s0: "dropsExpired (opKey op) s s0"
    and step: "s' = s0 \<and> (isl res \<or> isLoad op) \<or> (\<exists>new. s' = s0(opKey op := new)
      \<and> (memory_ok s0 \<longrightarrow> flow_step (CE_Now env) op (memory_view s0 (opKey op))
             (map_option viewRecord new) \<and> (\<forall>r. new = Some r \<longrightarrow> record_ok (opKey op) r)))"
    by (auto simp: keepsPromise_def)
  have "memory_view (s0(opKey op := new)) (opKey op) = map_option viewRecord new" for new
    by (simp add: memory_view_def)
  with step dropsExpired_lapses [OF s0] dropsExpired_ok [OF s0 ok]
  show "\<exists>f. lapses (memory_view s (opKey op)) f
      \<and> (memory_view s' (opKey op) = f \<and> (isl res \<or> isLoad op)
         \<or> flow_step (CE_Now env) op f (memory_view s' (opKey op)))"
    by (intro exI [of _ "memory_view s0 (opKey op)"]) auto
qed

section \<open>Properties\<close>

text \<open>A reachable store.\<close>

definition memory_after :: "(callEnv \<times> storeOp) list \<Rightarrow> memoryWorkflowStore" where
  "memory_after history = runCalls memory_serve history newMemoryWorkflowStore"

lemma all_legal [simp]: "list_all (\<lambda>_. True) calls"
  by (simp add: list_all_iff)

lemma memory_after_ok: "memory_ok (memory_after history)"
  unfolding memory_after_def by (rule memory.good_run [OF memory_ok_empty all_legal])


text \<open>What a caller owes: a snapshot, a reservation that marshals, a complete result, a token, and
  a new token for a takeover.\<close>

fun requestOk :: "storeOp \<Rightarrow> bool" where
  "requestOk (OpCreate k snap) \<longleftrightarrow> snap \<noteq> None"
| "requestOk (OpCompareAndSwap k v snap) \<longleftrightarrow> snap \<noteq> None"
| "requestOk (OpCreateReserved k snap r) \<longleftrightarrow> snap \<noteq> None"
| "requestOk (OpReserve k v snap r) \<longleftrightarrow> snap \<noteq> None"
| "requestOk (OpRecordResult k v token result) \<longleftrightarrow>
     validatePersistedExecutionResult result = None \<and> trimSpace token \<noteq> []"
| "requestOk (OpFinalize k v token snap) \<longleftrightarrow> snap \<noteq> None \<and> trimSpace token \<noteq> []"
| "requestOk (OpDeleteReserved k v token) \<longleftrightarrow> trimSpace token \<noteq> []"
| "requestOk (OpTakeover k v token r) \<longleftrightarrow>
     trimSpace token \<noteq> [] \<and> trimSpace token \<noteq> RE_ExecutionToken r"
| "requestOk _ \<longleftrightarrow> True"

definition active_view :: "callEnv \<Rightarrow> WorkflowKey \<Rightarrow> memoryWorkflowStore \<Rightarrow> flow" where
  "active_view env k s = memory_view (snd (activeRecordLocked (CE_Now env) k s)) k"

lemma active_view_cases:
  "activeRecordLocked now k s = (r, s') \<Longrightarrow> active_view env k s = map_option viewRecord r"
  if "CE_Now env = now"
  using that by (auto simp: active_view_def memory_view_def dest: activeRecord_cases)

lemmas serve_simps = recordForVersionedMutationLocked_def recordForExecutionMutationLocked_def

lemma serve_enabled:
  assumes "callError env (opKey op) = None" and "requestOk op"
    and "flow_step (CE_Now env) op (active_view env (opKey op) (memory_after history)) f'"
    and "memory_serve env op (memory_after history) = (res, s')"
  shows "\<not> isl res \<and> memory_view s' (opKey op) = f'"
proof -
  let ?s = "memory_after history"
  obtain r s0 where active: "activeRecordLocked (CE_Now env) (opKey op) ?s = (r, s0)"
    by (metis surj_pair)
  have view: "active_view env (opKey op) ?s = map_option viewRecord r"
    by (rule active_view_cases [OF refl active])
  have s0: "s0 (opKey op) = r" and ok: "memory_ok s0"
    using activeRecord_cases [OF active] dropsExpired_ok memory_after_ok by blast+
  have status: "resultRecorded x \<longleftrightarrow> PE_Result x \<noteq> None"
      if "r = Some r1" "MR_Execution r1 = Some x" for r1 x
    using memory_okD [OF ok, of "opKey op" r1] s0 that by (auto simp: record_ok_def resultRecorded_def)
  have versioned: "recordForVersionedMutationLocked (CE_Now env) (opKey op) (MR_Version r1) ?s = (Inr r1, s0)"
    if "r = Some r1" for r1
    using active that by (simp add: recordForVersionedMutationLocked_def)
  have exec: "recordForExecutionMutationLocked (CE_Now env) (opKey op) (MR_Version r1) token ?s
      = (Inr (r1, x), s0)"
    if "r = Some r1" "MR_Execution r1 = Some x" "trimSpace token \<noteq> []"
      "RE_ExecutionToken (PE_Reservation x) = trimSpace token" for r1 x token
    using versioned [OF that(1)] that by (simp add: recordForExecutionMutationLocked_def)
  have step: "flow_step (CE_Now env) op (map_option viewRecord r) f'"
    using assms(3) unfolding view .
  note facts = assms(1,2,4) s0 step
  show ?thesis
  proof (cases op)
    case (OpLoad k)
    with step show ?thesis by (simp add: flow_step_simps)
  next
    case (OpCreate k snap)
    with facts active show ?thesis
      by (auto simp: store_Create_def promise_simps)
  next
    case (OpCompareAndSwap k v snap)
    with step obtain r1 where "r = Some r1" "MR_Version r1 = v" "MR_Execution r1 = None"
      by (auto simp: flow_step_simps viewRecord_def)
    with OpCompareAndSwap facts versioned [of r1] show ?thesis
      by (auto simp: store_CompareAndSwap_def promise_simps)
  next
    case (OpDeleteIfVersion k v)
    with step obtain r1 where "r = Some r1" "MR_Version r1 = v" "MR_Execution r1 = None"
      by (auto simp: flow_step_simps viewRecord_def)
    with OpDeleteIfVersion facts versioned [of r1] show ?thesis
      by (auto simp: store_DeleteIfVersion_def promise_simps)
  next
    case (OpCreateReserved k snap rv)
    with facts active show ?thesis
      by (auto simp: store_CreateReservedExecution_def promise_simps)
  next
    case (OpReserve k v snap rv)
    with step obtain r1 where "r = Some r1" "MR_Version r1 = v" "MR_Execution r1 = None"
      by (auto simp: flow_step_simps viewRecord_def)
    with OpReserve facts versioned [of r1] show ?thesis
      by (auto simp: store_ReserveExecution_def promise_simps)
  next
    case (OpRecordResult k v token result)
    with step obtain r1 x where rx: "r = Some r1" "MR_Version r1 = v" "MR_Execution r1 = Some x"
      "RE_ExecutionToken (PE_Reservation x) = trimSpace token"
      by (auto simp: flow_step_simps viewRecord_def viewExecution_def reservedView_def)
    with OpRecordResult facts exec [OF rx(1,3) _ rx(4)] show ?thesis
      by (auto simp: store_RecordExecutionResult_def promise_simps)
  next
    case (OpFinalize k v token snap)
    with step obtain r1 x where rx: "r = Some r1" "MR_Version r1 = v" "MR_Execution r1 = Some x"
      "RE_ExecutionToken (PE_Reservation x) = trimSpace token" "resultRecorded x"
      by (auto simp: flow_step_simps viewRecord_def viewExecution_def reservedView_def)
    with OpFinalize facts exec [OF rx(1,3) _ rx(4)] show ?thesis
      by (auto simp: store_FinalizeExecution_def promise_simps)
  next
    case (OpDeleteReserved k v token)
    with step obtain r1 x where rx: "r = Some r1" "MR_Version r1 = v" "MR_Execution r1 = Some x"
      "RE_ExecutionToken (PE_Reservation x) = trimSpace token" "resultRecorded x"
      by (auto simp: flow_step_simps viewRecord_def viewExecution_def reservedView_def)
    with OpDeleteReserved facts exec [OF rx(1,3) _ rx(4)] show ?thesis
      by (auto simp: store_DeleteReservedExecution_def promise_simps)
  next
    case (OpTakeover k v token rv)
    with step obtain r1 x rv' where rx: "r = Some r1" "MR_Version r1 = v" "MR_Execution r1 = Some x"
      "RE_ExecutionToken (PE_Reservation x) = trimSpace token"
      and rv': "canonicalReservedExecution rv = Inr rv'"
      and guards: "RE_LeaseExpiresAt (PE_Reservation x) \<le> CE_Now env"
        "RE_Operation (PE_Reservation x) = RE_Operation rv'"
        "RE_BusinessKey (PE_Reservation x) = RE_BusinessKey rv'"
      and f': "f' = Some (v + 1, Some ((reservedView rv')\<lparr>EV_Recorded := resultRecorded x\<rparr>))"
      by (auto simp: flow_step_simps viewRecord_def viewExecution_def reservedView_def)
    with OpTakeover facts exec [OF rx(1,3) _ rx(4)] status [OF rx(1,3)] canonicalReserved_InrD(3) [OF rv']
    show ?thesis
      by (auto simp: store_TakeoverExpiredExecution_def Let_def memory_view_def viewRecord_def
          viewExecution_def resultRecorded_def)
  qed
qed

text \<open>The in-memory store serves every call it may: when the context is alive, the key and
  the request are complete and the contract allows a step from what is stored (after expiry),
  the call succeeds and the step is the one it makes.\<close>

theorem memory_store_serves:
  assumes "callError env (opKey op) = None" and "requestOk op"
    and "flow_step (CE_Now env) op (active_view env (opKey op) (memory_after history)) f'"
    and "memory_serve env op (memory_after history) = (res, s')"
  shows "\<not> isl res \<and> memory_view s' (opKey op) = f'"
  using assms by (rule serve_enabled)

lemma runCalls_append: "runCalls serve (xs @ ys) s = runCalls serve ys (runCalls serve xs s)"
  by (induction xs arbitrary: s) simp_all

lemma memory_after_append: "memory_after (history @ calls) = runCalls memory_serve calls (memory_after history)"
  by (simp add: memory_after_def runCalls_append)

text \<open>Optimistic locking: once a call that expected version \<open>v\<close> of a workflow has taken
  effect, every later call on that workflow that expects \<open>v\<close> is refused and changes nothing,
  whatever was called in between, unless the workflow was created anew (or 2^64 calls passed).\<close>

theorem one_winner_per_version:
  assumes "memory_view (memory_after history) k \<noteq> None"
    and "expectedVersion op = Some v" and "opKey op = k"
    and "memory_view (memory_after (history @ [(env, op)])) k \<noteq> memory_view (memory_after history) k"
    and "\<forall>(env, op) \<in> set between. opKey op = k \<longrightarrow> \<not> isCreate op"
    and "int (length between) + 1 < 2 ^ 64"
    and "expectedVersion op' = Some v" and "opKey op' = k"
    and "memory_serve env' op' (memory_after (history @ (env, op) # between)) = (res, s')"
  shows "isl res \<and> lapses (memory_view (memory_after (history @ (env, op) # between)) k) (memory_view s' k)"
proof -
  obtain res1 s1 where s1: "memory_serve env op (memory_after history) = (res1, s1)" by (metis surj_pair)
  have after: "memory_after (history @ [(env, op)]) = s1"
    "memory_after (history @ (env, op) # between) = runCalls memory_serve between s1"
    using s1 by (simp_all add: memory_after_append)
  show ?thesis
    using memory.stale_version [OF memory_after_ok TrueI all_legal TrueI s1 _ assms(3,2,1,5,6) _ assms(8,7)] assms(4,9)
    unfolding after by blast
qed

lemma takeover_new_token:
  "store_TakeoverExpiredExecution env k v token r s = (Inr w, s') \<Longrightarrow> trimSpace token \<noteq> RE_ExecutionToken r"
  by (auto simp: store_TakeoverExpiredExecution_def canonicalReserved_InrD(3)
      split: option.splits sum.splits)

text \<open>Fencing: after an expired execution was taken over from the holder of a token, no later
  call that presents the old token gets through, so the old holder can neither record a result nor
  finalize nor delete, as long as no new reservation reuses that token.\<close>

theorem taken_over_token_fenced:
  assumes "memory_serve env0 (OpTakeover k v token r) (memory_after history) = (Inr w, s1)"
    and "\<forall>(env, op) \<in> set later. opKey op = k \<longrightarrow> broughtToken op \<noteq> Some (trimSpace token)"
    and "opKey op = k" and "presentedToken op = Some (trimSpace token)"
    and "memory_serve env op (memory_after (history @ (env0, OpTakeover k v token r) # later)) = (res, s')"
  shows "isl res
    \<and> lapses (memory_view (memory_after (history @ (env0, OpTakeover k v token r) # later)) k)
             (memory_view s' k)"
proof -
  have s1: "memory_ok s1" by (rule memory.good_serve [OF memory_after_ok TrueI assms(1)])
  have later: "memory_after (history @ (env0, OpTakeover k v token r) # later)
      = runCalls memory_serve later s1"
    using assms(1) by (simp add: memory_after_append)
  have "trimSpace token \<noteq> RE_ExecutionToken r"
    using assms(1) takeover_new_token by simp
  moreover obtain r' e where "canonicalReservedExecution r = Inr r'"
    and "memory_view s1 k = Some (v + 1, Some ((reservedView r')\<lparr>EV_Recorded := e\<rparr>))"
    using memory.success_step [OF memory_after_ok TrueI assms(1)] by (auto simp: flow_step_simps)
  ultimately have "tokenFree (trimSpace token) (memory_view s1 k)"
    by (simp add: tokenFree_def reservedView_def canonicalReserved_InrD(3))
  from memory.stale_token [OF s1 all_legal this assms(2) TrueI _ assms(3,4)] assms(5) show ?thesis
    unfolding later by blast
qed

text \<open>A reserved write leaves the store (finalized or deleted) only after a result for the same
  business key was recorded under the token then in force: a crash between reservation and result
  always leaves the execution to be recovered.\<close>

theorem release_only_after_result:
  assumes "memory_view (memory_after history) k = Some (v, Some e)" and "\<not> EV_Recorded e"
    and "\<nexists>w e'. memory_view (memory_after (history @ calls)) k = Some (w, Some e')"
  shows "\<exists>before env w token result after e1.
           calls = before @ (env, OpRecordResult k w token result) # after
           \<and> trimSpace (PR_BusinessKey result) = EV_BusinessKey e
           \<and> memory_view (memory_after (history @ before)) k = Some (w, Some e1)
           \<and> EV_Token e1 = trimSpace token"
  using memory.release_needs_result [OF memory_after_ok all_legal assms(1,2), of calls] assms(3)
  unfolding memory_after_append by blast

section \<open>Examples\<close>

lemma memory_after_next:
  assumes "active_view env (opKey op) (memory_after history) = f" and "callError env (opKey op) = None"
    and "requestOk op" and "flow_step (CE_Now env) op f f'"
  shows "\<exists>w. memory_serve env op (memory_after history) = (Inr w, memory_after (history @ [(env, op)]))"
    and "memory_view (memory_after (history @ [(env, op)])) (opKey op) = f'"
proof -
  obtain res s' where s': "memory_serve env op (memory_after history) = (res, s')" by (metis surj_pair)
  have after: "memory_after (history @ [(env, op)]) = s'" using s' by (simp add: memory_after_append)
  have "\<not> isl res \<and> memory_view s' (opKey op) = f'"
    using serve_enabled [OF assms(2,3) _ s'] assms(1,4) by simp
  then show "\<exists>w. memory_serve env op (memory_after history) = (Inr w, memory_after (history @ [(env, op)]))"
    and "memory_view (memory_after (history @ [(env, op)])) (opKey op) = f'"
    using s' after by (cases res; simp)+
qed

lemma active_view_busy: "memory_view s k = Some (v, Some e) \<Longrightarrow> active_view env k s = Some (v, Some e)"
  by (auto simp: active_view_def activeRecordLocked_def memory_view_def viewRecord_def)

lemma active_view_empty: "memory_view s k = None \<Longrightarrow> active_view env k s = None"
  by (auto simp: active_view_def activeRecordLocked_def memory_view_def)

definition exKey :: WorkflowKey where
  "exKey = \<lparr>WK_TenantID = 1, WK_ConversationID = ''c'', WK_ActorUserID = 7\<rparr>"

definition exSnapshot :: WorkflowSnapshot where
  "exSnapshot =
     \<lparr>WF_ID = ''wf-1'', WF_TenantID = 0, WF_ActorUserID = 0, WF_ConversationID = [],
      WF_Type = WorkflowSubscriptionStart, WF_State = WorkflowReady, WF_MissingFields = [],
      WF_TrustedEntities = [], WF_Candidates = [], WF_LastUserMessage = [], WF_CreatedAt = 0,
      WF_UpdatedAt = 0, WF_ExpiresAt = 0, WF_Version = 0, WF_MissingSlots = [],
      WF_Trusted = noTrustedEntities\<rparr>"

definition exEnv :: "instant \<Rightarrow> callEnv" where
  "exEnv now = \<lparr>CE_Err = None, CE_Now = now\<rparr>"

definition exReservation2 :: ReservedExecutionV1 where
  "exReservation2 = exReservation\<lparr>RE_ExecutionToken := ''tok-2'', RE_LeaseExpiresAt := 63900000300000000000\<rparr>"

lemma exReservation2_ok: "reservation_ok exReservation2"
  by (simp add: reservation_ok_def exReservation2_def exReservation_def goMap_ok_def goAny_ok_def
      minInt64_def maxInt64_def instant_ok_def day_ns_def normalizeWorkflowDatabaseTime_def
      millisecond_def)

lemma exReservation2_marshals: "\<exists>payload. MarshalReservedExecution exReservation2 = Inr payload"
proof -
  have "\<not> isl (MarshalReservedExecution exReservation2)" by code_simp
  then show ?thesis by (cases "MarshalReservedExecution exReservation2") simp_all
qed

lemma ex_canonical:
  "canonicalReservedExecution exReservation = Inr (canonicalForm exReservation)"
  "canonicalReservedExecution exReservation2 = Inr (canonicalForm exReservation2)"
  using exReservation_marshals marshal_canonical(1) [OF _ exReservation_ok]
    exReservation2_marshals marshal_canonical(1) [OF _ exReservation2_ok]
  by (auto simp: canonicalReservedExecution_def)

lemma exCall: "callError (exEnv now) exKey = None"
proof -
  have "trimSpace ''c'' = ''c''" by (rule trimSpace_ascii) (simp_all add: ascii_def no_space_def isSpace_def)
  then show ?thesis by (simp add: callError_def exEnv_def validateWorkflowKey_def exKey_def)
qed

lemma ex_tokens: "trimSpace ''tok-1'' = ''tok-1''" "trimSpace ''tok-2'' = ''tok-2''"
  "trimSpace ''bk-1'' = ''bk-1''"
  by (rule trimSpace_ascii; simp add: ascii_def no_space_def isSpace_def)+

abbreviation exReserved :: "callEnv \<times> storeOp" where
  "exReserved \<equiv> (exEnv 63900000000000000123, OpCreateReserved exKey (Some exSnapshot) exReservation)"

lemma after_exReserved:
  "memory_view (memory_after [exReserved]) exKey = Some (1, Some (reservedView (canonicalForm exReservation)))"
proof -
  have "active_view (fst exReserved) exKey (memory_after []) = None"
    by (rule active_view_empty) (simp add: memory_after_def newMemoryWorkflowStore_def memory_view_def)
  with ex_canonical(1) exCall show ?thesis
    using memory_after_next(2) [of "fst exReserved" "snd exReserved" "[]" None
        "Some (1, Some (reservedView (canonicalForm exReservation)))"]
    by (simp add: flow_step_simps)
qed

abbreviation exRecord :: "callEnv \<times> storeOp" where
  "exRecord \<equiv> (exEnv 63900000010000000000, OpRecordResult exKey 1 ''tok-1'' exResult)"

abbreviation exRelease :: "callEnv \<times> storeOp" where
  "exRelease \<equiv> (exEnv 63900000010000000000, OpDeleteReserved exKey 2 ''tok-1'')"

abbreviation exTakeover :: "callEnv \<times> storeOp" where
  "exTakeover \<equiv> (exEnv 63900000200000000000, OpTakeover exKey 1 ''tok-1'' exReservation2)"

lemma exForm:
  "RE_ExecutionToken (canonicalForm exReservation) = ''tok-1''"
  "RE_BusinessKey (canonicalForm exReservation) = ''bk-1''"
  "RE_Operation (canonicalForm exReservation) = ''subscription.start''"
  "RE_LeaseExpiresAt (canonicalForm exReservation) = 63900000120000000000"
  "RE_BusinessKey (canonicalForm exReservation2) = ''bk-1''"
  "RE_Operation (canonicalForm exReservation2) = ''subscription.start''"
  by (simp_all add: canonicalForm_def exReservation_def exReservation2_def
      normalizeWorkflowDatabaseTime_def millisecond_def)

lemma exResult_valid: "validatePersistedExecutionResult exResult = None"
  using ex_tokens
  by (simp add: validatePersistedExecutionResult_def exResult_def runeLengthWithin_def ascii_def
      executionMaxProjectionRunes_def)

lemma after_exRecord:
  "memory_view (memory_after [exReserved, exRecord]) exKey
     = Some (2, Some ((reservedView (canonicalForm exReservation))\<lparr>EV_Recorded := True\<rparr>))"
proof -
  have "active_view (fst exRecord) exKey (memory_after [exReserved])
      = Some (1, Some (reservedView (canonicalForm exReservation)))"
    by (rule active_view_busy) (rule after_exReserved)
  then show ?thesis
    using memory_after_next(2) [of "fst exRecord" "snd exRecord" "[exReserved]" _
        "Some (2, Some ((reservedView (canonicalForm exReservation))\<lparr>EV_Recorded := True\<rparr>))"]
      exCall exResult_valid ex_tokens exForm
    by (simp add: flow_step_simps reservedView_def exResult_def)
qed

lemma after_exRelease: "memory_view (memory_after [exReserved, exRecord, exRelease]) exKey = None"
proof -
  have "active_view (fst exRelease) exKey (memory_after [exReserved, exRecord])
      = Some (2, Some ((reservedView (canonicalForm exReservation))\<lparr>EV_Recorded := True\<rparr>))"
    by (rule active_view_busy) (rule after_exRecord)
  then show ?thesis
    using memory_after_next(2) [of "fst exRelease" "snd exRelease" "[exReserved, exRecord]" _ None]
      exCall ex_tokens exForm
    by (simp add: flow_step_simps reservedView_def)
qed

lemma exTakeover_serves:
  "\<exists>w s1. memory_serve (fst exTakeover) (snd exTakeover) (memory_after [exReserved]) = (Inr w, s1)"
proof -
  have "active_view (fst exTakeover) exKey (memory_after [exReserved])
      = Some (1, Some (reservedView (canonicalForm exReservation)))"
    by (rule active_view_busy) (rule after_exReserved)
  then show ?thesis
    using memory_after_next(1) [of "fst exTakeover" "snd exTakeover" "[exReserved]" _
        "Some (2, Some (reservedView (canonicalForm exReservation2)))"]
      exCall ex_tokens exForm ex_canonical(2)
    by (auto simp: flow_step_simps reservedView_def exReservation2_def exEnv_def)
qed


theorem memory_store_serves_witness:
  "\<exists>res s'. memory_serve (fst exReserved) (snd exReserved) (memory_after []) = (res, s') \<and> \<not> isl res"
proof -
  have "active_view (fst exReserved) exKey (memory_after []) = None"
    by (rule active_view_empty) (simp add: memory_after_def newMemoryWorkflowStore_def memory_view_def)
  moreover obtain res s' where s': "memory_serve (fst exReserved) (snd exReserved) (memory_after []) = (res, s')"
    by (metis surj_pair)
  ultimately have "\<not> isl res"
    using memory_store_serves [of "fst exReserved" "snd exReserved" "[]"
        "Some (1, Some (reservedView (canonicalForm exReservation)))" res s']
      exCall ex_canonical(1)
    by (simp add: flow_step_simps)
  with s' show ?thesis by blast
qed

theorem one_winner_per_version_witness:
  "isl (fst (memory_serve (fst exRecord) (snd exRecord) (memory_after [exReserved, exRecord])))"
proof -
  obtain res s' where s': "memory_serve (fst exRecord) (snd exRecord) (memory_after [exReserved, exRecord]) = (res, s')"
    by (metis surj_pair)
  have "isl res"
    using one_winner_per_version [of "[exReserved]" exKey "snd exRecord" 1 "fst exRecord" "[]"
        "snd exRecord" "fst exRecord" res s'] s' after_exReserved after_exRecord
    by simp
  with s' show ?thesis by simp
qed

theorem taken_over_token_fenced_witness:
  "isl (fst (memory_serve (exEnv 0) (OpRecordResult exKey 2 ''tok-1'' exResult)
               (memory_after [exReserved, exTakeover])))"
proof -
  obtain res s' where s': "memory_serve (exEnv 0) (OpRecordResult exKey 2 ''tok-1'' exResult)
      (memory_after [exReserved, exTakeover]) = (res, s')"
    by (metis surj_pair)
  obtain w s1 where w: "memory_serve (fst exTakeover) (snd exTakeover) (memory_after [exReserved]) = (Inr w, s1)"
    using exTakeover_serves by blast
  have "isl res"
    using taken_over_token_fenced [of "fst exTakeover" exKey 1 "''tok-1''" exReservation2 "[exReserved]"
        w s1 "[]" "OpRecordResult exKey 2 ''tok-1'' exResult" "exEnv 0" res s'] w s'
    by simp
  with s' show ?thesis by simp
qed

theorem release_only_after_result_witness:
  "\<exists>before env w token result after e1.
     [exRecord, exRelease] = before @ (env, OpRecordResult exKey w token result) # after
     \<and> trimSpace (PR_BusinessKey result) = ''bk-1''
     \<and> memory_view (memory_after ([exReserved] @ before)) exKey = Some (w, Some e1)
     \<and> EV_Token e1 = trimSpace token"
  using release_only_after_result [of "[exReserved]" exKey 1
      "reservedView (canonicalForm exReservation)" "[exRecord, exRelease]"]
    after_exReserved after_exRelease exForm
  by (simp add: reservedView_def)

end
