(* ===== verification/DatabaseStore.thy ===== *)
theory DatabaseStore
  imports DatabaseContract WorkflowStore
begin

text \<open>
  What the contract gives for the database store: refinement, fencing of tokens that were taken
  over, release only after a recorded result, and when a write whose recovery was put off can
  still be read. The last section runs the store on a database whose columns round half up.
\<close>

section \<open>Properties\<close>

definition db_after :: "(dbEnv \<times> storeOp) list \<Rightarrow> workflowTable" where
  "db_after history = runCalls db_serve history []"

lemma db_ok_empty: "db_ok []"
  by (simp add: db_ok_def)

lemma db_after_ok: "list_all legalCall history \<Longrightarrow> db_ok (db_after history)"
  unfolding db_after_def by (rule database.good_run [OF db_ok_empty])

lemma runCalls_app: "runCalls f (xs @ ys) s = runCalls f ys (runCalls f xs s)"
  by (induction xs arbitrary: s) auto

lemma db_after_append: "db_after (history @ calls) = runCalls db_serve calls (db_after history)"
  by (simp add: db_after_def runCalls_app)

text \<open>C37: After any history of legal calls, with any failures of statements before or after they took
  effect, every operation of the database store makes the step of the \<open>WorkflowStore\<close> contract or
  changes nothing but the lapse of an idle workflow, touches no other key, and leaves a table with
  one row per key in which every row decodes: snapshot, execution columns, reservation and result
  agree with each other.\<close>

theorem database_store_refines_contract:
  assumes "list_all legalCall history" and "legalCall (env, op)"
    and "db_serve env op (db_after history) = (res, rows)"
  shows "distinct (map keyFromWorkflow rows) \<and> (\<forall>r \<in> set rows. \<not> isl (decodeAgentWorkflowRow (Some r)))
    \<and> (\<forall>k. k \<noteq> opKey op \<longrightarrow> db_view rows k = db_view (db_after history) k)
    \<and> (\<exists>f. lapses (db_view (db_after history) (opKey op)) f
          \<and> (db_view rows (opKey op) = f \<and> (isl res \<or> isLoad op)
             \<or> flow_step (CE_Now env) op f (db_view rows (opKey op))))"
proof -
  note ok = db_after_ok [OF assms(1)]
  have "db_ok rows" by (rule database.good_serve [OF ok assms(2,3)])
  then have "distinct (map keyFromWorkflow rows)" "\<forall>r \<in> set rows. \<not> isl (decodeAgentWorkflowRow (Some r))"
    by (simp_all add: db_ok_def list_all_iff readable_decodes)
  with database.frame [OF ok assms(2,3)] database.step [OF ok assms(2,3)] show ?thesis by blast
qed

text \<open>C38: Fencing in the database: after an expired execution was taken over with a new token, no later
  call that presents the old token gets through, whatever was called and whatever statements
  failed in between, as long as no new reservation reuses that token.\<close>

theorem database_token_fenced:
  assumes "list_all legalCall (history @ (env0, OpTakeover k v token r) # later)" and "legalCall (env, op)"
    and "db_serve env0 (OpTakeover k v token r) (db_after history) = (Inr w, s1)"
    and "RE_ExecutionToken r \<noteq> trimSpace token"
    and "\<forall>(env, op) \<in> set later. opKey op = k \<longrightarrow> broughtToken op \<noteq> Some (trimSpace token)"
    and "opKey op = k" and "presentedToken op = Some (trimSpace token)"
    and "db_serve env op (db_after (history @ (env0, OpTakeover k v token r) # later)) = (res, s')"
  shows "isl res
    \<and> lapses (db_view (db_after (history @ (env0, OpTakeover k v token r) # later)) k) (db_view s' k)"
proof -
  have legal: "list_all legalCall history" "legalCall (env0, OpTakeover k v token r)" "list_all legalCall later"
    using assms(1) by simp_all
  note ok = db_after_ok [OF legal(1)]
  have s1: "db_ok s1" by (rule database.good_serve [OF ok legal(2) assms(3)])
  have later: "db_after (history @ (env0, OpTakeover k v token r) # later) = runCalls db_serve later s1"
    using assms(3) by (simp add: db_after_append)
  obtain r' e where "canonicalReservedExecution r = Inr r'"
    and "db_view s1 k = Some (v + 1, Some ((reservedView r')\<lparr>EV_Recorded := e\<rparr>))"
    using database.success_step [OF ok legal(2) assms(3)] by (auto simp: flow_step_simps)
  then have "tokenFree (trimSpace token) (db_view s1 k)"
    using assms(4) by (simp add: tokenFree_def reservedView_def canonicalReserved_InrD(3))
  from database.stale_token [OF s1 legal(3) this assms(5,2) _ assms(6,7)] assms(8) show ?thesis
    unfolding later by blast
qed

text \<open>C39: A reserved write leaves the database only after a result for its business key was recorded
  under the token then in force: whatever calls are made and whatever statements fail, an
  execution without a recorded result stays to be recovered.\<close>

theorem database_release_needs_result:
  assumes "list_all legalCall (history @ calls)"
    and "db_view (db_after history) k = Some (v, Some e)" and "\<not> EV_Recorded e"
    and "\<nexists>w e'. db_view (db_after (history @ calls)) k = Some (w, Some e')"
  shows "\<exists>before env w token result after e1.
           calls = before @ (env, OpRecordResult k w token result) # after
           \<and> trimSpace (PR_BusinessKey result) = EV_BusinessKey e
           \<and> db_view (db_after (history @ before)) k = Some (w, Some e1) \<and> EV_Token e1 = trimSpace token"
proof -
  have legal: "list_all legalCall history" "list_all legalCall calls" using assms(1) by simp_all
  show ?thesis
    using database.release_needs_result [OF db_after_ok [OF legal(1)] legal(2) assms(2,3)] assms(4)
    unfolding db_after_append by blast
qed

section \<open>Deferred recovery\<close>

lemma decodeExecution_deferred:
  assumes "readable r" and "AW_ExecutionStatus r = AgentWorkflowExecutionExecuting"
    and "AW_LeaseExpiresAt r = Some lease"
  shows "isl (decodeExecution (written env (deferralUpdates env retryAt r)))
         \<longleftrightarrow> normalizeWorkflowDatabaseTime (DE_Column env retryAt) \<noteq> normalizeWorkflowDatabaseTime lease"
proof -
  let ?x = "written env (deferralUpdates env retryAt r)"
  obtain v where v: "decodeReservation r = Inr v"
    by (rule readable_active [OF assms(1)]) (use assms(2) in simp)
  have "\<not> isl (decodeExecution r)" using assms(1) by (simp add: readable_def)
  then have none: "AW_ExecutionResultSchemaVersion r = None" "AW_ExecutionResultJSON r = None"
    "AW_WriteEffect r = None"
    using assms(2) v by (auto simp: decodeExecution_def decodeResult_def Let_def split: sum.splits if_splits)
  have "isl (decodeReservation ?x)
      \<longleftrightarrow> normalizeWorkflowDatabaseTime (DE_Column env retryAt) \<noteq> normalizeWorkflowDatabaseTime lease"
    using v assms(3)
    by (auto simp: decodeReservation_def written_def deferralUpdates_def split: option.splits sum.splits if_splits)
  moreover have "decodeResult ?x = Inr None"
    using none by (simp add: decodeResult_def written_def deferralUpdates_def)
  moreover have "AW_ExecutionStatus ?x = AgentWorkflowExecutionRecoveryRequired"
    by (simp add: written_def deferralUpdates_def)
  ultimately show ?thesis by (auto simp: decodeExecution_def split: sum.splits)
qed

lemma decodeRowSnapshot_deferred [simp]:
  "decodeRowSnapshot (deferralUpdates env retryAt r) = decodeRowSnapshot r"
  by (simp add: decodeRowSnapshot_def deferralUpdates_def split: sum.split)

lemma deferral_effect:
  assumes "db_ok rows" and "db_lookup k rows = Some r"
    and "AW_ExecutionStatus r = AgentWorkflowExecutionExecuting" and "AW_ExecutionToken r = Some token"
    and "validateMutation env k (AW_Version r) = None" and "trimSpace token \<noteq> []" and "retryAt \<noteq> 0"
    and "statementError env 0 = None" and "statementError env 1 = None"
    and "db_MarkExecutionRecoveryRequired env k (AW_Version r) token retryAt rows = (res, rows')"
  shows "db_lookup k rows' = Some (written env (deferralUpdates env retryAt r))"
    and "distinct (map keyFromWorkflow rows')"
    and "res = decodeAgentWorkflowRow (Some (written env (deferralUpdates env retryAt r)))"
proof -
  let ?x = "written env (deferralUpdates env retryAt r)"
  let ?p = "\<lambda>r'. AW_Version r' = AW_Version r \<and> AW_ExecutionToken r' = Some token
    \<and> AW_ExecutionStatus r' = AgentWorkflowExecutionExecuting"
  have keys: "distinct (map keyFromWorkflow rows)" using assms(1) by (simp add: db_ok_def)
  have key: "keyFromWorkflow (written env (deferralUpdates env retryAt x)) = keyFromWorkflow x" for x
    by (simp add: deferralUpdates_def written_def keyFromWorkflow_def)
  obtain r1 where repo: "repo_MarkExecutionRecoveryRequired env 0 k (AW_Version r) token retryAt rows = (r1, rows')"
    using assms(10) by (auto simp: db_MarkExecutionRecoveryRequired_def split: prod.splits sum.splits)
  have stmt: "requireOneRow (runStatement env 0 (updateRows (\<lambda>r. workflowKeyWhere k r \<and> ?p r)
      (written env \<circ> deferralUpdates env retryAt)) rows) = (r1, rows')"
    using repo assms(5-7) by (simp add: repo_MarkExecutionRecoveryRequired_def)
  have done_: "\<not> isl r1"
    using stmt assms(2-4,8) one_affected [OF keys, of k ?p]
    by (auto simp: requireOneRow_def runStatement_def updateRows_def split: prod.splits if_splits)
  with update_change [OF keys _ stmt] key assms(2)
  show lookup: "db_lookup k rows' = Some ?x" and "distinct (map keyFromWorkflow rows')"
    by (auto simp: rowChange_def)
  have "repo_Load env 1 k rows' = Inr (Some ?x)"
    using assms(5,9) lookup
    by (auto simp: repo_Load_def runStatement_def firstRow_def db_lookup_def validateMutation_def split: option.splits)
  with assms(10) repo done_ show "res = decodeAgentWorkflowRow (Some ?x)"
    by (cases r1) (simp_all add: db_MarkExecutionRecoveryRequired_def)
qed

lemma unreadable_row:
  assumes "distinct (map keyFromWorkflow rows)" and "db_lookup k rows = Some x"
    and "isl (decodeAgentWorkflowRow (Some x))" and "AW_ExecutionStatus x \<noteq> AgentWorkflowExecutionIdle"
  shows "isl (fst (db_Load env n k rows))"
    and "db_ListRecoverableExecutions env now limit rows = Inr found \<Longrightarrow> k \<notin> fst ` set found"
proof -
  show "isl (fst (db_Load env n k rows))"
  proof (cases "repo_Load env n k rows")
    case (Inr y)
    then have "y = Some x" using repo_Load_Inr [OF Inr] assms(2) by simp
    then show ?thesis using Inr assms(3,4) by (simp add: db_Load_def)
  qed (simp add: db_Load_def)
  have only: "r = x" if "r \<in> set rows" "keyFromWorkflow r = k" for r
    using db_lookup_unique [OF assms(1) that(1)] that(2) assms(2) by simp
  assume "db_ListRecoverableExecutions env now limit rows = Inr found"
  then obtain rs where "repo_ListRecoverableExecutions env 0 now limit rows = Inr rs"
    and found: "found = List.map_filter (\<lambda>r. case decodeAgentWorkflowRow (Some r) of
        Inr (Some w) \<Rightarrow> Some (keyFromWorkflow r, w) | _ \<Rightarrow> None) rs"
    by (auto simp: db_ListRecoverableExecutions_def split: sum.splits)
  then have sub: "set rs \<subseteq> set rows"
    by (auto simp: repo_ListRecoverableExecutions_def runStatement_def
        split: option.splits if_splits prod.splits dest: in_set_takeD)
  show "k \<notin> fst ` set found"
  proof
    assume "k \<in> fst ` set found"
    then obtain r w where "r \<in> set rs" "(case decodeAgentWorkflowRow (Some r) of
        Inr (Some w) \<Rightarrow> Some (keyFromWorkflow r, w) | _ \<Rightarrow> None) = Some (k, w)"
      by (force simp: found List.map_filter_def)
    then have "r \<in> set rs" "keyFromWorkflow r = k" "\<not> isl (decodeAgentWorkflowRow (Some r))"
      by (auto split: sum.splits option.splits)
    with sub only assms(3) show False by auto
  qed
qed

text \<open>C40: When a recovered write is put off, the returned workflow is readable exactly when the
  \<open>lease_expires_at\<close> column keeps \<open>retryAt\<close> within the millisecond of the lease in the stored
  request; otherwise (a column that rounds up is enough) the call reports an error and from then
  on every \<open>Load\<close> of the workflow does, and the scan for recoverable executions skips it.\<close>

theorem deferral_readable_iff:
  assumes "db_ok rows" and "db_lookup k rows = Some r"
    and "AW_ExecutionStatus r = AgentWorkflowExecutionExecuting" and "AW_ExecutionToken r = Some token"
    and "validateMutation env k (AW_Version r) = None" and "trimSpace token \<noteq> []" and "retryAt \<noteq> 0"
    and "statementError env 0 = None" and "statementError env 1 = None"
    and "db_MarkExecutionRecoveryRequired env k (AW_Version r) token retryAt rows = (res, rows')"
    and "AW_LeaseExpiresAt r = Some lease"
  shows "(isl res \<longleftrightarrow> normalizeWorkflowDatabaseTime (DE_Column env retryAt) \<noteq> normalizeWorkflowDatabaseTime lease)
    \<and> (isl res \<longrightarrow> (\<forall>env'. isl (fst (db_Load env' 0 k rows')))
        \<and> (\<forall>env' now limit found. db_ListRecoverableExecutions env' now limit rows' = Inr found
             \<longrightarrow> k \<notin> fst ` set found))"
proof -
  let ?x = "written env (deferralUpdates env retryAt r)"
  note effect = deferral_effect [OF assms(1-10)]
  have r: "readable r" by (rule db_ok_readable [OF assms(1,2)])
  then have "isl (decodeAgentWorkflowRow (Some ?x)) \<longleftrightarrow> isl (decodeExecution ?x)"
    using readable_decodes [of ?x] by (simp add: readable_def)
  moreover have "AW_ExecutionStatus ?x \<noteq> AgentWorkflowExecutionIdle"
    by (simp add: written_def deferralUpdates_def)
  ultimately show ?thesis
    using decodeExecution_deferred [OF r assms(3,11), of env retryAt]
      unreadable_row [OF effect(2,1)] effect(3) by blast
qed

section \<open>Calls that get through\<close>

lemma nonblank_object: "trimSpace (print_json (JObj ms)) \<noteq> []"
proof (rule trimSpace_starts_with_text)
  show "decodeRune (print_json (JObj ms)) = (123, 1, True)" by (simp add: decodeRune_ascii)
qed (simp_all add: isSpace_def)

lemma update_applies:
  assumes "db_ok rows" and "db_lookup k rows = Some r" and "p r" and "statementError env n = None"
    and "\<And>x. keyFromWorkflow (g x) = keyFromWorkflow x"
  shows "\<exists>rows'. requireOneRow (runStatement env n (updateRows (\<lambda>r. workflowKeyWhere k r \<and> p r) g) rows)
      = (Inr (), rows') \<and> db_lookup k rows' = Some (g r)"
  using assms(2-4) one_affected [of rows k p] db_lookup_update [OF assms(5), of k k p rows] assms(1)
  by (simp add: requireOneRow_def runStatement_def updateRows_def db_ok_def)

lemma reload:
  assumes "db_lookup k rows = Some x" and "readable x" and "AW_ExecutionStatus x \<noteq> AgentWorkflowExecutionIdle"
    and "repo_validate env k = None" and "statementError env n = None"
  shows "\<exists>w. loadExpectedVersion env n k (AW_Version x) rows = (Inr (Some w), rows)"
proof -
  have load: "repo_Load env n k rows = Inr (Some x)"
    using assms(1,4,5) by (simp add: repo_Load_def runStatement_def firstRow_def db_lookup_def)
  obtain y where y: "decodeAgentWorkflowRow (Some x) = Inr y"
    using assms(2) unfolding readable_decodes by (cases "decodeAgentWorkflowRow (Some x)") auto
  then obtain w where "y = Some w" "VW_Version w = AW_Version x"
    by (auto simp: decodeAgentWorkflowRow_def Let_def split: sum.splits)
  with y load assms(3) show ?thesis
    by (auto simp: loadExpectedVersion_def db_Load_def)
qed

lemma encode_reservation_Inr:
  assumes "MarshalReservedExecution rv = Inr payload" and "reservation_ok rv"
  obtains v where "encodeRepositoryReservation rv = Inr (v, canonicalForm rv)" and "validateReservation v = None"
proof -
  obtain dto where dto: "reservedExecutionToV1 rv = Inr dto" "payload = print_json (reserved_json dto)"
    using assms(1) by (rule marshal_InrD)
  have "trimSpace payload \<noteq> []" unfolding dto(2) reserved_json_def by (rule nonblank_object)
  moreover have "RE_LeaseExpiresAt (canonicalForm rv) \<noteq> 0"
    using reservation_times(4) [OF assms(2)] by (simp add: canonicalForm_def)
  moreover have "validateReservedExecution rv = None"
    using dto(1) by (auto simp: reservedExecutionToV1_def split: option.splits)
  ultimately show thesis
    using that marshal_canonical(1) [OF assms]
    by (auto simp: encodeRepositoryReservation_def assms(1) validateReservation_def canonicalForm_def
        workflowCodecVersion_def validateReservedExecution_def split: if_splits)
qed

lemma takeover_serves:
  assumes "db_ok rows" and "legalCall (env, OpTakeover k (AW_Version r) previous rv)"
    and "MarshalReservedExecution rv = Inr payload" and "db_lookup k rows = Some r"
    and "AW_ExecutionToken r = Some previous" and "AW_ExecutionStatus r = AgentWorkflowExecutionExecuting"
    and "AW_ExecutionOperation r = Some (RE_Operation rv)" and "AW_BusinessKey r = Some (RE_BusinessKey rv)"
    and "leaseExpired (CE_Now env) r" and "validateMutation env k (AW_Version r) = None"
    and "trimSpace previous \<noteq> []" and "CE_Now env \<noteq> 0" and "\<forall>n. statementError env n = None"
  shows "\<exists>w rows'. db_serve env (OpTakeover k (AW_Version r) previous rv) rows = (Inr w, rows')"
proof -
  have legal: "columns_ok env" "reservation_ok rv" using assms(2) by simp_all
  obtain v where v: "encodeRepositoryReservation rv = Inr (v, canonicalForm rv)" "validateReservation v = None"
    using assms(3) legal(2) by (rule encode_reservation_Inr)
  note cols = reservation_columns [OF v(1) legal(2)]
  let ?g = "written env \<circ> clearResult \<circ> setStatus AgentWorkflowExecutionExecuting
    \<circ> addReservationUpdates (DE_Column env) v"
  obtain d where d: "decodeReservation r = Inr d"
    by (rule readable_active [OF db_ok_readable [OF assms(1,4)]]) (use assms(6) in simp)
  have request: "AW_ExecutionRequestSchemaVersion r \<noteq> None" "AW_ExecutionRequestJSON r \<noteq> None"
    using d by (auto simp: decodeReservation_def split: option.splits)
  have form: "RE_Operation (canonicalForm rv) = RE_Operation rv" "RE_BusinessKey (canonicalForm rv) = RE_BusinessKey rv"
    by (simp_all add: canonicalForm_def)
  let ?p = "\<lambda>r'. AW_Version r' = AW_Version r \<and> AW_ExecutionToken r' = Some previous
        \<and> AW_ExecutionStatus r' \<in> {AgentWorkflowExecutionExecuting, AgentWorkflowExecutionRecoveryRequired}
        \<and> AW_ExecutionOperation r' = Some (AR_ExecutionOperation v) \<and> AW_BusinessKey r' = Some (AR_BusinessKey v)
        \<and> AW_ExecutionRequestSchemaVersion r' \<noteq> None \<and> AW_ExecutionRequestJSON r' \<noteq> None
        \<and> leaseExpired (CE_Now env) r'"
  have "?p r" using assms(5-9) request cols(4,5) form by simp
  moreover have "statementError env 0 = None" using assms(13) by simp
  moreover have "keyFromWorkflow (?g x) = keyFromWorkflow x" for x by (simp add: row_simps keyFromWorkflow_def)
  ultimately have "\<exists>rows1. requireOneRow (runStatement env 0
      (updateRows (\<lambda>r. workflowKeyWhere k r \<and> ?p r) ?g) rows) = (Inr (), rows1) \<and> db_lookup k rows1 = Some (?g r)"
    by (rule update_applies [OF assms(1,4)])
  then obtain rows1 where stmt: "requireOneRow (runStatement env 0
      (updateRows (\<lambda>r. workflowKeyWhere k r \<and> ?p r) ?g) rows) = (Inr (), rows1)"
    and lookup: "db_lookup k rows1 = Some (?g r)"
    by blast
  have repo: "repo_TakeoverExpiredExecution env 0 k (AW_Version r) previous (CE_Now env) v rows = (Inr (), rows1)"
    using assms(10-12) v(2) stmt by (simp add: repo_TakeoverExpiredExecution_def)
  obtain res rows' where serve: "db_serve env (OpTakeover k (AW_Version r) previous rv) rows = (res, rows')"
    by (metis surj_pair)
  have status: "AW_ExecutionStatus (?g r) = AgentWorkflowExecutionExecuting" "AW_Version (?g r) = AW_Version r + 1"
    by (simp_all add: row_simps)
  have load: "(res, rows') = loadExpectedVersion env 1 k (AW_Version (?g r)) rows1"
    using serve v(1) repo status(2) by (simp add: db_TakeoverExpiredExecution_def)
  have "snd (loadExpectedVersion env 1 k (AW_Version (?g r)) rows1) = rows1"
    by (rule load_active(2) [OF lookup]) (simp only: status(1), simp)
  with load have "rows' = rows1" by (metis snd_conv)
  have "readable (?g r)"
    using database.good_serve [OF assms(1,2) serve] lookup \<open>rows' = rows1\<close> db_ok_readable by blast
  then obtain w where "loadExpectedVersion env 1 k (AW_Version (?g r)) rows1 = (Inr (Some w), rows1)"
    using reload [OF lookup, of env 1] status(1) assms(10,13) by (auto simp: validateMutation_def split: option.splits)
  with load serve show ?thesis by auto
qed

lemma delete_applies:
  assumes "db_ok rows" and "db_lookup k rows = Some r" and "p r" and "statementError env n = None"
  shows "\<exists>rows'. requireOneRow (runStatement env n (deleteRows (\<lambda>r. workflowKeyWhere k r \<and> p r)) rows)
      = (Inr (), rows') \<and> db_lookup k rows' = None"
  using assms(2-4) one_affected [of rows k p] db_lookup_delete [of rows k k p] assms(1)
  by (simp add: requireOneRow_def runStatement_def deleteRows_def db_ok_def)

lemma readable_columns:
  assumes "readable r" and "AW_ExecutionStatus r \<noteq> AgentWorkflowExecutionIdle"
  shows "AW_ExecutionRequestSchemaVersion r \<noteq> None" "AW_ExecutionRequestJSON r \<noteq> None"
    "AW_LeaseExpiresAt r \<noteq> None"
proof -
  obtain d where "decodeReservation r = Inr d" using assms by (rule readable_active)
  then show "AW_ExecutionRequestSchemaVersion r \<noteq> None" "AW_ExecutionRequestJSON r \<noteq> None"
    "AW_LeaseExpiresAt r \<noteq> None"
    by (auto simp: decodeReservation_def split: option.splits)
qed

abbreviation resultColumns :: "PersistedExecutionResultV1 \<Rightarrow> string \<Rightarrow> AgentWorkflowExecutionResult" where
  "resultColumns result payload \<equiv>
     \<lparr>AX_ResultSchemaVersion = workflowCodecVersion, AX_ResultJSON = payload,
      AX_BusinessKey = PR_BusinessKey result, AX_WriteEffect = effectText (PR_WriteEffect result),
      AX_CompletedAt = PR_CompletedAt result\<rparr>"

lemma record_serves:
  assumes "db_ok rows" and "MarshalPersistedExecutionResult result = Inr payload"
    and "db_lookup k rows = Some r" and "AW_ExecutionToken r = Some token"
    and "AW_ExecutionStatus r = AgentWorkflowExecutionExecuting" and "AW_BusinessKey r = Some (PR_BusinessKey result)"
    and "validateMutation env k (AW_Version r) = None" and "\<forall>n. statementError env n = None"
    and "trimSpace token \<noteq> []" "trimSpace (PR_BusinessKey result) \<noteq> []"
      "trimSpace (effectText (PR_WriteEffect result)) \<noteq> []" "PR_CompletedAt result \<noteq> 0"
  shows "\<exists>res rows'. db_serve env (OpRecordResult k (AW_Version r) token result) rows = (res, rows')
     \<and> db_lookup k rows' = Some (written env (resultUpdates (resultColumns result payload) r))"
proof -
  let ?x = "resultColumns result payload" and ?g = "written env \<circ> resultUpdates (resultColumns result payload)"
  let ?p = "\<lambda>r'. AW_Version r' = AW_Version r \<and> AW_ExecutionStatus r' = AgentWorkflowExecutionExecuting
      \<and> AW_ExecutionToken r' = Some token \<and> AW_BusinessKey r' = Some (AX_BusinessKey ?x)
      \<and> AW_LeaseExpiresAt r' \<noteq> None \<and> AW_ExecutionRequestSchemaVersion r' \<noteq> None
      \<and> AW_ExecutionRequestJSON r' \<noteq> None"
  have "?p r" using assms(4-6) readable_columns [OF db_ok_readable [OF assms(1,3)]] by simp
  moreover have "statementError env 0 = None" using assms(8) by simp
  moreover have "keyFromWorkflow (?g x) = keyFromWorkflow x" for x by simp
  ultimately have "\<exists>rows1. requireOneRow (runStatement env 0
      (updateRows (\<lambda>r. workflowKeyWhere k r \<and> ?p r) ?g) rows) = (Inr (), rows1) \<and> db_lookup k rows1 = Some (?g r)"
    by (rule update_applies [OF assms(1,3)])
  then obtain rows1 where stmt: "requireOneRow (runStatement env 0
      (updateRows (\<lambda>r. workflowKeyWhere k r \<and> ?p r) ?g) rows) = (Inr (), rows1)"
    and lookup: "db_lookup k rows1 = Some (?g r)" by blast
  obtain dto where "payload = print_json (result_json dto)"
    using assms(2) by (auto simp: MarshalPersistedExecutionResult_def Let_def split: sum.splits if_splits)
  then have "trimSpace payload \<noteq> []" unfolding result_json_def by (simp only: nonblank_object not_False_eq_True)
  then have repo: "repo_RecordExecutionResult env 0 k (AW_Version r) token ?x rows = (Inr (), rows1)"
    using assms(7,9-12) stmt by (simp add: repo_RecordExecutionResult_def workflowCodecVersion_def)
  have "snd (loadExpectedVersion env 1 k (AW_Version r + 1) rows1) = rows1"
    by (rule load_active(2) [OF lookup]) (simp add: row_simps)
  moreover have "db_serve env (OpRecordResult k (AW_Version r) token result) rows
      = loadExpectedVersion env 1 k (AW_Version r + 1) rows1"
    using repo assms(2) by (simp add: db_RecordExecutionResult_def)
  ultimately show ?thesis using lookup by (metis comp_apply surj_pair snd_conv)
qed

lemma release_serves:
  assumes "db_ok rows" and "db_lookup k rows = Some r" and "AW_ExecutionToken r = Some token"
    and "AW_ExecutionStatus r = AgentWorkflowExecutionResultRecorded"
    and "AW_ExecutionResultSchemaVersion r \<noteq> None" "AW_ExecutionResultJSON r \<noteq> None"
    and "validateMutation env k (AW_Version r) = None" and "\<forall>n. statementError env n = None"
    and "trimSpace token \<noteq> []"
  shows "\<exists>res rows'. db_serve env (OpDeleteReserved k (AW_Version r) token) rows = (res, rows')
     \<and> db_lookup k rows' = None"
proof -
  let ?p = "\<lambda>r'. AW_Version r' = AW_Version r \<and> AW_ExecutionToken r' = Some token
      \<and> AW_ExecutionStatus r' = AgentWorkflowExecutionResultRecorded
      \<and> AW_ExecutionResultSchemaVersion r' \<noteq> None \<and> AW_ExecutionResultJSON r' \<noteq> None"
  have "?p r" using assms(3-6) by simp
  moreover have "statementError env 0 = None" using assms(8) by simp
  ultimately obtain rows1 where "requireOneRow (runStatement env 0
      (deleteRows (\<lambda>r. workflowKeyWhere k r \<and> ?p r)) rows) = (Inr (), rows1)" "db_lookup k rows1 = None"
    using delete_applies [OF assms(1,2), of ?p] by blast
  then show ?thesis
    using assms(7,9)
    by (auto simp: db_DeleteReservedExecution_def repo_DeleteReservedExecution_def)
qed

lemma create_reserved_serves:
  assumes "encodeAgentWorkflowRow (CE_Now env) k snap = Inr row"
    and "encodeRepositoryReservation rv = Inr (v, n)" and "validateReservation v = None"
    and "validateWorkflowForCreate row = None" and "repo_validate env k = None" and "statementError env 0 = None"
  shows "\<exists>res. db_serve env (OpCreateReserved k snap rv) []
    = (res, [columnRow env (stampCreated env
        (applyReservationToWorkflow v (prepareNewWorkflow AgentWorkflowExecutionExecuting row)))])"
proof -
  have "keyFromWorkflow row = k" using assms(1) by (rule encoded_row)
  with assms show ?thesis
    by (simp add: db_CreateReservedExecution_def repo_CreateReservedExecution_def Let_def
        requireOneCreatedRow_def runStatement_def insertRow_def)
qed

section \<open>Examples\<close>

text \<open>A database whose \<open>DATETIME(3)\<close> columns round half up.\<close>

definition exDbEnv :: "instant \<Rightarrow> dbEnv" where
  "exDbEnv now =
     \<lparr>CE_Err = None, CE_Now = now, DE_Ctx = \<lparr>Ctx_TenantID = Some 1, Ctx_SkipTenantScope = False\<rparr>,
      DE_Fault = (\<lambda>_. None), DE_NextID = 1, DE_Stamp = now,
      DE_Column = (\<lambda>t. (t + 500000) div 1000000 * 1000000)\<rparr>"

lemma exDbEnv_columns: "columns_ok (exDbEnv now)"
proof -
  have "(t + 500000) div 1000000 * 1000000 = t" if "t mod 1000000 = 0" for t :: int
  proof -
    have "1000000 dvd t" using that by auto
    then have "(t + 500000) div 1000000 = t div 1000000" by (simp add: div_plus_div_distrib_dvd_left)
    with \<open>1000000 dvd t\<close> show ?thesis by simp
  qed
  then show ?thesis by (simp add: columns_ok_def exDbEnv_def millisecond_def)
qed

lemma exDbEnv_fields [simp]:
  "CE_Now (exDbEnv now) = now" "statementError (exDbEnv now) n = None" "tenantIDFrom (DE_Ctx (exDbEnv now)) = Some 1"
  by (simp_all add: exDbEnv_def statementError_def tenantIDFrom_def)

lemma exDb_validate: "repo_validate (exDbEnv now) exKey = None"
proof -
  have "trimSpace ''c'' = ''c''" by (rule trimSpace_ascii) (simp_all add: ascii_def no_space_def isSpace_def)
  then show ?thesis by (simp add: repo_validate_def exKey_def)
qed

lemma exDb_mutation: "v \<noteq> 0 \<Longrightarrow> validateMutation (exDbEnv now) exKey v = None"
  by (simp add: validateMutation_def exDb_validate)

lemma exDbSnapshot_ok: "snapshot_ok (completedSnapshot 63900000000000000123 exKey exSnapshot)"
  by (simp add: snapshot_ok_def state_ok_def params_ok_def goMap_ok_def goAny_ok_def int64_def
      maxUint64_def minInt64_def maxInt64_def instant_ok_def day_ns_def completedSnapshot_def Let_def
      exSnapshot_def exKey_def normalizeWorkflowDatabaseTime_def millisecond_def noTrustedEntities_def
      minute_def)

lemma exDbSnapshot_marshals:
  "\<not> isl (MarshalWorkflowSnapshot (Some (completedSnapshot 63900000000000000123 exKey exSnapshot)))"
  by code_simp

lemma exRow:
  obtains row where "encodeAgentWorkflowRow 63900000000000000123 exKey (Some exSnapshot) = Inr row"
    and "validateWorkflowForCreate row = None"
proof -
  let ?w = "completedSnapshot 63900000000000000123 exKey exSnapshot"
  obtain payload where payload: "MarshalWorkflowSnapshot (Some ?w) = Inr payload"
    using exDbSnapshot_marshals by (cases "MarshalWorkflowSnapshot (Some ?w)") auto
  obtain dto where "payload = print_json (snapshot_json dto)"
    using payload by (auto simp: MarshalWorkflowSnapshot_def Let_def split: sum.splits if_splits)
  then have nonblank: "trimSpace payload \<noteq> []"
    unfolding snapshot_json_def by (simp only: nonblank_object not_False_eq_True)
  have names: "trimSpace ''wf-1'' = ''wf-1''" "trimSpace WorkflowSubscriptionStart = WorkflowSubscriptionStart"
    "trimSpace ''ready'' = ''ready''"
    by (rule trimSpace_ascii; simp add: ascii_def no_space_def isSpace_def)+
  note stored = marshal_stored(1) [OF exDbSnapshot_ok payload]
  have "WF_ID ?w = ''wf-1''" "WF_Type ?w = WorkflowSubscriptionStart" "WF_State ?w = WorkflowReady"
    by (simp_all add: completedSnapshot_def exSnapshot_def Let_def)
  then have fields: "WF_ID (storedSnapshot ?w) = ''wf-1''" "WF_Type (storedSnapshot ?w) = WorkflowSubscriptionStart"
    "WF_State (storedSnapshot ?w) = WorkflowReady"
    by (simp_all add: storedSnapshot_def)
  moreover have "WF_ExpiresAt (storedSnapshot ?w) \<noteq> 0"
    by (simp add: storedSnapshot_def completedSnapshot_def exSnapshot_def Let_def
        normalizeWorkflowDatabaseTime_def millisecond_def minute_def)
  ultimately show thesis
    using that stored payload nonblank names
    by (simp add: encodeAgentWorkflowRow_def encodeSnapshotUpdate_def validateWorkflowForCreate_def
        validateSnapshotUpdate_def workflowCodecVersion_def)
qed

abbreviation exDbReserved :: "dbEnv \<times> storeOp" where
  "exDbReserved \<equiv> (exDbEnv 63900000000000000123, OpCreateReserved exKey (Some exSnapshot) exReservation)"

lemma exDbReserved_legal: "legalCall exDbReserved"
  by (simp add: exDbEnv_columns exReservation_ok exDbSnapshot_ok)

lemma exCreated:
  obtains r where "db_lookup exKey (db_after [exDbReserved]) = Some r"
    and "AW_Version r = 1" "AW_ExecutionStatus r = AgentWorkflowExecutionExecuting"
      "AW_ExecutionToken r = Some ''tok-1''" "AW_ExecutionOperation r = Some ''subscription.start''"
      "AW_BusinessKey r = Some ''bk-1''" "AW_LeaseExpiresAt r = Some 63900000120000000000"
proof -
  obtain row where row: "encodeAgentWorkflowRow 63900000000000000123 exKey (Some exSnapshot) = Inr row"
    "validateWorkflowForCreate row = None" by (rule exRow)
  obtain payload where "MarshalReservedExecution exReservation = Inr payload" using exReservation_marshals by blast
  then obtain v where v: "encodeRepositoryReservation exReservation = Inr (v, canonicalForm exReservation)"
    "validateReservation v = None"
    by (rule encode_reservation_Inr [OF _ exReservation_ok])
  note cols = reservation_columns [OF v(1) exReservation_ok]
  let ?r = "columnRow (fst exDbReserved) (stampCreated (fst exDbReserved)
      (applyReservationToWorkflow v (prepareNewWorkflow AgentWorkflowExecutionExecuting row)))"
  have after: "db_after [exDbReserved] = [?r]"
    using create_reserved_serves [of "exDbEnv 63900000000000000123" exKey "Some exSnapshot", OF _ v row(2)]
      row(1) exDb_validate
    by (auto simp: db_after_def)
  have key: "keyFromWorkflow ?r = exKey" using row(1) by (rule encoded_row) simp
  have "DE_Column (exDbEnv n) 63900000120000000000 = 63900000120000000000" for n
    using exDbEnv_columns [of n] by (simp add: columns_ok_def millisecond_def)
  with cols exForm that [of ?r] after key show thesis
    by (simp add: db_lookup_def created_simps)
qed

abbreviation exDbRecord :: "dbEnv \<times> storeOp" where
  "exDbRecord \<equiv> (exDbEnv 63900000010000000000, OpRecordResult exKey 1 ''tok-1'' exResult)"

abbreviation exDbRelease :: "dbEnv \<times> storeOp" where
  "exDbRelease \<equiv> (exDbEnv 63900000010000000000, OpDeleteReserved exKey 2 ''tok-1'')"

abbreviation exDbTakeover :: "dbEnv \<times> storeOp" where
  "exDbTakeover \<equiv> (exDbEnv 63900000200000000000, OpTakeover exKey 1 ''tok-1'' exReservation2)"

lemma exResult_ok: "result_ok exResult"
  by (simp add: result_ok_def exResult_def instant_ok_def day_ns_def)

lemma exDb_legal: "legalCall exDbRecord" "legalCall exDbRelease" "legalCall exDbTakeover"
  by (simp_all add: exDbEnv_columns exReservation2_ok exResult_ok)

lemma exDb_started: "db_ok (db_after [exDbReserved])"
  by (rule db_after_ok) (simp add: exDbReserved_legal del: legalCall.simps)

lemma exDbTakeover_serves:
  "\<exists>w rows'. db_serve (fst exDbTakeover) (snd exDbTakeover) (db_after [exDbReserved]) = (Inr w, rows')"
proof -
  obtain payload where payload: "MarshalReservedExecution exReservation2 = Inr payload"
    using exReservation2_marshals by blast
  obtain r where r: "db_lookup exKey (db_after [exDbReserved]) = Some r"
    "AW_Version r = 1" "AW_ExecutionStatus r = AgentWorkflowExecutionExecuting"
    "AW_ExecutionToken r = Some ''tok-1''" "AW_ExecutionOperation r = Some ''subscription.start''"
    "AW_BusinessKey r = Some ''bk-1''" "AW_LeaseExpiresAt r = Some 63900000120000000000"
    by (rule exCreated)
  have "\<exists>w rows'. db_serve (fst exDbTakeover) (OpTakeover exKey (AW_Version r) ''tok-1'' exReservation2)
      (db_after [exDbReserved]) = (Inr w, rows')"
    by (rule takeover_serves [OF exDb_started _ payload r(1)])
      (use exDb_legal(3) r(2-) ex_tokens in \<open>simp_all add: exDb_mutation exReservation2_def exReservation_def leaseExpired_def\<close>)
  with r(2) show ?thesis by simp
qed

lemma exDbRelease_serves: "db_view (db_after [exDbReserved, exDbRecord, exDbRelease]) exKey = None"
proof -
  obtain payload where payload: "MarshalPersistedExecutionResult exResult = Inr payload"
    using exResult_marshals by blast
  obtain r where r: "db_lookup exKey (db_after [exDbReserved]) = Some r"
    "AW_Version r = 1" "AW_ExecutionStatus r = AgentWorkflowExecutionExecuting"
    "AW_ExecutionToken r = Some ''tok-1''" "AW_BusinessKey r = Some ''bk-1''"
    by (rule exCreated)
  have ok: "trimSpace (effectText (PR_WriteEffect exResult)) \<noteq> []"
    by code_simp
  obtain res rows1 where rows1: "db_serve (fst exDbRecord) (snd exDbRecord) (db_after [exDbReserved]) = (res, rows1)"
    and lookup: "db_lookup exKey rows1
      = Some (written (fst exDbRecord) (resultUpdates (resultColumns exResult payload) r))"
    using record_serves [OF exDb_started payload r(1,4,3), of "fst exDbRecord"] r(2,5) ok ex_tokens
    by (auto simp: exDb_mutation exResult_def)
  have ok1: "db_ok rows1" by (rule database.good_serve [OF exDb_started _ rows1]) (use exDb_legal(1) in simp)
  have effect: "AW_Version (written env (resultUpdates x r)) = 2"
    "AW_ExecutionToken (written env (resultUpdates x r)) = Some ''tok-1''"
    "AW_ExecutionStatus (written env (resultUpdates x r)) = AgentWorkflowExecutionResultRecorded"
    "AW_ExecutionResultSchemaVersion (written env (resultUpdates x r)) \<noteq> None"
    "AW_ExecutionResultJSON (written env (resultUpdates x r)) \<noteq> None" for env x
    using r(2,4) by (simp_all add: row_simps)
  have "\<exists>res rows'. db_serve (fst exDbRelease) (snd exDbRelease) rows1 = (res, rows') \<and> db_lookup exKey rows' = None"
    using release_serves [OF ok1 lookup effect(2-5), of "fst exDbRelease"] effect(1) ex_tokens
    by (simp add: exDb_mutation)
  then show ?thesis using rows1 by (auto simp: db_after_def db_view_def)
qed

theorem database_store_refines_contract_witness:
  "list_all (\<lambda>r. \<not> isl (decodeAgentWorkflowRow (Some r)))
     (snd (db_serve (fst exDbTakeover) (snd exDbTakeover) (db_after [exDbReserved])))"
proof -
  obtain res rows where serve: "db_serve (fst exDbTakeover) (snd exDbTakeover) (db_after [exDbReserved]) = (res, rows)"
    by (metis surj_pair)
  show ?thesis
    using database_store_refines_contract [of "[exDbReserved]" "fst exDbTakeover" "snd exDbTakeover" res rows]
      serve exDbReserved_legal exDb_legal(3)
    by (simp add: list_all_iff del: legalCall.simps)
qed

theorem database_token_fenced_witness:
  "isl (fst (db_serve (exDbEnv 0) (OpRecordResult exKey 2 ''tok-1'' exResult)
               (db_after [exDbReserved, exDbTakeover])))"
proof -
  obtain res s' where s': "db_serve (exDbEnv 0) (OpRecordResult exKey 2 ''tok-1'' exResult)
      (db_after [exDbReserved, exDbTakeover]) = (res, s')"
    by (metis surj_pair)
  obtain w s1 where w: "db_serve (fst exDbTakeover) (snd exDbTakeover) (db_after [exDbReserved]) = (Inr w, s1)"
    using exDbTakeover_serves by blast
  have legal: "legalCall (exDbEnv 0, OpRecordResult exKey 2 ''tok-1'' exResult)"
    by (simp add: exDbEnv_columns exResult_ok)
  have "RE_ExecutionToken exReservation2 \<noteq> trimSpace ''tok-1''"
    by (simp add: ex_tokens exReservation2_def)
  then have "isl res"
    using database_token_fenced [of "[exDbReserved]" "fst exDbTakeover" exKey 1 "''tok-1''" exReservation2
        "[]" "exDbEnv 0" "OpRecordResult exKey 2 ''tok-1'' exResult" w s1 res s'] w s' legal
      exDbReserved_legal exDb_legal(3)
    by (simp del: legalCall.simps)
  with s' show ?thesis by simp
qed

theorem database_release_needs_result_witness:
  "\<exists>before env w token result after e1.
     [exDbRecord, exDbRelease] = before @ (env, OpRecordResult exKey w token result) # after
     \<and> trimSpace (PR_BusinessKey result) = ''bk-1''
     \<and> db_view (db_after ([exDbReserved] @ before)) exKey = Some (w, Some e1)
     \<and> EV_Token e1 = trimSpace token"
proof -
  obtain r where r: "db_lookup exKey (db_after [exDbReserved]) = Some r"
    "AW_Version r = 1" "AW_ExecutionStatus r = AgentWorkflowExecutionExecuting"
    "AW_BusinessKey r = Some ''bk-1''"
    by (rule exCreated)
  then have "db_view (db_after [exDbReserved]) exKey = Some (1, Some (rowExecution r))"
    "\<not> EV_Recorded (rowExecution r)" "EV_BusinessKey (rowExecution r) = ''bk-1''"
    by (simp_all add: db_view_def rowFlow_def rowExecution_def columnText_def)
  then show ?thesis
    using database_release_needs_result [of "[exDbReserved]" "[exDbRecord, exDbRelease]" exKey 1 "rowExecution r"]
      exDbRelease_serves exDbReserved_legal exDb_legal
    by (simp del: legalCall.simps)
qed

theorem deferral_readable_iff_witness:
  "\<exists>res rows'. db_MarkExecutionRecoveryRequired (exDbEnv 63900000000000600000) exKey 1 ''tok-1''
      63900000120000600000 (db_after [exDbReserved]) = (res, rows')
    \<and> isl res \<and> (\<forall>env'. isl (fst (db_Load env' 0 exKey rows')))"
proof -
  obtain r where r: "db_lookup exKey (db_after [exDbReserved]) = Some r"
    "AW_Version r = 1" "AW_ExecutionStatus r = AgentWorkflowExecutionExecuting"
    "AW_ExecutionToken r = Some ''tok-1''" "AW_LeaseExpiresAt r = Some 63900000120000000000"
    by (rule exCreated)
  obtain res rows' where mark: "db_MarkExecutionRecoveryRequired (exDbEnv 63900000000000600000) exKey 1 ''tok-1''
      63900000120000600000 (db_after [exDbReserved]) = (res, rows')" by (metis surj_pair)
  have "normalizeWorkflowDatabaseTime (DE_Column (exDbEnv n) 63900000120000600000)
      \<noteq> normalizeWorkflowDatabaseTime 63900000120000000000" for n
    by (simp add: exDbEnv_def normalizeWorkflowDatabaseTime_def millisecond_def)
  with deferral_readable_iff [OF exDb_started r(1,3,4), of "exDbEnv 63900000000000600000"
      63900000120000600000 res rows' 63900000120000000000] r(2,5) mark ex_tokens
  show ?thesis by (auto simp: exDb_mutation)
qed

end
