(* ===== verification/AgentReplies.thy ===== *)
theory AgentReplies
  imports OperationCatalog
begin

text \<open>
  The Chinese texts of the replies of the agent (src/internal/agent), by code point.
\<close>

text \<open>subscriptions only in group chats\<close>

definition zh_group_only :: string where
  "zh_group_only = utf8
    [32676, 32771, 21220, 35746, 38405, 21482, 33021, 22312, 32676, 32842, 20013, 20351,
     29992, 12290, 35831, 22312, 23545, 24212, 32676, 32842, 37324, 20877, 21578, 35785,
     25105, 12290]"

text \<open>cannot do this request\<close>

definition zh_cannot_do :: string where
  "zh_cannot_do = utf8
    [25265, 27465, 65292, 25105, 24403, 21069, 19981, 33021, 30452, 25509, 25191, 34892,
     36825, 20010, 35831, 27714, 12290]"

text \<open>request aborted\<close>

definition zh_aborted :: string where
  "zh_aborted = utf8
    [26412, 27425, 35831, 27714, 24050, 32456, 27490, 65292, 35831, 31245, 21518, 37325,
     35797, 12290]"

text \<open>task cancelled\<close>

definition zh_task_cancelled :: string where
  "zh_task_cancelled = utf8
    [24050, 21462, 28040, 24403, 21069, 20219, 21153, 12290, 22914, 38656, 32487, 32493,
     65292, 35831, 37325, 26032, 21578, 35785, 25105, 12290]"

text \<open>needs an administrator\<close>

definition zh_needs_admin :: string where
  "zh_needs_admin = utf8
    [35813, 25805, 20316, 38656, 35201, 31649, 29702, 21592, 26435, 38480, 12290]"

text \<open>only the subscription of this conversation\<close>

definition zh_this_conversation :: string where
  "zh_this_conversation = utf8
    [21482, 33021, 25805, 20316, 24403, 21069, 32676, 32842, 30340, 32771, 21220, 35746,
     38405, 12290, 35831, 22312, 23545, 24212, 32676, 32842, 37324, 20877, 21578, 35785,
     25105, 12290]"

text \<open>schedule of the user not visible\<close>

definition zh_not_visible :: string where
  "zh_not_visible = utf8
    [25265, 27465, 65292, 20320, 24403, 21069, 19981, 33021, 26597, 30475, 35813, 29992,
     25143, 30340, 35838, 34920, 12290]"

text \<open>only departments of the tenant\<close>

definition zh_departments_of_tenant :: string where
  "zh_departments_of_tenant = utf8
    [21482, 33021, 36873, 25321, 24403, 21069, 31199, 25143, 21487, 35775, 38382, 30340,
     37096, 38376, 12290, 35831, 37325, 26032, 36873, 25321, 37096, 38376, 12290]"

text \<open>operation only in group chats\<close>

definition zh_group_needed :: string where
  "zh_group_needed = utf8
    [35813, 25805, 20316, 21482, 33021, 22312, 32676, 32842, 20013, 20351, 29992, 12290,
     35831, 22312, 23545, 24212, 32676, 32842, 37324, 20877, 21578, 35785, 25105, 12290]"

text \<open>confirm the write\<close>

definition zh_confirm_write :: string where
  "zh_confirm_write = utf8
    [35831, 30830, 35748, 26159, 21542, 25191, 34892, 35813, 20889, 25805, 20316, 12290]"

text \<open>write parameters invalid\<close>

definition zh_bad_write :: string where
  "zh_bad_write = utf8
    [20889, 25805, 20316, 21442, 25968, 26657, 39564, 22833, 36133, 65292, 35831, 37325,
     26032, 21457, 36215, 35831, 27714, 12290]"

text \<open>write not supported\<close>

definition zh_write_unsupported :: string where
  "zh_write_unsupported = utf8
    [24403, 21069, 20889, 25805, 20316, 26242, 19981, 25903, 25345, 23433, 20840, 25191,
     34892, 12290]"

text \<open>execution failed\<close>

definition zh_execution_failed :: string where
  "zh_execution_failed = utf8
    [25191, 34892, 35831, 27714, 26102, 36935, 21040, 38382, 39064, 65292, 35831, 31245,
     21518, 20877, 35797, 12290]"

text \<open>start only in group chats\<close>

definition zh_start_in_group :: string where
  "zh_start_in_group = utf8
    [32676, 32771, 21220, 35746, 38405, 21482, 33021, 22312, 32676, 32842, 20013, 24320,
     21551, 12290, 35831, 22312, 23545, 24212, 32676, 32842, 37324, 20877, 21578, 35785,
     25105, 12290]"

text \<open>cancel only in group chats\<close>

definition zh_cancel_in_group :: string where
  "zh_cancel_in_group = utf8
    [32676, 32771, 21220, 35746, 38405, 21482, 33021, 22312, 32676, 32842, 20013, 21462,
     28040, 12290, 35831, 22312, 23545, 24212, 32676, 32842, 37324, 20877, 21578, 35785,
     25105, 12290]"

text \<open>status only in group chats\<close>

definition zh_status_in_group :: string where
  "zh_status_in_group = utf8
    [32676, 32771, 21220, 35746, 38405, 29366, 24577, 21482, 33021, 22312, 32676, 32842,
     20013, 26597, 35810, 12290, 35831, 22312, 23545, 24212, 32676, 32842, 37324, 20877,
     38382, 25105, 12290]"

text \<open>scope is all or department\<close>

definition zh_scope_options :: string where
  "zh_scope_options = utf8
    [35746, 38405, 33539, 22260, 21482, 33021, 26159, 20840, 37096, 20154, 21592, 25110,
     25351, 23450, 37096, 38376, 12290, 35831, 37325, 26032, 35828, 26126, 35201, 35746,
     38405, 30340, 33539, 22260, 12290]"

text \<open>subscription capability outside a group\<close>

definition zh_subscription_in_group :: string where
  "zh_subscription_in_group = utf8
    [32676, 32771, 21220, 35746, 38405, 21482, 33021, 22312, 32676, 32842, 20013, 20351,
     29992, 65307, 22312, 32676, 32842, 37324, 31649, 29702, 21592, 21487, 20197, 24320,
     21551, 12289, 21462, 28040, 25110, 26597, 35810, 32771, 21220, 25512, 36865, 35746,
     38405, 12290]"

text \<open>subscription capability without the role\<close>

definition zh_subscription_for_admin :: string where
  "zh_subscription_for_admin = utf8
    [20320, 21487, 20197, 22312, 32676, 32842, 37324, 26597, 35810, 24403, 21069, 32676,
     30340, 32771, 21220, 35746, 38405, 29366, 24577, 65307, 24320, 21551, 12289, 21462,
     28040, 25110, 25353, 37096, 38376, 31649, 29702, 35746, 38405, 38656, 35201, 31649,
     29702, 21592, 26435, 38480, 12290]"

text \<open>manual sign for administrators\<close>

definition zh_sign_for_admin :: string where
  "zh_sign_for_admin = utf8
    [20195, 31614, 65288, 34917, 31614, 65289, 23646, 20110, 31649, 29702, 21592, 33021,
     21147, 65307, 24403, 21069, 32842, 22825, 36335, 24452, 21482, 35828, 26126, 26435,
     38480, 12289, 35268, 21017, 21644, 25152, 38656, 20449, 24687, 65292, 19981, 30452,
     25509, 25191, 34892, 20195, 31614, 12290]"

text \<open>manual sign for users\<close>

definition zh_sign_for_user :: string where
  "zh_sign_for_user = utf8
    [20195, 31614, 65288, 34917, 31614, 65289, 23646, 20110, 31649, 29702, 21592, 33021,
     21147, 65307, 26222, 36890, 29992, 25143, 19981, 33021, 36890, 36807, 24403, 21069,
     32842, 22825, 36335, 24452, 25191, 34892, 20195, 31614, 12290]"

text \<open>help, first heading\<close>

definition zh_i_can_help :: string where
  "zh_i_can_help = utf8
    [25105, 21487, 20197, 24110, 21161, 22788, 29702, 36825, 20123, 31995, 32479, 33021,
     21147, 65306]"

text \<open>help, second heading\<close>

definition zh_usable_here :: string where
  "zh_usable_here = utf8
    [20320, 24403, 21069, 22312, 36825, 20010, 20250, 35805, 37324, 21487, 30452, 25509,
     20351, 29992, 65306]"

text \<open>help, nothing usable\<close>

definition zh_nothing_usable :: string where
  "zh_nothing_usable = utf8
    [24403, 21069, 27809, 26377, 21487, 30452, 25509, 25191, 34892, 30340, 32842, 22825,
     33021, 21147]"

text \<open>colon of a help line\<close>

definition zh_help_colon :: string where
  "zh_help_colon = utf8
    [65306]"

text \<open>result still being confirmed\<close>

definition zh_pending :: string where
  "zh_pending = utf8
    [25805, 20316, 32467, 26524, 20173, 22312, 30830, 35748, 20013, 65292, 35831, 31245,
     21518, 26597, 35810, 24403, 21069, 35746, 38405, 29366, 24577, 65292, 19981, 35201,
     37325, 22797, 25552, 20132, 12290]"

text \<open>conversation changed, send again\<close>

definition zh_retry :: string where
  "zh_retry = utf8
    [24403, 21069, 20250, 35805, 29366, 24577, 21018, 21018, 21457, 29983, 21464, 21270,
     65292, 35831, 37325, 26032, 21457, 36865, 19968, 27425, 35831, 27714, 12290]"

text \<open>workflow state unavailable\<close>

definition zh_store_failed :: string where
  "zh_store_failed = utf8
    [31995, 32479, 26242, 26102, 26080, 27861, 22788, 29702, 24403, 21069, 20219, 21153,
     29366, 24577, 65292, 35831, 31245, 21518, 37325, 35797, 12290]"

text \<open>legacy capability, schedule\<close>

definition zh_cap_schedule :: string where
  "zh_cap_schedule = utf8
    [35838, 34920, 26597, 35810]"

text \<open>legacy capability, schedule text\<close>

definition zh_cap_schedule_text :: string where
  "zh_cap_schedule_text = utf8
    [26597, 35810, 33258, 24049, 30340, 35838, 34920, 12289, 25351, 23450, 22995, 21517,
     29992, 25143, 30340, 35838, 34920, 12289, 31354, 38386, 20154, 21592, 21644, 20316,
     24687, 26102, 38388, 12290]"

text \<open>legacy capability, attendance\<close>

definition zh_cap_attendance :: string where
  "zh_cap_attendance = utf8
    [32771, 21220, 19982, 35831, 20551, 26597, 35810]"

text \<open>legacy capability, attendance text\<close>

definition zh_cap_attendance_text :: string where
  "zh_cap_attendance_text = utf8
    [26597, 35810, 32771, 21220, 29366, 24577, 12289, 35831, 20551, 35760, 24405, 12289,
     20241, 24687, 26085, 21644, 21608, 25490, 34892, 12290]"

text \<open>legacy capability, cross filter\<close>

definition zh_cap_cross :: string where
  "zh_cap_cross = utf8
    [20154, 21592, 20132, 21449, 31579, 36873]"

text \<open>legacy capability, cross filter text\<close>

definition zh_cap_cross_text :: string where
  "zh_cap_cross_text = utf8
    [25353, 35838, 34920, 12289, 32570, 21220, 21644, 37096, 38376, 26465, 20214, 20132,
     21449, 26597, 35810, 20154, 21592, 12290]"

text \<open>legacy capability, statistics\<close>

definition zh_cap_stats :: string where
  "zh_cap_stats = utf8
    [32771, 21220, 32479, 35745, 20998, 26512]"

text \<open>legacy capability, statistics text\<close>

definition zh_cap_stats_text :: string where
  "zh_cap_stats_text = utf8
    [25353, 21608, 27425, 12289, 26085, 26399, 12289, 29992, 25143, 25110, 37096, 38376,
     26597, 30475, 32771, 21220, 32479, 35745, 12290]"

text \<open>legacy capability, manual sign\<close>

definition zh_cap_sign :: string where
  "zh_cap_sign = utf8
    [31649, 29702, 21592, 34917, 31614]"

text \<open>legacy capability, manual sign text\<close>

definition zh_cap_sign_text :: string where
  "zh_cap_sign_text = utf8
    [20026, 25351, 23450, 29992, 25143, 34917, 31614, 26576, 33410, 27425, 32771, 21220,
     12290]"

text \<open>legacy capability, subscription\<close>

definition zh_cap_subscription :: string where
  "zh_cap_subscription = utf8
    [32676, 32771, 21220, 35746, 38405, 31649, 29702]"

text \<open>legacy capability, subscription text\<close>

definition zh_cap_subscription_text :: string where
  "zh_cap_subscription_text = utf8
    [22312, 32676, 32842, 37324, 24320, 21551, 12289, 21462, 28040, 25110, 26597, 35810,
     32771, 21220, 25512, 36865, 35746, 38405, 65292, 24182, 21487, 20808, 26597, 30475,
     21487, 36873, 37096, 38376, 12290]"

end
