(* ===== verification/LivePipeline.thy ===== *)
theory LivePipeline
  imports WorkflowEngine ResourceGate ExecutionCodec AgentReplies
begin

text \<open>
  The live protocol pipeline (src/internal/agent/protocol\_live\_execution.go, \_guardrail.go,
  \_outcome.go, \_context.go and the parts of agent.go and capabilities.go they use): the outcome of
  a turn, the replies about capabilities, and the execution of one operation behind the resource
  gate and the write guard. A write is only prepared here; the coordinator runs it.

  The world outside the agent is a value that the executor of operations receives and returns, so
  that what a turn does to it can be stated.
\<close>

section \<open>Responses and outcomes\<close>

datatype answerMode =
    answerModeUnset | answerModeKnowledgeOnly | answerModeToolFirst | answerModeMixed | answerModeReject

datatype failureLayer =
    FailureUnset | FailureIngress | FailureIntent | FailureCatalog | FailureWorkflow
  | FailureEntityAmbiguous | FailureEntityNotFound | FailurePrePolicyDenied
  | FailureResourcePolicyDenied | FailureWriteGuardBlocked | FailureExecutor | FailureRenderer
  | FailurePersistence

record ResponseOption =
  RO_Label :: string
  RO_Value :: string

datatype writeStatus =
    WriteStatusCreated | WriteStatusAlreadyExists | WriteStatusUpdated | WriteStatusNoOp

text \<open>\<open>ToolPayload\<close> is a payload made of what a port returned.\<close>

datatype responsePayload =
    NoPayload
  | OperationStatusPayload string writeStatus "bool option"
  | CapabilityAnswerPayload businessDomain int string
  | ToolPayload string

record ResponseModel =
  RM_Kind :: responseKind
  RM_Operation :: string
  RM_Message :: string
  RM_Answer :: string
  RM_ClarifyReason :: string
  RM_MissingFields :: "string list"
  RM_Options :: "ResponseOption list"
  RM_ResultText :: string
  RM_RefusalReason :: string
  RM_BusinessError :: string
  RM_Payload :: responsePayload

definition response :: "responseKind \<Rightarrow> ResponseModel" where
  "response kind =
     \<lparr>RM_Kind = kind, RM_Operation = [], RM_Message = [], RM_Answer = [], RM_ClarifyReason = [],
      RM_MissingFields = [], RM_Options = [], RM_ResultText = [], RM_RefusalReason = [],
      RM_BusinessError = [], RM_Payload = NoPayload\<rparr>"

definition refuse :: "string \<Rightarrow> ResponseModel" where
  "refuse reason = (response ResponseRefuse)\<lparr>RM_RefusalReason := reason\<rparr>"

definition clarify :: "string \<Rightarrow> ResponseModel" where
  "clarify reason = (response ResponseClarify)\<lparr>RM_ClarifyReason := reason\<rparr>"

record OperationExecutionMetrics =
  EM_ExecutorName :: string
  EM_ToolPool :: string
  EM_AnswerMode :: answerMode
  EM_RetrievalHitCount :: nat
  EM_RetrievalCandidateCount :: nat
  EM_SourceRefs :: "string list"

record OperationExecutionResult =
  ER_Response :: ResponseModel
  ER_Metrics :: OperationExecutionMetrics
  ER_Effect :: writeEffect

record preparedWriteExecution =
  WX_Request :: OperationRequest
  WX_BusinessKey :: string
  WX_ClearWorkflowOnSuccess :: bool

text \<open>The figures of the intent compiler are left out.\<close>

record protocolLiveOutcome =
  LO_RequestID :: string
  LO_Draft :: "ProtocolDraft option"
  LO_Validation :: ProtocolValidationResult
  LO_Response :: ResponseModel
  LO_ExecutionMetrics :: "OperationExecutionMetrics option"
  LO_AnswerMode :: answerMode
  LO_BlockedReason :: string
  LO_CatalogValidationCode :: string
  LO_ResolvedSlots :: "goAny goMap"
  LO_CandidateCount :: nat
  LO_IdempotencyKey :: string
  LO_EntityResolutionStatus :: string
  LO_PrePolicyResult :: string
  LO_ResourcePolicyResult :: string
  LO_WriteGuardResult :: string
  LO_ExecutorStatus :: string
  LO_RendererName :: string
  LO_FailureLayer :: failureLayer
  LO_WorkflowDecision :: "workflowDecision option"
  LO_WorkflowInterruptReason :: string
  LO_WorkflowAfter :: "WorkflowSnapshot option"
  LO_ClearWorkflow :: bool
  LO_PreparedWrite :: "preparedWriteExecution option"

definition noValidation :: ProtocolValidationResult where
  "noValidation = refusal [] False False ResponseUnset"

definition emptyOutcome :: protocolLiveOutcome where
  "emptyOutcome =
     \<lparr>LO_RequestID = [], LO_Draft = None, LO_Validation = noValidation, LO_Response = response ResponseUnset,
      LO_ExecutionMetrics = None, LO_AnswerMode = answerModeUnset, LO_BlockedReason = [],
      LO_CatalogValidationCode = [], LO_ResolvedSlots = [], LO_CandidateCount = 0,
      LO_IdempotencyKey = [], LO_EntityResolutionStatus = [], LO_PrePolicyResult = [],
      LO_ResourcePolicyResult = [], LO_WriteGuardResult = [], LO_ExecutorStatus = [],
      LO_RendererName = [], LO_FailureLayer = FailureUnset, LO_WorkflowDecision = None,
      LO_WorkflowInterruptReason = [], LO_WorkflowAfter = None, LO_ClearWorkflow = False,
      LO_PreparedWrite = None\<rparr>"

section \<open>The user context\<close>

definition inputUserRole :: "UserContext option \<Rightarrow> int" where
  "inputUserRole uctx = (case uctx of None \<Rightarrow> 0 | Some u \<Rightarrow> UC_UserRole u)"

definition userTenantID :: "UserContext option \<Rightarrow> nat" where
  "userTenantID uctx = (case uctx of None \<Rightarrow> 0 | Some u \<Rightarrow> UC_TenantID u)"

definition userConversationID :: "UserContext option \<Rightarrow> string" where
  "userConversationID uctx = (case uctx of None \<Rightarrow> [] | Some u \<Rightarrow> UC_ConversationID u)"

definition userConversationType :: "UserContext option \<Rightarrow> string" where
  "userConversationType uctx = (case uctx of None \<Rightarrow> [] | Some u \<Rightarrow> UC_ConversationType u)"

definition userActorUserID :: "UserContext option \<Rightarrow> nat" where
  "userActorUserID uctx = (case uctx of None \<Rightarrow> 0 | Some u \<Rightarrow> UC_UserID u)"

fun firstNonEmpty :: "string list \<Rightarrow> string" where
  "firstNonEmpty [] = []"
| "firstNonEmpty (s # ss) = (if trimSpace s \<noteq> [] then trimSpace s else firstNonEmpty ss)"

section \<open>Figures of the outcome\<close>

definition protocolResponseBlockedReason :: "ResponseModel \<Rightarrow> ProtocolValidationResult \<Rightarrow> string" where
  "protocolResponseBlockedReason r validation =
     (case RM_Kind r of
        ResponseClarify \<Rightarrow>
          (case RM_MissingFields r of
             field # _ \<Rightarrow> ''missing_'' @ field
           | [] \<Rightarrow>
               if trimSpace (RM_ClarifyReason r) \<noteq> [] then trimSpace (RM_ClarifyReason r)
               else if ValidationCode validation \<noteq> [] \<and> \<not> AllowExecution validation
               then ValidationCode validation else [])
      | ResponseRefuse \<Rightarrow> if ValidationCode validation \<noteq> [] then ValidationCode validation else ''refused''
      | _ \<Rightarrow> [])"

definition setProtocolOutcomeResponse ::
  "ResponseModel \<Rightarrow> answerMode \<Rightarrow> protocolLiveOutcome \<Rightarrow> protocolLiveOutcome" where
  "setProtocolOutcomeResponse r mode o' =
     o'\<lparr>LO_Response := r, LO_AnswerMode := mode,
        LO_BlockedReason := (if LO_BlockedReason o' = []
          then protocolResponseBlockedReason r (LO_Validation o') else LO_BlockedReason o'),
        LO_CandidateCount := (if LO_CandidateCount o' = 0 then length (RM_Options r)
          else LO_CandidateCount o')\<rparr>"

definition protocolPrePolicyResult :: "ProtocolValidationResult \<Rightarrow> string" where
  "protocolPrePolicyResult validation =
     (if AllowExecution validation \<or> VR_ResponseKind validation = ResponseAnswer
         \<or> UseActiveWorkflow validation then ''allow''
      else if trimSpace (ValidationCode validation) = [] then []
      else ''deny:'' @ ValidationCode validation)"

definition protocolExecutorStatus :: "ResponseModel \<Rightarrow> string" where
  "protocolExecutorStatus r =
     (case RM_Kind r of
        ResponseResult \<Rightarrow> ''success'' | ResponseAnswer \<Rightarrow> ''success'' | ResponseSelectOptions \<Rightarrow> ''success''
      | ResponseRefuse \<Rightarrow> ''failed'' | ResponseClarify \<Rightarrow> ''skipped'' | ResponseConfirm \<Rightarrow> ''skipped''
      | ResponseUnset \<Rightarrow> [])"

definition protocolEntityResolutionStatus :: "protocolLiveOutcome \<Rightarrow> string" where
  "protocolEntityResolutionStatus o' =
     (if LO_ResolvedSlots o' \<noteq> [] then ''resolved''
      else if RM_Kind (LO_Response o') = ResponseSelectOptions \<or> 0 < LO_CandidateCount o' then ''ambiguous''
      else if hasPrefix (LO_BlockedReason o') ''missing_'' then ''not_found''
      else ''not_required'')"

definition draftOperation :: "protocolLiveOutcome \<Rightarrow> string" where
  "draftOperation o' = (case LO_Draft o' of None \<Rightarrow> [] | Some d \<Rightarrow> Operation d)"

definition protocolWriteGuardResult :: "protocolLiveOutcome \<Rightarrow> string" where
  "protocolWriteGuardResult o' =
     (case lookupOperation (draftOperation o') of
        None \<Rightarrow> ''not_evaluated''
      | Some metadata \<Rightarrow>
          if \<not> IsWrite metadata then ''not_required''
          else if trimSpace (LO_IdempotencyKey o') \<noteq> [] \<and> LO_FailureLayer o' \<noteq> FailureWriteGuardBlocked
          then ''allow''
          else if LO_FailureLayer o' = FailureWriteGuardBlocked then ''block:'' @ LO_BlockedReason o'
          else ''not_evaluated'')"

definition inferFailureLayer :: "protocolLiveOutcome \<Rightarrow> failureLayer" where
  "inferFailureLayer o' =
     (let kind = RM_Kind (LO_Response o');
          reason = firstNonEmpty [LO_BlockedReason o', ValidationCode (LO_Validation o')] in
      if kind = ResponseResult \<or> kind = ResponseAnswer then FailureUnset
      else if reason \<in> {[], ''missing_scope'', ''subscription_missing_fields''} then FailureUnset
      else if reason \<in> {''empty_message'', ''unknown_intent'', ''intent_parse_failed'', ''intent_timeout'',
                        ''intent_compiler_unavailable''} then FailureIntent
      else if reason \<in> {''operation_not_allowed'', ''act_operation_mismatch'', ''read_query_cannot_write'',
                        ''write_request_cannot_read'', ''unsupported_act'', ''domain_operation_mismatch''}
      then FailureCatalog
      else if reason \<in> {''workflow_missing'', ''workflow_operation_mismatch'', ''workflow_store_failed'',
                        ''subscription_invalid_shape''} then FailureWorkflow
      else if reason \<in> {''role_denied'', ''conversation_scope_denied''} then FailurePrePolicyDenied
      else if reason \<in> {''subscription_conversation_mismatch'', ''schedule_user_visibility_denied'',
                        ''department_scope_denied'', ''department_scope_unverified'',
                        ''group_chat_required'', ''subscription_scope_invalid''}
      then FailureResourcePolicyDenied
      else if reason \<in> {''write_confirmation_required'', ''idempotency_key_missing''}
      then FailureWriteGuardBlocked
      else if contains reason ''ambiguous'' then FailureEntityAmbiguous
      else if contains reason ''not_found'' \<or> hasPrefix reason ''missing_user''
              \<or> hasPrefix reason ''missing_dept'' then FailureEntityNotFound
      else if kind = ResponseRefuse then FailureExecutor
      else FailureUnset)"

text \<open>\<open>finalizeProtocolLiveOutcome\<close>: each field that is still empty is filled in, in this order.\<close>

definition finalizeProtocolLiveOutcome :: "string \<Rightarrow> protocolLiveOutcome \<Rightarrow> protocolLiveOutcome" where
  "finalizeProtocolLiveOutcome freshID o0 =
     (let o1 = o0\<lparr>LO_RequestID := (if LO_RequestID o0 = [] then freshID else LO_RequestID o0),
           LO_RendererName := (if LO_RendererName o0 = [] then ''response_renderer'' else LO_RendererName o0),
           LO_CatalogValidationCode := (if LO_CatalogValidationCode o0 = []
             then ValidationCode (LO_Validation o0) else LO_CatalogValidationCode o0),
           LO_PrePolicyResult := (if LO_PrePolicyResult o0 = []
             then protocolPrePolicyResult (LO_Validation o0) else LO_PrePolicyResult o0),
           LO_ResourcePolicyResult := (if LO_ResourcePolicyResult o0 = [] then ''not_evaluated''
             else LO_ResourcePolicyResult o0),
           LO_WorkflowDecision := (if LO_WorkflowDecision o0 = None then Some WorkflowSingleTurn
             else LO_WorkflowDecision o0),
           LO_BlockedReason := (if LO_BlockedReason o0 = []
             then protocolResponseBlockedReason (LO_Response o0) (LO_Validation o0) else LO_BlockedReason o0)\<rparr>;
          o2 = o1\<lparr>LO_EntityResolutionStatus := (if LO_EntityResolutionStatus o1 = []
             then protocolEntityResolutionStatus o1 else LO_EntityResolutionStatus o1)\<rparr>;
          o3 = o2\<lparr>LO_WriteGuardResult := (if LO_WriteGuardResult o2 = []
             then protocolWriteGuardResult o2 else LO_WriteGuardResult o2)\<rparr>;
          o4 = o3\<lparr>LO_ExecutorStatus := (if LO_ExecutorStatus o3 = []
             then protocolExecutorStatus (LO_Response o3) else LO_ExecutorStatus o3)\<rparr>
      in o4\<lparr>LO_FailureLayer := (if LO_FailureLayer o4 = FailureUnset
             then inferFailureLayer o4 else LO_FailureLayer o4)\<rparr>)"

definition mergeProtocolResolvedSlots :: "goAny goMap \<Rightarrow> goAny goMap \<Rightarrow> goAny goMap" where
  "mergeProtocolResolvedSlots base fresh =
     (if fresh = [] then base else fold (\<lambda>(key, v). mapSet key v) fresh base)"

definition protocolResolvedSlotsFromParams :: "TrustedParam goMap \<Rightarrow> goAny goMap" where
  "protocolResolvedSlotsFromParams ps =
     map (\<lambda>(key, param). (key, TP_Value param))
       (filter (\<lambda>(key, param). key \<in> {''date'', ''week'', ''section'', ''user_id'', ''scope'', ''dept_ids'',
                                       ''rule_topic'', ''query_shape''}) ps)"

definition protocolResolvedSlotsFromTrusted :: "trustedEntities \<Rightarrow> goAny goMap" where
  "protocolResolvedSlotsFromTrusted t =
     (if TE_Date t \<noteq> [] then [(''date'', GoString (TE_Date t))] else [])
     @ (if TE_Week t \<noteq> 0 then [(''week'', GoInt (TE_Week t))] else [])
     @ (if TE_Section t \<noteq> 0 then [(''section'', GoInt (TE_Section t))] else [])
     @ (if TE_UserID t \<noteq> 0 then [(''user_id'', GoUint (TE_UserID t))] else [])
     @ (if TE_Scope t \<noteq> [] then [(''scope'', GoString (TE_Scope t))] else [])
     @ (if TE_DeptIDs t \<noteq> [] then [(''dept_ids'', GoInt64s (TE_DeptIDs t))]
        else if TE_DepartmentID t \<noteq> 0 then [(''dept_ids'', GoInt64s [TE_DepartmentID t])] else [])
     @ (if TE_QueryShape t \<noteq> [] then [(''query_shape'', GoString (TE_QueryShape t))] else [])"

section \<open>Help and capabilities\<close>

definition helpLine :: "string \<Rightarrow> string \<Rightarrow> string" where
  "helpLine title description = ''- '' @ title @ zh_help_colon @ description @ [CHR 0x0A]"

text \<open>\<open>listCapabilities\<close>: title, description, least role and conversation scope.\<close>

definition listCapabilities :: "(string \<times> string \<times> int \<times> conversationScope) list" where
  "listCapabilities =
     [(zh_cap_schedule, zh_cap_schedule_text, 0, ConversationScopeBoth),
      (zh_cap_attendance, zh_cap_attendance_text, 0, ConversationScopeBoth),
      (zh_cap_cross, zh_cap_cross_text, 0, ConversationScopeBoth),
      (zh_cap_stats, zh_cap_stats_text, 1, ConversationScopeBoth),
      (zh_cap_sign, zh_cap_sign_text, 1, ConversationScopeBoth),
      (zh_cap_subscription, zh_cap_subscription_text, 1, ConversationScopeGroup)]"

definition filterCapabilities ::
  "(string \<times> string \<times> int \<times> conversationScope) list \<Rightarrow> int \<Rightarrow> string
     \<Rightarrow> (string \<times> string \<times> int \<times> conversationScope) list" where
  "filterCapabilities caps role conversationType =
     filter (\<lambda>(title, description, minRole, scope).
       \<not> role < minRole \<and> matchesConversationScope scope conversationType) caps"

definition directlyUsableCapability :: "CapabilityEntry \<Rightarrow> bool" where
  "directlyUsableCapability entry \<longleftrightarrow>
     (case lookupOperation (OperationScope entry) of
        None \<Rightarrow> False
      | Some manifest \<Rightarrow> (case Capability manifest of None \<Rightarrow> False | Some c \<Rightarrow> DirectlyUsable c))"

definition buildHelpReply :: "UserContext option \<Rightarrow> string" where
  "buildHelpReply uctx =
     (let role = inputUserRole uctx;
          convType = (case uctx of None \<Rightarrow> ''1'' | Some u \<Rightarrow> UC_ConversationType u);
          entries = capabilityEntriesFor \<lparr>Ctx_UserRole = role, Ctx_ConversationType = convType\<rparr>;
          line = (\<lambda>e. helpLine (CE_Title e) (CE_Description e));
          usable = filter directlyUsableCapability entries;
          noneUsable = ''- '' @ zh_nothing_usable @ [CHR 0x0A]
      in trimSpace
           (zh_i_can_help @ [CHR 0x0A]
            @ (if entries = []
               then concat (map (\<lambda>(title, description, _). helpLine title description)
                      (filterCapabilities listCapabilities role convType))
               else concat (map line entries))
            @ [CHR 0x0A] @ zh_usable_here @ [CHR 0x0A]
            @ (if usable = [] then noneUsable else concat (map line usable))))"

definition capabilityOperationForDomain :: "businessDomain \<Rightarrow> string" where
  "capabilityOperationForDomain domain =
     (case find (\<lambda>m. OM_Domain m = domain \<and> Capability m \<noteq> None) operationManifests of
        None \<Rightarrow> [] | Some m \<Rightarrow> OM_Name m)"

definition buildManualSignCapabilityReply :: "UserContext option \<Rightarrow> string" where
  "buildManualSignCapabilityReply uctx =
     (case uctx of
        Some u \<Rightarrow> if 1 \<le> UC_UserRole u then zh_sign_for_admin else zh_sign_for_user
      | None \<Rightarrow> zh_sign_for_user)"

definition buildProtocolCapabilityReply :: "businessDomain \<Rightarrow> UserContext option \<Rightarrow> string" where
  "buildProtocolCapabilityReply domain uctx =
     (case lookupCapability (capabilityOperationForDomain domain) of
        None \<Rightarrow> buildHelpReply uctx
      | Some entry \<Rightarrow>
          if domain = DomainSubscription \<and> userConversationType uctx \<noteq> ''2''
          then zh_subscription_in_group
          else if domain = DomainSubscription \<and> (case uctx of None \<Rightarrow> False | Some u \<Rightarrow> UC_UserRole u < 1)
          then zh_subscription_for_admin
          else if domain = DomainManualSign then buildManualSignCapabilityReply uctx
          else CE_Description entry)"

section \<open>The draft\<close>

definition unknownIntentDraft :: "string \<Rightarrow> ProtocolDraft" where
  "unknownIntentDraft reason =
     \<lparr>Act = ActUnknown, Domain = DomainUnknown, Operation = [], Confidence = 0, Slots = [],
      Reason = reason, DraftParams = [], DraftMissingFields = [], ClarifyReason = reason\<rparr>"

definition draftSlotRaw :: "ProtocolDraft \<Rightarrow> string \<Rightarrow> string" where
  "draftSlotRaw draft field =
     (case map_of (Slots draft) field of None \<Rightarrow> [] | Some slot \<Rightarrow> trimSpace (SD_Raw slot))"

definition draftRawSlotForTarget :: "OperationManifest \<Rightarrow> ProtocolDraft \<Rightarrow> string \<Rightarrow> string" where
  "draftRawSlotForTarget manifest draft target =
     (case find (\<lambda>raw. raw \<noteq> [])
             (map (\<lambda>spec. draftSlotRaw draft (RawName spec))
               (filter (\<lambda>spec. TargetParam spec = target) (RawSlots (Recognition manifest)))) of
        None \<Rightarrow> [] | Some raw \<Rightarrow> raw)"

definition protocolRuleTopic :: "string \<Rightarrow> ProtocolDraft \<Rightarrow> string" where
  "protocolRuleTopic message draft =
     (case lookupOperation (Operation draft) of
        None \<Rightarrow> trimSpace message
      | Some manifest \<Rightarrow>
          let raw = draftRawSlotForTarget manifest draft ''rule_topic'' in
          if raw \<noteq> [] then raw else trimSpace message)"

definition workflowCollectedLabels :: "WorkflowSnapshot \<Rightarrow> string goMap" where
  "workflowCollectedLabels workflow =
     map (\<lambda>(field, entity). (field, trimSpace (Ent_Label entity)))
       (filter (\<lambda>(field, entity). trimSpace (Ent_Label entity) \<noteq> []) (WF_TrustedEntities workflow))"

definition protocolWorkflowContextFromWorkflowSnapshot ::
  "WorkflowSnapshot option \<Rightarrow> protocolWorkflowContext option" where
  "protocolWorkflowContextFromWorkflowSnapshot workflow =
     map_option (\<lambda>w. \<lparr>PW_Type = WF_Type w, PW_State = WF_State w,
       PW_MissingFields = workflowMissingFields w, PW_Candidates = cloneWorkflowCandidates (WF_Candidates w),
       PW_CollectedLabels = workflowCollectedLabels w\<rparr>) workflow"

section \<open>Execution behind the gates\<close>

definition missingOperationParamsResponse :: "string \<Rightarrow> string list \<Rightarrow> ResponseModel" where
  "missingOperationParamsResponse operation missing =
     (response ResponseClarify)\<lparr>RM_Operation := operation, RM_MissingFields := missing\<rparr>"

definition resourceRefusalText :: "string \<Rightarrow> string" where
  "resourceRefusalText reason =
     (if reason = ''subscription_conversation_mismatch'' then zh_this_conversation
      else if reason = ''schedule_user_visibility_denied'' then zh_not_visible
      else if reason = ''department_scope_denied'' then zh_departments_of_tenant
      else if reason = ''group_chat_required'' then zh_group_needed
      else zh_cannot_do)"

definition writeGuardResponseText :: "string \<Rightarrow> string" where
  "writeGuardResponseText reason =
     (if reason = ''write_confirmation_required'' then zh_confirm_write else zh_cannot_do)"

definition preparedWriteResponse :: "string \<Rightarrow> ResponseModel" where
  "preparedWriteResponse operation =
     (if operation = ''subscription.start'' then
        (response ResponseResult)\<lparr>RM_Payload :=
          OperationStatusPayload ''subscription_started'' WriteStatusCreated None\<rparr>
      else if operation = ''subscription.cancel'' then
        (response ResponseResult)\<lparr>RM_Payload :=
          OperationStatusPayload ''subscription_cancelled'' WriteStatusUpdated None\<rparr>
      else refuse zh_write_unsupported)"

type_synonym 'x executor = "OperationRequest \<Rightarrow> 'x \<Rightarrow> OperationExecutionResult \<times> 'x"

definition kindOr :: "responseKind \<Rightarrow> responseKind \<Rightarrow> responseKind" where
  "kindOr kind fallback = (if kind = ResponseUnset then fallback else kind)"

text \<open>The resource gate said no, the write guard said no, and the write is prepared.\<close>

definition deniedOutcome :: "ResourcePolicyGateResult \<Rightarrow> protocolLiveOutcome \<Rightarrow> protocolLiveOutcome" where
  "deniedOutcome resource o0 =
     (setProtocolOutcomeResponse
        ((response (kindOr (RG_ResponseKind resource) ResponseRefuse))
           \<lparr>RM_RefusalReason := resourceRefusalText (RG_BlockedReason resource)\<rparr>) answerModeReject
        (o0\<lparr>LO_ResourcePolicyResult := ''deny:'' @ RG_BlockedReason resource,
            LO_FailureLayer := FailureResourcePolicyDenied\<rparr>))
       \<lparr>LO_BlockedReason := RG_BlockedReason resource\<rparr>"

definition blockedOutcome :: "WriteGuardResult \<Rightarrow> protocolLiveOutcome \<Rightarrow> protocolLiveOutcome" where
  "blockedOutcome guard o0 =
     (setProtocolOutcomeResponse
        ((response (kindOr (WG_ResponseKind guard) ResponseRefuse))
           \<lparr>RM_Message := writeGuardResponseText (WG_BlockedReason guard)\<rparr>) answerModeReject
        (o0\<lparr>LO_WriteGuardResult := ''block:'' @ WG_BlockedReason guard,
            LO_FailureLayer := FailureWriteGuardBlocked\<rparr>))
       \<lparr>LO_BlockedReason := WG_BlockedReason guard\<rparr>"

definition addResolvedParams :: "OperationRequest \<Rightarrow> protocolLiveOutcome \<Rightarrow> protocolLiveOutcome" where
  "addResolvedParams req o0 =
     (if OR_TrustedParams req = [] then o0
      else o0\<lparr>LO_ResolvedSlots := mergeProtocolResolvedSlots (LO_ResolvedSlots o0)
                (protocolResolvedSlotsFromParams (OR_TrustedParams req))\<rparr>)"

definition prepareWrite :: "OperationRequest \<Rightarrow> protocolLiveOutcome \<Rightarrow> protocolLiveOutcome" where
  "prepareWrite req o0 =
     (let o1 = o0\<lparr>LO_WriteGuardResult := ''allow''\<rparr> in
      case subscriptionBusinessKeyForRequest req of
        Inl e \<Rightarrow>
          setProtocolOutcomeResponse ((response ResponseRefuse)\<lparr>RM_Message := zh_bad_write\<rparr>) answerModeReject
            (o1\<lparr>LO_FailureLayer := FailureWriteGuardBlocked,
                LO_WriteGuardResult := ''block:invalid_business_key'',
                LO_BlockedReason := ''invalid_business_key''\<rparr>)
      | Inr key \<Rightarrow>
          let req' = req\<lparr>OR_IdempotencyKey := key\<rparr>;
              o2 = setProtocolOutcomeResponse (preparedWriteResponse (OR_Operation req')) answerModeToolFirst
                (o1\<lparr>LO_IdempotencyKey := key,
                    LO_PreparedWrite := Some \<lparr>WX_Request = req', WX_BusinessKey = key,
                                             WX_ClearWorkflowOnSuccess = False\<rparr>\<rparr>)
          in addResolvedParams req' (o2\<lparr>LO_ExecutorStatus := ''prepared''\<rparr>))"

definition runOperation ::
  "'x executor \<Rightarrow> OperationRequest \<Rightarrow> protocolLiveOutcome \<Rightarrow> 'x \<Rightarrow> protocolLiveOutcome \<times> 'x" where
  "runOperation run req o0 x =
     (let o1 = (if LO_WriteGuardResult o0 = [] then o0\<lparr>LO_WriteGuardResult := ''not_required''\<rparr> else o0)
      in (case run req x of (result, x') \<Rightarrow>
            ((addResolvedParams req
                (setProtocolOutcomeResponse (ER_Response result) (EM_AnswerMode (ER_Metrics result)) o1))
              \<lparr>LO_ExecutionMetrics := Some (ER_Metrics result),
               LO_ExecutorStatus := protocolExecutorStatus (ER_Response result)\<rparr>, x')))"

definition guardWrite ::
  "UserContext option \<Rightarrow> OperationManifest \<Rightarrow> OperationRequest \<Rightarrow> protocolLiveOutcome \<Rightarrow> protocolLiveOutcome" where
  "guardWrite uctx manifest req o0 =
     (let guard = writeGuard_Check \<lparr>WG_User = uctx, WG_Manifest = Some manifest, WG_Request = req,
                    WG_Workflow = LO_WorkflowAfter o0, WG_Confirmed = False\<rparr>;
          o1 = o0\<lparr>LO_IdempotencyKey := WG_IdempotencyKey guard\<rparr>
      in if \<not> WG_Allow guard then blockedOutcome guard o1
         else prepareWrite (req\<lparr>OR_IdempotencyKey := WG_IdempotencyKey guard\<rparr>) o1)"

definition pipeline_execute ::
  "'x executor \<Rightarrow> (string + DeptItem list) option \<Rightarrow> UserContext option \<Rightarrow> OperationRequest
     \<Rightarrow> protocolLiveOutcome \<Rightarrow> 'x \<Rightarrow> protocolLiveOutcome \<times> 'x" where
  "pipeline_execute run dept uctx req0 o0 x =
     (let req = enrichOperationRequestFromUser req0 uctx;
          resource = resourcePolicyGate_Validate \<lparr>RG_User = uctx, RG_Request = req, RG_Dept = dept\<rparr>;
          o1 = o0\<lparr>LO_ResourcePolicyResult := ''allow''\<rparr> in
      if \<not> RG_Allow resource then (deniedOutcome resource o0, x)
      else (case lookupOperation (OR_Operation req) of
              Some manifest \<Rightarrow>
                if IsWrite manifest then (guardWrite uctx manifest req o1, x) else runOperation run req o1 x
            | None \<Rightarrow> runOperation run req o1 x))"

section \<open>Guardrails\<close>

text \<open>\<^const>\<open>Some\<close> is \<open>blocked = true\<close>.\<close>

definition protocolLiveRoleRefusal :: "UserContext option \<Rightarrow> ProtocolDraft \<Rightarrow> ResponseModel option" where
  "protocolLiveRoleRefusal uctx draft =
     (if Act draft = ActWorkflowCancel then None
      else (case lookupOperation (Operation draft) of
        None \<Rightarrow> None
      | Some metadata \<Rightarrow>
          if MinRole metadata \<le> 0 then None
          else if uctx \<noteq> None \<and> MinRole metadata \<le> inputUserRole uctx then None
          else Some (refuse zh_needs_admin)))"

definition protocolUnknownIntentReasonCode :: "ProtocolDraft \<Rightarrow> string" where
  "protocolUnknownIntentReasonCode draft =
     (let reason = firstNonEmpty [ClarifyReason draft, Reason draft] in
      if reason \<in> {''empty_message'', ''intent_parse_failed'', ''intent_timeout'',
                    ''intent_compiler_unavailable'', ''operation_not_allowed''}
      then reason else ''unknown_intent'')"

definition protocolLiveGuardrailResponse ::
  "ProtocolDraft \<Rightarrow> ProtocolValidationResult \<Rightarrow> UserContext option \<Rightarrow> ResponseModel \<times> answerMode" where
  "protocolLiveGuardrailResponse draft validation uctx =
     (case Act draft of
        ActCapabilityQuestion \<Rightarrow>
          ((response ResponseAnswer)\<lparr>RM_Answer := buildProtocolCapabilityReply (Domain draft) uctx\<rparr>,
           answerModeToolFirst)
      | ActHelp \<Rightarrow>
          ((response ResponseAnswer)\<lparr>RM_Answer := buildHelpReply uctx\<rparr>, answerModeToolFirst)
      | ActUnknown \<Rightarrow> (clarify (protocolUnknownIntentReasonCode draft), answerModeReject)
      | _ \<Rightarrow>
          (let code = ValidationCode validation in
           (if code = ''conversation_scope_denied'' then
              refuse (if Domain draft = DomainSubscription then zh_group_only else zh_cannot_do)
            else if code \<in> {''operation_not_allowed'', ''act_operation_mismatch'',
                ''read_query_cannot_write'', ''unsupported_act'', ''domain_operation_mismatch'',
                ''workflow_operation_mismatch'', ''role_denied''} then refuse zh_cannot_do
            else clarify ''unknown_intent'', answerModeReject)))"

definition guarded ::
  "ProtocolDraft \<Rightarrow> UserContext option \<Rightarrow> protocolLiveOutcome \<Rightarrow> protocolLiveOutcome" where
  "guarded draft uctx o0 =
     (case protocolLiveGuardrailResponse draft (LO_Validation o0) uctx of
        (r, mode) \<Rightarrow> setProtocolOutcomeResponse r mode o0)"

definition protocolPrimaryDispatchAllowed :: "ProtocolValidationResult \<Rightarrow> bool" where
  "protocolPrimaryDispatchAllowed validation \<longleftrightarrow>
     AllowExecution validation
     \<or> UseActiveWorkflow validation \<and> VR_ResponseKind validation = ResponseResult
     \<or> VR_ResponseKind validation = ResponseAnswer"

definition workflowResultTerminal :: "WorkflowResult \<Rightarrow> bool" where
  "workflowResultTerminal result \<longleftrightarrow>
     WR_Decision result \<in> {WorkflowCompletedDecision, WorkflowCanceled, WorkflowInterrupted}
     \<or> (case WR_Workflow result of
          None \<Rightarrow> False
        | Some w \<Rightarrow> WF_State w \<in> {WorkflowCompleted, WorkflowCancelled, WorkflowInterruptedState})"

end
