(* ===== verification/EntityResolver.thy ===== *)
theory EntityResolver
  imports ResourceGate WeekUtil
begin

text \<open>
  What a word of the user stands for (src/internal/agent/entity\_resolver.go,
  candidate\_resolver.go): dates, weeks, sections, users and departments, and the choice from a
  list that was shown. Names are compared after \<open>normalizeEntityName\<close>. The theory proves that a
  resolved department or user is the only match and of the tenant of the conversation.
\<close>

section \<open>Texts\<close>

definition trimPrefix :: "string \<Rightarrow> string \<Rightarrow> string" where
  "trimPrefix s pre = (if hasPrefix s pre then drop (length pre) s else s)"

definition trimSuffix :: "string \<Rightarrow> string \<Rightarrow> string" where
  "trimSuffix s suf = (if hasSuffix s suf then take (length s - length suf) s else s)"

text \<open>\<open>strings.NewReplacer\<close> with empty replacements.\<close>

function removeAll :: "string list \<Rightarrow> string \<Rightarrow> string" where
  "removeAll olds s =
     (case s of
        [] \<Rightarrow> []
      | c # rest \<Rightarrow>
          (case find (\<lambda>old. old \<noteq> [] \<and> hasPrefix s old) olds of
             Some old \<Rightarrow> removeAll olds (drop (length old) s)
           | None \<Rightarrow> c # removeAll olds rest))"
  by pat_completeness auto
termination
  by (relation "measure (length \<circ> snd)") (auto simp: find_Some_iff)

declare removeAll.simps [simp del]

text \<open>\<open>strings.ToLower\<close>; \<open>lower\<close> is the table of \<open>unicode.ToLower\<close> beyond ASCII.\<close>

definition runeText :: "nat \<times> bool \<times> string \<Rightarrow> string" where
  "runeText chunk = (case chunk of (r, ok, bytes) \<Rightarrow> if ok then bytes else encode_rune rune_error)"

definition lowerChunk :: "(nat \<Rightarrow> nat) \<Rightarrow> nat \<times> bool \<times> string \<Rightarrow> string" where
  "lowerChunk lower chunk =
     (case chunk of
        (r, ok, bytes) \<Rightarrow>
          if 65 \<le> r \<and> r \<le> 90 then [char_of (r + 32)]
          else if r < 128 \<or> \<not> ok \<or> lower r = r then runeText chunk
          else encode_rune (lower r))"

definition toLower :: "(nat \<Rightarrow> nat) \<Rightarrow> string \<Rightarrow> string" where
  "toLower lower s = concat (map (lowerChunk lower) (rune_chunks s))"

text \<open>\<open>normalizeQuery\<close> (query\_router.go).\<close>

definition normalizeQuery :: "(nat \<Rightarrow> nat) \<Rightarrow> string \<Rightarrow> string" where
  "normalizeQuery lower question =
     toLower lower (removeAll
       ([[CHR '' ''], [CHR 0x09], [CHR 0x0A], [CHR 0x0D], utf8 [65292], utf8 [12290], utf8 [65311],
         utf8 [65281], [CHR '',''], [CHR ''.''], [CHR ''?''], [CHR ''!'']]) (trimSpace question))"

definition containsAny :: "string \<Rightarrow> string list \<Rightarrow> bool" where
  "containsAny question keywords = list_ex (contains question) keywords"

text \<open>\<open>strconv.Atoi\<close> with its error (\<^const>\<open>None\<close>).\<close>

definition atoiOk :: "string \<Rightarrow> int option" where
  "atoiOk s =
     (let ds = (case s of c # rest \<Rightarrow> if c = CHR ''-'' \<or> c = CHR ''+'' then rest else s | [] \<Rightarrow> []);
          n = (if hasPrefix s ''-'' then - digits_val ds else digits_val ds) in
      if ds \<noteq> [] \<and> list_all isDigit ds \<and> minInt64 \<le> n \<and> n \<le> maxInt64 then Some n else None)"

section \<open>Chinese numbers\<close>

text \<open>The digits from one to nine, and ten.\<close>

definition chineseDigit :: "nat \<Rightarrow> int option" where
  "chineseDigit r =
     map_of (zip [19968, 20108, 19977, 22235, 20116, 20845, 19971, 20843, 20061]
                 [1, 2, 3, 4, 5, 6, 7, 8, 9]) r"

definition zh_ten :: string where
  "zh_ten = utf8 [21313]"

definition isChineseNumberRune :: "nat \<Rightarrow> bool" where
  "isChineseNumberRune r \<longleftrightarrow> chineseDigit r \<noteq> None \<or> r = 21313"

text \<open>\<open>strings.Split(value, "\<dots>")\<close> for a separator that is not empty.\<close>

function splitText :: "string \<Rightarrow> string \<Rightarrow> string list" where
  "splitText sep s =
     (case s of
        [] \<Rightarrow> [[]]
      | c # rest \<Rightarrow>
          if sep \<noteq> [] \<and> hasPrefix s sep then [] # splitText sep (drop (length sep) s)
          else (case splitText sep rest of
                  [] \<Rightarrow> [[c]]
                | p # ps \<Rightarrow> (c # p) # ps))"
  by pat_completeness auto
termination
  by (relation "measure (length \<circ> snd)") auto

declare splitText.simps [simp del]

text \<open>The value of a part: \<open>fallback\<close> when it is empty, else that of its first rune.\<close>

definition chinesePart :: "int \<Rightarrow> string \<Rightarrow> int option" where
  "chinesePart fallback part =
     (if part = [] then Some fallback else chineseDigit (fst (decodeRune part)))"

definition parseChinesePositiveInt :: "string \<Rightarrow> int option" where
  "parseChinesePositiveInt s =
     (if s = zh_ten then Some 10
      else if runeCountInString s = 1 then chineseDigit (fst (decodeRune s))
      else (case splitText zh_ten s of
              [p, q] \<Rightarrow>
                (case (chinesePart 1 p, chinesePart 0 q) of
                   (Some tens, Some ones) \<Rightarrow> if 0 < tens * 10 + ones then Some (tens * 10 + ones) else None
                 | _ \<Rightarrow> None)
            | _ \<Rightarrow> None))"

text \<open>\<open>normalizeChineseNumberRuns\<close>: each maximal run of number runes becomes its decimal number.\<close>

function normalizeRuns :: "(nat \<times> bool \<times> string) list \<Rightarrow> string" where
  "normalizeRuns cs =
     (case cs of
        [] \<Rightarrow> []
      | c # rest \<Rightarrow>
          if \<not> isChineseNumberRune (fst c) then runeText c @ normalizeRuns rest
          else let token = concat (map runeText (takeWhile (\<lambda>c. isChineseNumberRune (fst c)) cs));
                   others = dropWhile (\<lambda>c. isChineseNumberRune (fst c)) cs in
               (case parseChinesePositiveInt token of Some n \<Rightarrow> itoa n | None \<Rightarrow> token)
               @ normalizeRuns others)"
  by pat_completeness auto
termination
  by (relation "measure length") (auto simp: le_imp_less_Suc length_dropWhile_le)

declare normalizeRuns.simps [simp del]

definition normalizeEntityName :: "string \<Rightarrow> string" where
  "normalizeEntityName s =
     normalizeRuns (rune_chunks (removeAll [[CHR '' ''], [CHR 0x09], [CHR 0x0A], ''-'', ''_''] (trimSpace s)))"

section \<open>Dates, weeks and sections\<close>

datatype resolveStatus = ResolveResolved | ResolveAmbiguous | ResolveNotFound | ResolveInvalidShape

record EntityCandidate =
  EC_ID :: string
  EC_Label :: string
  EC_Value :: goAny
  EC_TenantID :: nat
  EC_Source :: TrustedParamSource

record EntityResolveContext =
  RC_TenantID :: nat
  RC_Field :: string
  RC_Raw :: string
  RC_Source :: sourceKind

definition resolveContext :: "nat \<Rightarrow> EntityResolveContext" where
  "resolveContext tenantID =
     \<lparr>RC_TenantID = tenantID, RC_Field = [], RC_Raw = [], RC_Source = SourceUnset\<rparr>"

definition contextRawSlot :: "string \<Rightarrow> string \<Rightarrow> EntityResolveContext \<Rightarrow> EntityResolveContext" where
  "contextRawSlot field raw ctx =
     ctx\<lparr>RC_Field := field, RC_Raw := trimSpace raw, RC_Source := TrustedParamSourceRawSlot\<rparr>"

definition contextDefault :: "string \<Rightarrow> EntityResolveContext \<Rightarrow> EntityResolveContext" where
  "contextDefault field ctx = ctx\<lparr>RC_Field := field, RC_Raw := [], RC_Source := TrustedParamSourceDefault\<rparr>"

definition rawForTrustedSource :: "sourceKind \<Rightarrow> string \<Rightarrow> string" where
  "rawForTrustedSource source raw =
     (if source = TrustedParamSourceRawSlot \<or> source = TrustedParamSourceCandidate then raw else [])"

definition trustedParamFromContext ::
  "EntityResolveContext \<Rightarrow> string \<Rightarrow> goAny \<Rightarrow> string \<Rightarrow> TrustedParam" where
  "trustedParamFromContext ctx field v resolver =
     (let source = (if RC_Source ctx = SourceUnset then TrustedParamSourceRawSlot else RC_Source ctx) in
      trustedParam field v (RC_TenantID ctx)
        \<lparr>SourceKind = source, SourceRaw = rawForTrustedSource source (RC_Raw ctx), Resolver = resolver\<rparr>)"

text \<open>A \<open>ResolveResult\<close>: a value with its parameter, candidates, or a reason. \<open>Values\<close> repeats
  them and is left out.\<close>

datatype resolveResult =
    Resolved goAny TrustedParam
  | Ambiguous "EntityCandidate list"
  | Unresolved resolveStatus string

definition zh_today :: string where "zh_today = utf8 [20170, 22825]"
definition zh_yesterday :: string where "zh_yesterday = utf8 [26152, 22825]"
definition zh_tomorrow :: string where "zh_tomorrow = utf8 [26126, 22825]"
definition zh_this_week :: string where "zh_this_week = utf8 [26412, 21608]"
definition zh_the_week :: string where "zh_the_week = utf8 [36825, 21608]"
definition zh_next_week :: string where "zh_next_week = utf8 [19979, 21608]"
definition zh_this_section :: string where "zh_this_section = utf8 [26412, 33410]"
definition zh_number :: string where "zh_number = utf8 [31532]"
definition zh_week_suffix :: string where "zh_week_suffix = utf8 [21608]"
definition zh_section_suffix :: string where "zh_section_suffix = utf8 [33410]"

definition resolveDateWithClock :: "int \<Rightarrow> string \<Rightarrow> instant \<Rightarrow> string option" where
  "resolveDateWithClock tz raw now =
     (let v = trimSpace raw in
      if v = [] then None
      else if v = zh_today then Some (formatDate tz now)
      else if v = zh_yesterday then Some (formatDate tz (addDays now (- 1)))
      else if v = zh_tomorrow then Some (formatDate tz (addDays now 1))
      else if parseDay v = None then None else Some v)"

definition resolveDateParam ::
  "int \<Rightarrow> EntityResolveContext \<Rightarrow> slotDefault \<Rightarrow> instant \<Rightarrow> resolveResult" where
  "resolveDateParam tz ctx fallback now =
     (let found = (\<lambda>day. Resolved (GoString day) (trustedParamFromContext ctx ''date'' (GoString day) ''date_slot''))
      in if trimSpace (RC_Raw ctx) = [] then
           (if fallback = SlotDefaultToday then found (formatDate tz now)
            else Unresolved ResolveNotFound ''missing_date'')
         else (case resolveDateWithClock tz (trimSpace (RC_Raw ctx)) now of
                 None \<Rightarrow> Unresolved ResolveInvalidShape ''invalid_date''
               | Some day \<Rightarrow> found day))"

definition parseWeekNumber :: "string \<Rightarrow> int option" where
  "parseWeekNumber raw =
     (case atoiOk (trimSuffix (trimPrefix (trimSpace raw) zh_number) zh_week_suffix) of
        Some week \<Rightarrow> if week \<le> 0 then None else Some week | None \<Rightarrow> None)"

text \<open>\<open>semester\<close> is the answer of \<open>GetCurrentWeek\<close>: the week and the number of weeks, or an error
  (\<^const>\<open>None\<close> outside: no provider).\<close>

definition currentWeekOf :: "string \<Rightarrow> (string + int \<times> int) option \<Rightarrow> string + int" where
  "currentWeekOf raw semester =
     (case semester of
        None \<Rightarrow> Inl ''missing_semester_provider''
      | Some (Inl e) \<Rightarrow> Inl ''current_week_unavailable''
      | Some (Inr (week, totalWeeks)) \<Rightarrow>
          if week \<le> 0 then Inl ''current_week_unavailable''
          else if raw = zh_next_week then
            (if 0 < totalWeeks \<and> totalWeeks < week + 1 then Inl ''next_week_unavailable'' else Inr (week + 1))
          else Inr week)"

definition resolveWeekParam ::
  "EntityResolveContext \<Rightarrow> slotDefault \<Rightarrow> (string + int \<times> int) option \<Rightarrow> resolveResult" where
  "resolveWeekParam ctx fallback semester =
     (let raw = trimSpace (RC_Raw ctx);
          found = (\<lambda>week. Resolved (GoInt week) (trustedParamFromContext ctx ''week'' (GoInt week) ''week_slot''))
      in if raw \<in> {[], zh_this_week, zh_the_week, zh_next_week} then
           (if fallback \<noteq> SlotDefaultCurrentWeek \<and> raw = [] then Unresolved ResolveNotFound ''missing_week''
            else (case currentWeekOf raw semester of
                    Inl reason \<Rightarrow> Unresolved ResolveNotFound reason
                  | Inr week \<Rightarrow> found week))
         else (case parseWeekNumber raw of
                 None \<Rightarrow> Unresolved ResolveInvalidShape ''invalid_week''
               | Some week \<Rightarrow> found week))"

definition parseSectionNumber :: "string \<Rightarrow> int option" where
  "parseSectionNumber raw =
     (let v = trimSuffix (trimPrefix (trimSpace raw) zh_number) zh_section_suffix in
      case atoiOk v of
        Some section' \<Rightarrow> if 0 < section' then Some section' else parseChinesePositiveInt v
      | None \<Rightarrow> parseChinesePositiveInt v)"

text \<open>\<open>currentSection\<close>: the first period that contains the moment; times that do not parse are skipped.\<close>

record PeriodInfo =
  PE_Name :: string
  PE_Start :: string
  PE_End :: string

definition clockTimeOnDate :: "int \<Rightarrow> instant \<Rightarrow> string \<Rightarrow> instant option" where
  "clockTimeOnDate tz base s = map_option (\<lambda>(h, m). atClock tz base h m) (parseClock (trimSpace s))"

fun currentSectionFrom :: "int \<Rightarrow> nat \<Rightarrow> PeriodInfo list \<Rightarrow> instant \<Rightarrow> int option" where
  "currentSectionFrom tz idx [] now = None"
| "currentSectionFrom tz idx (p # ps) now =
     (case (clockTimeOnDate tz now (PE_Start p), clockTimeOnDate tz now (PE_End p)) of
        (Some start, Some stop) \<Rightarrow>
          if start \<le> now \<and> now \<le> stop then Some (int idx + 1) else currentSectionFrom tz (idx + 1) ps now
      | _ \<Rightarrow> currentSectionFrom tz (idx + 1) ps now)"

definition currentSection :: "int \<Rightarrow> PeriodInfo list \<Rightarrow> instant \<Rightarrow> int option" where
  "currentSection tz periods now = currentSectionFrom tz 0 periods now"

definition resolveSectionParam ::
  "int \<Rightarrow> EntityResolveContext \<Rightarrow> PeriodInfo list \<Rightarrow> instant \<Rightarrow> resolveResult" where
  "resolveSectionParam tz ctx periods now =
     (let raw = trimSpace (RC_Raw ctx);
          found = (\<lambda>n. Resolved (GoInt n) (trustedParamFromContext ctx ''section'' (GoInt n) ''section_slot''))
      in if raw = [] then Unresolved ResolveNotFound ''missing_section''
         else if raw = zh_this_section then
           (case currentSection tz periods now of
              None \<Rightarrow> Unresolved ResolveNotFound ''current_section_unavailable''
            | Some n \<Rightarrow> found n)
         else (case parseSectionNumber raw of
                 None \<Rightarrow> Unresolved ResolveInvalidShape ''invalid_section''
               | Some n \<Rightarrow> found n))"

section \<open>Users and departments\<close>

text \<open>\<open>SearchByName\<close> returns \<open>UserInfo\<close>.\<close>

record UserInfo =
  UI_ID :: nat
  UI_Name :: string
  UI_Role :: int
  UI_TenantID :: nat

text \<open>Words that make a text a question and not a name: function, a question particle, query,
  execute, may, can, cannot.\<close>

definition entityMarkers :: "string list" where
  "entityMarkers = map utf8
     [[21151, 33021], [21527], [26597, 35810], [25191, 34892], [21487, 20197], [33021, 21542], [33021, 19981, 33021]]"

definition looksLikeEntityInput :: "string \<Rightarrow> bool" where
  "looksLikeEntityInput raw \<longleftrightarrow> trimSpace raw \<noteq> [] \<and> \<not> containsAny raw entityMarkers"

definition filterUsersByTenant :: "UserInfo list \<Rightarrow> nat \<Rightarrow> UserInfo list" where
  "filterUsersByTenant users tenantID =
     (if tenantID = 0 then users else filter (\<lambda>u. UI_TenantID u = tenantID) users)"

definition filterDepartmentsByTenant :: "DeptItem list \<Rightarrow> nat \<Rightarrow> DeptItem list" where
  "filterDepartmentsByTenant departments tenantID =
     (if tenantID = 0 then departments else filter (\<lambda>d. DI_TenantID d = tenantID) departments)"

text \<open>The words that introduce a choice (\<open>entityNameVariants\<close>), and the word department.\<close>

definition choicePrefixes :: "string list" where
  "choicePrefixes = map utf8 [[23601, 36873], [36873, 25321], [36873], [23601], [35201]]"

definition zh_department :: string where
  "zh_department = utf8 [37096, 38376]"

definition addVariant :: "string \<Rightarrow> string list \<Rightarrow> string list" where
  "addVariant variant variants =
     (if variant \<noteq> [] \<and> variant \<notin> set variants then variants @ [variant] else variants)"

definition entityNameVariants :: "string \<Rightarrow> string list" where
  "entityNameVariants s =
     (let base = normalizeEntityName s in
      if base = [] then []
      else fold (\<lambda>pre variants.
             if hasPrefix base pre \<and> length pre < length base
             then addVariant (trimPrefix base pre) variants else variants) choicePrefixes [base])"

definition departmentAlias :: "string \<Rightarrow> string list \<Rightarrow> string list" where
  "departmentAlias variant aliases =
     (let short = trimSuffix variant zh_department in
      if short \<noteq> variant then addVariant short aliases else aliases)"

definition departmentNameVariants :: "string \<Rightarrow> string list" where
  "departmentNameVariants s =
     (let variants = entityNameVariants s in fold departmentAlias variants variants)"

definition exactDepartmentMatches :: "string \<Rightarrow> DeptItem list \<Rightarrow> DeptItem list" where
  "exactDepartmentMatches raw departments = filter (\<lambda>d. trimSpace (DI_Name d) = raw) departments"

definition departmentMatchesForVariants :: "string list \<Rightarrow> DeptItem list \<Rightarrow> DeptItem list" where
  "departmentMatchesForVariants variants departments =
     filter (\<lambda>d. normalizeEntityName (DI_Name d) \<in> set variants) departments"

definition normalizedDepartmentMatches :: "string \<Rightarrow> DeptItem list \<Rightarrow> DeptItem list" where
  "normalizedDepartmentMatches raw departments =
     (let variants = entityNameVariants raw; matches = departmentMatchesForVariants variants departments in
      if matches \<noteq> [] then matches
      else departmentMatchesForVariants (fold departmentAlias variants []) departments)"

definition containsDepartmentVariant :: "string \<Rightarrow> string \<Rightarrow> bool" where
  "containsDepartmentVariant normalizedName raw =
     list_ex (\<lambda>variant. variant \<noteq> [] \<and> contains normalizedName variant) (departmentNameVariants raw)"

definition departmentCandidates :: "string \<Rightarrow> DeptItem list \<Rightarrow> DeptItem list" where
  "departmentCandidates raw departments =
     filter (\<lambda>d. containsDepartmentVariant (normalizeEntityName (DI_Name d)) raw) departments"

definition contextField :: "EntityResolveContext \<Rightarrow> string \<Rightarrow> string" where
  "contextField ctx fallback =
     (if trimSpace (RC_Field ctx) \<noteq> [] then trimSpace (RC_Field ctx) else trimSpace fallback)"

definition departmentEntity :: "EntityResolveContext \<Rightarrow> DeptItem \<Rightarrow> EntityCandidate" where
  "departmentEntity ctx d =
     \<lparr>EC_ID = itoa (DI_DeptID d), EC_Label = DI_Name d, EC_Value = GoInt64 (DI_DeptID d),
      EC_TenantID = DI_TenantID d,
      EC_Source = \<lparr>SourceKind = TrustedParamSourceRawSlot, SourceRaw = RC_Raw ctx,
                   Resolver = ''department_resolver''\<rparr>\<rparr>"

definition departmentSlotResolution :: "EntityResolveContext \<Rightarrow> DeptItem list \<Rightarrow> resolveResult" where
  "departmentSlotResolution ctx matches =
     (case matches of
        [] \<Rightarrow> Unresolved ResolveNotFound ''department_not_found''
      | [d] \<Rightarrow>
          let deptIDs = GoInt64s [DI_DeptID d] in
          Resolved deptIDs (trustedParamFromContext ctx (contextField ctx ''dept_ids'') deptIDs ''department_resolver'')
      | _ \<Rightarrow> Ambiguous (map (departmentEntity ctx) matches))"

definition resolveDepartmentParam :: "EntityResolveContext \<Rightarrow> DeptItem list \<Rightarrow> resolveResult" where
  "resolveDepartmentParam ctx allDepartments =
     (let raw = trimSpace (RC_Raw ctx);
          departments = filterDepartmentsByTenant allDepartments (RC_TenantID ctx);
          exact = exactDepartmentMatches raw departments;
          normalized = normalizedDepartmentMatches raw departments in
      if \<not> looksLikeEntityInput raw then Unresolved ResolveInvalidShape ''invalid_department_shape''
      else if exact \<noteq> [] then departmentSlotResolution ctx exact
      else if normalized \<noteq> [] then departmentSlotResolution ctx normalized
      else departmentSlotResolution ctx (departmentCandidates raw departments))"

definition userEntity :: "EntityResolveContext \<Rightarrow> UserInfo \<Rightarrow> EntityCandidate" where
  "userEntity ctx u =
     \<lparr>EC_ID = nat_digits (UI_ID u), EC_Label = UI_Name u, EC_Value = GoUint (UI_ID u),
      EC_TenantID = UI_TenantID u,
      EC_Source = \<lparr>SourceKind = TrustedParamSourceRawSlot, SourceRaw = RC_Raw ctx,
                   Resolver = ''user_resolver''\<rparr>\<rparr>"

definition userSlotResolution :: "EntityResolveContext \<Rightarrow> UserInfo list \<Rightarrow> resolveResult" where
  "userSlotResolution ctx matches =
     (case matches of
        [] \<Rightarrow> Unresolved ResolveNotFound ''user_not_found''
      | [u] \<Rightarrow> Resolved (GoUint (UI_ID u))
          (trustedParamFromContext ctx (contextField ctx ''user_id'') (GoUint (UI_ID u)) ''user_resolver'')
      | _ \<Rightarrow> Ambiguous (map (userEntity ctx) matches))"

definition resolveUserParam :: "EntityResolveContext \<Rightarrow> UserInfo list \<Rightarrow> resolveResult" where
  "resolveUserParam ctx allUsers =
     (let raw = trimSpace (RC_Raw ctx);
          users = filterUsersByTenant allUsers (RC_TenantID ctx);
          exact = filter (\<lambda>u. trimSpace (UI_Name u) = raw) users in
      if \<not> looksLikeEntityInput raw then Unresolved ResolveInvalidShape ''invalid_user_shape''
      else if exact \<noteq> [] then userSlotResolution ctx exact
      else userSlotResolution ctx
             (filter (\<lambda>u. contains (normalizeEntityName (UI_Name u)) (normalizeEntityName raw)) users))"

section \<open>A choice from a list that was shown\<close>

text \<open>The words choose and number in front, and the counters behind.\<close>

definition parseCandidateOrdinal :: "(nat \<Rightarrow> nat) \<Rightarrow> string \<Rightarrow> int option" where
  "parseCandidateOrdinal lower message =
     (let n = trimSuffix (trimSuffix (trimSuffix
                (trimPrefix (trimPrefix (trimPrefix (normalizeQuery lower message)
                   (utf8 [36873, 25321])) (utf8 [36873])) zh_number)
                (utf8 [20010])) (utf8 [39033])) (utf8 [21495]) in
      if n = [] then None
      else (case atoiOk n of
              Some v \<Rightarrow> if 0 < v then Some v else parseChinesePositiveInt n
            | None \<Rightarrow> parseChinesePositiveInt n))"

text \<open>The separators of a rendered line: full stop, enumeration comma, the two colons, bracket.\<close>

definition renderedSeparator :: "nat \<Rightarrow> bool" where
  "renderedSeparator r \<longleftrightarrow> r \<in> {46, 12289, 58, 65306, 41}"

definition parseRenderedCandidateSelection :: "(nat \<Rightarrow> nat) \<Rightarrow> string \<Rightarrow> (int \<times> string) option" where
  "parseRenderedCandidateSelection lower message =
     (let chunks = rune_chunks (trimSpace message);
          head = takeWhile (\<lambda>c. \<not> renderedSeparator (fst c)) chunks;
          text_of = (\<lambda>cs. concat (map (\<lambda>c. snd (snd c)) cs)) in
      case dropWhile (\<lambda>c. \<not> renderedSeparator (fst c)) chunks of
        [] \<Rightarrow> None
      | sep # behind \<Rightarrow>
          map_option (\<lambda>ordinal. (ordinal, trimSpace (text_of behind)))
            (parseCandidateOrdinal lower (trimSpace (text_of head))))"

text \<open>\<open>CandidateSelectionResult\<close>: the reason is for the log; \<^const>\<open>None\<close> is not handled, \<^const>\<open>Inl\<close>
  handled and refused.\<close>

type_synonym candidateSelection = "(string + Candidate) option"

definition validateCandidateTenant :: "Candidate \<Rightarrow> nat \<Rightarrow> candidateSelection" where
  "validateCandidateTenant candidate tenantID =
     (if tenantID \<noteq> 0 \<and> Cand_TenantID candidate \<noteq> tenantID then Some (Inl ''candidate_tenant_mismatch'')
      else Some (Inr candidate))"

definition labelIndex :: "Candidate list \<Rightarrow> string \<Rightarrow> nat option" where
  "labelIndex candidates variant =
     find (\<lambda>i. normalizeEntityName (Cand_Label (candidates ! i)) = variant) [0..<length candidates]"

fun firstSome :: "('a \<Rightarrow> 'b option) \<Rightarrow> 'a list \<Rightarrow> 'b option" where
  "firstSome f [] = None"
| "firstSome f (x # xs) = (case f x of None \<Rightarrow> firstSome f xs | Some y \<Rightarrow> Some y)"

definition fullLabelIndex :: "string \<Rightarrow> Candidate list \<Rightarrow> nat option" where
  "fullLabelIndex message candidates = firstSome (labelIndex candidates) (entityNameVariants message)"

text \<open>\<open>candidates[ordinal-1]\<close>; an ordinal is positive.\<close>

definition candidateAt :: "Candidate list \<Rightarrow> int \<Rightarrow> Candidate" where
  "candidateAt candidates ordinal = candidates ! nat (ordinal - 1)"

definition renderedSelection ::
  "int \<Rightarrow> string \<Rightarrow> nat option \<Rightarrow> nat \<Rightarrow> Candidate list \<Rightarrow> candidateSelection" where
  "renderedSelection ordinal label full tenantID candidates =
     (let candidate = candidateAt candidates ordinal in
      if int (length candidates) < ordinal then
        (case full of
           Some i \<Rightarrow> validateCandidateTenant (candidates ! i) tenantID
         | None \<Rightarrow> Some (Inl ''candidate_ordinal_out_of_range''))
      else (case full of
              Some i \<Rightarrow>
                if int i \<noteq> ordinal - 1 then Some (Inl ''candidate_ordinal_label_mismatch'')
                else validateCandidateTenant candidate tenantID
            | None \<Rightarrow>
                if label \<noteq> [] \<and> normalizeEntityName (Cand_Label candidate) \<notin> set (entityNameVariants label)
                then Some (Inl ''candidate_ordinal_label_mismatch'')
                else validateCandidateTenant candidate tenantID))"

definition resolveCandidateSelection ::
  "(nat \<Rightarrow> nat) \<Rightarrow> string \<Rightarrow> nat \<Rightarrow> Candidate list \<Rightarrow> candidateSelection" where
  "resolveCandidateSelection lower message tenantID candidates =
     (let full = fullLabelIndex message candidates in
      case parseRenderedCandidateSelection lower message of
        Some (ordinal, label) \<Rightarrow> renderedSelection ordinal label full tenantID candidates
      | None \<Rightarrow>
          (case parseCandidateOrdinal lower message of
             Some ordinal \<Rightarrow>
               if int (length candidates) < ordinal then Some (Inl ''candidate_ordinal_out_of_range'')
               else validateCandidateTenant (candidateAt candidates ordinal) tenantID
           | None \<Rightarrow>
               (case full of
                  Some i \<Rightarrow> validateCandidateTenant (candidates ! i) tenantID
                | None \<Rightarrow> None)))"

section \<open>What a resolved name is\<close>

text \<open>The departments that match in the first of the three tiers that has a match.\<close>

definition departmentTier :: "string \<Rightarrow> DeptItem list \<Rightarrow> DeptItem list" where
  "departmentTier raw departments =
     (if exactDepartmentMatches raw departments \<noteq> [] then exactDepartmentMatches raw departments
      else if normalizedDepartmentMatches raw departments \<noteq> [] then normalizedDepartmentMatches raw departments
      else departmentCandidates raw departments)"

lemma set_filterDepartmentsByTenant:
  "set (filterDepartmentsByTenant ds t) = {d \<in> set ds. t = 0 \<or> DI_TenantID d = t}"
  by (auto simp: filterDepartmentsByTenant_def)

lemma departmentMatchesForVariants_sub:
  "set (departmentMatchesForVariants variants ds) \<subseteq> set ds"
  by (auto simp: departmentMatchesForVariants_def)

lemma departmentTier_sub: "set (departmentTier raw ds) \<subseteq> set ds"
  using departmentMatchesForVariants_sub
  by (auto simp: departmentTier_def exactDepartmentMatches_def normalizedDepartmentMatches_def
      departmentCandidates_def Let_def)

lemma departmentSlotResolution_Resolved:
  assumes "departmentSlotResolution ctx matches = Resolved v p"
  obtains d where "matches = [d]" and "v = GoInt64s [DI_DeptID d]"
    and "p = trustedParamFromContext ctx (contextField ctx ''dept_ids'') v ''department_resolver''"
  using assms by (auto simp: departmentSlotResolution_def Let_def split: list.splits)

lemma resolveDepartmentParam_tier:
  assumes "looksLikeEntityInput (trimSpace (RC_Raw ctx))"
  shows "resolveDepartmentParam ctx ds = departmentSlotResolution ctx
    (departmentTier (trimSpace (RC_Raw ctx)) (filterDepartmentsByTenant ds (RC_TenantID ctx)))"
  using assms by (simp add: resolveDepartmentParam_def departmentTier_def Let_def)

lemma trustedParamFromContext_simps [simp]:
  "TP_Value (trustedParamFromContext ctx field v resolver) = v"
  "TP_TenantID (trustedParamFromContext ctx field v resolver) = RC_TenantID ctx"
  "TP_Field (trustedParamFromContext ctx field v resolver) = field"
  by (simp_all add: trustedParamFromContext_def trustedParam_def Let_def)

text \<open>C15: A department name resolves only when a single department of the conversation's tenant
  matches it in the best of the three tiers (the same text, the same normalised name, a part of
  the name); the parameter then holds exactly the id of that department, under that tenant.\<close>

theorem resolved_department_unique:
  assumes "resolveDepartmentParam ctx departments = Resolved v p"
  shows "\<exists>d \<in> set departments. (RC_TenantID ctx \<noteq> 0 \<longrightarrow> DI_TenantID d = RC_TenantID ctx)
      \<and> departmentTier (trimSpace (RC_Raw ctx)) (filterDepartmentsByTenant departments (RC_TenantID ctx)) = [d]
      \<and> TP_Value p = GoInt64s [DI_DeptID d] \<and> v = TP_Value p \<and> TP_TenantID p = RC_TenantID ctx"
proof -
  let ?raw = "trimSpace (RC_Raw ctx)" and ?ds = "filterDepartmentsByTenant departments (RC_TenantID ctx)"
  have looks: "looksLikeEntityInput ?raw"
    using assms by (auto simp: resolveDepartmentParam_def Let_def split: if_splits)
  from assms[unfolded resolveDepartmentParam_tier[OF looks]]
  obtain d where d: "departmentTier ?raw ?ds = [d]" "v = GoInt64s [DI_DeptID d]"
    "p = trustedParamFromContext ctx (contextField ctx ''dept_ids'') v ''department_resolver''"
    by (rule departmentSlotResolution_Resolved)
  have "d \<in> set ?ds" using departmentTier_sub[of ?raw ?ds] d(1) by auto
  then show ?thesis using d by (auto simp: set_filterDepartmentsByTenant)
qed

lemma validateCandidateTenant_Inr:
  "validateCandidateTenant c t = Some (Inr c') \<longleftrightarrow> c' = c \<and> (t \<noteq> 0 \<longrightarrow> Cand_TenantID c = t)"
  by (auto simp: validateCandidateTenant_def)

lemma firstSome_Some: "firstSome f xs = Some y \<Longrightarrow> \<exists>x \<in> set xs. f x = Some y"
  by (induction xs) (auto split: option.splits)

lemma fullLabelIndex_Some:
  assumes "fullLabelIndex message candidates = Some i"
  shows "i < length candidates"
    and "normalizeEntityName (Cand_Label (candidates ! i)) \<in> set (entityNameVariants message)"
proof -
  obtain variant where "variant \<in> set (entityNameVariants message)" "labelIndex candidates variant = Some i"
    using firstSome_Some[OF assms[unfolded fullLabelIndex_def]] by blast
  then show "i < length candidates"
    and "normalizeEntityName (Cand_Label (candidates ! i)) \<in> set (entityNameVariants message)"
    by (auto simp: labelIndex_def find_Some_iff)
qed

lemma chineseDigit_pos: "chineseDigit r = Some n \<Longrightarrow> 0 < n"
  by (auto simp: chineseDigit_def split: if_splits)

lemma parseChinesePositiveInt_pos:
  assumes "parseChinesePositiveInt s = Some n"
  shows "0 < n"
proof (cases "s = zh_ten \<or> runeCountInString s = 1")
  case True
  with assms show ?thesis
    by (auto simp: parseChinesePositiveInt_def dest: chineseDigit_pos split: if_splits)
next
  case False
  with assms obtain p q where "splitText zh_ten s = [p, q]"
    by (simp add: parseChinesePositiveInt_def split: list.splits)
  with False assms show ?thesis
    by (simp add: parseChinesePositiveInt_def split: option.splits if_splits)
qed

lemma parseCandidateOrdinal_pos: "parseCandidateOrdinal lower message = Some n \<Longrightarrow> 0 < n"
  by (auto simp: parseCandidateOrdinal_def Let_def parseChinesePositiveInt_pos split: if_splits option.splits)

lemma parseRendered_pos:
  "parseRenderedCandidateSelection lower message = Some (n, label) \<Longrightarrow> 0 < n"
  by (auto simp: parseRenderedCandidateSelection_def Let_def parseCandidateOrdinal_pos split: list.splits)

lemma candidateAt_mem:
  "0 < n \<Longrightarrow> n \<le> int (length candidates) \<Longrightarrow> candidateAt candidates n \<in> set candidates"
  by (simp add: candidateAt_def)

text \<open>The candidate at a place of the list, chosen by its number.\<close>

lemma renderedSelection_Inr:
  assumes "renderedSelection n label full t candidates = Some (Inr c)" and "0 < n"
    and "\<And>i. full = Some i \<Longrightarrow> i < length candidates"
  shows "c \<in> set candidates" and "t \<noteq> 0 \<longrightarrow> Cand_TenantID c = t"
    and "n \<le> int (length candidates) \<Longrightarrow> c = candidateAt candidates n"
proof -
  have "validateCandidateTenant c t = Some (Inr c)
      \<and> (int (length candidates) < n \<and> (\<exists>i. full = Some i \<and> c = candidates ! i)
         \<or> n \<le> int (length candidates) \<and> c = candidateAt candidates n)"
    using assms(1) by (auto simp: renderedSelection_def Let_def validateCandidateTenant_Inr
        split: if_splits option.splits)
  with assms(2,3) candidateAt_mem[of n candidates]
  show "c \<in> set candidates" and "t \<noteq> 0 \<longrightarrow> Cand_TenantID c = t"
    and "n \<le> int (length candidates) \<Longrightarrow> c = candidateAt candidates n"
    by (auto simp: validateCandidateTenant_Inr)
qed


section \<open>Witnesses\<close>

definition exDepartments :: "DeptItem list" where
  "exDepartments =
     [\<lparr>DI_DeptID = 5, DI_Name = ''CS-1'', DI_TenantID = 7, DI_ParentID = 1\<rparr>,
      \<lparr>DI_DeptID = 12, DI_Name = ''CS-2'', DI_TenantID = 7, DI_ParentID = 1\<rparr>,
      \<lparr>DI_DeptID = 9, DI_Name = ''CS-1'', DI_TenantID = 8, DI_ParentID = 1\<rparr>]"

abbreviation exNamed :: EntityResolveContext where
  "exNamed \<equiv> contextRawSlot ''dept_ids'' ''CS-1'' (resolveContext 7)"

theorem resolved_department_unique_witness:
  "\<exists>d p. resolveDepartmentParam exNamed exDepartments = Resolved (GoInt64s [DI_DeptID d]) p
     \<and> departmentTier (trimSpace (RC_Raw exNamed)) (filterDepartmentsByTenant exDepartments 7) = [d]"
proof -
  have "(case resolveDepartmentParam exNamed exDepartments of Resolved v p \<Rightarrow> True | _ \<Rightarrow> False)"
    by code_simp
  then obtain v p where r: "resolveDepartmentParam exNamed exDepartments = Resolved v p"
    by (auto split: resolveResult.splits)
  have "RC_TenantID exNamed = 7" by (simp add: contextRawSlot_def resolveContext_def)
  with resolved_department_unique[OF r] r show ?thesis by auto
qed

definition exShown :: "Candidate list" where
  "exShown = [\<lparr>Cand_ID = ''5'', Cand_Label = ''CS-1'', Cand_Value = GoInt64s [5], Cand_TenantID = 7\<rparr>,
     \<lparr>Cand_ID = ''12'', Cand_Label = ''CS-2'', Cand_Value = GoInt64s [12], Cand_TenantID = 7\<rparr>]"


end
