(* ===== verification/LiveRequests.thy ===== *)
theory LiveRequests
  imports LivePipeline EntityResolver
begin

text \<open>
  The requests and trusted entities that the live pipeline builds from a draft
  (src/internal/agent/protocol\_live\_request\_builder.go and the resolvers of
  protocol\_live\_subscription\_workflow.go): attendance and schedule queries, the scope and the
  departments of a subscription, and the candidates that are kept for the next turn.
\<close>

section \<open>The dependencies of the pipeline\<close>

text \<open>The answers of the ports during a turn (\<^const>\<open>None\<close>: the port is not configured), the
  readings of the clock in the order in which \<open>Handle\<close> takes them, the time zone, the case table of
  \<open>unicode\<close>, the answer of the intent compiler (\<open>Inl\<close>: an error, and whether the request was
  cancelled), and whether the context was done before the dispatch.\<close>

record 'x liveDeps =
  LD_Compile :: "string \<Rightarrow> protocolWorkflowContext option \<Rightarrow> bool + ProtocolDraft"
  LD_Canceled :: bool
  LD_Executor :: "'x executor"
  LD_Users :: "(string \<Rightarrow> string + UserInfo list) option"
  LD_Departments :: "(string + DeptItem list) option"
  LD_Semester :: "(string + int \<times> int) option"
  LD_Periods :: "(string + PeriodInfo list) option"
  LD_Clock :: "nat \<Rightarrow> instant"
  LD_Zone :: int
  LD_Lower :: "nat \<Rightarrow> nat"
  LD_RequestID :: string
  LD_UnixNano :: int

definition unsupportedOperationResponse :: ResponseModel where
  "unsupportedOperationResponse = refuse zh_cannot_do"

definition operationErrorResponse :: ResponseModel where
  "operationErrorResponse = refuse zh_execution_failed"

definition selectOptions :: "ResponseOption list \<Rightarrow> ResponseModel" where
  "selectOptions options = (response ResponseSelectOptions)\<lparr>RM_Options := options\<rparr>"

definition responseOptionsFromEntityCandidates :: "EntityCandidate list \<Rightarrow> ResponseOption list" where
  "responseOptionsFromEntityCandidates candidates =
     map (\<lambda>c. \<lparr>RO_Label = EC_Label c, RO_Value = EC_ID c\<rparr>) candidates"

section \<open>Queries\<close>

definition addParam :: "string \<Rightarrow> TrustedParam \<Rightarrow> trustedEntities \<Rightarrow> trustedEntities" where
  "addParam field param t = t\<lparr>TE_TrustedParams := mapSet field param (TE_TrustedParams t)\<rparr>"

definition schedulePeriods :: "'x liveDeps \<Rightarrow> PeriodInfo list" where
  "schedulePeriods deps = (case LD_Periods deps of Some (Inr periods) \<Rightarrow> periods | _ \<Rightarrow> [])"

text \<open>The context of a slot: the raw text, or the default when there is none.\<close>

definition slotInput :: "nat \<Rightarrow> string \<Rightarrow> string \<Rightarrow> EntityResolveContext" where
  "slotInput tenantID field raw =
     (if raw = [] then contextDefault field (resolveContext tenantID)
      else contextRawSlot field raw (resolveContext tenantID))"

definition attendanceShape :: "nat \<Rightarrow> string \<Rightarrow> trustedEntities \<Rightarrow> trustedEntities" where
  "attendanceShape tenantID raw t =
     (if raw = [] then t
      else addParam ''query_shape''
             (trustedParamFromContext (contextRawSlot ''query_shape'' raw (resolveContext tenantID))
                ''query_shape'' (GoString raw) ''query_shape_slot'')
             (t\<lparr>TE_QueryShape := raw\<rparr>))"

definition attendanceDate :: "resolveResult \<Rightarrow> trustedEntities \<Rightarrow> trustedEntities" where
  "attendanceDate date t =
     (case date of
        Resolved v param \<Rightarrow> addParam ''date'' param (t\<lparr>TE_Date := sprint v\<rparr>)
      | _ \<Rightarrow> t)"

definition attendanceSection :: "resolveResult \<Rightarrow> trustedEntities \<Rightarrow> trustedEntities" where
  "attendanceSection sec t =
     (case sec of
        Resolved (GoInt n) param \<Rightarrow> addParam ''section'' param (t\<lparr>TE_Section := n\<rparr>)
      | _ \<Rightarrow> t)"

text \<open>\<open>Inl\<close> is \<open>return OperationRequest\{\}, response, false\<close>.\<close>

definition attendanceUser ::
  "'x liveDeps \<Rightarrow> nat \<Rightarrow> string \<Rightarrow> trustedEntities \<Rightarrow> ResponseModel + trustedEntities" where
  "attendanceUser deps tenantID userRaw t =
     (case LD_Users deps of
        None \<Rightarrow> Inr t
      | Some search \<Rightarrow>
          if userRaw = [] then Inr t
          else (case search userRaw of
            Inl e \<Rightarrow> Inr t
          | Inr users \<Rightarrow>
              (case resolveUserParam (contextRawSlot ''user_id'' userRaw (resolveContext tenantID)) users of
                 Resolved (GoUint userID) param \<Rightarrow>
                   Inr (addParam ''query_shape''
                     (trustedParam ''query_shape'' (GoString ''user_day_status'') tenantID
                        \<lparr>SourceKind = TrustedParamSourceDerived, SourceRaw = [],
                         Resolver = ''attendance_user_resolver''\<rparr>)
                     (addParam ''user_id'' param
                        (t\<lparr>TE_UserID := userID, TE_QueryShape := ''user_day_status''\<rparr>)))
               | Ambiguous candidates \<Rightarrow> Inl (selectOptions (responseOptionsFromEntityCandidates candidates))
               | _ \<Rightarrow> Inr t)))"

definition defaultWeek :: "(string + int \<times> int) option \<Rightarrow> nat \<Rightarrow> OperationRequest \<Rightarrow> OperationRequest" where
  "defaultWeek semester tenantID req =
     (case semester of
        Some (Inr (week, totalWeeks)) \<Rightarrow>
          if map_of (OR_TrustedParams req) ''week'' = None \<and> 0 < week then
            req\<lparr>OR_TrustedParams := mapSet ''week''
                  (trustedParam ''week'' (GoInt week) tenantID
                     \<lparr>SourceKind = TrustedParamSourceDefault, SourceRaw = [], Resolver = ''semester_default''\<rparr>)
                  (OR_TrustedParams req)\<rparr>
          else req
      | _ \<Rightarrow> req)"

definition attendanceEntities ::
  "'x liveDeps \<Rightarrow> OperationManifest \<Rightarrow> ProtocolDraft \<Rightarrow> nat \<Rightarrow> trustedEntities" where
  "attendanceEntities deps manifest draft tenantID =
     (let now = LD_Clock deps 2; tz = LD_Zone deps; raw = draftRawSlotForTarget manifest draft;
          t0 = noTrustedEntities\<lparr>TE_TenantID := tenantID\<rparr>;
          t1 = attendanceShape tenantID (raw ''query_shape'') t0;
          t2 = attendanceDate (resolveDateParam tz (slotInput tenantID ''date'' (raw ''date''))
                 SlotDefaultToday now) t1
      in attendanceSection
           (resolveSectionParam tz (contextRawSlot ''section'' (raw ''section'') (resolveContext tenantID))
              (schedulePeriods deps) now) t2)"

definition attendanceRequest ::
  "'x liveDeps \<Rightarrow> ProtocolDraft \<Rightarrow> nat \<Rightarrow> ResponseModel + OperationRequest" where
  "attendanceRequest deps draft tenantID =
     (case lookupOperation (Operation draft) of
        None \<Rightarrow> Inl unsupportedOperationResponse
      | Some manifest \<Rightarrow>
          (case attendanceUser deps tenantID (draftRawSlotForTarget manifest draft ''user_id'')
                  (attendanceEntities deps manifest draft tenantID) of
             Inl r \<Rightarrow> Inl r
           | Inr trusted \<Rightarrow>
               (case buildOperationRequest draft trusted of
                  None \<Rightarrow> Inl (clarify ''missing_attendance_fields'')
                | Some req \<Rightarrow> Inr (defaultWeek (LD_Semester deps) tenantID req))))"

definition queryShapesRequireTrustedParam :: "QueryShapeMetadata list \<Rightarrow> string \<Rightarrow> bool" where
  "queryShapesRequireTrustedParam shapes field =
     list_ex (\<lambda>shape. list_ex (\<lambda>p. p = field) (QS_RequiredTrustedParams shape)) shapes"

definition operationRequiresTrustedParam :: "OperationManifest \<Rightarrow> string \<Rightarrow> bool" where
  "operationRequiresTrustedParam manifest field \<longleftrightarrow>
     list_ex (\<lambda>p. p = field) (RequiredTrustedParams manifest)
     \<or> queryShapesRequireTrustedParam (QueryShapes manifest) field"

definition missingRequiredTrustedParams :: "OperationManifest \<Rightarrow> trustedEntities \<Rightarrow> string list" where
  "missingRequiredTrustedParams manifest trusted =
     filter (\<lambda>name. trustedParamValue trusted name = None)
       (if QueryShapes manifest = [] then RequiredTrustedParams manifest
        else (case selectQueryShape manifest trusted of
                Some shape \<Rightarrow> QS_RequiredTrustedParams shape
              | None \<Rightarrow> RequiredTrustedParams manifest))"

definition scheduleWeek :: "resolveResult \<Rightarrow> trustedEntities \<Rightarrow> trustedEntities" where
  "scheduleWeek week t =
     (case week of
        Resolved (GoInt n) param \<Rightarrow> addParam ''week'' param (t\<lparr>TE_Week := n\<rparr>)
      | _ \<Rightarrow> t)"

definition scheduleUser ::
  "'x liveDeps \<Rightarrow> string \<Rightarrow> nat \<Rightarrow> string \<Rightarrow> trustedEntities \<Rightarrow> ResponseModel + trustedEntities" where
  "scheduleUser deps operation tenantID userRaw t =
     (let missing = missingOperationParamsResponse operation [''user_id''] in
      case LD_Users deps of
        None \<Rightarrow> Inl missing
      | Some search \<Rightarrow>
          if userRaw = [] then Inl missing
          else (case search userRaw of
            Inl e \<Rightarrow> Inl operationErrorResponse
          | Inr users \<Rightarrow>
              (case resolveUserParam (contextRawSlot ''user_id'' userRaw (resolveContext tenantID)) users of
                 Resolved (GoUint userID) param \<Rightarrow> Inr (addParam ''user_id'' param (t\<lparr>TE_UserID := userID\<rparr>))
               | Resolved _ _ \<Rightarrow> Inr t
               | Ambiguous candidates \<Rightarrow> Inl (selectOptions (responseOptionsFromEntityCandidates candidates))
               | Unresolved _ _ \<Rightarrow> Inl missing)))"

definition scheduleEntities ::
  "'x liveDeps \<Rightarrow> OperationManifest \<Rightarrow> ProtocolDraft \<Rightarrow> nat \<Rightarrow> ResponseModel + trustedEntities" where
  "scheduleEntities deps manifest draft tenantID =
     (let raw = draftRawSlotForTarget manifest draft;
          t = scheduleWeek (resolveWeekParam (slotInput tenantID ''week'' (raw ''week''))
                SlotDefaultCurrentWeek (LD_Semester deps)) (noTrustedEntities\<lparr>TE_TenantID := tenantID\<rparr>)
      in if operationRequiresTrustedParam manifest ''user_id''
         then scheduleUser deps (Operation draft) tenantID (raw ''user_id'') t else Inr t)"

definition scheduleRequest ::
  "'x liveDeps \<Rightarrow> ProtocolDraft \<Rightarrow> nat \<Rightarrow> ResponseModel + OperationRequest" where
  "scheduleRequest deps draft tenantID =
     (case lookupOperation (Operation draft) of
        None \<Rightarrow> Inl unsupportedOperationResponse
      | Some manifest \<Rightarrow>
          (case scheduleEntities deps manifest draft tenantID of
             Inl r \<Rightarrow> Inl r
           | Inr trusted \<Rightarrow>
               (case buildOperationRequest draft trusted of
                  Some req \<Rightarrow> Inr req
                | None \<Rightarrow>
                    let missing = missingRequiredTrustedParams manifest trusted in
                    Inl (missingOperationParamsResponse (Operation draft)
                      (if missing = [] then paramNames (RequiredTrustedParams manifest) else missing)))))"

section \<open>The scope of a subscription\<close>

definition zh_everyone :: "string list" where
  "zh_everyone = [utf8 [20840, 37096, 20154, 21592], utf8 [20840, 37096]]"

definition zh_some_departments :: "string list" where
  "zh_some_departments =
     [utf8 [25351, 23450, 37096, 38376], utf8 [37096, 20998, 37096, 38376], utf8 [37096, 38376]]"

definition normalizeSubscriptionScope :: "(nat \<Rightarrow> nat) \<Rightarrow> string \<Rightarrow> string" where
  "normalizeSubscriptionScope lower raw =
     (let normalized = normalizeQuery lower raw in
      if containsAny normalized zh_everyone then ''all''
      else if containsAny normalized zh_some_departments then ''department''
      else [])"

text \<open>What a turn said about the subscription: entities, or \<open>ok = false\<close> with the candidates of an
  ambiguous name.\<close>

type_synonym subscriptionAnswer = "EntityCandidate list option + trustedEntities"

definition subscriptionScope :: "nat \<Rightarrow> string \<Rightarrow> trustedEntities" where
  "subscriptionScope tenantID scope = noTrustedEntities\<lparr>TE_TenantID := tenantID, TE_Scope := scope\<rparr>"

definition resolvedDepartments :: "resolveResult \<Rightarrow> (int list \<times> TrustedParam) option" where
  "resolvedDepartments r =
     (case r of Resolved (GoInt64s ids) param \<Rightarrow> if ids = [] then None else Some (ids, param) | _ \<Rightarrow> None)"

definition withDepartments :: "int list \<Rightarrow> TrustedParam \<Rightarrow> trustedEntities \<Rightarrow> trustedEntities" where
  "withDepartments ids param t =
     t\<lparr>TE_DepartmentID := hd ids, TE_DeptIDs := ids, TE_TrustedParams := [(''dept_ids'', param)]\<rparr>"

definition resolveSubscriptionDepartmentSelection ::
  "'x liveDeps \<Rightarrow> string \<Rightarrow> nat \<Rightarrow> subscriptionAnswer" where
  "resolveSubscriptionDepartmentSelection deps message tenantID =
     (case LD_Departments deps of
        Some (Inr depts) \<Rightarrow>
          let resolved = resolveDepartmentParam
                (contextRawSlot ''dept_ids'' message (resolveContext tenantID)) depts in
          (case resolvedDepartments resolved of
             Some (ids, param) \<Rightarrow> Inr (withDepartments ids param (subscriptionScope tenantID ''department''))
           | None \<Rightarrow> Inl (case resolved of Ambiguous candidates \<Rightarrow> Some candidates | _ \<Rightarrow> None))
      | _ \<Rightarrow> Inl None)"

text \<open>\<open>candidateInt64\<close>; an unsigned value is converted at 64 bits.\<close>

definition candidateInt64 :: "Candidate \<Rightarrow> int option" where
  "candidateInt64 candidate =
     (case (if trimSpace (Cand_ID candidate) = [] then None else atoiOk (trimSpace (Cand_ID candidate))) of
        Some parsed \<Rightarrow> Some parsed
      | None \<Rightarrow>
          (case Cand_Value candidate of
             GoInt64 n \<Rightarrow> Some n
           | GoInt n \<Rightarrow> Some n
           | GoUint n \<Rightarrow> Some (sint (word_of_nat n :: 64 word))
           | GoString s \<Rightarrow> atoiOk (trimSpace s)
           | _ \<Rightarrow> None))"

definition candidateSource :: "string \<Rightarrow> TrustedParamSource" where
  "candidateSource message =
     \<lparr>SourceKind = TrustedParamSourceCandidate, SourceRaw = message, Resolver = ''workflow_candidate''\<rparr>"

text \<open>\<^const>\<open>None\<close>: handled, and not ok.\<close>

definition trustedEntitiesFromDepartmentCandidate ::
  "Candidate \<Rightarrow> string \<Rightarrow> nat \<Rightarrow> trustedEntities option" where
  "trustedEntitiesFromDepartmentCandidate candidate message tenantID =
     (if tenantID \<noteq> 0 \<and> Cand_TenantID candidate \<noteq> tenantID then None
      else (case candidateInt64 candidate of
        None \<Rightarrow> None
      | Some deptID \<Rightarrow>
          if deptID = 0 then None
          else Some (noTrustedEntities\<lparr>TE_Scope := ''department'', TE_DepartmentID := deptID,
            TE_DeptIDs := [deptID],
            TE_TrustedParams :=
              [(''scope'', trustedParam ''scope'' (GoString ''department'') (Cand_TenantID candidate)
                  (candidateSource message)),
               (''dept_ids'', trustedParam ''dept_ids'' (GoInt64s [deptID]) (Cand_TenantID candidate)
                  (candidateSource message))]\<rparr>)))"

text \<open>The outer \<^const>\<open>None\<close>: not handled.\<close>

definition workflowDepartmentCandidateSelection ::
  "(nat \<Rightarrow> nat) \<Rightarrow> WorkflowSnapshot \<Rightarrow> string \<Rightarrow> nat \<Rightarrow> trustedEntities option option" where
  "workflowDepartmentCandidateSelection lower workflow message tenantID =
     (case resolveCandidateSelection lower message tenantID
             (case map_of (WF_Candidates workflow) ''dept_ids'' of None \<Rightarrow> [] | Some cs \<Rightarrow> cs) of
        None \<Rightarrow> None
      | Some (Inl reason) \<Rightarrow> Some None
      | Some (Inr candidate) \<Rightarrow> Some (trustedEntitiesFromDepartmentCandidate candidate message tenantID))"

definition namedDepartments :: "'x liveDeps \<Rightarrow> string \<Rightarrow> nat \<Rightarrow> subscriptionAnswer" where
  "namedDepartments deps departmentRaw tenantID =
     (if departmentRaw \<noteq> [] then resolveSubscriptionDepartmentSelection deps departmentRaw tenantID
      else Inl None)"

definition resolveSubscriptionTrustedEntities ::
  "'x liveDeps \<Rightarrow> string \<Rightarrow> ProtocolDraft \<Rightarrow> WorkflowSnapshot \<Rightarrow> nat \<Rightarrow> subscriptionAnswer" where
  "resolveSubscriptionTrustedEntities deps message draft workflow tenantID =
     (case lookupOperation (WF_Type workflow) of
        None \<Rightarrow> Inl None
      | Some manifest \<Rightarrow>
          let scope = normalizeSubscriptionScope (LD_Lower deps) (draftRawSlotForTarget manifest draft ''scope'');
              departmentRaw = draftRawSlotForTarget manifest draft ''dept_ids'' in
          (case WF_State workflow of
             WorkflowCollectScope \<Rightarrow>
               if scope \<noteq> [] then Inr (subscriptionScope tenantID scope)
               else namedDepartments deps departmentRaw tenantID
           | WorkflowCollectDepartments \<Rightarrow>
               if scope = ''all'' then Inr (subscriptionScope tenantID ''all'')
               else (case workflowDepartmentCandidateSelection (LD_Lower deps) workflow message tenantID of
                 Some (Some trusted) \<Rightarrow> Inr (trusted\<lparr>TE_TenantID := tenantID\<rparr>)
               | Some None \<Rightarrow> Inl None
               | None \<Rightarrow> namedDepartments deps departmentRaw tenantID)
           | _ \<Rightarrow> Inl None))"

definition resolveInitialSubscriptionTrustedEntities ::
  "'x liveDeps \<Rightarrow> ProtocolDraft \<Rightarrow> nat \<Rightarrow> trustedEntities option" where
  "resolveInitialSubscriptionTrustedEntities deps draft tenantID =
     (case lookupOperation (Operation draft) of
        None \<Rightarrow> None
      | Some manifest \<Rightarrow>
          let scope = normalizeSubscriptionScope (LD_Lower deps) (draftRawSlotForTarget manifest draft ''scope'');
              deptName = draftRawSlotForTarget manifest draft ''dept_ids'';
              trusted = subscriptionScope tenantID scope in
          if scope = [] then None
          else if scope = ''all'' \<or> deptName = [] then Some trusted
          else (case LD_Departments deps of
            Some (Inr depts) \<Rightarrow>
              (case resolvedDepartments (resolveDepartmentParam
                      (contextRawSlot ''dept_ids'' deptName (resolveContext tenantID)) depts) of
                 Some (ids, param) \<Rightarrow> Some (withDepartments ids param trusted)
               | None \<Rightarrow> Some trusted)
          | _ \<Rightarrow> Some trusted))"

section \<open>Candidates kept for the next turn\<close>

definition keepCandidates :: "string \<Rightarrow> Candidate list \<Rightarrow> WorkflowSnapshot option \<Rightarrow> WorkflowSnapshot option" where
  "keepCandidates field candidates workflow =
     map_option (\<lambda>w. if candidates = [] then w
       else w\<lparr>WF_Candidates := mapSet field candidates (WF_Candidates w)\<rparr>) workflow"

definition persistWorkflowCandidatesFromResponse ::
  "WorkflowSnapshot option \<Rightarrow> string \<Rightarrow> ResponseOption list \<Rightarrow> nat \<Rightarrow> WorkflowSnapshot option" where
  "persistWorkflowCandidatesFromResponse workflow field options tenantID =
     keepCandidates field
       (map (\<lambda>option. let id = trimSpace (RO_Value option); label = trimSpace (RO_Label option) in
               \<lparr>Cand_ID = id, Cand_Label = firstNonEmpty [label, id], Cand_Value = GoString id,
                Cand_TenantID = tenantID\<rparr>)
         (filter (\<lambda>option. trimSpace (RO_Value option) \<noteq> [] \<or> trimSpace (RO_Label option) \<noteq> []) options))
       workflow"

definition persistWorkflowCandidatesFromEntityCandidates ::
  "WorkflowSnapshot option \<Rightarrow> string \<Rightarrow> EntityCandidate list \<Rightarrow> WorkflowSnapshot option" where
  "persistWorkflowCandidatesFromEntityCandidates workflow field options =
     keepCandidates field
       (map (\<lambda>option. let id = trimSpace (EC_ID option); label = trimSpace (EC_Label option) in
               \<lparr>Cand_ID = id, Cand_Label = firstNonEmpty [label, id], Cand_Value = EC_Value option,
                Cand_TenantID = EC_TenantID option\<rparr>)
         (filter (\<lambda>option. trimSpace (EC_ID option) \<noteq> [] \<or> trimSpace (EC_Label option) \<noteq> []) options))
       workflow"

text \<open>\<open>subscriptionDeptIDsFromTrusted\<close> (agent.go).\<close>

definition subscriptionDeptIDsFromTrusted :: "trustedEntities \<Rightarrow> int list" where
  "subscriptionDeptIDsFromTrusted trusted =
     (if TE_DeptIDs trusted \<noteq> [] then TE_DeptIDs trusted
      else if TE_Scope trusted = ''department'' \<and> TE_DepartmentID trusted \<noteq> 0 then [TE_DepartmentID trusted]
      else [])"

definition setMissing :: "string \<Rightarrow> TrustedParam \<Rightarrow> bool \<Rightarrow> TrustedParam goMap \<Rightarrow> TrustedParam goMap" where
  "setMissing field param wanted ps = (if map_of ps field = None \<and> wanted then mapSet field param ps else ps)"

definition subscriptionStartTrustedParams ::
  "UserContext option \<Rightarrow> trustedEntities \<Rightarrow> int list \<Rightarrow> TrustedParam goMap" where
  "subscriptionStartTrustedParams uctx trusted deptIDs =
     (let tenantID = userTenantID uctx;
          source = \<lparr>SourceKind = TrustedParamSourceWorkflow, SourceRaw = [], Resolver = ''subscription_workflow''\<rparr>;
          ps0 = trustedParamsFromValues tenantID
            \<lparr>SourceKind = TrustedParamSourceRuntime, SourceRaw = [], Resolver = ''conversation_runtime''\<rparr>
            [(''conversation_id'', GoString (userConversationID uctx))];
          ps1 = fold (\<lambda>(field, param). mapSet field
                  (if TP_TenantID param = 0 then param\<lparr>TP_TenantID := tenantID\<rparr> else param))
                (TE_TrustedParams trusted) ps0
      in setMissing ''dept_ids'' (trustedParam ''dept_ids'' (GoInt64s deptIDs) tenantID source) (deptIDs \<noteq> [])
           (setMissing ''scope'' (trustedParam ''scope'' (GoString (TE_Scope trusted)) tenantID source)
              (TE_Scope trusted \<noteq> []) ps1))"

end
