(* ===== verification/LiveHandle.thy ===== *)
theory LiveHandle
  imports LiveRequests
begin

text \<open>
  A turn of the live pipeline (\<open>Handle\<close> of src/internal/agent/protocol\_live\_pipeline.go, with
  protocol\_live\_dispatch.go and the subscription dialogue of
  protocol\_live\_subscription\_workflow.go). Its guarantees are in LiveGates and AgentSafety.
\<close>

section \<open>The subscription dialogue\<close>

definition listDepartmentsOperation :: string where
  "listDepartmentsOperation =
     workflowAuxiliaryOperationName WorkflowSubscriptionStart ''executor.subscription.list_departments''"

definition startOperation :: string where
  "startOperation = workflowPrimaryOperationName WorkflowSubscriptionStart"

definition bareRequest :: "string \<Rightarrow> OperationRequest" where
  "bareRequest operation =
     \<lparr>OR_Operation = operation, OR_TenantID = 0, OR_ActorUserID = 0, OR_ConversationID = [],
      OR_TrustedParams = [], OR_IdempotencyKey = []\<rparr>"

definition userRequest :: "UserContext option \<Rightarrow> string \<Rightarrow> TrustedParam goMap \<Rightarrow> OperationRequest" where
  "userRequest uctx operation ps =
     (bareRequest operation)\<lparr>OR_TenantID := userTenantID uctx, OR_ActorUserID := userActorUserID uctx,
        OR_ConversationID := userConversationID uctx, OR_TrustedParams := ps\<rparr>"

definition live_execute ::
  "'x liveDeps \<Rightarrow> UserContext option \<Rightarrow> OperationRequest \<Rightarrow> protocolLiveOutcome \<Rightarrow> 'x
     \<Rightarrow> protocolLiveOutcome \<times> 'x" where
  "live_execute deps = pipeline_execute (LD_Executor deps) (LD_Departments deps)"

text \<open>The departments are listed, and the options shown become the candidates of the next turn.\<close>

definition listDepartments ::
  "'x liveDeps \<Rightarrow> UserContext option \<Rightarrow> protocolLiveOutcome \<Rightarrow> 'x \<Rightarrow> protocolLiveOutcome \<times> 'x" where
  "listDepartments deps uctx o0 x =
     (case live_execute deps uctx (bareRequest listDepartmentsOperation) o0 x of
        (executed, x') \<Rightarrow>
          (executed\<lparr>LO_WorkflowAfter := persistWorkflowCandidatesFromResponse (LO_WorkflowAfter executed)
             ''dept_ids'' (RM_Options (LO_Response executed)) (userTenantID uctx)\<rparr>, x'))"

definition startSubscription ::
  "'x liveDeps \<Rightarrow> UserContext option \<Rightarrow> WorkflowSnapshot \<Rightarrow> protocolLiveOutcome \<Rightarrow> 'x
     \<Rightarrow> protocolLiveOutcome \<times> 'x" where
  "startSubscription deps uctx w o0 x =
     (case live_execute deps uctx
             (userRequest uctx startOperation
                (subscriptionStartTrustedParams uctx (WF_Trusted w)
                   (subscriptionDeptIDsFromTrusted (WF_Trusted w))))
             (o0\<lparr>LO_WorkflowAfter := Some w\<rparr>) x of
        (executed, x') \<Rightarrow>
          (executed\<lparr>LO_WorkflowAfter := Some w,
             LO_PreparedWrite := map_option (\<lambda>write. write\<lparr>WX_ClearWorkflowOnSuccess := True\<rparr>)
               (LO_PreparedWrite executed)\<rparr>, x'))"

definition continueSubscription ::
  "'x liveDeps \<Rightarrow> UserContext option \<Rightarrow> ProtocolDraft \<Rightarrow> WorkflowSnapshot \<Rightarrow> trustedEntities
     \<Rightarrow> protocolLiveOutcome \<Rightarrow> 'x \<Rightarrow> protocolLiveOutcome \<times> 'x" where
  "continueSubscription deps uctx draft active trusted o0 x =
     (let result = continueWorkflow active draft trusted;
          o1 = o0\<lparr>LO_WorkflowDecision := Some (WR_Decision result)\<rparr> in
      case (WR_Decision result, WR_Workflow result) of
        (WorkflowContinueDecision, None) \<Rightarrow> (guarded draft uctx o1, x)
      | (WorkflowContinueDecision, Some w) \<Rightarrow>
          listDepartments deps uctx
            (o1\<lparr>LO_WorkflowAfter := Some w,
                LO_ResolvedSlots := protocolResolvedSlotsFromTrusted (WF_Trusted w)\<rparr>) x
      | (WorkflowReadyToExecute, None) \<Rightarrow> (guarded draft uctx o1, x)
      | (WorkflowReadyToExecute, Some w) \<Rightarrow> startSubscription deps uctx w o1 x
      | _ \<Rightarrow>
          (setProtocolOutcomeResponse (clarify ''subscription_invalid_shape'') answerModeToolFirst
             (o1\<lparr>LO_WorkflowAfter := Some (cloneWorkflowSnapshot active)\<rparr>), x))"

text \<open>The list of departments is asked for, during a subscription or without one.\<close>

definition askDepartments ::
  "'x liveDeps \<Rightarrow> UserContext option \<Rightarrow> ProtocolDraft \<Rightarrow> WorkflowSnapshot option
     \<Rightarrow> protocolLiveOutcome \<Rightarrow> 'x \<Rightarrow> protocolLiveOutcome \<times> 'x" where
  "askDepartments deps uctx draft active o0 x =
     (case active of
        None \<Rightarrow> listDepartments deps uctx o0 x
      | Some w \<Rightarrow>
          if WF_Type w = WorkflowSubscriptionStart \<and> WF_State w = WorkflowCollectScope then
            continueSubscription deps uctx (draft\<lparr>Operation := startOperation\<rparr>) w
              (noTrustedEntities\<lparr>TE_Scope := ''department''\<rparr>) o0 x
          else listDepartments deps uctx
                 (o0\<lparr>LO_WorkflowAfter := Some (cloneWorkflowSnapshot w),
                     LO_WorkflowDecision := Some WorkflowMetaResult\<rparr>) x)"

definition beginSubscription ::
  "'x liveDeps \<Rightarrow> UserContext option \<Rightarrow> ProtocolDraft \<Rightarrow> protocolLiveOutcome \<Rightarrow> 'x
     \<Rightarrow> protocolLiveOutcome \<times> 'x" where
  "beginSubscription deps uctx draft o0 x =
     (if Act draft \<noteq> ActWriteRequest \<or> Operation draft \<noteq> startOperation then (guarded draft uctx o0, x)
      else (case startWorkflow (LD_UnixNano deps) draft of
        None \<Rightarrow> (guarded draft uctx o0, x)
      | Some workflow \<Rightarrow>
          (case resolveInitialSubscriptionTrustedEntities deps draft (userTenantID uctx) of
             Some trusted \<Rightarrow>
               continueSubscription deps uctx (draft\<lparr>Act := ActWorkflowContinue\<rparr>) workflow trusted o0 x
           | None \<Rightarrow>
               ((setProtocolOutcomeResponse (clarify ''subscription_missing_fields'') answerModeToolFirst
                   (o0\<lparr>LO_WorkflowDecision := Some WorkflowStartNew, LO_WorkflowAfter := Some workflow\<rparr>))
                  \<lparr>LO_BlockedReason := ''missing_scope''\<rparr>, x))))"

definition unresolvedSubscription ::
  "WorkflowSnapshot \<Rightarrow> EntityCandidate list option \<Rightarrow> protocolLiveOutcome \<Rightarrow> protocolLiveOutcome" where
  "unresolvedSubscription active ambiguous o0 =
     (let after = Some (cloneWorkflowSnapshot active) in
      case ambiguous of
        Some candidates \<Rightarrow>
          setProtocolOutcomeResponse (selectOptions (responseOptionsFromEntityCandidates candidates))
            answerModeToolFirst
            (o0\<lparr>LO_WorkflowAfter :=
                 persistWorkflowCandidatesFromEntityCandidates after ''dept_ids'' candidates\<rparr>)
      | None \<Rightarrow>
          let o1 = setProtocolOutcomeResponse
                ((clarify ''subscription_missing_fields'')\<lparr>RM_Operation := startOperation,
                   RM_MissingFields := workflowMissingFields active\<rparr>) answerModeToolFirst
                (o0\<lparr>LO_WorkflowAfter := after\<rparr>) in
          (case WF_MissingSlots active of
             [] \<Rightarrow> o1 | slot # slots \<Rightarrow> o1\<lparr>LO_BlockedReason := ''missing_'' @ slot\<rparr>))"

definition handleSubscription ::
  "'x liveDeps \<Rightarrow> string \<Rightarrow> UserContext option \<Rightarrow> ProtocolDraft \<Rightarrow> WorkflowSnapshot option
     \<Rightarrow> protocolLiveOutcome \<Rightarrow> 'x \<Rightarrow> protocolLiveOutcome \<times> 'x" where
  "handleSubscription deps message uctx draft active o0 x =
     (if Operation draft = listDepartmentsOperation then askDepartments deps uctx draft active o0 x
      else if uctx = None \<or> userConversationType uctx \<noteq> ''2'' then
        ((setProtocolOutcomeResponse (refuse zh_group_only) answerModeReject o0)
           \<lparr>LO_BlockedReason := ''group_chat_required''\<rparr>, x)
      else (case active of
        None \<Rightarrow> beginSubscription deps uctx draft o0 x
      | Some w \<Rightarrow>
          if WF_Type w \<noteq> WorkflowSubscriptionStart \<or> Act draft \<noteq> ActWorkflowContinue
          then (guarded draft uctx o0, x)
          else (case resolveSubscriptionTrustedEntities deps message draft w (userTenantID uctx) of
            Inl ambiguous \<Rightarrow> (unresolvedSubscription w ambiguous o0, x)
          | Inr trusted \<Rightarrow> continueSubscription deps uctx draft w trusted o0 x)))"

section \<open>Dispatch\<close>

text \<open>A request of one of the builders is executed, or its response is the answer.\<close>

definition executeBuilt ::
  "'x liveDeps \<Rightarrow> UserContext option \<Rightarrow> ResponseModel + OperationRequest \<Rightarrow> protocolLiveOutcome \<Rightarrow> 'x
     \<Rightarrow> protocolLiveOutcome \<times> 'x" where
  "executeBuilt deps uctx built o0 x =
     (case built of
        Inl r \<Rightarrow> (setProtocolOutcomeResponse r answerModeToolFirst o0, x)
      | Inr req \<Rightarrow> live_execute deps uctx req o0 x)"

definition ruleRequest :: "UserContext option \<Rightarrow> string \<Rightarrow> ProtocolDraft \<Rightarrow> ResponseModel + OperationRequest" where
  "ruleRequest uctx message draft =
     (let topic = protocolRuleTopic message draft in
      case buildOperationRequest draft
             (noTrustedEntities\<lparr>TE_UserRole := inputUserRole uctx, TE_TenantID := userTenantID uctx,
                TE_TrustedParams := trustedParamsFromValues (userTenantID uctx)
                  \<lparr>SourceKind = TrustedParamSourceRawSlot, SourceRaw = topic, Resolver = ''rule_topic_slot''\<rparr>
                  [(''rule_topic'', GoString topic)]\<rparr>) of
        None \<Rightarrow> Inl (missingOperationParamsResponse (Operation draft) [''rule_topic''])
      | Some req \<Rightarrow> Inr req)"

definition conversationRequest :: "UserContext option \<Rightarrow> OperationManifest \<Rightarrow> OperationRequest" where
  "conversationRequest uctx manifest =
     userRequest uctx (OM_Name manifest)
       (trustedParamsFromValues (userTenantID uctx)
          \<lparr>SourceKind = TrustedParamSourceRuntime, SourceRaw = [], Resolver = ''conversation_runtime''\<rparr>
          [(''conversation_id'', GoString (userConversationID uctx))])"

definition live_dispatch ::
  "'x liveDeps \<Rightarrow> dispatchBinding \<Rightarrow> string \<Rightarrow> UserContext option \<Rightarrow> ProtocolDraft \<Rightarrow> OperationManifest
     \<Rightarrow> WorkflowSnapshot option \<Rightarrow> protocolLiveOutcome \<Rightarrow> 'x \<Rightarrow> protocolLiveOutcome \<times> 'x" where
  "live_dispatch deps binding message uctx draft manifest active o0 x =
     (case binding of
        dispatchAttendance \<Rightarrow> executeBuilt deps uctx (attendanceRequest deps draft (userTenantID uctx)) o0 x
      | dispatchSchedule \<Rightarrow> executeBuilt deps uctx (scheduleRequest deps draft (userTenantID uctx)) o0 x
      | dispatchRuleExplain \<Rightarrow> executeBuilt deps uctx (ruleRequest uctx message draft) o0 x
      | dispatchCapability \<Rightarrow> live_execute deps uctx (bareRequest (OM_Name manifest)) o0 x
      | dispatchRuntimeConversation \<Rightarrow> live_execute deps uctx (conversationRequest uctx manifest) o0 x
      | dispatchSubscriptionWorkflow \<Rightarrow> handleSubscription deps message uctx draft active o0 x)"

section \<open>A turn\<close>

definition protocolLiveCompileFailure :: "bool \<Rightarrow> protocolLiveOutcome \<Rightarrow> protocolLiveOutcome" where
  "protocolLiveCompileFailure canceled o0 =
     (let code = (if canceled then ''request_canceled'' else ''intent_compile_failed'') in
      setProtocolOutcomeResponse (refuse zh_aborted) answerModeReject
        (o0\<lparr>LO_BlockedReason := (if canceled then ''request_canceled'' else LO_BlockedReason o0),
            LO_Draft := Some (unknownIntentDraft code),
            LO_Validation := refusal ''intent_compile_failed'' False False ResponseRefuse,
            LO_FailureLayer := FailureIntent\<rparr>))"

definition actText :: "userAct \<Rightarrow> string" where
  "actText act =
     (case act of
        ActCapabilityQuestion \<Rightarrow> ''capability_question'' | ActRuleQuestion \<Rightarrow> ''rule_question''
      | ActReadQuery \<Rightarrow> ''read_query'' | ActWriteRequest \<Rightarrow> ''write_request''
      | ActWorkflowContinue \<Rightarrow> ''workflow_continue'' | ActWorkflowCancel \<Rightarrow> ''workflow_cancel''
      | ActHelp \<Rightarrow> ''help'' | ActUnknown \<Rightarrow> ''unknown'' | OtherAct s \<Rightarrow> s)"

text \<open>The draft was validated and the arbiter heard: what the outcome then holds, and the workflow
  that is still active.\<close>

definition validatedOutcome ::
  "'x liveDeps \<Rightarrow> UserContext option \<Rightarrow> ProtocolDraft \<Rightarrow> WorkflowSnapshot option \<Rightarrow> WorkflowSnapshot option
     \<Rightarrow> protocolLiveOutcome \<Rightarrow> protocolLiveOutcome \<times> WorkflowSnapshot option" where
  "validatedOutcome deps uctx draft received active o0 =
     (let validation = prePolicyGate_Validate \<lparr>PI_Draft = draft,
            PI_ActiveWorkflow = protocolWorkflowContextFromWorkflowSnapshot active,
            PI_ConversationType = userConversationType uctx, PI_UserRole = inputUserRole uctx,
            PI_HasUserContext = uctx \<noteq> None\<rparr>;
          arbiter = workflowArbiter_Decide (LD_Clock deps 1) draft received;
          o1 = o0\<lparr>LO_Draft := Some draft, LO_Validation := validation, LO_AnswerMode := answerModeReject,
                 LO_CatalogValidationCode := ValidationCode validation,
                 LO_PrePolicyResult := protocolPrePolicyResult validation\<rparr>;
          o2 = (if AR_Expired arbiter
                then o1\<lparr>LO_WorkflowDecision := Some (AR_Decision arbiter),
                        LO_WorkflowInterruptReason := ''expired'', LO_ClearWorkflow := True\<rparr>
                else o1);
          result = interruptActiveWorkflow active draft
      in if InterruptActiveWorkflow validation then
           (o2\<lparr>LO_WorkflowDecision := Some (WR_Decision result),
               LO_WorkflowInterruptReason := actText (Act draft),
               LO_ClearWorkflow := workflowResultTerminal result\<rparr>, None)
         else (o2, active))"

definition roleDenied :: "ResponseModel \<Rightarrow> protocolLiveOutcome \<Rightarrow> protocolLiveOutcome" where
  "roleDenied r o0 =
     (setProtocolOutcomeResponse r answerModeReject
        (o0\<lparr>LO_Validation := (LO_Validation o0)\<lparr>AllowExecution := False, VR_ResponseKind := ResponseRefuse\<rparr>\<rparr>))
       \<lparr>LO_BlockedReason := ''role_denied'', LO_PrePolicyResult := ''deny:role_denied'',
        LO_FailureLayer := FailurePrePolicyDenied\<rparr>"

definition cancelWorkflow ::
  "UserContext option \<Rightarrow> ProtocolDraft \<Rightarrow> WorkflowSnapshot option \<Rightarrow> protocolLiveOutcome
     \<Rightarrow> protocolLiveOutcome" where
  "cancelWorkflow uctx draft active o0 =
     (case active of
        None \<Rightarrow> guarded draft uctx o0
      | Some w \<Rightarrow>
          let result = continueWorkflow w draft noTrustedEntities in
          setProtocolOutcomeResponse ((response ResponseResult)\<lparr>RM_ResultText := zh_task_cancelled\<rparr>)
            answerModeToolFirst
            (o0\<lparr>LO_WorkflowDecision := Some (WR_Decision result),
                LO_ClearWorkflow := workflowResultTerminal result\<rparr>))"

definition abortedOutcome :: "protocolLiveOutcome \<Rightarrow> protocolLiveOutcome" where
  "abortedOutcome o0 =
     setProtocolOutcomeResponse (refuse zh_aborted) answerModeReject
       (o0\<lparr>LO_BlockedReason := ''request_canceled'', LO_FailureLayer := FailureIntent\<rparr>)"

definition dispatchOperation ::
  "'x liveDeps \<Rightarrow> string \<Rightarrow> UserContext option \<Rightarrow> ProtocolDraft \<Rightarrow> WorkflowSnapshot option
     \<Rightarrow> protocolLiveOutcome \<Rightarrow> 'x \<Rightarrow> protocolLiveOutcome \<times> 'x" where
  "dispatchOperation deps message uctx draft active o0 x =
     (case lookupOperation (Operation draft) of
        None \<Rightarrow> (guarded draft uctx o0, x)
      | Some manifest \<Rightarrow>
          if LD_Canceled deps then (abortedOutcome o0, x)
          else let o1 = (if RendererName manifest \<noteq> [] then o0\<lparr>LO_RendererName := RendererName manifest\<rparr>
                         else o0) in
            (case lookupProtocolLiveDispatch (Dispatch manifest) of
               Some binding \<Rightarrow> live_dispatch deps binding message uctx draft manifest active o1 x
             | None \<Rightarrow> (guarded draft uctx o1, x)))"

definition handleDraft ::
  "'x liveDeps \<Rightarrow> string \<Rightarrow> UserContext option \<Rightarrow> ProtocolDraft \<Rightarrow> WorkflowSnapshot option
     \<Rightarrow> protocolLiveOutcome \<Rightarrow> 'x \<Rightarrow> protocolLiveOutcome \<times> 'x" where
  "handleDraft deps message uctx draft active o0 x =
     (case protocolLiveRoleRefusal uctx draft of
        Some r \<Rightarrow> (roleDenied r o0, x)
      | None \<Rightarrow>
          if \<not> protocolPrimaryDispatchAllowed (LO_Validation o0) then (guarded draft uctx o0, x)
          else if Act draft = ActWorkflowCancel then (cancelWorkflow uctx draft active o0, x)
          else dispatchOperation deps message uctx draft active o0 x)"

definition startedOutcome :: "'x liveDeps \<Rightarrow> protocolLiveOutcome" where
  "startedOutcome deps =
     emptyOutcome\<lparr>LO_RequestID := LD_RequestID deps, LO_RendererName := ''response_renderer''\<rparr>"

definition live_Handle ::
  "'x liveDeps \<Rightarrow> string \<Rightarrow> UserContext option \<Rightarrow> WorkflowSnapshot option \<Rightarrow> 'x
     \<Rightarrow> protocolLiveOutcome \<times> 'x" where
  "live_Handle deps message uctx received x =
     (let active = (if workflowExpired received (LD_Clock deps 0) then None else received);
          finish = map_prod (finalizeProtocolLiveOutcome (LD_RequestID deps)) id
      in case LD_Compile deps message (protocolWorkflowContextFromWorkflowSnapshot active) of
           Inl canceled \<Rightarrow> finish (protocolLiveCompileFailure canceled (startedOutcome deps), x)
         | Inr draft \<Rightarrow>
             (case validatedOutcome deps uctx draft received active (startedOutcome deps) of
                (o1, active') \<Rightarrow> finish (handleDraft deps message uctx draft active' o1 x)))"

end
