(* ===== verification/LiveGates.thy ===== *)
theory LiveGates
  imports LiveHandle
begin

text \<open>
  What a turn of the live pipeline does: it runs at most one operation and never a write, and a
  write it prepared has passed the policy gate, the role check, the resource gate and the write
  guard, under the business key of the request.
\<close>

section \<open>One operation behind the gates\<close>

text \<open>The operation has a manifest that says it writes.\<close>

definition writes :: "string \<Rightarrow> bool" where
  "writes operation \<longleftrightarrow> (case lookupOperation operation of None \<Rightarrow> False | Some m \<Rightarrow> IsWrite m)"

text \<open>What a prepared write is: the resource gate and the write guard allow the request, and its
  key is the business key.\<close>

definition preparedFor ::
  "(string + DeptItem list) option \<Rightarrow> UserContext option \<Rightarrow> string \<Rightarrow> preparedWriteExecution \<Rightarrow> bool" where
  "preparedFor dept uctx operation px \<longleftrightarrow>
     OR_Operation (WX_Request px) = operation \<and> writes operation
     \<and> RG_Allow (resourcePolicyGate_Validate \<lparr>RG_User = uctx, RG_Request = WX_Request px, RG_Dept = dept\<rparr>)
     \<and> (\<exists>w. WG_Allow (writeGuard_Check \<lparr>WG_User = uctx, WG_Manifest = lookupOperation operation,
              WG_Request = WX_Request px, WG_Workflow = w, WG_Confirmed = False\<rparr>))
     \<and> subscriptionBusinessKeyForRequest (WX_Request px) = Inr (WX_BusinessKey px)
     \<and> OR_IdempotencyKey (WX_Request px) = WX_BusinessKey px"

text \<open>From outcome and world before to outcome and world after.\<close>

definition gatedStep ::
  "'x liveDeps \<Rightarrow> UserContext option \<Rightarrow> string \<Rightarrow> protocolLiveOutcome \<times> 'x \<Rightarrow> protocolLiveOutcome \<times> 'x
     \<Rightarrow> bool" where
  "gatedStep deps uctx operation before after \<longleftrightarrow>
     LO_Draft (fst after) = LO_Draft (fst before)
     \<and> (snd after = snd before
        \<or> (\<exists>req. \<not> writes (OR_Operation req) \<and> snd after = snd (LD_Executor deps req (snd before))))
     \<and> (case LO_PreparedWrite (fst after) of
          None \<Rightarrow> True
        | Some px \<Rightarrow> preparedFor (LD_Departments deps) uctx operation px \<and> snd after = snd before
            \<and> LO_Validation (fst after) = LO_Validation (fst before))"

lemma gate_ignores_key [simp]:
  "resourcePolicyGate_Validate (in'\<lparr>RG_Request := req\<lparr>OR_IdempotencyKey := k\<rparr>\<rparr>)
     = resourcePolicyGate_Validate (in'\<lparr>RG_Request := req\<rparr>)"
  "resourcePolicyGate_Validate \<lparr>RG_User = u, RG_Request = req\<lparr>OR_IdempotencyKey := k\<rparr>, RG_Dept = d\<rparr>
     = resourcePolicyGate_Validate \<lparr>RG_User = u, RG_Request = req, RG_Dept = d\<rparr>"
proof -
  have policy: "checkPolicy (in'\<lparr>RG_Request := req\<lparr>OR_IdempotencyKey := k\<rparr>\<rparr>) p = checkPolicy (in'\<lparr>RG_Request := req\<rparr>) p"
    for in' p
    by (simp add: checkPolicy_def validateDepartmentScope_def cong: option.case_cong sum.case_cong if_cong)
  have policies: "checkPolicies (in'\<lparr>RG_Request := req\<lparr>OR_IdempotencyKey := k\<rparr>\<rparr>) ps
      = checkPolicies (in'\<lparr>RG_Request := req\<rparr>) ps" for in' ps
    by (induction ps) (simp_all add: policy cong: option.case_cong)
  show eq: "resourcePolicyGate_Validate (in'\<lparr>RG_Request := req\<lparr>OR_IdempotencyKey := k\<rparr>\<rparr>)
      = resourcePolicyGate_Validate (in'\<lparr>RG_Request := req\<rparr>)" for in'
    by (simp add: resourcePolicyGate_Validate_def policies requestConversationMatchesUser_def Let_def
      cong: option.case_cong if_cong)
  show "resourcePolicyGate_Validate \<lparr>RG_User = u, RG_Request = req\<lparr>OR_IdempotencyKey := k\<rparr>, RG_Dept = d\<rparr>
      = resourcePolicyGate_Validate \<lparr>RG_User = u, RG_Request = req, RG_Dept = d\<rparr>"
    using eq [of "\<lparr>RG_User = u, RG_Request = req, RG_Dept = d\<rparr>"] by simp
qed

lemma idempotency_ignores_key:
  "idempotencyParts fs \<lparr>WG_User = u, WG_Manifest = m, WG_Request = req\<lparr>OR_IdempotencyKey := k\<rparr>,
       WG_Workflow = w, WG_Confirmed = c\<rparr>
     = idempotencyParts fs \<lparr>WG_User = u, WG_Manifest = m, WG_Request = req, WG_Workflow = w, WG_Confirmed = c\<rparr>"
  (is "idempotencyParts fs ?in' = idempotencyParts fs ?in")
proof (induction fs)
  case (Cons f fs)
  have "idempotencyFieldValue f ?in' = idempotencyFieldValue f ?in"
    by (simp add: idempotencyFieldValue_def Let_def cong: option.case_cong if_cong)
  with Cons show ?case by (simp cong: option.case_cong)
qed simp

lemma guard_parts_ignore_key [simp]:
  "writeGuardManifest \<lparr>WG_User = u, WG_Manifest = m, WG_Request = req\<lparr>OR_IdempotencyKey := k\<rparr>,
       WG_Workflow = w, WG_Confirmed = c\<rparr>
     = writeGuardManifest \<lparr>WG_User = u, WG_Manifest = m, WG_Request = req, WG_Workflow = w, WG_Confirmed = c\<rparr>"
  "buildIdempotencyKey manifest \<lparr>WG_User = u, WG_Manifest = m, WG_Request = req\<lparr>OR_IdempotencyKey := k\<rparr>,
       WG_Workflow = w, WG_Confirmed = c\<rparr>
     = buildIdempotencyKey manifest
         \<lparr>WG_User = u, WG_Manifest = m, WG_Request = req, WG_Workflow = w, WG_Confirmed = c\<rparr>"
  by (simp_all add: writeGuardManifest_def buildIdempotencyKey_def idempotency_ignores_key
      cong: option.case_cong if_cong)

lemma guard_ignores_key [simp]:
  "writeGuard_Check \<lparr>WG_User = u, WG_Manifest = m, WG_Request = req\<lparr>OR_IdempotencyKey := k\<rparr>,
       WG_Workflow = w, WG_Confirmed = c\<rparr>
     = writeGuard_Check \<lparr>WG_User = u, WG_Manifest = m, WG_Request = req, WG_Workflow = w, WG_Confirmed = c\<rparr>"
  by (simp add: writeGuard_Check_def Let_def cong: option.case_cong if_cong)

lemma businessKey_ignores_key [simp]:
  "subscriptionBusinessKeyForRequest (req\<lparr>OR_IdempotencyKey := k\<rparr>) = subscriptionBusinessKeyForRequest req"
  by (simp add: subscriptionBusinessKeyForRequest_def subscriptionBusinessKeyOf_def)

lemma request_operation [simp]:
  "OR_Operation (bareRequest operation) = operation" "OR_Operation (userRequest uctx operation ps) = operation"
  by (simp_all add: bareRequest_def userRequest_def)

lemma setProtocolOutcomeResponse_simps [simp]:
  "LO_Draft (setProtocolOutcomeResponse r mode o0) = LO_Draft o0"
  "LO_Validation (setProtocolOutcomeResponse r mode o0) = LO_Validation o0"
  "LO_PreparedWrite (setProtocolOutcomeResponse r mode o0) = LO_PreparedWrite o0"
  "LO_WorkflowAfter (setProtocolOutcomeResponse r mode o0) = LO_WorkflowAfter o0"
  "LO_ClearWorkflow (setProtocolOutcomeResponse r mode o0) = LO_ClearWorkflow o0"
  "LO_RequestID (setProtocolOutcomeResponse r mode o0) = LO_RequestID o0"
  "LO_WorkflowDecision (setProtocolOutcomeResponse r mode o0) = LO_WorkflowDecision o0"
  "LO_Response (setProtocolOutcomeResponse r mode o0) = r"
  by (simp_all add: setProtocolOutcomeResponse_def)

lemma addResolvedParams_simps [simp]:
  "LO_Draft (addResolvedParams req o0) = LO_Draft o0"
  "LO_Validation (addResolvedParams req o0) = LO_Validation o0"
  "LO_PreparedWrite (addResolvedParams req o0) = LO_PreparedWrite o0"
  "LO_WorkflowAfter (addResolvedParams req o0) = LO_WorkflowAfter o0"
  "LO_ClearWorkflow (addResolvedParams req o0) = LO_ClearWorkflow o0"
  by (simp_all add: addResolvedParams_def)

lemma enrich_operation [simp]: "OR_Operation (enrichOperationRequestFromUser req uctx) = OR_Operation req"
  by (simp add: enrichOperationRequestFromUser_def Let_def split: option.splits)

lemma runOperation_snd [simp]: "snd (runOperation run req o0 x) = snd (run req x)"
  and runOperation_draft [simp]: "LO_Draft (fst (runOperation run req o0 x)) = LO_Draft o0"
  and runOperation_prepared [simp]: "LO_PreparedWrite (fst (runOperation run req o0 x)) = LO_PreparedWrite o0"
  by (simp_all add: runOperation_def Let_def split: prod.split)

lemma prepareWrite_prepared:
  assumes "LO_PreparedWrite (prepareWrite req o0) = Some px" and "LO_PreparedWrite o0 = None"
  shows "\<exists>key. subscriptionBusinessKeyForRequest req = Inr key
      \<and> px = \<lparr>WX_Request = req\<lparr>OR_IdempotencyKey := key\<rparr>, WX_BusinessKey = key, WX_ClearWorkflowOnSuccess = False\<rparr>"
  using assms by (auto simp: prepareWrite_def Let_def split: sum.splits)

lemma prepareWrite_simps [simp]:
  "LO_Draft (prepareWrite req o0) = LO_Draft o0" "LO_Validation (prepareWrite req o0) = LO_Validation o0"
  by (simp_all add: prepareWrite_def Let_def split: sum.split)

lemma guardWrite_simps [simp]:
  "LO_Draft (guardWrite uctx m req o0) = LO_Draft o0" "LO_Validation (guardWrite uctx m req o0) = LO_Validation o0"
  by (simp_all add: guardWrite_def blockedOutcome_def Let_def)

lemma guardWrite_prepared:
  assumes "LO_PreparedWrite (guardWrite uctx m req o0) = Some px" and "LO_PreparedWrite o0 = None"
  shows "WG_Allow (writeGuard_Check \<lparr>WG_User = uctx, WG_Manifest = Some m, WG_Request = req,
           WG_Workflow = LO_WorkflowAfter o0, WG_Confirmed = False\<rparr>)
    \<and> (\<exists>key. subscriptionBusinessKeyForRequest req = Inr key
         \<and> px = \<lparr>WX_Request = req\<lparr>OR_IdempotencyKey := key\<rparr>, WX_BusinessKey = key, WX_ClearWorkflowOnSuccess = False\<rparr>)"
  using assms
  by (auto simp: guardWrite_def blockedOutcome_def Let_def dest!: prepareWrite_prepared split: if_splits)

lemma execute_gated:
  assumes "LO_PreparedWrite o0 = None"
  shows "gatedStep deps uctx (OR_Operation req) (o0, x) (live_execute deps uctx req o0 x)"
proof -
  let ?req = "enrichOperationRequestFromUser req uctx"
  show ?thesis
  proof (cases "RG_Allow (resourcePolicyGate_Validate
      \<lparr>RG_User = uctx, RG_Request = ?req, RG_Dept = LD_Departments deps\<rparr>)")
    case False
    then show ?thesis using assms
      by (simp add: live_execute_def pipeline_execute_def gatedStep_def deniedOutcome_def Let_def)
  next
    case allowed: True
    show ?thesis
    proof (cases "writes (OR_Operation req)")
      case True
      then obtain m where m: "lookupOperation (OR_Operation req) = Some m" "IsWrite m"
        by (auto simp: writes_def split: option.splits)
      have exec: "live_execute deps uctx req o0 x
          = (guardWrite uctx m ?req (o0\<lparr>LO_ResourcePolicyResult := ''allow''\<rparr>), x)"
        using allowed m by (simp add: live_execute_def pipeline_execute_def Let_def)
      show ?thesis
      proof (cases "LO_PreparedWrite (guardWrite uctx m ?req (o0\<lparr>LO_ResourcePolicyResult := ''allow''\<rparr>))")
        case None
        then show ?thesis by (simp add: exec gatedStep_def)
      next
        case (Some px)
        from guardWrite_prepared[OF this] assms obtain key where
          "WG_Allow (writeGuard_Check \<lparr>WG_User = uctx, WG_Manifest = Some m, WG_Request = ?req,
             WG_Workflow = LO_WorkflowAfter o0, WG_Confirmed = False\<rparr>)"
          and "subscriptionBusinessKeyForRequest ?req = Inr key"
          and "px = \<lparr>WX_Request = ?req\<lparr>OR_IdempotencyKey := key\<rparr>, WX_BusinessKey = key, WX_ClearWorkflowOnSuccess = False\<rparr>"
          by auto
        then have "preparedFor (LD_Departments deps) uctx (OR_Operation req) px"
          using allowed True m by (auto simp: preparedFor_def)
        with Some show ?thesis by (simp add: exec gatedStep_def)
      qed
    next
      case False
      then have "live_execute deps uctx req o0 x
          = runOperation (LD_Executor deps) ?req (o0\<lparr>LO_ResourcePolicyResult := ''allow''\<rparr>) x"
        using allowed by (simp add: live_execute_def pipeline_execute_def Let_def writes_def split: option.splits)
      with False assms show ?thesis
        by (auto simp: gatedStep_def intro!: exI[of _ ?req])
    qed
  qed
qed

section \<open>The steps of a turn\<close>

lemma gatedStep_stay:
  "LO_Draft o1 = LO_Draft o0 \<Longrightarrow> LO_PreparedWrite o1 = None \<Longrightarrow> gatedStep deps uctx operation (o0, x) (o1, x)"
  by (simp add: gatedStep_def)

lemma gatedStep_from:
  assumes "gatedStep deps uctx operation (o1, x) after" and "LO_Draft o1 = LO_Draft o0"
    and "LO_Validation o1 = LO_Validation o0"
  shows "gatedStep deps uctx operation (o0, x) after"
  using assms by (simp add: gatedStep_def split: option.splits)

text \<open>Only the workflow and the mark of the prepared write are touched afterwards.\<close>

lemma gatedStep_then:
  assumes "gatedStep deps uctx operation before (o1, x1)"
    and "LO_Draft o2 = LO_Draft o1" and "LO_Validation o2 = LO_Validation o1"
    and "LO_PreparedWrite o2 = map_option f (LO_PreparedWrite o1)"
    and "\<And>px. WX_Request (f px) = WX_Request px \<and> WX_BusinessKey (f px) = WX_BusinessKey px"
  shows "gatedStep deps uctx operation before (o2, x1)"
  using assms by (cases "LO_PreparedWrite o1") (auto simp: gatedStep_def preparedFor_def)

lemma not_writing_step:
  assumes "gatedStep deps uctx op before after" and "\<not> writes op"
  shows "gatedStep deps uctx op' before after"
  using assms by (auto simp: gatedStep_def preparedFor_def split: option.splits)

lemma list_operation: "listDepartmentsOperation = ''subscription.list_departments''"
  by (simp add: listDepartmentsOperation_def workflowAuxiliaryOperationName_def
      lookupWorkflowPrimaryOperation_def operationManifests_def operationCatalogEntries_def catalog_manifests
      singleTurnWorkflowSpec_def)

lemma start_operation: "startOperation = ''subscription.start''"
  by (simp add: startOperation_def)

lemma list_reads: "\<not> writes listDepartmentsOperation"
  by (simp add: writes_def list_operation op_subscription_list_departments_def)

lemma guarded_simps [simp]:
  "LO_Draft (guarded draft uctx o0) = LO_Draft o0"
  "LO_PreparedWrite (guarded draft uctx o0) = LO_PreparedWrite o0"
  "LO_Validation (guarded draft uctx o0) = LO_Validation o0"
  by (simp_all add: guarded_def split: prod.split)

lemma listDepartments_gated:
  assumes "LO_PreparedWrite o0 = None"
  shows "gatedStep deps uctx operation (o0, x) (listDepartments deps uctx o0 x)"
proof -
  obtain o1 x1 where exec: "live_execute deps uctx (bareRequest listDepartmentsOperation) o0 x = (o1, x1)"
    by (cases "live_execute deps uctx (bareRequest listDepartmentsOperation) o0 x")
  have "gatedStep deps uctx listDepartmentsOperation (o0, x) (o1, x1)"
    using execute_gated[OF assms, of deps uctx "bareRequest listDepartmentsOperation" x]
    by (simp add: exec)
  then have "gatedStep deps uctx operation (o0, x) (o1, x1)" using list_reads by (rule not_writing_step)
  then show ?thesis
    by (simp add: listDepartments_def exec) (erule gatedStep_then[where f = id]; simp add: option.map_id)
qed

lemma startSubscription_gated:
  assumes "LO_PreparedWrite o0 = None"
  shows "gatedStep deps uctx startOperation (o0, x) (startSubscription deps uctx w o0 x)"
proof -
  let ?req = "userRequest uctx startOperation (subscriptionStartTrustedParams uctx (WF_Trusted w)
      (subscriptionDeptIDsFromTrusted (WF_Trusted w)))"
  have "gatedStep deps uctx startOperation (o0\<lparr>LO_WorkflowAfter := Some w\<rparr>, x)
      (live_execute deps uctx ?req (o0\<lparr>LO_WorkflowAfter := Some w\<rparr>) x)"
    using execute_gated[of "o0\<lparr>LO_WorkflowAfter := Some w\<rparr>" deps uctx ?req x] assms
    by simp
  then have step: "gatedStep deps uctx startOperation (o0, x)
      (live_execute deps uctx ?req (o0\<lparr>LO_WorkflowAfter := Some w\<rparr>) x)"
    by (rule gatedStep_from) simp_all
  obtain o1 x1 where exec: "live_execute deps uctx ?req (o0\<lparr>LO_WorkflowAfter := Some w\<rparr>) x = (o1, x1)"
    by (cases "live_execute deps uctx ?req (o0\<lparr>LO_WorkflowAfter := Some w\<rparr>) x")
  show ?thesis
    using step unfolding exec
    by (simp add: startSubscription_def exec)
      (erule gatedStep_then[where f = "\<lambda>px. px\<lparr>WX_ClearWorkflowOnSuccess := True\<rparr>"]; simp)
qed

text \<open>A subscription turn gets ready only for a draft of the starting operation.\<close>

lemma ready_needs_start:
  assumes "WR_Decision (continueWorkflow w draft trusted) = WorkflowReadyToExecute"
    and "WF_Type w = WorkflowSubscriptionStart"
  shows "Operation draft = startOperation"
  using assms
  by (auto simp: continueWorkflow_def continueSubscriptionWorkflow_def Let_def start_operation
      split: if_splits)

lemma continueSubscription_gated:
  assumes "LO_PreparedWrite o0 = None" and "WF_Type w = WorkflowSubscriptionStart"
  shows "gatedStep deps uctx (Operation draft) (o0, x) (continueSubscription deps uctx draft w trusted o0 x)"
proof -
  let ?result = "continueWorkflow w draft trusted"
  have start: "gatedStep deps uctx (Operation draft) (o0, x) (startSubscription deps uctx v o1 x)"
    if "WR_Decision ?result = WorkflowReadyToExecute" and "LO_PreparedWrite o1 = None"
      and "LO_Draft o1 = LO_Draft o0" and "LO_Validation o1 = LO_Validation o0" for v o1
    using startSubscription_gated[OF that(2), of deps uctx x v] ready_needs_start[OF that(1) assms(2)] that(3,4)
    by (metis gatedStep_from)
  have list: "gatedStep deps uctx (Operation draft) (o0, x) (listDepartments deps uctx o1 x)"
    if "LO_PreparedWrite o1 = None" and "LO_Draft o1 = LO_Draft o0" and "LO_Validation o1 = LO_Validation o0" for o1
    using gatedStep_from[OF listDepartments_gated[OF that(1)] that(2,3)] .
  show ?thesis
    by (cases "WR_Decision ?result"; cases "WR_Workflow ?result")
      (simp_all add: continueSubscription_def Let_def start list gatedStep_stay assms(1))
qed

lemma continueSubscription_as:
  assumes "LO_PreparedWrite o0 = None" and "WF_Type w = WorkflowSubscriptionStart" and "Operation d = Operation draft"
  shows "gatedStep deps uctx (Operation draft) (o0, x) (continueSubscription deps uctx d w trusted o0 x)"
  using continueSubscription_gated[OF assms(1,2), of deps uctx d x trusted] assms(3) by simp

lemma start_type: "startWorkflow n draft = Some w \<Longrightarrow> WF_Type w = WorkflowSubscriptionStart"
  by (auto simp: startWorkflow_def split: if_splits)

text \<open>In the list branch the draft is turned into one of the starting operation, but without a
  department the dialogue only goes on.\<close>

lemma askDepartments_gated:
  assumes "LO_PreparedWrite o0 = None"
  shows "gatedStep deps uctx operation (o0, x) (askDepartments deps uctx draft active o0 x)"
proof (cases active)
  case None
  then show ?thesis by (simp add: askDepartments_def listDepartments_gated assms)
next
  case (Some w)
  let ?d = "draft\<lparr>Operation := startOperation\<rparr>" and ?t = "noTrustedEntities\<lparr>TE_Scope := ''department''\<rparr>"
  have list: "gatedStep deps uctx operation (o0, x) (listDepartments deps uctx o1 x)"
    if "LO_PreparedWrite o1 = None" and "LO_Draft o1 = LO_Draft o0" and "LO_Validation o1 = LO_Validation o0" for o1
    using gatedStep_from[OF listDepartments_gated[OF that(1)] that(2,3)] .
  have "gatedStep deps uctx operation (o0, x) (continueSubscription deps uctx ?d w ?t o0 x)"
    if "WF_Type w = WorkflowSubscriptionStart" "WF_State w = WorkflowCollectScope"
  proof -
    have "WR_Decision (continueWorkflow w ?d ?t) \<noteq> WorkflowReadyToExecute"
      using that by (auto simp: continueWorkflow_def continueSubscriptionWorkflow_def Let_def
          givenDeptIDs_def noTrustedEntities_def)
    then show ?thesis
      by (cases "WR_Decision (continueWorkflow w ?d ?t)"; cases "WR_Workflow (continueWorkflow w ?d ?t)")
        (simp_all add: continueSubscription_def Let_def list gatedStep_stay assms)
  qed
  with Some list assms show ?thesis by (simp add: askDepartments_def)
qed

lemma beginSubscription_gated:
  assumes "LO_PreparedWrite o0 = None"
  shows "gatedStep deps uctx (Operation draft) (o0, x) (beginSubscription deps uctx draft o0 x)"
proof (cases "startWorkflow (LD_UnixNano deps) draft")
  case None
  then show ?thesis by (simp add: beginSubscription_def gatedStep_stay assms)
next
  case (Some w)
  have "gatedStep deps uctx (Operation draft) (o0, x)
      (continueSubscription deps uctx (draft\<lparr>Act := ActWorkflowContinue\<rparr>) w trusted o0 x)" for trusted
    by (rule continueSubscription_as[OF assms start_type[OF Some]]) simp
  then have "Operation draft = startOperation \<Longrightarrow> gatedStep deps uctx startOperation (o0, x)
      (continueSubscription deps uctx (draft\<lparr>Act := ActWorkflowContinue\<rparr>) w trusted o0 x)" for trusted
    by metis
  with Some show ?thesis by (auto simp: beginSubscription_def gatedStep_stay assms split: option.split)
qed

lemma unresolvedSubscription_simps [simp]:
  "LO_Draft (unresolvedSubscription w a o0) = LO_Draft o0"
  "LO_PreparedWrite (unresolvedSubscription w a o0) = LO_PreparedWrite o0"
  by (simp_all add: unresolvedSubscription_def Let_def split: option.split list.split)

lemma handleSubscription_gated:
  assumes "LO_PreparedWrite o0 = None"
  shows "gatedStep deps uctx (Operation draft) (o0, x) (handleSubscription deps message uctx draft active o0 x)"
  unfolding handleSubscription_def
  using assms
  by (auto simp: gatedStep_stay askDepartments_gated beginSubscription_gated split: option.split sum.split
      intro!: continueSubscription_as)

lemma built_operation: "buildOperationRequest draft trusted = Some req \<Longrightarrow> OR_Operation req = Operation draft"
  by (auto simp: buildOperationRequest_def Let_def split: option.splits if_splits prod.splits)

lemma request_for_draft:
  "attendanceRequest deps draft t = Inr req \<Longrightarrow> OR_Operation req = Operation draft"
  "scheduleRequest deps draft t = Inr req \<Longrightarrow> OR_Operation req = Operation draft"
  "ruleRequest uctx message draft = Inr req \<Longrightarrow> OR_Operation req = Operation draft"
proof -
  show "attendanceRequest deps draft t = Inr req \<Longrightarrow> OR_Operation req = Operation draft"
    by (auto simp: attendanceRequest_def defaultWeek_def built_operation
        split: option.splits sum.splits if_splits prod.splits)
  show "scheduleRequest deps draft t = Inr req \<Longrightarrow> OR_Operation req = Operation draft"
    by (auto simp: scheduleRequest_def Let_def built_operation split: option.splits sum.splits)
  show "ruleRequest uctx message draft = Inr req \<Longrightarrow> OR_Operation req = Operation draft"
    by (auto simp: ruleRequest_def Let_def built_operation split: option.splits)
qed

lemma executeBuilt_gated:
  assumes "LO_PreparedWrite o0 = None" and "\<And>req. built = Inr req \<Longrightarrow> OR_Operation req = operation"
  shows "gatedStep deps uctx operation (o0, x) (executeBuilt deps uctx built o0 x)"
proof (cases built)
  case (Inr req)
  with execute_gated[OF assms(1), of deps uctx req x] assms(2) show ?thesis by (simp add: executeBuilt_def)
qed (simp add: executeBuilt_def gatedStep_stay assms(1))

lemma dispatch_gated:
  assumes "LO_PreparedWrite o0 = None" and "OM_Name manifest = Operation draft"
  shows "gatedStep deps uctx (Operation draft) (o0, x) (live_dispatch deps binding message uctx draft manifest active o0 x)"
  using execute_gated[OF assms(1), of deps uctx "bareRequest (Operation draft)" x]
    execute_gated[OF assms(1), of deps uctx "conversationRequest uctx manifest" x] assms
  by (cases binding)
    (auto simp: live_dispatch_def conversationRequest_def intro!: executeBuilt_gated handleSubscription_gated
      dest: request_for_draft)

lemma dispatchOperation_gated:
  assumes "LO_PreparedWrite o0 = None"
  shows "gatedStep deps uctx (Operation draft) (o0, x) (dispatchOperation deps message uctx draft active o0 x)"
proof (cases "lookupOperation (Operation draft)")
  case None
  then show ?thesis by (simp add: dispatchOperation_def gatedStep_stay assms)
next
  case (Some m)
  then have name: "OM_Name m = Operation draft" using lookupOperation_in by blast
  have "gatedStep deps uctx (Operation draft) (o0, x) (live_dispatch deps binding message uctx draft m active o1 x)"
    if "LO_PreparedWrite o1 = None" and "LO_Draft o1 = LO_Draft o0" and "LO_Validation o1 = LO_Validation o0"
    for binding o1
    by (rule gatedStep_from[OF dispatch_gated[OF that(1) name] that(2,3)])
  with Some assms show ?thesis
    by (auto simp: dispatchOperation_def Let_def abortedOutcome_def gatedStep_stay split: option.split)
qed

text \<open>A draft of a writing operation is dispatched only when the policy gate allows it.\<close>

lemma writes_iff: "writes operation \<longleftrightarrow> operation = ''subscription.start'' \<or> operation = ''subscription.cancel''"
  by (auto simp: writes_def lookupOperation_def operationCatalogEntries_def catalog_manifests)

lemma writing_manifest:
  assumes "writes operation"
  obtains m where "lookupOperation operation = Some m" and "RendererKind m = ResponseResult" and "MinRole m = 1"
  using assms by (auto simp: writes_iff op_subscription_start_def op_subscription_cancel_def)

lemma enforced_refusal:
  "enforcePreUserPolicy input m i = Some r \<Longrightarrow> \<not> AllowExecution r \<and> VR_ResponseKind r = ResponseRefuse
     \<and> \<not> UseActiveWorkflow r"
  by (auto simp: enforcePreUserPolicy_def split: if_splits)

lemma writing_dispatch_allowed:
  assumes "protocolPrimaryDispatchAllowed (prePolicyGate_Validate input)"
    and "writes (Operation (PI_Draft input))" and "Act (PI_Draft input) \<noteq> ActWorkflowCancel"
  shows "AllowExecution (prePolicyGate_Validate input)"
proof (rule ccontr)
  assume denied: "\<not> ?thesis"
  obtain m where m: "lookupOperation (Operation (PI_Draft input)) = Some m" "RendererKind m = ResponseResult"
    using writing_manifest[OF assms(2)] by blast
  have kind: "VR_ResponseKind (prePolicyGate_Validate input) = ResponseAnswer
      \<or> UseActiveWorkflow (prePolicyGate_Validate input) \<and> VR_ResponseKind (prePolicyGate_Validate input) = ResponseResult"
    using assms(1) denied by (auto simp: protocolPrimaryDispatchAllowed_def)
  show False
  proof (cases "Act (PI_Draft input) = ActWorkflowContinue")
    case True
    then show ?thesis using kind denied
      by (auto simp: prePolicyGate_Validate_def Let_def validateWorkflowContinue_def m dest: enforced_refusal
          split: option.splits if_splits)
  next
    case False
    have byAct: "\<not> AllowExecution (validateByAct input m i) \<Longrightarrow>
        VR_ResponseKind (validateByAct input m i) \<noteq> ResponseAnswer \<and> \<not> UseActiveWorkflow (validateByAct input m i)" for i
      by (auto simp: validateByAct_def Let_def catalogResponseKind_def m(2) dest: enforced_refusal
          split: userAct.splits option.splits if_splits)
    show ?thesis using kind denied False assms(3) byAct
      by (auto simp: prePolicyGate_Validate_def Let_def m(1) split: if_splits)
  qed
qed

lemma role_passed:
  assumes "protocolLiveRoleRefusal uctx draft = None" and "Act draft \<noteq> ActWorkflowCancel" and "writes (Operation draft)"
  shows "\<exists>u. uctx = Some u \<and> 1 \<le> UC_UserRole u"
proof -
  obtain m where "lookupOperation (Operation draft) = Some m" "MinRole m = 1"
    using assms(3) by (rule writing_manifest)
  with assms(1,2) show ?thesis
    by (cases uctx) (simp_all add: protocolLiveRoleRefusal_def inputUserRole_def split: if_splits)
qed

lemma handleDraft_gated:
  assumes "LO_PreparedWrite o0 = None"
  shows "gatedStep deps uctx (Operation draft) (o0, x) (handleDraft deps message uctx draft active o0 x)"
    and "LO_PreparedWrite (fst (handleDraft deps message uctx draft active o0 x)) = Some px \<Longrightarrow>
      protocolLiveRoleRefusal uctx draft = None \<and> protocolPrimaryDispatchAllowed (LO_Validation o0)
      \<and> Act draft \<noteq> ActWorkflowCancel"
proof -
  have stay: "LO_PreparedWrite (guarded draft uctx o0) = None" "LO_PreparedWrite (cancelWorkflow uctx draft active o0) = None"
    "LO_Draft (cancelWorkflow uctx draft active o0) = LO_Draft o0"
    "LO_PreparedWrite (roleDenied r o0) = None" "LO_Draft (roleDenied r o0) = LO_Draft o0" for r
    using assms by (simp_all add: cancelWorkflow_def roleDenied_def Let_def split: option.split)
  show "gatedStep deps uctx (Operation draft) (o0, x) (handleDraft deps message uctx draft active o0 x)"
    by (simp add: handleDraft_def gatedStep_stay stay assms dispatchOperation_gated[OF assms] split: option.split)
  show "LO_PreparedWrite (fst (handleDraft deps message uctx draft active o0 x)) = Some px \<Longrightarrow>
      protocolLiveRoleRefusal uctx draft = None \<and> protocolPrimaryDispatchAllowed (LO_Validation o0)
      \<and> Act draft \<noteq> ActWorkflowCancel"
    by (cases "protocolLiveRoleRefusal uctx draft"; cases "protocolPrimaryDispatchAllowed (LO_Validation o0)")
      (simp_all add: handleDraft_def stay assms split: if_splits)
qed

lemma finalize_simps [simp]:
  "LO_Draft (finalizeProtocolLiveOutcome i o0) = LO_Draft o0"
  "LO_Validation (finalizeProtocolLiveOutcome i o0) = LO_Validation o0"
  "LO_PreparedWrite (finalizeProtocolLiveOutcome i o0) = LO_PreparedWrite o0"
  "LO_WorkflowAfter (finalizeProtocolLiveOutcome i o0) = LO_WorkflowAfter o0"
  "LO_ClearWorkflow (finalizeProtocolLiveOutcome i o0) = LO_ClearWorkflow o0"
  "LO_Response (finalizeProtocolLiveOutcome i o0) = LO_Response o0"
  by (simp_all add: finalizeProtocolLiveOutcome_def Let_def)

text \<open>The gates a prepared write has passed.\<close>

definition passedGates :: "'x liveDeps \<Rightarrow> UserContext option \<Rightarrow> protocolLiveOutcome \<Rightarrow> preparedWriteExecution \<Rightarrow> bool" where
  "passedGates deps uctx o1 px \<longleftrightarrow>
     (\<exists>u draft. uctx = Some u \<and> 1 \<le> UC_UserRole u \<and> LO_Draft o1 = Some draft
        \<and> AllowExecution (LO_Validation o1) \<and> preparedFor (LD_Departments deps) uctx (Operation draft) px)"

lemma handle_gated:
  assumes "live_Handle deps message uctx received x = (o1, x')"
  shows "x' = x \<or> (\<exists>req. \<not> writes (OR_Operation req) \<and> x' = snd (LD_Executor deps req x))"
    and "LO_PreparedWrite o1 = Some px \<Longrightarrow> x' = x \<and> passedGates deps uctx o1 px"
proof -
  let ?active = "if workflowExpired received (LD_Clock deps 0) then None else received"
  have "(x' = x \<or> (\<exists>req. \<not> writes (OR_Operation req) \<and> x' = snd (LD_Executor deps req x)))
      \<and> (LO_PreparedWrite o1 = Some px \<longrightarrow> x' = x \<and> passedGates deps uctx o1 px)"
  proof (cases "LD_Compile deps message (protocolWorkflowContextFromWorkflowSnapshot ?active)")
    case (Inl canceled)
    with assms show ?thesis
      by (auto simp: live_Handle_def Let_def protocolLiveCompileFailure_def startedOutcome_def emptyOutcome_def)
  next
    case (Inr draft)
    obtain o0 active' where v: "validatedOutcome deps uctx draft received ?active (startedOutcome deps) = (o0, active')"
      by (cases "validatedOutcome deps uctx draft received ?active (startedOutcome deps)")
    define input where "input = \<lparr>PI_Draft = draft,
            PI_ActiveWorkflow = protocolWorkflowContextFromWorkflowSnapshot ?active,
            PI_ConversationType = userConversationType uctx, PI_UserRole = inputUserRole uctx,
            PI_HasUserContext = uctx \<noteq> None\<rparr>"
    have o0: "LO_Draft o0 = Some draft" "LO_PreparedWrite o0 = None" "LO_Validation o0 = prePolicyGate_Validate input"
      using v by (auto simp: validatedOutcome_def Let_def startedOutcome_def emptyOutcome_def input_def split: if_splits)
    obtain o2 where h: "handleDraft deps message uctx draft active' o0 x = (o2, x')"
      and o1: "o1 = finalizeProtocolLiveOutcome (LD_RequestID deps) o2"
      using assms Inr v by (auto simp: live_Handle_def Let_def map_prod_def split: prod.splits)
    have step: "gatedStep deps uctx (Operation draft) (o0, x) (o2, x')"
      using handleDraft_gated(1)[OF o0(2), of deps uctx draft x message active'] h by simp
    have "x' = x \<and> passedGates deps uctx o1 px" if px: "LO_PreparedWrite o2 = Some px"
    proof -
      from handleDraft_gated(2)[OF o0(2), of deps message uctx draft active' x px] h px
      have passed: "protocolLiveRoleRefusal uctx draft = None" "protocolPrimaryDispatchAllowed (LO_Validation o0)"
        "Act draft \<noteq> ActWorkflowCancel" by simp_all
      have prepared: "preparedFor (LD_Departments deps) uctx (Operation draft) px" "x' = x" "LO_Validation o2 = LO_Validation o0"
        using step px by (simp_all add: gatedStep_def)
      then have writes: "writes (Operation draft)" by (simp add: preparedFor_def)
      have "AllowExecution (LO_Validation o0)"
        using writing_dispatch_allowed[of input] passed writes o0(3) by (simp add: input_def)
      with role_passed[OF passed(1,3) writes] prepared o0(1) step show ?thesis
        by (auto simp: passedGates_def o1 gatedStep_def)
    qed
    with step show ?thesis by (auto simp: gatedStep_def o1)
  qed
  then show "x' = x \<or> (\<exists>req. \<not> writes (OR_Operation req) \<and> x' = snd (LD_Executor deps req x))"
    and "LO_PreparedWrite o1 = Some px \<Longrightarrow> x' = x \<and> passedGates deps uctx o1 px" by blast+
qed

end
