(* ===== verification/WriteCoordinator.thy ===== *)
theory WriteCoordinator
  imports LiveGates WorkflowContract
begin

text \<open>
  The write coordinator (src/internal/agent/protocol\_live\_write\_coordinator.go) and the turn loop
  of \<open>chat\<close> (agent.go): a prepared write is reserved in the store, run, its result recorded and the
  reservation released; any other outcome is persisted as the workflow of the conversation.

  The store is any \<open>serve\<close> of the locale \<open>workflow_store\<close>. Other requests and the recovery worker
  may call it before each call of this turn. WriteSafety proves, for every such store, that a write
  runs only after its reservation was stored and that success means a recorded result.
\<close>

section \<open>The coordinator\<close>

text \<open>The store, the environments of the calls of this turn and the calls of others before each of
  them, the executor, and for each attempt the clock, the completion time and the token.\<close>

record ('c, 's, 'x) turnDeps =
  CD_Serve :: "'c \<Rightarrow> storeOp \<Rightarrow> 's \<Rightarrow> storeResult \<times> 's"
  CD_Env :: "nat \<Rightarrow> 'c"
  CD_Others :: "nat \<Rightarrow> ('c \<times> storeOp) list"
  CD_Executor :: "'x executor"
  CD_Now :: "nat \<Rightarrow> instant"
  CD_CompletedAt :: "nat \<Rightarrow> instant"
  CD_Token :: "nat \<Rightarrow> agentError + string"

definition othersFirst :: "('c, 's, 'x) turnDeps \<Rightarrow> nat \<Rightarrow> 's \<Rightarrow> 's" where
  "othersFirst T n s = runCalls (CD_Serve T) (CD_Others T n) s"

definition callStore :: "('c, 's, 'x) turnDeps \<Rightarrow> nat \<Rightarrow> storeOp \<Rightarrow> 's \<Rightarrow> storeResult \<times> 's" where
  "callStore T n op s = CD_Serve T (CD_Env T n) op (othersFirst T n s)"

definition protocolWriteLeaseDuration :: int where
  "protocolWriteLeaseDuration = 120 * 1000000000"

definition validWriteEffect :: "writeEffect \<Rightarrow> bool" where
  "validWriteEffect effect \<longleftrightarrow>
     effect \<in> {WriteEffectCreated, WriteEffectUpdated, WriteEffectNoOp, WriteEffectCancelled}"

definition authoritative :: "OperationExecutionResult \<Rightarrow> bool" where
  "authoritative result \<longleftrightarrow>
     RM_Kind (ER_Response result) = ResponseResult \<and> validWriteEffect (ER_Effect result)"

definition workflowExecutionPendingOutcome :: "protocolLiveOutcome \<Rightarrow> protocolLiveOutcome" where
  "workflowExecutionPendingOutcome o0 =
     setProtocolOutcomeResponse (refuse zh_pending) answerModeReject
       (o0\<lparr>LO_PreparedWrite := None, LO_BlockedReason := ''write_result_pending'',
           LO_ExecutorStatus := ''pending'', LO_FailureLayer := FailureExecutor\<rparr>)"

definition reservationSnapshot ::
  "protocolLiveOutcome \<Rightarrow> WorkflowKey \<Rightarrow> instant \<Rightarrow> agentError + WorkflowSnapshot" where
  "reservationSnapshot o0 key now =
     (case LO_PreparedWrite o0 of
        None \<Rightarrow> Inl (Errorf ''prepared write is required'')
      | Some px \<Rightarrow>
          (case LO_WorkflowAfter o0 of
             Some w \<Rightarrow> Inr (cloneWorkflowSnapshot w)
           | None \<Rightarrow>
               if OR_Operation (WX_Request px) \<noteq> ''subscription.cancel''
               then Inl (Errorf ''write operation requires a workflow snapshot'')
               else Inr \<lparr>WF_ID = ''execution-'' @ LO_RequestID o0, WF_TenantID = WK_TenantID key,
                 WF_ActorUserID = WK_ActorUserID key, WF_ConversationID = WK_ConversationID key,
                 WF_Type = WorkflowSubscriptionCancel, WF_State = WorkflowReady,
                 WF_MissingFields = [], WF_TrustedEntities = [], WF_Candidates = [],
                 WF_LastUserMessage = [], WF_CreatedAt = 0, WF_UpdatedAt = 0,
                 WF_ExpiresAt = now + protocolWriteLeaseDuration, WF_Version = 0, WF_MissingSlots = [],
                 WF_Trusted = noTrustedEntities\<rparr>))"

definition persistedTrustedParams :: "TrustedParam goMap \<Rightarrow> agentError + goAny goMap" where
  "persistedTrustedParams ps =
     map_result (\<lambda>(field, param). case canonicalTrustedParamValue field (TP_Value param) of
         None \<Rightarrow> Inl (Errorf (''trusted parameter '' @ field @ '' is not persistable''))
       | Some v \<Rightarrow> Inr (field, v)) ps"

definition coordinatorReservation ::
  "protocolLiveOutcome \<Rightarrow> preparedWriteExecution \<Rightarrow> goAny goMap \<Rightarrow> string \<Rightarrow> instant \<Rightarrow> ReservedExecutionV1" where
  "coordinatorReservation o0 px ps token now =
     \<lparr>RE_Operation = OR_Operation (WX_Request px), RE_BusinessKey = WX_BusinessKey px,
      RE_TrustedParams = ps, RE_ExecutionToken = token, RE_AttemptRequestID = LO_RequestID o0,
      RE_StartedAt = now, RE_LeaseExpiresAt = now + protocolWriteLeaseDuration\<rparr>"

text \<open>What the coordinator returns: the outcome, the workflow that is persisted, whether the write
  was started, and the error.\<close>

record coordinated =
  CO_Outcome :: protocolLiveOutcome
  CO_Persisted :: "VersionedWorkflow option"
  CO_Started :: bool
  CO_Err :: "agentError option"

text \<open>The fields a store returned are read through a pointer; neither store returns \<open>nil\<close> without an
  error, and reading it would be a panic.\<close>

definition nilPointer :: agentError where
  "nilPointer = Errorf ''invalid memory address or nil pointer dereference''"

definition versionOf :: "VersionedWorkflow option \<Rightarrow> agentError + 64 word" where
  "versionOf w = (case w of None \<Rightarrow> Inl nilPointer | Some v \<Rightarrow> Inr (VW_Version v))"

text \<open>The write has run: its result is recorded, then the reservation released.\<close>

definition releaseWrite ::
  "('c, 's, 'x) turnDeps \<Rightarrow> nat \<Rightarrow> WorkflowKey \<Rightarrow> string \<Rightarrow> VersionedWorkflow option \<Rightarrow> protocolLiveOutcome
     \<Rightarrow> 's \<Rightarrow> coordinated \<times> 's" where
  "releaseWrite T n key token recorded o1 s =
     (let stuck = (\<lambda>e. \<lparr>CO_Outcome = workflowExecutionPendingOutcome o1, CO_Persisted = recorded,
                       CO_Started = True, CO_Err = Some e\<rparr>) in
      case versionOf recorded of
        Inl e \<Rightarrow> (stuck e, s)
      | Inr version \<Rightarrow>
          (case callStore T n (OpDeleteReserved key version token) s of
             (Inl e, s') \<Rightarrow> (stuck e, s')
           | (Inr _, s') \<Rightarrow>
               (\<lparr>CO_Outcome = o1\<lparr>LO_WorkflowDecision := Some WorkflowCompletedDecision, LO_ClearWorkflow := True,
                   LO_WorkflowAfter := None, LO_PreparedWrite := None\<rparr>,
                 CO_Persisted = None, CO_Started = True, CO_Err = None\<rparr>, s')))"

definition recordWrite ::
  "('c, 's, 'x) turnDeps \<Rightarrow> nat \<Rightarrow> nat \<Rightarrow> WorkflowKey \<Rightarrow> string \<Rightarrow> string \<Rightarrow> VersionedWorkflow option
     \<Rightarrow> OperationExecutionResult \<Rightarrow> protocolLiveOutcome \<Rightarrow> 's \<Rightarrow> coordinated \<times> 's" where
  "recordWrite T attempt n key token businessKey reserved result o1 s =
     (let stuck = (\<lambda>e. \<lparr>CO_Outcome = workflowExecutionPendingOutcome o1, CO_Persisted = reserved,
                       CO_Started = True, CO_Err = Some e\<rparr>) in
      if \<not> authoritative result then (stuck (Errorf ''write execution result is not authoritative''), s)
      else (case versionOf reserved of
        Inl e \<Rightarrow> (stuck e, s)
      | Inr version \<Rightarrow>
          (case callStore T n (OpRecordResult key version token
                  \<lparr>PR_BusinessKey = businessKey, PR_WriteEffect = ER_Effect result,
                   PR_CompletedAt = CD_CompletedAt T attempt\<rparr>) s of
             (Inl e, s') \<Rightarrow> (stuck e, s')
           | (Inr recorded, s') \<Rightarrow> releaseWrite T (n + 1) key token recorded o1 s')))"

definition executedOutcome :: "OperationExecutionResult \<Rightarrow> protocolLiveOutcome \<Rightarrow> protocolLiveOutcome" where
  "executedOutcome result o0 =
     (setProtocolOutcomeResponse (ER_Response result) (EM_AnswerMode (ER_Metrics result)) o0)
       \<lparr>LO_ExecutionMetrics := Some (ER_Metrics result),
        LO_ExecutorStatus := protocolExecutorStatus (ER_Response result)\<rparr>"

definition reserveOp ::
  "WorkflowKey \<Rightarrow> VersionedWorkflow option \<Rightarrow> WorkflowSnapshot \<Rightarrow> ReservedExecutionV1 \<Rightarrow> storeOp" where
  "reserveOp key current snap r =
     (case current of
        None \<Rightarrow> OpCreateReserved key (Some snap) r
      | Some w \<Rightarrow> OpReserve key (VW_Version w) (Some snap) r)"

text \<open>\<open>n\<close> is the number of the first store call.\<close>

definition runReserved ::
  "('c, 's, 'x) turnDeps \<Rightarrow> nat \<Rightarrow> nat \<Rightarrow> WorkflowKey \<Rightarrow> preparedWriteExecution \<Rightarrow> string
     \<Rightarrow> VersionedWorkflow option \<Rightarrow> protocolLiveOutcome \<Rightarrow> 's \<Rightarrow> 'x \<Rightarrow> coordinated \<times> 's \<times> 'x" where
  "runReserved T attempt n key px token reserved o0 s x =
     (case CD_Executor T (WX_Request px) x of
        (result, x') \<Rightarrow>
          (case recordWrite T attempt n key token (WX_BusinessKey px) reserved result
                  (executedOutcome result o0) s of
             (done', s') \<Rightarrow> (done', s', x')))"

definition coordinatePreparedWrite ::
  "('c, 's, 'x) turnDeps \<Rightarrow> nat \<Rightarrow> nat \<Rightarrow> WorkflowKey \<Rightarrow> VersionedWorkflow option \<Rightarrow> protocolLiveOutcome
     \<Rightarrow> 's \<Rightarrow> 'x \<Rightarrow> coordinated \<times> 's \<times> 'x" where
  "coordinatePreparedWrite T attempt n key current o0 s x =
     (let failed = (\<lambda>o1 e. \<lparr>CO_Outcome = o1, CO_Persisted = current, CO_Started = False, CO_Err = Some e\<rparr>);
          now = CD_Now T attempt in
      case LO_PreparedWrite o0 of
        None \<Rightarrow> (failed o0 (Errorf ''prepared write coordinator is unavailable''), s, x)
      | Some px \<Rightarrow>
          if Option.bind current VW_Execution \<noteq> None
          then (failed (workflowExecutionPendingOutcome o0) ErrExecutionInProgress, s, x)
          else (case CD_Token T attempt of Inl e \<Rightarrow> (failed o0 e, s, x)
          | Inr token \<Rightarrow>
              (case reservationSnapshot o0 key now of Inl e \<Rightarrow> (failed o0 e, s, x)
              | Inr snap \<Rightarrow>
                  (case persistedTrustedParams (OR_TrustedParams (WX_Request px)) of
                     Inl e \<Rightarrow> (failed o0 e, s, x)
                   | Inr ps \<Rightarrow>
                       (case callStore T n (reserveOp key current snap
                               (coordinatorReservation o0 px ps token now)) s of
                          (Inl e, s1) \<Rightarrow> (failed o0 e, s1, x)
                        | (Inr reserved, s1) \<Rightarrow> runReserved T attempt (n + 1) key px token reserved o0 s1 x)))))"

section \<open>A turn of the conversation\<close>

definition persistProtocolLiveWorkflowOutcome ::
  "('c, 's, 'x) turnDeps \<Rightarrow> nat \<Rightarrow> WorkflowKey \<Rightarrow> VersionedWorkflow option \<Rightarrow> protocolLiveOutcome \<Rightarrow> 's
     \<Rightarrow> storeResult \<times> 's" where
  "persistProtocolLiveWorkflowOutcome T n key current o0 s =
     (if LO_ClearWorkflow o0 then
        (case current of
           None \<Rightarrow> (Inr None, s)
         | Some w \<Rightarrow>
             (case callStore T n (OpDeleteIfVersion key (VW_Version w)) s of
                (Inl e, s') \<Rightarrow> (Inl e, s') | (Inr _, s') \<Rightarrow> (Inr None, s')))
      else (case LO_WorkflowAfter o0 of
        None \<Rightarrow> (Inr current, s)
      | Some after \<Rightarrow>
          let snap = (cloneWorkflowSnapshot after)\<lparr>WF_TenantID := WK_TenantID key,
                 WF_ConversationID := WK_ConversationID key, WF_ActorUserID := WK_ActorUserID key\<rparr> in
          (case current of
             None \<Rightarrow> callStore T n (OpCreate key (Some snap)) s
           | Some w \<Rightarrow> callStore T n (OpCompareAndSwap key (VW_Version w) (Some snap)) s)))"

definition workflowStoreFailureOutcome :: "string \<Rightarrow> protocolLiveOutcome" where
  "workflowStoreFailureOutcome freshID =
     finalizeProtocolLiveOutcome freshID
       (emptyOutcome\<lparr>LO_Draft := Some (unknownIntentDraft ''workflow_store_failed''),
          LO_Validation := refusal ''workflow_store_failed'' False False ResponseRefuse,
          LO_Response := refuse zh_store_failed, LO_AnswerMode := answerModeReject,
          LO_BlockedReason := ''workflow_store_failed'', LO_RequestID := freshID,
          LO_FailureLayer := FailurePersistence, LO_RendererName := ''response_renderer''\<rparr>)"

definition workflowConflictRetryOutcome :: "string \<Rightarrow> protocolLiveOutcome" where
  "workflowConflictRetryOutcome freshID =
     setProtocolOutcomeResponse (refuse zh_retry) answerModeReject
       ((workflowStoreFailureOutcome freshID)\<lparr>LO_BlockedReason := ''workflow_conflict_retry''\<rparr>)"

definition workflowHasActiveExecution :: "VersionedWorkflow option \<Rightarrow> bool" where
  "workflowHasActiveExecution versioned \<longleftrightarrow>
     (case Option.bind versioned VW_Execution of
        None \<Rightarrow> False | Some e \<Rightarrow> trimSpace (RE_ExecutionToken (PE_Reservation e)) \<noteq> [])"

text \<open>Persisting what \<open>Handle\<close> answered, through the coordinator when it prepared a write.\<close>

definition persistOutcome ::
  "('c, 's, 'x) turnDeps \<Rightarrow> nat \<Rightarrow> nat \<Rightarrow> WorkflowKey \<Rightarrow> VersionedWorkflow option \<Rightarrow> protocolLiveOutcome
     \<Rightarrow> 's \<Rightarrow> 'x \<Rightarrow> coordinated \<times> 's \<times> 'x" where
  "persistOutcome T attempt n key versioned o0 s x =
     (if LO_PreparedWrite o0 \<noteq> None then coordinatePreparedWrite T attempt n key versioned o0 s x
      else (case persistProtocolLiveWorkflowOutcome T n key versioned o0 s of
        (Inl e, s') \<Rightarrow> (\<lparr>CO_Outcome = o0, CO_Persisted = None, CO_Started = False, CO_Err = Some e\<rparr>, s', x)
      | (Inr persisted, s') \<Rightarrow>
          (\<lparr>CO_Outcome = o0, CO_Persisted = persisted, CO_Started = False, CO_Err = None\<rparr>, s', x)))"

text \<open>The outcome after an error of the store, and after success.\<close>

definition settleOutcome :: "string \<Rightarrow> coordinated \<Rightarrow> protocolLiveOutcome" where
  "settleOutcome freshID c =
     (let o0 = CO_Outcome c in
      case CO_Err c of
        Some e \<Rightarrow>
          if CO_Started c then o0
          else if errorIs e ErrWorkflowConflict then workflowConflictRetryOutcome freshID
          else if errorIs e ErrExecutionInProgress then workflowExecutionPendingOutcome o0
          else workflowStoreFailureOutcome freshID
      | None \<Rightarrow>
          (case CO_Persisted c of
             None \<Rightarrow> o0
           | Some w \<Rightarrow>
               if LO_WorkflowAfter o0 = None then o0
               else o0\<lparr>LO_WorkflowAfter := Some (cloneWorkflowSnapshot (VW_Snapshot w))\<rparr>))"

definition retryAttempt :: "nat \<Rightarrow> coordinated \<Rightarrow> bool" where
  "retryAttempt attempt c \<longleftrightarrow>
     (case CO_Err c of None \<Rightarrow> False | Some e \<Rightarrow> errorIs e ErrWorkflowConflict) \<and> \<not> CO_Started c \<and> attempt = 0"

text \<open>One pass of the loop: \<^const>\<open>None\<close> is \<open>continue\<close>. The executor of the pipeline and of the
  coordinator is the same.\<close>

definition turnAttempt ::
  "('c, 's, 'x) turnDeps \<Rightarrow> 'x liveDeps \<Rightarrow> nat \<Rightarrow> WorkflowKey \<Rightarrow> string \<Rightarrow> UserContext option \<Rightarrow> 's \<Rightarrow> 'x
     \<Rightarrow> protocolLiveOutcome option \<times> 's \<times> 'x" where
  "turnAttempt T deps attempt key message uctx s x =
     (let n = 4 * attempt; fresh = LD_RequestID deps in
      case callStore T n (OpLoad key) s of
        (Inl e, s1) \<Rightarrow> (Some (workflowStoreFailureOutcome fresh), s1, x)
      | (Inr versioned, s1) \<Rightarrow>
          if workflowHasActiveExecution versioned then
            (Some (finalizeProtocolLiveOutcome fresh (workflowExecutionPendingOutcome emptyOutcome)), s1, x)
          else (case live_Handle (deps\<lparr>LD_Executor := CD_Executor T\<rparr>) message uctx
                       (map_option VW_Snapshot versioned) x of
            (o0, x1) \<Rightarrow>
              (case persistOutcome T attempt (n + 1) key versioned o0 s1 x1 of
                 (c, s2, x2) \<Rightarrow>
                   if retryAttempt attempt c then (None, s2, x2)
                   else (Some (settleOutcome fresh c), s2, x2))))"

definition protocolTurn ::
  "('c, 's, 'x) turnDeps \<Rightarrow> (nat \<Rightarrow> 'x liveDeps) \<Rightarrow> WorkflowKey \<Rightarrow> string \<Rightarrow> UserContext option \<Rightarrow> 's \<Rightarrow> 'x
     \<Rightarrow> protocolLiveOutcome option \<times> 's \<times> 'x" where
  "protocolTurn T deps key message uctx s x =
     (case turnAttempt T (deps 0) 0 key message uctx s x of
        (Some o0, s', x') \<Rightarrow> (Some o0, s', x')
      | (None, s', x') \<Rightarrow> turnAttempt T (deps 1) 1 key message uctx s' x')"

definition workflowKeyFromUserContext :: "UserContext option \<Rightarrow> WorkflowKey" where
  "workflowKeyFromUserContext uctx =
     (case uctx of
        None \<Rightarrow> \<lparr>WK_TenantID = 0, WK_ConversationID = [], WK_ActorUserID = 0\<rparr>
      | Some u \<Rightarrow>
          \<lparr>WK_TenantID = UC_TenantID u,
           WK_ConversationID = (if trimSpace (UC_ConversationID u) \<noteq> [] then trimSpace (UC_ConversationID u)
             else ''direct:'' @ trimSpace (UC_DingUserID u)),
           WK_ActorUserID = UC_UserID u\<rparr>)"

end
