(* ===== verification/WriteSafety.thy ===== *)
theory WriteSafety
  imports WriteCoordinator
begin

text \<open>
  The guarantees of the write coordinator over any store that keeps the \<open>WorkflowStore\<close> promise, and
  of a whole turn over any store at all.
\<close>

section \<open>Over a store that keeps its promise\<close>

text \<open>The calls of the coordinator are legal for the store; others make legal calls only.\<close>

definition ownCallsLegal ::
  "('c \<times> storeOp \<Rightarrow> bool) \<Rightarrow> ('c, 's, 'x) turnDeps \<Rightarrow> nat \<Rightarrow> nat \<Rightarrow> WorkflowKey \<Rightarrow> VersionedWorkflow option
     \<Rightarrow> protocolLiveOutcome \<Rightarrow> bool" where
  "ownCallsLegal legal T attempt n key current o0 \<longleftrightarrow>
     (\<forall>px token snap ps version effect.
        LO_PreparedWrite o0 = Some px \<longrightarrow> CD_Token T attempt = Inr token
        \<longrightarrow> reservationSnapshot o0 key (CD_Now T attempt) = Inr snap
        \<longrightarrow> persistedTrustedParams (OR_TrustedParams (WX_Request px)) = Inr ps
        \<longrightarrow> legal (CD_Env T n, reserveOp key current snap
                     (coordinatorReservation o0 px ps token (CD_Now T attempt)))
          \<and> legal (CD_Env T (n + 1), OpRecordResult key version token
              \<lparr>PR_BusinessKey = WX_BusinessKey px, PR_WriteEffect = effect, PR_CompletedAt = CD_CompletedAt T attempt\<rparr>)
          \<and> legal (CD_Env T (n + 2), OpDeleteReserved key version token))"

text \<open>The write of the outcome is in progress in the store, with no result yet.\<close>

definition inProgress :: "flow \<Rightarrow> preparedWriteExecution \<Rightarrow> string \<Rightarrow> bool" where
  "inProgress f px token \<longleftrightarrow>
     (\<exists>v e. f = Some (v, Some e) \<and> EV_Operation e = OR_Operation (WX_Request px)
        \<and> EV_BusinessKey e = WX_BusinessKey px \<and> EV_Token e = token \<and> \<not> EV_Recorded e)"

lemma reserved_in_progress:
  "canonicalReservedExecution (coordinatorReservation o0 px ps token now) = Inr r' \<Longrightarrow>
     inProgress (Some (v, Some (reservedView r'))) px token"
  by (auto simp: inProgress_def reservedView_def coordinatorReservation_def dest: canonicalReserved_InrD)

lemma reserveOp_simps [simp]:
  "opKey (reserveOp key current snap r) = key" "\<not> isLoad (reserveOp key current snap r)"
  by (simp_all add: reserveOp_def split: option.split)

lemma reserve_flow:
  "flow_step now (reserveOp key current snap r) f f' \<Longrightarrow>
     \<exists>r' v. canonicalReservedExecution r = Inr r' \<and> f' = Some (v, Some (reservedView r'))"
  by (auto simp: reserveOp_def flow_step_simps split: option.splits)

context workflow_store
begin

lemma call_good:
  assumes "CD_Serve T = serve" and "good s" and "list_all legal (CD_Others T n)" and "legal (CD_Env T n, op)"
    and "callStore T n op s = (res, s')"
  shows "good (othersFirst T n s)" and "serve (CD_Env T n) op (othersFirst T n s) = (res, s')" and "good s'"
proof -
  show g: "good (othersFirst T n s)"
    using good_run[OF assms(2,3)] assms(1) by (simp add: othersFirst_def)
  show c: "serve (CD_Env T n) op (othersFirst T n s) = (res, s')"
    using assms(1,5) by (simp add: callStore_def)
  show "good s'" by (rule good_serve[OF g assms(4) c])
qed

lemma reserve_call:
  assumes "CD_Serve T = serve" and "good s" and "list_all legal (CD_Others T n)"
    and "legal (CD_Env T n, reserveOp key current snap (coordinatorReservation o0 px ps token now))"
    and "callStore T n (reserveOp key current snap (coordinatorReservation o0 px ps token now)) s = (Inr w, s')"
  shows "good s' \<and> inProgress (view s' key) px token"
proof -
  note call = call_good[OF assms]
  from success_step[OF call(1) assms(4) call(2)] obtain f where
    "flow_step (CE_Now (CD_Env T n)) (reserveOp key current snap (coordinatorReservation o0 px ps token now)) f (view s' key)"
    by auto
  from reserve_flow[OF this] call(3) show ?thesis by (auto intro: reserved_in_progress)
qed

lemma release_call:
  assumes "CD_Serve T = serve" and "good s" and "list_all legal (CD_Others T n)"
    and "legal (CD_Env T n, OpDeleteReserved key version token)"
    and "callStore T n (OpDeleteReserved key version token) s = (Inr w, s')"
  shows "view s' key = None"
proof -
  note call = call_good[OF assms]
  from success_step[OF call(1) assms(4) call(2)] show ?thesis by (auto simp: flow_step_simps)
qed

text \<open>Recording and releasing.\<close>

lemma recordWrite_done:
  assumes "CD_Serve T = serve" and "good s" and "list_all legal (CD_Others T n)" and "list_all legal (CD_Others T (n + 1))"
    and "\<And>version effect. legal (CD_Env T n, OpRecordResult key version token
           \<lparr>PR_BusinessKey = businessKey, PR_WriteEffect = effect, PR_CompletedAt = CD_CompletedAt T attempt\<rparr>)"
    and "\<And>version. legal (CD_Env T (n + 1), OpDeleteReserved key version token)"
    and "recordWrite T attempt n key token businessKey reserved result o1 s = (c, s')"
  shows "CO_Started c" and "\<not> authoritative result \<Longrightarrow> CO_Err c \<noteq> None \<and> s' = s"
    and "CO_Err c = None \<Longrightarrow> authoritative result \<and> view s' key = None"
proof -
  have rel: "CO_Started c' \<and> (CO_Err c' = None \<longrightarrow> view s'' key = None)"
    if "releaseWrite T (n + 1) key token recorded o1 s1 = (c', s'')" and "good s1" for recorded s1 c' s''
    using that release_call[OF assms(1) that(2) assms(4,6)]
    by (auto simp: releaseWrite_def Let_def split: sum.splits prod.splits)
  have goods: "good s1" if "callStore T n (OpRecordResult key version token
      \<lparr>PR_BusinessKey = businessKey, PR_WriteEffect = effect, PR_CompletedAt = CD_CompletedAt T attempt\<rparr>) s = (r, s1)"
    for version effect r s1
    using call_good(3)[OF assms(1-3,5) that] .
  have "CO_Started c \<and> (\<not> authoritative result \<longrightarrow> CO_Err c \<noteq> None \<and> s' = s)
      \<and> (CO_Err c = None \<longrightarrow> authoritative result \<and> view s' key = None)"
    using assms(7) rel goods
    by (auto simp: recordWrite_def Let_def split: if_splits sum.splits prod.splits)
  then show "CO_Started c" and "\<not> authoritative result \<Longrightarrow> CO_Err c \<noteq> None \<and> s' = s"
    and "CO_Err c = None \<Longrightarrow> authoritative result \<and> view s' key = None" by blast+
qed

text \<open>The cases of a coordinated write: refused before it started, or reserved and run.\<close>

lemma coordinated_write:
  assumes "CD_Serve T = serve" and "good s" and "\<And>m. list_all legal (CD_Others T m)"
    and "ownCallsLegal legal T attempt n key current o0"
    and "coordinatePreparedWrite T attempt n key current o0 s x = (c, s', x')"
  shows "\<not> CO_Started c \<and> CO_Err c \<noteq> None \<and> x' = x
    \<or> CO_Started c \<and> (\<exists>px token s1 result.
        LO_PreparedWrite o0 = Some px \<and> CD_Token T attempt = Inr token
        \<and> inProgress (view s1 key) px token \<and> CD_Executor T (WX_Request px) x = (result, x')
        \<and> (\<not> authoritative result \<longrightarrow> s' = s1)
        \<and> (CO_Err c = None \<longrightarrow> authoritative result \<and> view s' key = None))"
proof (cases "CO_Started c")
  case False
  with assms(5) show ?thesis
    by (auto simp: coordinatePreparedWrite_def Let_def runReserved_def recordWrite_def releaseWrite_def
        split: option.splits sum.splits if_splits prod.splits)
next
  case True
  obtain px token snap ps reserved s1 where px: "LO_PreparedWrite o0 = Some px" "CD_Token T attempt = Inr token"
    "reservationSnapshot o0 key (CD_Now T attempt) = Inr snap"
    "persistedTrustedParams (OR_TrustedParams (WX_Request px)) = Inr ps"
    and call: "callStore T n (reserveOp key current snap
        (coordinatorReservation o0 px ps token (CD_Now T attempt))) s = (Inr reserved, s1)"
    and run: "runReserved T attempt (n + 1) key px token reserved o0 s1 x = (c, s', x')"
    using assms(5) True
    by (auto simp: coordinatePreparedWrite_def Let_def split: option.splits sum.splits if_splits prod.splits)
  have legal: "legal (CD_Env T n, reserveOp key current snap (coordinatorReservation o0 px ps token (CD_Now T attempt)))"
    "\<And>version effect. legal (CD_Env T (n + 1), OpRecordResult key version token
       \<lparr>PR_BusinessKey = WX_BusinessKey px, PR_WriteEffect = effect, PR_CompletedAt = CD_CompletedAt T attempt\<rparr>)"
    "\<And>version. legal (CD_Env T (n + 2), OpDeleteReserved key version token)"
    using assms(4) px unfolding ownCallsLegal_def by blast+
  from reserve_call[OF assms(1-3) legal(1) call] have s1: "good s1" "inProgress (view s1 key) px token" by auto
  obtain result where exec: "CD_Executor T (WX_Request px) x = (result, x')"
    and rec: "recordWrite T attempt (n + 1) key token (WX_BusinessKey px) reserved result (executedOutcome result o0) s1 = (c, s')"
    using run by (auto simp: runReserved_def split: prod.splits)
  from recordWrite_done[OF assms(1) s1(1) assms(3,3) legal(2) _ rec] legal(3) True px(1,2) s1(2) exec
  show ?thesis by auto
qed

end

section \<open>Over any store\<close>

text \<open>Operations run one after the other.\<close>

fun runOps :: "'x executor \<Rightarrow> OperationRequest list \<Rightarrow> 'x \<Rightarrow> 'x" where
  "runOps run [] x = x"
| "runOps run (req # reqs) x = runOps run reqs (snd (run req x))"

definition writesIn :: "OperationRequest list \<Rightarrow> nat" where
  "writesIn reqs = length (filter (\<lambda>req. writes (OR_Operation req)) reqs)"

lemma runOps_append: "runOps run (as @ bs) x = runOps run bs (runOps run as x)"
  by (induction as arbitrary: x) auto

lemma writesIn_simps [simp]:
  "writesIn [] = 0" "writesIn (as @ bs) = writesIn as + writesIn bs"
  "writesIn [req] = (if writes (OR_Operation req) then 1 else 0)"
  by (simp_all add: writesIn_def)

lemma coordinator_runs:
  assumes "coordinatePreparedWrite T attempt n key current o0 s x = (c, s', x')"
  shows "x' = x \<and> \<not> CO_Started c
    \<or> CO_Started c \<and> (\<exists>px. LO_PreparedWrite o0 = Some px \<and> x' = snd (CD_Executor T (WX_Request px) x))"
proof -
  have started: "CO_Started c'" if "recordWrite T attempt m key token bk reserved result o1 s1 = (c', s2)"
    for c' m token bk reserved result o1 s1 s2
    using that by (auto simp: recordWrite_def releaseWrite_def Let_def split: if_splits sum.splits prod.splits)
  then have run: "CO_Started c' \<and> x2 = snd (CD_Executor T (WX_Request px) x1)"
    if "runReserved T attempt m key px token reserved o1 s1 x1 = (c', s2, x2)"
    for c' m px token reserved o1 s1 x1 s2 x2
    using that by (auto simp: runReserved_def split: prod.splits)
  show ?thesis
    using assms
    by (auto simp: coordinatePreparedWrite_def Let_def dest!: run
        split: option.splits sum.splits if_splits prod.splits)
qed

lemma ran_none: "x' = x \<Longrightarrow> \<exists>reqs. x' = runOps run reqs x \<and> length reqs < 2 \<and> (P \<longrightarrow> writesIn reqs = 0)"
  by (intro exI[of _ "[]"]) simp

lemma ran_one:
  "x' = snd (run req x) \<Longrightarrow> P \<longrightarrow> \<not> writes (OR_Operation req) \<Longrightarrow>
     \<exists>reqs. x' = runOps run reqs x \<and> length reqs < 2 \<and> (P \<longrightarrow> writesIn reqs = 0)"
  by (intro exI[of _ "[req]"]) simp

text \<open>One attempt: at most one operation; a write only when the attempt ends the turn.\<close>

lemma attempt_runs:
  assumes "turnAttempt T deps attempt key message uctx s x = (reply, s', x')"
  shows "\<exists>reqs. x' = runOps (CD_Executor T) reqs x \<and> length reqs < 2 \<and> (reply = None \<longrightarrow> writesIn reqs = 0)"
proof -
  let ?deps = "deps\<lparr>LD_Executor := CD_Executor T\<rparr>" and ?n = "4 * attempt"
  obtain loaded s1 where load: "callStore T ?n (OpLoad key) s = (loaded, s1)" by (metis surj_pair)
  show ?thesis
  proof (cases "isl loaded \<or> (\<exists>versioned. loaded = Inr versioned \<and> workflowHasActiveExecution versioned)")
    case True
    with assms load have "x' = x" by (auto simp: turnAttempt_def Let_def split: sum.splits)
    then show ?thesis by (rule ran_none)
  next
    case False
    then obtain versioned where v: "loaded = Inr versioned" "\<not> workflowHasActiveExecution versioned"
      by (cases loaded) auto
    obtain o0 x1 where h: "live_Handle ?deps message uctx (map_option VW_Snapshot versioned) x = (o0, x1)"
      by (metis surj_pair)
    obtain c s2 x2 where p: "persistOutcome T attempt (?n + 1) key versioned o0 s1 x1 = (c, s2, x2)"
      by (metis surj_pair)
    have end_: "x' = x2" "reply = None \<longleftrightarrow> retryAttempt attempt c"
      using assms load v h p by (auto simp: turnAttempt_def Let_def split: if_splits)
    show ?thesis
    proof (cases "LO_PreparedWrite o0")
      case None
      then have "x2 = x1" using p by (auto simp: persistOutcome_def split: sum.splits prod.splits)
      with end_(1) have "x' = x1" by simp
      with handle_gated(1)[OF h] show ?thesis by (auto intro: ran_none ran_one)
    next
      case (Some px)
      then have x1: "x1 = x" using handle_gated(2)[OF h] by simp
      from p Some have "coordinatePreparedWrite T attempt (?n + 1) key versioned o0 s1 x1 = (c, s2, x2)"
        by (simp add: persistOutcome_def)
      from coordinator_runs[OF this] x1 end_ show ?thesis
        by (auto simp: retryAttempt_def intro: ran_none ran_one)
    qed
  qed
qed

end
