(* ===== verification/WorkflowRecovery.thy ===== *)
theory WorkflowRecovery
  imports WriteSafety DatabaseStore
begin

text \<open>
  The recovery worker (src/internal/agent/workflow\_recovery.go): writes whose lease ran out are
  taken over with a new token, run again from the stored reservation, recorded and released, or
  put off. What the worker guarantees is in RecoverySafety and AgentSafety.
\<close>

section \<open>The request in a reservation\<close>

definition recoveredParam :: "WorkflowKey \<Rightarrow> string \<times> goAny \<Rightarrow> agentError + string \<times> TrustedParam" where
  "recoveredParam key entry =
     (case entry of
        (field, v) \<Rightarrow>
          (case canonicalTrustedParamValue field v of
             None \<Rightarrow> Inl (Errorf (''invalid recovered trusted parameter '' @ field))
           | Some canonical \<Rightarrow>
               Inr (field, \<lparr>TP_Field = field, TP_Value = canonical,
                 TP_Source = \<lparr>SourceKind = TrustedParamSourceWorkflow, SourceRaw = [],
                              Resolver = ''execution_recovery''\<rparr>,
                 TP_TenantID = WK_TenantID key\<rparr>)))"

definition operationRequestFromReservation ::
  "WorkflowKey \<Rightarrow> ReservedExecutionV1 \<Rightarrow> agentError + OperationRequest" where
  "operationRequestFromReservation key r =
     (case map_result (recoveredParam key) (RE_TrustedParams r) of
        Inl e \<Rightarrow> Inl e
      | Inr ps \<Rightarrow>
          let mismatch = Errorf ''recovered conversation does not match workflow key'';
              request = \<lparr>OR_Operation = RE_Operation r, OR_TenantID = WK_TenantID key,
                OR_ActorUserID = WK_ActorUserID key, OR_ConversationID = WK_ConversationID key,
                OR_TrustedParams = ps, OR_IdempotencyKey = RE_BusinessKey r\<rparr> in
          (case extractParamString ps ''conversation_id'' of
             None \<Rightarrow> Inl mismatch
           | Some conversationID \<Rightarrow>
               if trimSpace conversationID \<noteq> trimSpace (WK_ConversationID key) then Inl mismatch
               else (case subscriptionBusinessKeyForRequest request of
                 Inl e \<Rightarrow> Inl e
               | Inr businessKey \<Rightarrow>
                   if businessKey \<noteq> RE_BusinessKey r
                   then Inl (Errorf ''recovered business key does not match canonical request'')
                   else Inr request)))"

section \<open>The worker\<close>

text \<open>An error that \<open>errors.Join\<close> made is the list of its parts, \<open>nil\<close> the empty list.

  A \<open>WorkflowRecoveryStore\<close> can also list the writes to be recovered and put one off. The
  takeover of the i-th candidate has the id \<open>RD_RequestID i\<close>; its store calls are numbered from
  \<open>4 * i\<close>.\<close>

record ('c, 's, 'x) recoveryDeps = "('c, 's, 'x) turnDeps" +
  RD_List :: "'c \<Rightarrow> instant \<Rightarrow> int \<Rightarrow> 's \<Rightarrow> agentError + (WorkflowKey \<times> VersionedWorkflow) list"
  RD_Mark :: "'c \<Rightarrow> WorkflowKey \<Rightarrow> 64 word \<Rightarrow> string \<Rightarrow> instant \<Rightarrow> 's \<Rightarrow> storeResult \<times> 's"
  RD_RequestID :: "nat \<Rightarrow> string"

definition deferWorkflowRecovery ::
  "('c, 's, 'x) recoveryDeps \<Rightarrow> nat \<Rightarrow> WorkflowKey \<Rightarrow> VersionedWorkflow \<Rightarrow> string \<Rightarrow> instant \<Rightarrow> agentError \<Rightarrow> 's
     \<Rightarrow> agentError list \<times> 's" where
  "deferWorkflowRecovery T n key taken token now cause s =
     (case RD_Mark T (CD_Env T n) key (VW_Version taken) token (now + protocolWriteLeaseDuration)
             (runCalls (CD_Serve T) (CD_Others T n) s) of
        (Inl e, s') \<Rightarrow> ([cause, Wrapped ''mark recovery required'' e], s')
      | (Inr _, s') \<Rightarrow> ([cause], s'))"

definition nextReservation :: "ReservedExecutionV1 \<Rightarrow> string \<Rightarrow> string \<Rightarrow> instant \<Rightarrow> ReservedExecutionV1" where
  "nextReservation r token requestID now =
     (cloneReservedExecution r)\<lparr>RE_ExecutionToken := token, RE_AttemptRequestID := requestID,
        RE_StartedAt := now, RE_LeaseExpiresAt := now + protocolWriteLeaseDuration\<rparr>"

text \<open>The write is ours: it is run, recorded and released, or put off.\<close>

definition storeCall :: "('c, 's, 'x) recoveryDeps \<Rightarrow> nat \<Rightarrow> storeOp \<Rightarrow> 's \<Rightarrow> storeResult \<times> 's" where
  "storeCall T n op s = CD_Serve T (CD_Env T n) op (runCalls (CD_Serve T) (CD_Others T n) s)"

definition finishRecovered ::
  "('c, 's, 'x) recoveryDeps \<Rightarrow> nat \<Rightarrow> WorkflowKey \<Rightarrow> VersionedWorkflow \<Rightarrow> string \<Rightarrow> instant \<Rightarrow> OperationRequest
     \<Rightarrow> OperationExecutionResult \<Rightarrow> 's \<Rightarrow> agentError list \<times> 's" where
  "finishRecovered T i key taken token now req result s =
     (let defer = deferWorkflowRecovery T (4 * i + 3) key taken token now in
      if \<not> authoritative result
      then defer (Errorf ''recovered write did not return an authoritative result'') s
      else (case storeCall T (4 * i + 1) (OpRecordResult key (VW_Version taken) token
                  \<lparr>PR_BusinessKey = OR_IdempotencyKey req, PR_WriteEffect = ER_Effect result,
                   PR_CompletedAt = CD_CompletedAt T i\<rparr>) s of
              (Inl e, s') \<Rightarrow> defer e s'
            | (Inr recorded, s') \<Rightarrow>
                (case versionOf recorded of
                   Inl e \<Rightarrow> ([e], s')
                 | Inr version \<Rightarrow>
                     (case storeCall T (4 * i + 2) (OpDeleteReserved key version token) s' of
                        (Inl e, s'') \<Rightarrow> ([e], s'') | (Inr _, s'') \<Rightarrow> ([], s'')))))"

definition runTaken ::
  "('c, 's, 'x) recoveryDeps \<Rightarrow> nat \<Rightarrow> WorkflowKey \<Rightarrow> VersionedWorkflow \<Rightarrow> string \<Rightarrow> instant \<Rightarrow> 's \<Rightarrow> 'x
     \<Rightarrow> agentError list \<times> 's \<times> 'x" where
  "runTaken T i key taken token now s x =
     (case VW_Execution taken of
        None \<Rightarrow> ([nilPointer], s, x)
      | Some e \<Rightarrow>
          (case operationRequestFromReservation key (PE_Reservation e) of
             Inl err \<Rightarrow>
               (case deferWorkflowRecovery T (4 * i + 3) key taken token now err s of
                  (errs, s') \<Rightarrow> (errs, s', x))
           | Inr req \<Rightarrow>
               (case CD_Executor T req x of
                  (result, x') \<Rightarrow>
                    (case finishRecovered T i key taken token now req result s of (errs, s') \<Rightarrow> (errs, s', x')))))"

definition recoverWorkflowExecution ::
  "('c, 's, 'x) recoveryDeps \<Rightarrow> nat \<Rightarrow> WorkflowKey \<Rightarrow> VersionedWorkflow \<Rightarrow> instant \<Rightarrow> 's \<Rightarrow> 'x
     \<Rightarrow> agentError list \<times> 's \<times> 'x" where
  "recoverWorkflowExecution T i key candidate now s x =
     (case VW_Execution candidate of
        None \<Rightarrow> ([Errorf ''recoverable workflow has no execution''], s, x)
      | Some e \<Rightarrow>
          let r = PE_Reservation e in
          (case PE_Status e of
             WorkflowExecutionResultRecorded \<Rightarrow>
               if PE_Result e = None then ([Errorf ''result-recorded execution has no result''], s, x)
               else (case storeCall T (4 * i) (OpDeleteReserved key (VW_Version candidate) (RE_ExecutionToken r)) s of
                       (Inl err, s') \<Rightarrow> ([err], s', x) | (Inr _, s') \<Rightarrow> ([], s', x))
           | OtherStatus status \<Rightarrow> ([Errorf (''unsupported recovery status '' @ status)], s, x)
           | _ \<Rightarrow>
               if now < RE_LeaseExpiresAt r then ([ErrExecutionInProgress], s, x)
               else (case CD_Token T i of
                 Inl err \<Rightarrow> ([err], s, x)
               | Inr token \<Rightarrow>
                   (case storeCall T (4 * i) (OpTakeover key (VW_Version candidate) (RE_ExecutionToken r)
                           (nextReservation r token (RD_RequestID T i) now)) s of
                      (Inl err, s') \<Rightarrow> ([err], s', x)
                    | (Inr None, s') \<Rightarrow> ([nilPointer], s', x)
                    | (Inr (Some taken), s') \<Rightarrow> runTaken T i key taken token now s' x))))"

definition candidateError :: "WorkflowKey \<Rightarrow> agentError list \<Rightarrow> agentError list" where
  "candidateError key errs =
     map (Wrapped (''recover tenant='' @ itoa (int (WK_TenantID key)) @ '' conversation='' @ WK_ConversationID key
       @ '' actor='' @ itoa (int (WK_ActorUserID key)))) errs"

fun recoverCandidates ::
  "('c, 's, 'x) recoveryDeps \<Rightarrow> nat \<Rightarrow> instant \<Rightarrow> (WorkflowKey \<times> VersionedWorkflow) list \<Rightarrow> 's \<Rightarrow> 'x
     \<Rightarrow> nat \<times> agentError list \<times> 's \<times> 'x" where
  "recoverCandidates T i now [] s x = (0, [], s, x)"
| "recoverCandidates T i now ((key, candidate) # candidates) s x =
     (case recoverWorkflowExecution T i key candidate now s x of
        (errs, s1, x1) \<Rightarrow>
          (case recoverCandidates T (i + 1) now candidates s1 x1 of
             (completed, others, s2, x2) \<Rightarrow>
               (if errs = [] then completed + 1 else completed, candidateError key errs @ others, s2, x2)))"

text \<open>The scan reads the store in the environment numbered \<open>0\<close>; the first candidate is number \<open>1\<close>.\<close>

definition recoverExpiredExecutions ::
  "('c, 's, 'x) recoveryDeps \<Rightarrow> instant \<Rightarrow> int \<Rightarrow> 's \<Rightarrow> 'x \<Rightarrow> nat \<times> agentError list \<times> 's \<times> 'x" where
  "recoverExpiredExecutions T now limit s x =
     (case RD_List T (CD_Env T 0) now limit s of
        Inl e \<Rightarrow> (0, [e], s, x)
      | Inr candidates \<Rightarrow> recoverCandidates T 1 now candidates s x)"

section \<open>The answer of a takeover\<close>

text \<open>What the worker relies on beyond the promise: a takeover that succeeds answers with the
  reservation it stored.\<close>

locale recovery_store = workflow_store +
  assumes takeover_answer: "good s \<Longrightarrow> legal (env, OpTakeover k v token r) \<Longrightarrow>
      serve env (OpTakeover k v token r) s = (Inr (Some w), s') \<Longrightarrow>
      \<exists>e. VW_Execution w = Some e \<and> canonicalReservedExecution r = Inr (PE_Reservation e)"
begin

text \<open>The identity of a write that is taken over: operation and business key stay, the token is new.\<close>

lemma takeover_call:
  assumes "good s" and "legal (env, OpTakeover k v token r)"
    and "serve env (OpTakeover k v token r) s = (Inr (Some w), s')"
  shows "\<exists>e e0 e1. VW_Execution w = Some e \<and> canonicalReservedExecution r = Inr (PE_Reservation e)
      \<and> view s k = Some (v, Some e0) \<and> EV_Token e0 = trimSpace token \<and> EV_Lease e0 \<le> CE_Now env
      \<and> EV_Operation e0 = RE_Operation r \<and> EV_BusinessKey e0 = RE_BusinessKey r
      \<and> view s' k = Some (v + 1, Some e1) \<and> EV_Token e1 = RE_ExecutionToken r
      \<and> EV_BusinessKey e1 = RE_BusinessKey r"
proof -
  obtain e where e: "VW_Execution w = Some e" "canonicalReservedExecution r = Inr (PE_Reservation e)"
    using takeover_answer[OF assms] by blast
  from success_step[OF assms] obtain f where f: "lapses (view s k) f"
    and step: "flow_step (CE_Now env) (OpTakeover k v token r) f (view s' k)" by auto
  from step obtain e0 where f0: "f = Some (v, Some e0)" by (auto simp: flow_step_simps)
  with f have "view s k = Some (v, Some e0)" by (auto simp: lapses_def)
  with step f0 e canonicalReserved_InrD[OF e(2)] show ?thesis
    by (auto simp: flow_step_simps reservedView_def)
qed

end

lemma db_takeover_answer:
  assumes "db_ok rows" and "legalCall (env, OpTakeover k v previous rv)"
    and "db_serve env (OpTakeover k v previous rv) rows = (Inr (Some w), rows')"
  shows "\<exists>e. VW_Execution w = Some e \<and> canonicalReservedExecution rv = Inr (PE_Reservation e)"
proof -
  obtain v' n r1 rows1 where v': "encodeRepositoryReservation rv = Inr (v', n)"
    and repo: "repo_TakeoverExpiredExecution env 0 k v previous (CE_Now env) v' rows = (Inr r1, rows1)"
    and load: "loadExpectedVersion env 1 k (v + 1) rows1 = (Inr (Some w), rows')"
    using assms(3) by (auto simp: db_TakeoverExpiredExecution_def split: sum.splits prod.splits)
  have legal: "columns_ok env" "reservation_ok rv" using assms(2) by simp_all
  let ?g = "written env \<circ> clearResult \<circ> setStatus AgentWorkflowExecutionExecuting
    \<circ> addReservationUpdates (DE_Column env) v'"
  have keys: "distinct (map keyFromWorkflow rows)" using assms(1) by (simp add: db_ok_def)
  from takeover_change[OF keys repo] obtain r where r: "db_lookup k rows1 = Some (?g r)"
    by (auto simp: rowChange_def)
  have exec: "decodeExecution (?g r) = Inr (Some \<lparr>PE_Status = WorkflowExecutionExecuting,
      PE_Reservation = n, PE_Result = None\<rparr>)"
    by (rule reserved_row(1)[OF v' legal(2,1)]; simp add: row_simps)
  have active: "AW_ExecutionStatus (?g r) \<noteq> AgentWorkflowExecutionIdle" by (simp add: row_simps)
  from load obtain x where x: "db_Load env 1 k rows1 = (Inr (Some w), x)"
    by (auto simp: loadExpectedVersion_def split: sum.splits prod.splits option.splits if_splits)
  then obtain y where y: "repo_Load env 1 k rows1 = Inr (Some y)"
    by (auto simp: db_Load_def split: sum.splits option.splits prod.splits if_splits)
  then have "y = ?g r" using repo_Load_Inr[OF y] r by simp
  with x y active have "decodeAgentWorkflowRow (Some (?g r)) = Inr (Some w)"
    by (simp add: db_Load_def)
  with exec have "VW_Execution w = Some \<lparr>PE_Status = WorkflowExecutionExecuting, PE_Reservation = n, PE_Result = None\<rparr>"
    by (auto simp: decodeAgentWorkflowRow_def Let_def split: sum.splits)
  with reservation_columns(1)[OF v' legal(2)] show ?thesis by simp
qed

interpretation database_recovery: recovery_store db_serve db_view db_ok legalCall
  by unfold_locales (rule db_takeover_answer)

end
