(* ===== verification/RecoverySafety.thy ===== *)
theory RecoverySafety
  imports WorkflowRecovery
begin

text \<open>
  What the recovery worker guarantees: the request it rebuilds from a reservation is the one the
  coordinator prepared, and a write is run again only after its takeover.
\<close>

section \<open>Reserving and rebuilding a request\<close>

definition recoveredTrusted :: "WorkflowKey \<Rightarrow> string \<Rightarrow> goAny \<Rightarrow> TrustedParam" where
  "recoveredTrusted key field v =
     \<lparr>TP_Field = field, TP_Value = v,
      TP_Source = \<lparr>SourceKind = TrustedParamSourceWorkflow, SourceRaw = [], Resolver = ''execution_recovery''\<rparr>,
      TP_TenantID = WK_TenantID key\<rparr>"

lemma persisted_Inr:
  assumes "persistedTrustedParams P = Inr ps"
  shows "ps = map (\<lambda>(field, param). (field, TP_Value param)) P"
    and "\<forall>(field, param) \<in> set P. canonicalTrustedParamValue field (TP_Value param) = Some (TP_Value param)"
proof -
  have "ps = map (\<lambda>(field, param). (field, TP_Value param)) P
      \<and> (\<forall>(field, param) \<in> set P. canonicalTrustedParamValue field (TP_Value param) = Some (TP_Value param))"
    using assms unfolding persistedTrustedParams_def
    by (induction P arbitrary: ps) (auto split: sum.splits option.splits dest: canonical_value_same)
  then show "ps = map (\<lambda>(field, param). (field, TP_Value param)) P"
    and "\<forall>(field, param) \<in> set P. canonicalTrustedParamValue field (TP_Value param) = Some (TP_Value param)"
    by blast+
qed

lemma sortedUnique_nonempty: "ids \<noteq> [] \<Longrightarrow> sortedUniqueInt64s ids \<noteq> []"
  by (metis set_empty set_sortedUnique)

lemma canonicalParam_canonical:
  assumes "canonicalTrustedParamValue field v = Some v"
  shows "canonicalTrustedParamValue field (canonicalParam field v) = Some (canonicalParam field v)"
proof (cases "field = ''dept_ids''")
  case True
  with assms obtain ids where "v = GoInt64s ids" "ids \<noteq> []" by (auto simp: canonical_dept_ids)
  with True show ?thesis by (simp add: canonicalParam_def canonical_dept_ids sortedUnique_nonempty)
qed (simp add: canonicalParam_def assms)

lemma rebuild_params:
  assumes "\<forall>(field, v) \<in> set m. canonicalTrustedParamValue field v = Some v"
  shows "map_result (recoveredParam key) m = Inr (map (\<lambda>(field, v). (field, recoveredTrusted key field v)) m)"
  using assms by (induction m) (auto simp: recoveredParam_def recoveredTrusted_def)

lemma map_of_assoc_map: "map_of (map (\<lambda>(k, x). (k, g k x)) m) k = map_option (g k) (map_of m k)"
  by (induction m) auto

text \<open>Every parameter has the same concrete value up to the order of the departments.\<close>

lemma rebuilt_value:
  assumes "\<And>p. map_of P field = Some p \<Longrightarrow>
      map_of Q field = Some (recoveredTrusted key field (canonicalParam field (TP_Value p)))"
    and "map_of P field = None \<Longrightarrow> map_of Q field = None"
    and "\<And>p. map_of P field = Some p \<Longrightarrow> canonicalTrustedParamValue field (TP_Value p) = Some (TP_Value p)"
  shows "trustedParamConcreteValue Q field = map_option (canonicalParam field) (trustedParamConcreteValue P field)"
  using assms
  by (cases "map_of P field") (auto simp: trustedParamConcreteValue_def recoveredTrusted_def canonicalParam_canonical)

lemma normalize_same_set:
  "set ids = set ids' \<Longrightarrow> normalizeBusinessKeyDeptIDs ids = Inr ns \<Longrightarrow> normalizeBusinessKeyDeptIDs ids' = Inr ns"
  by (auto simp: normalizeBusinessKeyDeptIDs_def positiveIDs_Inr sort_remdups_eq_iff
      split: sum.splits) (metis positiveIDs_Inr sum.distinct(1) obj_sumE | metis image_set sort_remdups_eq_iff positiveIDs_Inr Inr_inject)+

text \<open>The business key only depends on tenant, conversation, operation and these values.\<close>

lemma businessKey_rebuilt:
  assumes "subscriptionBusinessKeyOf req = Inr bk"
    and "OR_TenantID req' = OR_TenantID req" and "OR_Operation req' = OR_Operation req"
    and "trimSpace (OR_ConversationID req') = trimSpace (OR_ConversationID req)"
    and "\<And>field. trustedParamConcreteValue (OR_TrustedParams req') field
        = map_option (canonicalParam field) (trustedParamConcreteValue (OR_TrustedParams req) field)"
  shows "subscriptionBusinessKeyOf req' = Inr bk"
proof -
  let ?P = "OR_TrustedParams req" and ?Q = "OR_TrustedParams req'"
  have scope: "extractParamString ?Q ''scope'' = extractParamString ?P ''scope''"
    by (auto simp: extractParamString_def assms(5) canonicalParam_def split: option.split)
  define ids where "ids = (case extractParamInt64Slice ?P ''dept_ids'' of Some ids \<Rightarrow> ids | None \<Rightarrow> [])"
  define ids' where "ids' = (case extractParamInt64Slice ?Q ''dept_ids'' of Some ids \<Rightarrow> ids | None \<Rightarrow> [])"
  have same: "set ids' = set ids"
    by (auto simp: ids_def ids'_def extractParamInt64Slice_def assms(5) canonicalParam_def sortedUnique_nonempty
        split: option.split goAny.split if_splits)
  have "normalizeBusinessKeyDeptIDs ids = Inr ns \<Longrightarrow> normalizeBusinessKeyDeptIDs ids' = Inr ns" for ns
    using normalize_same_set[OF same[symmetric]] .
  then show ?thesis
    using assms(1) unfolding subscriptionBusinessKeyOf_def Let_def assms(2-4) scope
      ids_def[symmetric] ids'_def[symmetric]
    by (auto split: if_splits option.splits sum.splits)
qed

text \<open>Reading a reservation back.\<close>

lemma rebuilt_request:
  assumes bk: "subscriptionBusinessKeyForRequest req = Inr bk"
    and ps: "persistedTrustedParams (OR_TrustedParams req) = Inr ps"
    and rv: "reservation_ok rv" "RE_TrustedParams rv = ps" "RE_Operation rv = OR_Operation req" "RE_BusinessKey rv = bk"
    and r: "canonicalReservedExecution rv = Inr r"
    and key: "OR_TenantID req = WK_TenantID key" "trimSpace (OR_ConversationID req) = trimSpace (WK_ConversationID key)"
      "extractParamString (OR_TrustedParams req) ''conversation_id'' = Some c" "trimSpace c = trimSpace (WK_ConversationID key)"
  obtains req' where "operationRequestFromReservation key r = Inr req'"
    and "OR_Operation req' = OR_Operation req" "OR_TenantID req' = OR_TenantID req"
      "OR_ActorUserID req' = WK_ActorUserID key" "OR_ConversationID req' = WK_ConversationID key"
      "OR_IdempotencyKey req' = bk"
    and "\<And>field. trustedParamConcreteValue (OR_TrustedParams req') field
        = map_option (canonicalParam field) (trustedParamConcreteValue (OR_TrustedParams req) field)"
proof -
  let ?P = "OR_TrustedParams req"
  let ?canon = "\<lambda>field param. recoveredTrusted key field (canonicalParam field (TP_Value param))"
  have ps_eq: "ps = map (\<lambda>(field, param). (field, TP_Value param)) ?P"
    and each: "\<forall>(field, param) \<in> set ?P. canonicalTrustedParamValue field (TP_Value param) = Some (TP_Value param)"
    using persisted_Inr[OF ps] by auto
  from r obtain payload where payload: "MarshalReservedExecution rv = Inr payload"
    "UnmarshalReservedExecution payload = Inr r"
    by (auto simp: canonicalReservedExecution_def split: sum.splits)
  with marshal_canonical(1)[OF payload(1) rv(1)] have form: "r = canonicalForm rv" by simp
  let ?Q = "map (\<lambda>(field, v). (field, recoveredTrusted key field v)) (RE_TrustedParams r)"
  have "goMap_ok ps" using rv(1,2) by (simp add: reservation_ok_def)
  then have ok: "goMap_ok ?P" by (simp add: goMap_ok_def ps_eq case_prod_unfold comp_def)
  have params: "RE_TrustedParams r = map (\<lambda>(field, param). (field, canonicalParam field (TP_Value param))) (sortedMap ?P)"
    using rv(2) sortedMap_map[of "\<lambda>field. TP_Value" ?P]
    by (simp add: form canonicalForm_def ps_eq case_prod_unfold)
  then have Q: "?Q = map (\<lambda>(field, param). (field, ?canon field param)) (sortedMap ?P)"
    by (simp add: case_prod_unfold)
  have "\<forall>(field, v) \<in> set (RE_TrustedParams r). canonicalTrustedParamValue field v = Some v"
    using each by (auto simp: params intro!: canonicalParam_canonical)
  from rebuild_params[OF this] have rebuilt: "map_result (recoveredParam key) (RE_TrustedParams r) = Inr ?Q" .
  have vals: "trustedParamConcreteValue ?Q field = map_option (canonicalParam field) (trustedParamConcreteValue ?P field)" for field
  proof (rule rebuilt_value)
    show "map_of ?Q field = Some (?canon field p)" if "map_of ?P field = Some p" for p
      using that ok by (simp add: Q map_of_assoc_map)
    show "map_of ?Q field = None" if "map_of ?P field = None"
      using that ok by (simp add: Q map_of_assoc_map)
    show "canonicalTrustedParamValue field (TP_Value p) = Some (TP_Value p)" if "map_of ?P field = Some p" for p
      using map_of_SomeD[OF that] each by auto
  qed
  let ?req' = "\<lparr>OR_Operation = RE_Operation r, OR_TenantID = WK_TenantID key,
      OR_ActorUserID = WK_ActorUserID key, OR_ConversationID = WK_ConversationID key,
      OR_TrustedParams = ?Q, OR_IdempotencyKey = RE_BusinessKey r\<rparr>"
  have same: "RE_Operation r = OR_Operation req" "RE_BusinessKey r = bk"
    using rv by (simp_all add: form canonicalForm_def)
  have conv: "extractParamString ?Q ''conversation_id'' = Some c"
    using key(3) by (auto simp: extractParamString_def vals canonicalParam_def split: option.splits goAny.splits)
  obtain k where k: "subscriptionBusinessKeyOf req = Inr k" "bk = businessKeyDigest k"
    using bk by (auto simp: subscriptionBusinessKeyForRequest_def split: sum.splits)
  have "subscriptionBusinessKeyOf ?req' = Inr k"
    by (rule businessKey_rebuilt[OF k(1)]) (simp_all add: key(1,2) same vals)
  then have "subscriptionBusinessKeyForRequest ?req' = Inr bk"
    by (simp add: subscriptionBusinessKeyForRequest_def k(2))
  then have "operationRequestFromReservation key r = Inr ?req'"
    using conv key(4) same by (simp add: operationRequestFromReservation_def rebuilt Let_def)
  then show thesis by (rule that) (simp_all add: same key(1) vals)
qed

section \<open>Taking over\<close>

definition recoveryCallsLegal ::
  "('c \<times> storeOp \<Rightarrow> bool) \<Rightarrow> ('c, 's, 'x) recoveryDeps \<Rightarrow> nat \<Rightarrow> WorkflowKey \<Rightarrow> VersionedWorkflow \<Rightarrow> instant
     \<Rightarrow> bool" where
  "recoveryCallsLegal legal T i key candidate now \<longleftrightarrow>
     (\<forall>e token version businessKey effect.
        VW_Execution candidate = Some e \<longrightarrow>
          legal (CD_Env T (4 * i), OpDeleteReserved key version token)
          \<and> (CD_Token T i = Inr token \<longrightarrow>
              legal (CD_Env T (4 * i), OpTakeover key (VW_Version candidate) (RE_ExecutionToken (PE_Reservation e))
                (nextReservation (PE_Reservation e) token (RD_RequestID T i) now)))
          \<and> legal (CD_Env T (4 * i + 1), OpRecordResult key version token
              \<lparr>PR_BusinessKey = businessKey, PR_WriteEffect = effect, PR_CompletedAt = CD_CompletedAt T i\<rparr>)
          \<and> legal (CD_Env T (4 * i + 2), OpDeleteReserved key version token))"

text \<open>The lease of the write of \<open>r\<close> had run out before, and the write carries a new token after.\<close>

definition takenOver :: "instant \<Rightarrow> ReservedExecutionV1 \<Rightarrow> string \<Rightarrow> OperationRequest \<Rightarrow> flow \<Rightarrow> flow \<Rightarrow> bool" where
  "takenOver now r token req before after \<longleftrightarrow>
     (\<exists>v e0 e1. before = Some (v, Some e0) \<and> EV_Token e0 = trimSpace (RE_ExecutionToken r) \<and> EV_Lease e0 \<le> now
        \<and> after = Some (v + 1, Some e1) \<and> EV_Token e1 = token \<and> EV_BusinessKey e1 = EV_BusinessKey e0
        \<and> OR_Operation req = EV_Operation e0 \<and> OR_IdempotencyKey req = EV_BusinessKey e0)"

lemma request_of_reservation:
  "operationRequestFromReservation key r = Inr req \<Longrightarrow>
     OR_Operation req = RE_Operation r \<and> OR_IdempotencyKey req = RE_BusinessKey r
     \<and> OR_TenantID req = WK_TenantID key \<and> OR_ActorUserID req = WK_ActorUserID key
     \<and> subscriptionBusinessKeyForRequest req = Inr (RE_BusinessKey r)"
  by (auto simp: operationRequestFromReservation_def Let_def split: sum.splits option.splits if_splits)

context recovery_store
begin

lemma stored_call:
  assumes "CD_Serve T = serve" and "good s" and "list_all legal (CD_Others T n)" and "legal (CD_Env T n, op)"
    and "storeCall T n op s = (res, s')"
  shows "good (runCalls serve (CD_Others T n) s)"
    and "serve (CD_Env T n) op (runCalls serve (CD_Others T n) s) = (res, s')" and "good s'"
proof -
  show g: "good (runCalls serve (CD_Others T n) s)" using good_run[OF assms(2,3)] .
  show c: "serve (CD_Env T n) op (runCalls serve (CD_Others T n) s) = (res, s')"
    using assms(1,5) by (simp add: storeCall_def)
  show "good s'" by (rule good_serve[OF g assms(4) c])
qed

lemma stored_release:
  assumes "CD_Serve T = serve" and "good s" and "list_all legal (CD_Others T n)"
    and "legal (CD_Env T n, OpDeleteReserved key version token)"
    and "storeCall T n (OpDeleteReserved key version token) s = (Inr w, s')"
  shows "view s' key = None"
proof -
  note call = stored_call[OF assms]
  from success_step[OF call(1) assms(4) call(2)] show ?thesis by (auto simp: flow_step_simps)
qed

lemma finished:
  assumes "CD_Serve T = serve" and "good s" and "\<And>m. list_all legal (CD_Others T m)"
    and "recoveryCallsLegal legal T i key candidate now" and "VW_Execution candidate \<noteq> None"
    and "finishRecovered T i key taken token now req result s = ([], s')"
  shows "authoritative result \<and> view s' key = None"
proof -
  have legal: "legal (CD_Env T (4 * i + 1), OpRecordResult key version token
      \<lparr>PR_BusinessKey = bk, PR_WriteEffect = effect, PR_CompletedAt = CD_CompletedAt T i\<rparr>)"
    "legal (CD_Env T (4 * i + 2), OpDeleteReserved key version token)" for version token bk effect
    using assms(4,5) unfolding recoveryCallsLegal_def by blast+
  have defers: "deferWorkflowRecovery T n key taken token now e s1 \<noteq> ([], s2)" for n e s1 s2
    by (simp add: deferWorkflowRecovery_def split: prod.split sum.split)
  obtain recorded s1 version w where auth: "authoritative result"
    and rec: "storeCall T (4 * i + 1) (OpRecordResult key (VW_Version taken) token
      \<lparr>PR_BusinessKey = OR_IdempotencyKey req, PR_WriteEffect = ER_Effect result,
       PR_CompletedAt = CD_CompletedAt T i\<rparr>) s = (Inr recorded, s1)"
    and del: "storeCall T (4 * i + 2) (OpDeleteReserved key version token) s1 = (Inr w, s')"
    using assms(6) by (auto simp: finishRecovered_def Let_def defers split: if_splits sum.splits prod.splits)
  have "good s1" by (rule stored_call(3)[OF assms(1-3) legal(1) rec])
  from stored_release[OF assms(1) this assms(3) legal(2) del] auth show ?thesis by simp
qed

lemma recovered_write:
  assumes "CD_Serve T = serve" and "good s" and "\<And>m. list_all legal (CD_Others T m)"
    and "recoveryCallsLegal legal T i key candidate now"
    and "recoverWorkflowExecution T i key candidate now s x = (errs, s', x')"
  shows "x' = x \<and> (errs = [] \<longrightarrow> view s' key = None
        \<and> (\<exists>e. VW_Execution candidate = Some e \<and> PE_Result e \<noteq> None))
    \<or> (\<exists>e token req result s1. VW_Execution candidate = Some e \<and> CD_Token T i = Inr token
        \<and> takenOver (CE_Now (CD_Env T (4 * i))) (PE_Reservation e) token req
            (view (runCalls serve (CD_Others T (4 * i)) s) key) (view s1 key)
        \<and> subscriptionBusinessKeyForRequest req = Inr (OR_IdempotencyKey req)
        \<and> CD_Executor T req x = (result, x')
        \<and> (errs = [] \<longrightarrow> authoritative result \<and> view s' key = None))"
proof (cases "VW_Execution candidate")
  case None
  with assms(5) show ?thesis by (auto simp: recoverWorkflowExecution_def)
next
  case (Some e)
  let ?r = "PE_Reservation e"
  have legal: "legal (CD_Env T (4 * i), OpDeleteReserved key version tok)"
    "CD_Token T i = Inr token \<Longrightarrow> legal (CD_Env T (4 * i), OpTakeover key (VW_Version candidate)
      (RE_ExecutionToken ?r) (nextReservation ?r token (RD_RequestID T i) now))" for version tok token
    using assms(4) Some unfolding recoveryCallsLegal_def by blast+
  consider (recorded) "PE_Status e = WorkflowExecutionResultRecorded" | (other) status where "PE_Status e = OtherStatus status"
    | (open_) "PE_Status e \<noteq> WorkflowExecutionResultRecorded" "\<And>status. PE_Status e \<noteq> OtherStatus status" by blast
  then show ?thesis
  proof cases
    case recorded
    then show ?thesis
      using assms(5) Some stored_release[OF assms(1-3) legal(1)]
      by (auto simp: recoverWorkflowExecution_def Let_def split: if_splits sum.splits prod.splits)
  next
    case other
    with assms(5) Some show ?thesis by (auto simp: recoverWorkflowExecution_def Let_def)
  next
    case open_
    let ?take = "\<lambda>token. OpTakeover key (VW_Version candidate) (RE_ExecutionToken ?r)
      (nextReservation ?r token (RD_RequestID T i) now)"
    have body: "recoverWorkflowExecution T i key candidate now s x
      = (if now < RE_LeaseExpiresAt ?r then ([ErrExecutionInProgress], s, x)
         else (case CD_Token T i of Inl err \<Rightarrow> ([err], s, x)
         | Inr token \<Rightarrow> (case storeCall T (4 * i) (?take token) s of
             (Inl err, s') \<Rightarrow> ([err], s', x)
           | (Inr None, s') \<Rightarrow> ([nilPointer], s', x)
           | (Inr (Some taken), s') \<Rightarrow> runTaken T i key taken token now s' x)))"
      using open_(1) Some
      by (cases "PE_Status e") (simp_all add: recoverWorkflowExecution_def Let_def, metis open_(2))
    show ?thesis
    proof (cases "\<exists>token taken s1. CD_Token T i = Inr token \<and> storeCall T (4 * i) (?take token) s = (Inr (Some taken), s1)
        \<and> \<not> now < RE_LeaseExpiresAt ?r")
      case False
      then have "errs \<noteq> [] \<and> x' = x"
        using assms(5) unfolding body by (auto split: if_splits sum.splits prod.splits option.splits)
      then show ?thesis by simp
    next
      case True
      then obtain token taken s1 where token: "CD_Token T i = Inr token"
        and take: "storeCall T (4 * i) (?take token) s = (Inr (Some taken), s1)"
        and run: "runTaken T i key taken token now s1 x = (errs, s', x')"
        using assms(5) unfolding body by auto
      note call = stored_call[OF assms(1-3) legal(2)[OF token] take]
      obtain e2 e0 e1 where taken: "VW_Execution taken = Some e2"
        "canonicalReservedExecution (nextReservation ?r token (RD_RequestID T i) now) = Inr (PE_Reservation e2)"
        "view (runCalls serve (CD_Others T (4 * i)) s) key = Some (VW_Version candidate, Some e0)"
        "EV_Token e0 = trimSpace (RE_ExecutionToken ?r)" "EV_Lease e0 \<le> CE_Now (CD_Env T (4 * i))"
        "EV_Operation e0 = RE_Operation (nextReservation ?r token (RD_RequestID T i) now)"
        "EV_BusinessKey e0 = RE_BusinessKey (nextReservation ?r token (RD_RequestID T i) now)"
        "view s1 key = Some (VW_Version candidate + 1, Some e1)"
        "EV_Token e1 = RE_ExecutionToken (nextReservation ?r token (RD_RequestID T i) now)"
        "EV_BusinessKey e1 = RE_BusinessKey (nextReservation ?r token (RD_RequestID T i) now)"
        using takeover_call[OF call(1) legal(2)[OF token] call(2)] by blast
      show ?thesis
      proof (cases "operationRequestFromReservation key (PE_Reservation e2)")
        case (Inl err)
        then have "errs \<noteq> [] \<and> x' = x"
          using run taken(1) by (auto simp: runTaken_def deferWorkflowRecovery_def split: prod.splits sum.splits)
        then show ?thesis by simp
      next
        case (Inr req)
        obtain result where exec: "CD_Executor T req x = (result, x')"
          and fin: "finishRecovered T i key taken token now req result s1 = (errs, s')"
          using run taken(1) Inr by (auto simp: runTaken_def split: prod.splits)
        have "takenOver (CE_Now (CD_Env T (4 * i))) ?r token req
            (view (runCalls serve (CD_Others T (4 * i)) s) key) (view s1 key)"
          using taken request_of_reservation[OF Inr] canonicalReserved_InrD[OF taken(2)]
          by (simp add: takenOver_def nextReservation_def)
        moreover have "errs = [] \<longrightarrow> authoritative result \<and> view s' key = None"
          using finished[OF assms(1) call(3) assms(3,4)] Some fin by auto
        moreover have "subscriptionBusinessKeyForRequest req = Inr (OR_IdempotencyKey req)"
          using request_of_reservation[OF Inr] by simp
        ultimately show ?thesis using token exec Some by blast
      qed
    qed
  qed
qed

end

end
