(* ===== verification/AgentSafety.thy ===== *)
theory AgentSafety
  imports RecoverySafety
begin

text \<open>
  The guarantees of the live agent, each with a concrete instance: a write is prepared only behind
  every gate, is in the database before it runs and until its result is recorded, and is taken over
  by the recovery worker only after its lease and as the request that was prepared; a message writes
  at most once. The last theorem shows a dialogue that is lost.
\<close>

section \<open>Preparing a write\<close>

text \<open>C7: A message makes the pipeline prepare a write only for a known user who is at least an
  administrator, when the policy gate allowed the execution of the operation that the draft names,
  and when that very request passes the resource gate and the write guard and carries the business
  key computed from it; nothing has been executed then.\<close>

theorem write_prepared_behind_gates:
  assumes "live_Handle deps message uctx received x = (o1, x')" and "LO_PreparedWrite o1 = Some px"
  shows "x' = x \<and> (\<exists>u draft w. uctx = Some u \<and> 1 \<le> UC_UserRole u \<and> LO_Draft o1 = Some draft
      \<and> AllowExecution (LO_Validation o1) \<and> OR_Operation (WX_Request px) = Operation draft
      \<and> RG_Allow (resourcePolicyGate_Validate
            \<lparr>RG_User = uctx, RG_Request = WX_Request px, RG_Dept = LD_Departments deps\<rparr>)
      \<and> WG_Allow (writeGuard_Check \<lparr>WG_User = uctx, WG_Manifest = lookupOperation (Operation draft),
            WG_Request = WX_Request px, WG_Workflow = w, WG_Confirmed = False\<rparr>)
      \<and> subscriptionBusinessKeyForRequest (WX_Request px) = Inr (WX_BusinessKey px))"
  using handle_gated(2)[OF assms] unfolding passedGates_def preparedFor_def by blast

text \<open>C6: A message makes at most one write: whatever the compiler answers, the store returns and
  other requests do, a turn runs at most two operations, of which at most one writes, even when a
  version conflict makes it start over.\<close>

theorem turn_writes_once:
  assumes "protocolTurn T deps key message uctx s x = (reply, s', x')"
  shows "\<exists>reqs. x' = runOps (CD_Executor T) reqs x \<and> length reqs \<le> 2 \<and> writesIn reqs \<le> 1"
proof -
  obtain reply0 s0 x0 where first: "turnAttempt T (deps 0) 0 key message uctx s x = (reply0, s0, x0)"
    by (metis surj_pair)
  from attempt_runs[OF first] obtain as where as: "x0 = runOps (CD_Executor T) as x" "length as < 2"
    "reply0 = None \<longrightarrow> writesIn as = 0" by blast
  have small: "writesIn reqs \<le> length reqs" for reqs by (simp add: writesIn_def)
  show ?thesis
  proof (cases reply0)
    case None
    then have "turnAttempt T (deps 1) 1 key message uctx s0 x0 = (reply, s', x')"
      using assms first by (simp add: protocolTurn_def)
    from attempt_runs[OF this] obtain bs where "x' = runOps (CD_Executor T) bs x0" "length bs < 2" by blast
    with as None small[of bs] show ?thesis by (intro exI[of _ "as @ bs"]) (simp add: runOps_append)
  next
    case (Some o0)
    with assms first have "x' = x0" by (simp add: protocolTurn_def)
    with as small[of as] show ?thesis by (intro exI[of _ as]) simp
  qed
qed

section \<open>Writing through the database\<close>


section \<open>Recovering a write\<close>


text \<open>C9: The worker rebuilds the prepared request: for a write about the user's own conversation,
  whatever reservation the stores keep of it, the request made of that reservation has the same
  operation, tenant, actor, business key and parameters, the departments sorted.\<close>

theorem recovered_request_is_prepared:
  assumes "key = workflowKeyFromUserContext (Some u)"
    and "subscriptionBusinessKeyForRequest (WX_Request px) = Inr (WX_BusinessKey px)"
    and "requestConversationMatchesUser (Some u) (WX_Request px)"
    and "extractParamString (OR_TrustedParams (WX_Request px)) ''conversation_id'' \<noteq> None"
    and "OR_TenantID (WX_Request px) = UC_TenantID u"
    and "trimSpace (OR_ConversationID (WX_Request px)) = trimSpace (WK_ConversationID key)"
    and "persistedTrustedParams (OR_TrustedParams (WX_Request px)) = Inr ps"
    and "reservation_ok (coordinatorReservation o0 px ps token now)"
    and "canonicalReservedExecution (coordinatorReservation o0 px ps token now) = Inr r"
  shows "\<exists>req. operationRequestFromReservation key r = Inr req
      \<and> OR_Operation req = OR_Operation (WX_Request px) \<and> OR_TenantID req = UC_TenantID u
      \<and> OR_ActorUserID req = UC_UserID u \<and> OR_IdempotencyKey req = WX_BusinessKey px
      \<and> (\<forall>field. trustedParamConcreteValue (OR_TrustedParams req) field
           = map_option (canonicalParam field) (trustedParamConcreteValue (OR_TrustedParams (WX_Request px)) field))"
proof -
  obtain c where c: "extractParamString (OR_TrustedParams (WX_Request px)) ''conversation_id'' = Some c"
    using assms(4) by auto
  with assms(3) have conv: "c = trimSpace (UC_ConversationID u)" "c \<noteq> []"
    by (auto simp: requestConversationMatchesUser_def)
  then have key: "WK_TenantID key = UC_TenantID u" "WK_ActorUserID key = UC_UserID u" "WK_ConversationID key = c"
    by (simp_all add: assms(1) workflowKeyFromUserContext_def)
  show ?thesis
    by (rule rebuilt_request[OF assms(2,7,8) _ _ _ assms(9) _ assms(6) c])
      (use assms(5) key in \<open>auto simp: coordinatorReservation_def\<close>)
qed

section \<open>A dialogue that is lost\<close>

lemma restart_validated:
  assumes "Act draft = ActWriteRequest" and "Operation draft = ''subscription.start''"
    and "Domain draft = DomainSubscription" and "lowConfidenceWriteThreshold \<le> Confidence draft"
    and "UC_ConversationType u = ''2''" and "1 \<le> UC_UserRole u"
    and "validatedOutcome deps (Some u) draft received (Some w) o0 = (o1, active)"
  shows "active = None" and "LO_ClearWorkflow o1" and "AllowExecution (LO_Validation o1)"
proof -
  let ?pi = "\<lparr>PI_Draft = draft, PI_ActiveWorkflow = protocolWorkflowContextFromWorkflowSnapshot (Some w),
    PI_ConversationType = ''2'', PI_UserRole = UC_UserRole u, PI_HasUserContext = True\<rparr>"
  have two: "trimSpace ''2'' = ''2''"
    by (rule trimSpace_ascii; simp add: ascii_def no_space_def isSpace_def)
  have v: "prePolicyGate_Validate ?pi = approval ''allowed_write_request'' False True ResponseResult"
    using assms(1-4,6) two
    by (simp add: prePolicyGate_Validate_def validateByAct_def op_subscription_start_def
        protocolWorkflowContextFromWorkflowSnapshot_def enforcePreUserPolicy_def conversationScopeAllowed_def
        policyExplicitNewRequest_def actAllowed_def catalogResponseKind_def)
  have "workflowResultTerminal (interruptActiveWorkflow (Some w) draft)"
    by (simp add: workflowResultTerminal_def interruptActiveWorkflow_def Let_def answer_def)
  then show "active = None" and "LO_ClearWorkflow o1" and "AllowExecution (LO_Validation o1)"
    using assms(5-7) v by (auto simp: validatedOutcome_def Let_def userConversationType_def inputUserRole_def)
qed

lemma restart_handled:
  assumes "Act draft = ActWriteRequest" and "Operation draft = ''subscription.start''"
    and "UC_ConversationType u = ''2''" and "1 \<le> UC_UserRole u" and "\<not> LD_Canceled deps"
    and "resolveInitialSubscriptionTrustedEntities deps draft (UC_TenantID u) = None"
    and "AllowExecution (LO_Validation o1)" and "LO_ClearWorkflow o1" and "LO_PreparedWrite o1 = None"
  shows "\<exists>o2 w. handleDraft deps message (Some u) draft None o1 x = (o2, x)
    \<and> startWorkflow (LD_UnixNano deps) draft = Some w \<and> LO_WorkflowAfter o2 = Some w
    \<and> LO_Response o2 = clarify ''subscription_missing_fields'' \<and> LO_ClearWorkflow o2 \<and> LO_PreparedWrite o2 = None"
proof -
  obtain w where w: "startWorkflow (LD_UnixNano deps) draft = Some w"
    by (simp only: startWorkflow_def assms(2) start_operation[unfolded startOperation_def] simp_thms if_True)
  let ?o2 = "o1\<lparr>LO_RendererName := ''response_renderer''\<rparr>"
  let ?o3 = "setProtocolOutcomeResponse (clarify ''subscription_missing_fields'') answerModeToolFirst
      (?o2\<lparr>LO_WorkflowDecision := Some WorkflowStartNew, LO_WorkflowAfter := Some w\<rparr>)"
  have op: "Dispatch op_subscription_start = ''subscription_workflow''"
    "RendererName op_subscription_start = ''response_renderer''" "MinRole op_subscription_start = 1"
    by (simp_all add: op_subscription_start_def)
  have role: "protocolLiveRoleRefusal (Some u) draft = None"
    using assms(2,4) by (simp add: protocolLiveRoleRefusal_def op inputUserRole_def)
  have binding: "lookupProtocolLiveDispatch ''subscription_workflow'' = Some dispatchSubscriptionWorkflow"
    by (simp add: lookupProtocolLiveDispatch_def protocolLiveDispatchBindings_def)
  have "handleDraft deps message (Some u) draft None o1 x = dispatchOperation deps message (Some u) draft None o1 x"
    using role assms(1,7) by (simp add: handleDraft_def protocolPrimaryDispatchAllowed_def)
  also have "\<dots> = handleSubscription deps message (Some u) draft None ?o2 x"
    using assms(2,5) binding by (simp add: dispatchOperation_def live_dispatch_def op)
  also have "\<dots> = beginSubscription deps (Some u) draft ?o2 x"
    using assms(2,3) by (simp add: handleSubscription_def list_operation userConversationType_def)
  also have "\<dots> = (?o3\<lparr>LO_BlockedReason := ''missing_scope''\<rparr>, x)"
    using assms(1,2,6) w by (simp add: beginSubscription_def start_operation userTenantID_def)
  finally show ?thesis
    using assms(8,9) w by (simp add: setProtocolOutcomeResponse_def)
qed

text \<open>C14: When an administrator asks for a new subscription while a dialogue is still open, without
  naming a scope, the bot asks for the scope of the new subscription; but the outcome is also marked
  to clear the old dialogue, so that the row is deleted, the new dialogue never stored, and the
  answer to the question finds no dialogue to continue.\<close>

theorem restarted_subscription_lost:
  assumes "list_all legalCall history" and "CD_Serve T = db_serve" and "list_all legalCall (CD_Others T n)"
    and "\<not> workflowExpired (Some (VW_Snapshot v)) (LD_Clock deps 0)"
    and "LD_Compile deps message (protocolWorkflowContextFromWorkflowSnapshot (Some (VW_Snapshot v))) = Inr draft"
    and "Act draft = ActWriteRequest" and "Operation draft = ''subscription.start''"
    and "Domain draft = DomainSubscription" and "lowConfidenceWriteThreshold \<le> Confidence draft"
    and "UC_ConversationType u = ''2''" and "1 \<le> UC_UserRole u" and "\<not> LD_Canceled deps"
    and "resolveInitialSubscriptionTrustedEntities deps draft (UC_TenantID u) = None"
    and "columns_ok (CD_Env T n)"
    and "live_Handle deps message (Some u) (Some (VW_Snapshot v)) x = (o1, x')"
    and "persistOutcome T attempt n key (Some v) o1 (db_after history) x' = (c, rows', x'')"
  shows "(\<exists>w. startWorkflow (LD_UnixNano deps) draft = Some w \<and> LO_WorkflowAfter o1 = Some w)
    \<and> LO_Response o1 = clarify ''subscription_missing_fields'' \<and> LO_ClearWorkflow o1
    \<and> (CO_Err c = None \<longrightarrow> db_view rows' key = None)"
proof -
  let ?w = "Some (VW_Snapshot v)"
  obtain o2 active where o2: "validatedOutcome deps (Some u) draft ?w ?w (startedOutcome deps) = (o2, active)"
    by (metis surj_pair)
  note validated = restart_validated[OF assms(6-11) o2]
  have "LO_PreparedWrite o2 = None"
    using o2 by (auto simp: validatedOutcome_def Let_def startedOutcome_def emptyOutcome_def split: if_splits)
  from restart_handled[OF assms(6,7,10-13) validated(3,2) this]
  obtain o3 w where o3: "handleDraft deps message (Some u) draft None o2 x = (o3, x)"
    "startWorkflow (LD_UnixNano deps) draft = Some w" "LO_WorkflowAfter o3 = Some w"
    "LO_Response o3 = clarify ''subscription_missing_fields''" "LO_ClearWorkflow o3" "LO_PreparedWrite o3 = None"
    by blast
  have o1: "o1 = finalizeProtocolLiveOutcome (LD_RequestID deps) o3"
    using assms(4,5,15) o2 validated(1) o3(1) by (auto simp: live_Handle_def)
  have "db_view rows' key = None" if none: "CO_Err c = None"
  proof -
    obtain r where call: "callStore T n (OpDeleteIfVersion key (VW_Version v)) (db_after history) = (Inr r, rows')"
      using assms(16) none o3(5,6)
      by (cases "callStore T n (OpDeleteIfVersion key (VW_Version v)) (db_after history)")
        (auto simp: persistOutcome_def persistProtocolLiveWorkflowOutcome_def o1 split: sum.splits)
    have ok: "db_ok (othersFirst T n (db_after history))"
      using database.good_run[OF db_after_ok[OF assms(1)] assms(3)] assms(2) by (simp add: othersFirst_def)
    have "legalCall (CD_Env T n, OpDeleteIfVersion key (VW_Version v))" using assms(14) by simp
    from database.success_step[OF ok this] call assms(2) show ?thesis
      by (auto simp: callStore_def flow_step_simps)
  qed
  with o3 show ?thesis by (auto simp: o1)
qed

section \<open>The length of a printed reservation\<close>

lemma hex_digit_plain: "n < 16 \<Longrightarrow> byte_of (hex_digit n) < 128 \<and> \<not> isSpace (byte_of (hex_digit n))"
  by (auto simp: hex_digit_def isSpace_def)

lemma byte_bound: "byte_of c < 256"
  by (cases c) simp

lemma hexEncode_plain: "ascii (hexEncode s)" "no_space (hexEncode s)"
proof -
  have "ascii (hexEncode s) \<and> no_space (hexEncode s)"
  proof (induction s)
    case (Cons c s)
    have "byte_of c div 16 < 16"
      using byte_bound[of c] by (simp only: div_less_iff_less_mult)
    then have "ascii [hex_digit (byte_of c div 16), hex_digit (byte_of c mod 16)]"
      "no_space [hex_digit (byte_of c div 16), hex_digit (byte_of c mod 16)]"
      using hex_digit_plain[of "byte_of c div 16"] hex_digit_plain[of "byte_of c mod 16"]
      by (simp_all add: ascii_def no_space_def)
    then show ?case using Cons by (simp add: hexEncode_def ascii_def no_space_def)
  qed (simp add: hexEncode_def ascii_def no_space_def)
  then show "ascii (hexEncode s)" "no_space (hexEncode s)" by auto
qed

lemma digest_plain: "ascii (businessKeyDigest k)" "no_space (businessKeyDigest k)" "length (businessKeyDigest k) = 64"
  by (simp_all add: businessKeyDigest_def hexEncode_plain length_hexEncode length_sha256)

lemma escape_chunk_length: "length (escape_chunk c) \<le> 6 + length (snd (snd c))"
  by (auto simp: escape_chunk_def u_escape_def split: prod.split)

lemma length_print_ascii:
  assumes "ascii s"
  shows "length (print_string s) \<le> 7 * length s + 2"
proof -
  have "length (concat (map escape_chunk (map (\<lambda>c. (byte_of c, True, [c])) s))) \<le> 7 * length s"
  proof (induction s)
    case (Cons c s)
    then show ?case using escape_chunk_length[of "(byte_of c, True, [c])"] by simp
  qed simp
  then show ?thesis using rune_chunks_ascii[OF assms] by (simp add: print_string_def)
qed

lemma runeLength_ascii: "ascii s \<Longrightarrow> runeLengthWithin s n \<longleftrightarrow> length s \<le> n"
  by (simp add: runeLengthWithin_def runeCountInString_def rune_chunks_ascii)

lemma print_members_more: "ms \<noteq> [] \<Longrightarrow>
    print_members ((k, v) # ms) = print_string k @ CHR '':'' # print_json v @ CHR '','' # print_members ms"
  by (cases ms) simp_all

section \<open>Witnesses\<close>

text \<open>An administrator in the conversation of \<^const>\<open>exKey\<close>.\<close>

definition exMember :: UserContext where
  "exMember = exUser\<lparr>UC_TenantID := 1, UC_UserID := 7, UC_ConversationID := ''c''\<rparr>"

lemma exMember_fields [simp]:
  "UC_TenantID exMember = 1" "UC_UserID exMember = 7" "UC_UserRole exMember = 1" "UC_ConversationType exMember = ''2''"
  "UC_ConversationID exMember = ''c''" "UC_ConversationTitle exMember = ''Class''"
  by (simp_all add: exMember_def exUser_def)

definition exCancelDraft :: ProtocolDraft where
  "exCancelDraft =
     \<lparr>Act = ActWriteRequest, Domain = DomainSubscription, Operation = ''subscription.cancel'', Confidence = 1,
      Slots = [], Reason = [], DraftParams = [], DraftMissingFields = [], ClarifyReason = []\<rparr>"

definition exResultOf :: "writeEffect \<Rightarrow> OperationExecutionResult" where
  "exResultOf effect =
     \<lparr>ER_Response = response ResponseResult,
      ER_Metrics = \<lparr>EM_ExecutorName = [], EM_ToolPool = [], EM_AnswerMode = answerModeToolFirst,
        EM_RetrievalHitCount = 0, EM_RetrievalCandidateCount = 0, EM_SourceRefs = []\<rparr>,
      ER_Effect = effect\<rparr>"

text \<open>The world is the number of operations that were executed.\<close>

definition exDeps :: "ProtocolDraft \<Rightarrow> nat liveDeps" where
  "exDeps draft =
     \<lparr>LD_Compile = (\<lambda>message workflow. Inr draft), LD_Canceled = False,
      LD_Executor = (\<lambda>req x. (exResultOf WriteEffectCancelled, Suc x)), LD_Users = None, LD_Departments = None,
      LD_Semester = None, LD_Periods = None, LD_Clock = (\<lambda>n. 63900000000000000000), LD_Zone = 0,
      LD_Lower = id, LD_RequestID = ''req-1'', LD_UnixNano = 5\<rparr>"

lemma two_trimmed: "trimSpace ''2'' = ''2''" "trimSpace ''c'' = ''c''" "trimSpace ''Class'' = ''Class''"
  "trimSpace ''subscription.cancel'' = ''subscription.cancel''"
  by (rule trimSpace_ascii; simp add: ascii_def no_space_def isSpace_def)+

definition exValidated :: protocolLiveOutcome where
  "exValidated = fst (validatedOutcome (exDeps exCancelDraft) (Some exMember) exCancelDraft None None
     (startedOutcome (exDeps exCancelDraft)))"

definition exCancelRequest :: OperationRequest where
  "exCancelRequest =
     enrichOperationRequestFromUser (conversationRequest (Some exMember) op_subscription_cancel) (Some exMember)"

lemma exCancelRequest_record:
  "exCancelRequest = \<lparr>OR_Operation = ''subscription.cancel'', OR_TenantID = 1, OR_ActorUserID = 7,
     OR_ConversationID = ''c'',
     OR_TrustedParams =
       [(''conversation_id'', trustedParam ''conversation_id'' (GoString ''c'') 1
          \<lparr>SourceKind = TrustedParamSourceRuntime, SourceRaw = [], Resolver = ''conversation_runtime''\<rparr>),
        (operationParamActorRole, trustedParam operationParamActorRole (GoInt 1) 1
          \<lparr>SourceKind = TrustedParamSourceRuntime, SourceRaw = [], Resolver = ''user_context_runtime''\<rparr>),
        (operationParamConversationType, trustedParam operationParamConversationType (GoString ''2'') 1
          \<lparr>SourceKind = TrustedParamSourceRuntime, SourceRaw = [], Resolver = ''user_context_runtime''\<rparr>),
        (operationParamConversationTitle, trustedParam operationParamConversationTitle (GoString ''Class'') 1
          \<lparr>SourceKind = TrustedParamSourceRuntime, SourceRaw = [], Resolver = ''user_context_runtime''\<rparr>)],
     OR_IdempotencyKey = []\<rparr>"
  by (simp add: exCancelRequest_def conversationRequest_def userRequest_def bareRequest_def
      op_subscription_cancel_def enrichOperationRequestFromUser_def Let_def two_trimmed setIfMissing_def
      trustedParamsFromValues_def userTenantID_def userActorUserID_def userConversationID_def
      canonicalTrustedParamValue_def nonEmptyString_def)

lemma exValidated_simps:
  "snd (validatedOutcome (exDeps exCancelDraft) (Some exMember) exCancelDraft None None
     (startedOutcome (exDeps exCancelDraft))) = None"
  "AllowExecution (LO_Validation exValidated)" "LO_WorkflowAfter exValidated = None"
  by (simp_all add: exValidated_def validatedOutcome_def Let_def exCancelDraft_def startedOutcome_def
      emptyOutcome_def prePolicyGate_Validate_def validateByAct_def op_subscription_cancel_def two_trimmed
      protocolWorkflowContextFromWorkflowSnapshot_def enforcePreUserPolicy_def conversationScopeAllowed_def
      policyExplicitNewRequest_def actAllowed_def catalogResponseKind_def userConversationType_def inputUserRole_def
      lowConfidenceWriteThreshold_def)

lemma exCancel_conversation:
  "extractParamString (OR_TrustedParams exCancelRequest) ''conversation_id'' = Some ''c''"
  "requestConversationMatchesUser (Some exMember) exCancelRequest"
  by (simp_all add: exCancelRequest_record ex_request_simps requestConversationMatchesUser_def two_trimmed)

lemma exCancel_allowed:
  "RG_Allow (resourcePolicyGate_Validate \<lparr>RG_User = Some exMember, RG_Request = exCancelRequest, RG_Dept = None\<rparr>)"
  using exCancel_conversation
  by (simp add: resourcePolicyGate_Validate_def exCancelRequest_record op_subscription_cancel_def
      checkPolicy_def two_trimmed)

lemma exCancel_guarded:
  "WG_Allow (writeGuard_Check \<lparr>WG_User = Some exMember, WG_Manifest = Some op_subscription_cancel,
     WG_Request = exCancelRequest, WG_Workflow = None, WG_Confirmed = False\<rparr>)"
  by (simp add: writeGuard_Check_def writeGuardManifest_def op_subscription_cancel_def writeRequiresConfirmation_def
      Let_def buildIdempotencyKey_def idempotencyFieldValue_def exCancelRequest_record two_trimmed)

lemma exCancel_key:
  "subscriptionBusinessKeyOf (exCancelRequest\<lparr>OR_IdempotencyKey := k\<rparr>) =
     Inr \<lparr>BK_Version = 1, BK_TenantID = 1, BK_ConversationID = ''c'', BK_Operation = ''subscription.cancel'',
          BK_Scope = [], BK_DeptIDs = []\<rparr>"
  by (simp add: subscriptionBusinessKeyOf_def exCancelRequest_record two_trimmed subscriptionBusinessKeyVersion_def)

lemma exCancel_prepared:
  "\<exists>px. LO_PreparedWrite (fst (live_Handle (exDeps exCancelDraft) ''stop it'' (Some exMember) None 0)) = Some px"
proof -
  have binding: "lookupProtocolLiveDispatch (Dispatch op_subscription_cancel) = Some dispatchRuntimeConversation"
    "IsWrite op_subscription_cancel" "MinRole op_subscription_cancel = 1"
    by (simp_all add: op_subscription_cancel_def lookupProtocolLiveDispatch_def protocolLiveDispatchBindings_def)
  have role: "protocolLiveRoleRefusal (Some exMember) exCancelDraft = None"
    by (simp add: protocolLiveRoleRefusal_def exCancelDraft_def binding inputUserRole_def)
  have draft: "Act exCancelDraft = ActWriteRequest" "Operation exCancelDraft = ''subscription.cancel''"
    by (simp_all add: exCancelDraft_def)
  have op: "OR_Operation exCancelRequest = ''subscription.cancel''" by (simp add: exCancelRequest_record)
  have deps: "\<not> LD_Canceled (exDeps draft)" "LD_Departments (exDeps draft) = None"
    "LD_Compile (exDeps draft) message w = Inr draft" for message draft w
    by (simp_all add: exDeps_def)
  have prepared: "LO_PreparedWrite (prepareWrite (exCancelRequest\<lparr>OR_IdempotencyKey := k\<rparr>) o0) \<noteq> None" for k o0
    by (simp add: prepareWrite_def subscriptionBusinessKeyForRequest_def exCancel_key Let_def addResolvedParams_def
        setProtocolOutcomeResponse_def)
  have handled: "LO_PreparedWrite (fst (handleDraft (exDeps exCancelDraft) m (Some exMember) exCancelDraft None exValidated x))
      \<noteq> None" for m x
    using exValidated_simps exCancel_allowed exCancel_guarded binding role prepared
    by (simp add: handleDraft_def protocolPrimaryDispatchAllowed_def draft dispatchOperation_def Let_def deps
        live_dispatch_def live_execute_def pipeline_execute_def guardWrite_def op flip: exCancelRequest_def)
  obtain o1 where v: "validatedOutcome (exDeps exCancelDraft) (Some exMember) exCancelDraft None None
      (startedOutcome (exDeps exCancelDraft)) = (o1, None)"
    using exValidated_simps(1) by (metis prod.collapse)
  then have "o1 = exValidated" by (simp add: exValidated_def)
  with handled[of "''stop it''" 0] v show ?thesis
    by (auto simp: live_Handle_def deps workflowExpired_def protocolWorkflowContextFromWorkflowSnapshot_def
        split: prod.split)
qed

theorem write_prepared_behind_gates_witness:
  "snd (live_Handle (exDeps exCancelDraft) ''stop it'' (Some exMember) None (0::nat)) = 0"
proof -
  obtain px where "LO_PreparedWrite (fst (live_Handle (exDeps exCancelDraft) ''stop it'' (Some exMember) None 0)) = Some px"
    using exCancel_prepared by blast
  then show ?thesis
    using write_prepared_behind_gates[of "exDeps exCancelDraft" "''stop it''" "Some exMember" None 0] by (metis prod.collapse)
qed

definition exTurn :: "(dbEnv, workflowTable, nat) turnDeps" where
  "exTurn =
     \<lparr>CD_Serve = db_serve, CD_Env = (\<lambda>n. exDbEnv 63900000000000000123), CD_Others = (\<lambda>n. []),
      CD_Executor = (\<lambda>req x. (exResultOf WriteEffectCreated, Suc x)), CD_Now = (\<lambda>attempt. 63900000000000000123),
      CD_CompletedAt = (\<lambda>attempt. 63900000010000000007), CD_Token = (\<lambda>attempt. Inr ''tok-1'')\<rparr>"

lemma exTurn_simps [simp]:
  "CD_Serve exTurn = db_serve" "CD_Env exTurn n = exDbEnv 63900000000000000123" "CD_Others exTurn n = []"
  "CD_Now exTurn n = 63900000000000000123" "CD_CompletedAt exTurn n = 63900000010000000007"
  "CD_Token exTurn n = Inr ''tok-1''" "CD_Executor exTurn req x = (exResultOf WriteEffectCreated, Suc x)"
  by (simp_all add: exTurn_def)

theorem turn_writes_once_witness:
  "\<exists>reqs. snd (snd (protocolTurn exTurn (\<lambda>n. exDeps exCancelDraft) exKey ''stop it'' (Some exMember) [] 0))
       = runOps (CD_Executor exTurn) reqs 0 \<and> writesIn reqs \<le> 1"
proof -
  obtain reply s' x' where "protocolTurn exTurn (\<lambda>n. exDeps exCancelDraft) exKey ''stop it'' (Some exMember) [] 0 = (reply, s', x')"
    by (metis surj_pair)
  with turn_writes_once[OF this] show ?thesis by auto
qed

theorem restarted_subscription_lost_witness:
  "\<exists>o1. fst (live_Handle (exDeps (exCancelDraft\<lparr>Operation := ''subscription.start''\<rparr>)) ''subscribe'' (Some exMember)
        (Some exSnapshot) (0::nat)) = o1 \<and> LO_ClearWorkflow o1 \<and> LO_WorkflowAfter o1 \<noteq> None"
proof -
  let ?draft = "exCancelDraft\<lparr>Operation := ''subscription.start''\<rparr>"
  let ?v = "\<lparr>VW_Snapshot = exSnapshot, VW_Version = 1, VW_Execution = None\<rparr>"
  obtain o1 x' where h: "live_Handle (exDeps ?draft) ''subscribe'' (Some exMember) (Some exSnapshot) (0::nat) = (o1, x')"
    by (metis surj_pair)
  obtain c rows' x'' where p: "persistOutcome exTurn 0 0 exKey (Some ?v) o1 (db_after []) x' = (c, rows', x'')"
    by (metis surj_pair)
  have noScope: "normalizeSubscriptionScope id [] = []" by code_simp
  have "draftRawSlotForTarget manifest ?draft target = []" for manifest target
    by (auto simp: draftRawSlotForTarget_def draftSlotRaw_def exCancelDraft_def find_Some_iff split: option.split)
  then have "resolveInitialSubscriptionTrustedEntities (exDeps ?draft) ?draft 1 = None"
    using noScope by (simp add: resolveInitialSubscriptionTrustedEntities_def exDeps_def)
  then have hyps: "\<not> workflowExpired (Some (VW_Snapshot ?v)) (LD_Clock (exDeps ?draft) 0)"
    "LD_Compile (exDeps ?draft) m (protocolWorkflowContextFromWorkflowSnapshot (Some (VW_Snapshot ?v))) = Inr ?draft"
    "Act ?draft = ActWriteRequest" "Operation ?draft = ''subscription.start''" "Domain ?draft = DomainSubscription"
    "lowConfidenceWriteThreshold \<le> Confidence ?draft" "UC_ConversationType exMember = ''2''" "1 \<le> UC_UserRole exMember"
    "\<not> LD_Canceled (exDeps ?draft)"
    "resolveInitialSubscriptionTrustedEntities (exDeps ?draft) ?draft (UC_TenantID exMember) = None" for m
    by (simp_all add: exDeps_def exCancelDraft_def exSnapshot_def workflowExpired_def
        lowConfidenceWriteThreshold_def)
  have "LO_WorkflowAfter o1 \<noteq> None \<and> LO_ClearWorkflow o1"
    using restarted_subscription_lost[where history="[]" and T=exTurn and n=0
        and message="''subscribe''" and x=0, OF _ _ _ hyps _ _ p] h exDbEnv_columns
    by auto
  with h show ?thesis by simp
qed

text \<open>The write that was prepared, its reservation by the coordinator and by the recovery worker.\<close>

definition exCancelDigest :: string where
  "exCancelDigest = businessKeyDigest \<lparr>BK_Version = 1, BK_TenantID = 1, BK_ConversationID = ''c'',
     BK_Operation = ''subscription.cancel'', BK_Scope = [], BK_DeptIDs = []\<rparr>"

definition exPrepared :: preparedWriteExecution where
  "exPrepared = \<lparr>WX_Request = exCancelRequest\<lparr>OR_IdempotencyKey := exCancelDigest\<rparr>,
     WX_BusinessKey = exCancelDigest, WX_ClearWorkflowOnSuccess = False\<rparr>"

definition exCancelParams :: "goAny goMap" where
  "exCancelParams = [(''conversation_id'', GoString ''c''), (operationParamActorRole, GoInt 1),
     (operationParamConversationType, GoString ''2''), (operationParamConversationTitle, GoString ''Class'')]"

definition exStored :: "string \<Rightarrow> string \<Rightarrow> instant \<Rightarrow> ReservedExecutionV1" where
  "exStored token requestID start =
     \<lparr>RE_Operation = ''subscription.cancel'', RE_BusinessKey = exCancelDigest, RE_TrustedParams = exCancelParams,
      RE_ExecutionToken = token, RE_AttemptRequestID = requestID, RE_StartedAt = start,
      RE_LeaseExpiresAt = start + protocolWriteLeaseDuration\<rparr>"

definition exDocument :: "string \<Rightarrow> string \<Rightarrow> instant \<Rightarrow> string \<Rightarrow> persistedReservedExecutionV1" where
  "exDocument token requestID start bk =
     \<lparr>PX_SchemaVersion = 1, PX_Operation = ''subscription.cancel'', PX_BusinessKey = bk,
      PX_TrustedParams = projr (map_result encodeExecutionParam exCancelParams),
      PX_ExecutionToken = token, PX_AttemptRequestID = requestID,
      PX_StartedAt = formatWorkflowTime (normalizeWorkflowDatabaseTime start),
      PX_LeaseExpiresAt = formatWorkflowTime (normalizeWorkflowDatabaseTime (start + protocolWriteLeaseDuration))\<rparr>"

lemma exPrepared_key: "subscriptionBusinessKeyForRequest (WX_Request exPrepared) = Inr (WX_BusinessKey exPrepared)"
  by (simp add: exPrepared_def subscriptionBusinessKeyForRequest_def exCancel_key exCancelDigest_def)

lemma exPrepared_params: "persistedTrustedParams (OR_TrustedParams (WX_Request exPrepared)) = Inr exCancelParams"
  by (simp add: exPrepared_def exCancelRequest_record persistedTrustedParams_def exCancelParams_def trustedParam_def
      canonicalTrustedParamValue_def nonEmptyString_def)

text \<open>An attempt: its token, its request and when it started.\<close>

definition exAttempt :: "string \<Rightarrow> string \<Rightarrow> instant \<Rightarrow> bool" where
  "exAttempt token requestID start \<longleftrightarrow>
     (token, requestID, start) \<in> {(''tok-1'', ''req-1'', 63900000000000000123), (''tok-2'', ''req-2'', 63900000200000000000)}"

lemma exAttempt_texts:
  assumes "exAttempt token requestID start"
  shows "trimSpace token = token" "trimSpace requestID = requestID" "token \<noteq> []" "requestID \<noteq> []"
    "runeLengthWithin token 64" "runeLengthWithin requestID 64"
  using assms
  by (auto simp: exAttempt_def trimSpace_ascii runeLength_ascii ascii_def no_space_def isSpace_def)

lemma exStored_document:
  assumes "exAttempt token requestID start"
  shows "reservedExecutionToV1 (exStored token requestID start) = Inr (exDocument token requestID start exCancelDigest)"
proof -
  have params: "validateExecutionParams exCancelParams = None" "\<not> isl (map_result encodeExecutionParam exCancelParams)"
    by code_simp+
  have bk: "trimSpace exCancelDigest = exCancelDigest" "runeLengthWithin exCancelDigest 64" "exCancelDigest \<noteq> []"
    using digest_plain by (auto simp: exCancelDigest_def trimSpace_ascii runeLength_ascii) (metis list.size(3) zero_neq_numeral)
  have start: "start \<noteq> 0" "start + protocolWriteLeaseDuration \<noteq> 0" "0 < protocolWriteLeaseDuration"
    using assms by (auto simp: exAttempt_def protocolWriteLeaseDuration_def)
  have op: "runeLengthWithin ''subscription.cancel'' 64" by (simp add: runeLength_ascii ascii_def)
  note texts = exAttempt_texts[OF assms] bk two_trimmed(4) start op
  have "validateReservedExecution (exStored token requestID start) = None"
    using params(1) texts by (simp add: validateReservedExecution_def exStored_def executionMaxProjectionRunes_def)
  then show ?thesis
    using params(2) texts by (cases "map_result encodeExecutionParam exCancelParams")
      (simp_all add: reservedExecutionToV1_def exStored_def exDocument_def executionMaxProjectionRunes_def
        executionMaxTrustedParams_def executionSchemaVersion_def exCancelParams_def)
qed

lemma exDocument_size:
  assumes "exAttempt token requestID start" and "ascii bk" and "length bk = 64"
  shows "length (print_json (reserved_json (exDocument token requestID start bk))) \<le> workflowSnapshotMaxBytes"
proof -
  have size: "length (print_json (reserved_json (exDocument token requestID start b)))
      = length (print_string b) + length (print_json (reserved_json (exDocument token requestID start []))) - 2" for b
    by (simp add: reserved_json_def exDocument_def print_members_more print_string_def [of b] print_string_def [of "[]"])
  have "length (print_json (reserved_json (exDocument ''tok-1'' ''req-1'' 63900000000000000123 []))) < 1000"
    "length (print_json (reserved_json (exDocument ''tok-2'' ''req-2'' 63900000200000000000 []))) < 1000"
    by code_simp+
  then have "length (print_json (reserved_json (exDocument token requestID start []))) < 1000"
    using assms(1) by (auto simp: exAttempt_def)
  with size[of bk] length_print_ascii[OF assms(2)] assms(3) show ?thesis
    by (simp add: workflowSnapshotMaxBytes_def)
qed

lemma exStored_marshals:
  assumes "exAttempt token requestID start"
  shows "\<exists>payload. MarshalReservedExecution (exStored token requestID start) = Inr payload"
  using exStored_document[OF assms] exDocument_size[OF assms, of exCancelDigest] digest_plain
  by (simp add: MarshalReservedExecution_def Let_def exCancelDigest_def)

lemma exStored_ok: "exAttempt token requestID start \<Longrightarrow> reservation_ok (exStored token requestID start)"
  by (auto simp: exAttempt_def reservation_ok_def exStored_def exCancelParams_def goMap_ok_def goAny_ok_def minInt64_def
      maxInt64_def instant_ok_def day_ns_def normalizeWorkflowDatabaseTime_def millisecond_def
      protocolWriteLeaseDuration_def)

lemma exStored_canonical:
  assumes "exAttempt token requestID start"
  shows "canonicalReservedExecution (exStored token requestID start) = Inr (canonicalForm (exStored token requestID start))"
  using exStored_marshals[OF assms] marshal_canonical(1)[OF _ exStored_ok[OF assms]]
  by (auto simp: canonicalReservedExecution_def)

lemma exReserved: "coordinatorReservation (emptyOutcome\<lparr>LO_RequestID := ''req-1''\<rparr>) exPrepared exCancelParams ''tok-1'' 63900000000000000123
    = exStored ''tok-1'' ''req-1'' 63900000000000000123"
  by (simp add: coordinatorReservation_def exPrepared_def exCancelRequest_record exStored_def)

lemma exMember_key: "workflowKeyFromUserContext (Some exMember) = exKey"
proof -
  have "trimSpace ''c'' = ''c''" by (rule trimSpace_ascii) (simp_all add: ascii_def no_space_def isSpace_def)
  then show ?thesis by (simp add: workflowKeyFromUserContext_def exKey_def)
qed

theorem recovered_request_is_prepared_witness:
  "\<exists>r req. canonicalReservedExecution (exStored ''tok-1'' ''req-1'' 63900000000000000123) = Inr r
     \<and> operationRequestFromReservation exKey r = Inr req \<and> OR_Operation req = ''subscription.cancel''
     \<and> OR_IdempotencyKey req = exCancelDigest"
proof -
  have attempt: "exAttempt ''tok-1'' ''req-1'' 63900000000000000123" by (simp add: exAttempt_def)
  have request: "requestConversationMatchesUser (Some exMember) (WX_Request exPrepared)"
    "extractParamString (OR_TrustedParams (WX_Request exPrepared)) ''conversation_id'' \<noteq> None"
    "OR_TenantID (WX_Request exPrepared) = UC_TenantID exMember"
    "trimSpace (OR_ConversationID (WX_Request exPrepared)) = trimSpace (WK_ConversationID exKey)"
    using exCancel_conversation
    by (simp_all add: exPrepared_def requestConversationMatchesUser_def exCancelRequest_record exKey_def)
  have op: "OR_Operation (WX_Request exPrepared) = ''subscription.cancel''" "WX_BusinessKey exPrepared = exCancelDigest"
    by (simp_all add: exPrepared_def exCancelRequest_record)
  show ?thesis
    using recovered_request_is_prepared[OF exMember_key[symmetric] exPrepared_key request exPrepared_params,
        of "emptyOutcome\<lparr>LO_RequestID := ''req-1''\<rparr>" "''tok-1''" 63900000000000000123]
      exStored_ok[OF attempt] exStored_canonical[OF attempt] op
    by (auto simp: exReserved)
qed

text \<open>The reservation is stored in an empty table.\<close>

lemma create_reserved_answer:
  assumes "encodeAgentWorkflowRow (CE_Now env) k snap = Inr row"
    and "encodeRepositoryReservation rv = Inr (v, n)" and "validateReservation v = None"
    and "validateWorkflowForCreate row = None" and "repo_validate env k = None" and "statementError env 0 = None"
    and "r = stampCreated env (applyReservationToWorkflow v (prepareNewWorkflow AgentWorkflowExecutionExecuting row))"
  shows "db_serve env (OpCreateReserved k snap rv) [] = (decodeAgentWorkflowRow (Some r), [columnRow env r])"
proof -
  have "keyFromWorkflow row = k" using assms(1) by (rule encoded_row)
  with assms show ?thesis
    by (simp add: db_CreateReservedExecution_def repo_CreateReservedExecution_def Let_def
        requireOneCreatedRow_def runStatement_def insertRow_def)
qed

lemma readable_columnRow:
  assumes "AW_LeaseExpiresAt r = Some lease" and "DE_Column env lease = lease"
  shows "readable (columnRow env r) = readable r"
proof -
  have same: "f (columnRow env r) = f r" if "\<And>e c u. f (r\<lparr>AW_ExpiresAt := e, AW_CreatedAt := c, AW_UpdatedAt := u\<rparr>) = f r"
    for f :: "AgentWorkflow \<Rightarrow> 'a"
  proof -
    have "columnRow env r = r\<lparr>AW_ExpiresAt := DE_Column env (AW_ExpiresAt r), AW_CreatedAt := DE_Column env (AW_CreatedAt r),
        AW_UpdatedAt := DE_Column env (AW_UpdatedAt r)\<rparr>"
      using assms by (cases r) (simp add: columnRow_def)
    with that show ?thesis by simp
  qed
  have "decodeReservation (columnRow env r) = decodeReservation r" "decodeResult (columnRow env r) = decodeResult r"
    "hasAnyExecutionAuthority (columnRow env r) = hasAnyExecutionAuthority r"
    "AW_ExecutionStatus (columnRow env r) = AW_ExecutionStatus r"
    "decodeRowSnapshot (columnRow env r) = decodeRowSnapshot r"
    by (rule same; simp add: decodeReservation_def decodeResult_def hasAnyExecutionAuthority_def decodeRowSnapshot_def Let_def
        cong: sum.case_cong option.case_cong if_cong)+
  then show ?thesis by (simp add: readable_def decodeExecution_def cong: sum.case_cong option.case_cong if_cong)
qed

abbreviation exStore :: "dbEnv \<times> storeOp" where
  "exStore \<equiv> (exDbEnv 63900000000000000123,
     OpCreateReserved exKey (Some exSnapshot) (exStored ''tok-1'' ''req-1'' 63900000000000000123))"

lemma exAttempts: "exAttempt ''tok-1'' ''req-1'' 63900000000000000123" "exAttempt ''tok-2'' ''req-2'' 63900000200000000000"
  by (simp_all add: exAttempt_def)

lemma exStore_legal: "legalCall exStore"
  using exStored_ok[OF exAttempts(1)] by (simp add: exDbEnv_columns exDbSnapshot_ok)

lemma exStore_serves:
  obtains w r where "db_serve (fst exStore) (snd exStore) [] = (Inr (Some w), [r])"
    and "keyFromWorkflow r = exKey" "AW_Version r = 1" "AW_ExecutionStatus r = AgentWorkflowExecutionExecuting"
      "AW_ExecutionToken r = Some ''tok-1''" "AW_ExecutionOperation r = Some ''subscription.cancel''"
      "AW_BusinessKey r = Some exCancelDigest" "AW_LeaseExpiresAt r = Some 63900000120000000000"
proof -
  obtain row where row: "encodeAgentWorkflowRow 63900000000000000123 exKey (Some exSnapshot) = Inr row"
    "validateWorkflowForCreate row = None" by (rule exRow)
  obtain payload where "MarshalReservedExecution (exStored ''tok-1'' ''req-1'' 63900000000000000123) = Inr payload"
    using exStored_marshals[OF exAttempts(1)] by blast
  then obtain v where v: "encodeRepositoryReservation (exStored ''tok-1'' ''req-1'' 63900000000000000123)
      = Inr (v, canonicalForm (exStored ''tok-1'' ''req-1'' 63900000000000000123))" "validateReservation v = None"
    by (rule encode_reservation_Inr[OF _ exStored_ok[OF exAttempts(1)]])
  note cols = reservation_columns[OF v(1) exStored_ok[OF exAttempts(1)]]
  define r where "r = stampCreated (exDbEnv 63900000000000000123)
      (applyReservationToWorkflow v (prepareNewWorkflow AgentWorkflowExecutionExecuting row))"
  have serve: "db_serve (fst exStore) (snd exStore) []
      = (decodeAgentWorkflowRow (Some r), [columnRow (exDbEnv 63900000000000000123) r])"
    unfolding fst_conv snd_conv
    by (rule create_reserved_answer[OF _ v row(2) _ _ r_def]) (simp_all add: row(1) exDb_validate)
  have lease: "RE_LeaseExpiresAt (canonicalForm (exStored ''tok-1'' ''req-1'' 63900000000000000123)) = 63900000120000000000"
    by (simp add: canonicalForm_def exStored_def normalizeWorkflowDatabaseTime_def millisecond_def protocolWriteLeaseDuration_def)
  have fixed: "DE_Column (exDbEnv n) 63900000120000000000 = 63900000120000000000" for n
    using exDbEnv_columns[of n] by (simp add: columns_ok_def millisecond_def)
  have r: "AW_Version r = 1" "AW_ExecutionStatus r = AgentWorkflowExecutionExecuting"
      "AW_ExecutionToken r = Some ''tok-1''" "AW_ExecutionOperation r = Some ''subscription.cancel''"
      "AW_BusinessKey r = Some exCancelDigest" "AW_LeaseExpiresAt r = Some 63900000120000000000"
    using cols(3-5,8) lease by (simp_all add: r_def created_simps canonicalForm_def exStored_def)
  have "db_ok [columnRow (exDbEnv 63900000000000000123) r]"
    using database.good_serve[OF db_ok_empty _ serve] exStore_legal by simp
  then have "readable r" using readable_columnRow[OF r(6) fixed] by (simp add: db_ok_def)
  then obtain w where "decodeAgentWorkflowRow (Some r) = Inr (Some w)"
    unfolding readable_decodes
    by (cases "decodeAgentWorkflowRow (Some r)") (auto simp: decodeAgentWorkflowRow_def Let_def split: sum.splits)
  moreover have "keyFromWorkflow row = exKey" using row(1) by (rule encoded_row)
  then have "keyFromWorkflow r = exKey" by (simp add: r_def keyFromWorkflow_def created_simps)
  ultimately show thesis
    using that[of w "columnRow (exDbEnv 63900000000000000123) r"] serve r fixed
    by (simp add: columnRow_def keyFromWorkflow_def)
qed

text \<open>The coordinator runs the prepared cancellation over the empty database.\<close>

definition exOutcome :: protocolLiveOutcome where
  "exOutcome = emptyOutcome\<lparr>LO_RequestID := ''req-1'', LO_PreparedWrite := Some exPrepared,
     LO_WorkflowAfter := Some exSnapshot\<rparr>"

lemma exOutcome_simps:
  "LO_PreparedWrite exOutcome = Some exPrepared"
  "reservationSnapshot exOutcome key now = Inr exSnapshot"
  "coordinatorReservation exOutcome exPrepared exCancelParams ''tok-1'' 63900000000000000123
     = exStored ''tok-1'' ''req-1'' 63900000000000000123"
proof -
  have "cloneWorkflowSnapshot exSnapshot = exSnapshot"
    by (simp add: cloneWorkflowSnapshot_def exSnapshot_def workflowMissingFields_def cloneWorkflowCandidates_def)
  then show "reservationSnapshot exOutcome key now = Inr exSnapshot"
    by (simp add: exOutcome_def reservationSnapshot_def)
  show "LO_PreparedWrite exOutcome = Some exPrepared" by (simp add: exOutcome_def)
  show "coordinatorReservation exOutcome exPrepared exCancelParams ''tok-1'' 63900000000000000123
     = exStored ''tok-1'' ''req-1'' 63900000000000000123"
    using exReserved by (simp add: coordinatorReservation_def exOutcome_def)
qed

lemma exOwnCalls: "ownCallsLegal legalCall exTurn 0 0 exKey None exOutcome"
proof -
  have "result_ok \<lparr>PR_BusinessKey = bk, PR_WriteEffect = effect, PR_CompletedAt = 63900000010000000007\<rparr>" for bk effect
    by (simp add: result_ok_def instant_ok_def day_ns_def)
  then show ?thesis
    using exPrepared_params exStore_legal
    by (auto simp: ownCallsLegal_def exOutcome_simps reserveOp_def exDbEnv_columns)
qed


text \<open>The worker takes the same write over when its lease has run out.\<close>

definition exRecovery :: "(dbEnv, workflowTable, nat) recoveryDeps" where
  "exRecovery =
     \<lparr>CD_Serve = db_serve, CD_Env = (\<lambda>n. exDbEnv 63900000200000000000), CD_Others = (\<lambda>n. []),
      CD_Executor = (\<lambda>req x. (exResultOf WriteEffectNoOp, Suc x)), CD_Now = (\<lambda>attempt. 63900000200000000000),
      CD_CompletedAt = (\<lambda>attempt. 63900000200000000007), CD_Token = (\<lambda>attempt. Inr ''tok-2''),
      RD_List = db_ListRecoverableExecutions, RD_Mark = db_MarkExecutionRecoveryRequired, RD_RequestID = (\<lambda>i. ''req-2'')\<rparr>"

lemma exRecovery_simps [simp]:
  "CD_Serve exRecovery = db_serve" "CD_Env exRecovery n = exDbEnv 63900000200000000000" "CD_Others exRecovery n = []"
  "CD_CompletedAt exRecovery n = 63900000200000000007" "CD_Token exRecovery n = Inr ''tok-2''"
  "CD_Executor exRecovery req x = (exResultOf WriteEffectNoOp, Suc x)" "RD_RequestID exRecovery i = ''req-2''"
  by (simp_all add: exRecovery_def)

definition exCandidate :: VersionedWorkflow where
  "exCandidate = \<lparr>VW_Snapshot = exSnapshot, VW_Version = 1,
     VW_Execution = Some \<lparr>PE_Status = WorkflowExecutionExecuting,
       PE_Reservation = exStored ''tok-1'' ''req-1'' 63900000000000000123, PE_Result = None\<rparr>\<rparr>"

lemma exNext:
  "nextReservation (exStored ''tok-1'' ''req-1'' 63900000000000000123) ''tok-2'' ''req-2'' 63900000200000000000
     = exStored ''tok-2'' ''req-2'' 63900000200000000000"
  using two_trimmed(4) digest_plain
  by (simp add: nextReservation_def cloneReservedExecution_def exStored_def exCancelDigest_def trimSpace_ascii)

lemma exRecoveryCalls: "recoveryCallsLegal legalCall exRecovery 0 exKey exCandidate 63900000200000000000"
proof -
  have "result_ok \<lparr>PR_BusinessKey = bk, PR_WriteEffect = effect, PR_CompletedAt = 63900000200000000007\<rparr>" for bk effect
    by (simp add: result_ok_def instant_ok_def day_ns_def)
  then show ?thesis
    using exStored_ok[OF exAttempts(2)]
    by (auto simp: recoveryCallsLegal_def exCandidate_def exNext exDbEnv_columns)
qed

lemma exTaken:
  obtains taken rows where "storeCall exRecovery 0 (OpTakeover exKey 1 ''tok-1'' (exStored ''tok-2'' ''req-2'' 63900000200000000000))
      (db_after [exStore]) = (Inr (Some taken), rows)"
    and "\<exists>e. VW_Execution taken = Some e \<and> PE_Reservation e = canonicalForm (exStored ''tok-2'' ''req-2'' 63900000200000000000)"
proof -
  let ?env = "exDbEnv 63900000200000000000" and ?rv = "exStored ''tok-2'' ''req-2'' 63900000200000000000"
  obtain w r where r: "db_serve (fst exStore) (snd exStore) [] = (Inr (Some w), [r])"
    "keyFromWorkflow r = exKey" "AW_Version r = 1" "AW_ExecutionStatus r = AgentWorkflowExecutionExecuting"
    "AW_ExecutionToken r = Some ''tok-1''" "AW_ExecutionOperation r = Some ''subscription.cancel''"
    "AW_BusinessKey r = Some exCancelDigest" "AW_LeaseExpiresAt r = Some 63900000120000000000"
    by (rule exStore_serves)
  then have table: "db_after [exStore] = [r]" by (simp add: db_after_def)
  have ok: "db_ok [r]" using db_after_ok[of "[exStore]"] exStore_legal table by (simp del: legalCall.simps)
  have legal: "legalCall (?env, OpTakeover exKey 1 ''tok-1'' ?rv)"
    using exStored_ok[OF exAttempts(2)] by (simp add: exDbEnv_columns)
  obtain payload where payload: "MarshalReservedExecution ?rv = Inr payload"
    using exStored_marshals[OF exAttempts(2)] by blast
  have "\<exists>w rows'. db_serve ?env (OpTakeover exKey (AW_Version r) ''tok-1'' ?rv) [r] = (Inr w, rows')"
    by (rule takeover_serves[OF ok _ payload])
      (use legal r(2-) ex_tokens in \<open>simp_all add: db_lookup_def exDb_mutation exStored_def leaseExpired_def\<close>)
  then obtain x rows' where x: "db_serve ?env (OpTakeover exKey 1 ''tok-1'' ?rv) [r] = (Inr x, rows')"
    using r(3) by auto
  then obtain taken where taken: "x = Some taken"
    by (auto simp: db_TakeoverExpiredExecution_def loadExpectedVersion_def split: sum.splits prod.splits option.splits if_splits)
  show thesis
    using that[of taken rows'] x db_takeover_answer[OF ok legal x[unfolded taken]] table
      exStored_canonical[OF exAttempts(2)]
    by (auto simp: storeCall_def taken)
qed


end
