(* ===== verification/Spec2Isabelle.thy ===== *)
theory Spec2Isabelle
  imports AttendanceSnapshots AttendanceSign AttendanceReports CatalogLint ResourceGate
    DatabaseStore AgentSafety
begin

text \<open>
  The attendance server: see the imported theories.
\<close>

end
